(* ===== verification/Ref_Prelude.thy ===== *)
theory Ref_Prelude
  imports Main "HOL-Library.Word" "HOL-Library.Char_ord" "HOL-Library.List_Lexorder"
    "HOL-Library.Product_Lexorder"
begin

text \<open>
  Shared vocabulary of the development: the machine integer types, the theorem
  collections, ordered maps and decimal numerals.

  \<^item> \<open>u8\<close>, \<open>u16\<close>, \<open>u32\<close>, \<open>u64\<close> are the fixed-width unsigned integers of the C++ sources.
  \<^item> \<open>std::map\<close> iterates in key order and several decisions of the fabric depend on that
    order, so it is modelled by an association list that is strictly sorted by key.  The
    interface \<open>ordered_map\<close> states what a client may rely on; \<open>om\<close> interprets it on the
    association lists.  Identifiers are compared as byte strings, which is the
    lexicographic order of \<open>List_Lexorder\<close> over \<open>Char_ord\<close>.
  \<^item> \<open>dec\<close> is \<open>std::to_string\<close> on unsigned integers.
\<close>

type_synonym u8 = "8 word"
type_synonym u16 = "16 word"
type_synonym u32 = "32 word"
type_synonym u64 = "64 word"
type_synonym bytes = "u8 list"

named_theorems status_simps "rewrite rules for status values"
named_theorems codec_simps "what a reader returns on what a writer produced"
named_theorems frame_simps "what an operation leaves unchanged"


section \<open>Ordered maps\<close>

subsection \<open>The interface\<close>

locale ordered_map =
  fixes find :: "'m \<Rightarrow> 'k::linorder \<Rightarrow> 'v option"
    and upd :: "'k \<Rightarrow> 'v \<Rightarrow> 'm \<Rightarrow> 'm"
    and del :: "'k \<Rightarrow> 'm \<Rightarrow> 'm"
    and entries :: "'m \<Rightarrow> ('k \<times> 'v) list"
    and ok :: "'m \<Rightarrow> bool"
    and empty :: "'m"
  assumes ok_empty: "ok empty"
    and entries_empty: "entries empty = []"
    and ok_upd: "ok m \<Longrightarrow> ok (upd k v m)"
    and ok_del: "ok m \<Longrightarrow> ok (del k m)"
    and find_upd: "ok m \<Longrightarrow> find (upd k v m) = (find m)(k \<mapsto> v)"
    and find_del: "ok m \<Longrightarrow> find (del k m) = (find m)(k := None)"
    and find_entries: "ok m \<Longrightarrow> find m k = map_of (entries m) k"
    and keys_sorted: "ok m \<Longrightarrow> sorted_wrt (<) (map fst (entries m))"
begin

lemma keys_distinct: "ok m \<Longrightarrow> distinct (map fst (entries m))"
  using keys_sorted strict_sorted_iff by blast

lemma keys_dom: "ok m \<Longrightarrow> fst ` set (entries m) = dom (find m)"
  by (simp add: find_entries dom_map_of_conv_image_fst [symmetric] dom_def)

lemma entries_iff: "ok m \<Longrightarrow> (k, v) \<in> set (entries m) \<longleftrightarrow> find m k = Some v"
  by (simp add: find_entries keys_distinct)

lemma size_card: "ok m \<Longrightarrow> length (entries m) = card (dom (find m))"
  using keys_distinct [of m] distinct_card [of "map fst (entries m)"]
  by (simp add: keys_dom)

lemma finite_dom: "ok m \<Longrightarrow> finite (dom (find m))"
  by (simp add: keys_dom [symmetric])

lemma size_upd: "ok m \<Longrightarrow> length (entries (upd k v m)) =
    (if find m k = None then Suc (length (entries m)) else length (entries m))"
  by (auto simp: size_card ok_upd find_upd finite_dom card_insert_if domIff)

lemma size_del: "ok m \<Longrightarrow> length (entries (del k m)) =
    (if find m k = None then length (entries m) else length (entries m) - 1)"
  by (auto simp: size_card ok_del find_del finite_dom domIff card_Diff_singleton_if)

lemma size_pos: "ok m \<Longrightarrow> find m k = Some v \<Longrightarrow> 0 < length (entries m)"
  using entries_iff [of m k v] by (cases "entries m") auto

end


subsection \<open>Sorted association lists\<close>

type_synonym ('k, 'v) omap = "('k \<times> 'v) list"

definition om_empty :: "('k, 'v) omap" where
  "om_empty = []"

definition om_find :: "('k::linorder, 'v) omap \<Rightarrow> 'k \<Rightarrow> 'v option" where
  "om_find m k = map_of m k"

fun om_upd :: "'k::linorder \<Rightarrow> 'v \<Rightarrow> ('k, 'v) omap \<Rightarrow> ('k, 'v) omap" where
  "om_upd k v [] = [(k, v)]"
| "om_upd k v ((k', v') # m) =
     (if k < k' then (k, v) # (k', v') # m
      else if k = k' then (k, v) # m
      else (k', v') # om_upd k v m)"

fun om_del :: "'k::linorder \<Rightarrow> ('k, 'v) omap \<Rightarrow> ('k, 'v) omap" where
  "om_del k [] = []"
| "om_del k ((k', v') # m) = (if k = k' then m else (k', v') # om_del k m)"

text \<open>\<open>emplace\<close> inserts only where the key is absent; \<open>operator[] =\<close> overwrites (\<open>om_upd\<close>).\<close>

definition om_emplace :: "'k::linorder \<Rightarrow> 'v \<Rightarrow> ('k, 'v) omap \<Rightarrow> ('k, 'v) omap" where
  "om_emplace k v m = (case om_find m k of None \<Rightarrow> om_upd k v m | Some _ \<Rightarrow> m)"

definition om_entries :: "('k::linorder, 'v) omap \<Rightarrow> ('k \<times> 'v) list" where
  "om_entries m = m"

definition om_vals :: "('k::linorder, 'v) omap \<Rightarrow> 'v list" where
  "om_vals m = map snd m"

definition om_keys :: "('k::linorder, 'v) omap \<Rightarrow> 'k list" where
  "om_keys m = map fst m"

definition om_size :: "('k::linorder, 'v) omap \<Rightarrow> nat" where
  "om_size m = length m"

definition om_map :: "('k::linorder \<Rightarrow> 'v \<Rightarrow> 'v) \<Rightarrow> ('k, 'v) omap \<Rightarrow> ('k, 'v) omap" where
  "om_map f m = map (\<lambda>(k, v). (k, f k v)) m"

definition om_ok :: "('k::linorder, 'v) omap \<Rightarrow> bool" where
  "om_ok m \<longleftrightarrow> sorted_wrt (<) (map fst m)"

lemma in_om_upd: "(a, b) \<in> set (om_upd k v m) \<Longrightarrow> a = k \<or> (a, b) \<in> set m"
  by (induction k v m rule: om_upd.induct) (auto split: if_splits)

lemma in_om_del: "(a, b) \<in> set (om_del k m) \<Longrightarrow> (a, b) \<in> set m"
  by (induction k m rule: om_del.induct) (auto split: if_splits)

lemma om_ok_Nil: "om_ok []"
  by (simp add: om_ok_def)

lemma om_ok_Cons: "om_ok ((k, v) # m) \<longleftrightarrow> (\<forall>(a, b)\<in>set m. k < a) \<and> om_ok m"
  by (auto simp: om_ok_def)

lemma om_ok_upd: "om_ok m \<Longrightarrow> om_ok (om_upd k v m)"
proof (induction k v m rule: om_upd.induct)
  case (2 k v k' v' m)
  show ?case
  proof (cases "k < k' \<or> k = k'")
    case True
    with "2.prems" show ?thesis by (auto simp: om_ok_Cons)
  next
    case False
    with 2 have "om_ok (om_upd k v m)" by (simp add: om_ok_Cons)
    with False "2.prems" show ?thesis by (auto simp: om_ok_Cons dest!: in_om_upd)
  qed
qed (simp add: om_ok_def)

lemma om_ok_del: "om_ok m \<Longrightarrow> om_ok (om_del k m)"
proof (induction k m rule: om_del.induct)
  case (2 k k' v' m)
  then show ?case by (auto simp: om_ok_Cons dest!: in_om_del)
qed (simp add: om_ok_def)

lemma om_find_upd: "om_find (om_upd k v m) = (om_find m)(k \<mapsto> v)"
  unfolding om_find_def by (induction k v m rule: om_upd.induct) auto

lemma om_find_del: "om_ok m \<Longrightarrow> om_find (om_del k m) = (om_find m)(k := None)"
  unfolding om_find_def om_ok_def
proof (induction k m rule: om_del.induct)
  case (2 k k' v' m)
  then have "k' \<notin> fst ` set m" by auto
  then have "map_of m k' = None" by (simp add: map_of_eq_None_iff)
  with 2 show ?case by auto
qed simp

interpretation om: ordered_map om_find om_upd om_del om_entries om_ok om_empty
proof
  show "om_ok om_empty" and "om_entries om_empty = []"
    by (simp_all add: om_ok_def om_empty_def om_entries_def)
qed (simp_all add: om_ok_upd om_ok_del om_find_upd om_find_del,
     simp_all add: om_find_def om_entries_def om_ok_def)

lemmas om_basic_defs = om_find_def om_size_def om_vals_def om_keys_def om_empty_def
lemmas om_eval = om_find_def om_size_def om_vals_def om_keys_def om_empty_def om_emplace_def
  om_map_def om_entries_def

lemma om_find_empty [simp]: "om_find om_empty k = None"
  by (simp add: om_find_def om_empty_def)

lemma om_find_upd_app [simp]: "om_find (om_upd k v m) k' = (if k' = k then Some v else om_find m k')"
  by (simp add: om_find_upd)

lemma om_find_emplace:
  "om_find (om_emplace k v m) k' =
     (if k' = k \<and> om_find m k = None then Some v else om_find m k')"
  by (auto simp: om_emplace_def split: option.splits)

lemma om_ok_empty [simp]: "om_ok om_empty"
  by (rule om.ok_empty)

lemma om_ok_emplace: "om_ok m \<Longrightarrow> om_ok (om_emplace k v m)"
  by (auto simp: om_emplace_def om_ok_upd split: option.splits)

lemma om_size_empty [simp]: "om_size om_empty = 0"
  by (simp add: om_size_def om_empty_def)

lemma om_size_upd: "om_ok m \<Longrightarrow>
    om_size (om_upd k v m) = (if om_find m k = None then Suc (om_size m) else om_size m)"
  using om.size_upd [of m k v] by (simp add: om_size_def om_entries_def)

lemma om_size_del: "om_ok m \<Longrightarrow>
    om_size (om_del k m) = (if om_find m k = None then om_size m else om_size m - 1)"
  using om.size_del [of m k] by (simp add: om_size_def om_entries_def)

lemma om_size_pos: "om_ok m \<Longrightarrow> om_find m k = Some v \<Longrightarrow> 0 < om_size m"
  using om.size_pos [of m k v] by (simp add: om_size_def om_entries_def)

lemma om_in_iff: "om_ok m \<Longrightarrow> (k, v) \<in> set m \<longleftrightarrow> om_find m k = Some v"
  using om.entries_iff [of m k v] by (simp add: om_entries_def)

lemma om_findD: "om_find m k = Some v \<Longrightarrow> (k, v) \<in> set m"
  by (simp add: om_find_def map_of_SomeD)

lemma om_vals_iff: "om_ok m \<Longrightarrow> v \<in> set (om_vals m) \<longleftrightarrow> (\<exists>k. om_find m k = Some v)"
  by (force simp: om_vals_def om_in_iff [symmetric])

lemma om_keys_iff: "om_ok m \<Longrightarrow> k \<in> set (om_keys m) \<longleftrightarrow> (\<exists>v. om_find m k = Some v)"
  by (force simp: om_keys_def om_in_iff [symmetric])

lemma om_find_map: "om_find (om_map f m) k = map_option (f k) (om_find m k)"
  unfolding om_find_def om_map_def by (induction m) auto

lemma om_ok_map [simp]: "om_ok (om_map f m) = om_ok m"
  by (simp add: om_ok_def om_map_def comp_def case_prod_beta)

lemma om_size_map [simp]: "om_size (om_map f m) = om_size m"
  by (simp add: om_size_def om_map_def)

lemma om_size_emplace: "om_ok m \<Longrightarrow>
    om_size (om_emplace k v m) = (if om_find m k = None then Suc (om_size m) else om_size m)"
  by (simp add: om_emplace_def om_size_upd split: option.splits)


lemma om_ext: "om_ok m \<Longrightarrow> om_ok m' \<Longrightarrow> om_find m = om_find m' \<Longrightarrow> m = m'"
proof (induction m arbitrary: m')
  case Nil
  then show ?case by (cases m') (auto simp: om_find_def fun_eq_iff split: if_splits)
next
  case (Cons p m)
  obtain k v where p: "p = (k, v)" by (cases p)
  with Cons.prems have m: "om_ok m" "\<And>a b. (a, b) \<in> set m \<Longrightarrow> k < a" by (auto simp: om_ok_Cons)
  have find: "om_find m' x = (if x = k then Some v else om_find m x)" for x
    using fun_cong [OF Cons.prems(3), of x] by (auto simp: p om_find_def split: if_splits)
  then obtain k' v' n where m': "m' = (k', v') # n" using find [of k] by (cases m') (auto simp: om_find_def)
  with Cons.prems have n: "om_ok n" "\<And>a b. (a, b) \<in> set n \<Longrightarrow> k' < a" by (auto simp: om_ok_Cons)
  have "(k', v') \<in> set (p # m)"
    using find [of k'] om_findD [of m k' v'] by (auto simp: m' p om_find_def split: if_splits)
  moreover from find [of k] have "(k, v) \<in> set m'" by (intro om_findD) simp
  ultimately have eq: "k' = k" "v' = v" using m(2) n(2) p m' by fastforce+
  have "om_find m x = om_find n x" for x
  proof (cases "x = k")
    case True
    have "om_find m k = None" "om_find n k = None"
      using m(2) n(2) eq om_findD by (metis less_irrefl not_Some_eq)+
    with True show ?thesis by simp
  next
    case False
    with find [of x] show ?thesis by (simp add: m' eq om_find_def)
  qed
  with Cons.IH [OF m(1) n(1)] show ?case by (auto simp: p m' eq)
qed

lemma om_upd_snoc: "om_ok (m @ [(k, v)]) \<Longrightarrow> om_upd k v m = m @ [(k, v)]"
  by (induction m) (auto simp: om_ok_def)

lemma om_find_snoc: "om_ok (m @ [(k, v)]) \<Longrightarrow> om_find m k = None"
  by (induction m) (auto simp: om_ok_def om_find_def)

lemma om_ok_prefix: "om_ok (m @ n) \<Longrightarrow> om_ok m"
  by (auto simp: om_ok_def sorted_wrt_append)

lemma om_size_snoc [simp]: "om_size (m @ [p]) = Suc (om_size m)"
  by (simp add: om_size_def)

lemma om_emplace_snoc: "om_ok (m @ [(k, v)]) \<Longrightarrow> om_emplace k v m = m @ [(k, v)]"
  by (simp add: om_emplace_def om_find_snoc om_upd_snoc)

text \<open>A map whose keys are computed from its values is the list of its values with their keys.\<close>

definition keyed :: "('v \<Rightarrow> 'k) \<Rightarrow> 'v list \<Rightarrow> ('k, 'v) omap" where
  "keyed nm obj = map (\<lambda>v. (nm v, v)) obj"

lemma keyed_simps [simp]: "keyed nm [] = []" "keyed nm (v # obj) = (nm v, v) # keyed nm obj"
  by (simp_all add: keyed_def)

lemma keyed_append: "keyed nm (us @ vs) = keyed nm us @ keyed nm vs"
  by (simp add: keyed_def)

lemma keyed_vals: "(\<And>k v. (k, v) \<in> set m \<Longrightarrow> k = nm v) \<Longrightarrow> keyed nm (om_vals m) = m"
  unfolding om_vals_def keyed_def by (simp add: map_idI prod_eq_iff)
    (metis (mono_tags, lifting) comp_apply map_idI prod.collapse)

lemma keyed_ok_prefix: "om_ok (keyed nm (us @ v # ws)) \<Longrightarrow> om_ok (keyed nm us @ [(nm v, v)])"
  using om_ok_prefix [of "keyed nm us @ [(nm v, v)]" "keyed nm ws"] by (simp add: keyed_append)


text \<open>A sum over the stored values, as the sizes of nested maps are counted.\<close>

definition om_sum :: "('v \<Rightarrow> nat) \<Rightarrow> ('k::linorder, 'v) omap \<Rightarrow> nat" where
  "om_sum f m = sum_list (map f (om_vals m))"

lemma om_sum_Cons: "om_sum f ((k, v) # m) = f v + om_sum f m"
  by (simp add: om_sum_def om_vals_def)

lemma om_sum_empty [simp]: "om_sum f om_empty = 0"
  by (simp add: om_sum_def om_vals_def om_empty_def)

lemma om_sum_upd: "om_ok m \<Longrightarrow>
    om_sum f (om_upd k v m) + (case om_find m k of None \<Rightarrow> 0 | Some w \<Rightarrow> f w) = om_sum f m + f v"
proof (induction k v m rule: om_upd.induct)
  case (2 k v k' v' m)
  have absent: "om_find m k = None" if "k \<le> k'"
  proof (rule ccontr)
    assume "om_find m k \<noteq> None"
    then obtain w where "(k, w) \<in> set m" using om_findD by fastforce
    with "2.prems" have "k' < k" by (auto simp: om_ok_Cons)
    with that show False by simp
  qed
  with 2 show ?case
    by (auto simp: om_sum_Cons om_ok_Cons om_find_def split: option.splits)
qed (simp add: om_sum_def om_vals_def om_find_def)

lemma om_sum_del: "om_ok m \<Longrightarrow>
    om_sum f (om_del k m) + (case om_find m k of None \<Rightarrow> 0 | Some w \<Rightarrow> f w) = om_sum f m"
  by (induction k m rule: om_del.induct)
    (auto simp: om_sum_Cons om_ok_Cons om_find_def om_sum_def om_vals_def split: option.splits)

lemma om_sum_dom: "om_ok m \<Longrightarrow> om_sum f m = (\<Sum>k\<in>dom (om_find m). f (the (om_find m k)))"
proof (induction m)
  case (Cons p m)
  obtain k v where p: "p = (k, v)" by (cases p)
  with Cons.prems have ok: "om_ok m" and above: "\<forall>(a, b)\<in>set m. k < a" by (simp_all add: om_ok_Cons)
  have fresh: "om_find m k = None"
    using om_findD [of m k] above by (cases "om_find m k") auto
  have dom: "dom (om_find (p # m)) = insert k (dom (om_find m))"
    by (auto simp: p om_find_def)
  have "finite (dom (om_find m))" using om.finite_dom ok by auto
  moreover have "k \<notin> dom (om_find m)" using fresh by (simp add: domIff)
  moreover have "f (the (om_find (p # m) j)) = f (the (om_find m j))" if "j \<in> dom (om_find m)" for j
    using that fresh by (auto simp: p om_find_def)
  moreover have "om_find (p # m) k = Some v" by (simp add: p om_find_def)
  ultimately show ?case
    unfolding dom using Cons.IH [OF ok] by (simp add: p om_sum_Cons)
next
  case Nil
  have "dom (om_find ([] :: ('a, 'b) omap)) = {}" by (auto simp: om_find_def)
  then show ?case by (simp add: om_sum_def om_vals_def)
qed

lemma om_sum_pos: "om_ok m \<Longrightarrow> om_find m k = Some v \<Longrightarrow> f v \<le> om_sum f m"
  using om_sum_del [of m f k] by simp


section \<open>Decimal numerals\<close>

text \<open>The digits of \<open>std::to_string\<close> on an unsigned integer.\<close>

definition digit_char :: "nat \<Rightarrow> char" where
  "digit_char d = char_of (48 + d)"

fun dec :: "nat \<Rightarrow> string" where
  "dec n = (if n < 10 then [digit_char n] else dec (n div 10) @ [digit_char (n mod 10)])"

declare dec.simps [simp del]

definition dec_u64 :: "u64 \<Rightarrow> string" where
  "dec_u64 w = dec (unat w)"

lemma of_char_digit_char: "d < 10 \<Longrightarrow> (of_char (digit_char d) :: nat) = 48 + d"
  by (simp add: digit_char_def)

lemma dec_nonempty [simp]: "dec n \<noteq> []"
  by (subst dec.simps) simp

lemma dec_digits: "c \<in> set (dec n) \<Longrightarrow> \<exists>d<10. c = digit_char d"
proof (induction n rule: dec.induct)
  case (1 n)
  show ?case
  proof (cases "n < 10")
    case True
    with "1.prems" show ?thesis by (subst (asm) dec.simps) auto
  next
    case False
    with "1.prems" consider "c \<in> set (dec (n div 10))" | "c = digit_char (n mod 10)"
      by (auto simp: dec.simps [of n])
    then show ?thesis
    proof cases
      case 1
      with False "1.IH" show ?thesis by blast
    next
      case 2
      then show ?thesis by (intro exI [of _ "n mod 10"]) simp
    qed
  qed
qed

lemma dec_length: "n < 10 ^ k \<Longrightarrow> 0 < k \<Longrightarrow> length (dec n) \<le> k"
proof (induction k arbitrary: n)
  case (Suc k)
  show ?case
  proof (cases "n < 10")
    case True
    then show ?thesis by (subst dec.simps) simp
  next
    case False
    with Suc.prems have "0 < k" by (cases k) auto
    moreover have "n div 10 < 10 ^ k" using Suc.prems by (simp add: less_mult_imp_div_less)
    ultimately have "length (dec (n div 10)) \<le> k" by (rule Suc.IH [rotated])
    with False show ?thesis by (subst dec.simps) simp
  qed
qed simp


section \<open>Lists\<close>

lemma find_Some_D: "List.find P xs = Some x \<Longrightarrow> x \<in> set xs \<and> P x"
  by (induction xs) (auto split: if_splits)

lemma find_None_D: "List.find P xs = None \<longleftrightarrow> (\<forall>x\<in>set xs. \<not> P x)"
  by (induction xs) auto

end
