(* ===== verification/Ref_Ids.thy ===== *)
theory Ref_Ids
  imports Ref_Prelude
begin

unbundle bit_operations_syntax

text \<open>
  Identities and generations: \<open>include/ref/ids.hpp\<close> and \<open>src/ids.cpp\<close>.

  \<^item> \<open>FixedText<N>\<close> and \<open>Ident<Tag,N>\<close> hold a bounded byte string; both are a \<open>string\<close> here, and
    the capacity is an argument of the parsing functions.  The phantom tags only separate the
    families at compile time, so every identity is an \<open>ident\<close> and every generation counter a
    64-bit word.
  \<^item> \<open>GenerationSet\<close> is the sorted prefix \<open>raw_[0..count_)\<close> of its array.
  \<^item> Shown: the set is a sorted duplicate-free sequence of at most 32 set generations and
    implements a bounded finite set; generation counters never step back and never wrap;
    version numbers and digests survive printing and parsing.
\<close>

section \<open>Text primitives\<close>

type_synonym ident = string

definition is_valid_text_char :: "char \<Rightarrow> bool" where
  "is_valid_text_char c \<longleftrightarrow> 32 \<le> (of_char c :: nat) \<and> (of_char c :: nat) \<le> 126"

definition is_valid_ident_char :: "char \<Rightarrow> bool" where
  "is_valid_ident_char c \<longleftrightarrow>
     (CHR ''A'' \<le> c \<and> c \<le> CHR ''Z'' \<or> CHR ''a'' \<le> c \<and> c \<le> CHR ''z'')
     \<or> (CHR ''0'' \<le> c \<and> c \<le> CHR ''9'')
     \<or> (c = CHR ''.'' \<or> c = CHR ''_'' \<or> c = CHR '':'' \<or> c = CHR ''-'' \<or> c = CHR ''+'')"

text \<open>\<open>FixedText<Capacity>::parse\<close>, \<open>from_valid\<close> and the clipping conversion between capacities.\<close>

definition text_parse :: "nat \<Rightarrow> string \<Rightarrow> string option" where
  "text_parse cap s =
     (if length s > cap then None
      else if list_all is_valid_text_char s then Some s else None)"

definition text_from_valid :: "nat \<Rightarrow> string \<Rightarrow> string" where
  "text_from_valid cap s = (case text_parse cap s of Some t \<Rightarrow> t | None \<Rightarrow> [])"

definition text_assign_from :: "nat \<Rightarrow> string \<Rightarrow> string" where
  "text_assign_from cap s = take (if length s > cap then cap else length s) s"

text \<open>\<open>Ident<Tag, Capacity>::parse\<close> and \<open>from_valid\<close>.\<close>

definition ident_parse :: "nat \<Rightarrow> string \<Rightarrow> ident option" where
  "ident_parse cap s =
     (if s = [] \<or> length s > cap then None
      else if list_all is_valid_ident_char s then Some s else None)"

definition ident_from_valid :: "nat \<Rightarrow> string \<Rightarrow> ident" where
  "ident_from_valid cap s = (case ident_parse cap s of Some t \<Rightarrow> t | None \<Rightarrow> [])"

definition ident_ok :: "nat \<Rightarrow> ident \<Rightarrow> bool" where
  "ident_ok cap s \<longleftrightarrow> length s \<le> cap \<and> list_all is_valid_ident_char s"

definition text_ok :: "nat \<Rightarrow> string \<Rightarrow> bool" where
  "text_ok cap s \<longleftrightarrow> length s \<le> cap \<and> list_all is_valid_text_char s"

lemma ident_char_text_char: "is_valid_ident_char c \<Longrightarrow> is_valid_text_char c"
  by (auto simp: is_valid_ident_char_def is_valid_text_char_def less_eq_char_def)

lemma ident_ok_text_ok: "ident_ok cap s \<Longrightarrow> text_ok cap s"
  by (auto simp: ident_ok_def text_ok_def list_all_iff intro: ident_char_text_char)

lemma ident_from_valid_ok: "ident_ok cap (ident_from_valid cap s)"
  by (auto simp: ident_from_valid_def ident_parse_def ident_ok_def)

lemma text_from_valid_ok: "text_ok cap (text_from_valid cap s)"
  by (auto simp: text_from_valid_def text_parse_def text_ok_def)

lemma ident_parse_ok: "ident_ok cap s \<Longrightarrow> s \<noteq> [] \<Longrightarrow> ident_parse cap s = Some s"
  by (simp add: ident_ok_def ident_parse_def)

lemma text_parse_ok: "text_ok cap s \<Longrightarrow> text_parse cap s = Some s"
  by (simp add: text_ok_def text_parse_def)


section \<open>Generation counters\<close>

type_synonym gen = u64

definition kGenerationCeiling :: u64 where
  "kGenerationCeiling = 0xFFFFFFFFFFFFFFFF - 1"

definition gen_first :: gen where "gen_first = 1"

definition gen_unset :: gen where "gen_unset = 0"

definition gen_is_set :: "gen \<Rightarrow> bool" where
  "gen_is_set g \<longleftrightarrow> g \<noteq> 0"

definition gen_next :: "gen \<Rightarrow> gen" where
  "gen_next g = (if g \<ge> kGenerationCeiling then kGenerationCeiling else g + 1)"

definition is_stale_relative_to :: "gen \<Rightarrow> gen \<Rightarrow> bool" where
  "is_stale_relative_to g current \<longleftrightarrow> g < current"

text \<open>The idiom \<open>g.is_set() ? g.next() : Generation::first()\<close>, used for every table revision.\<close>

definition gen_bump :: "gen \<Rightarrow> gen" where
  "gen_bump g = (if gen_is_set g then gen_next g else gen_first)"

lemma kGenerationCeiling_val: "kGenerationCeiling = 18446744073709551614"
  by (simp add: kGenerationCeiling_def)

lemma unat_ceiling: "unat kGenerationCeiling = 18446744073709551614"
  by (simp add: kGenerationCeiling_val)

lemma unat_gen_next_below: "g < kGenerationCeiling \<Longrightarrow> unat (gen_next g) = unat g + 1"
  by (simp add: gen_next_def kGenerationCeiling_val not_le [symmetric] word_le_nat_alt
      unat_word_ariths)

lemma gen_next_set: "gen_is_set (gen_next g)"
proof (cases "g < kGenerationCeiling")
  case True
  then have "unat (gen_next g) \<noteq> 0" by (simp add: unat_gen_next_below)
  then show ?thesis by (auto simp: gen_is_set_def)
next
  case False
  then have "gen_next g = kGenerationCeiling" by (simp add: gen_next_def not_less)
  then show ?thesis by (simp add: gen_is_set_def kGenerationCeiling_val)
qed

lemma gen_bump_set: "gen_is_set (gen_bump g)"
  by (simp add: gen_bump_def gen_next_set) (simp add: gen_is_set_def gen_first_def)

lemma gen_next_gt: "g < kGenerationCeiling \<Longrightarrow> g < gen_next g"
  by (simp add: word_less_nat_alt [of g "gen_next g"] unat_gen_next_below)

lemma gen_bump_gt: "g < kGenerationCeiling \<Longrightarrow> g < gen_bump g"
  by (auto simp: gen_bump_def gen_next_gt gen_is_set_def gen_first_def)

lemma gen_next_cases: "gen_next g = kGenerationCeiling \<or> unat (gen_next g) = unat g + 1"
  using unat_gen_next_below [of g] by (cases "g < kGenerationCeiling") (auto simp: gen_next_def)


section \<open>Generation sets\<close>

type_synonym gen_set = "u64 list"

definition kMaxGenerationsPerSet :: nat where "kMaxGenerationsPerSet = 32"

text \<open>The scan \<open>while (pos < count_ && raw_[pos] < value) ++pos\<close>.\<close>

fun gs_scan :: "gen_set \<Rightarrow> u64 \<Rightarrow> nat" where
  "gs_scan [] v = 0"
| "gs_scan (x # xs) v = (if x < v then Suc (gs_scan xs v) else 0)"

definition gs_add :: "gen_set \<Rightarrow> gen \<Rightarrow> bool \<times> gen_set" where
  "gs_add s v =
     (if \<not> gen_is_set v then (False, s)
      else let pos = gs_scan s v in
        if pos < length s \<and> s ! pos = v then (True, s)
        else if length s \<ge> kMaxGenerationsPerSet then (False, s)
        else (True, take pos s @ v # drop pos s))"

definition gs_all_of :: "gen list \<Rightarrow> gen_set" where
  "gs_all_of vs = foldl (\<lambda>s v. snd (gs_add s v)) [] vs"

fun gs_contains :: "gen_set \<Rightarrow> gen \<Rightarrow> bool" where
  "gs_contains [] v = False"
| "gs_contains (x # xs) v = (if x = v then True else gs_contains xs v)"

definition gs_at :: "gen_set \<Rightarrow> nat \<Rightarrow> gen" where
  "gs_at s i = (if i < length s then s ! i else gen_unset)"

definition gs_lowest :: "gen_set \<Rightarrow> gen" where
  "gs_lowest s = (if s = [] then gen_unset else s ! 0)"

definition gs_highest :: "gen_set \<Rightarrow> gen" where
  "gs_highest s = (if s = [] then gen_unset else s ! (length s - 1))"

definition gs_highest_at_most :: "gen_set \<Rightarrow> gen \<Rightarrow> gen" where
  "gs_highest_at_most s limit = foldl (\<lambda>best x. if x \<le> limit then x else best) gen_unset s"

text \<open>The class invariant: sorted, no duplicates, only set generations, within the bound.\<close>

definition gs_inv :: "gen_set \<Rightarrow> bool" where
  "gs_inv s \<longleftrightarrow> sorted_wrt (<) s \<and> 0 \<notin> set s \<and> length s \<le> kMaxGenerationsPerSet"

lemma gs_contains_iff [simp]: "gs_contains s v \<longleftrightarrow> v \<in> set s"
  by (induction s) auto

lemma gs_scan_le: "gs_scan s v \<le> length s"
  by (induction s) auto

lemma gs_scan_below: "x \<in> set (take (gs_scan s v) s) \<Longrightarrow> x < v"
  by (induction s) (auto split: if_splits)

lemma gs_scan_stop: "gs_scan s v < length s \<Longrightarrow> v \<le> s ! gs_scan s v"
  by (induction s) (auto split: if_splits)

lemma gs_scan_above:
  assumes "sorted_wrt (<) s" and "x \<in> set (drop (gs_scan s v) s)"
  shows "v \<le> x"
  using assms by (induction s) (auto split: if_splits)

lemma gs_scan_found:
  "sorted_wrt (<) s \<Longrightarrow> v \<in> set s \<Longrightarrow> gs_scan s v < length s \<and> s ! gs_scan s v = v"
  by (induction s) auto

lemma gs_scan_missing:
  "sorted_wrt (<) s \<Longrightarrow> gs_scan s v < length s \<Longrightarrow> s ! gs_scan s v = v \<longleftrightarrow> v \<in> set s"
  using gs_scan_found nth_mem by metis

lemma gs_insert_sorted:
  assumes s: "sorted_wrt (<) s" and v: "v \<notin> set s"
  shows "sorted_wrt (<) (take (gs_scan s v) s @ v # drop (gs_scan s v) s)"
proof -
  have "sorted_wrt (<) (take (gs_scan s v) s @ drop (gs_scan s v) s)" using s by simp
  then have parts: "sorted_wrt (<) (take (gs_scan s v) s)" "sorted_wrt (<) (drop (gs_scan s v) s)"
    by (simp_all only: sorted_wrt_append)
  have above: "v < x" if "x \<in> set (drop (gs_scan s v) s)" for x
    using gs_scan_above [OF s that] v in_set_dropD [OF that] by (metis order_le_imp_less_or_eq)
  have below: "x < v" if "x \<in> set (take (gs_scan s v) s)" for x
    using gs_scan_below [OF that] .
  show ?thesis using parts above below
    by (force simp: sorted_wrt_append)
qed

lemma set_insert_at: "set (take n s @ v # drop n s) = insert v (set s)"
  using set_append [of "take n s" "drop n s"] by auto

lemma gs_inv_empty: "gs_inv []"
  by (simp add: gs_inv_def)

lemma gs_add_spec:
  assumes "gs_inv s"
  shows "fst (gs_add s v) \<longleftrightarrow> v \<noteq> 0 \<and> (v \<in> set s \<or> length s < kMaxGenerationsPerSet)"
    and "set (snd (gs_add s v)) = (if fst (gs_add s v) then insert v (set s) else set s)"
    and "gs_inv (snd (gs_add s v))"
proof -
  have found: "gs_scan s v < length s \<and> s ! gs_scan s v = v \<longleftrightarrow> v \<in> set s"
    using assms gs_scan_found [of s v] nth_mem [of "gs_scan s v" s] by (metis gs_inv_def)
  show "fst (gs_add s v) \<longleftrightarrow> v \<noteq> 0 \<and> (v \<in> set s \<or> length s < kMaxGenerationsPerSet)"
    by (auto simp: gs_add_def Let_def gen_is_set_def found)
  show "set (snd (gs_add s v)) = (if fst (gs_add s v) then insert v (set s) else set s)"
    using set_insert_at [of "gs_scan s v" s v]
    by (auto simp: gs_add_def Let_def gen_is_set_def found)
  show "gs_inv (snd (gs_add s v))"
  proof (cases "v = 0 \<or> v \<in> set s \<or> kMaxGenerationsPerSet \<le> length s")
    case True
    with assms show ?thesis by (auto simp: gs_add_def Let_def gen_is_set_def found)
  next
    case False
    then have eq: "snd (gs_add s v) = take (gs_scan s v) s @ v # drop (gs_scan s v) s"
      by (auto simp: gs_add_def Let_def gen_is_set_def found)
    from assms False have "sorted_wrt (<) (snd (gs_add s v))"
      unfolding eq gs_inv_def by (intro gs_insert_sorted) auto
    moreover have "0 \<notin> set (snd (gs_add s v))"
      unfolding eq set_insert_at using assms False by (simp add: gs_inv_def)
    moreover have "length (snd (gs_add s v)) = Suc (length s)"
      unfolding eq using gs_scan_le [of s v] by simp
    ultimately show ?thesis using False unfolding gs_inv_def by simp
  qed
qed


subsection \<open>The interface of a bounded set\<close>

text \<open>
  What the clients that collect generations (plan creation, the handshake) rely on: whatever
  sequence of values is offered, the invariant holds and only offered valid values are members.
\<close>

locale bounded_set =
  fixes add :: "'s \<Rightarrow> 'g \<Rightarrow> bool \<times> 's"
    and mem :: "'s \<Rightarrow> 'g \<Rightarrow> bool"
    and inv :: "'s \<Rightarrow> bool"
    and valid :: "'g \<Rightarrow> bool"
    and room :: "'s \<Rightarrow> bool"
    and empty :: "'s"
  assumes inv_empty: "inv empty"
    and mem_empty: "\<not> mem empty x"
    and inv_add: "inv s \<Longrightarrow> inv (snd (add s v))"
    and add_accepts: "inv s \<Longrightarrow> fst (add s v) \<longleftrightarrow> valid v \<and> (mem s v \<or> room s)"
    and add_mem: "inv s \<Longrightarrow> mem (snd (add s v)) x \<longleftrightarrow> mem s x \<or> (fst (add s v) \<and> x = v)"
begin

lemma inv_collect: "inv s \<Longrightarrow> inv (foldl (\<lambda>s v. snd (add s v)) s vs)"
  by (induction vs arbitrary: s) (auto simp: inv_add)

lemma collect_sound:
  "inv s \<Longrightarrow> mem (foldl (\<lambda>s v. snd (add s v)) s vs) x \<Longrightarrow> mem s x \<or> x \<in> set vs \<and> valid x"
proof (induction vs arbitrary: s)
  case (Cons v vs)
  then have "mem (snd (add s v)) x \<or> x \<in> set vs \<and> valid x"
    by (simp add: inv_add)
  with Cons.prems(1) show ?case by (auto simp: add_mem add_accepts)
qed simp

lemma collect_mono: "inv s \<Longrightarrow> mem s x \<Longrightarrow> mem (foldl (\<lambda>s v. snd (add s v)) s vs) x"
  by (induction vs arbitrary: s) (auto simp: inv_add add_mem)

end

interpretation gs: bounded_set gs_add gs_contains gs_inv gen_is_set
  "\<lambda>s. length s < kMaxGenerationsPerSet" "[]"
  by unfold_locales (auto simp: gs_inv_empty gs_add_spec gen_is_set_def)

lemma gs_inv_all_of: "gs_inv (gs_all_of vs)"
  unfolding gs_all_of_def by (rule gs.inv_collect [OF gs_inv_empty])

lemma sorted_wrt_last:
  assumes "sorted_wrt (<) (s :: u64 list)" and "x \<in> set s"
  shows "x \<le> s ! (length s - 1)"
proof -
  from assms(2) obtain i where i: "i < length s" "x = s ! i" by (auto simp: in_set_conv_nth)
  show ?thesis
  proof (cases "i = length s - 1")
    case False
    with i have "i < length s - 1" "length s - 1 < length s" by auto
    then have "s ! i < s ! (length s - 1)" by (rule sorted_wrt_nth_less [OF assms(1)])
    with i show ?thesis by simp
  qed (simp add: i)
qed

lemma gs_highest_member: "s \<noteq> [] \<Longrightarrow> gs_highest s \<in> set s"
  by (simp add: gs_highest_def)

lemma gs_highest_ge: "gs_inv s \<Longrightarrow> x \<in> set s \<Longrightarrow> x \<le> gs_highest s"
  using sorted_wrt_last [of s x] by (cases s) (auto simp: gs_highest_def gs_inv_def)

lemma gs_highest_set: "gs_inv s \<Longrightarrow> s \<noteq> [] \<Longrightarrow> gen_is_set (gs_highest s)"
  using gs_highest_member [of s] by (auto simp: gs_inv_def gen_is_set_def)

lemma gs_lowest_le: "gs_inv s \<Longrightarrow> x \<in> set s \<Longrightarrow> gs_lowest s \<le> x"
  by (cases s) (auto simp: gs_lowest_def gs_inv_def dest: order_less_imp_le)

lemma gs_highest_at_most_spec:
  assumes "sorted_wrt (<) s"
  shows "foldl (\<lambda>best x. if x \<le> limit then x else best) b s =
    (if \<exists>x\<in>set s. x \<le> limit then Max {x \<in> set s. x \<le> limit} else (b :: u64))"
  using assms
proof (induction s rule: rev_induct)
  case (snoc x s)
  then have s: "sorted_wrt (<) s" and below: "\<forall>y\<in>set s. y < x"
    by (auto simp: sorted_wrt_append)
  show ?case
  proof (cases "x \<le> limit")
    case True
    with below have "{y \<in> set (s @ [x]). y \<le> limit} = insert x (set s)"
      using order_less_imp_le order_trans by fastforce
    moreover have "Max (insert x (set s)) = x"
      using below by (intro Max_eqI) (auto dest: order_less_imp_le)
    ultimately show ?thesis using True by auto
  next
    case False
    then have "{y \<in> set (s @ [x]). y \<le> limit} = {y \<in> set s. y \<le> limit}" by auto
    with False snoc.IH [OF s] show ?thesis by simp
  qed
qed simp

text \<open>
  C34: A generation set is a bounded finite set.  From any set that satisfies the class invariant
  (strictly ascending, no unset generation, at most 32 entries) an insertion re-establishes the
  invariant, is accepted exactly for a set generation that is already present or still fits, adds
  nothing else, and leaves the set alone when it is refused; the highest member and the highest
  member up to a limit are the maxima of the represented sets.
\<close>

theorem generation_set_refines_bounded_set:
  assumes "gs_inv s"
  shows "gs_inv (snd (gs_add s v))
    \<and> (fst (gs_add s v) \<longleftrightarrow> gen_is_set v \<and> (v \<in> set s \<or> card (set s) < 32))
    \<and> set (snd (gs_add s v)) = (if fst (gs_add s v) then insert v (set s) else set s)
    \<and> (\<forall>x. gs_contains (snd (gs_add s v)) x \<longleftrightarrow> x \<in> set (snd (gs_add s v)))
    \<and> gs_highest s = (if s = [] then 0 else Max (set s))
    \<and> gs_highest_at_most s limit =
        (if \<exists>x\<in>set s. x \<le> limit then Max {x \<in> set s. x \<le> limit} else gen_unset)"
proof -
  have sorted: "sorted_wrt (<) s" and "card (set s) = length s"
    using assms strict_sorted_iff distinct_card by (auto simp: gs_inv_def)
  moreover have "gs_highest s = (if s = [] then 0 else Max (set s))"
    using gs_highest_member [of s] gs_highest_ge [OF assms]
    by (auto simp: gs_highest_def gen_unset_def intro!: Max_eqI [symmetric])
  ultimately show ?thesis
    using gs_add_spec [OF assms, of v] gs_highest_at_most_spec [OF sorted, of limit gen_unset]
    by (simp add: gs_highest_at_most_def gen_is_set_def kMaxGenerationsPerSet_def)
qed

theorem generation_set_refines_bounded_set_witness:
  "gs_inv [2, 5] \<and> fst (gs_add [2, 5] 3) \<and> snd (gs_add [2, 5] 3) = [2, 3, 5]
   \<and> gs_inv (snd (gs_add [2, 5] 3)) \<and> gs_highest_at_most [2, 5] 4 = 2"
proof -
  have inv: "gs_inv [2, 5]" by (simp add: gs_inv_def kMaxGenerationsPerSet_def)
  have "snd (gs_add [2, 5] 3) = [2, 3, 5]" and "gs_highest_at_most [2, 5] 4 = 2"
    by (simp_all add: gs_add_def gen_is_set_def kMaxGenerationsPerSet_def gs_highest_at_most_def)
  with inv generation_set_refines_bounded_set [OF inv, of 3 4] show ?thesis
    by (simp add: gen_is_set_def)
qed

text \<open>
  Generation counters neither step back nor wrap.  Below the ceiling the successor is exactly
  one larger; from the ceiling on it stays at the ceiling, so a successor is always a set
  generation, and a counter that was older than its successor stays recognisably stale.
\<close>

theorem generation_next_saturates:
  "(g < kGenerationCeiling \<longrightarrow> unat (gen_next g) = unat g + 1 \<and> is_stale_relative_to g (gen_next g))
   \<and> (kGenerationCeiling \<le> g \<longrightarrow> gen_next g = kGenerationCeiling)
   \<and> gen_is_set (gen_next g) \<and> gen_next g \<le> kGenerationCeiling"
proof -
  have "gen_next g \<le> kGenerationCeiling"
  proof (cases "g < kGenerationCeiling")
    case True
    then have "unat g < unat kGenerationCeiling" by (simp add: word_less_nat_alt)
    with True show ?thesis by (simp add: word_le_nat_alt unat_gen_next_below)
  qed (simp add: gen_next_def not_less)
  then show ?thesis
    using unat_gen_next_below [of g] gen_next_gt [of g] gen_next_set [of g]
    by (auto simp: is_stale_relative_to_def gen_next_def)
qed

theorem generation_next_saturates_witness:
  "gen_next 7 = 8 \<and> gen_next kGenerationCeiling = kGenerationCeiling
   \<and> unat (gen_next 7) = unat (7 :: u64) + 1 \<and> is_stale_relative_to 7 (gen_next 7)"
  using generation_next_saturates [of 7] generation_next_saturates [of kGenerationCeiling]
  by (simp add: kGenerationCeiling_val gen_next_def)


section \<open>Generation ranges\<close>

record gen_range =
  range_min :: gen
  range_max :: gen

definition range_unset :: gen_range where
  "range_unset = \<lparr>range_min = 0, range_max = 0\<rparr>"

definition range_is_set :: "gen_range \<Rightarrow> bool" where
  "range_is_set r \<longleftrightarrow> gen_is_set (range_min r) \<and> gen_is_set (range_max r)"

definition range_is_valid :: "gen_range \<Rightarrow> bool" where
  "range_is_valid r \<longleftrightarrow> range_is_set r \<and> range_min r \<le> range_max r"

definition range_contains :: "gen_range \<Rightarrow> gen \<Rightarrow> bool" where
  "range_contains r v \<longleftrightarrow> range_is_valid r \<and> v \<ge> range_min r \<and> v \<le> range_max r"

definition range_closed :: "gen \<Rightarrow> gen \<Rightarrow> gen_range" where
  "range_closed lo hi = \<lparr>range_min = lo, range_max = hi\<rparr>"

definition range_single :: "gen \<Rightarrow> gen_range" where
  "range_single v = \<lparr>range_min = v, range_max = v\<rparr>"

lemmas range_defs = range_unset_def range_is_set_def range_is_valid_def range_contains_def
  range_closed_def range_single_def gen_is_set_def


section \<open>Structured version identity\<close>

record VersionNumber =
  major :: u16
  minor :: u16
  patch :: u16

text \<open>
  The digit loop of \<open>VersionNumber::parse\<close>: \<open>None\<close> at the first character that is no digit,
  otherwise the value accumulated in 32 bits.
\<close>

fun parse_digits :: "u32 \<Rightarrow> string \<Rightarrow> u32 option" where
  "parse_digits value [] = Some value"
| "parse_digits value (c # cs) =
     (if c < CHR ''0'' \<or> c > CHR ''9'' then None
      else parse_digits (value * 10 + of_nat (of_char c - 48)) cs)"

text \<open>
  The field loop, on the text from \<open>start\<close> on: \<open>dot\<close> is the first dot of the rest, the last field
  runs to the end of the text, a field has one to five digits and fits in 16 bits.
\<close>

function parse_version_fields :: "nat \<Rightarrow> string \<Rightarrow> u16 list option" where
  "parse_version_fields index rest =
     (if index \<ge> 3 then Some []
      else let has_dot = CHR ''.'' \<in> set rest;
               upto_dot = takeWhile (\<lambda>c. c \<noteq> CHR ''.'') rest;
               field = (if index = 2 then rest else upto_dot) in
        if index < 2 \<and> \<not> has_dot then None
        else if field = [] \<or> length field > 5 then None
        else case parse_digits 0 field of
            None \<Rightarrow> None
          | Some value \<Rightarrow>
              if value > 0xFFFF then None
              else map_option (Cons (ucast value))
                (parse_version_fields (Suc index) (if has_dot then drop (Suc (length upto_dot)) rest else [])))"
  by pat_completeness auto
termination by (relation "measure (\<lambda>(index, _). 3 - index)") auto

declare parse_version_fields.simps [simp del]

definition version_parse :: "string \<Rightarrow> VersionNumber option" where
  "version_parse text =
     (case parse_version_fields 0 text of
        Some [a, b, c] \<Rightarrow> Some \<lparr>major = a, minor = b, patch = c\<rparr>
      | _ \<Rightarrow> None)"

definition version_to_string :: "VersionNumber \<Rightarrow> string" where
  "version_to_string v =
     dec (unat (major v)) @ ''.'' @ dec (unat (minor v)) @ ''.'' @ dec (unat (patch v))"

lemma digit_char_range:
  "d < 10 \<Longrightarrow> \<not> digit_char d < CHR ''0'' \<and> \<not> digit_char d > CHR ''9'' \<and> digit_char d \<noteq> CHR ''.''"
  by (auto simp: less_char_def of_char_digit_char dest!: arg_cong [where f = "of_char :: char \<Rightarrow> nat"])

lemma parse_digits_append:
  "parse_digits w (xs @ ys) = Option.bind (parse_digits w xs) (\<lambda>v. parse_digits v ys)"
  by (induction w xs rule: parse_digits.induct) auto

lemma parse_digits_dec: "n < 2 ^ 32 \<Longrightarrow> parse_digits 0 (dec n) = Some (of_nat n)"
proof (induction n rule: dec.induct)
  case (1 n)
  show ?case
  proof (cases "n < 10")
    case True
    then show ?thesis
      using digit_char_range [of n] by (simp add: dec.simps [of n] of_char_digit_char)
  next
    case False
    have "(of_nat (n div 10) * 10 + of_nat (n mod 10) :: u32) = of_nat (n div 10 * 10 + n mod 10)"
      by (simp only: of_nat_add of_nat_mult of_nat_numeral)
    with False 1 show ?thesis
      using digit_char_range [of "n mod 10"]
      by (simp add: dec.simps [of n] parse_digits_append of_char_digit_char)
  qed
qed

lemma dec_no_dot: "CHR ''.'' \<notin> set (dec n)"
  using dec_digits [of "CHR ''.''" n] digit_char_range by metis

lemma takeWhile_dec_dot: "takeWhile (\<lambda>c. c \<noteq> CHR ''.'') (dec n @ CHR ''.'' # rest) = dec n"
  using dec_no_dot [of n] by (simp add: takeWhile_append)

lemma u16_field:
  fixes w :: u16
  shows "length (dec (unat w)) \<le> 5" and "parse_digits 0 (dec (unat w)) = Some (ucast w)"
    and "\<not> (0xFFFF :: u32) < ucast w" and "(ucast (ucast w :: u32) :: u16) = w"
proof -
  have lt: "unat w < 65536" using unsigned_less [where 'a = nat, of w] by simp
  then show "length (dec (unat w)) \<le> 5" by (intro dec_length) auto
  from lt show "parse_digits 0 (dec (unat w)) = Some (ucast w)"
    by (subst parse_digits_dec) (auto simp: unsigned_of_nat)
  from lt show "\<not> (0xFFFF :: u32) < ucast w"
    by (simp add: word_less_nat_alt unsigned_ucast_eq take_bit_nat_eq_self)
  show "(ucast (ucast w :: u32) :: u16) = w" by (rule bit_word_eqI) (simp add: bit_simps)
qed

lemma parse_version_fields_dot:
  fixes w :: u16
  assumes "index < 2"
  shows "parse_version_fields index (dec (unat w) @ CHR ''.'' # rest) =
    map_option (Cons w) (parse_version_fields (Suc index) rest)"
  using assms u16_field [of w]
  by (subst parse_version_fields.simps) (simp add: takeWhile_dec_dot Let_def)

lemma parse_version_fields_last:
  fixes w :: u16
  shows "parse_version_fields 2 (dec (unat w)) = Some [w]"
  using u16_field [of w] dec_no_dot [of "unat w"]
  by (subst parse_version_fields.simps) (simp add: Let_def parse_version_fields.simps [of 3])

text \<open>
  Every version number is recovered from its printed form \<open>major.minor.patch\<close>.
\<close>

theorem version_number_roundtrip: "version_parse (version_to_string v) = Some v"
  by (simp add: version_parse_def version_to_string_def parse_version_fields_dot
      parse_version_fields_last numeral_2_eq_2 [symmetric])


section \<open>Integrity digests\<close>

record IntegrityDigest =
  digest_a :: u64
  digest_b :: u64

definition kFnvOffsetA :: u64 where "kFnvOffsetA = 0xCBF29CE484222325"
definition kFnvPrimeA :: u64 where "kFnvPrimeA = 0x100000001B3"
definition kFnvOffsetB :: u64 where "kFnvOffsetB = 0x9E3779B97F4A7C15"
definition kFnvPrimeB :: u64 where "kFnvPrimeB = 0x100000001B3"

definition hash_bytes :: "bytes \<Rightarrow> u64" where
  "hash_bytes bs = foldl (\<lambda>h c. (h XOR ucast c) * kFnvPrimeA) kFnvOffsetA bs"

definition hash_mix :: "u64 \<Rightarrow> u64 \<Rightarrow> u64" where
  "hash_mix seed value =
     (let h = seed XOR (value + 0x9E3779B97F4A7C15 + push_bit 6 seed + drop_bit 2 seed);
          h = h XOR drop_bit 33 h;
          h = h * 0xFF51AFD7ED558CCD;
          h = h XOR drop_bit 33 h;
          h = h * 0xC4CEB9FE1A85EC53
      in h XOR drop_bit 33 h)"

definition digest_step :: "u64 \<times> u64 \<Rightarrow> u8 \<Rightarrow> u64 \<times> u64" where
  "digest_step ab value =
     (let a = (fst ab XOR ucast value) * kFnvPrimeA;
          b = (snd ab XOR ucast value) * kFnvPrimeB
      in (a, push_bit 7 b OR drop_bit 57 b))"

definition digest_of :: "bytes \<Rightarrow> IntegrityDigest" where
  "digest_of bs =
     (let (a, b) = foldl digest_step (kFnvOffsetA, kFnvOffsetB) bs; n = of_nat (length bs)
      in \<lparr>digest_a = hash_mix a n, digest_b = hash_mix b (n XOR 0x5DEECE66D)\<rparr>)"

definition digest_combine :: "IntegrityDigest \<Rightarrow> bytes \<Rightarrow> IntegrityDigest" where
  "digest_combine left bs =
     (let right = digest_of bs
      in \<lparr>digest_a = hash_mix (digest_a left) (digest_a right),
          digest_b = hash_mix (digest_b left) (digest_b right)\<rparr>)"

definition digest_zero :: IntegrityDigest where
  "digest_zero = \<lparr>digest_a = 0, digest_b = 0\<rparr>"

definition digest_is_set :: "IntegrityDigest \<Rightarrow> bool" where
  "digest_is_set d \<longleftrightarrow> digest_a d \<noteq> 0 \<or> digest_b d \<noteq> 0"

definition hex_char :: "nat \<Rightarrow> char" where
  "hex_char d = (if d < 10 then char_of (48 + d) else char_of (87 + d))"

definition hex_part :: "u64 \<Rightarrow> string" where
  "hex_part w = map (\<lambda>i. hex_char (unat (drop_bit (4 * i) w AND 15))) (rev [0..<16])"

definition digest_to_hex :: "IntegrityDigest \<Rightarrow> string" where
  "digest_to_hex d = hex_part (digest_a d) @ hex_part (digest_b d)"

fun parse_hex :: "u64 \<Rightarrow> string \<Rightarrow> u64 option" where
  "parse_hex value [] = Some value"
| "parse_hex value (c # cs) =
     (if c \<ge> CHR ''0'' \<and> c \<le> CHR ''9''
        then parse_hex (push_bit 4 value OR of_nat (of_char c - 48)) cs
      else if c \<ge> CHR ''a'' \<and> c \<le> CHR ''f''
        then parse_hex (push_bit 4 value OR (of_nat (of_char c - 97) + 10)) cs
      else None)"

definition digest_from_hex :: "string \<Rightarrow> IntegrityDigest option" where
  "digest_from_hex text =
     (if length text \<noteq> 32 then None
      else case (parse_hex 0 (take 16 text), parse_hex 0 (take 16 (drop 16 text))) of
          (Some high, Some low) \<Rightarrow> Some \<lparr>digest_a = high, digest_b = low\<rparr>
        | _ \<Rightarrow> None)"

lemma parse_hex_digit:
  assumes "d < 16"
  shows "parse_hex v (hex_char d # cs) = parse_hex (push_bit 4 v OR of_nat d) cs"
proof (cases "d < 10")
  case True
  then show ?thesis by (simp add: hex_char_def less_eq_char_def)
next
  case False
  with assms have "(of_nat (d - 10) + 10 :: u64) = of_nat d"
    by (metis le_add_diff_inverse2 not_less of_nat_add of_nat_numeral)
  with False assms show ?thesis by (simp add: hex_char_def less_eq_char_def)
qed

lemma hex_step:
  "push_bit 4 (drop_bit (4 * Suc i) w) OR (drop_bit (4 * i) w AND 15) = drop_bit (4 * i) (w :: u64)"
proof (rule bit_word_eqI)
  fix n assume "n < LENGTH(64)"
  have "bit (15 :: u64) n \<longleftrightarrow> n < 4"
    using bit_mask_iff [where 'a = u64, of 4 n] \<open>n < LENGTH(64)\<close>
    by (simp add: mask_eq_exp_minus_1)
  then show "bit (push_bit 4 (drop_bit (4 * Suc i) w) OR (drop_bit (4 * i) w AND 15)) n =
      bit (drop_bit (4 * i) w) n"
    using \<open>n < LENGTH(64)\<close>
    by (cases "n < 4") (auto simp: bit_simps add.commute)
qed

lemma parse_hex_digits:
  "parse_hex (drop_bit (4 * k) w) (map (\<lambda>i. hex_char (unat (drop_bit (4 * i) w AND 15))) (rev [0..<k]))
   = Some w"
proof (induction k)
  case (Suc k)
  have "unat (drop_bit (4 * k) w AND 15) < 16"
    using word_and_le1 [of "drop_bit (4 * k) w" 15] by (simp add: word_le_nat_alt)
  with Suc show ?case
    by (simp add: parse_hex_digit hex_step [unfolded mult_Suc_right] del: parse_hex.simps)
qed simp

lemma parse_hex_part: "parse_hex 0 (hex_part w) = Some w"
proof -
  have "drop_bit 64 w = 0" by (rule bit_word_eqI) (simp add: bit_simps)
  then show ?thesis using parse_hex_digits [of 16 w] by (simp add: hex_part_def)
qed

text \<open>
  The 32-digit hexadecimal form of a digest is parsed back to the same digest.
\<close>

theorem digest_hex_roundtrip: "digest_from_hex (digest_to_hex d) = Some d"
proof -
  have "length (hex_part w) = 16" for w by (simp add: hex_part_def)
  then show ?thesis by (simp add: digest_from_hex_def digest_to_hex_def parse_hex_part)
qed


section \<open>Artifact and version identity\<close>

record ArtifactIdentity =
  build :: ident
  content_hash :: IntegrityDigest

record RuntimeVersionId =
  number :: VersionNumber
  artifact :: ArtifactIdentity

definition artifact_is_set :: "ArtifactIdentity \<Rightarrow> bool" where
  "artifact_is_set a \<longleftrightarrow> build a \<noteq> []"

definition version_is_set :: "RuntimeVersionId \<Rightarrow> bool" where
  "version_is_set v \<longleftrightarrow> major (number v) \<noteq> 0 \<or> artifact_is_set (artifact v)"

definition runtime_version_to_string :: "RuntimeVersionId \<Rightarrow> string" where
  "runtime_version_to_string v =
     version_to_string (number v)
     @ (if build (artifact v) \<noteq> [] then ''+'' @ build (artifact v) else [])"

end
