(* ===== verification/Ref_Support.thy ===== *)
theory Ref_Support
  imports Ref_Ids
begin

unbundle bit_operations_syntax

text \<open>
  Statuses, provenance, checked arithmetic and checksums: \<open>include/ref/support.hpp\<close> and the
  first part of \<open>src/support.cpp\<close>.

  A \<open>Status\<close> is the pair of an error code and a bounded detail text, as in the source; a function
  that returns a status and mutates its object returns the pair of the status and the new object.
  The name tables of the enumerations share the interface \<open>enum_names\<close>.  Shown: the names of the
  error codes parse back; the table-driven CRC equals the bit-serial one; checked addition and
  decimal parsing are exact on the range they are used on, and where they are not.
\<close>

section \<open>Enumerations with printed names\<close>

text \<open>
  The sources print an enumeration through a name table and parse it by scanning the enumeration in
  declaration order for the first equal name.
\<close>

locale enum_names =
  fixes all :: "'e list" and name :: "'e \<Rightarrow> string"
  assumes complete: "e \<in> set all"
    and distinct_names: "distinct (map name all)"
begin

lemma parse_name: "List.find (\<lambda>e. text = name e) all = Some e \<longleftrightarrow> text = name e"
proof
  assume "List.find (\<lambda>e. text = name e) all = Some e"
  then show "text = name e" using find_Some_D by fastforce
next
  assume eq: "text = name e"
  then obtain e' where e': "List.find (\<lambda>e. text = name e) all = Some e'"
    using complete [of e] find_None_D [of "\<lambda>e. text = name e" all] by (cases "List.find (\<lambda>e. text = name e) all") auto
  then have "e' \<in> set all" "name e' = name e" using find_Some_D eq by fastforce+
  then have "e' = e"
    using distinct_names complete [of e] by (auto simp: distinct_map inj_on_def)
  with e' show "List.find (\<lambda>e. text = name e) all = Some e" by simp
qed

lemma roundtrip: "List.find (\<lambda>x. name e = name x) all = Some e"
  by (simp add: parse_name)

end


section \<open>Resource bounds\<close>

definition kRuntimeComponents :: nat where "kRuntimeComponents = 256"
definition kComponentVersions :: nat where "kComponentVersions = 1024"
definition kCompatibilityEdges :: nat where "kCompatibilityEdges = 16384"
definition kPlanHistory :: nat where "kPlanHistory = 1024"
definition kProtocolGenerations :: nat where "kProtocolGenerations = 64"
definition kSchemaGenerations :: nat where "kSchemaGenerations = 64"
definition kMessageTypes :: nat where "kMessageTypes = 128"
definition kMessageFields :: nat where "kMessageFields = 64"
definition kFeatureGates :: nat where "kFeatureGates = 128"
definition kCohorts :: nat where "kCohorts = 64"
definition kMigrationRecords :: nat where "kMigrationRecords = 4096"
definition kRollbackRecords :: nat where "kRollbackRecords = 1024"
definition kStageHistory :: nat where "kStageHistory = 256"
definition kWorkers :: nat where "kWorkers = 2048"
definition kFencedBoots :: nat where "kFencedBoots = 4096"
definition kConnections :: nat where "kConnections = 512"
definition kEventQueueDepth :: nat where "kEventQueueDepth = 1024"
definition kSnapshots :: nat where "kSnapshots = 32"
definition kReconcileFindings :: nat where "kReconcileFindings = 256"
definition kFrameBytes :: nat where "kFrameBytes = 2 ^ 20"
definition kQueryBytes :: nat where "kQueryBytes = 64 * 2 ^ 10"
definition kStateFileBytes :: nat where "kStateFileBytes = 64 * 2 ^ 20"
definition kTextBytes :: nat where "kTextBytes = 512"
definition kExplanationLines :: nat where "kExplanationLines = 64"
definition kRetiredGenerations :: nat where "kRetiredGenerations = 1024"

lemmas limit_defs = kComponentVersions_def kCompatibilityEdges_def kPlanHistory_def
  kProtocolGenerations_def kSchemaGenerations_def kMessageTypes_def kMessageFields_def
  kFeatureGates_def kCohorts_def kMigrationRecords_def kRollbackRecords_def kStageHistory_def
  kWorkers_def kFencedBoots_def kFrameBytes_def kQueryBytes_def kStateFileBytes_def kTextBytes_def kRetiredGenerations_def
  kRuntimeComponents_def kExplanationLines_def kConnections_def kEventQueueDepth_def kSnapshots_def kReconcileFindings_def


section \<open>Status\<close>

datatype ErrorCode =
    Ok | InvalidArgument | NotFound | AlreadyExists | LimitExceeded | StaleEpoch | StaleBoot
  | StaleGeneration | StaleEvidence | StalePlan | Unauthorized | RetiredGeneration | Incompatible
  | Conflict | Corrupt | Truncated | IntegrityFailure | IoFailure | Unsupported | Busy | QueueFull
  | Retired | OutcomeUnknown | Internal

definition all_error_codes :: "ErrorCode list" where
  "all_error_codes =
     [Ok, InvalidArgument, NotFound, AlreadyExists, LimitExceeded, StaleEpoch, StaleBoot,
      StaleGeneration, StaleEvidence, StalePlan, Unauthorized, RetiredGeneration, Incompatible,
      Conflict, Corrupt, Truncated, IntegrityFailure, IoFailure, Unsupported, Busy, QueueFull,
      Retired, OutcomeUnknown, Internal]"

fun error_code_to_string :: "ErrorCode \<Rightarrow> string" where
  "error_code_to_string Ok = ''OK''"
| "error_code_to_string InvalidArgument = ''INVALID_ARGUMENT''"
| "error_code_to_string NotFound = ''NOT_FOUND''"
| "error_code_to_string AlreadyExists = ''ALREADY_EXISTS''"
| "error_code_to_string LimitExceeded = ''LIMIT_EXCEEDED''"
| "error_code_to_string StaleEpoch = ''STALE_EPOCH''"
| "error_code_to_string StaleBoot = ''STALE_BOOT''"
| "error_code_to_string StaleGeneration = ''STALE_GENERATION''"
| "error_code_to_string StaleEvidence = ''STALE_EVIDENCE''"
| "error_code_to_string StalePlan = ''STALE_PLAN''"
| "error_code_to_string Unauthorized = ''UNAUTHORIZED''"
| "error_code_to_string RetiredGeneration = ''RETIRED_GENERATION''"
| "error_code_to_string Incompatible = ''INCOMPATIBLE''"
| "error_code_to_string Conflict = ''CONFLICT''"
| "error_code_to_string Corrupt = ''CORRUPT''"
| "error_code_to_string Truncated = ''TRUNCATED''"
| "error_code_to_string IntegrityFailure = ''INTEGRITY_FAILURE''"
| "error_code_to_string IoFailure = ''IO_FAILURE''"
| "error_code_to_string Unsupported = ''UNSUPPORTED''"
| "error_code_to_string Busy = ''BUSY''"
| "error_code_to_string QueueFull = ''QUEUE_FULL''"
| "error_code_to_string Retired = ''RETIRED''"
| "error_code_to_string OutcomeUnknown = ''OUTCOME_UNKNOWN''"
| "error_code_to_string Internal = ''INTERNAL''"

definition parse_error_code :: "string \<Rightarrow> ErrorCode option" where
  "parse_error_code text = List.find (\<lambda>c. text = error_code_to_string c) all_error_codes"

interpretation error_names: enum_names all_error_codes error_code_to_string
proof
  show "e \<in> set all_error_codes" for e by (cases e) (simp_all add: all_error_codes_def)
qed (simp add: all_error_codes_def)

record Status =
  code :: ErrorCode
  detail :: string

text \<open>A detail text that is too long or not printable is dropped by the constructor.\<close>

definition status_ok :: Status where
  "status_ok = \<lparr>code = Ok, detail = []\<rparr>"

definition failure :: "ErrorCode \<Rightarrow> string \<Rightarrow> Status" where
  "failure c d = \<lparr>code = c, detail = (case text_parse 192 d of Some t \<Rightarrow> t | None \<Rightarrow> [])\<rparr>"

definition is_ok :: "Status \<Rightarrow> bool" where
  "is_ok s \<longleftrightarrow> code s = Ok"

definition is_failure :: "Status \<Rightarrow> bool" where
  "is_failure s \<longleftrightarrow> code s \<noteq> Ok"

definition status_to_string :: "Status \<Rightarrow> string" where
  "status_to_string s =
     error_code_to_string (code s) @ (if detail s \<noteq> [] then '': '' @ detail s else [])"

lemma code_failure [simp, status_simps]: "code (failure c d) = c"
  by (simp add: failure_def)

lemma code_status_ok [simp, status_simps]: "code status_ok = Ok"
  by (simp add: status_ok_def)

lemma is_ok_status_ok [simp, status_simps]: "is_ok status_ok"
  by (simp add: is_ok_def)

lemma is_ok_failure [simp, status_simps]: "is_ok (failure c d) \<longleftrightarrow> c = Ok"
  by (simp add: is_ok_def)

lemma is_failure_iff [simp, status_simps]: "is_failure s \<longleftrightarrow> \<not> is_ok s"
  by (simp add: is_failure_def is_ok_def)

lemma is_okD: "is_ok s \<Longrightarrow> code s = Ok"
  by (simp add: is_ok_def)

text \<open>The loop that checks each element and returns the first failure.\<close>

fun first_failure :: "('a \<Rightarrow> Status) \<Rightarrow> 'a list \<Rightarrow> Status" where
  "first_failure f [] = status_ok"
| "first_failure f (x # xs) = (let s = f x in if is_failure s then s else first_failure f xs)"

lemma first_failure_ok [simp]: "is_ok (first_failure f xs) \<longleftrightarrow> (\<forall>x\<in>set xs. is_ok (f x))"
  by (induction xs) (auto simp: Let_def)


section \<open>Registries of validated entries\<close>

text \<open>
  Several registries of the fabric store descriptors under a key that is part of the descriptor:
  publishing validates the descriptor, refuses to grow past a bound, and \<open>validate\<close> re-checks the
  whole store.  The contract below is what their clients rely on; each registry interprets it.
\<close>

locale validated_registry =
  fixes entries :: "'r \<Rightarrow> ('k::linorder, 'v) omap"
    and put :: "'r \<Rightarrow> 'v \<Rightarrow> Status \<times> 'r"
    and valid :: "'v \<Rightarrow> Status"
    and key :: "'v \<Rightarrow> 'k"
    and bound :: nat
    and check :: "'r \<Rightarrow> Status"
  assumes put_fails: "\<not> is_ok (fst (put r v)) \<Longrightarrow> snd (put r v) = r"
    and put_ok: "is_ok (fst (put r v)) \<Longrightarrow>
      is_ok (valid v) \<and> entries (snd (put r v)) = om_upd (key v) v (entries r)
      \<and> (om_find (entries r) (key v) = None \<longrightarrow> om_size (entries r) < bound)"
    and check_iff: "is_ok (check r) \<longleftrightarrow> om_size (entries r) \<le> bound
      \<and> (\<forall>(k, v)\<in>set (entries r). k = key v \<and> is_ok (valid v))"
begin

lemma find_valid:
  "is_ok (check r) \<Longrightarrow> om_find (entries r) k = Some v \<Longrightarrow> k = key v \<and> is_ok (valid v)"
  using om_findD [of "entries r" k v] by (auto simp: check_iff)

lemma find_after_put:
  "om_find (entries (snd (put r v))) k =
     (if is_ok (fst (put r v)) \<and> k = key v then Some v else om_find (entries r) k)"
  using put_fails [of r v] put_ok [of r v] by (cases "is_ok (fst (put r v))") auto

lemma put_keeps:
  assumes ok: "om_ok (entries r)" "is_ok (check r)"
  shows "om_ok (entries (snd (put r v))) \<and> is_ok (check (snd (put r v)))"
proof (cases "is_ok (fst (put r v))")
  case True
  from put_ok [OF True] have valid: "is_ok (valid v)"
    and new: "entries (snd (put r v)) = om_upd (key v) v (entries r)"
    and room: "om_find (entries r) (key v) = None \<longrightarrow> om_size (entries r) < bound" by auto
  from ok new have ok': "om_ok (entries (snd (put r v)))" by (simp add: om_ok_upd)
  have "k = key w \<and> is_ok (valid w)" if "(k, w) \<in> set (entries (snd (put r v)))" for k w
  proof -
    have "om_find (entries (snd (put r v))) k = Some w" using that ok' by (simp add: om_in_iff)
    then show ?thesis
      using valid find_valid [OF ok(2), of k w] by (auto simp: find_after_put split: if_splits)
  qed
  moreover have "om_size (entries (snd (put r v))) \<le> bound"
    using room ok by (auto simp: new om_size_upd check_iff)
  ultimately show ?thesis using ok' by (auto simp: check_iff)
qed (simp add: put_fails ok)

end


section \<open>Evidence provenance\<close>

datatype EvidenceClass = Unknown | Real | Synthetic | Unsupported

fun evidence_class_to_string :: "EvidenceClass \<Rightarrow> string" where
  "evidence_class_to_string EvidenceClass.Unknown = ''UNKNOWN''"
| "evidence_class_to_string EvidenceClass.Real = ''REAL''"
| "evidence_class_to_string EvidenceClass.Synthetic = ''SYNTHETIC''"
| "evidence_class_to_string EvidenceClass.Unsupported = ''UNSUPPORTED''"

definition parse_evidence_class :: "string \<Rightarrow> EvidenceClass option" where
  "parse_evidence_class text =
     (if text = ''REAL'' then Some EvidenceClass.Real
      else if text = ''SYNTHETIC'' then Some EvidenceClass.Synthetic
      else if text = ''UNSUPPORTED'' then Some EvidenceClass.Unsupported
      else if text = ''UNKNOWN'' then Some EvidenceClass.Unknown
      else None)"

lemma evidence_class_roundtrip: "parse_evidence_class (evidence_class_to_string e) = Some e"
  by (cases e) (simp_all add: parse_evidence_class_def)

record RequiredEvidence =
  minimum_provenance :: EvidenceClass
  max_age_generations :: u64
  re_description :: string


section \<open>Checked arithmetic\<close>

text \<open>The functions return whether they succeeded and write the result; here \<open>None\<close> is \<open>false\<close>.\<close>

definition checked_add :: "u64 \<Rightarrow> u64 \<Rightarrow> u64 option" where
  "checked_add a b = (if a > kGenerationCeiling - b then None else Some (a + b))"

definition checked_mul :: "u64 \<Rightarrow> u64 \<Rightarrow> u64 option" where
  "checked_mul a b =
     (if a = 0 \<or> b = 0 then Some 0
      else if a > kGenerationCeiling div b then None
      else Some (a * b))"

text \<open>\<open>parse_u64\<close>: \<open>None\<close> when \<open>ok\<close> is left false.\<close>

fun parse_u64_loop :: "u64 \<Rightarrow> string \<Rightarrow> u64 option" where
  "parse_u64_loop value [] = Some value"
| "parse_u64_loop value (c # cs) =
     (if c < CHR ''0'' \<or> c > CHR ''9'' then None
      else let digit = of_nat (of_char c - 48) in
        if value > kGenerationCeiling div 10 then None
        else let value' = value * 10 + digit in
          if value' > kGenerationCeiling then None else parse_u64_loop value' cs)"

definition parse_u64 :: "string \<Rightarrow> u64 option" where
  "parse_u64 text = (if text = [] \<or> length text > 20 then None else parse_u64_loop 0 text)"

lemma unat_minus_ceiling:
  "b \<le> kGenerationCeiling \<Longrightarrow> unat (kGenerationCeiling - b) = unat kGenerationCeiling - unat b"
  by (simp add: unat_sub)

text \<open>
  C35: For an addend that is itself a legal generation (at most the ceiling), checked addition
  succeeds exactly when the mathematical sum stays at or below the ceiling, and then returns it;
  checked multiplication has this property for all operands.
\<close>

theorem checked_arithmetic_exact:
  "(b \<le> kGenerationCeiling \<longrightarrow>
      checked_add a b = (if unat a + unat b \<le> unat kGenerationCeiling
                         then Some (of_nat (unat a + unat b)) else None))
   \<and> checked_mul a b = (if unat a * unat b \<le> unat kGenerationCeiling
                        then Some (of_nat (unat a * unat b)) else None)"
proof
  show "b \<le> kGenerationCeiling \<longrightarrow>
      checked_add a b = (if unat a + unat b \<le> unat kGenerationCeiling
                         then Some (of_nat (unat a + unat b)) else None)"
  proof
    assume b: "b \<le> kGenerationCeiling"
    then have "unat b \<le> unat kGenerationCeiling" by (simp add: word_le_nat_alt)
    then have "a > kGenerationCeiling - b \<longleftrightarrow> \<not> unat a + unat b \<le> unat kGenerationCeiling"
      by (auto simp: word_less_nat_alt unat_minus_ceiling [OF b])
    then show "checked_add a b = (if unat a + unat b \<le> unat kGenerationCeiling
                         then Some (of_nat (unat a + unat b)) else None)"
      by (simp add: checked_add_def)
  qed
  have "a > kGenerationCeiling div b \<longleftrightarrow> \<not> unat a * unat b \<le> unat kGenerationCeiling" if "b \<noteq> 0"
  proof -
    have "0 < unat b" using that by (simp add: unat_gt_0)
    then have "unat a \<le> unat kGenerationCeiling div unat b \<longleftrightarrow> unat a * unat b \<le> unat kGenerationCeiling"
      by (rule less_eq_div_iff_mult_less_eq)
    then show ?thesis unfolding word_less_nat_alt unat_div by linarith
  qed
  then show "checked_mul a b = (if unat a * unat b \<le> unat kGenerationCeiling
                        then Some (of_nat (unat a * unat b)) else None)"
    by (cases "a = 0 \<or> b = 0") (auto simp: checked_mul_def)
qed

theorem checked_arithmetic_exact_witness:
  "(5 :: u64) \<le> kGenerationCeiling \<and> checked_add 7 5 = Some 12
   \<and> checked_add kGenerationCeiling 1 = None \<and> checked_mul 7 5 = Some 35"
proof -
  have five: "(5 :: u64) \<le> kGenerationCeiling" and one: "(1 :: u64) \<le> kGenerationCeiling"
    by (simp_all add: kGenerationCeiling_val)
  have "checked_add 7 5 = Some 12" and "checked_mul 7 5 = Some 35"
    using checked_arithmetic_exact [of 5 7] five by (simp_all add: unat_ceiling)
  moreover have "checked_add kGenerationCeiling 1 = None"
    using checked_arithmetic_exact [of 1 kGenerationCeiling] one by (simp add: unat_ceiling)
  ultimately show ?thesis using five by blast
qed

text \<open>
  Checked addition does not detect overflow when the second operand is the largest 64-bit
  value: the bound \<open>kGenerationCeiling - b\<close> wraps, every first operand is accepted, and the
  returned sum is one less than that operand.
\<close>

theorem checked_add_wraps: "checked_add a 0xFFFFFFFFFFFFFFFF = Some (a - 1)"
proof -
  have top: "kGenerationCeiling - 0xFFFFFFFFFFFFFFFF = (- 1 :: u64)"
    by (simp add: kGenerationCeiling_val)
  have "(0xFFFFFFFFFFFFFFFF :: u64) = - 1" by simp
  then have "a + 0xFFFFFFFFFFFFFFFF = a - 1" by (simp only: add_uminus_conv_diff)
  moreover have "\<not> (- 1 :: u64) < a" by (simp only: not_less word_order.extremum)
  ultimately show ?thesis unfolding checked_add_def top by simp
qed


subsection \<open>Decimal parsing\<close>

lemma parse_u64_loop_append:
  "parse_u64_loop v (xs @ ys) = Option.bind (parse_u64_loop v xs) (\<lambda>w. parse_u64_loop w ys)"
  by (induction v xs rule: parse_u64_loop.induct) (auto simp: Let_def)

lemma parse_u64_loop_digit:
  assumes d: "d < 10" and n: "n * 10 + d \<le> unat kGenerationCeiling"
  shows "parse_u64_loop (of_nat n) [digit_char d] = Some (of_nat (n * 10 + d))"
proof -
  have small: "n \<le> 1844674407370955161" "n * 10 + d < 2 ^ 64"
    using n by (simp_all add: unat_ceiling)
  then have val: "unat (of_nat n :: u64) = n"
    by (simp add: unat_of_nat take_bit_nat_eq_self)
  have sum: "(of_nat n * 10 + of_nat d :: u64) = of_nat (n * 10 + d)" by simp
  have val': "unat (of_nat (n * 10 + d) :: u64) = n * 10 + d"
    using small by (simp only: unat_of_nat) (simp add: take_bit_nat_eq_self)
  have "unat (kGenerationCeiling div 10) = 1844674407370955161"
    by (simp add: unat_div unat_ceiling)
  then have "\<not> kGenerationCeiling div 10 < (of_nat n :: u64)"
    using small val by (simp add: word_less_nat_alt)
  moreover have "\<not> kGenerationCeiling < (of_nat (n * 10 + d) :: u64)"
    using n unfolding word_less_nat_alt val' by (simp only: not_less)
  ultimately show ?thesis
    using digit_char_range [OF d]
    by (simp only: parse_u64_loop.simps Let_def of_char_digit_char [OF d] diff_add_inverse sum
        if_False simp_thms)
qed

lemma parse_u64_loop_dec:
  "n \<le> unat kGenerationCeiling \<Longrightarrow> parse_u64_loop 0 (dec n) = Some (of_nat n)"
proof (induction n rule: dec.induct)
  case (1 n)
  show ?case
  proof (cases "n < 10")
    case True
    with 1 show ?thesis
      using parse_u64_loop_digit [of n 0] by (simp add: dec.simps [of n])
  next
    case False
    with 1 have "parse_u64_loop 0 (dec (n div 10)) = Some (of_nat (n div 10))" by simp
    with False 1 show ?thesis
      using parse_u64_loop_digit [of "n mod 10" "n div 10"]
      by (simp add: dec.simps [of n] parse_u64_loop_append del: parse_u64_loop.simps)
  qed
qed

text \<open>
  Every legal generation value (at most the ceiling) is recovered by \<open>parse_u64\<close> from its
  decimal form.
\<close>

theorem parse_u64_roundtrip: "w \<le> kGenerationCeiling \<Longrightarrow> parse_u64 (dec_u64 w) = Some w"
proof -
  assume "w \<le> kGenerationCeiling"
  then have "parse_u64_loop 0 (dec (unat w)) = Some (of_nat (unat w))"
    by (intro parse_u64_loop_dec) (simp add: word_le_nat_alt)
  moreover have "unat w < 10 ^ 20" using unsigned_less [where 'a = nat, of w] by simp
  then have "length (dec (unat w)) \<le> 20" by (intro dec_length) auto
  ultimately show ?thesis by (simp add: parse_u64_def dec_u64_def)
qed

theorem parse_u64_roundtrip_witness:
  "(4711 :: u64) \<le> kGenerationCeiling \<and> parse_u64 (dec_u64 4711) = Some 4711"
  using parse_u64_roundtrip [of 4711] by (simp add: kGenerationCeiling_val)

text \<open>
  The overflow test of \<open>parse_u64\<close> misses the four decimal numbers from \<open>2^64\<close> to \<open>2^64 + 3\<close>:
  the multiplication step wraps to a small value, which is then accepted.
\<close>

theorem parse_u64_accepts_overflow:
  "parse_u64 ''18446744073709551616'' = Some 0 \<and> parse_u64 ''18446744073709551619'' = Some 3
   \<and> parse_u64 ''18446744073709551620'' = None"
  by (simp add: parse_u64_def kGenerationCeiling_val less_char_def)


section \<open>CRC-32\<close>

definition crc_bit :: "u32 \<Rightarrow> u32" where
  "crc_bit value = (if value AND 1 \<noteq> 0 then drop_bit 1 value XOR 0xEDB88320 else drop_bit 1 value)"

definition kCrcTable :: "u32 list" where
  "kCrcTable = map (\<lambda>i. (crc_bit ^^ 8) (of_nat i)) [0..<256]"

definition crc32 :: "bytes \<Rightarrow> u32" where
  "crc32 bs =
     foldl (\<lambda>crc c. kCrcTable ! unat ((crc XOR ucast c) AND 0xFF) XOR drop_bit 8 crc) 0xFFFFFFFF bs
     XOR 0xFFFFFFFF"

text \<open>The reference: the reflected polynomial division, one bit at a time, without a table.\<close>

definition crc32_serial :: "bytes \<Rightarrow> u32" where
  "crc32_serial bs =
     foldl (\<lambda>crc c. (crc_bit ^^ 8) (crc XOR ucast c)) 0xFFFFFFFF bs XOR 0xFFFFFFFF"

lemma crc_bit_alt: "crc_bit v = drop_bit 1 v XOR (if bit v 0 then 0xEDB88320 else 0)"
proof -
  have "v AND 1 \<noteq> 0 \<longleftrightarrow> bit v 0" by (simp add: and_one_eq bit_0 odd_iff_mod_2_eq_one)
  then show ?thesis by (simp add: crc_bit_def)
qed

lemma crc_bit_xor: "crc_bit (v XOR w) = crc_bit v XOR crc_bit w"
  by (rule bit_word_eqI) (auto simp: crc_bit_alt bit_simps)

lemma crc_bits_xor: "(crc_bit ^^ n) (v XOR w) = (crc_bit ^^ n) v XOR (crc_bit ^^ n) w"
  by (induction n) (simp_all add: crc_bit_xor)

lemma crc_bits_high: "(\<And>i. i < n \<Longrightarrow> \<not> bit v i) \<Longrightarrow> (crc_bit ^^ n) v = drop_bit n v"
proof (induction n)
  case (Suc n)
  then have "(crc_bit ^^ n) v = drop_bit n v" by simp
  moreover have "\<not> bit (drop_bit n v) 0" using Suc.prems [of n] by (simp add: bit_drop_bit_eq)
  ultimately have "crc_bit ((crc_bit ^^ n) v) = drop_bit (Suc n) v"
    by (simp add: crc_bit_alt [of "drop_bit n v"])
  then show ?case by simp
qed simp

lemma crc_table_step:
  "(crc_bit ^^ 8) (crc XOR ucast c) = kCrcTable ! unat ((crc XOR ucast c) AND 0xFF) XOR drop_bit 8 crc"
  for c :: u8
proof -
  define x where "x = crc XOR ucast c"
  have mask: "(0xFF :: u32) = mask 8" by (simp add: mask_eq_exp_minus_1)
  have split: "x = (x AND mask 8) XOR (x AND NOT (mask 8))"
    by (rule bit_word_eqI) (auto simp: bit_simps)
  have "(crc_bit ^^ 8) (x AND NOT (mask 8)) = drop_bit 8 (x AND NOT (mask 8))"
    by (rule crc_bits_high) (simp add: bit_simps)
  also have "\<dots> = drop_bit 8 crc"
    by (rule bit_word_eqI) (auto simp: x_def bit_simps dest: bit_imp_le_length)
  finally have high: "(crc_bit ^^ 8) (x AND NOT (mask 8)) = drop_bit 8 crc" .
  have "unat (x AND 0xFF) < 256"
    using word_and_le1 [of x "0xFF"] by (simp add: word_le_nat_alt)
  then have "kCrcTable ! unat (x AND 0xFF) = (crc_bit ^^ 8) (x AND 0xFF)"
    by (simp add: kCrcTable_def)
  moreover have "(crc_bit ^^ 8) x = (crc_bit ^^ 8) (x AND mask 8) XOR drop_bit 8 crc"
    using high by (subst split) (simp only: crc_bits_xor)
  ultimately show ?thesis unfolding x_def [symmetric] mask by (simp only:)
qed

text \<open>
  C36: The table-driven CRC-32 computes the bit-serial reflected CRC-32 of every byte string.
\<close>

theorem crc32_table_correct: "crc32 bs = crc32_serial bs"
  unfolding crc32_def crc32_serial_def crc_table_step ..

end
