(* ===== verification/Ref_Codec.thy ===== *)
theory Ref_Codec
  imports Ref_Support
begin

unbundle bit_operations_syntax

text \<open>
  The canonical byte encoding and the bounded work queue: \<open>ByteWriter\<close>, \<open>ByteReader\<close> and
  \<open>BoundedQueue\<close> of \<open>include/ref/support.hpp\<close> and \<open>src/support.cpp\<close>.

  \<^item> A writer is the byte string it has produced; each operation of \<open>ByteWriter\<close> is given by the
    bytes it appends, so a sequence of calls is a concatenation.
  \<^item> A reader holds the bytes between the cursor and the end, the number of bytes consumed and the
    sticky failure flag; each operation returns the value read and the new reader.
  \<^item> The contract between the two directions is the interface \<open>codec\<close>: what was written is read
    back, a failed reader stays failed and never moves, and the cursor only moves forward inside
    the buffer.  It is interpreted on every primitive and closed under pairing and under
    repetition.
  \<^item> The queue is shown to be first-in-first-out without loss or duplication of accepted items,
    bounded, and to account for every offer.
\<close>

section \<open>Bytes and characters\<close>

definition bytes_of :: "string \<Rightarrow> bytes" where
  "bytes_of s = map (\<lambda>c. of_nat (of_char c)) s"

definition string_of :: "bytes \<Rightarrow> string" where
  "string_of bs = map (\<lambda>b. char_of (unat b)) bs"

lemma string_of_bytes_of [simp]: "string_of (bytes_of s) = s"
proof -
  have "char_of (unat (of_nat (of_char c) :: u8)) = c" for c
    by (simp add: unat_of_nat)
  then show ?thesis by (simp add: string_of_def bytes_of_def comp_def)
qed

lemma length_bytes_of [simp]: "length (bytes_of s) = length s"
  by (simp add: bytes_of_def)

lemma length_string_of [simp]: "length (string_of bs) = length bs"
  by (simp add: string_of_def)

lemma bytes_of_string_of [simp]: "bytes_of (string_of bs) = bs"
proof -
  have "(of_nat (of_char (char_of (unat b) :: char)) :: u8) = b" for b :: u8
  proof -
    have "unat b < 256" using unsigned_less [where 'a = nat, of b] by simp
    then show ?thesis by (simp add: of_char_of)
  qed
  then show ?thesis by (simp add: string_of_def bytes_of_def comp_def)
qed


section \<open>ByteWriter\<close>

definition write_le :: "u64 \<Rightarrow> nat \<Rightarrow> bytes" where
  "write_le value width = map (\<lambda>i. ucast (drop_bit (8 * i) value AND 0xFF)) [0..<width]"

definition put_u8 :: "u8 \<Rightarrow> bytes" where "put_u8 v = [v]"
definition put_u16 :: "u16 \<Rightarrow> bytes" where "put_u16 v = write_le (ucast v) 2"
definition put_u32 :: "u32 \<Rightarrow> bytes" where "put_u32 v = write_le (ucast v) 4"
definition put_u64 :: "u64 \<Rightarrow> bytes" where "put_u64 v = write_le v 8"
definition put_boolean :: "bool \<Rightarrow> bytes" where "put_boolean b = put_u8 (if b then 1 else 0)"

text \<open>\<open>text\<close> writes at most \<open>max_length\<close> bytes, prefixed with their number.\<close>

definition put_blob :: "nat \<Rightarrow> bytes \<Rightarrow> bytes" where
  "put_blob max_length value =
     (let len = (if length value > max_length then max_length else length value)
      in put_u32 (of_nat len) @ take len value)"

definition put_text :: "nat \<Rightarrow> string \<Rightarrow> bytes" where
  "put_text max_length value = put_blob max_length (bytes_of value)"

definition put_ident :: "nat \<Rightarrow> ident \<Rightarrow> bytes" where
  "put_ident capacity value = put_text capacity value"

definition put_digest :: "IntegrityDigest \<Rightarrow> bytes" where
  "put_digest d = put_u64 (digest_a d) @ put_u64 (digest_b d)"

definition put_generation :: "gen \<Rightarrow> bytes" where
  "put_generation g = put_u64 g"

definition patch_u32 :: "bytes \<Rightarrow> nat \<Rightarrow> u32 \<Rightarrow> bytes" where
  "patch_u32 bs offset value =
     (if offset + 4 > length bs then bs
      else foldl (\<lambda>out i. out[offset + i := ucast (drop_bit (8 * i) value AND 0xFF)]) bs [0..<4])"


section \<open>ByteReader\<close>

record ByteReader =
  rest :: bytes
  consumed :: nat
  failed :: bool

definition reader :: "bytes \<Rightarrow> ByteReader" where
  "reader bs = \<lparr>rest = bs, consumed = 0, failed = False\<rparr>"

definition advance :: "nat \<Rightarrow> ByteReader \<Rightarrow> ByteReader" where
  "advance n r = r\<lparr>rest := drop n (rest r), consumed := consumed r + n\<rparr>"

definition fail_reader :: "ByteReader \<Rightarrow> ByteReader" where
  "fail_reader r = r\<lparr>failed := True\<rparr>"

definition at_end :: "ByteReader \<Rightarrow> bool" where
  "at_end r \<longleftrightarrow> rest r = []"

definition need :: "nat \<Rightarrow> ByteReader \<Rightarrow> bool \<times> ByteReader" where
  "need count r =
     (if failed r then (False, r)
      else if length (rest r) < count then (False, fail_reader r)
      else (True, r))"

text \<open>The loop \<open>value |= byte << (8 * i)\<close>, on the bytes from index \<open>i\<close> on.\<close>

fun le_loop :: "nat \<Rightarrow> 'a::len word \<Rightarrow> bytes \<Rightarrow> 'a word" where
  "le_loop i value [] = value"
| "le_loop i value (b # bs) = le_loop (Suc i) (value OR push_bit (8 * i) (ucast b)) bs"

definition get_le :: "nat \<Rightarrow> ByteReader \<Rightarrow> 'a::len word \<times> ByteReader" where
  "get_le width r =
     (let (enough, r) = need width r in
      if \<not> enough then (0, r) else (le_loop 0 0 (take width (rest r)), advance width r))"

definition get_u8 :: "ByteReader \<Rightarrow> u8 \<times> ByteReader" where
  "get_u8 r =
     (let (enough, r) = need 1 r in if \<not> enough then (0, r) else (hd (rest r), advance 1 r))"

definition get_u16 :: "ByteReader \<Rightarrow> u16 \<times> ByteReader" where "get_u16 = get_le 2"
definition get_u32 :: "ByteReader \<Rightarrow> u32 \<times> ByteReader" where "get_u32 = get_le 4"
definition get_u64 :: "ByteReader \<Rightarrow> u64 \<times> ByteReader" where "get_u64 = get_le 8"

definition get_boolean :: "ByteReader \<Rightarrow> bool \<times> ByteReader" where
  "get_boolean r = (let (v, r) = get_u8 r in (v \<noteq> 0, r))"

definition skip_bytes :: "nat \<Rightarrow> ByteReader \<Rightarrow> bool \<times> ByteReader" where
  "skip_bytes count r =
     (let (enough, r) = need count r in if \<not> enough then (False, r) else (True, advance count r))"

definition get_bytes :: "nat \<Rightarrow> ByteReader \<Rightarrow> bytes \<times> ByteReader" where
  "get_bytes max_length r =
     (let (len, r) = get_u32 r in
      if failed r then ([], r)
      else if unat len > max_length then ([], fail_reader r)
      else let (enough, r) = need (unat len) r in
        if \<not> enough then ([], fail_reader r)
        else (take (unat len) (rest r), advance (unat len) r))"

definition get_digest :: "ByteReader \<Rightarrow> IntegrityDigest \<times> ByteReader" where
  "get_digest r =
     (let (a, r) = get_u64 r; (b, r) = get_u64 r in (\<lparr>digest_a = a, digest_b = b\<rparr>, r))"

definition get_generation :: "ByteReader \<Rightarrow> gen \<times> ByteReader" where
  "get_generation = get_u64"

definition get_ident :: "nat \<Rightarrow> ByteReader \<Rightarrow> ident \<times> ByteReader" where
  "get_ident capacity r =
     (let (raw, r) = get_bytes capacity r in
      if failed r then ([], r)
      else if raw = [] then ([], r)
      else case ident_parse capacity (string_of raw) of
          None \<Rightarrow> ([], fail_reader r)
        | Some parsed \<Rightarrow> (parsed, r))"

definition get_text :: "nat \<Rightarrow> ByteReader \<Rightarrow> string \<times> ByteReader" where
  "get_text capacity r =
     (let (raw, r) = get_bytes capacity r in
      if failed r then ([], r)
      else case text_parse capacity (string_of raw) of
          None \<Rightarrow> ([], fail_reader r)
        | Some parsed \<Rightarrow> (parsed, r))"


section \<open>The contract of a codec\<close>

locale codec =
  fixes put :: "'a \<Rightarrow> bytes"
    and get :: "ByteReader \<Rightarrow> 'a \<times> ByteReader"
    and valid :: "'a \<Rightarrow> bool"
  assumes get_put: "valid v \<Longrightarrow> \<not> failed r \<Longrightarrow> rest r = put v @ xs \<Longrightarrow>
      get r = (v, r\<lparr>rest := xs, consumed := consumed r + length (put v)\<rparr>)"
    and sticky: "failed r \<Longrightarrow> snd (get r) = r"
    and forward: "\<exists>k\<le>length (rest r). rest (snd (get r)) = drop k (rest r)
                    \<and> consumed (snd (get r)) = consumed r + k"
    and truncated: "valid v \<Longrightarrow> k < length (put v) \<Longrightarrow> rest r = take k (put v) \<Longrightarrow>
      failed (snd (get r))"
begin

lemma get_put_reader: "valid v \<Longrightarrow> fst (get (reader (put v @ xs))) = v"
  by (subst get_put [where v = v and xs = xs]) (simp_all add: reader_def)

lemma unique_decoding: "valid v \<Longrightarrow> valid w \<Longrightarrow> put v = put w \<Longrightarrow> v = w"
  using get_put_reader [of v "[]"] get_put_reader [of w "[]"] by simp

lemma prefix_free: "valid v \<Longrightarrow> valid w \<Longrightarrow> put v @ xs = put w @ ys \<Longrightarrow> v = w \<and> xs = ys"
  using get_put_reader [of v xs] get_put_reader [of w ys] by auto

lemma bounded: "consumed (snd (get r)) + length (rest (snd (get r))) = consumed r + length (rest r)"
  using forward [of r] by auto

end


section \<open>The primitives are codecs\<close>

lemma bit_le_loop:
  "bit (le_loop i v bs :: 'a::len word) n \<longleftrightarrow>
     bit v n \<or> (n < LENGTH('a) \<and> 8 * i \<le> n \<and> n < 8 * (i + length bs)
                \<and> bit (bs ! (n div 8 - i)) (n mod 8))"
proof (induction i v bs rule: le_loop.induct)
  case (2 i v b bs)
  have here: "bit b (n - 8 * i) \<longleftrightarrow> n < 8 * Suc i \<and> bit b (n mod 8)" if "8 * i \<le> n"
  proof (cases "n < 8 * Suc i")
    case True
    with that have "n - 8 * i = n mod 8" by (metis add_diff_cancel_left' div_nat_eqI mult.commute mult_div_mod_eq)
    with True show ?thesis by simp
  next
    case False
    then have "\<not> bit b (n - 8 * i)" using bit_imp_le_length [of b "n - 8 * i"] by auto
    with False show ?thesis by simp
  qed
  have index: "n div 8 - i = (if n < 8 * Suc i then 0 else Suc (n div 8 - Suc i))" if "8 * i \<le> n"
    using that by auto
  show ?case
    unfolding le_loop.simps "2.IH"
    using here index by (cases "8 * i \<le> n") (auto simp: bit_simps)
qed auto

lemma bit_byte_mask: "bit (0xFF :: u64) n \<longleftrightarrow> n < 8"
proof -
  have "(0xFF :: u64) = mask 8" by (simp add: mask_eq_exp_minus_1)
  then show ?thesis by (simp only: bit_simps) auto
qed

lemma le_loop_write_le:
  assumes "8 * width = LENGTH('a)" and "LENGTH('a) \<le> 64"
  shows "le_loop 0 0 (write_le (ucast w) width) = (w :: 'a::len word)"
proof (rule bit_word_eqI)
  fix n assume n: "n < LENGTH('a)"
  with assms have idx: "n div 8 < width" by linarith
  then have "write_le (ucast w) width ! (n div 8) = ucast (drop_bit (8 * (n div 8)) (ucast w :: u64) AND 0xFF)"
    by (simp add: write_le_def)
  then have "bit (write_le (ucast w) width ! (n div 8)) (n mod 8) = bit w n"
    using n assms by (simp only: bit_simps bit_byte_mask) (auto simp: mult_div_mod_eq bit_simps)
  with n assms show "bit (le_loop 0 0 (write_le (ucast w) width) :: 'a word) n = bit w n"
    by (simp add: bit_le_loop) (simp add: write_le_def)
qed

lemma length_write_le [simp]: "length (write_le w n) = n"
  by (simp add: write_le_def)

lemma length_put_u16 [simp]: "length (put_u16 v) = 2" by (simp add: put_u16_def)
lemma length_put_u32 [simp]: "length (put_u32 v) = 4" by (simp add: put_u32_def)
lemma length_put_u64 [simp]: "length (put_u64 v) = 8" by (simp add: put_u64_def)

lemma advance_append: "rest r = bs @ xs \<Longrightarrow> n = length bs \<Longrightarrow>
    advance n r = r\<lparr>rest := xs, consumed := consumed r + n\<rparr>"
  by (simp add: advance_def)

lemma get_le_cases:
  "get_le width r =
     (if failed r then (0, r)
      else if length (rest r) < width then (0, fail_reader r)
      else (le_loop 0 0 (take width (rest r)), advance width r))"
  by (simp add: get_le_def need_def)

text \<open>A fixed-width little-endian field satisfies the contract.\<close>

lemma codec_le:
  fixes pt :: "'a::len word \<Rightarrow> bytes"
  assumes "8 * width = LENGTH('a)" and "LENGTH('a) \<le> 64"
    and pt: "pt = (\<lambda>v. write_le (ucast v) width)"
  shows "codec pt (get_le width) (\<lambda>_. True)"
proof
  fix v :: "'a word" and r :: ByteReader and xs
  assume "\<not> failed r" and "rest r = pt v @ xs"
  then show "get_le width r = (v, r\<lparr>rest := xs, consumed := consumed r + length (pt v)\<rparr>)"
    using le_loop_write_le [OF assms(1,2), of v]
    by (simp add: get_le_cases pt advance_append [of _ "write_le (ucast v) width"])
next
  fix r :: ByteReader
  show "\<exists>k\<le>length (rest r). rest (snd (get_le width r :: 'a word \<times> _)) = drop k (rest r)
      \<and> consumed (snd (get_le width r :: 'a word \<times> _)) = consumed r + k"
    by (auto simp: get_le_cases advance_def fail_reader_def intro: exI [of _ 0])
qed (auto simp: get_le_cases pt fail_reader_def)

interpretation c_u16: codec put_u16 get_u16 "\<lambda>_. True"
  unfolding get_u16_def by (rule codec_le) (auto simp: put_u16_def)

interpretation c_u32: codec put_u32 get_u32 "\<lambda>_. True"
  unfolding get_u32_def by (rule codec_le) (auto simp: put_u32_def)

interpretation c_u64: codec put_u64 get_u64 "\<lambda>_. True"
  unfolding get_u64_def by (rule codec_le) (auto simp: put_u64_def)

interpretation c_u8: codec put_u8 get_u8 "\<lambda>_. True"
proof
  fix r :: ByteReader
  show "\<exists>k\<le>length (rest r). rest (snd (get_u8 r)) = drop k (rest r)
      \<and> consumed (snd (get_u8 r)) = consumed r + k"
    by (cases "rest r")
      (auto simp: get_u8_def need_def advance_def fail_reader_def intro: exI [of _ 0] exI [of _ 1])
qed (auto simp: get_u8_def put_u8_def need_def advance_def fail_reader_def)

text \<open>Length-prefixed byte strings.\<close>

lemma get_u32_cases:
  "get_u32 r =
     (if failed r then (0, r)
      else if length (rest r) < 4 then (0, fail_reader r)
      else (le_loop 0 0 (take 4 (rest r)), advance 4 r))"
  by (simp add: get_u32_def get_le_cases)

definition blob_ok :: "nat \<Rightarrow> bytes \<Rightarrow> bool" where
  "blob_ok cap bs \<longleftrightarrow> length bs \<le> cap \<and> length bs < 2 ^ 32"

lemma put_blob_ok: "blob_ok cap bs \<Longrightarrow> put_blob cap bs = put_u32 (of_nat (length bs)) @ bs"
  by (simp add: blob_ok_def put_blob_def)

lemma blob_length: "blob_ok cap bs \<Longrightarrow> unat (of_nat (length bs) :: u32) = length bs"
  by (simp add: blob_ok_def unat_of_nat)

lemma get_bytes_forward:
  "\<exists>k\<le>length (rest r). rest (snd (get_bytes cap r)) = drop k (rest r)
     \<and> consumed (snd (get_bytes cap r)) = consumed r + k"
proof -
  obtain len r' where r': "get_u32 r = (len, r')" by fastforce
  obtain k where k: "k \<le> length (rest r)" "rest r' = drop k (rest r)" "consumed r' = consumed r + k"
    using c_u32.forward [of r] r' by auto
  show ?thesis
  proof (cases "failed r' \<or> unat len > cap \<or> length (rest r') < unat len")
    case True
    then have "rest (snd (get_bytes cap r)) = rest r'" "consumed (snd (get_bytes cap r)) = consumed r'"
      by (auto simp: get_bytes_def r' need_def fail_reader_def)
    with k show ?thesis by auto
  next
    case False
    then have "snd (get_bytes cap r) = advance (unat len) r'"
      by (auto simp: get_bytes_def r' need_def)
    with False k show ?thesis by (intro exI [of _ "k + unat len"]) (auto simp: advance_def add.commute)
  qed
qed

lemma get_bytes_put:
  assumes "blob_ok cap bs" and "\<not> failed r" and "rest r = put_blob cap bs @ xs"
  shows "get_bytes cap r = (bs, r\<lparr>rest := xs, consumed := consumed r + length (put_blob cap bs)\<rparr>)"
proof -
  have "get_u32 r = (of_nat (length bs), r\<lparr>rest := bs @ xs, consumed := consumed r + 4\<rparr>)"
    using assms by (subst c_u32.get_put [where v = "of_nat (length bs)" and xs = "bs @ xs"]) (simp_all add: put_blob_ok)
  moreover have "length bs \<le> cap" using assms(1) by (simp add: blob_ok_def)
  ultimately show ?thesis
    using assms(2) by (simp add: get_bytes_def need_def blob_length [OF assms(1)] put_blob_ok [OF assms(1)]
        advance_def add.assoc)
qed

lemma get_bytes_truncated:
  assumes "blob_ok cap bs" and "k < length (put_blob cap bs)" and "rest r = take k (put_blob cap bs)"
  shows "failed (snd (get_bytes cap r))"
proof (cases "failed r \<or> k < 4")
  case True
  then have "failed (snd (get_u32 r))"
    using assms by (auto simp: get_u32_cases fail_reader_def)
  then show ?thesis by (auto simp: get_bytes_def split: prod.splits)
next
  case False
  with assms have "rest r = put_u32 (of_nat (length bs)) @ take (k - 4) bs" by (simp add: put_blob_ok)
  then have "get_u32 r = (of_nat (length bs), r\<lparr>rest := take (k - 4) bs, consumed := consumed r + 4\<rparr>)"
    using False by (subst c_u32.get_put [where v = "of_nat (length bs)" and xs = "take (k - 4) bs"]) simp_all
  moreover have "length (take (k - 4) bs) < length bs" using assms False by (auto simp: put_blob_ok)
  ultimately show ?thesis
    using False assms(1) by (auto simp: get_bytes_def need_def blob_length blob_ok_def fail_reader_def)
qed

interpretation c_blob: codec "put_blob cap" "get_bytes cap" "blob_ok cap" for cap
proof
  show "snd (get_bytes cap r) = r" if "failed r" for r
    using that by (simp add: get_bytes_def get_u32_cases)
qed (use get_bytes_put get_bytes_forward get_bytes_truncated in blast)+

text \<open>
  A field that is a length-prefixed byte string followed by a validity test of the bytes read; both
  \<open>text<Capacity>()\<close> and \<open>ident<Tag, Capacity>()\<close> have this shape.
\<close>

locale checked_blob =
  fixes cap :: nat
    and put :: "string \<Rightarrow> bytes"
    and get :: "ByteReader \<Rightarrow> string \<times> ByteReader"
    and check :: "string \<Rightarrow> bool"
  assumes put_shape: "put s = put_blob cap (bytes_of s)"
    and get_shape: "get r =
      (let (raw, r') = get_bytes cap r in
       if failed r' then ([], r')
       else if check (string_of raw) then (string_of raw, r') else ([], fail_reader r'))"
begin

lemma is_codec: "codec put get (\<lambda>s. blob_ok cap (bytes_of s) \<and> check s)"
proof
  fix v xs and r :: ByteReader assume "blob_ok cap (bytes_of v) \<and> check v" and "\<not> failed r" and "rest r = put v @ xs"
  then show "get r = (v, r\<lparr>rest := xs, consumed := consumed r + length (put v)\<rparr>)"
    using get_bytes_put [of cap "bytes_of v" r xs] by (simp add: put_shape get_shape)
next
  fix r :: ByteReader assume "failed r"
  then show "snd (get r) = r" using c_blob.sticky [of r cap] by (auto simp: get_shape split: prod.splits)
next
  fix r :: ByteReader
  show "\<exists>k\<le>length (rest r). rest (snd (get r)) = drop k (rest r) \<and> consumed (snd (get r)) = consumed r + k"
    using get_bytes_forward [of r cap] by (auto simp: get_shape fail_reader_def split: prod.splits)
next
  fix v k and r :: ByteReader assume "blob_ok cap (bytes_of v) \<and> check v" "k < length (put v)" "rest r = take k (put v)"
  then show "failed (snd (get r))"
    using get_bytes_truncated [of cap "bytes_of v" k r] by (auto simp: put_shape get_shape split: prod.splits)
qed

end

interpretation text_field: checked_blob cap "put_text cap" "get_text cap" "\<lambda>s. text_parse cap s \<noteq> None" for cap
proof
  show "get_text cap r =
      (let (raw, r') = get_bytes cap r in
       if failed r' then ([], r')
       else if text_parse cap (string_of raw) \<noteq> None then (string_of raw, r') else ([], fail_reader r'))" for r
    by (auto simp: get_text_def Let_def text_parse_def split: prod.splits option.splits)
qed (simp add: put_text_def)

interpretation ident_field: checked_blob cap "put_ident cap" "get_ident cap"
    "\<lambda>s. s = [] \<or> ident_parse cap s \<noteq> None" for cap
proof
  show "get_ident cap r =
      (let (raw, r') = get_bytes cap r in
       if failed r' then ([], r')
       else if string_of raw = [] \<or> ident_parse cap (string_of raw) \<noteq> None then (string_of raw, r')
       else ([], fail_reader r'))" for r
    by (auto simp: get_ident_def Let_def ident_parse_def string_of_def split: prod.splits option.splits)
qed (simp add: put_ident_def put_text_def)

interpretation c_text: codec "put_text cap" "get_text cap"
    "\<lambda>s. blob_ok cap (bytes_of s) \<and> text_parse cap s \<noteq> None" for cap
  by (rule text_field.is_codec)

interpretation c_ident: codec "put_ident cap" "get_ident cap"
    "\<lambda>s. blob_ok cap (bytes_of s) \<and> (s = [] \<or> ident_parse cap s \<noteq> None)" for cap
  by (rule ident_field.is_codec)


section \<open>Composite codecs\<close>

definition get_pair :: "(ByteReader \<Rightarrow> 'a \<times> ByteReader) \<Rightarrow> (ByteReader \<Rightarrow> 'b \<times> ByteReader)
    \<Rightarrow> ByteReader \<Rightarrow> ('a \<times> 'b) \<times> ByteReader" where
  "get_pair g h r = (let (a, r) = g r; (b, r) = h r in ((a, b), r))"

definition put_pair :: "('a \<Rightarrow> bytes) \<Rightarrow> ('b \<Rightarrow> bytes) \<Rightarrow> 'a \<times> 'b \<Rightarrow> bytes" where
  "put_pair p q ab = p (fst ab) @ q (snd ab)"

locale codec_pair = one: codec put1 get1 valid1 + two: codec put2 get2 valid2
  for put1 :: "'a \<Rightarrow> bytes" and get1 valid1 and put2 :: "'b \<Rightarrow> bytes" and get2 valid2
begin

lemma pair_forward:
  "\<exists>k\<le>length (rest r). rest (snd (get_pair get1 get2 r)) = drop k (rest r)
     \<and> consumed (snd (get_pair get1 get2 r)) = consumed r + k" for r :: ByteReader
proof -
  obtain a r1 where a: "get1 r = (a, r1)" by fastforce
  obtain b r2 where b: "get2 r1 = (b, r2)" by fastforce
  obtain k where k: "k \<le> length (rest r)" "rest r1 = drop k (rest r)" "consumed r1 = consumed r + k"
    using one.forward [of r] a by auto
  obtain l where l: "l \<le> length (rest r1)" "rest r2 = drop l (rest r1)" "consumed r2 = consumed r1 + l"
    using two.forward [of r1] b by auto
  have "snd (get_pair get1 get2 r) = r2" by (simp add: get_pair_def a b)
  with k l show ?thesis by (intro exI [of _ "k + l"]) (auto simp: add.commute)
qed

lemma pair_truncated:
  assumes "valid1 a" "valid2 b" and k: "k < length (put1 a @ put2 b)" and r: "rest r = take k (put1 a @ put2 b)"
  shows "failed (snd (get_pair get1 get2 r))"
proof (cases "failed r \<or> k < length (put1 a)")
  case True
  with r have "failed (snd (get1 r))"
    using one.sticky [of r] one.truncated [OF assms(1), of k r] by auto
  then show ?thesis
    using two.sticky [of "snd (get1 r)"] by (auto simp: get_pair_def split: prod.splits)
next
  case False
  define k' where "k' = k - length (put1 a)"
  have "rest r = put1 a @ take k' (put2 b)" and "k' < length (put2 b)"
    using False k r by (auto simp: k'_def)
  moreover from this have "get1 r =
      (a, r\<lparr>rest := take k' (put2 b), consumed := consumed r + length (put1 a)\<rparr>)"
    using False assms(1) by (intro one.get_put) auto
  ultimately show ?thesis
    using two.truncated [OF assms(2), of k' "snd (get1 r)"] by (auto simp: get_pair_def split: prod.splits)
qed

lemma pair_codec:
  "codec (put_pair put1 put2) (get_pair get1 get2) (\<lambda>ab. valid1 (fst ab) \<and> valid2 (snd ab))"
proof
  fix v xs and r :: ByteReader
  assume v: "valid1 (fst v) \<and> valid2 (snd v)" and r: "\<not> failed r" "rest r = put_pair put1 put2 v @ xs"
  then have "get1 r = (fst v, r\<lparr>rest := put2 (snd v) @ xs, consumed := consumed r + length (put1 (fst v))\<rparr>)"
    by (intro one.get_put) (simp_all add: put_pair_def)
  with v r show "get_pair get1 get2 r = (v, r\<lparr>rest := xs, consumed := consumed r + length (put_pair put1 put2 v)\<rparr>)"
    by (simp add: get_pair_def put_pair_def two.get_put [where v = "snd v" and xs = xs] add.assoc)
next
  fix r :: ByteReader assume "failed r"
  then show "snd (get_pair get1 get2 r) = r"
    using one.sticky [of r] two.sticky [of r] by (auto simp: get_pair_def split: prod.splits)
qed (use pair_forward pair_truncated in \<open>auto simp: put_pair_def\<close>)

end

text \<open>A record is encoded through the tuple of its fields.\<close>

locale codec_iso = base: codec put get valid
  for put :: "'a \<Rightarrow> bytes" and get valid +
  fixes enc :: "'c \<Rightarrow> 'a" and dec' :: "'a \<Rightarrow> 'c" and put' :: "'c \<Rightarrow> bytes"
    and get' :: "ByteReader \<Rightarrow> 'c \<times> ByteReader"
  assumes put'_shape: "put' c = put (enc c)"
    and get'_shape: "get' r = (let (a, r') = get r in (dec' a, r'))"
    and inverse: "dec' (enc c) = c"
begin

lemma iso_codec: "codec put' get' (\<lambda>c. valid (enc c))"
proof
  fix v xs and r :: ByteReader
  assume "valid (enc v)" and "\<not> failed r" and "rest r = put' v @ xs"
  then show "get' r = (v, r\<lparr>rest := xs, consumed := consumed r + length (put' v)\<rparr>)"
    using base.get_put [of "enc v" r xs] by (simp add: put'_shape get'_shape inverse)
next
  fix r :: ByteReader
  show "\<exists>k\<le>length (rest r). rest (snd (get' r)) = drop k (rest r) \<and> consumed (snd (get' r)) = consumed r + k"
    using base.forward [of r] by (cases "get r") (simp add: get'_shape)
next
  have snd_get': "snd (get' r) = snd (get r)" for r :: ByteReader
    by (cases "get r") (simp add: get'_shape)
  fix r :: ByteReader
  show "snd (get' r) = r" if "failed r" using base.sticky [OF that] by (simp add: snd_get')
  fix v k
  show "failed (snd (get' r))" if "valid (enc v)" "k < length (put' v)" "rest r = take k (put' v)"
    using that base.truncated by (simp add: snd_get' put'_shape)
qed

end

interpretation digest_words: codec_pair put_u64 get_u64 "\<lambda>_. True" put_u64 get_u64 "\<lambda>_. True"
  by unfold_locales

interpretation digest_fields: codec_iso "put_pair put_u64 put_u64" "get_pair get_u64 get_u64"
    "\<lambda>ab. True \<and> True" "\<lambda>d. (digest_a d, digest_b d)" "\<lambda>(a, b). \<lparr>digest_a = a, digest_b = b\<rparr>"
    put_digest get_digest
  by (intro codec_iso.intro digest_words.pair_codec codec_iso_axioms.intro)
    (auto simp: put_digest_def put_pair_def get_digest_def get_pair_def split: prod.splits)

interpretation c_digest: codec put_digest get_digest "\<lambda>_. True"
  using digest_fields.iso_codec by simp

text \<open>A counted sequence of fields, read until the count is reached.\<close>

fun get_many :: "(ByteReader \<Rightarrow> 'a \<times> ByteReader) \<Rightarrow> nat \<Rightarrow> ByteReader \<Rightarrow> 'a list \<times> ByteReader" where
  "get_many g 0 r = ([], r)"
| "get_many g (Suc n) r = (let (a, r) = g r; (as, r) = get_many g n r in (a # as, r))"

context codec
begin

lemma get_many_put:
  "\<forall>v\<in>set vs. valid v \<Longrightarrow> \<not> failed r \<Longrightarrow> rest r = concat (map put vs) @ xs \<Longrightarrow>
   get_many get (length vs) r =
     (vs, r\<lparr>rest := xs, consumed := consumed r + length (concat (map put vs))\<rparr>)"
proof (induction vs arbitrary: r)
  case (Cons v vs)
  then have "get r = (v, r\<lparr>rest := concat (map put vs) @ xs, consumed := consumed r + length (put v)\<rparr>)"
    by (intro get_put) auto
  with Cons show ?case by (simp add: add.assoc)
qed simp

end

section \<open>Canonical codecs\<close>

text \<open>
  The converse direction: where the reader does not fail, the bytes it consumed are exactly the
  encoding of the value it returned, so a value has a single accepted representation.
\<close>

locale canonical_codec = codec put get valid
  for put :: "'a \<Rightarrow> bytes" and get valid +
  assumes canonical: "\<not> failed (snd (get r)) \<Longrightarrow>
      valid (fst (get r)) \<and> rest r = put (fst (get r)) @ rest (snd (get r))"
begin

lemma accepted_prefix: "get r = (v, r') \<Longrightarrow> \<not> failed r' \<Longrightarrow> valid v \<and> rest r = put v @ rest r'"
  using canonical [of r] by simp

end

lemma write_le_le_loop:
  fixes bs :: bytes
  assumes "length bs = width" and "8 * width = LENGTH('a)" and "LENGTH('a) \<le> 64"
  shows "write_le (ucast (le_loop 0 0 bs :: 'a::len word)) width = bs"
proof (rule nth_equalityI)
  fix i assume "i < length (write_le (ucast (le_loop 0 0 bs :: 'a word)) width)"
  then have i: "i < width" by simp
  show "write_le (ucast (le_loop 0 0 bs :: 'a word)) width ! i = bs ! i"
  proof (rule bit_word_eqI)
    fix n assume "n < LENGTH(8)"
    then have n: "n < 8" by simp
    then have "(8 * i + n) div 8 = i" "(8 * i + n) mod 8 = n" by auto
    moreover have "bit (255 :: u8) n"
    proof -
      have "(255 :: u8) = mask 8" by (simp add: mask_eq_exp_minus_1)
      with n show ?thesis by (simp only: bit_mask_iff) simp
    qed
    ultimately show "bit (write_le (ucast (le_loop 0 0 bs :: 'a word)) width ! i) n = bit (bs ! i) n"
      using n i assms by (simp add: write_le_def bit_simps bit_byte_mask bit_le_loop)
  qed
qed (simp add: assms)

lemma canonical_le:
  fixes pt :: "'a::len word \<Rightarrow> bytes"
  assumes "8 * width = LENGTH('a)" and "LENGTH('a) \<le> 64"
    and pt: "pt = (\<lambda>v. write_le (ucast v) width)"
  shows "canonical_codec pt (get_le width) (\<lambda>_. True)"
proof (intro canonical_codec.intro codec_le [OF assms] canonical_codec_axioms.intro)
  fix r :: ByteReader assume "\<not> failed (snd (get_le width r :: 'a word \<times> _))"
  then show "True \<and> rest r = pt (fst (get_le width r)) @ rest (snd (get_le width r :: 'a word \<times> _))"
    using write_le_le_loop [OF _ assms(1,2), of "take width (rest r)"]
    by (auto simp: get_le_cases pt fail_reader_def advance_def split: if_splits)
qed

interpretation cc_u16: canonical_codec put_u16 get_u16 "\<lambda>_. True"
  unfolding get_u16_def by (rule canonical_le) (auto simp: put_u16_def)

interpretation cc_u32: canonical_codec put_u32 get_u32 "\<lambda>_. True"
  unfolding get_u32_def by (rule canonical_le) (auto simp: put_u32_def)

interpretation cc_u64: canonical_codec put_u64 get_u64 "\<lambda>_. True"
  unfolding get_u64_def by (rule canonical_le) (auto simp: put_u64_def)

interpretation cc_u8: canonical_codec put_u8 get_u8 "\<lambda>_. True"
proof
  fix r :: ByteReader assume "\<not> failed (snd (get_u8 r))"
  then show "True \<and> rest r = put_u8 (fst (get_u8 r)) @ rest (snd (get_u8 r))"
    by (cases "rest r") (auto simp: get_u8_def put_u8_def need_def advance_def fail_reader_def split: if_splits)
qed

lemma get_bytes_canonical:
  assumes ok: "\<not> failed (snd (get_bytes cap r))"
  shows "blob_ok cap (fst (get_bytes cap r)) \<and>
    rest r = put_blob cap (fst (get_bytes cap r)) @ rest (snd (get_bytes cap r))"
proof -
  obtain len r1 where len: "get_u32 r = (len, r1)" by fastforce
  with ok have f1: "\<not> failed r1" "unat len \<le> cap" "unat len \<le> length (rest r1)"
    by (auto simp: get_bytes_def need_def fail_reader_def split: if_splits)
  with cc_u32.accepted_prefix [OF len] have "rest r = put_u32 len @ rest r1" by simp
  moreover from f1 len have "get_bytes cap r = (take (unat len) (rest r1), advance (unat len) r1)"
    by (simp add: get_bytes_def need_def)
  moreover have "unat len < 2 ^ 32" using unsigned_less [where 'a = nat, of len] by simp
  ultimately show ?thesis
    using f1 put_blob_ok [of cap "take (unat len) (rest r1)"]
    by (simp add: blob_ok_def advance_def)
qed

interpretation cc_blob: canonical_codec "put_blob cap" "get_bytes cap" "blob_ok cap" for cap
  by unfold_locales (rule get_bytes_canonical)

context checked_blob
begin

lemma is_canonical: "canonical_codec put get (\<lambda>s. blob_ok cap (bytes_of s) \<and> check s)"
proof (intro canonical_codec.intro is_codec canonical_codec_axioms.intro)
  fix r :: ByteReader assume ok: "\<not> failed (snd (get r))"
  obtain raw r1 where raw: "get_bytes cap r = (raw, r1)" by fastforce
  with ok have "\<not> failed r1" "check (string_of raw)" "get r = (string_of raw, r1)"
    by (auto simp: get_shape fail_reader_def split: if_splits)
  with cc_blob.accepted_prefix [OF raw]
  show "(blob_ok cap (bytes_of (fst (get r))) \<and> check (fst (get r))) \<and> rest r = put (fst (get r)) @ rest (snd (get r))"
    by (simp add: put_shape)
qed

end

interpretation cc_text: canonical_codec "put_text cap" "get_text cap"
    "\<lambda>s. blob_ok cap (bytes_of s) \<and> text_parse cap s \<noteq> None" for cap
  by (rule text_field.is_canonical)

interpretation cc_ident: canonical_codec "put_ident cap" "get_ident cap"
    "\<lambda>s. blob_ok cap (bytes_of s) \<and> (s = [] \<or> ident_parse cap s \<noteq> None)" for cap
  by (rule ident_field.is_canonical)

locale canonical_pair = one: canonical_codec put1 get1 valid1 + two: canonical_codec put2 get2 valid2
  for put1 :: "'a \<Rightarrow> bytes" and get1 valid1 and put2 :: "'b \<Rightarrow> bytes" and get2 valid2
begin

sublocale codec_pair put1 get1 valid1 put2 get2 valid2
  by unfold_locales

lemma pair_canonical:
  "canonical_codec (put_pair put1 put2) (get_pair get1 get2) (\<lambda>ab. valid1 (fst ab) \<and> valid2 (snd ab))"
proof (intro canonical_codec.intro pair_codec canonical_codec_axioms.intro)
  fix r :: ByteReader assume ok: "\<not> failed (snd (get_pair get1 get2 r))"
  obtain a r1 where a: "get1 r = (a, r1)" by fastforce
  obtain b r2 where b: "get2 r1 = (b, r2)" by fastforce
  have get: "get_pair get1 get2 r = ((a, b), r2)" by (simp add: get_pair_def a b)
  with ok have "\<not> failed r2" by simp
  then have "\<not> failed r1" using two.sticky [of r1] b by auto
  with one.accepted_prefix [OF a] two.accepted_prefix [OF b \<open>\<not> failed r2\<close>] get
  show "(valid1 (fst (fst (get_pair get1 get2 r))) \<and> valid2 (snd (fst (get_pair get1 get2 r))))
      \<and> rest r = put_pair put1 put2 (fst (get_pair get1 get2 r)) @ rest (snd (get_pair get1 get2 r))"
    by (simp add: put_pair_def)
qed

end

locale canonical_iso = base: canonical_codec put get valid + codec_iso put get valid enc dec' put' get'
  for put :: "'a \<Rightarrow> bytes" and get valid and enc :: "'c \<Rightarrow> 'a" and dec' put' get' +
  assumes inverse': "enc (dec' a) = a"
begin

lemma iso_canonical: "canonical_codec put' get' (\<lambda>c. valid (enc c))"
proof (intro canonical_codec.intro iso_codec canonical_codec_axioms.intro)
  fix r :: ByteReader assume "\<not> failed (snd (get' r))"
  then show "valid (enc (fst (get' r))) \<and> rest r = put' (fst (get' r)) @ rest (snd (get' r))"
    using base.canonical [of r] by (cases "get r") (simp add: get'_shape put'_shape inverse')
qed

end


lemma canonical_pairI:
  "canonical_codec p g v \<Longrightarrow> canonical_codec q h w \<Longrightarrow>
     canonical_codec (put_pair p q) (get_pair g h) (\<lambda>ab. v (fst ab) \<and> w (snd ab))"
  by (rule canonical_pair.pair_canonical [OF canonical_pair.intro])

text \<open>A record: its fields are written and read one after the other.\<close>

lemma canonical_isoI:
  assumes "canonical_codec put get valid"
    and "\<And>c. put' c = put (enc c)" "\<And>r. get' r = (let (a, r') = get r in (dec' a, r'))"
    and "\<And>c. dec' (enc c) = c" "\<And>a. enc (dec' a) = a"
  shows "canonical_codec put' get' (\<lambda>c. valid (enc c))"
  by (rule canonical_iso.iso_canonical [of put get valid enc dec'],
      intro canonical_iso.intro canonical_iso_axioms.intro codec_iso.intro codec_iso_axioms.intro)
    (use assms in \<open>auto simp: canonical_codec_def\<close>)

interpretation cc_digest: canonical_codec put_digest get_digest "\<lambda>_. True"
proof -
  have "canonical_codec put_digest get_digest (\<lambda>c. True \<and> True)"
    by (rule canonical_isoI [where enc = "\<lambda>d. (digest_a d, digest_b d)"
          and dec' = "\<lambda>(a, b). \<lparr>digest_a = a, digest_b = b\<rparr>"],
        rule canonical_pairI [OF cc_u64.canonical_codec_axioms cc_u64.canonical_codec_axioms])
      (auto simp: put_digest_def put_pair_def get_digest_def get_pair_def split: prod.splits)
  then show "canonical_codec put_digest get_digest (\<lambda>_. True)" by simp
qed


section \<open>Properties\<close>

text \<open>The flag is a byte; every byte but zero reads as true.\<close>

interpretation c_boolean: codec put_boolean get_boolean "\<lambda>_. True"
proof
  fix r :: ByteReader and v xs k
  show "\<not> failed r \<Longrightarrow> rest r = put_boolean v @ xs \<Longrightarrow>
      get_boolean r = (v, r\<lparr>rest := xs, consumed := consumed r + length (put_boolean v)\<rparr>)"
    using c_u8.get_put [where r = r and v = "if v then 1 else 0" and xs = xs] by (simp add: get_boolean_def put_boolean_def)
  show "failed r \<Longrightarrow> snd (get_boolean r) = r" using c_u8.sticky [of r] by (simp add: get_boolean_def split_def)
  show "\<exists>k\<le>length (rest r). rest (snd (get_boolean r)) = drop k (rest r) \<and> consumed (snd (get_boolean r)) = consumed r + k"
    using c_u8.forward [of r] by (simp add: get_boolean_def split_def Let_def)
  show "k < length (put_boolean v) \<Longrightarrow> rest r = take k (put_boolean v) \<Longrightarrow> failed (snd (get_boolean r))"
    using c_u8.truncated [where v = "if v then 1 else 0" and k = k and r = r]
    by (simp add: get_boolean_def put_boolean_def split_def Let_def)
qed

text \<open>What a reader of a field promises about the writer's encoding of a value, and about any buffer.\<close>

definition reads_back :: "('a \<Rightarrow> bytes) \<Rightarrow> (ByteReader \<Rightarrow> 'a \<times> ByteReader) \<Rightarrow> 'a \<Rightarrow> bool" where
  "reads_back put get v \<longleftrightarrow> (\<forall>r xs. \<not> failed r \<and> rest r = put v @ xs
     \<longrightarrow> get r = (v, r\<lparr>rest := xs, consumed := consumed r + length (put v)\<rparr>))"

definition fails_short :: "('a \<Rightarrow> bytes) \<Rightarrow> (ByteReader \<Rightarrow> 'a \<times> ByteReader) \<Rightarrow> 'a \<Rightarrow> bool" where
  "fails_short put get v \<longleftrightarrow> (\<forall>r k. k < length (put v) \<and> rest r = take k (put v) \<longrightarrow> failed (snd (get r)))"

definition stays_inside :: "(ByteReader \<Rightarrow> 'a \<times> ByteReader) \<Rightarrow> bool" where
  "stays_inside get \<longleftrightarrow> (\<forall>r. (failed r \<longrightarrow> snd (get r) = r)
     \<and> consumed (snd (get r)) + length (rest (snd (get r))) = consumed r + length (rest r))"

context codec
begin

lemma field_contract:
  "valid v \<Longrightarrow> reads_back put get v" "valid v \<Longrightarrow> fails_short put get v" "stays_inside get"
  unfolding reads_back_def fails_short_def stays_inside_def using get_put truncated sticky bounded by blast+

end

lemma field_texts_ok:
  assumes "cap < 2 ^ 32"
  shows "text_parse cap s = Some s \<Longrightarrow> blob_ok cap (bytes_of s) \<and> text_parse cap s \<noteq> None"
    "i = [] \<or> ident_parse cap i = Some i \<Longrightarrow> blob_ok cap (bytes_of i) \<and> (i = [] \<or> ident_parse cap i \<noteq> None)"
    "length b \<le> cap \<Longrightarrow> blob_ok cap b"
  using assms by (auto simp: text_parse_def ident_parse_def blob_ok_def split: if_splits)

text \<open>
  C26: What the writer encodes the reader returns: for every field kind (8-, 16-, 32- and 64-bit integers, flags,
  generations, digests, byte strings, bounded texts and identities) the value written is read back, the
  bytes after it are left for the next field, and the number of consumed bytes is the length of the encoding.
\<close>

theorem field_roundtrip:
  assumes "cap < 2 ^ 32" and "length b \<le> cap" and "text_parse cap s = Some s" and "i = [] \<or> ident_parse cap i = Some i"
  shows "reads_back put_u8 get_u8 w8 \<and> reads_back put_u16 get_u16 w16 \<and> reads_back put_u32 get_u32 w32
    \<and> reads_back put_u64 get_u64 w64 \<and> reads_back put_boolean get_boolean flag \<and> reads_back put_generation get_generation g
    \<and> reads_back put_digest get_digest d \<and> reads_back (put_blob cap) (get_bytes cap) b
    \<and> reads_back (put_text cap) (get_text cap) s \<and> reads_back (put_ident cap) (get_ident cap) i
    \<and> length (put_u8 w8) = 1 \<and> length (put_u16 w16) = 2 \<and> length (put_u32 w32) = 4 \<and> length (put_u64 w64) = 8
    \<and> length (put_boolean flag) = 1 \<and> length (put_digest d) = 16
    \<and> length (put_text cap s) = 4 + length s \<and> length (put_ident cap i) = 4 + length i"
proof -
  note ok = field_texts_ok(1) [OF assms(1,3)] field_texts_ok(2) [OF assms(1,4)] field_texts_ok(3) [OF assms(1,2)]
  have "put_generation = put_u64" "get_generation = get_u64" by (simp_all add: put_generation_def get_generation_def fun_eq_iff)
  moreover have "length (put_text cap s) = 4 + length s" "length (put_ident cap i) = 4 + length i"
    using ok by (simp_all add: put_text_def put_ident_def put_blob_ok)
  ultimately show ?thesis
    using ok c_u8.field_contract(1) c_u16.field_contract(1) c_u32.field_contract(1) c_u64.field_contract(1) c_boolean.field_contract(1)
      c_digest.field_contract(1) c_blob.field_contract(1) c_text.field_contract(1) c_ident.field_contract(1)
    by (simp add: put_u8_def put_boolean_def put_digest_def)
qed

theorem field_roundtrip_witness:
  "get_text 8 (reader (put_text 8 ''abc'' @ put_u32 7)) =
     (''abc'', \<lparr>rest = put_u32 7, consumed = 7, failed = False\<rparr>)"
proof -
  have "text_parse 8 ''abc'' = Some ''abc''" by (simp add: text_parse_def is_valid_text_char_def)
  then have "reads_back (put_text 8) (get_text 8) ''abc'' \<and> length (put_text 8 ''abc'') = 7"
    using field_roundtrip [of 8 "[]" "''abc''" "[]"] by simp
  then show ?thesis by (simp add: reads_back_def reader_def)
qed

text \<open>
  C27: The reader fails closed, whatever the field kind: a field whose encoding is cut short anywhere makes the
  reader fail; and for any buffer, a failed reader is returned unchanged and the cursor never passes the
  end, so what was consumed and what is left always add up.
\<close>

theorem reader_fails_closed:
  assumes "cap < 2 ^ 32" and "length b \<le> cap" and "text_parse cap s = Some s" and "i = [] \<or> ident_parse cap i = Some i"
  shows "fails_short put_u8 get_u8 w8 \<and> fails_short put_u16 get_u16 w16 \<and> fails_short put_u32 get_u32 w32
    \<and> fails_short put_u64 get_u64 w64 \<and> fails_short put_boolean get_boolean flag \<and> fails_short put_generation get_generation g
    \<and> fails_short put_digest get_digest d \<and> fails_short (put_blob cap) (get_bytes cap) b
    \<and> fails_short (put_text cap) (get_text cap) s \<and> fails_short (put_ident cap) (get_ident cap) i
    \<and> stays_inside get_u8 \<and> stays_inside get_u16 \<and> stays_inside get_u32 \<and> stays_inside get_u64
    \<and> stays_inside get_boolean \<and> stays_inside get_generation \<and> stays_inside get_digest
    \<and> stays_inside (get_bytes cap) \<and> stays_inside (get_text cap) \<and> stays_inside (get_ident cap)"
proof -
  note ok = field_texts_ok(1) [OF assms(1,3)] field_texts_ok(2) [OF assms(1,4)] field_texts_ok(3) [OF assms(1,2)]
  have "put_generation = put_u64" "get_generation = get_u64" by (simp_all add: put_generation_def get_generation_def fun_eq_iff)
  then show ?thesis
    using ok c_u8.field_contract(2,3) c_u16.field_contract(2,3) c_u32.field_contract(2,3) c_u64.field_contract(2,3)
      c_boolean.field_contract(2,3) c_digest.field_contract(2,3) c_blob.field_contract(2,3) c_text.field_contract(2,3)
      c_ident.field_contract(2,3)
    by simp
qed

theorem reader_fails_closed_witness:
  "failed (snd (get_u32 (reader (take 3 (put_u32 42)))))
   \<and> failed (snd (get_text 8 (reader (take 5 (put_text 8 ''abc'')))))"
proof -
  have parse: "text_parse 8 ''abc'' = Some ''abc''" by (simp add: text_parse_def is_valid_text_char_def)
  then have short: "fails_short put_u32 get_u32 42" "fails_short (put_text 8) (get_text 8) ''abc''"
    using reader_fails_closed [of 8 "[]" "''abc''" "[]" 0 0 42] by simp_all
  have "length (put_text 8 ''abc'') = 7" by (simp add: put_text_def put_blob_def)
  then have "3 < length (put_u32 42)" "5 < length (put_text 8 ''abc'')" by simp_all
  with short show ?thesis unfolding fails_short_def reader_def by (metis ByteReader.select_convs(1))
qed


section \<open>The bounded queue\<close>

record 'a BoundedQueue =
  items :: "(u64 \<times> 'a) list"
  capacity :: nat
  next_sequence :: u64
  accepted :: u64
  rejected :: u64
  closed :: bool

definition queue_new :: "nat \<Rightarrow> 'a BoundedQueue" where
  "queue_new cap = \<lparr>items = [], capacity = (if cap = 0 then 1 else cap), next_sequence = 1,
                    accepted = 0, rejected = 0, closed = False\<rparr>"

definition offer :: "'a \<Rightarrow> 'a BoundedQueue \<Rightarrow> u64 option \<times> 'a BoundedQueue" where
  "offer value q =
     (let sequence = next_sequence q; q = q\<lparr>next_sequence := next_sequence q + 1\<rparr> in
      if closed q then (None, q\<lparr>rejected := rejected q + 1\<rparr>)
      else if length (items q) \<ge> capacity q then (None, q\<lparr>rejected := rejected q + 1\<rparr>)
      else (Some sequence, q\<lparr>items := items q @ [(sequence, value)], accepted := accepted q + 1\<rparr>))"

text \<open>\<open>wait_pop\<close> blocks while the queue is open and empty: \<open>None\<close> is a caller that still waits.\<close>

definition wait_pop :: "'a BoundedQueue \<Rightarrow> ((u64 \<times> 'a) option \<times> 'a BoundedQueue) option" where
  "wait_pop q =
     (if \<not> (items q \<noteq> [] \<or> closed q) then None
      else case items q of
          [] \<Rightarrow> Some (None, q)
        | e # es \<Rightarrow> Some (Some e, q\<lparr>items := es\<rparr>))"

definition queue_close :: "'a BoundedQueue \<Rightarrow> 'a BoundedQueue" where
  "queue_close q = q\<lparr>closed := True\<rparr>"

definition sequences_issued :: "'a BoundedQueue \<Rightarrow> u64" where
  "sequences_issued q = next_sequence q - 1"

text \<open>
  One critical section of a client thread, with what it observes: the lock makes every interleaving
  of threads a sequence of these steps.  \<open>Offered v None\<close> is a rejected item.
\<close>

datatype 'a queue_event = Offered 'a "u64 option" | Popped "(u64 \<times> 'a) option" | Closed

inductive queue_step :: "'a BoundedQueue \<Rightarrow> 'a queue_event \<Rightarrow> 'a BoundedQueue \<Rightarrow> bool" where
  "offer v q = (s, q') \<Longrightarrow> queue_step q (Offered v s) q'"
| "wait_pop q = Some (e, q') \<Longrightarrow> queue_step q (Popped e) q'"
| "queue_step q Closed (queue_close q)"

inductive queue_run :: "nat \<Rightarrow> 'a queue_event list \<Rightarrow> 'a BoundedQueue \<Rightarrow> bool" for cap where
  run_start: "queue_run cap [] (queue_new cap)"
| run_step: "queue_run cap es q \<Longrightarrow> queue_step q e q' \<Longrightarrow> queue_run cap (es @ [e]) q'"

definition accepted_items :: "'a queue_event list \<Rightarrow> (u64 \<times> 'a) list" where
  "accepted_items es = concat (map (\<lambda>e. case e of Offered v (Some s) \<Rightarrow> [(s, v)] | _ \<Rightarrow> []) es)"

definition popped_items :: "'a queue_event list \<Rightarrow> (u64 \<times> 'a) list" where
  "popped_items es = concat (map (\<lambda>e. case e of Popped (Some x) \<Rightarrow> [x] | _ \<Rightarrow> []) es)"

definition offers :: "'a queue_event list \<Rightarrow> nat" where
  "offers es = length (filter (\<lambda>e. case e of Offered _ _ \<Rightarrow> True | _ \<Rightarrow> False) es)"

inductive_cases queue_stepE: "queue_step q e q'"

definition issued_before :: "u64 \<Rightarrow> (u64 \<times> 'a) list \<Rightarrow> bool" where
  "issued_before n xs \<longleftrightarrow> (\<forall>p\<in>set xs. fst p < n)"

lemma issued_before_mono: "issued_before n xs \<Longrightarrow> n < n' \<Longrightarrow> issued_before n' xs"
  by (fastforce simp: issued_before_def)

lemma issued_before_snoc:
  "issued_before n xs \<Longrightarrow> n < n' \<Longrightarrow> sorted_wrt (<) (map fst xs) \<Longrightarrow>
   issued_before n' (xs @ [(n, v)]) \<and> sorted_wrt (<) (map fst (xs @ [(n, v)]))"
  by (fastforce simp: issued_before_def sorted_wrt_append)

definition queue_inv :: "nat \<Rightarrow> 'a queue_event list \<Rightarrow> 'a BoundedQueue \<Rightarrow> bool" where
  "queue_inv cap es q \<longleftrightarrow>
     capacity q = (if cap = 0 then 1 else cap) \<and> length (items q) \<le> capacity q
     \<and> accepted_items es = popped_items es @ items q
     \<and> next_sequence q = 1 + of_nat (offers es)
     \<and> accepted q = of_nat (length (accepted_items es))
     \<and> accepted q + rejected q = of_nat (offers es)
     \<and> (offers es < 2 ^ 64 - 1 \<longrightarrow> sorted_wrt (<) (map fst (accepted_items es))
          \<and> issued_before (next_sequence q) (accepted_items es))"

lemma accepted_items_simps [simp]:
  "accepted_items [] = []"
  "accepted_items (es @ [Offered v (Some s)]) = accepted_items es @ [(s, v)]"
  "accepted_items (es @ [Offered v None]) = accepted_items es"
  "accepted_items (es @ [Popped x]) = accepted_items es"
  "accepted_items (es @ [Closed]) = accepted_items es"
  by (simp_all add: accepted_items_def)

lemma popped_items_simps [simp]:
  "popped_items [] = []"
  "popped_items (es @ [Offered v s']) = popped_items es"
  "popped_items (es @ [Popped None]) = popped_items es"
  "popped_items (es @ [Popped (Some x)]) = popped_items es @ [x]"
  "popped_items (es @ [Closed]) = popped_items es"
  by (simp_all add: popped_items_def)

lemma offers_simps [simp]:
  "offers [] = 0"
  "offers (es @ [Offered v s]) = Suc (offers es)"
  "offers (es @ [Popped x]) = offers es"
  "offers (es @ [Closed]) = offers es"
  by (simp_all add: offers_def)

lemma queue_inv_offer:
  assumes inv: "queue_inv cap es q" and step: "offer v q = (s, q')"
  shows "queue_inv cap (es @ [Offered v s]) q'"
proof -
  have grow: "next_sequence q < next_sequence q + 1" if "offers es + 1 < 2 ^ 64 - 1"
  proof -
    have "unat (next_sequence q) = 1 + offers es"
      using inv that by (simp add: queue_inv_def unat_of_nat unat_word_ariths)
    with that show ?thesis by (simp add: word_less_nat_alt unat_word_ariths)
  qed
  have seen: "issued_before (next_sequence q) (accepted_items es)
      \<and> sorted_wrt (<) (map fst (accepted_items es))" if "offers es < 2 ^ 64 - 1"
    using inv that unfolding queue_inv_def by blast
  show ?thesis
  proof (cases "closed q \<or> length (items q) \<ge> capacity q")
    case True
    then have "s = None" "q' = q\<lparr>next_sequence := next_sequence q + 1, rejected := rejected q + 1\<rparr>"
      using step by (auto simp: offer_def Let_def split: if_splits)
    moreover have "issued_before (next_sequence q + 1) (accepted_items es)" if "offers es + 1 < 2 ^ 64 - 1"
      using seen grow that by (auto intro: issued_before_mono)
    ultimately show ?thesis
      using inv by (auto simp: queue_inv_def algebra_simps)
  next
    case False
    then have "s = Some (next_sequence q)"
      and "q' = q\<lparr>next_sequence := next_sequence q + 1, items := items q @ [(next_sequence q, v)],
                  accepted := accepted q + 1\<rparr>"
      using step by (auto simp: offer_def Let_def split: if_splits)
    moreover have "issued_before (next_sequence q + 1) (accepted_items es @ [(next_sequence q, v)])
        \<and> sorted_wrt (<) (map fst (accepted_items es @ [(next_sequence q, v)]))"
      if "offers es + 1 < 2 ^ 64 - 1"
      using seen grow that by (intro issued_before_snoc [of "next_sequence q"]) auto
    ultimately show ?thesis
      using inv False by (auto simp: queue_inv_def algebra_simps)
  qed
qed

lemma queue_inv_step: "queue_inv cap es q \<Longrightarrow> queue_step q e q' \<Longrightarrow> queue_inv cap (es @ [e]) q'"
proof (erule queue_stepE)
  fix v s assume "queue_inv cap es q" "e = Offered v s" "offer v q = (s, q')"
  then show ?thesis by (simp add: queue_inv_offer)
next
  fix x assume inv: "queue_inv cap es q" and e: "e = Popped x" and pop: "wait_pop q = Some (x, q')"
  show ?thesis
  proof (cases "items q")
    case Nil
    with pop have "x = None" "q' = q" by (auto simp: wait_pop_def split: if_splits)
    with inv e show ?thesis by (auto simp: queue_inv_def)
  next
    case (Cons y ys)
    with pop have "x = Some y" "q' = q\<lparr>items := ys\<rparr>" by (auto simp: wait_pop_def)
    with inv e Cons show ?thesis by (auto simp: queue_inv_def)
  qed
qed (auto simp: queue_inv_def queue_close_def)

lemma queue_run_inv: "queue_run cap es q \<Longrightarrow> queue_inv cap es q"
proof (induction rule: queue_run.induct)
  case run_start
  show ?case by (simp add: queue_inv_def queue_new_def issued_before_def)
qed (rule queue_inv_step)

text \<open>
  C25: In every interleaving of producers, consumers and closers the bounded queue holds at most
  its capacity; the accepted items are exactly the popped ones followed by the waiting ones, in
  order (first in first out, no loss and no duplication); every offer consumes one sequence number,
  whether accepted or rejected, and the counters add up to the number of offers; while fewer than
  \<open>2^64 - 1\<close> items have been offered, accepted sequence numbers strictly increase.
\<close>

theorem bounded_queue_fifo:
  assumes "queue_run cap es q"
  shows "length (items q) \<le> max 1 cap \<and> accepted_items es = popped_items es @ items q
    \<and> sequences_issued q = of_nat (offers es) \<and> accepted q + rejected q = sequences_issued q
    \<and> (offers es < 2 ^ 64 - 1 \<longrightarrow> sorted_wrt (<) (map fst (accepted_items es)))"
  using queue_run_inv [OF assms] by (auto simp: queue_inv_def sequences_issued_def split: if_splits)

lemma queue_example:
  "queue_run 1 [Offered CHR ''a'' (Some 1), Offered CHR ''b'' None, Popped (Some (1, CHR ''a''))]
     \<lparr>items = [], capacity = 1, next_sequence = 3, accepted = 1, rejected = 1, closed = False\<rparr>"
proof -
  have "queue_run 1 ([] @ [Offered CHR ''a'' (Some 1)])
      \<lparr>items = [(1, CHR ''a'')], capacity = 1, next_sequence = 2, accepted = 1, rejected = 0, closed = False\<rparr>"
    by (rule run_step [OF run_start], rule queue_step.intros(1)) (simp add: offer_def queue_new_def)
  then have "queue_run 1 (([] @ [Offered CHR ''a'' (Some 1)]) @ [Offered CHR ''b'' None])
      \<lparr>items = [(1, CHR ''a'')], capacity = 1, next_sequence = 3, accepted = 1, rejected = 1, closed = False\<rparr>"
    by (rule run_step, intro queue_step.intros(1)) (simp add: offer_def)
  then have "queue_run 1 ((([] @ [Offered CHR ''a'' (Some 1)]) @ [Offered CHR ''b'' None])
        @ [Popped (Some (1, CHR ''a''))])
      \<lparr>items = [], capacity = 1, next_sequence = 3, accepted = 1, rejected = 1, closed = False\<rparr>"
    by (rule run_step, intro queue_step.intros(2)) (simp add: wait_pop_def)
  then show ?thesis by simp
qed

theorem bounded_queue_fifo_witness:
  "accepted_items [Offered CHR ''a'' (Some 1), Offered CHR ''b'' None, Popped (Some (1, CHR ''a''))]
     = popped_items [Offered CHR ''a'' (Some 1), Offered CHR ''b'' None, Popped (Some (1, CHR ''a''))]"
  using bounded_queue_fifo [OF queue_example] by simp

end
