(* ===== verification/Ref_Parse.thy ===== *)
theory Ref_Parse
  imports Ref_Codec
begin

text \<open>
  Readers that can refuse their input.  The decoders of the durable state (\<open>src/store.cpp\<close>) read
  fields with the sticky \<open>ByteReader\<close>, test it from time to time, check ranges, and return a status at
  the first check that fails.  Such a function is a \<open>parser\<close>: \<open>Inl\<close> is the early return with its
  status, \<open>Inr\<close> the value read and the reader behind it.  Nothing of a record that was refused is
  visible to the caller, because the decoder fills a temporary that it drops.

  \<open>parses p bs v\<close> says that \<open>p\<close> reads exactly \<open>bs\<close> and yields \<open>v\<close>; the rules in \<open>parse_steps\<close> follow a
  parser field by field along the bytes the writer produced.
\<close>

named_theorems parse_steps "how a parser proceeds along the bytes of a record"

type_synonym 'a parser = "ByteReader \<Rightarrow> Status + 'a \<times> ByteReader"

definition p_return :: "'a \<Rightarrow> 'a parser" where
  "p_return v r = Inr (v, r)"

definition p_get :: "(ByteReader \<Rightarrow> 'a \<times> ByteReader) \<Rightarrow> 'a parser" where
  "p_get get r = Inr (get r)"

definition p_bind :: "'a parser \<Rightarrow> ('a \<Rightarrow> 'b parser) \<Rightarrow> 'b parser" where
  "p_bind p f r = (case p r of Inl s \<Rightarrow> Inl s | Inr (v, r') \<Rightarrow> f v r')"

text \<open>\<open>if (reader.failed()) return s;\<close> and \<open>if (!condition) return s;\<close>\<close>

definition p_live :: "Status \<Rightarrow> unit parser" where
  "p_live s r = (if failed r then Inl s else Inr ((), r))"

definition p_require :: "bool \<Rightarrow> Status \<Rightarrow> unit parser" where
  "p_require b s r = (if b then Inr ((), r) else Inl s)"

text \<open>A loop that fills a container, and the loop that fills a vector with \<open>push_back\<close>.\<close>

fun p_fold :: "nat \<Rightarrow> ('s \<Rightarrow> 's parser) \<Rightarrow> 's \<Rightarrow> 's parser" where
  "p_fold 0 step s = p_return s"
| "p_fold (Suc n) step s = p_bind (step s) (p_fold n step)"

definition p_many :: "nat \<Rightarrow> 'a parser \<Rightarrow> 'a list parser" where
  "p_many n p = p_fold n (\<lambda>xs. p_bind p (\<lambda>x. p_return (xs @ [x]))) []"

text \<open>A vector with its length in front: read the count, test the reader, test the bound, loop.\<close>

definition put_counted :: "('a \<Rightarrow> bytes) \<Rightarrow> 'a list \<Rightarrow> bytes" where
  "put_counted put xs = put_u32 (of_nat (length xs)) @ concat (map put xs)"

definition p_count :: "string \<Rightarrow> nat \<Rightarrow> nat parser" where
  "p_count what cap =
     p_bind (p_get get_u32) (\<lambda>count.
     p_bind (p_live (failure Truncated what)) (\<lambda>_.
     p_bind (p_require (unat count \<le> cap) (failure Corrupt what)) (\<lambda>_.
     p_return (unat count))))"

definition p_counted :: "string \<Rightarrow> nat \<Rightarrow> 'a parser \<Rightarrow> 'a list parser" where
  "p_counted what cap p = p_bind (p_count what cap) (\<lambda>n. p_many n p)"

text \<open>\<open>static_cast\<close> between an enumeration whose enumerators count from 0 and its underlying byte.\<close>

definition enum_raw :: "'e list \<Rightarrow> 'e \<Rightarrow> u8" where
  "enum_raw all e = of_nat (length (takeWhile (\<lambda>x. x \<noteq> e) all))"

definition enum_of :: "'e list \<Rightarrow> u8 \<Rightarrow> 'e" where
  "enum_of all raw = all ! unat raw"

abbreviation put_enum :: "'e list \<Rightarrow> 'e \<Rightarrow> bytes" where
  "put_enum all e \<equiv> put_u8 (enum_raw all e)"

lemma enum_raw_props:
  assumes "e \<in> set all" and "length all \<le> 255"
  shows enum_raw_bound: "unat (enum_raw all e) < length all" and enum_of_raw: "enum_of all (enum_raw all e) = e"
proof -
  let ?n = "length (takeWhile (\<lambda>x. x \<noteq> e) all)"
  from assms(1) have "?n < length all"
    using takeWhile_eq_all_conv [of "\<lambda>x. x \<noteq> e" all] takeWhile_dropWhile_id [of "\<lambda>x. x \<noteq> e" all]
    by (metis append_Nil2 length_append le_add1 le_neq_implies_less length_0_conv add_cancel_right_right)
  moreover from this assms(2) have "unat (of_nat ?n :: u8) = ?n" by (simp add: unat_of_nat)
  moreover have "all ! ?n = e" using nth_length_takeWhile [OF \<open>?n < length all\<close>] by simp
  ultimately show "unat (enum_raw all e) < length all" "enum_of all (enum_raw all e) = e"
    by (simp_all add: enum_raw_def enum_of_def)
qed


section \<open>Parsing what was written\<close>

definition parses :: "'a parser \<Rightarrow> bytes \<Rightarrow> 'a \<Rightarrow> bool" where
  "parses p bs v \<longleftrightarrow> (\<forall>r xs. \<not> failed r \<longrightarrow> rest r = bs @ xs \<longrightarrow>
     p r = Inr (v, r\<lparr>rest := xs, consumed := consumed r + length bs\<rparr>))"

lemma parsesI:
  "(\<And>r xs. \<not> failed r \<Longrightarrow> rest r = bs @ xs \<Longrightarrow>
     p r = Inr (v, r\<lparr>rest := xs, consumed := consumed r + length bs\<rparr>)) \<Longrightarrow> parses p bs v"
  by (simp add: parses_def)

lemma parsesD: "parses p bs v \<Longrightarrow> \<not> failed r \<Longrightarrow> rest r = bs @ xs \<Longrightarrow>
    p r = Inr (v, r\<lparr>rest := xs, consumed := consumed r + length bs\<rparr>)"
  by (simp add: parses_def)

lemma parses_return: "v = w \<Longrightarrow> parses (p_return v) [] w"
  by (simp add: parses_def p_return_def)

lemma parses_bind:
  assumes "parses p as a" and "parses (f a) bs v"
  shows "parses (p_bind p f) (as @ bs) v"
proof (rule parsesI)
  fix r :: ByteReader and xs
  assume r: "\<not> failed r" "rest r = (as @ bs) @ xs"
  let ?r = "r\<lparr>rest := bs @ xs, consumed := consumed r + length as\<rparr>"
  from r have "p r = Inr (a, ?r)" using parsesD [OF assms(1), of r "bs @ xs"] by simp
  moreover from r have "f a ?r = Inr (v, ?r\<lparr>rest := xs, consumed := consumed ?r + length bs\<rparr>)"
    using parsesD [OF assms(2), of ?r xs] by simp
  ultimately show "p_bind p f r = Inr (v, r\<lparr>rest := xs, consumed := consumed r + length (as @ bs)\<rparr>)"
    by (simp add: p_bind_def add.assoc)
qed

lemma parses_end: "parses p (bs @ []) v \<Longrightarrow> parses p bs v"
  by simp

lemma parses_step: "parses (f a) bs v \<Longrightarrow> parses p as a \<Longrightarrow> parses (p_bind p f) (as @ bs) v"
  by (rule parses_bind)

lemma parses_live [parse_steps]: "parses (f ()) bs v \<Longrightarrow> parses (p_bind (p_live s) f) bs v"
  by (auto simp: parses_def p_bind_def p_live_def)

lemma parses_require [parse_steps]: "parses (f ()) bs v \<Longrightarrow> b \<Longrightarrow> parses (p_bind (p_require b s) f) bs v"
  by (auto simp: parses_def p_bind_def p_require_def)

lemma parses_get:
  assumes "codec put get valid" and "valid v"
  shows "parses (p_get get) (put v) v"
  using codec.get_put [OF assms(1), OF assms(2)] by (auto simp: parses_def p_get_def)

lemma ident_field_ok: "blob_ok 63 (bytes_of s) \<and> (s = [] \<or> ident_parse 63 s \<noteq> None) \<longleftrightarrow> ident_ok 63 s"
  by (auto simp: blob_ok_def ident_ok_def ident_parse_def)

lemma text_field_ok: "cap < 2 ^ 32 \<Longrightarrow>
    blob_ok cap (bytes_of s) \<and> text_parse cap s \<noteq> None \<longleftrightarrow> text_ok cap s"
  by (auto simp: blob_ok_def text_ok_def text_parse_def)

lemma parses_u8: "parses (p_get get_u8) (put_u8 v) v"
  by (rule parses_get [OF c_u8.codec_axioms]) simp

lemma parses_u16: "parses (p_get get_u16) (put_u16 v) v"
  by (rule parses_get [OF c_u16.codec_axioms]) simp

lemma parses_u32: "parses (p_get get_u32) (put_u32 v) v"
  by (rule parses_get [OF c_u32.codec_axioms]) simp

lemma parses_u64: "parses (p_get get_u64) (put_u64 v) v"
  by (rule parses_get [OF c_u64.codec_axioms]) simp

lemma parses_generation: "parses (p_get get_generation) (put_generation v) v"
  using parses_u64 by (simp add: get_generation_def put_generation_def)

lemma parses_digest: "parses (p_get get_digest) (put_digest v) v"
  by (rule parses_get [OF c_digest.codec_axioms]) simp

lemma parses_boolean: "parses (p_get get_boolean) (put_boolean b) b"
  using parses_u8 [of "if b then 1 else 0"]
  by (auto simp: parses_def p_get_def get_boolean_def put_boolean_def split: if_splits)

lemma parses_ident: "ident_ok 63 v \<Longrightarrow> parses (p_get (get_ident 63)) (put_ident 63 v) v"
  by (rule parses_get [OF c_ident.codec_axioms]) (simp only: ident_field_ok)

lemma parses_text: "text_ok cap v \<Longrightarrow> cap < 2 ^ 32 \<Longrightarrow> parses (p_get (get_text cap)) (put_text cap v) v"
  by (rule parses_get [OF c_text.codec_axioms]) (simp only: text_field_ok)

lemmas basic_steps [parse_steps] =
  parses_step [OF _ parses_u8] parses_step [OF _ parses_u16] parses_step [OF _ parses_u32]
  parses_step [OF _ parses_u64] parses_step [OF _ parses_generation] parses_step [OF _ parses_digest]
  parses_step [OF _ parses_boolean] parses_step [OF _ parses_ident] parses_step [OF _ parses_text]

lemma parses_fold:
  assumes "\<And>us v ws. vs = us @ v # ws \<Longrightarrow> parses (step (F us)) (put v) (F (us @ [v]))"
  shows "parses (p_fold (length vs) step (F [])) (concat (map put vs)) (F vs)"
proof -
  have "parses (p_fold (length ws) step (F us)) (concat (map put ws)) (F vs)" if "vs = us @ ws" for us ws
    using that
  proof (induction ws arbitrary: us)
    case Nil
    then show ?case by (simp add: parses_return)
  next
    case (Cons w ws)
    from Cons.IH [of "us @ [w]"] Cons.prems
    have "parses (p_fold (length ws) step (F (us @ [w]))) (concat (map put ws)) (F vs)" by simp
    with parses_bind [OF assms [OF Cons.prems]] show ?case by simp
  qed
  from this [of "[]" vs] show ?thesis by simp
qed

lemma parses_many:
  assumes "\<And>x. x \<in> set xs \<Longrightarrow> parses p (put x) x"
  shows "parses (p_many (length xs) p) (concat (map put xs)) xs"
  unfolding p_many_def
proof (rule parses_fold [where F = "\<lambda>xs. xs"])
  fix us v ws
  assume "xs = us @ v # ws"
  then have "parses p (put v) v" using assms by simp
  from parses_bind [OF this, of "\<lambda>x. p_return (us @ [x])" "[]" "us @ [v]"]
  show "parses (p_bind p (\<lambda>x. p_return (us @ [x]))) (put v) (us @ [v])" by (simp add: parses_return)
qed

lemma parses_count:
  assumes "n \<le> cap" and "cap < 2 ^ 32"
  shows "parses (p_count what cap) (put_u32 (of_nat n)) n"
proof -
  have n: "unat (of_nat n :: u32) = n" using assms by (simp add: unat_of_nat)
  show ?thesis unfolding p_count_def
    by (rule parses_end, rule parse_steps, rule parse_steps, rule parse_steps, rule parses_return)
      (simp_all add: n assms)
qed

lemma parses_counted:
  assumes "\<And>x. x \<in> set xs \<Longrightarrow> parses p (put x) x" and "length xs \<le> cap" and "cap < 2 ^ 32"
  shows "parses (p_counted what cap p) (put_counted put xs) xs"
  unfolding p_counted_def put_counted_def
  using parses_bind [OF parses_count [OF assms(2,3)], of "\<lambda>n. p_many n p"] parses_many [of xs p put] assms(1)
  by blast

lemmas counted_step = parses_step [OF _ parses_counted]
lemmas count_step = parses_step [OF _ parses_count]

end
