(* ===== verification/Ref_Compat.thy ===== *)
theory Ref_Compat
  imports Ref_Support
begin

unbundle bit_operations_syntax

text \<open>
  The compatibility matrix: \<open>include/ref/compat.hpp\<close> and \<open>src/compat.cpp\<close>.

  An edge assesses fourteen aspects of a directed pair of runtime generations; the permissions of
  the edge are derived from the assessments.  The array of assessments is a function of the aspect.
  The matrix keeps the edges and a redundant, sorted neighbour index.  Shown: which permission
  requires which aspects, and that the index always agrees with the edges, so that \<open>validate\<close>
  accepts every matrix the operations produce.  An outcome outside the enumeration, which
  \<open>validate_edge\<close> rejects, is not a value of the datatype.
\<close>

section \<open>Aspects and outcomes\<close>

datatype CompatAspect =
    BinaryApi | Abi | WireProtocol | ProtocolRead | ProtocolWrite | SchemaRead | SchemaWrite |
  StateMigration | PeerVersion | FeatureGate | PersistenceFormat | Snapshot | Rollback |
  Capability

definition all_aspects :: "CompatAspect list" where
  "all_aspects =
     [CompatAspect.BinaryApi, CompatAspect.Abi, CompatAspect.WireProtocol,
      CompatAspect.ProtocolRead, CompatAspect.ProtocolWrite, CompatAspect.SchemaRead,
      CompatAspect.SchemaWrite, CompatAspect.StateMigration, CompatAspect.PeerVersion,
      CompatAspect.FeatureGate, CompatAspect.PersistenceFormat, CompatAspect.Snapshot,
      CompatAspect.Rollback, CompatAspect.Capability]"

fun aspect_to_string :: "CompatAspect \<Rightarrow> string" where
  "aspect_to_string CompatAspect.BinaryApi = ''BINARY_API''"
| "aspect_to_string CompatAspect.Abi = ''ABI''"
| "aspect_to_string CompatAspect.WireProtocol = ''WIRE_PROTOCOL''"
| "aspect_to_string CompatAspect.ProtocolRead = ''PROTOCOL_READ''"
| "aspect_to_string CompatAspect.ProtocolWrite = ''PROTOCOL_WRITE''"
| "aspect_to_string CompatAspect.SchemaRead = ''SCHEMA_READ''"
| "aspect_to_string CompatAspect.SchemaWrite = ''SCHEMA_WRITE''"
| "aspect_to_string CompatAspect.StateMigration = ''STATE_MIGRATION''"
| "aspect_to_string CompatAspect.PeerVersion = ''PEER_VERSION''"
| "aspect_to_string CompatAspect.FeatureGate = ''FEATURE_GATE''"
| "aspect_to_string CompatAspect.PersistenceFormat = ''PERSISTENCE_FORMAT''"
| "aspect_to_string CompatAspect.Snapshot = ''SNAPSHOT''"
| "aspect_to_string CompatAspect.Rollback = ''ROLLBACK''"
| "aspect_to_string CompatAspect.Capability = ''CAPABILITY''"

definition parse_compat_aspect :: "string \<Rightarrow> CompatAspect option" where
  "parse_compat_aspect text = List.find (\<lambda>a. text = aspect_to_string a) all_aspects"

datatype CompatOutcome =
    FullyCompatible | ReadCompatible | WriteCompatible | MixedVersionCompatible |
  CompatibleWithFeatureGate | CompatibleAfterStateMigration |
  CompatibleAfterProtocolNegotiation | RollbackCompatible | IncompatibleProtocol |
  IncompatibleSchema | IncompatibleAbi | IncompatibleFeatureSet | IncompatibleRollback |
  IncompatiblePeer | Unknown | StaleEvidence | Unsupported

definition all_outcomes :: "CompatOutcome list" where
  "all_outcomes =
     [CompatOutcome.FullyCompatible, CompatOutcome.ReadCompatible,
      CompatOutcome.WriteCompatible, CompatOutcome.MixedVersionCompatible,
      CompatOutcome.CompatibleWithFeatureGate, CompatOutcome.CompatibleAfterStateMigration,
      CompatOutcome.CompatibleAfterProtocolNegotiation, CompatOutcome.RollbackCompatible,
      CompatOutcome.IncompatibleProtocol, CompatOutcome.IncompatibleSchema,
      CompatOutcome.IncompatibleAbi, CompatOutcome.IncompatibleFeatureSet,
      CompatOutcome.IncompatibleRollback, CompatOutcome.IncompatiblePeer, CompatOutcome.Unknown,
      CompatOutcome.StaleEvidence, CompatOutcome.Unsupported]"

fun outcome_to_string :: "CompatOutcome \<Rightarrow> string" where
  "outcome_to_string CompatOutcome.FullyCompatible = ''FULLY_COMPATIBLE''"
| "outcome_to_string CompatOutcome.ReadCompatible = ''READ_COMPATIBLE''"
| "outcome_to_string CompatOutcome.WriteCompatible = ''WRITE_COMPATIBLE''"
| "outcome_to_string CompatOutcome.MixedVersionCompatible = ''MIXED_VERSION_COMPATIBLE''"
| "outcome_to_string CompatOutcome.CompatibleWithFeatureGate = ''COMPATIBLE_WITH_FEATURE_GATE''"
| "outcome_to_string CompatOutcome.CompatibleAfterStateMigration = ''COMPATIBLE_AFTER_STATE_MIGRATION''"
| "outcome_to_string CompatOutcome.CompatibleAfterProtocolNegotiation = ''COMPATIBLE_AFTER_PROTOCOL_NEGOTIATION''"
| "outcome_to_string CompatOutcome.RollbackCompatible = ''ROLLBACK_COMPATIBLE''"
| "outcome_to_string CompatOutcome.IncompatibleProtocol = ''INCOMPATIBLE_PROTOCOL''"
| "outcome_to_string CompatOutcome.IncompatibleSchema = ''INCOMPATIBLE_SCHEMA''"
| "outcome_to_string CompatOutcome.IncompatibleAbi = ''INCOMPATIBLE_ABI''"
| "outcome_to_string CompatOutcome.IncompatibleFeatureSet = ''INCOMPATIBLE_FEATURE_SET''"
| "outcome_to_string CompatOutcome.IncompatibleRollback = ''INCOMPATIBLE_ROLLBACK''"
| "outcome_to_string CompatOutcome.IncompatiblePeer = ''INCOMPATIBLE_PEER''"
| "outcome_to_string CompatOutcome.Unknown = ''UNKNOWN''"
| "outcome_to_string CompatOutcome.StaleEvidence = ''STALE_EVIDENCE''"
| "outcome_to_string CompatOutcome.Unsupported = ''UNSUPPORTED''"

definition parse_compat_outcome :: "string \<Rightarrow> CompatOutcome option" where
  "parse_compat_outcome text = List.find (\<lambda>a. text = outcome_to_string a) all_outcomes"

fun is_blocking_outcome :: "CompatOutcome \<Rightarrow> bool" where
  "is_blocking_outcome CompatOutcome.IncompatibleProtocol = True"
| "is_blocking_outcome CompatOutcome.IncompatibleSchema = True"
| "is_blocking_outcome CompatOutcome.IncompatibleAbi = True"
| "is_blocking_outcome CompatOutcome.IncompatibleFeatureSet = True"
| "is_blocking_outcome CompatOutcome.IncompatibleRollback = True"
| "is_blocking_outcome CompatOutcome.IncompatiblePeer = True"
| "is_blocking_outcome CompatOutcome.Unknown = True"
| "is_blocking_outcome CompatOutcome.StaleEvidence = True"
| "is_blocking_outcome CompatOutcome.Unsupported = True"
| "is_blocking_outcome _ = False"

definition is_permissive_outcome :: "CompatOutcome \<Rightarrow> bool" where
  "is_permissive_outcome o' \<longleftrightarrow> \<not> is_blocking_outcome o'"

interpretation aspect_names: enum_names all_aspects aspect_to_string
proof
  show "e \<in> set all_aspects" for e by (cases e) (simp_all add: all_aspects_def)
qed (simp add: all_aspects_def)

interpretation outcome_names: enum_names all_outcomes outcome_to_string
proof
  show "e \<in> set all_outcomes" for e by (cases e) (simp_all add: all_outcomes_def)
qed (simp add: all_outcomes_def)

record AspectAssessment =
  aa_outcome :: CompatOutcome
  aa_provenance :: EvidenceClass
  aa_evidence :: gen
  aa_detail :: string

definition aa_is_current :: "AspectAssessment \<Rightarrow> gen \<Rightarrow> u64 \<Rightarrow> bool" where
  "aa_is_current a floor max_age =
     (if aa_provenance a = EvidenceClass.Unknown then False
      else if aa_outcome a = CompatOutcome.Unknown \<or> aa_outcome a = CompatOutcome.StaleEvidence then False
      else if is_stale_relative_to (aa_evidence a) floor then False
      else if max_age = 0 then True
      else if aa_evidence a < floor then False
      else aa_evidence a - floor \<le> max_age)"


section \<open>Permissions\<close>

datatype CompatPermission =
    NoPermission | ControlChannel | ReadOnlyMessages | MutatingMessages | ReadState
  | WriteSharedState | ShareSnapshots | JoinControlEpoch | CoexistDuringRollout
  | RollbackAfterMutation

type_synonym permissions = u16

fun permission_bit :: "CompatPermission \<Rightarrow> permissions" where
  "permission_bit NoPermission = 0"
| "permission_bit ControlChannel = push_bit 0 1"
| "permission_bit ReadOnlyMessages = push_bit 1 1"
| "permission_bit MutatingMessages = push_bit 2 1"
| "permission_bit ReadState = push_bit 3 1"
| "permission_bit WriteSharedState = push_bit 4 1"
| "permission_bit ShareSnapshots = push_bit 5 1"
| "permission_bit JoinControlEpoch = push_bit 6 1"
| "permission_bit CoexistDuringRollout = push_bit 7 1"
| "permission_bit RollbackAfterMutation = push_bit 8 1"

definition has_permission :: "permissions \<Rightarrow> CompatPermission \<Rightarrow> bool" where
  "has_permission s p \<longleftrightarrow> s AND permission_bit p \<noteq> 0"

definition add_permission :: "permissions \<Rightarrow> CompatPermission \<Rightarrow> permissions" where
  "add_permission s p = s OR permission_bit p"

definition grant :: "bool \<Rightarrow> CompatPermission \<Rightarrow> permissions \<Rightarrow> permissions" where
  "grant allowed p s = (if allowed then add_permission s p else s)"

fun permission_to_string :: "CompatPermission \<Rightarrow> string" where
  "permission_to_string NoPermission = ''NONE''"
| "permission_to_string ControlChannel = ''CONTROL_CHANNEL''"
| "permission_to_string ReadOnlyMessages = ''READ_ONLY_MESSAGES''"
| "permission_to_string MutatingMessages = ''MUTATING_MESSAGES''"
| "permission_to_string ReadState = ''READ_STATE''"
| "permission_to_string WriteSharedState = ''WRITE_SHARED_STATE''"
| "permission_to_string ShareSnapshots = ''SHARE_SNAPSHOTS''"
| "permission_to_string JoinControlEpoch = ''JOIN_CONTROL_EPOCH''"
| "permission_to_string CoexistDuringRollout = ''COEXIST_DURING_ROLLOUT''"
| "permission_to_string RollbackAfterMutation = ''ROLLBACK_AFTER_MUTATION''"

definition permission_order :: "CompatPermission list" where
  "permission_order =
     [ControlChannel, ReadOnlyMessages, MutatingMessages, ReadState, WriteSharedState,
      ShareSnapshots, JoinControlEpoch, CoexistDuringRollout, RollbackAfterMutation]"

definition describe_permissions :: "permissions \<Rightarrow> string" where
  "describe_permissions s =
     (if s = 0 then ''NONE''
      else let out = foldl (\<lambda>out p.
             if \<not> has_permission s p then out
             else (if out \<noteq> [] then out @ ''|'' else out) @ permission_to_string p) [] permission_order
      in if out = [] then ''NONE'' else out)"


section \<open>Edges\<close>

record CompatibilityEdge =
  ed_from :: gen
  ed_to :: gen
  ed_aspects :: "CompatAspect \<Rightarrow> AspectAssessment"
  ed_permissions :: permissions
  ed_generation :: gen
  ed_evidence :: gen
  ed_epoch :: gen
  ed_requires_feature_gate :: bool
  ed_gate :: ident
  ed_gate_generation :: gen
  ed_requires_protocol_downgrade :: bool
  ed_downgrade_to :: gen
  ed_requires_state_translation :: bool
  ed_migration :: ident
  ed_migration_generation :: gen

definition ed_outcome :: "CompatibilityEdge \<Rightarrow> CompatAspect \<Rightarrow> CompatOutcome" where
  "ed_outcome e a = aa_outcome (ed_aspects e a)"

definition derive_permissions :: "CompatibilityEdge \<Rightarrow> permissions" where
  "derive_permissions e =
     (let ok = (\<lambda>a. is_permissive_outcome (ed_outcome e a));
          permissions = (0 :: permissions);
          control = ok BinaryApi \<and> ok Abi \<and> ok WireProtocol \<and> ok Capability;
          permissions = grant control ControlChannel permissions;
          read_only = control \<and> ok ProtocolRead;
          permissions = grant read_only ReadOnlyMessages permissions;
          mutating = read_only \<and> ok ProtocolWrite;
          permissions = grant mutating MutatingMessages permissions;
          read_state = control \<and> ok SchemaRead \<and> ok PersistenceFormat;
          permissions = grant read_state ReadState permissions;
          write_state = mutating \<and> read_state \<and> ok SchemaWrite \<and> ok StateMigration;
          permissions = grant write_state WriteSharedState permissions;
          snapshots = read_state \<and> ok Snapshot;
          permissions = grant snapshots ShareSnapshots permissions;
          join_epoch = mutating \<and> ok PeerVersion \<and> ok FeatureGate;
          permissions = grant join_epoch JoinControlEpoch permissions;
          coexist = control \<and> read_only \<and> ok PeerVersion;
          permissions = grant coexist CoexistDuringRollout permissions
      in if ed_outcome e Rollback = RollbackCompatible \<or> ed_outcome e Rollback = FullyCompatible
         then grant (ok StateMigration) RollbackAfterMutation permissions else permissions)"

definition aspect_check :: "AspectAssessment \<Rightarrow> Status" where
  "aspect_check a =
     (if aa_provenance a = EvidenceClass.Unknown \<and> aa_outcome a \<noteq> CompatOutcome.Unknown
      then failure InvalidArgument ''aspect declares an outcome without evidence provenance''
      else status_ok)"

definition validate_edge :: "CompatibilityEdge \<Rightarrow> Status" where
  "validate_edge e =
     (if \<not> gen_is_set (ed_from e) \<or> \<not> gen_is_set (ed_to e)
        then failure InvalidArgument ''compatibility edge generations must be set''
      else if ed_from e = ed_to e
        then failure InvalidArgument ''compatibility edge must relate distinct generations''
      else if \<not> gen_is_set (ed_generation e)
        then failure InvalidArgument ''compatibility edge has no matrix generation''
      else let aspects = first_failure (\<lambda>a. aspect_check (ed_aspects e a)) all_aspects in
      if is_failure aspects then aspects
      else if ed_permissions e \<noteq> derive_permissions e
        then failure Corrupt ''compatibility permissions disagree with derived aspect outcome''
      else if ed_requires_feature_gate e \<and> (ed_gate e = [] \<or> \<not> gen_is_set (ed_gate_generation e))
        then failure InvalidArgument ''feature-gated edge must name gate and generation''
      else if ed_requires_feature_gate e \<and> ed_outcome e FeatureGate \<noteq> CompatibleWithFeatureGate
        then failure InvalidArgument ''edge requires a feature gate but the feature aspect says otherwise''
      else if ed_requires_protocol_downgrade e \<and> \<not> gen_is_set (ed_downgrade_to e)
        then failure InvalidArgument ''protocol downgrade edge must name a generation''
      else if ed_requires_protocol_downgrade e
              \<and> ed_outcome e WireProtocol \<noteq> CompatibleAfterProtocolNegotiation
              \<and> ed_outcome e WireProtocol \<noteq> CompatibleWithFeatureGate
        then failure InvalidArgument
               ''edge requires protocol negotiation but the wire aspect says otherwise''
      else if ed_requires_state_translation e
              \<and> (ed_migration e = [] \<or> \<not> gen_is_set (ed_migration_generation e))
        then failure InvalidArgument ''state translation edge must name a migration''
      else if ed_requires_state_translation e
              \<and> ed_outcome e StateMigration \<noteq> CompatibleAfterStateMigration
        then failure InvalidArgument
               ''edge requires state translation but the migration aspect says otherwise''
      else status_ok)"


section \<open>The matrix\<close>

record CompatibilityMatrix =
  edges :: "(u64 \<times> u64, CompatibilityEdge) omap"
  neighbour_rows :: "(u64, u64 list) omap"
  mat_generation :: gen

definition matrix_empty :: CompatibilityMatrix where
  "matrix_empty = \<lparr>edges = om_empty, neighbour_rows = om_empty, mat_generation = gen_unset\<rparr>"

text \<open>Insertion at, and removal at, the position \<open>std::lower_bound\<close> finds in a sorted row.\<close>

definition row_insert :: "u64 \<Rightarrow> u64 list \<Rightarrow> u64 list" where
  "row_insert t row = takeWhile (\<lambda>x. x < t) row @ t # dropWhile (\<lambda>x. x < t) row"

definition row_erase :: "u64 \<Rightarrow> u64 list \<Rightarrow> u64 list" where
  "row_erase t row =
     (case dropWhile (\<lambda>x. x < t) row of
        [] \<Rightarrow> row
      | x # xs \<Rightarrow> if x = t then takeWhile (\<lambda>x. x < t) row @ xs else row)"

definition row_at :: "CompatibilityMatrix \<Rightarrow> u64 \<Rightarrow> u64 list" where
  "row_at m f = (case om_find (neighbour_rows m) f of None \<Rightarrow> [] | Some row \<Rightarrow> row)"

definition matrix_upsert :: "CompatibilityMatrix \<Rightarrow> CompatibilityEdge \<Rightarrow> Status \<times> CompatibilityMatrix" where
  "matrix_upsert m e =
     (if is_failure (validate_edge e) then (validate_edge e, m)
      else let key = (ed_from e, ed_to e) in
        case om_find (edges m) key of
          None \<Rightarrow>
            if om_size (edges m) \<ge> kCompatibilityEdges
              then (failure LimitExceeded ''compatibility edge bound reached'', m)
            else (status_ok,
                  m\<lparr>edges := om_emplace key e (edges m),
                    neighbour_rows := om_upd (ed_from e) (row_insert (ed_to e) (row_at m (ed_from e)))
                      (neighbour_rows m),
                    mat_generation := gen_bump (mat_generation m)\<rparr>)
        | Some _ \<Rightarrow>
            (status_ok, m\<lparr>edges := om_upd key e (edges m), mat_generation := gen_bump (mat_generation m)\<rparr>))"

definition matrix_remove :: "CompatibilityMatrix \<Rightarrow> gen \<Rightarrow> gen \<Rightarrow> Status \<times> CompatibilityMatrix" where
  "matrix_remove m f t =
     (if om_find (edges m) (f, t) = None then (failure NotFound ''compatibility edge is not present'', m)
      else let m = m\<lparr>edges := om_del (f, t) (edges m)\<rparr>;
               m = (case om_find (neighbour_rows m) f of
                      None \<Rightarrow> m
                    | Some row \<Rightarrow>
                        let row = row_erase t row in
                        if row = [] then m\<lparr>neighbour_rows := om_del f (neighbour_rows m)\<rparr>
                        else m\<lparr>neighbour_rows := om_upd f row (neighbour_rows m)\<rparr>)
           in (status_ok, m\<lparr>mat_generation := gen_bump (mat_generation m)\<rparr>))"

definition matrix_find :: "CompatibilityMatrix \<Rightarrow> gen \<Rightarrow> gen \<Rightarrow> CompatibilityEdge option" where
  "matrix_find m f t = om_find (edges m) (f, t)"

definition matrix_permits :: "CompatibilityMatrix \<Rightarrow> gen \<Rightarrow> gen \<Rightarrow> CompatPermission \<Rightarrow> bool" where
  "matrix_permits m f t p =
     (case matrix_find m f t of None \<Rightarrow> False | Some e \<Rightarrow> has_permission (ed_permissions e) p)"

definition neighbours :: "CompatibilityMatrix \<Rightarrow> gen \<Rightarrow> gen list" where
  "neighbours m f = (case om_find (neighbour_rows m) f of None \<Rightarrow> [] | Some row \<Rightarrow> row)"

definition all_edges :: "CompatibilityMatrix \<Rightarrow> CompatibilityEdge list" where
  "all_edges m = om_vals (edges m)"

definition explain_edge :: "CompatibilityMatrix \<Rightarrow> gen \<Rightarrow> gen \<Rightarrow> string list" where
  "explain_edge m f t =
     (case matrix_find m f t of
        None \<Rightarrow> [''no compatibility edge recorded for generation '' @ dec_u64 f @ '' -> '' @ dec_u64 t]
      | Some e \<Rightarrow>
          map (\<lambda>a. let assessment = ed_aspects e a in
                 aspect_to_string a @ '' = '' @ outcome_to_string (aa_outcome assessment) @ '' [''
                 @ evidence_class_to_string (aa_provenance assessment) @ '' evidence=''
                 @ dec_u64 (aa_evidence assessment) @ '']'') all_aspects
          @ [''permissions = '' @ describe_permissions (ed_permissions e)]
          @ (if ed_requires_feature_gate e
             then [''requires feature gate '' @ ed_gate e @ '' generation '' @ dec_u64 (ed_gate_generation e)]
             else [])
          @ (if ed_requires_protocol_downgrade e
             then [''requires protocol negotiation down to generation '' @ dec_u64 (ed_downgrade_to e)]
             else [])
          @ (if ed_requires_state_translation e
             then [''requires state translation via migration '' @ ed_migration e @ '' generation ''
                   @ dec_u64 (ed_migration_generation e)]
             else []))"

definition edge_entry_check :: "(u64 \<times> u64) \<times> CompatibilityEdge \<Rightarrow> Status" where
  "edge_entry_check entry =
     (let (key, e) = entry in
      if fst key \<noteq> ed_from e \<or> snd key \<noteq> ed_to e
        then failure Corrupt ''compatibility matrix key does not match its edge''
      else validate_edge e)"

definition row_check :: "CompatibilityMatrix \<Rightarrow> u64 \<times> u64 list \<Rightarrow> Status" where
  "row_check m entry =
     (let (f, row) = entry in
      if \<not> sorted row then failure Corrupt ''compatibility neighbour index is not sorted''
      else if length (remdups_adj row) \<noteq> length row
        then failure Corrupt ''compatibility neighbour index has duplicates''
      else first_failure (\<lambda>t. if om_find (edges m) (f, t) = None
             then failure Corrupt ''compatibility neighbour index is inconsistent'' else status_ok) row)"

definition matrix_validate :: "CompatibilityMatrix \<Rightarrow> Status" where
  "matrix_validate m =
     (if om_size (edges m) > kCompatibilityEdges
        then failure Corrupt ''compatibility matrix exceeds the edge bound''
      else let s = first_failure edge_entry_check (om_entries (edges m)) in
        if is_failure s then s
        else first_failure (row_check m) (om_entries (neighbour_rows m)))"


section \<open>What a permission requires\<close>

lemma permission_bits_disjoint:
  "permission_bit p AND permission_bit q \<noteq> 0 \<longleftrightarrow> p = q \<and> p \<noteq> NoPermission"
  by (cases p; cases q) simp_all

lemma has_add_permission [simp]:
  "has_permission (add_permission s q) p \<longleftrightarrow> has_permission s p \<or> (p = q \<and> p \<noteq> NoPermission)"
proof -
  have "(s OR permission_bit q) AND permission_bit p =
      (s AND permission_bit p) OR (permission_bit q AND permission_bit p)"
    by (rule bit_word_eqI) (auto simp: bit_simps)
  then show ?thesis
    using permission_bits_disjoint [of q p]
    by (auto simp: has_permission_def add_permission_def or_eq_0_iff)
qed

lemma has_grant [simp]:
  "has_permission (grant b q s) p \<longleftrightarrow> has_permission s p \<or> (b \<and> p = q \<and> p \<noteq> NoPermission)"
  by (simp add: grant_def)

lemma has_no_permission [simp]: "\<not> has_permission 0 p"
  by (simp add: has_permission_def)

abbreviation permissive :: "CompatibilityEdge \<Rightarrow> CompatAspect \<Rightarrow> bool" where
  "permissive e a \<equiv> is_permissive_outcome (ed_outcome e a)"

lemma derived_permission:
  "has_permission (derive_permissions e) ControlChannel \<longleftrightarrow>
     permissive e BinaryApi \<and> permissive e Abi \<and> permissive e WireProtocol \<and> permissive e Capability"
  "has_permission (derive_permissions e) ReadOnlyMessages \<longleftrightarrow>
     has_permission (derive_permissions e) ControlChannel \<and> permissive e ProtocolRead"
  "has_permission (derive_permissions e) MutatingMessages \<longleftrightarrow>
     has_permission (derive_permissions e) ReadOnlyMessages \<and> permissive e ProtocolWrite"
  "has_permission (derive_permissions e) ReadState \<longleftrightarrow>
     has_permission (derive_permissions e) ControlChannel \<and> permissive e SchemaRead \<and> permissive e PersistenceFormat"
  "has_permission (derive_permissions e) WriteSharedState \<longleftrightarrow>
     has_permission (derive_permissions e) MutatingMessages \<and> has_permission (derive_permissions e) ReadState
     \<and> permissive e SchemaWrite \<and> permissive e StateMigration"
  "has_permission (derive_permissions e) ShareSnapshots \<longleftrightarrow>
     has_permission (derive_permissions e) ReadState \<and> permissive e Snapshot"
  "has_permission (derive_permissions e) JoinControlEpoch \<longleftrightarrow>
     has_permission (derive_permissions e) MutatingMessages \<and> permissive e PeerVersion \<and> permissive e FeatureGate"
  "has_permission (derive_permissions e) CoexistDuringRollout \<longleftrightarrow>
     has_permission (derive_permissions e) ReadOnlyMessages \<and> permissive e PeerVersion"
  "has_permission (derive_permissions e) RollbackAfterMutation \<longleftrightarrow>
     ed_outcome e Rollback \<in> {RollbackCompatible, FullyCompatible} \<and> permissive e StateMigration"
  unfolding derive_permissions_def Let_def by (auto simp only: has_grant has_no_permission
      if_distrib [of "\<lambda>s. has_permission s _"] CompatPermission.distinct simp_thms insert_iff empty_iff
      split: if_splits)

text \<open>The aspects each permission rests on, and when an aspect supports the permissions that rest on it.\<close>

definition control_aspects :: "CompatAspect set" where
  "control_aspects = {BinaryApi, Abi, WireProtocol, Capability}"

fun needs :: "CompatPermission \<Rightarrow> CompatAspect set" where
  "needs NoPermission = {}"
| "needs ControlChannel = control_aspects"
| "needs ReadOnlyMessages = control_aspects \<union> {ProtocolRead}"
| "needs MutatingMessages = control_aspects \<union> {ProtocolRead, ProtocolWrite}"
| "needs ReadState = control_aspects \<union> {SchemaRead, PersistenceFormat}"
| "needs WriteSharedState = control_aspects \<union> {ProtocolRead, ProtocolWrite, SchemaRead, PersistenceFormat, SchemaWrite, StateMigration}"
| "needs ShareSnapshots = control_aspects \<union> {SchemaRead, PersistenceFormat, Snapshot}"
| "needs JoinControlEpoch = control_aspects \<union> {ProtocolRead, ProtocolWrite, PeerVersion, FeatureGate}"
| "needs CoexistDuringRollout = control_aspects \<union> {ProtocolRead, PeerVersion}"
| "needs RollbackAfterMutation = {Rollback, StateMigration}"

definition supports :: "CompatibilityEdge \<Rightarrow> CompatAspect \<Rightarrow> bool" where
  "supports e a \<longleftrightarrow> (if a = Rollback then ed_outcome e a \<in> {RollbackCompatible, FullyCompatible} else permissive e a)"

definition granted :: "CompatibilityEdge \<Rightarrow> CompatPermission set" where
  "granted e = {p. has_permission (derive_permissions e) p}"

definition with_outcome :: "CompatAspect \<Rightarrow> CompatOutcome \<Rightarrow> CompatibilityEdge \<Rightarrow> CompatibilityEdge" where
  "with_outcome a out e = e\<lparr>ed_aspects := (ed_aspects e)(a := (ed_aspects e a)\<lparr>aa_outcome := out\<rparr>)\<rparr>"

lemma supports_with_outcome:
  "is_blocking_outcome out \<Longrightarrow> supports (with_outcome a out e) b \<longleftrightarrow> b \<noteq> a \<and> supports e b"
  by (cases out) (auto simp: supports_def with_outcome_def ed_outcome_def is_permissive_outcome_def)

lemma granted_needs: "p \<in> granted e \<longleftrightarrow> p \<noteq> NoPermission \<and> (\<forall>a\<in>needs p. supports e a)"
proof (cases p)
  case NoPermission
  then show ?thesis by (simp add: granted_def has_permission_def)
qed (simp_all only: granted_def mem_Collect_eq derived_permission, auto simp: supports_def control_aspects_def)

text \<open>
  C24: A permission is granted exactly when every aspect it rests on supports it: the control channel rests on the binary
  interface, the ABI, the wire protocol and the capability set; read-only messages also on reading the protocol,
  mutating messages also on writing it; reading state on the control channel, the schema and the
  persistence format; writing shared state on mutating messages, reading state, writing the schema and state
  migration; sharing snapshots, joining the control epoch and coexisting on the snapshot, the peer version and the
  feature gate besides; and rolling back on the rollback outcome and state migration alone.  So a permission
  that rests on less than a granted one is granted too, and an aspect that turns to a blocking outcome withdraws
  exactly the permissions that rest on it.
\<close>

theorem permission_lattice:
  "granted e = {p. p \<noteq> NoPermission \<and> (\<forall>a\<in>needs p. supports e a)}
    \<and> (p \<noteq> NoPermission \<and> needs p \<subseteq> needs q \<and> q \<in> granted e \<longrightarrow> p \<in> granted e)
    \<and> (is_blocking_outcome out \<longrightarrow> granted (with_outcome a out e) = {p \<in> granted e. a \<notin> needs p})"
proof (intro conjI impI)
  show "granted e = {p. p \<noteq> NoPermission \<and> (\<forall>a\<in>needs p. supports e a)}" using granted_needs by blast
  show "p \<in> granted e" if "p \<noteq> NoPermission \<and> needs p \<subseteq> needs q \<and> q \<in> granted e"
    using that granted_needs [of _ e] by blast
  assume "is_blocking_outcome out"
  note supports = supports_with_outcome [OF this, of a e]
  show "granted (with_outcome a out e) = {p \<in> granted e. a \<notin> needs p}"
    unfolding set_eq_iff mem_Collect_eq granted_needs supports by blast
qed

definition sample_edge :: "gen \<Rightarrow> gen \<Rightarrow> CompatibilityEdge" where
  "sample_edge f t = \<lparr>ed_from = f, ed_to = t,
      ed_aspects = (\<lambda>_. \<lparr>aa_outcome = FullyCompatible, aa_provenance = Real, aa_evidence = 1, aa_detail = []\<rparr>),
      ed_permissions = 511, ed_generation = 1, ed_evidence = 1, ed_epoch = 1, ed_requires_feature_gate = False,
      ed_gate = [], ed_gate_generation = 0, ed_requires_protocol_downgrade = False, ed_downgrade_to = 0,
      ed_requires_state_translation = False, ed_migration = [], ed_migration_generation = 0\<rparr>"

theorem permission_lattice_witness:
  "granted (with_outcome Snapshot CompatOutcome.IncompatibleSchema (sample_edge 1 2)) = granted (sample_edge 1 2) - {ShareSnapshots}
   \<and> ControlChannel \<in> granted (sample_edge 1 2)"
proof -
  have blocking: "is_blocking_outcome CompatOutcome.IncompatibleSchema" by simp
  have "p = ShareSnapshots" if "Snapshot \<in> needs p" for p using that by (cases p) (auto simp: control_aspects_def)
  moreover have "WriteSharedState \<in> granted (sample_edge 1 2)" "needs ControlChannel \<subseteq> needs WriteSharedState"
    by (auto simp: granted_needs supports_def sample_edge_def ed_outcome_def is_permissive_outcome_def)
  moreover have "Snapshot \<in> needs ShareSnapshots" by simp
  ultimately show ?thesis
    using permission_lattice [of "sample_edge 1 2" ControlChannel WriteSharedState CompatOutcome.IncompatibleSchema Snapshot] blocking by auto
qed


section \<open>The neighbour index\<close>

lemma row_insert_simps:
  "row_insert t [] = [t]"
  "row_insert t (x # xs) = (if x < t then x # row_insert t xs else t # x # xs)"
  by (simp_all add: row_insert_def)

lemma row_erase_simps:
  "row_erase t [] = []"
  "row_erase t (x # xs) = (if x < t then x # row_erase t xs else if x = t then xs else x # xs)"
proof -
  show "row_erase t (x # xs) = (if x < t then x # row_erase t xs else if x = t then xs else x # xs)"
  proof (cases "x < t")
    case True
    then show ?thesis
      by (cases "dropWhile (\<lambda>x. x < t) xs") (simp_all add: row_erase_def del: dropWhile_eq_Nil_conv)
  qed (simp add: row_erase_def)
qed (simp add: row_erase_def)

lemma set_row_insert: "set (row_insert t row) = insert t (set row)"
  by (induction row) (auto simp: row_insert_simps)

lemma row_insert_sorted:
  "sorted_wrt (<) row \<Longrightarrow> t \<notin> set row \<Longrightarrow> sorted_wrt (<) (row_insert t row)"
proof (induction row)
  case (Cons x xs)
  then show ?case
    by (cases "x < t") (auto simp: row_insert_simps set_row_insert not_less order_le_less)
qed (simp add: row_insert_simps)

lemma row_erase_sorted:
  "sorted_wrt (<) row \<Longrightarrow> set (row_erase t row) = set row - {t} \<and> sorted_wrt (<) (row_erase t row)"
proof (induction row)
  case (Cons x xs)
  then show ?case
    by (cases "x < t") (auto simp: row_erase_simps dest: less_asym)
qed (simp add: row_erase_simps)

definition mat_inv :: "CompatibilityMatrix \<Rightarrow> bool" where
  "mat_inv m \<longleftrightarrow>
     om_ok (edges m) \<and> om_ok (neighbour_rows m) \<and> om_size (edges m) \<le> kCompatibilityEdges
     \<and> (\<forall>f t e. om_find (edges m) (f, t) = Some e \<longrightarrow> ed_from e = f \<and> ed_to e = t \<and> is_ok (validate_edge e))
     \<and> (\<forall>f. sorted_wrt (<) (row_at m f) \<and> set (row_at m f) = {t. om_find (edges m) (f, t) \<noteq> None})"

lemma mat_inv_empty: "mat_inv matrix_empty"
  by (simp add: mat_inv_def matrix_empty_def row_at_def)

lemma mat_invD:
  assumes "mat_inv m"
  shows "om_ok (edges m)" "om_ok (neighbour_rows m)" "om_size (edges m) \<le> kCompatibilityEdges"
    "om_find (edges m) (f, t) = Some e \<Longrightarrow> ed_from e = f \<and> ed_to e = t \<and> is_ok (validate_edge e)"
    "sorted_wrt (<) (row_at m f)" "set (row_at m f) = {t. om_find (edges m) (f, t) \<noteq> None}"
  using assms by (simp_all add: mat_inv_def)

lemma mat_inv_insert:
  assumes inv: "mat_inv m" and e: "is_ok (validate_edge e)"
    and new: "om_find (edges m) (ed_from e, ed_to e) = None" and room: "om_size (edges m) < kCompatibilityEdges"
  shows "mat_inv (m\<lparr>edges := om_upd (ed_from e, ed_to e) e (edges m),
      neighbour_rows := om_upd (ed_from e) (row_insert (ed_to e) (row_at m (ed_from e))) (neighbour_rows m),
      mat_generation := g\<rparr>)" (is "mat_inv ?m")
proof -
  have row: "row_at ?m f = (if f = ed_from e then row_insert (ed_to e) (row_at m f) else row_at m f)" for f
    by (simp add: row_at_def)
  have fresh: "ed_to e \<notin> set (row_at m (ed_from e))"
    using mat_invD(6) [OF inv, of "ed_from e"] new by simp
  have "sorted_wrt (<) (row_at ?m f)" for f
    using mat_invD(5) [OF inv] row_insert_sorted [OF _ fresh] by (simp add: row)
  moreover have "set (row_at ?m f) = {t. om_find (edges ?m) (f, t) \<noteq> None}" for f
    using mat_invD(6) [OF inv, of f] by (auto simp: row set_row_insert)
  moreover have "om_size (edges ?m) \<le> kCompatibilityEdges"
    using new room by (simp add: om_size_upd mat_invD(1) [OF inv])
  ultimately show ?thesis
    using mat_invD(1,2,4) [OF inv] e unfolding mat_inv_def
    by (simp add: om_ok_upd split: if_splits)
qed

lemma mat_inv_replace:
  assumes inv: "mat_inv m" and e: "is_ok (validate_edge e)"
    and old: "om_find (edges m) (ed_from e, ed_to e) = Some old"
  shows "mat_inv (m\<lparr>edges := om_upd (ed_from e, ed_to e) e (edges m), mat_generation := g\<rparr>)" (is "mat_inv ?m")
proof -
  have "row_at ?m f = row_at m f" for f by (simp add: row_at_def)
  moreover have "{t. om_find (edges ?m) (f, t) \<noteq> None} = {t. om_find (edges m) (f, t) \<noteq> None}" for f
    using old by auto
  moreover have "om_size (edges ?m) \<le> kCompatibilityEdges"
    using old mat_invD(3) [OF inv] by (simp add: om_size_upd mat_invD(1) [OF inv])
  ultimately show ?thesis
    using mat_invD(1,2,4-6) [OF inv] e unfolding mat_inv_def
    by (simp add: om_ok_upd split: if_splits)
qed

lemma mat_inv_upsert: "mat_inv m \<Longrightarrow> mat_inv (snd (matrix_upsert m e))"
  by (auto simp: matrix_upsert_def Let_def om_emplace_def mat_inv_insert mat_inv_replace split: option.splits)

lemma mat_inv_remove:
  assumes inv: "mat_inv m"
  shows "mat_inv (snd (matrix_remove m f t))"
proof (cases "om_find (edges m) (f, t)")
  case (Some e)
  define row where "row = row_erase t (row_at m f)"
  have "t \<in> set (row_at m f)" using mat_invD(6) [OF inv, of f] Some by simp
  then have present: "om_find (neighbour_rows m) f = Some (row_at m f)"
    by (cases "om_find (neighbour_rows m) f") (simp_all add: row_at_def)
  let ?m = "snd (matrix_remove m f t)"
  have result: "edges ?m = om_del (f, t) (edges m)"
    "neighbour_rows ?m = (if row = [] then om_del f (neighbour_rows m) else om_upd f row (neighbour_rows m))"
    using Some present by (simp_all add: matrix_remove_def Let_def row_def)
  have "row_at ?m f' = (if f' = f then row else row_at m f')" for f'
    using om_find_del [OF mat_invD(2) [OF inv], of f] by (auto simp: row_at_def result)
  moreover have "om_find (edges ?m) (f', t') = (if (f', t') = (f, t) then None else om_find (edges m) (f', t'))" for f' t'
    using om_find_del [OF mat_invD(1) [OF inv], of "(f, t)"] by (simp add: result)
  moreover have "set row = {t'. t' \<noteq> t \<and> om_find (edges m) (f, t') \<noteq> None}" "sorted_wrt (<) row"
    using row_erase_sorted [OF mat_invD(5) [OF inv, of f], of t] mat_invD(6) [OF inv, of f]
    by (auto simp: row_def)
  moreover have "om_size (edges ?m) \<le> kCompatibilityEdges"
    using mat_invD(1,3) [OF inv] by (auto simp: result om_size_del)
  moreover have "om_ok (edges ?m)" "om_ok (neighbour_rows ?m)"
    using mat_invD(1,2) [OF inv] by (simp_all add: result om_ok_del om_ok_upd)
  ultimately show ?thesis
    using mat_invD(4-6) [OF inv] unfolding mat_inv_def by (auto split: if_splits)
qed (simp add: matrix_remove_def inv)

lemma mat_inv_validates:
  assumes inv: "mat_inv m"
  shows "is_ok (matrix_validate m)"
proof -
  have "is_ok (edge_entry_check ((f, t), e))" if "((f, t), e) \<in> set (om_entries (edges m))" for f t e
  proof -
    have "om_find (edges m) (f, t) = Some e"
      using that by (simp add: om_entries_def om_in_iff mat_invD(1) [OF inv])
    then show ?thesis using mat_invD(4) [OF inv] by (simp add: edge_entry_check_def)
  qed
  moreover have "is_ok (row_check m (f, row))" if "(f, row) \<in> set (om_entries (neighbour_rows m))" for f row
  proof -
    have "om_find (neighbour_rows m) f = Some row"
      using that by (simp add: om_entries_def om_in_iff mat_invD(2) [OF inv])
    then have row: "row = row_at m f" by (simp add: row_at_def)
    then have "sorted row \<and> distinct row"
      using mat_invD(5) [OF inv, of f] by (simp add: strict_sorted_iff)
    then show ?thesis
      using mat_invD(6) [OF inv, of f] row by (auto simp: row_check_def remdups_adj_distinct)
  qed
  ultimately show ?thesis
    using mat_invD(3) [OF inv] by (auto simp: matrix_validate_def Let_def)
qed

text \<open>The edges of a matrix, as a map.\<close>

definition edge_map :: "CompatibilityMatrix \<Rightarrow> gen \<times> gen \<Rightarrow> CompatibilityEdge option" where
  "edge_map m = (\<lambda>(f, t). matrix_find m f t)"

lemma edge_map_find: "edge_map m = om_find (edges m)"
  by (simp add: edge_map_def matrix_find_def fun_eq_iff)

lemma upsert_edges:
  "is_ok (fst (matrix_upsert m e)) \<Longrightarrow> edge_map (snd (matrix_upsert m e)) = (edge_map m)((ed_from e, ed_to e) \<mapsto> e)"
  "is_ok (fst (matrix_upsert m e)) \<Longrightarrow> mat_generation m < kGenerationCeiling \<Longrightarrow>
     mat_generation m < mat_generation (snd (matrix_upsert m e))"
  "\<not> is_ok (fst (matrix_upsert m e)) \<Longrightarrow> snd (matrix_upsert m e) = m"
  by (auto simp: edge_map_find matrix_upsert_def om_find_emplace gen_bump_gt fun_eq_iff Let_def split: option.splits if_splits)

lemma remove_edges:
  assumes "mat_inv m"
  shows "is_ok (fst (matrix_remove m f t)) \<longleftrightarrow> edge_map m (f, t) \<noteq> None"
    "edge_map (snd (matrix_remove m f t)) = (edge_map m)((f, t) := None)"
    "is_ok (fst (matrix_remove m f t)) \<Longrightarrow> mat_generation m < kGenerationCeiling \<Longrightarrow>
       mat_generation m < mat_generation (snd (matrix_remove m f t))"
    "\<not> is_ok (fst (matrix_remove m f t)) \<Longrightarrow> snd (matrix_remove m f t) = m"
  using om_find_del [OF mat_invD(1) [OF assms], of "(f, t)"]
  by (auto simp: edge_map_find matrix_remove_def gen_bump_gt fun_eq_iff Let_def split: option.splits if_splits)

text \<open>
  C21: The neighbour index never disagrees with the edges.  From a matrix that satisfies the
  invariant (the empty one does), publishing and removing edges keep it; such a matrix always passes
  \<open>validate\<close>; the neighbour list of a generation is the increasing list of the targets of its edges.
  A successful publication sets exactly the published edge, removal succeeds exactly when the edge is there and takes away
  exactly that edge; each success gives the matrix a new, larger generation (while below the ceiling), and a
  rejected publication or removal changes nothing.
\<close>

theorem matrix_index_consistent:
  fixes e f t
  assumes "mat_inv m"
  defines "up \<equiv> matrix_upsert m e" and "del \<equiv> matrix_remove m f t"
  shows "is_ok (matrix_validate m)
    \<and> neighbours m f = sorted_list_of_set {t. edge_map m (f, t) \<noteq> None}
    \<and> mat_inv (snd up) \<and> mat_inv (snd del)
    \<and> (is_ok (fst up) \<longrightarrow> edge_map (snd up) = (edge_map m)((ed_from e, ed_to e) \<mapsto> e)
         \<and> (mat_generation m < kGenerationCeiling \<longrightarrow> mat_generation m < mat_generation (snd up)))
    \<and> (\<not> is_ok (fst up) \<longrightarrow> snd up = m)
    \<and> (is_ok (fst del) \<longleftrightarrow> edge_map m (f, t) \<noteq> None)
    \<and> (is_ok (fst del) \<longrightarrow> edge_map (snd del) = (edge_map m)((f, t) := None)
         \<and> (mat_generation m < kGenerationCeiling \<longrightarrow> mat_generation m < mat_generation (snd del)))
    \<and> (\<not> is_ok (fst del) \<longrightarrow> snd del = m)"
proof (intro conjI)
  show "neighbours m f = sorted_list_of_set {t. edge_map m (f, t) \<noteq> None}"
    using mat_invD(5,6) [OF assms(1), of f] sorted_list_of_set.idem_if_sorted_distinct [of "row_at m f"]
    by (simp add: neighbours_def row_at_def matrix_find_def edge_map_def strict_sorted_iff split: option.splits)
  show "is_ok (fst del) \<longleftrightarrow> edge_map m (f, t) \<noteq> None" unfolding del_def by (rule remove_edges(1) [OF assms(1)])
qed (use upsert_edges remove_edges [OF assms(1)] in \<open>simp_all add: up_def del_def assms(1) mat_inv_validates mat_inv_upsert mat_inv_remove\<close>)

lemma sample_edge_ok: "f \<noteq> 0 \<Longrightarrow> t \<noteq> 0 \<Longrightarrow> f \<noteq> t \<Longrightarrow> is_ok (validate_edge (sample_edge f t))"
  by (simp add: validate_edge_def sample_edge_def gen_is_set_def aspect_check_def derive_permissions_def
      ed_outcome_def is_permissive_outcome_def grant_def add_permission_def)

theorem matrix_index_consistent_witness:
  "is_ok (fst (matrix_upsert matrix_empty (sample_edge 1 2)))
   \<and> mat_generation (snd (matrix_upsert matrix_empty (sample_edge 1 2))) > 0
   \<and> neighbours (snd (matrix_upsert matrix_empty (sample_edge 1 2))) 1 = [2]"
proof -
  let ?m = "snd (matrix_upsert matrix_empty (sample_edge 1 2))"
  have ok: "is_ok (fst (matrix_upsert matrix_empty (sample_edge 1 2)))"
    using sample_edge_ok [of 1 2] by (simp add: matrix_upsert_def matrix_empty_def limit_defs)
  have "{t. edge_map ?m (1, t) \<noteq> None} = {2}"
    using sample_edge_ok [of 1 2]
    by (auto simp: matrix_upsert_def matrix_empty_def limit_defs matrix_find_def edge_map_def om_find_emplace sample_edge_def
        split: if_splits)
  moreover have "mat_generation matrix_empty < kGenerationCeiling"
    by (simp add: matrix_empty_def gen_unset_def kGenerationCeiling_val)
  ultimately show ?thesis
    using matrix_index_consistent [OF mat_inv_empty, where e = "sample_edge 1 2"] ok
      matrix_index_consistent [of ?m 1] mat_inv_upsert [OF mat_inv_empty, of "sample_edge 1 2"]
    by (simp add: matrix_empty_def gen_unset_def)
qed

end
