(* ===== verification/Ref_Plan.thy ===== *)
theory Ref_Plan
  imports Ref_Compat
begin

text \<open>
  Rollout stages, evolution plans and feature gates: \<open>include/ref/plan.hpp\<close> and \<open>src/plan.cpp\<close>.

  \<open>evaluate_stage_advance\<close> is the decision behind every stage change.  Shown: exactly when it
  allows an advance; that along any rollout driven by it the stages only move forward and no stage
  the policy requires is ever skipped; and that FULL\_PROMOTION is terminal, which cuts off the
  retirement stage behind it.  The feature-gate table is a validated registry; a gate opens only
  for a context that satisfies all of its bounds.
\<close>

section \<open>Rollout stages\<close>

datatype RolloutStage =
    NoStage | CandidateRegistered | CompatibilityProven | CanaryCohort | MixedVersionCohort
  | ExpandedCohort | MigrationBarrier | NewWriterEnabled | OldWriterDrain | FullPromotion
  | OldGenerationRetirement | Superseded | RolledBack

text \<open>The underlying value of the enumeration, by which the sources compare stages.\<close>

fun stage_raw :: "RolloutStage \<Rightarrow> nat" where
  "stage_raw NoStage = 0" | "stage_raw CandidateRegistered = 1" | "stage_raw CompatibilityProven = 2"
| "stage_raw CanaryCohort = 3" | "stage_raw MixedVersionCohort = 4" | "stage_raw ExpandedCohort = 5"
| "stage_raw MigrationBarrier = 6" | "stage_raw NewWriterEnabled = 7" | "stage_raw OldWriterDrain = 8"
| "stage_raw FullPromotion = 9" | "stage_raw OldGenerationRetirement = 10"
| "stage_raw RolloutStage.Superseded = 11" | "stage_raw RolloutStage.RolledBack = 12"

lemma stage_raw_inj: "stage_raw a = stage_raw b \<Longrightarrow> a = b"
  by (cases a; cases b) simp_all

instantiation RolloutStage :: linorder
begin

definition less_eq_RolloutStage :: "RolloutStage \<Rightarrow> RolloutStage \<Rightarrow> bool" where
  "a \<le> b \<longleftrightarrow> stage_raw a \<le> stage_raw b"

definition less_RolloutStage :: "RolloutStage \<Rightarrow> RolloutStage \<Rightarrow> bool" where
  "a < b \<longleftrightarrow> stage_raw a < stage_raw b"

instance
  by standard (auto simp: less_eq_RolloutStage_def less_RolloutStage_def dest: stage_raw_inj)

end

definition all_stages :: "RolloutStage list" where
  "all_stages =
     [NoStage, CandidateRegistered, CompatibilityProven, CanaryCohort, MixedVersionCohort, ExpandedCohort,
      MigrationBarrier, NewWriterEnabled, OldWriterDrain, FullPromotion, OldGenerationRetirement,
      RolloutStage.Superseded, RolloutStage.RolledBack]"

fun stage_to_string :: "RolloutStage \<Rightarrow> string" where
  "stage_to_string NoStage = ''NONE''"
| "stage_to_string CandidateRegistered = ''CANDIDATE_REGISTERED''"
| "stage_to_string CompatibilityProven = ''COMPATIBILITY_PROVEN''"
| "stage_to_string CanaryCohort = ''CANARY_COHORT''"
| "stage_to_string MixedVersionCohort = ''MIXED_VERSION_COHORT''"
| "stage_to_string ExpandedCohort = ''EXPANDED_COHORT''"
| "stage_to_string MigrationBarrier = ''MIGRATION_BARRIER''"
| "stage_to_string NewWriterEnabled = ''NEW_WRITER_ENABLED''"
| "stage_to_string OldWriterDrain = ''OLD_WRITER_DRAIN''"
| "stage_to_string FullPromotion = ''FULL_PROMOTION''"
| "stage_to_string OldGenerationRetirement = ''OLD_GENERATION_RETIREMENT''"
| "stage_to_string RolloutStage.Superseded = ''SUPERSEDED''"
| "stage_to_string RolloutStage.RolledBack = ''ROLLED_BACK''"

definition parse_rollout_stage :: "string \<Rightarrow> RolloutStage option" where
  "parse_rollout_stage text = List.find (\<lambda>s. text = stage_to_string s) all_stages"

interpretation stage_names: enum_names all_stages stage_to_string
proof
  show "e \<in> set all_stages" for e by (cases e) (simp_all add: all_stages_def)
qed (simp add: all_stages_def)

fun rollout_stage_rank :: "RolloutStage \<Rightarrow> nat" where
  "rollout_stage_rank NoStage = 0"
| "rollout_stage_rank CandidateRegistered = 1"
| "rollout_stage_rank CompatibilityProven = 2"
| "rollout_stage_rank CanaryCohort = 3"
| "rollout_stage_rank MixedVersionCohort = 4"
| "rollout_stage_rank ExpandedCohort = 5"
| "rollout_stage_rank MigrationBarrier = 6"
| "rollout_stage_rank NewWriterEnabled = 7"
| "rollout_stage_rank OldWriterDrain = 8"
| "rollout_stage_rank FullPromotion = 9"
| "rollout_stage_rank OldGenerationRetirement = 10"
| "rollout_stage_rank RolloutStage.Superseded = 0"
| "rollout_stage_rank RolloutStage.RolledBack = 0"

fun is_terminal_stage :: "RolloutStage \<Rightarrow> bool" where
  "is_terminal_stage RolloutStage.Superseded = True"
| "is_terminal_stage RolloutStage.RolledBack = True"
| "is_terminal_stage OldGenerationRetirement = True"
| "is_terminal_stage FullPromotion = True"
| "is_terminal_stage _ = False"

fun is_authority_barrier_stage :: "RolloutStage \<Rightarrow> bool" where
  "is_authority_barrier_stage MigrationBarrier = True"
| "is_authority_barrier_stage NewWriterEnabled = True"
| "is_authority_barrier_stage OldWriterDrain = True"
| "is_authority_barrier_stage FullPromotion = True"
| "is_authority_barrier_stage OldGenerationRetirement = True"
| "is_authority_barrier_stage _ = False"


section \<open>Evolution plans\<close>

record PlanStageRecord =
  sr_stage_id :: ident
  sr_stage :: RolloutStage
  sr_generation :: gen
  sr_epoch :: gen
  sr_coordinator_epoch :: gen
  sr_evidence :: gen
  sr_completed :: bool
  sr_note :: string

record RolloutPolicy =
  require_canary :: bool
  require_mixed_version_cohort :: bool
  require_migration_barrier :: bool
  require_new_writer_barrier :: bool
  require_old_writer_drain :: bool
  require_rollback_proof :: bool
  rp_generation :: gen

record EvolutionPlan =
  ep_id :: ident
  ep_generation :: gen
  ep_component :: ident
  ep_current_generation :: gen
  ep_candidate_generation :: gen
  ep_matrix_generation :: gen
  ep_protocol_generation :: gen
  ep_schema_generation :: gen
  ep_gate_generation :: gen
  ep_migration :: ident
  ep_migration_generation :: gen
  ep_migration_source :: gen
  ep_migration_target :: gen
  ep_rollback_target :: gen
  ep_rollback_generation :: gen
  ep_rollback_barrier_crossed :: bool
  ep_required_evidence :: "RequiredEvidence list"
  ep_coordinator_epoch :: gen
  ep_epoch :: gen
  ep_stage :: RolloutStage
  ep_stage_generation :: gen
  ep_cohorts :: "ident list"
  ep_canary_cohort :: ident
  ep_new_writer_enabled :: bool
  ep_policy :: RolloutPolicy
  ep_history :: "PlanStageRecord list"
  ep_superseded :: bool
  ep_evidence :: gen
  ep_detail :: string

definition plan_is_active :: "EvolutionPlan \<Rightarrow> bool" where
  "plan_is_active p \<longleftrightarrow> \<not> ep_superseded p \<and> \<not> is_terminal_stage (ep_stage p) \<and> ep_stage p \<noteq> NoStage"

definition plan_validate :: "EvolutionPlan \<Rightarrow> Status" where
  "plan_validate p =
     (if ep_id p = [] then failure InvalidArgument ''plan id is empty''
      else if \<not> gen_is_set (ep_generation p) then failure InvalidArgument ''plan generation is unset''
      else if ep_component p = [] then failure InvalidArgument ''plan component is empty''
      else if \<not> gen_is_set (ep_current_generation p) \<or> \<not> gen_is_set (ep_candidate_generation p)
        then failure InvalidArgument ''plan must bind current and candidate generations''
      else if ep_current_generation p = ep_candidate_generation p
        then failure InvalidArgument ''plan current and candidate generations are equal''
      else if \<not> gen_is_set (ep_matrix_generation p) \<or> \<not> gen_is_set (ep_protocol_generation p)
              \<or> \<not> gen_is_set (ep_schema_generation p)
        then failure InvalidArgument ''plan must bind compatibility, protocol and schema generations''
      else if \<not> gen_is_set (ep_gate_generation p)
        then failure InvalidArgument ''plan must bind a feature-gate generation''
      else if \<not> gen_is_set (ep_epoch p) then failure InvalidArgument ''plan must bind an evolution epoch''
      else if \<not> gen_is_set (ep_coordinator_epoch p)
        then failure InvalidArgument ''plan must bind a coordinator epoch''
      else if ep_rollback_barrier_crossed p \<and> \<not> gen_is_set (ep_rollback_target p)
        then failure InvalidArgument ''plan crossed a rollback barrier without a target''
      else if length (ep_history p) > kStageHistory
        then failure LimitExceeded ''plan stage history exceeds the bound''
      else if length (ep_cohorts p) > kCohorts
        then failure LimitExceeded ''plan declares too many cohorts''
      else if require_canary (ep_policy p) \<and> ep_canary_cohort p = [] \<and> ep_stage p \<ge> CanaryCohort
              \<and> ep_stage p \<noteq> RolloutStage.Superseded \<and> ep_stage p \<noteq> RolloutStage.RolledBack
        then failure InvalidArgument ''plan requires a canary cohort but declares none''
      else if require_migration_barrier (ep_policy p) \<and> \<not> gen_is_set (ep_migration_generation p)
              \<and> rollout_stage_rank (ep_stage p) \<ge> rollout_stage_rank MigrationBarrier
        then failure InvalidArgument ''plan requires a migration barrier but binds no migration generation''
      else status_ok)"

definition has_cohort :: "EvolutionPlan \<Rightarrow> ident \<Rightarrow> bool" where
  "has_cohort p cohort = (if cohort = [] then False else list_ex (\<lambda>c. c = cohort) (ep_cohorts p))"


section \<open>Stage advance\<close>

record StagePreconditions =
  sp_compatibility_proven :: bool
  sp_migration_contract_bound :: bool
  sp_migration_complete :: bool
  sp_migration_irreversible :: bool
  sp_old_writers_drained :: bool
  sp_new_writer_fence_satisfied :: bool
  sp_rollback_valid :: bool
  sp_evidence_current :: bool
  sp_canary_cohort_active :: bool
  sp_mixed_version_active :: bool

record StageDecision =
  dn_status :: Status
  dn_allowed :: bool
  dn_explanation :: "string list"

definition stage_reject :: "string list \<Rightarrow> ErrorCode \<Rightarrow> string \<Rightarrow> StageDecision" where
  "stage_reject lines c text =
     \<lparr>dn_status = failure c text, dn_allowed = False, dn_explanation = lines @ [text]\<rparr>"

text \<open>Whether the policy requires a stage to be entered explicitly.\<close>

definition stage_required :: "RolloutPolicy \<Rightarrow> RolloutStage \<Rightarrow> bool" where
  "stage_required policy skipped \<longleftrightarrow>
     (skipped = CanaryCohort \<and> require_canary policy)
     \<or> (skipped = MixedVersionCohort \<and> require_mixed_version_cohort policy)
     \<or> (skipped = MigrationBarrier \<and> require_migration_barrier policy)
     \<or> (skipped = NewWriterEnabled \<and> require_new_writer_barrier policy)
     \<or> (skipped = OldWriterDrain \<and> require_old_writer_drain policy)"

definition stage_of_rank :: "nat \<Rightarrow> RolloutStage" where
  "stage_of_rank rank =
     (case List.find (\<lambda>s. rollout_stage_rank s = rank) all_stages of Some s \<Rightarrow> s | None \<Rightarrow> NoStage)"

text \<open>The loop over the skipped ranks: the rejection, or the explanation lines collected.\<close>

fun skip_stages :: "RolloutPolicy \<Rightarrow> string list \<Rightarrow> nat list \<Rightarrow> StageDecision + string list" where
  "skip_stages policy lines [] = Inr lines"
| "skip_stages policy lines (rank # ranks) =
     (let skipped = stage_of_rank rank in
      if stage_required policy skipped
      then Inl (stage_reject lines Conflict
             (''stage '' @ stage_to_string skipped @ '' is required by policy and may not be skipped''))
      else skip_stages policy
             (lines @ [''stage '' @ stage_to_string skipped @ '' is optional under policy and is skipped'']) ranks)"

text \<open>The \<open>switch\<close> over the target: the first violated precondition.\<close>

fun target_rejection ::
  "EvolutionPlan \<Rightarrow> StagePreconditions \<Rightarrow> RolloutStage \<Rightarrow> (ErrorCode \<times> string) option" where
  "target_rejection p pre CandidateRegistered = None"
| "target_rejection p pre CompatibilityProven =
     (if \<not> sp_compatibility_proven pre
        then Some (Incompatible, ''compatibility evidence is not proven for the candidate pair'')
      else if \<not> sp_evidence_current pre then Some (ErrorCode.StaleEvidence, ''compatibility evidence is stale'')
      else None)"
| "target_rejection p pre CanaryCohort =
     (if \<not> sp_compatibility_proven pre then Some (Incompatible, ''canary requires proven compatibility'')
      else if ep_canary_cohort p = [] then Some (InvalidArgument, ''canary stage requires a canary cohort'')
      else None)"
| "target_rejection p pre MixedVersionCohort =
     (if \<not> sp_compatibility_proven pre
        then Some (Incompatible, ''mixed-version stage requires proven compatibility'') else None)"
| "target_rejection p pre ExpandedCohort =
     (if \<not> sp_mixed_version_active pre
        then Some (Conflict, ''expanded cohort requires an observed mixed-version phase'') else None)"
| "target_rejection p pre MigrationBarrier =
     (if \<not> sp_migration_contract_bound pre \<and> \<not> sp_migration_complete pre
        then Some (Conflict, ''migration barrier requires a bound migration contract and a validated migration plan'')
      else None)"
| "target_rejection p pre NewWriterEnabled =
     (if require_migration_barrier (ep_policy p) \<and> \<not> sp_migration_complete pre
        then Some (Conflict, ''new-writer enablement requires the migration barrier to be crossed'')
      else if \<not> sp_new_writer_fence_satisfied pre
        then Some (Unauthorized, ''new-writer enablement requires old incompatible writers drained or fenced'')
      else if require_rollback_proof (ep_policy p) \<and> \<not> sp_rollback_valid pre
        then Some (Incompatible, ''new-writer enablement requires a valid rollback path or explicit barrier record'')
      else None)"
| "target_rejection p pre OldWriterDrain =
     (if \<not> sp_rollback_valid pre \<and> \<not> ep_rollback_barrier_crossed p
        then Some (Incompatible, ''drain requires rollback validity or a recorded barrier'') else None)"
| "target_rejection p pre FullPromotion =
     (if \<not> sp_old_writers_drained pre then Some (Conflict, ''full promotion requires drained old writers'')
      else if \<not> sp_evidence_current pre
        then Some (ErrorCode.StaleEvidence, ''full promotion requires current compatibility evidence'')
      else None)"
| "target_rejection p pre OldGenerationRetirement =
     (if \<not> sp_old_writers_drained pre then Some (Conflict, ''retirement requires drained old generations'')
      else None)"
| "target_rejection p pre _ = Some (InvalidArgument, ''requested stage is not advanceable'')"

definition evaluate_stage_advance ::
  "EvolutionPlan \<Rightarrow> RolloutStage \<Rightarrow> StagePreconditions \<Rightarrow> StageDecision" where
  "evaluate_stage_advance p target pre =
     (if ep_superseded p then stage_reject [] StalePlan ''plan is superseded and cannot advance stages''
      else if is_terminal_stage (ep_stage p)
        then stage_reject [] Conflict ''plan has already reached a terminal rollout stage''
      else if target = NoStage
        then stage_reject [] InvalidArgument ''requested stage is not a real rollout stage''
      else if target = RolloutStage.Superseded \<or> target = RolloutStage.RolledBack
        then stage_reject [] InvalidArgument ''side states are not reachable through stage advance''
      else let current_rank = rollout_stage_rank (ep_stage p); target_rank = rollout_stage_rank target in
      if target_rank \<le> current_rank
        then stage_reject [] Conflict ''requested stage is not ahead of the current stage''
      else case skip_stages (ep_policy p) [] [Suc current_rank..<target_rank] of
          Inl rejection \<Rightarrow> rejection
        | Inr lines \<Rightarrow>
            (case target_rejection p pre target of
               Some (c, text) \<Rightarrow> stage_reject lines c text
             | None \<Rightarrow> \<lparr>dn_status = status_ok, dn_allowed = True,
                 dn_explanation = lines @ [''stage advance '' @ stage_to_string (ep_stage p) @ '' -> ''
                   @ stage_to_string target @ '' permitted'']\<rparr>))"


section \<open>Feature gates\<close>

record FeatureGate =
  fg_id :: ident
  fg_generation :: gen
  fg_min_runtime_generation :: gen
  fg_min_protocol_generation :: gen
  fg_min_schema_generation :: gen
  fg_required_peer_aspect :: CompatAspect
  fg_required_peer_outcome :: CompatOutcome
  fg_scope :: ident
  fg_enabled :: bool
  fg_enabled_by :: ident
  fg_enabled_at :: gen
  fg_provenance :: EvidenceClass
  fg_evidence :: gen
  fg_notes :: string

record GateDecision =
  gd_status :: Status
  gd_permitted :: bool
  gd_explanation :: "string list"

record GateContext =
  gc_runtime_generation :: gen
  gc_protocol_generation :: gen
  gc_schema_generation :: gen
  gc_peer_outcome :: CompatOutcome
  gc_cohort :: ident
  gc_plan :: ident
  gc_stage :: gen

definition gate_validate :: "FeatureGate \<Rightarrow> Status" where
  "gate_validate g =
     (if fg_id g = [] then failure InvalidArgument ''feature gate id is empty''
      else if \<not> gen_is_set (fg_generation g) then failure InvalidArgument ''feature gate generation is unset''
      else if \<not> gen_is_set (fg_min_runtime_generation g)
        then failure InvalidArgument ''feature gate must bind a minimum runtime generation''
      else if \<not> gen_is_set (fg_min_protocol_generation g)
        then failure InvalidArgument ''feature gate must bind a minimum protocol generation''
      else if \<not> gen_is_set (fg_min_schema_generation g)
        then failure InvalidArgument ''feature gate must bind a minimum schema generation''
      else if is_blocking_outcome (fg_required_peer_outcome g)
        then failure InvalidArgument ''feature gate requires a peer outcome that can never be satisfied''
      else if fg_enabled g \<and> fg_enabled_by g = []
        then failure InvalidArgument ''enabled feature gate must record the enabling plan''
      else if fg_provenance g = EvidenceClass.Unknown
        then failure InvalidArgument ''feature gate has no evidence provenance''
      else status_ok)"

record FeatureGateRegistry =
  gates :: "(ident, FeatureGate) omap"
  fgr_generation :: gen

definition gates_empty :: FeatureGateRegistry where
  "gates_empty = \<lparr>gates = om_empty, fgr_generation = gen_unset\<rparr>"

definition gate_define :: "FeatureGateRegistry \<Rightarrow> FeatureGate \<Rightarrow> Status \<times> FeatureGateRegistry" where
  "gate_define r g =
     (if is_failure (gate_validate g) then (gate_validate g, r)
      else case om_find (gates r) (fg_id g) of
          None \<Rightarrow>
            if om_size (gates r) \<ge> kFeatureGates then (failure LimitExceeded ''feature gate bound reached'', r)
            else (status_ok, r\<lparr>gates := om_emplace (fg_id g) g (gates r),
                               fgr_generation := gen_bump (fgr_generation r)\<rparr>)
        | Some existing \<Rightarrow>
            if fg_enabled existing \<noteq> fg_enabled g
              then (failure Conflict ''feature-gate enablement changes must use set_enabled to record authority'', r)
            else (status_ok, r\<lparr>gates := om_upd (fg_id g) g (gates r),
                               fgr_generation := gen_bump (fgr_generation r)\<rparr>))"

definition gate_restore :: "FeatureGateRegistry \<Rightarrow> FeatureGate \<Rightarrow> Status \<times> FeatureGateRegistry" where
  "gate_restore r g =
     (if is_failure (gate_validate g) then (gate_validate g, r)
      else if om_find (gates r) (fg_id g) \<noteq> None
        then (failure AlreadyExists ''duplicate feature gate id in durable state'', r)
      else if om_size (gates r) \<ge> kFeatureGates
        then (failure LimitExceeded ''feature gate bound reached while loading'', r)
      else (status_ok, r\<lparr>gates := om_emplace (fg_id g) g (gates r)\<rparr>))"

definition gate_set_enabled ::
  "FeatureGateRegistry \<Rightarrow> ident \<Rightarrow> bool \<Rightarrow> ident \<Rightarrow> gen \<Rightarrow> Status \<times> FeatureGateRegistry" where
  "gate_set_enabled r i enabled plan stage =
     (case om_find (gates r) i of
        None \<Rightarrow> (failure NotFound ''feature gate is not defined'', r)
      | Some existing \<Rightarrow>
          if fg_enabled existing = enabled
            then (failure Conflict ''feature gate is already in the requested state'', r)
          else if enabled \<and> plan = []
            then (failure InvalidArgument ''enabling a feature gate requires the enabling plan'', r)
          else (status_ok,
                r\<lparr>gates := om_upd i (existing\<lparr>fg_enabled := enabled,
                      fg_enabled_by := (if enabled then plan else []),
                      fg_enabled_at := (if enabled then stage else gen_unset)\<rparr>) (gates r),
                  fgr_generation := gen_bump (fgr_generation r)\<rparr>))"

definition gate_find :: "FeatureGateRegistry \<Rightarrow> ident \<Rightarrow> FeatureGate option" where
  "gate_find r i = om_find (gates r) i"

definition gate_all :: "FeatureGateRegistry \<Rightarrow> FeatureGate list" where
  "gate_all r = om_vals (gates r)"

definition gate_entry_check :: "ident \<times> FeatureGate \<Rightarrow> Status" where
  "gate_entry_check entry =
     (if fst entry \<noteq> fg_id (snd entry) then failure Corrupt ''feature gate key does not match its id''
      else gate_validate (snd entry))"

definition gates_validate :: "FeatureGateRegistry \<Rightarrow> Status" where
  "gates_validate r =
     (if om_size (gates r) > kFeatureGates then failure Corrupt ''feature gate registry exceeds the bound''
      else first_failure gate_entry_check (om_entries (gates r)))"

text \<open>The underlying value of an outcome, by its position in the enumeration.\<close>

definition outcome_rank :: "CompatOutcome \<Rightarrow> nat" where
  "outcome_rank o' = length (takeWhile (\<lambda>x. x \<noteq> o') all_outcomes)"

definition gate_deny :: "ErrorCode \<Rightarrow> string \<Rightarrow> string \<Rightarrow> GateDecision" where
  "gate_deny c text line = \<lparr>gd_status = failure c text, gd_permitted = False, gd_explanation = [line]\<rparr>"

definition gate_evaluate :: "FeatureGateRegistry \<Rightarrow> ident \<Rightarrow> GateContext \<Rightarrow> bool \<Rightarrow> GateDecision" where
  "gate_evaluate r i ctx require_enabled =
     (case gate_find r i of
        None \<Rightarrow> gate_deny NotFound ''feature gate is not defined'' ''feature gate is not defined''
      | Some gate \<Rightarrow>
          if require_enabled \<and> \<not> fg_enabled gate
            then gate_deny Unauthorized ''feature gate is not enabled'' ''feature gate is disabled''
          else if fg_scope gate \<noteq> [] \<and> fg_scope gate \<noteq> gc_cohort ctx
            then gate_deny Unauthorized ''feature gate does not cover this cohort''
                   ''feature gate scope excludes the requesting cohort''
          else if gc_runtime_generation ctx < fg_min_runtime_generation gate
            then gate_deny StaleGeneration ''runtime generation is below the feature's minimum''
                   ''runtime generation below the feature minimum''
          else if gc_protocol_generation ctx < fg_min_protocol_generation gate
            then gate_deny StaleGeneration ''protocol generation is below the feature's minimum''
                   ''protocol generation below the feature minimum''
          else if gc_schema_generation ctx < fg_min_schema_generation gate
            then gate_deny StaleGeneration ''schema generation is below the feature's minimum''
                   ''schema generation below the feature minimum''
          else if is_blocking_outcome (gc_peer_outcome ctx)
            then gate_deny Incompatible ''peer compatibility outcome blocks the feature''
                   (''peer outcome '' @ outcome_to_string (gc_peer_outcome ctx) @ '' blocks the feature'')
          else let required_rank = outcome_rank (fg_required_peer_outcome gate);
                   actual_rank = outcome_rank (gc_peer_outcome ctx);
                   outcome_ok = (gc_peer_outcome ctx = fg_required_peer_outcome gate
                     \<or> gc_peer_outcome ctx = FullyCompatible
                     \<or> (fg_required_peer_outcome gate = FullyCompatible \<and> actual_rank \<le> required_rank)) in
          if \<not> outcome_ok
            then gate_deny Incompatible ''peer outcome does not satisfy the feature gate''
                   (''peer outcome '' @ outcome_to_string (gc_peer_outcome ctx) @ '' does not satisfy required ''
                    @ outcome_to_string (fg_required_peer_outcome gate))
          else \<lparr>gd_status = status_ok, gd_permitted = True,
                gd_explanation = [''feature gate satisfied at generation '' @ dec_u64 (fg_generation gate)]\<rparr>)"


section \<open>When an advance is allowed\<close>

lemma stage_of_rank_unique:
  "0 < rollout_stage_rank s \<Longrightarrow> stage_of_rank (rollout_stage_rank s) = s"
  by (cases s) (simp_all add: stage_of_rank_def all_stages_def)

lemma rank_inj: "rollout_stage_rank s = rollout_stage_rank t \<Longrightarrow> 0 < rollout_stage_rank s \<Longrightarrow> s = t"
  by (metis stage_of_rank_unique)

lemma rank_le: "rollout_stage_rank s \<le> 10"
  by (cases s) simp_all

lemma rank_of_stage:
  assumes "0 < n" and "n \<le> 10"
  shows "rollout_stage_rank (stage_of_rank n) = n"
proof -
  have "n \<in> set [1..<11]" using assms by simp
  moreover have "\<forall>n\<in>set [1..<11]. rollout_stage_rank (stage_of_rank n) = n"
    by (simp add: stage_of_rank_def all_stages_def upt_rec)
  ultimately show ?thesis by blast
qed

lemma stage_required_rank: "stage_required policy s \<Longrightarrow> 0 < rollout_stage_rank s"
  by (auto simp: stage_required_def)

lemma skip_stages_ok:
  "(\<exists>lines'. skip_stages policy lines ranks = Inr lines') \<longleftrightarrow>
   (\<forall>n\<in>set ranks. \<not> stage_required policy (stage_of_rank n))"
  by (induction policy lines ranks rule: skip_stages.induct) (auto simp: Let_def)

lemma skip_stages_rejects: "skip_stages policy lines ranks = Inl d \<Longrightarrow> \<not> dn_allowed d \<and> \<not> is_ok (dn_status d)"
  by (induction policy lines ranks rule: skip_stages.induct)
    (auto simp: Let_def stage_reject_def split: if_splits)

lemma skipped_ranks:
  "target \<noteq> RolloutStage.Superseded \<Longrightarrow>
   (\<forall>n\<in>set [Suc (rollout_stage_rank s)..<rollout_stage_rank target]. \<not> stage_required policy (stage_of_rank n))
   \<longleftrightarrow> (\<forall>t. rollout_stage_rank s < rollout_stage_rank t \<and> rollout_stage_rank t < rollout_stage_rank target
          \<longrightarrow> \<not> stage_required policy t)" (is "_ \<Longrightarrow> ?L \<longleftrightarrow> ?R")
proof
  assume L: ?L
  show ?R
  proof (intro allI impI)
    fix t assume t: "rollout_stage_rank s < rollout_stage_rank t \<and> rollout_stage_rank t < rollout_stage_rank target"
    then have "\<not> stage_required policy (stage_of_rank (rollout_stage_rank t))" using L by simp
    with t show "\<not> stage_required policy t" by (simp add: stage_of_rank_unique)
  qed
next
  assume R: ?R
  show ?L
  proof
    fix n assume n: "n \<in> set [Suc (rollout_stage_rank s)..<rollout_stage_rank target]"
    then have "rollout_stage_rank (stage_of_rank n) = n"
      using rank_le [of target] by (intro rank_of_stage) auto
    with n R show "\<not> stage_required policy (stage_of_rank n)" by auto
  qed
qed

lemma advance_allowed_iff:
  "dn_allowed (evaluate_stage_advance p target pre) \<longleftrightarrow>
     \<not> ep_superseded p \<and> \<not> is_terminal_stage (ep_stage p)
     \<and> rollout_stage_rank (ep_stage p) < rollout_stage_rank target
     \<and> (\<forall>t. rollout_stage_rank (ep_stage p) < rollout_stage_rank t
            \<and> rollout_stage_rank t < rollout_stage_rank target \<longrightarrow> \<not> stage_required (ep_policy p) t)
     \<and> target_rejection p pre target = None"
proof (cases "ep_superseded p \<or> is_terminal_stage (ep_stage p)
    \<or> rollout_stage_rank target \<le> rollout_stage_rank (ep_stage p)")
  case True
  then show ?thesis by (auto simp: evaluate_stage_advance_def stage_reject_def Let_def)
next
  case False
  then have real: "target \<noteq> NoStage" "target \<noteq> RolloutStage.Superseded" "target \<noteq> RolloutStage.RolledBack"
    by auto
  let ?skip = "skip_stages (ep_policy p) [] [Suc (rollout_stage_rank (ep_stage p))..<rollout_stage_rank target]"
  show ?thesis
  proof (cases ?skip)
    case (Inl d)
    then have "\<not> (\<exists>lines. ?skip = Inr lines)" by simp
    then have "\<not> (\<forall>t. rollout_stage_rank (ep_stage p) < rollout_stage_rank t
        \<and> rollout_stage_rank t < rollout_stage_rank target \<longrightarrow> \<not> stage_required (ep_policy p) t)"
      unfolding skip_stages_ok skipped_ranks [OF real(2)] .
    with False real Inl skip_stages_rejects [OF Inl] show ?thesis
      by (simp add: evaluate_stage_advance_def Let_def)
  next
    case (Inr lines)
    then have "\<exists>lines. ?skip = Inr lines" by blast
    then have "\<forall>t. rollout_stage_rank (ep_stage p) < rollout_stage_rank t
        \<and> rollout_stage_rank t < rollout_stage_rank target \<longrightarrow> \<not> stage_required (ep_policy p) t"
      unfolding skip_stages_ok skipped_ranks [OF real(2)] .
    with False real Inr show ?thesis
      by (auto simp: evaluate_stage_advance_def Let_def stage_reject_def split: option.splits)
  qed
qed

lemma advance_status: "is_ok (dn_status (evaluate_stage_advance p target pre)) \<longleftrightarrow>
    dn_allowed (evaluate_stage_advance p target pre)"
proof -
  have reject: "c \<noteq> Ok \<Longrightarrow> \<not> is_ok (dn_status (stage_reject l c t)) \<and> \<not> dn_allowed (stage_reject l c t)" for l c t
    by (simp add: stage_reject_def)
  have codes: "target_rejection p pre target = Some (c, t) \<Longrightarrow> c \<noteq> Ok" for c t
    by (cases target) (auto split: if_splits)
  show ?thesis
    using skip_stages_rejects
    by (auto simp: evaluate_stage_advance_def Let_def reject dest!: codes split: option.splits sum.splits)
qed

text \<open>
  C22: A stage advance is allowed, and its status is OK, exactly when the plan is neither superseded nor in
  a terminal stage, the target is a stage of the rollout that lies ahead, every stage in between is optional
  under the plan's policy, and the conditions of the target hold: proven compatibility for the proof, the canary and the
  mixed-version stage; current evidence for the proof and for full promotion; a canary cohort for the
  canary; an observed mixed-version phase for the expanded cohort; a bound or completed migration for the
  migration barrier; for new writers the fence of incompatible old writers, the completed migration where the policy
  demands the barrier and a valid rollback where it demands the proof; a valid rollback or a crossed barrier for
  the drain; and drained old writers for full promotion and retirement.
\<close>

theorem stage_advance_exact:
  "(dn_allowed (evaluate_stage_advance p target pre) \<longleftrightarrow>
     \<not> ep_superseded p \<and> \<not> is_terminal_stage (ep_stage p)
     \<and> rollout_stage_rank (ep_stage p) < rollout_stage_rank target
     \<and> (\<forall>t. rollout_stage_rank (ep_stage p) < rollout_stage_rank t
            \<and> rollout_stage_rank t < rollout_stage_rank target \<longrightarrow> \<not> stage_required (ep_policy p) t)
     \<and> target \<notin> {NoStage, RolloutStage.Superseded, RolloutStage.RolledBack}
     \<and> (target \<in> {CompatibilityProven, CanaryCohort, MixedVersionCohort} \<longrightarrow> sp_compatibility_proven pre)
     \<and> (target \<in> {CompatibilityProven, FullPromotion} \<longrightarrow> sp_evidence_current pre)
     \<and> (target = CanaryCohort \<longrightarrow> ep_canary_cohort p \<noteq> [])
     \<and> (target = ExpandedCohort \<longrightarrow> sp_mixed_version_active pre)
     \<and> (target = MigrationBarrier \<longrightarrow> sp_migration_contract_bound pre \<or> sp_migration_complete pre)
     \<and> (target = NewWriterEnabled \<longrightarrow> sp_new_writer_fence_satisfied pre
           \<and> (require_migration_barrier (ep_policy p) \<longrightarrow> sp_migration_complete pre)
           \<and> (require_rollback_proof (ep_policy p) \<longrightarrow> sp_rollback_valid pre))
     \<and> (target = OldWriterDrain \<longrightarrow> sp_rollback_valid pre \<or> ep_rollback_barrier_crossed p)
     \<and> (target \<in> {FullPromotion, OldGenerationRetirement} \<longrightarrow> sp_old_writers_drained pre))
   \<and> is_ok (dn_status (evaluate_stage_advance p target pre)) = dn_allowed (evaluate_stage_advance p target pre)"
proof -
  have ready: "target_rejection p pre target = None \<longleftrightarrow> target \<notin> {NoStage, RolloutStage.Superseded, RolloutStage.RolledBack}
     \<and> (target \<in> {CompatibilityProven, CanaryCohort, MixedVersionCohort} \<longrightarrow> sp_compatibility_proven pre)
     \<and> (target \<in> {CompatibilityProven, FullPromotion} \<longrightarrow> sp_evidence_current pre)
     \<and> (target = CanaryCohort \<longrightarrow> ep_canary_cohort p \<noteq> [])
     \<and> (target = ExpandedCohort \<longrightarrow> sp_mixed_version_active pre)
     \<and> (target = MigrationBarrier \<longrightarrow> sp_migration_contract_bound pre \<or> sp_migration_complete pre)
     \<and> (target = NewWriterEnabled \<longrightarrow> sp_new_writer_fence_satisfied pre
           \<and> (require_migration_barrier (ep_policy p) \<longrightarrow> sp_migration_complete pre)
           \<and> (require_rollback_proof (ep_policy p) \<longrightarrow> sp_rollback_valid pre))
     \<and> (target = OldWriterDrain \<longrightarrow> sp_rollback_valid pre \<or> ep_rollback_barrier_crossed p)
     \<and> (target \<in> {FullPromotion, OldGenerationRetirement} \<longrightarrow> sp_old_writers_drained pre)"
    by (cases target) auto
  show ?thesis unfolding advance_status advance_allowed_iff ready conj_assoc by (simp only: simp_thms)
qed


section \<open>Rollouts\<close>

text \<open>
  A rollout under a fixed policy: the plan starts before the first stage and changes its stage only
  through an allowed advance; everything else about the plan may change in between.  The second
  argument lists the stages entered so far.  This is the discipline of \<open>evaluate_stage_advance\<close> alone, not a run of the
  coordinator: \<open>command_create_plan\<close> starts a plan at CANDIDATE_REGISTERED, the first stage, and
  rolling back and superseding set their side stages without an advance.
\<close>

inductive rollout :: "EvolutionPlan \<Rightarrow> RolloutStage list \<Rightarrow> bool" where
  rollout_start: "ep_stage p = NoStage \<Longrightarrow> rollout p []"
| rollout_other: "rollout p visited \<Longrightarrow> ep_stage p' = ep_stage p \<Longrightarrow> ep_policy p' = ep_policy p \<Longrightarrow>
    rollout p' visited"
| rollout_advance: "rollout p visited \<Longrightarrow> dn_allowed (evaluate_stage_advance p target pre) \<Longrightarrow>
    rollout (p\<lparr>ep_stage := target\<rparr>) (visited @ [target])"

lemma rollout_invariant:
  assumes "rollout p visited"
  shows "(\<forall>t. stage_required (ep_policy p) t \<and> rollout_stage_rank t < rollout_stage_rank (ep_stage p)
            \<longrightarrow> t \<in> set visited)
    \<and> sorted_wrt (<) (map rollout_stage_rank visited)
    \<and> (\<forall>t\<in>set visited. rollout_stage_rank t \<le> rollout_stage_rank (ep_stage p))
    \<and> (ep_stage p = NoStage \<or> ep_stage p \<in> set visited)"
  using assms
proof (induction rule: rollout.induct)
  case (rollout_advance p visited target pre)
  have adv: "rollout_stage_rank (ep_stage p) < rollout_stage_rank target"
    "\<And>t. rollout_stage_rank (ep_stage p) < rollout_stage_rank t \<Longrightarrow>
       rollout_stage_rank t < rollout_stage_rank target \<Longrightarrow> \<not> stage_required (ep_policy p) t"
    using rollout_advance.hyps(2) by (auto simp: advance_allowed_iff)
  have ranks: "\<forall>t\<in>set visited. rollout_stage_rank t < rollout_stage_rank target"
    using rollout_advance.IH adv(1) by fastforce
  have "t \<in> set visited \<or> t = target"
    if t: "stage_required (ep_policy p) t" "rollout_stage_rank t < rollout_stage_rank target" for t
  proof (cases "rollout_stage_rank t < rollout_stage_rank (ep_stage p)")
    case False
    moreover have "\<not> rollout_stage_rank (ep_stage p) < rollout_stage_rank t" using adv(2) t by blast
    ultimately have "rollout_stage_rank t = rollout_stage_rank (ep_stage p)" by simp
    moreover have "0 < rollout_stage_rank t" using stage_required_rank [OF t(1)] .
    ultimately have "t = ep_stage p" by (rule rank_inj)
    with rollout_advance.IH \<open>0 < rollout_stage_rank t\<close> show ?thesis by auto
  qed (use rollout_advance.IH t in blast)
  with ranks rollout_advance.IH show ?case
    by (auto simp: sorted_wrt_append less_imp_le)
qed auto

text \<open>
  C14: Along every rollout the stages entered have strictly increasing rank, and every stage the
  policy requires whose rank lies below the current stage has been entered: no required barrier is
  ever skipped, however the remaining plan data changes in between.
\<close>

theorem required_stages_visited:
  assumes "rollout p visited"
  shows "sorted_wrt (<) (map rollout_stage_rank visited)
    \<and> (\<forall>t. stage_required (ep_policy p) t \<and> rollout_stage_rank t < rollout_stage_rank (ep_stage p)
          \<longrightarrow> t \<in> set visited)"
  using rollout_invariant [OF assms] by blast

text \<open>
  FULL\_PROMOTION is terminal: no stage advance leaves it, so a plan that has been fully
  promoted can never advance to OLD\_GENERATION\_RETIREMENT; only a rollback or a supersession, which are not advances,
  changes its stage.
\<close>

theorem promotion_blocks_retirement:
  "ep_stage p = FullPromotion \<Longrightarrow> \<not> dn_allowed (evaluate_stage_advance p target pre)
     \<and> (\<not> ep_superseded p \<longrightarrow> code (dn_status (evaluate_stage_advance p OldGenerationRetirement pre)) = Conflict)"
  by (simp add: advance_allowed_iff) (simp add: evaluate_stage_advance_def stage_reject_def)


section \<open>The feature-gate table\<close>

lemma gate_entry_check_ok:
  "is_ok (gate_entry_check (k, g)) \<longleftrightarrow> k = fg_id g \<and> is_ok (gate_validate g)"
  by (auto simp: gate_entry_check_def)

interpretation gate_table: validated_registry gates gate_define gate_validate fg_id kFeatureGates gates_validate
proof
  fix r g
  show "snd (gate_define r g) = r" if "\<not> is_ok (fst (gate_define r g))"
    using that by (auto simp: gate_define_def split: option.splits)
  show "is_ok (gate_validate g) \<and> gates (snd (gate_define r g)) = om_upd (fg_id g) g (gates r)
      \<and> (om_find (gates r) (fg_id g) = None \<longrightarrow> om_size (gates r) < kFeatureGates)"
    if "is_ok (fst (gate_define r g))"
    using that by (auto simp: gate_define_def om_emplace_def split: option.splits if_splits)
  show "is_ok (gates_validate r) \<longleftrightarrow> om_size (gates r) \<le> kFeatureGates
      \<and> (\<forall>(k, v)\<in>set (gates r). k = fg_id v \<and> is_ok (gate_validate v))"
    using gate_entry_check_ok by (auto simp: gates_validate_def om_entries_def)
qed

interpretation gate_load: validated_registry gates gate_restore gate_validate fg_id kFeatureGates gates_validate
proof
  fix r g
  show "snd (gate_restore r g) = r" if "\<not> is_ok (fst (gate_restore r g))"
    using that by (auto simp: gate_restore_def)
  show "is_ok (gate_validate g) \<and> gates (snd (gate_restore r g)) = om_upd (fg_id g) g (gates r)
      \<and> (om_find (gates r) (fg_id g) = None \<longrightarrow> om_size (gates r) < kFeatureGates)"
    if "is_ok (fst (gate_restore r g))"
    using that by (auto simp: gate_restore_def om_emplace_def split: if_splits)
qed (rule gate_table.check_iff)

lemma gate_validate_enable:
  "is_ok (gate_validate g) \<Longrightarrow> (en \<longrightarrow> plan \<noteq> []) \<Longrightarrow>
   is_ok (gate_validate (g\<lparr>fg_enabled := en, fg_enabled_by := (if en then plan else []), fg_enabled_at := at\<rparr>))"
  by (auto simp: gate_validate_def split: if_splits)

lemma set_enabled_keeps:
  assumes ok: "om_ok (gates r)" "is_ok (gates_validate r)"
  shows "om_ok (gates (snd (gate_set_enabled r i en plan stage)))
    \<and> is_ok (gates_validate (snd (gate_set_enabled r i en plan stage)))"
proof (cases "is_ok (fst (gate_set_enabled r i en plan stage))")
  case True
  then obtain g where g: "om_find (gates r) i = Some g" "en \<longrightarrow> plan \<noteq> []"
    and new: "gates (snd (gate_set_enabled r i en plan stage)) =
      om_upd i (g\<lparr>fg_enabled := en, fg_enabled_by := (if en then plan else []),
                  fg_enabled_at := (if en then stage else gen_unset)\<rparr>) (gates r)"
    by (auto simp: gate_set_enabled_def split: option.splits if_splits)
  let ?g = "g\<lparr>fg_enabled := en, fg_enabled_by := (if en then plan else []),
                fg_enabled_at := (if en then stage else gen_unset)\<rparr>"
  have gi: "fg_id g = i" "is_ok (gate_validate g)" using gate_table.find_valid [OF ok(2) g(1)] by auto
  have ok': "om_ok (om_upd i ?g (gates r))" using ok(1) by (rule om_ok_upd)
  have "k = fg_id w \<and> is_ok (gate_validate w)" if "(k, w) \<in> set (om_upd i ?g (gates r))" for k w
  proof -
    have "om_find (om_upd i ?g (gates r)) k = Some w" using that ok' by (simp add: om_in_iff)
    then show ?thesis
      using gate_table.find_valid [OF ok(2), of k w] gi gate_validate_enable [OF gi(2) g(2)]
      by (auto split: if_splits)
  qed
  moreover have "om_size (om_upd i ?g (gates r)) \<le> kFeatureGates"
    using ok g(1) by (simp add: om_size_upd gate_table.check_iff)
  ultimately show ?thesis using ok' unfolding gate_table.check_iff new by auto
next
  case False
  then have "snd (gate_set_enabled r i en plan stage) = r"
    by (auto simp: gate_set_enabled_def split: option.splits if_splits)
  with ok show ?thesis by simp
qed

text \<open>
  C32: A feature gate permits an operation only if it is defined (and enabled, when enablement is
  part of the question), covers the cohort, and the runtime, protocol and schema generations reach
  its minima and the peer outcome is not blocking and is the required or the full one; defining,
  restoring, enabling and disabling gates keep the table valid, and an enabled gate always names the
  plan that enabled it.
\<close>

theorem feature_gate_sound:
  assumes "om_ok (gates r)" and "is_ok (gates_validate r)"
  shows "(gd_permitted (gate_evaluate r i ctx require) \<longrightarrow>
      (\<exists>g. gate_find r i = Some g \<and> (require \<longrightarrow> fg_enabled g) \<and> (fg_enabled g \<longrightarrow> fg_enabled_by g \<noteq> [])
         \<and> (fg_scope g = [] \<or> fg_scope g = gc_cohort ctx)
         \<and> fg_min_runtime_generation g \<le> gc_runtime_generation ctx
         \<and> fg_min_protocol_generation g \<le> gc_protocol_generation ctx
         \<and> fg_min_schema_generation g \<le> gc_schema_generation ctx
         \<and> gc_peer_outcome ctx \<in> {FullyCompatible, fg_required_peer_outcome g}
         \<and> \<not> is_blocking_outcome (gc_peer_outcome ctx)))
    \<and> gd_permitted (gate_evaluate r i ctx require) = is_ok (gd_status (gate_evaluate r i ctx require))
    \<and> is_ok (gates_validate (snd (gate_define r gate)))
    \<and> is_ok (gates_validate (snd (gate_restore r gate)))
    \<and> is_ok (gates_validate (snd (gate_set_enabled r i en plan stage)))"
proof (intro conjI impI)
  assume permitted: "gd_permitted (gate_evaluate r i ctx require)"
  then obtain g where g: "gate_find r i = Some g"
    by (auto simp: gate_evaluate_def gate_deny_def split: option.splits)
  have "is_ok (gate_validate g)" using gate_table.find_valid [OF assms(2)] g by (simp add: gate_find_def)
  then have "fg_enabled g \<longrightarrow> fg_enabled_by g \<noteq> []" by (auto simp: gate_validate_def split: if_splits)
  moreover have "actual = FullyCompatible" if "outcome_rank actual \<le> outcome_rank FullyCompatible" for actual
    using that by (cases actual) (simp_all add: outcome_rank_def all_outcomes_def)
  ultimately show "\<exists>g. gate_find r i = Some g \<and> (require \<longrightarrow> fg_enabled g) \<and> (fg_enabled g \<longrightarrow> fg_enabled_by g \<noteq> [])
         \<and> (fg_scope g = [] \<or> fg_scope g = gc_cohort ctx)
         \<and> fg_min_runtime_generation g \<le> gc_runtime_generation ctx
         \<and> fg_min_protocol_generation g \<le> gc_protocol_generation ctx
         \<and> fg_min_schema_generation g \<le> gc_schema_generation ctx
         \<and> gc_peer_outcome ctx \<in> {FullyCompatible, fg_required_peer_outcome g}
         \<and> \<not> is_blocking_outcome (gc_peer_outcome ctx)"
    using permitted g by (auto simp: gate_evaluate_def gate_deny_def Let_def not_less split: if_splits)
next
  show "gd_permitted (gate_evaluate r i ctx require) = is_ok (gd_status (gate_evaluate r i ctx require))"
    by (simp add: gate_evaluate_def gate_deny_def Let_def split: option.splits)
qed (use gate_table.put_keeps [OF assms] gate_load.put_keeps [OF assms] set_enabled_keeps [OF assms] in blast)+


section \<open>Witnesses\<close>

definition sample_plan :: "RolloutStage \<Rightarrow> EvolutionPlan" where
  "sample_plan s = \<lparr>ep_id = ''p'', ep_generation = 1, ep_component = ''w'', ep_current_generation = 1,
     ep_candidate_generation = 2, ep_matrix_generation = 1, ep_protocol_generation = 1, ep_schema_generation = 1,
     ep_gate_generation = 1, ep_migration = [], ep_migration_generation = 0, ep_migration_source = 0,
     ep_migration_target = 0, ep_rollback_target = 1, ep_rollback_generation = 1, ep_rollback_barrier_crossed = False,
     ep_required_evidence = [], ep_coordinator_epoch = 1, ep_epoch = 1, ep_stage = s, ep_stage_generation = 1,
     ep_cohorts = [''c''], ep_canary_cohort = ''c'', ep_new_writer_enabled = False,
     ep_policy = \<lparr>require_canary = True, require_mixed_version_cohort = True, require_migration_barrier = False,
       require_new_writer_barrier = True, require_old_writer_drain = True, require_rollback_proof = True, rp_generation = 1\<rparr>,
     ep_history = [], ep_superseded = False, ep_evidence = 1, ep_detail = []\<rparr>"

definition sample_preconditions :: StagePreconditions where
  "sample_preconditions = \<lparr>sp_compatibility_proven = True, sp_migration_contract_bound = True,
     sp_migration_complete = True, sp_migration_irreversible = False, sp_old_writers_drained = True,
     sp_new_writer_fence_satisfied = True, sp_rollback_valid = True, sp_evidence_current = True,
     sp_canary_cohort_active = True, sp_mixed_version_active = True\<rparr>"

lemma sample_rollout:
  "rollout (sample_plan MixedVersionCohort) [CanaryCohort, MixedVersionCohort]"
proof -
  have "rollout (sample_plan NoStage) []" by (rule rollout_start) (simp add: sample_plan_def)
  then have "rollout ((sample_plan NoStage)\<lparr>ep_stage := CanaryCohort\<rparr>) ([] @ [CanaryCohort])"
    by (rule rollout_advance [of _ _ _ sample_preconditions])
      (simp add: evaluate_stage_advance_def sample_plan_def sample_preconditions_def stage_of_rank_def all_stages_def
        stage_required_def upt_rec)
  then have "rollout ((sample_plan NoStage)\<lparr>ep_stage := CanaryCohort, ep_stage := MixedVersionCohort\<rparr>)
      (([] @ [CanaryCohort]) @ [MixedVersionCohort])"
    by (rule rollout_advance [of _ _ _ sample_preconditions])
      (simp add: evaluate_stage_advance_def sample_plan_def sample_preconditions_def)
  then show ?thesis by (simp add: sample_plan_def)
qed

theorem stage_advance_exact_witness:
  "dn_allowed (evaluate_stage_advance (sample_plan ExpandedCohort) NewWriterEnabled sample_preconditions)
   \<and> \<not> dn_allowed (evaluate_stage_advance (sample_plan CompatibilityProven) NewWriterEnabled sample_preconditions)"
proof -
  have "\<not> stage_required (ep_policy (sample_plan ExpandedCohort)) t"
    if "5 < rollout_stage_rank t \<and> rollout_stage_rank t < 7" for t
    using that by (cases t) (simp_all add: stage_required_def sample_plan_def)
  moreover have "stage_required (ep_policy (sample_plan CompatibilityProven)) CanaryCohort"
    by (simp add: stage_required_def sample_plan_def)
  ultimately show ?thesis
    using stage_advance_exact [of "sample_plan ExpandedCohort" NewWriterEnabled sample_preconditions]
      stage_advance_exact [of "sample_plan CompatibilityProven" NewWriterEnabled sample_preconditions]
    by (auto simp: sample_plan_def sample_preconditions_def)
qed

theorem required_stages_visited_witness:
  "stage_required (ep_policy (sample_plan MixedVersionCohort)) CanaryCohort
   \<and> sorted_wrt (<) (map rollout_stage_rank [CanaryCohort, MixedVersionCohort])"
  using required_stages_visited [OF sample_rollout] by (simp add: stage_required_def sample_plan_def)

theorem promotion_blocks_retirement_witness:
  "code (dn_status (evaluate_stage_advance (sample_plan FullPromotion) OldGenerationRetirement sample_preconditions))
     = Conflict"
  using promotion_blocks_retirement [of "sample_plan FullPromotion" FullPromotion sample_preconditions]
  by (simp add: sample_plan_def)

definition sample_gate :: FeatureGate where
  "sample_gate = \<lparr>fg_id = ''g'', fg_generation = 1, fg_min_runtime_generation = 2, fg_min_protocol_generation = 1,
     fg_min_schema_generation = 1, fg_required_peer_aspect = PeerVersion, fg_required_peer_outcome = FullyCompatible,
     fg_scope = [], fg_enabled = False, fg_enabled_by = [], fg_enabled_at = 0, fg_provenance = Real,
     fg_evidence = 1, fg_notes = []\<rparr>"

theorem feature_gate_sound_witness:
  "is_ok (gates_validate (snd (gate_define gates_empty sample_gate)))
   \<and> gate_find (snd (gate_define gates_empty sample_gate)) ''g'' = Some sample_gate"
proof -
  have "om_ok (gates gates_empty)" "is_ok (gates_validate gates_empty)"
    by (simp_all add: gates_empty_def gates_validate_def om_entries_def om_empty_def om_ok_def om_size_def)
  moreover have "gate_find (snd (gate_define gates_empty sample_gate)) ''g'' = Some sample_gate"
    by (simp add: gate_define_def gates_empty_def sample_gate_def gate_validate_def gen_is_set_def
        gate_find_def om_find_emplace limit_defs)
  ultimately show ?thesis using feature_gate_sound [of gates_empty] by blast
qed

end
