(* ===== verification/Ref_Component.thy ===== *)
theory Ref_Component
  imports Ref_Support
begin

text \<open>
  Component versions, their lifecycle and their registry: \<open>include/ref/component.hpp\<close> and
  \<open>src/component.cpp\<close>.

  The registry is the nested \<open>std::map\<close> of the source with its separately maintained count.  Its
  invariant ties every entry to its keys, keeps every stored version structurally valid and the
  count exact and bounded.  The interface \<open>lifecycle_table\<close> states what the rest of the fabric
  relies on: an operation moves a stored generation only along the transition table.  From it
  follow, for any sequence of operations, that RETIRED is terminal and that a generation that has
  entered retirement never regains the right to mutate.
\<close>

section \<open>Lifecycle\<close>

datatype LifecycleState =
    Registered | CompatibilityPending | Eligible | UpgradePending | CanaryActive
  | MixedVersionActive | RolloutActive | Current | Draining | RollbackPending | RollingBack
  | RolledBack | RetirementPending | Retired | RevalidationRequired | Failed

definition all_lifecycles :: "LifecycleState list" where
  "all_lifecycles =
     [LifecycleState.Registered, LifecycleState.CompatibilityPending, LifecycleState.Eligible,
      LifecycleState.UpgradePending, LifecycleState.CanaryActive,
      LifecycleState.MixedVersionActive, LifecycleState.RolloutActive, LifecycleState.Current,
      LifecycleState.Draining, LifecycleState.RollbackPending, LifecycleState.RollingBack,
      LifecycleState.RolledBack, LifecycleState.RetirementPending, LifecycleState.Retired,
      LifecycleState.RevalidationRequired, LifecycleState.Failed]"

fun lifecycle_to_string :: "LifecycleState \<Rightarrow> string" where
  "lifecycle_to_string LifecycleState.Registered = ''REGISTERED''"
| "lifecycle_to_string LifecycleState.CompatibilityPending = ''COMPATIBILITY_PENDING''"
| "lifecycle_to_string LifecycleState.Eligible = ''ELIGIBLE''"
| "lifecycle_to_string LifecycleState.UpgradePending = ''UPGRADE_PENDING''"
| "lifecycle_to_string LifecycleState.CanaryActive = ''CANARY_ACTIVE''"
| "lifecycle_to_string LifecycleState.MixedVersionActive = ''MIXED_VERSION_ACTIVE''"
| "lifecycle_to_string LifecycleState.RolloutActive = ''ROLLOUT_ACTIVE''"
| "lifecycle_to_string LifecycleState.Current = ''CURRENT''"
| "lifecycle_to_string LifecycleState.Draining = ''DRAINING''"
| "lifecycle_to_string LifecycleState.RollbackPending = ''ROLLBACK_PENDING''"
| "lifecycle_to_string LifecycleState.RollingBack = ''ROLLING_BACK''"
| "lifecycle_to_string LifecycleState.RolledBack = ''ROLLED_BACK''"
| "lifecycle_to_string LifecycleState.RetirementPending = ''RETIREMENT_PENDING''"
| "lifecycle_to_string LifecycleState.Retired = ''RETIRED''"
| "lifecycle_to_string LifecycleState.RevalidationRequired = ''REVALIDATION_REQUIRED''"
| "lifecycle_to_string LifecycleState.Failed = ''FAILED''"

definition parse_lifecycle :: "string \<Rightarrow> LifecycleState option" where
  "parse_lifecycle text = List.find (\<lambda>s. text = lifecycle_to_string s) all_lifecycles"

definition kTransitions :: "(LifecycleState \<times> LifecycleState) list" where
  "kTransitions =
     [(LifecycleState.Registered, LifecycleState.CompatibilityPending),
      (LifecycleState.Registered, LifecycleState.RevalidationRequired),
      (LifecycleState.Registered, LifecycleState.Failed),
      (LifecycleState.CompatibilityPending, LifecycleState.Eligible),
      (LifecycleState.CompatibilityPending, LifecycleState.RevalidationRequired),
      (LifecycleState.CompatibilityPending, LifecycleState.Failed),
      (LifecycleState.Eligible, LifecycleState.UpgradePending),
      (LifecycleState.Eligible, LifecycleState.Current),
      (LifecycleState.Eligible, LifecycleState.Draining),
      (LifecycleState.Eligible, LifecycleState.RetirementPending),
      (LifecycleState.Eligible, LifecycleState.RevalidationRequired),
      (LifecycleState.Eligible, LifecycleState.Failed),
      (LifecycleState.UpgradePending, LifecycleState.CanaryActive),
      (LifecycleState.UpgradePending, LifecycleState.MixedVersionActive),
      (LifecycleState.UpgradePending, LifecycleState.RolloutActive),
      (LifecycleState.UpgradePending, LifecycleState.RollbackPending),
      (LifecycleState.UpgradePending, LifecycleState.Failed),
      (LifecycleState.CanaryActive, LifecycleState.MixedVersionActive),
      (LifecycleState.CanaryActive, LifecycleState.RolloutActive),
      (LifecycleState.CanaryActive, LifecycleState.RollbackPending),
      (LifecycleState.CanaryActive, LifecycleState.Failed),
      (LifecycleState.MixedVersionActive, LifecycleState.RolloutActive),
      (LifecycleState.MixedVersionActive, LifecycleState.RollbackPending),
      (LifecycleState.MixedVersionActive, LifecycleState.Draining),
      (LifecycleState.MixedVersionActive, LifecycleState.Failed),
      (LifecycleState.RolloutActive, LifecycleState.Current),
      (LifecycleState.RolloutActive, LifecycleState.RollbackPending),
      (LifecycleState.RolloutActive, LifecycleState.Draining),
      (LifecycleState.RolloutActive, LifecycleState.Failed),
      (LifecycleState.Current, LifecycleState.Draining),
      (LifecycleState.Current, LifecycleState.RollbackPending),
      (LifecycleState.Draining, LifecycleState.RetirementPending),
      (LifecycleState.Draining, LifecycleState.RolledBack),
      (LifecycleState.Draining, LifecycleState.Current),
      (LifecycleState.Draining, LifecycleState.Failed),
      (LifecycleState.RollbackPending, LifecycleState.RollingBack),
      (LifecycleState.RollbackPending, LifecycleState.Failed),
      (LifecycleState.RollingBack, LifecycleState.RolledBack),
      (LifecycleState.RollingBack, LifecycleState.Failed),
      (LifecycleState.RolledBack, LifecycleState.Eligible),
      (LifecycleState.RolledBack, LifecycleState.Current),
      (LifecycleState.RolledBack, LifecycleState.RevalidationRequired),
      (LifecycleState.RetirementPending, LifecycleState.Retired),
      (LifecycleState.RetirementPending, LifecycleState.Failed),
      (LifecycleState.RevalidationRequired, LifecycleState.CompatibilityPending),
      (LifecycleState.Failed, LifecycleState.RetirementPending)]"

definition is_terminal_lifecycle :: "LifecycleState \<Rightarrow> bool" where
  "is_terminal_lifecycle s \<longleftrightarrow> s = LifecycleState.Retired"

definition is_authoritative_lifecycle :: "LifecycleState \<Rightarrow> bool" where
  "is_authoritative_lifecycle s \<longleftrightarrow> s = LifecycleState.Current"

fun permits_mutation_lifecycle :: "LifecycleState \<Rightarrow> bool" where
  "permits_mutation_lifecycle LifecycleState.Current = True"
| "permits_mutation_lifecycle LifecycleState.RolloutActive = True"
| "permits_mutation_lifecycle LifecycleState.MixedVersionActive = True"
| "permits_mutation_lifecycle LifecycleState.CanaryActive = True"
| "permits_mutation_lifecycle _ = False"

definition is_transition_allowed :: "LifecycleState \<Rightarrow> LifecycleState \<Rightarrow> bool" where
  "is_transition_allowed from to \<longleftrightarrow> list_ex (\<lambda>t. fst t = from \<and> snd t = to) kTransitions"

definition validate_transition :: "LifecycleState \<Rightarrow> LifecycleState \<Rightarrow> Status" where
  "validate_transition from to =
     (if from = to then failure Conflict ''lifecycle already in requested state''
      else if is_terminal_lifecycle from
        then failure RetiredGeneration ''RETIRED is terminal for this runtime generation''
      else if \<not> is_transition_allowed from to
        then failure Conflict (''lifecycle transition '' @ lifecycle_to_string from @ '' -> ''
               @ lifecycle_to_string to @ '' is not permitted'')
      else status_ok)"

interpretation lifecycle_names: enum_names all_lifecycles lifecycle_to_string
proof
  show "e \<in> set all_lifecycles" for e by (cases e) (simp_all add: all_lifecycles_def)
qed (simp add: all_lifecycles_def)


section \<open>Component versions\<close>

record ProtocolSupport =
  ps_supported :: gen_set
  ps_readable :: gen_set
  ps_writable :: gen_set
  ps_minimum_safety :: gen

record SchemaSupport =
  ss_supported :: gen_set
  ss_readable :: gen_set
  ss_writable :: gen_set
  ss_readable_formats :: gen_set
  ss_writable_formats :: gen_set

record MigrationCapability =
  mc_id :: ident
  mc_generation :: gen
  mc_schema :: ident
  mc_source :: gen
  mc_target :: gen
  mc_reversible :: bool
  mc_preserves_rollback_metadata :: bool

record RollbackCapability =
  rc_supported :: bool
  rc_target_window :: gen_range
  rc_requires_state_restore :: bool
  rc_reverse_migration_available :: bool

record PeerRequirement =
  pr_peer :: ident
  pr_generations :: gen_range
  pr_required :: bool

record FeatureSupport =
  fs_feature :: ident
  fs_generation :: gen
  fs_can_publish :: bool
  fs_can_consume :: bool

record RuntimeComponentVersion =
  rv_component :: ident
  rv_version :: RuntimeVersionId
  rv_generation :: gen
  rv_protocols :: ProtocolSupport
  rv_schemas :: SchemaSupport
  rv_migrations :: "MigrationCapability list"
  rv_rollback :: RollbackCapability
  rv_features :: "FeatureSupport list"
  rv_capability_generation :: gen
  rv_peers :: "PeerRequirement list"
  rv_compatible_generations :: gen_range
  rv_lifecycle :: LifecycleState
  rv_provenance :: EvidenceClass
  rv_evidence :: gen
  rv_epoch :: gen
  rv_notes :: string

definition rv_is_set :: "RuntimeComponentVersion \<Rightarrow> bool" where
  "rv_is_set v \<longleftrightarrow> rv_component v \<noteq> [] \<and> gen_is_set (rv_generation v) \<and> version_is_set (rv_version v)"

definition migration_capability_check :: "MigrationCapability \<Rightarrow> Status" where
  "migration_capability_check m =
     (if mc_id m = [] \<or> \<not> gen_is_set (mc_source m) \<or> \<not> gen_is_set (mc_target m)
        then failure InvalidArgument ''migration capability is incomplete''
      else if mc_source m = mc_target m
        then failure InvalidArgument ''migration source equals target generation''
      else status_ok)"

definition feature_support_check :: "FeatureSupport \<Rightarrow> Status" where
  "feature_support_check f =
     (if fs_feature f = [] then failure InvalidArgument ''feature support entry has an empty feature id''
      else status_ok)"

definition rv_validate :: "RuntimeComponentVersion \<Rightarrow> Status" where
  "rv_validate v =
     (let protocols = rv_protocols v; schemas = rv_schemas v; range = rv_compatible_generations v in
      if rv_component v = [] then failure InvalidArgument ''component id is empty''
      else if \<not> gen_is_set (rv_generation v) then failure InvalidArgument ''runtime generation is unset''
      else if \<not> version_is_set (rv_version v) then failure InvalidArgument ''version identity is unset''
      else if ps_supported protocols = []
        then failure InvalidArgument ''component declares no supported protocol generation''
      else if ss_supported schemas = []
        then failure InvalidArgument ''component declares no supported schema generation''
      else if gen_is_set (ps_minimum_safety protocols)
              \<and> \<not> gs_contains (ps_supported protocols) (ps_minimum_safety protocols)
        then failure InvalidArgument ''minimum safety protocol generation is not in the supported set''
      else if ps_readable protocols = [] \<or> ps_writable protocols = []
        then failure InvalidArgument ''readable and writable protocol sets must both be declared''
      else if ss_readable schemas = [] \<or> ss_writable schemas = []
        then failure InvalidArgument ''readable and writable schema sets must both be declared''
      else if range_is_set range \<and> \<not> range_is_valid range
        then failure InvalidArgument ''compatible generation range is inverted''
      else if range_is_set range \<and> \<not> range_contains range (rv_generation v)
        then failure InvalidArgument ''runtime generation is outside its own declared compatible range''
      else let migrations = first_failure migration_capability_check (rv_migrations v) in
        if is_failure migrations then migrations
        else if rc_supported (rv_rollback v) \<and> \<not> range_is_valid (rc_target_window (rv_rollback v))
          then failure InvalidArgument ''rollback window is not a valid range''
        else first_failure feature_support_check (rv_features v))"

definition can_read_protocol :: "RuntimeComponentVersion \<Rightarrow> gen \<Rightarrow> bool" where
  "can_read_protocol v g \<longleftrightarrow> gs_contains (ps_readable (rv_protocols v)) g"

definition can_write_protocol :: "RuntimeComponentVersion \<Rightarrow> gen \<Rightarrow> bool" where
  "can_write_protocol v g \<longleftrightarrow> gs_contains (ps_writable (rv_protocols v)) g"

definition can_read_schema :: "RuntimeComponentVersion \<Rightarrow> gen \<Rightarrow> bool" where
  "can_read_schema v g \<longleftrightarrow> gs_contains (ss_readable (rv_schemas v)) g"

definition can_write_schema :: "RuntimeComponentVersion \<Rightarrow> gen \<Rightarrow> bool" where
  "can_write_schema v g \<longleftrightarrow> gs_contains (ss_writable (rv_schemas v)) g"

definition find_migration :: "RuntimeComponentVersion \<Rightarrow> gen \<Rightarrow> gen \<Rightarrow> MigrationCapability option" where
  "find_migration v source target =
     List.find (\<lambda>m. mc_source m = source \<and> mc_target m = target) (rv_migrations v)"

definition find_feature :: "RuntimeComponentVersion \<Rightarrow> ident \<Rightarrow> FeatureSupport option" where
  "find_feature v feature = List.find (\<lambda>f. fs_feature f = feature) (rv_features v)"


section \<open>The registry\<close>

type_synonym version_map = "(u64, RuntimeComponentVersion) omap"

record ComponentRegistry =
  by_component :: "(ident, version_map) omap"
  reg_version_count :: nat

definition registry_empty :: ComponentRegistry where
  "registry_empty = \<lparr>by_component = om_empty, reg_version_count = 0\<rparr>"

text \<open>\<open>by_component_[component]\<close> creates an empty inner map where there is none.\<close>

definition versions_at :: "ComponentRegistry \<Rightarrow> ident \<Rightarrow> version_map" where
  "versions_at r c = (case om_find (by_component r) c of Some m \<Rightarrow> m | None \<Rightarrow> om_empty)"

definition put_versions :: "ComponentRegistry \<Rightarrow> ident \<Rightarrow> version_map \<Rightarrow> ComponentRegistry" where
  "put_versions r c m = r\<lparr>by_component := om_upd c m (by_component r)\<rparr>"

definition publish :: "ComponentRegistry \<Rightarrow> RuntimeComponentVersion \<Rightarrow> Status \<times> ComponentRegistry" where
  "publish r v =
     (if is_failure (rv_validate v) then (rv_validate v, r)
      else let versions = versions_at r (rv_component v); r = put_versions r (rv_component v) versions in
        case om_find versions (rv_generation v) of
          Some existing \<Rightarrow>
            if rv_version existing \<noteq> rv_version v
              then (failure Conflict ''runtime generation already bound to a different artifact identity'', r)
            else if rv_lifecycle existing \<noteq> rv_lifecycle v
              then (failure Conflict ''lifecycle change must use set_lifecycle to enforce preconditions'', r)
            else (status_ok, put_versions r (rv_component v) (om_upd (rv_generation v) v versions))
        | None \<Rightarrow>
            if reg_version_count r \<ge> kComponentVersions
              then (failure LimitExceeded ''component version bound reached'', r)
            else if rv_lifecycle v \<noteq> LifecycleState.Registered \<and> rv_lifecycle v \<noteq> LifecycleState.Current
                    \<and> rv_lifecycle v \<noteq> LifecycleState.Eligible
              then (failure InvalidArgument
                      ''first publication must use REGISTERED, ELIGIBLE or CURRENT lifecycle'', r)
            else (status_ok,
                  (put_versions r (rv_component v) (om_emplace (rv_generation v) v versions))
                    \<lparr>reg_version_count := reg_version_count r + 1\<rparr>))"

definition restore :: "ComponentRegistry \<Rightarrow> RuntimeComponentVersion \<Rightarrow> Status \<times> ComponentRegistry" where
  "restore r v =
     (if is_failure (rv_validate v) then (rv_validate v, r)
      else let versions = versions_at r (rv_component v); r = put_versions r (rv_component v) versions in
        if om_find versions (rv_generation v) \<noteq> None
          then (failure AlreadyExists ''duplicate runtime component generation in durable state'', r)
        else if reg_version_count r \<ge> kComponentVersions
          then (failure LimitExceeded ''component version bound reached while loading'', r)
        else (status_ok,
              (put_versions r (rv_component v) (om_emplace (rv_generation v) v versions))
                \<lparr>reg_version_count := reg_version_count r + 1\<rparr>))"

definition set_lifecycle ::
  "ComponentRegistry \<Rightarrow> ident \<Rightarrow> gen \<Rightarrow> LifecycleState \<Rightarrow> Status \<times> ComponentRegistry" where
  "set_lifecycle r c g nxt =
     (case om_find (by_component r) c of
        None \<Rightarrow> (failure NotFound ''component is not registered'', r)
      | Some versions \<Rightarrow>
          case om_find versions g of
            None \<Rightarrow> (failure NotFound ''runtime generation is not registered'', r)
          | Some v \<Rightarrow>
              let valid = validate_transition (rv_lifecycle v) nxt in
              if is_failure valid then (valid, r)
              else (status_ok, put_versions r c (om_upd g (v\<lparr>rv_lifecycle := nxt\<rparr>) versions)))"

definition registry_remove :: "ComponentRegistry \<Rightarrow> ident \<Rightarrow> gen \<Rightarrow> Status \<times> ComponentRegistry" where
  "registry_remove r c g =
     (case om_find (by_component r) c of
        None \<Rightarrow> (failure NotFound ''component is not registered'', r)
      | Some versions \<Rightarrow>
          if om_find versions g = None
            then (failure NotFound ''runtime generation is not registered'', r)
          else let versions = om_del g versions; r = r\<lparr>reg_version_count := reg_version_count r - 1\<rparr> in
            (status_ok,
             if om_size versions = 0 then r\<lparr>by_component := om_del c (by_component r)\<rparr>
             else put_versions r c versions))"

definition registry_find :: "ComponentRegistry \<Rightarrow> ident \<Rightarrow> gen \<Rightarrow> RuntimeComponentVersion option" where
  "registry_find r c g =
     (case om_find (by_component r) c of None \<Rightarrow> None | Some versions \<Rightarrow> om_find versions g)"

definition versions_of :: "ComponentRegistry \<Rightarrow> ident \<Rightarrow> RuntimeComponentVersion list" where
  "versions_of r c =
     (case om_find (by_component r) c of None \<Rightarrow> [] | Some versions \<Rightarrow> om_vals versions)"

definition components :: "ComponentRegistry \<Rightarrow> ident list" where
  "components r = om_keys (by_component r)"

definition all_versions :: "ComponentRegistry \<Rightarrow> RuntimeComponentVersion list" where
  "all_versions r = concat (map om_vals (om_vals (by_component r)))"

fun authoritative_loop :: "gen option \<Rightarrow> (u64 \<times> RuntimeComponentVersion) list \<Rightarrow> gen option" where
  "authoritative_loop best [] = best"
| "authoritative_loop best ((g, v) # rest) =
     authoritative_loop
       (if \<not> is_authoritative_lifecycle (rv_lifecycle v) then best
        else case best of None \<Rightarrow> Some g | Some b \<Rightarrow> if g > b then Some g else best) rest"

definition authoritative_generation :: "ComponentRegistry \<Rightarrow> ident \<Rightarrow> gen option" where
  "authoritative_generation r c =
     (case om_find (by_component r) c of
        None \<Rightarrow> None
      | Some versions \<Rightarrow> authoritative_loop None (om_entries versions))"


section \<open>The registry as a table\<close>

type_synonym version_table = "ident \<times> gen \<rightharpoonup> RuntimeComponentVersion"

definition registry_table :: "ComponentRegistry \<Rightarrow> version_table" where
  "registry_table r = (\<lambda>(c, g). registry_find r c g)"

definition reg_inv :: "ComponentRegistry \<Rightarrow> bool" where
  "reg_inv r \<longleftrightarrow>
     om_ok (by_component r)
     \<and> (\<forall>c m. om_find (by_component r) c = Some m \<longrightarrow> om_ok m)
     \<and> (\<forall>c g v. registry_find r c g = Some v \<longrightarrow>
          rv_component v = c \<and> rv_generation v = g \<and> is_ok (rv_validate v))
     \<and> reg_version_count r = om_sum om_size (by_component r)
     \<and> reg_version_count r \<le> kComponentVersions"

lemma reg_invD:
  assumes "reg_inv r"
  shows "om_ok (by_component r)" and "om_ok (versions_at r c)"
    and "registry_find r c g = Some v \<Longrightarrow> rv_component v = c \<and> rv_generation v = g \<and> is_ok (rv_validate v)"
    and "reg_version_count r = om_sum om_size (by_component r)"
    and "reg_version_count r \<le> kComponentVersions"
  using assms by (auto simp: reg_inv_def versions_at_def split: option.splits)

lemma find_versions_at [simp]: "om_find (versions_at r c) g = registry_find r c g"
  by (simp add: versions_at_def registry_find_def split: option.splits)

lemma versions_at_Some: "om_find (by_component r) c = Some m \<Longrightarrow> versions_at r c = m"
  by (simp add: versions_at_def)

lemma find_put_versions [simp]:
  "registry_find (put_versions r c m) c' g = (if c' = c then om_find m g else registry_find r c' g)"
  by (simp add: registry_find_def put_versions_def)

lemma find_update_count [simp]: "registry_find (r\<lparr>reg_version_count := n\<rparr>) c g = registry_find r c g"
  by (simp add: registry_find_def)

lemma put_versions_twice [simp]: "om_ok (by_component r) \<Longrightarrow>
    registry_find (put_versions (put_versions r c m) c m') = registry_find (put_versions r c m')"
  by (intro ext) simp

lemma sum_put_versions:
  assumes "reg_inv r"
  shows "om_sum om_size (by_component (put_versions r c m)) + om_size (versions_at r c)
    = reg_version_count r + om_size m"
  using om_sum_upd [of "by_component r" om_size c m] assms
  by (auto simp: reg_inv_def put_versions_def versions_at_def split: option.splits)

lemma card_registry_table:
  assumes "reg_inv r"
  shows "reg_version_count r = card (dom (registry_table r))"
proof -
  let ?b = "by_component r"
  have ok: "om_ok ?b" and inner: "\<And>c m. om_find ?b c = Some m \<Longrightarrow> om_ok m"
    using assms by (auto simp: reg_inv_def)
  have "dom (registry_table r) = Sigma (dom (om_find ?b)) (\<lambda>c. dom (om_find (the (om_find ?b c))))"
    by (auto simp: registry_table_def registry_find_def split: option.splits)
  moreover have "finite (dom (om_find ?b))" using om.finite_dom ok by auto
  moreover have "finite (dom (om_find (the (om_find ?b c))))" if "c \<in> dom (om_find ?b)" for c
    using that inner om.finite_dom by auto
  ultimately have "card (dom (registry_table r)) =
      (\<Sum>c\<in>dom (om_find ?b). card (dom (om_find (the (om_find ?b c)))))"
    by (simp add: card_SigmaI)
  also have "\<dots> = (\<Sum>c\<in>dom (om_find ?b). om_size (the (om_find ?b c)))"
    using inner om.size_card by (intro sum.cong) (fastforce simp: om_size_def om_entries_def)+
  finally show ?thesis using assms ok by (simp add: reg_inv_def om_sum_dom)
qed

text \<open>Every update of an inner map that agrees with the keys keeps the invariant.\<close>

lemma reg_inv_put_versions:
  assumes inv: "reg_inv r" and m: "om_ok m"
    and entries: "\<And>g v. om_find m g = Some v \<Longrightarrow> rv_component v = c \<and> rv_generation v = g \<and> is_ok (rv_validate v)"
    and n: "n + om_size (versions_at r c) = reg_version_count r + om_size m" "n \<le> kComponentVersions"
  shows "reg_inv ((put_versions r c m)\<lparr>reg_version_count := n\<rparr>)"
  unfolding reg_inv_def
proof (intro conjI allI impI)
  show "om_ok (by_component ((put_versions r c m)\<lparr>reg_version_count := n\<rparr>))"
    using inv by (simp add: reg_inv_def put_versions_def om_ok_upd)
  show "om_ok m'" if "om_find (by_component ((put_versions r c m)\<lparr>reg_version_count := n\<rparr>)) c' = Some m'" for c' m'
    using that inv m by (auto simp: reg_inv_def put_versions_def split: if_splits)
  fix c' g v assume "registry_find ((put_versions r c m)\<lparr>reg_version_count := n\<rparr>) c' g = Some v"
  then have "rv_component v = c' \<and> rv_generation v = g \<and> is_ok (rv_validate v)"
    using reg_invD(3) [OF inv] entries by (auto split: if_splits)
  then show "rv_component v = c'" "rv_generation v = g" "is_ok (rv_validate v)" by simp_all
next
  show "reg_version_count ((put_versions r c m)\<lparr>reg_version_count := n\<rparr>)
      = om_sum om_size (by_component ((put_versions r c m)\<lparr>reg_version_count := n\<rparr>))"
    using n(1) sum_put_versions [OF inv, of c m] by (simp add: put_versions_def)
qed (simp add: n)

lemma reg_inv_touch: "reg_inv r \<Longrightarrow> reg_inv (put_versions r c (versions_at r c))"
proof -
  assume inv: "reg_inv r"
  have "reg_inv ((put_versions r c (versions_at r c))\<lparr>reg_version_count := reg_version_count r\<rparr>)"
    using reg_invD [OF inv] by (intro reg_inv_put_versions [OF inv]) auto
  then show ?thesis by (simp add: put_versions_def)
qed

lemma reg_inv_insert:
  assumes inv: "reg_inv r" and v: "is_ok (rv_validate v)"
    and new: "registry_find r (rv_component v) (rv_generation v) = None"
    and room: "reg_version_count r < kComponentVersions"
  shows "reg_inv ((put_versions r (rv_component v) (om_upd (rv_generation v) v (versions_at r (rv_component v))))
                    \<lparr>reg_version_count := reg_version_count r + 1\<rparr>)"
  using reg_invD [OF inv] v new room
  by (intro reg_inv_put_versions [OF inv]) (auto simp: om_ok_upd om_size_upd split: if_splits)

lemma reg_inv_replace:
  assumes inv: "reg_inv r" and v: "is_ok (rv_validate v)" "rv_component v = c" "rv_generation v = g"
    and old: "registry_find r c g = Some old"
  shows "reg_inv (put_versions r c (om_upd g v (versions_at r c)))"
proof -
  have "reg_inv ((put_versions r c (om_upd g v (versions_at r c)))\<lparr>reg_version_count := reg_version_count r\<rparr>)"
    using reg_invD [OF inv] v old
    by (intro reg_inv_put_versions [OF inv]) (auto simp: om_ok_upd om_size_upd split: if_splits)
  then show ?thesis by (simp add: put_versions_def)
qed

subsection \<open>The abstract operations\<close>

definition spec_publish :: "version_table \<Rightarrow> RuntimeComponentVersion \<Rightarrow> ErrorCode \<times> version_table" where
  "spec_publish t v =
     (let k = (rv_component v, rv_generation v) in
      if is_failure (rv_validate v) then (code (rv_validate v), t)
      else case t k of
          Some old \<Rightarrow>
            if rv_version old = rv_version v \<and> rv_lifecycle old = rv_lifecycle v
            then (Ok, t(k \<mapsto> v)) else (Conflict, t)
        | None \<Rightarrow>
            if card (dom t) \<ge> 1024 then (LimitExceeded, t)
            else if rv_lifecycle v \<in> {LifecycleState.Registered, LifecycleState.Eligible, LifecycleState.Current}
              then (Ok, t(k \<mapsto> v)) else (InvalidArgument, t))"

definition spec_restore :: "version_table \<Rightarrow> RuntimeComponentVersion \<Rightarrow> ErrorCode \<times> version_table" where
  "spec_restore t v =
     (let k = (rv_component v, rv_generation v) in
      if is_failure (rv_validate v) then (code (rv_validate v), t)
      else if k \<in> dom t then (AlreadyExists, t)
      else if card (dom t) \<ge> 1024 then (LimitExceeded, t)
      else (Ok, t(k \<mapsto> v)))"

definition spec_set_lifecycle ::
  "version_table \<Rightarrow> ident \<Rightarrow> gen \<Rightarrow> LifecycleState \<Rightarrow> ErrorCode \<times> version_table" where
  "spec_set_lifecycle t c g nxt =
     (case t (c, g) of
        None \<Rightarrow> (NotFound, t)
      | Some v \<Rightarrow>
          if is_ok (validate_transition (rv_lifecycle v) nxt)
          then (Ok, t((c, g) \<mapsto> v\<lparr>rv_lifecycle := nxt\<rparr>))
          else (code (validate_transition (rv_lifecycle v) nxt), t))"

definition spec_remove :: "version_table \<Rightarrow> ident \<Rightarrow> gen \<Rightarrow> ErrorCode \<times> version_table" where
  "spec_remove t c g = (if (c, g) \<in> dom t then (Ok, t((c, g) := None)) else (NotFound, t))"

lemma registry_table_apply: "registry_table r (c, g) = registry_find r c g"
  by (simp add: registry_table_def)

lemma table_touch [simp]: "registry_table (put_versions r c (versions_at r c)) = registry_table r"
  by (auto simp: registry_table_def fun_eq_iff)

lemma table_upd:
  "registry_table (put_versions r c (om_upd g v (versions_at r c))) = (registry_table r)((c, g) \<mapsto> v)"
  by (auto simp: registry_table_def fun_eq_iff)

lemma table_count [simp]: "registry_table (r\<lparr>reg_version_count := n\<rparr>) = registry_table r"
  by (simp add: registry_table_def)

lemma put_put_versions [simp]:
  "om_ok (by_component r) \<Longrightarrow> registry_table (put_versions (put_versions r c m) c m') = registry_table (put_versions r c m')"
  by (auto simp: registry_table_def fun_eq_iff)

lemma versions_at_put [simp]: "versions_at (put_versions r c m) c' = (if c' = c then m else versions_at r c')"
  by (simp add: versions_at_def put_versions_def)

lemma count_put_versions [simp]: "reg_version_count (put_versions r c m) = reg_version_count r"
  by (simp add: put_versions_def)

lemma publish_refines:
  assumes inv: "reg_inv r"
  shows "map_prod code registry_table (publish r v) = spec_publish (registry_table r) v"
    and "reg_inv (snd (publish r v))"
proof -
  let ?t = "put_versions r (rv_component v) (versions_at r (rv_component v))"
  have t: "reg_inv ?t" "registry_table ?t = registry_table r" "om_ok (by_component r)"
    using inv reg_inv_touch reg_invD(1) by auto
  have upd: "versions_at r (rv_component v) = versions_at ?t (rv_component v)" by simp
  show "map_prod code registry_table (publish r v) = spec_publish (registry_table r) v"
    using t card_registry_table [OF inv]
    by (auto simp: publish_def spec_publish_def Let_def om_emplace_def registry_table_apply table_upd
        limit_defs split: option.splits)
  show "reg_inv (snd (publish r v))"
  proof (cases "is_ok (rv_validate v)")
    case True
    have replace: "reg_inv (put_versions ?t (rv_component v) (om_upd (rv_generation v) v (versions_at r (rv_component v))))"
      if "registry_find r (rv_component v) (rv_generation v) = Some old" for old
      using reg_inv_replace [OF t(1) True refl refl, of old] that by simp
    have insert: "reg_inv ((put_versions ?t (rv_component v) (om_upd (rv_generation v) v (versions_at r (rv_component v))))
        \<lparr>reg_version_count := reg_version_count r + 1\<rparr>)"
      if "registry_find r (rv_component v) (rv_generation v) = None" "reg_version_count r < kComponentVersions"
      using reg_inv_insert [OF t(1) True] that by simp
    from True t(1) replace insert show ?thesis
      by (auto simp: publish_def Let_def om_emplace_def split: option.splits)
  qed (simp add: publish_def inv)
qed

lemma restore_refines:
  assumes inv: "reg_inv r"
  shows "map_prod code registry_table (restore r v) = spec_restore (registry_table r) v"
    and "reg_inv (snd (restore r v))"
proof -
  let ?t = "put_versions r (rv_component v) (versions_at r (rv_component v))"
  have t: "reg_inv ?t" "registry_table ?t = registry_table r" "om_ok (by_component r)"
    using inv reg_inv_touch reg_invD(1) by auto
  show "map_prod code registry_table (restore r v) = spec_restore (registry_table r) v"
    using t card_registry_table [OF inv]
    by (auto simp: restore_def spec_restore_def Let_def om_emplace_def registry_table_apply table_upd
        limit_defs domIff split: option.splits)
  show "reg_inv (snd (restore r v))"
    using t(1) inv reg_inv_insert [OF t(1), of v]
    by (auto simp: restore_def Let_def om_emplace_def split: option.splits)
qed

lemma rv_validate_lifecycle [simp]: "rv_validate (v\<lparr>rv_lifecycle := s\<rparr>) = rv_validate v"
  by (cases v) (simp only: rv_validate_def RuntimeComponentVersion.simps)

lemma set_lifecycle_alt:
  "set_lifecycle r c g nxt =
     (case registry_find r c g of
        None \<Rightarrow> (fst (set_lifecycle r c g nxt), r)
      | Some v \<Rightarrow>
          if is_ok (validate_transition (rv_lifecycle v) nxt)
          then (status_ok, put_versions r c (om_upd g (v\<lparr>rv_lifecycle := nxt\<rparr>) (versions_at r c)))
          else (validate_transition (rv_lifecycle v) nxt, r))"
  by (auto simp: set_lifecycle_def registry_find_def versions_at_def Let_def split: option.splits)

lemma set_lifecycle_missing: "registry_find r c g = None \<Longrightarrow>
    code (fst (set_lifecycle r c g nxt)) = NotFound \<and> snd (set_lifecycle r c g nxt) = r"
  by (auto simp: set_lifecycle_def registry_find_def split: option.splits)

lemma set_lifecycle_refines:
  assumes inv: "reg_inv r"
  shows "map_prod code registry_table (set_lifecycle r c g nxt) = spec_set_lifecycle (registry_table r) c g nxt"
    and "reg_inv (snd (set_lifecycle r c g nxt))"
proof -
  show "map_prod code registry_table (set_lifecycle r c g nxt) = spec_set_lifecycle (registry_table r) c g nxt"
    using set_lifecycle_missing [of r c g nxt]
    by (subst set_lifecycle_alt)
      (auto simp: spec_set_lifecycle_def registry_table_apply table_upd split: option.splits)
  show "reg_inv (snd (set_lifecycle r c g nxt))"
  proof (cases "registry_find r c g")
    case (Some v)
    with reg_invD(3) [OF inv Some] inv reg_inv_replace [OF inv, of "v\<lparr>rv_lifecycle := nxt\<rparr>" c g v]
    show ?thesis by (subst set_lifecycle_alt) simp
  qed (simp add: set_lifecycle_missing inv)
qed

lemma om_size_zero: "om_ok m \<Longrightarrow> om_size m = 0 \<Longrightarrow> om_find m k = None"
  using om_size_pos [of m k] by (cases "om_find m k") auto

lemma registry_remove_refines:
  assumes inv: "reg_inv r"
  shows "map_prod code registry_table (registry_remove r c g) = spec_remove (registry_table r) c g"
    and "reg_inv (snd (registry_remove r c g))"
proof -
  have "map_prod code registry_table (registry_remove r c g) = spec_remove (registry_table r) c g
      \<and> reg_inv (snd (registry_remove r c g))"
  proof (cases "registry_find r c g")
    case None
    then show ?thesis using inv
      by (auto simp: registry_remove_def spec_remove_def registry_find_def registry_table_apply domIff
          split: option.splits)
  next
    case (Some v)
    define m' where "m' = om_del g (versions_at r c)"
    have c: "om_find (by_component r) c = Some (versions_at r c)"
      using Some by (auto simp: registry_find_def versions_at_def split: option.splits)
    have ok: "om_ok (by_component r)" "om_ok (versions_at r c)" "om_ok m'"
      using reg_invD [OF inv] by (simp_all add: m'_def om_ok_del)
    have find': "om_find m' h = (if h = g then None else registry_find r c h)" for h
      using om_find_del [OF ok(2), of g] by (simp add: m'_def)
    have size: "om_size (versions_at r c) = Suc (om_size m')"
      using Some om_size_del [OF ok(2), of g] om_size_pos [OF ok(2), of g v] by (simp add: m'_def)
    have result: "registry_remove r c g =
        (status_ok, if om_size m' = 0 then r\<lparr>by_component := om_del c (by_component r), reg_version_count := reg_version_count r - 1\<rparr>
                    else (put_versions r c m')\<lparr>reg_version_count := reg_version_count r - 1\<rparr>)"
      using Some c by (simp add: registry_remove_def m'_def Let_def put_versions_def)
    have pos: "om_size (versions_at r c) \<le> reg_version_count r"
      using om_sum_pos [OF ok(1) c, of om_size] reg_invD(4) [OF inv] by simp
    show ?thesis
    proof (cases "om_size m' = 0")
      case True
      let ?r = "r\<lparr>by_component := om_del c (by_component r), reg_version_count := reg_version_count r - 1\<rparr>"
      have gone: "registry_find r c h = None" if "h \<noteq> g" for h
        using om_size_zero [OF ok(3) True, of h] find' [of h] that by simp
      have find: "registry_find ?r c' h = (if c' = c then None else registry_find r c' h)" for c' h
        using om_find_del [OF ok(1), of c] by (simp add: registry_find_def)
      have "registry_table ?r = (registry_table r)((c, g) := None)"
        using find gone by (auto simp: registry_table_def fun_eq_iff)
      moreover have "reg_inv ?r"
        using reg_invD [OF inv] inv find om_sum_del [OF ok(1), of om_size c] size True
          om_find_del [OF ok(1), of c] om_ok_del [OF ok(1), of c]
        by (auto simp: reg_inv_def c split: if_splits)
      ultimately show ?thesis
        using Some True by (simp add: result spec_remove_def registry_table_apply domIff)
    next
      case False
      have "registry_table (put_versions r c m') = (registry_table r)((c, g) := None)"
        using find' by (auto simp: registry_table_def fun_eq_iff)
      moreover have "reg_inv ((put_versions r c m')\<lparr>reg_version_count := reg_version_count r - 1\<rparr>)"
        using reg_invD [OF inv] size pos find' ok(3)
        by (intro reg_inv_put_versions [OF inv]) (auto split: if_splits)
      ultimately show ?thesis
        using Some False by (simp add: result spec_remove_def registry_table_apply domIff)
    qed
  qed
  then show "map_prod code registry_table (registry_remove r c g) = spec_remove (registry_table r) c g"
    and "reg_inv (snd (registry_remove r c g))" by simp_all
qed


section \<open>Lifecycle movement over time\<close>

text \<open>
  What a client of the registry relies on: whatever the operations do, a stored generation stays
  stored and its lifecycle either stays or takes one edge of the transition table.
\<close>

locale lifecycle_table =
  fixes lookup :: "'r \<Rightarrow> 'k \<Rightarrow> LifecycleState option"
    and step :: "'r \<Rightarrow> 'r \<Rightarrow> bool"
  assumes step_moves: "step r r' \<Longrightarrow> lookup r k = Some s \<Longrightarrow>
      \<exists>s'. lookup r' k = Some s' \<and> (s' = s \<or> is_transition_allowed s s')"
begin

lemma steps_move:
  assumes "step\<^sup>*\<^sup>* r r'" and "lookup r k = Some s"
  shows "\<exists>s'. lookup r' k = Some s' \<and> is_transition_allowed\<^sup>*\<^sup>* s s'"
  using assms
proof (induction rule: rtranclp_induct)
  case (step r1 r2)
  then obtain s1 where s1: "lookup r1 k = Some s1" "is_transition_allowed\<^sup>*\<^sup>* s s1" by blast
  from step_moves [OF step.hyps(2) s1(1)] s1(2) show ?case
    by (meson rtranclp.rtrancl_into_rtrancl)
qed blast

text \<open>A set of states closed under the transition table is never left.\<close>

lemma closed_set_kept:
  assumes closed: "\<And>s s'. s \<in> S \<Longrightarrow> is_transition_allowed s s' \<Longrightarrow> s' \<in> S"
    and steps: "step\<^sup>*\<^sup>* r r'" and s: "lookup r k = Some s" "s \<in> S"
  shows "\<exists>s'\<in>S. lookup r' k = Some s'"
proof -
  from steps_move [OF steps s(1)] obtain s' where
    s': "lookup r' k = Some s'" "is_transition_allowed\<^sup>*\<^sup>* s s'" by blast
  from s'(2) s(2) have "s' \<in> S" by (induction rule: rtranclp_induct) (auto intro: closed)
  with s'(1) show ?thesis by blast
qed

end

text \<open>The operations the running coordinator uses; \<open>ComponentRegistry::remove\<close> has no caller in the program and is
  added below.\<close>

inductive registry_step :: "ComponentRegistry \<Rightarrow> ComponentRegistry \<Rightarrow> bool" where
  step_publish: "registry_step r (snd (publish r v))"
| step_restore: "registry_step r (snd (restore r v))"
| step_set_lifecycle: "registry_step r (snd (set_lifecycle r c g nxt))"

definition lifecycle_of :: "ComponentRegistry \<Rightarrow> ident \<times> gen \<Rightarrow> LifecycleState option" where
  "lifecycle_of r k = map_option rv_lifecycle (registry_find r (fst k) (snd k))"

lemma find_after_publish:
  "registry_find r c g = Some old \<Longrightarrow>
   \<exists>v'. registry_find (snd (publish r v)) c g = Some v' \<and> rv_lifecycle v' = rv_lifecycle old"
  by (auto simp: publish_def Let_def om_emplace_def split: option.splits)

lemma find_after_restore:
  "registry_find r c g = Some old \<Longrightarrow> registry_find (snd (restore r v)) c g = Some old"
  by (auto simp: restore_def Let_def om_emplace_def split: option.splits)

lemma validate_transition_ok: "is_ok (validate_transition s s') \<Longrightarrow> is_transition_allowed s s'"
  by (auto simp: validate_transition_def split: if_splits)

lemma find_after_set_lifecycle:
  "registry_find (snd (set_lifecycle r c g nxt)) c' g' =
     (case registry_find r c g of
        Some v \<Rightarrow> if (c', g') = (c, g) \<and> is_ok (validate_transition (rv_lifecycle v) nxt)
                  then Some (v\<lparr>rv_lifecycle := nxt\<rparr>) else registry_find r c' g'
      | None \<Rightarrow> registry_find r c' g')"
  by (subst set_lifecycle_alt) (auto split: option.splits)

interpretation reg: lifecycle_table lifecycle_of registry_step
proof
  fix r r' k s assume "registry_step r r'" and s: "lifecycle_of r k = Some s"
  then obtain v where v: "registry_find r (fst k) (snd k) = Some v" "rv_lifecycle v = s"
    by (auto simp: lifecycle_of_def)
  from \<open>registry_step r r'\<close> show "\<exists>s'. lifecycle_of r' k = Some s' \<and> (s' = s \<or> is_transition_allowed s s')"
  proof cases
    case (step_publish w)
    with v find_after_publish [OF v(1), of w] show ?thesis by (auto simp: lifecycle_of_def)
  next
    case (step_restore w)
    with v find_after_restore [OF v(1), of w] show ?thesis by (auto simp: lifecycle_of_def)
  next
    case (step_set_lifecycle c g nxt)
    with v show ?thesis
      by (auto simp: lifecycle_of_def find_after_set_lifecycle dest!: validate_transition_ok split: option.splits)
  qed
qed

definition retiring :: "LifecycleState set" where
  "retiring = {LifecycleState.Failed, LifecycleState.RetirementPending, LifecycleState.Retired}"

lemma retiring_closed: "s \<in> retiring \<Longrightarrow> is_transition_allowed s s' \<Longrightarrow> s' \<in> retiring"
  by (cases s) (auto simp: retiring_def is_transition_allowed_def kTransitions_def)

lemma retired_closed: "s \<in> {LifecycleState.Retired} \<Longrightarrow> is_transition_allowed s s' \<Longrightarrow> s' \<in> {LifecycleState.Retired}"
  by (simp add: is_transition_allowed_def kTransitions_def)

text \<open>
  C20: The registry implements a table from (component, generation) to versions: on every branch,
  errors included, publishing, restoring, moving the lifecycle and removing return the error code
  and the table contents that the corresponding operation on a finite map gives, where the bound of
  1024 versions is the number of stored entries, and they keep the registry's invariant.
\<close>

theorem registry_refines_table:
  assumes "reg_inv r"
  shows "map_prod code registry_table (publish r v) = spec_publish (registry_table r) v
    \<and> map_prod code registry_table (restore r v) = spec_restore (registry_table r) v
    \<and> map_prod code registry_table (set_lifecycle r c g nxt) = spec_set_lifecycle (registry_table r) c g nxt
    \<and> map_prod code registry_table (registry_remove r c g) = spec_remove (registry_table r) c g
    \<and> reg_inv (snd (publish r v)) \<and> reg_inv (snd (restore r v))
    \<and> reg_inv (snd (set_lifecycle r c g nxt)) \<and> reg_inv (snd (registry_remove r c g))"
  using publish_refines [OF assms, of v] restore_refines [OF assms, of v]
    set_lifecycle_refines [OF assms, of c g nxt] registry_remove_refines [OF assms, of c g]
  by (intro conjI) assumption+

text \<open>All operations of the registry, removals of one generation excepted.\<close>

inductive sparing_step :: "ident \<times> gen \<Rightarrow> ComponentRegistry \<Rightarrow> ComponentRegistry \<Rightarrow> bool" for key where
  spares_change: "registry_step r r' \<Longrightarrow> sparing_step key r r'"
| spares_remove: "(c, g) \<noteq> key \<Longrightarrow> sparing_step key r (snd (registry_remove r c g))"

lemma remove_keeps_others:
  assumes "reg_inv r" and "(c, g) \<noteq> k"
  shows "lifecycle_of (snd (registry_remove r c g)) k = lifecycle_of r k"
proof -
  have "registry_table (snd (registry_remove r c g)) k = registry_table r k"
    using registry_remove_refines [OF assms(1), of c g] assms(2)
    by (auto simp: spec_remove_def map_prod_def split_def split: if_splits option.splits)
  then show ?thesis by (cases k) (simp add: registry_table_def lifecycle_of_def)
qed

interpretation spared: lifecycle_table "\<lambda>r (_ :: unit). lifecycle_of r key" "\<lambda>r r'. reg_inv r \<and> sparing_step key r r'"
  for key :: "ident \<times> gen"
proof
  fix r r' s and u :: unit
  assume step: "reg_inv r \<and> sparing_step key r r'" and s: "lifecycle_of r key = Some s"
  then have "sparing_step key r r'" by blast
  then show "\<exists>s'. lifecycle_of r' key = Some s' \<and> (s' = s \<or> is_transition_allowed s s')"
  proof cases
    case spares_change
    then show ?thesis using reg.step_moves s by blast
  next
    case (spares_remove c g)
    then show ?thesis using remove_keeps_others [of r c g key] step s by simp
  qed
qed

lemma sparing_step_inv: "sparing_step key r r' \<Longrightarrow> reg_inv r \<Longrightarrow> reg_inv r'"
  by (auto elim!: sparing_step.cases registry_step.cases simp: publish_refines restore_refines set_lifecycle_refines registry_remove_refines)

lemma sparing_run_inv:
  "(sparing_step key)\<^sup>*\<^sup>* r r' \<Longrightarrow> reg_inv r \<Longrightarrow> (\<lambda>r r'. reg_inv r \<and> sparing_step key r r')\<^sup>*\<^sup>* r r' \<and> reg_inv r'"
proof (induction rule: rtranclp_induct)
  case (step y z)
  then have "(\<lambda>r r'. reg_inv r \<and> sparing_step key r r')\<^sup>*\<^sup>* r y" "reg_inv y" by simp_all
  then show ?case using step.hyps(2) sparing_step_inv by (auto intro: rtranclp.rtrancl_into_rtrancl)
qed simp

text \<open>
  C16: RETIRED is terminal and retirement is irrevocable.  Along every sequence of publications,
  restores, lifecycle changes and removals of other generations, a generation that is RETIRED stays stored and RETIRED, and a
  generation that has become FAILED, RETIREMENT_PENDING or RETIRED never again permits mutation and
  never becomes authoritative.  Removing the very generation is the one operation that forgets it.
\<close>

theorem retirement_irrevocable:
  assumes "(sparing_step (c, g))\<^sup>*\<^sup>* r r'" and "reg_inv r" and "lifecycle_of r (c, g) = Some s"
  shows "(s = LifecycleState.Retired \<longrightarrow> lifecycle_of r' (c, g) = Some LifecycleState.Retired)
    \<and> (s \<in> retiring \<longrightarrow> (\<exists>s'. lifecycle_of r' (c, g) = Some s' \<and> s' \<in> retiring
          \<and> \<not> permits_mutation_lifecycle s' \<and> \<not> is_authoritative_lifecycle s'))
    \<and> (is_ok (fst (registry_remove r' c g)) \<longrightarrow> lifecycle_of (snd (registry_remove r' c g)) (c, g) = None)"
proof (intro conjI impI)
  have run: "(\<lambda>r r'. reg_inv r \<and> sparing_step (c, g) r r')\<^sup>*\<^sup>* r r'" and inv: "reg_inv r'"
    using sparing_run_inv [OF assms(1,2)] by simp_all
  note kept = spared.closed_set_kept [OF _ run, OF _ assms(3)]
  show "lifecycle_of r' (c, g) = Some LifecycleState.Retired" if "s = LifecycleState.Retired"
    using kept [of "{LifecycleState.Retired}"] retired_closed that by blast
  show "\<exists>s'. lifecycle_of r' (c, g) = Some s' \<and> s' \<in> retiring
      \<and> \<not> permits_mutation_lifecycle s' \<and> \<not> is_authoritative_lifecycle s'" if retiring: "s \<in> retiring"
  proof -
    obtain s' where "s' \<in> retiring" "lifecycle_of r' (c, g) = Some s'"
      using kept [of retiring] retiring_closed retiring by blast
    moreover from this have "\<not> permits_mutation_lifecycle s' \<and> \<not> is_authoritative_lifecycle s'"
      by (cases s') (simp_all add: retiring_def is_authoritative_lifecycle_def)
    ultimately show ?thesis by blast
  qed
  assume ok: "is_ok (fst (registry_remove r' c g))"
  have "registry_table (snd (registry_remove r' c g)) (c, g) = None"
    using registry_remove_refines [OF inv, of c g] ok
    by (auto simp: spec_remove_def map_prod_def split_def is_ok_def split: if_splits option.splits)
  then show "lifecycle_of (snd (registry_remove r' c g)) (c, g) = None" by (simp add: registry_table_def lifecycle_of_def)
qed


section \<open>The authoritative generation\<close>

definition authoritative_in :: "(u64 \<times> RuntimeComponentVersion) list \<Rightarrow> gen set" where
  "authoritative_in vs = {g. \<exists>v. (g, v) \<in> set vs \<and> is_authoritative_lifecycle (rv_lifecycle v)}"

lemma authoritative_in_simps [simp]:
  "authoritative_in [] = {}"
  "authoritative_in ((g, v) # vs) =
     (if is_authoritative_lifecycle (rv_lifecycle v) then insert g (authoritative_in vs) else authoritative_in vs)"
  by (auto simp: authoritative_in_def)

lemma authoritative_loop_spec:
  "case authoritative_loop best vs of
     None \<Rightarrow> best = None \<and> authoritative_in vs = {}
   | Some b \<Rightarrow> (best = Some b \<or> b \<in> authoritative_in vs) \<and> (\<forall>a\<in>authoritative_in vs. a \<le> b)
                \<and> (\<forall>b0. best = Some b0 \<longrightarrow> b0 \<le> b)"
proof (induction best vs rule: authoritative_loop.induct)
  case (2 best g v vs)
  show ?case
  proof (cases "is_authoritative_lifecycle (rv_lifecycle v)")
    case True
    with 2 show ?thesis
      by (cases best) (force split: option.splits if_splits simp: not_less)+
  qed (use 2 in \<open>simp split: option.splits\<close>)
qed (simp split: option.splits)

text \<open>
  The authoritative generation of a component is the greatest generation stored for it whose
  lifecycle is CURRENT, and there is none exactly when no stored generation is CURRENT.
\<close>

theorem authoritative_generation_greatest:
  assumes "reg_inv r"
  shows "(authoritative_generation r c = None \<longleftrightarrow>
            (\<forall>g. lifecycle_of r (c, g) \<noteq> Some LifecycleState.Current))
    \<and> (\<forall>b. authoritative_generation r c = Some b \<longrightarrow>
            lifecycle_of r (c, b) = Some LifecycleState.Current
            \<and> (\<forall>g. lifecycle_of r (c, g) = Some LifecycleState.Current \<longrightarrow> g \<le> b))"
proof (cases "om_find (by_component r) c")
  case None
  then show ?thesis by (simp add: authoritative_generation_def lifecycle_of_def registry_find_def)
next
  case (Some m)
  then have "om_ok m" using reg_invD(2) [OF assms, of c] by (simp add: versions_at_Some)
  then have "g \<in> authoritative_in (om_entries m) \<longleftrightarrow> lifecycle_of r (c, g) = Some LifecycleState.Current" for g
    using Some by (auto simp: authoritative_in_def om_entries_def om_in_iff lifecycle_of_def
        registry_find_def is_authoritative_lifecycle_def)
  then show ?thesis
    using authoritative_loop_spec [of None "om_entries m"] Some
    by (auto simp: authoritative_generation_def split: option.splits)
qed


section \<open>A concrete registry\<close>

definition sample_version :: "ident \<Rightarrow> gen \<Rightarrow> LifecycleState \<Rightarrow> RuntimeComponentVersion" where
  "sample_version c g s =
     \<lparr>rv_component = c,
      rv_version = \<lparr>number = \<lparr>major = 1, minor = 0, patch = 0\<rparr>,
                    artifact = \<lparr>build = ''b'', content_hash = digest_zero\<rparr>\<rparr>,
      rv_generation = g,
      rv_protocols = \<lparr>ps_supported = [1, 2], ps_readable = [1, 2], ps_writable = [1, 2], ps_minimum_safety = 1\<rparr>,
      rv_schemas = \<lparr>ss_supported = [1, 2], ss_readable = [1, 2], ss_writable = [1],
                    ss_readable_formats = [1], ss_writable_formats = [1]\<rparr>,
      rv_migrations = [], rv_rollback = \<lparr>rc_supported = True, rc_target_window = range_closed 1 9,
        rc_requires_state_restore = False, rc_reverse_migration_available = True\<rparr>,
      rv_features = [], rv_capability_generation = 1, rv_peers = [],
      rv_compatible_generations = range_closed 1 9, rv_lifecycle = s, rv_provenance = Real,
      rv_evidence = 1, rv_epoch = 1, rv_notes = []\<rparr>"

lemma sample_version_ok: "c \<noteq> [] \<Longrightarrow> g \<in> {1, 2, 3} \<Longrightarrow> is_ok (rv_validate (sample_version c g s))"
  by (auto simp: rv_validate_def sample_version_def range_defs version_is_set_def Let_def)

definition sample_registry :: ComponentRegistry where
  "sample_registry =
     snd (restore (snd (publish registry_empty (sample_version ''w'' 1 LifecycleState.Current)))
       (sample_version ''w'' 2 LifecycleState.RetirementPending))"

lemma reg_inv_empty: "reg_inv registry_empty"
  by (simp add: reg_inv_def registry_empty_def registry_find_def)

lemma sample_registry_inv: "reg_inv sample_registry"
  unfolding sample_registry_def by (intro restore_refines publish_refines reg_inv_empty)

lemma sample_lifecycle:
  "lifecycle_of sample_registry (''w'', 1) = Some LifecycleState.Current"
  "lifecycle_of sample_registry (''w'', 2) = Some LifecycleState.RetirementPending"
  using sample_version_ok [of "''w''" 1 LifecycleState.Current]
    sample_version_ok [of "''w''" 2 LifecycleState.RetirementPending]
  by (simp_all add: sample_registry_def publish_def restore_def Let_def registry_empty_def
      registry_find_def versions_at_def put_versions_def om_emplace_def lifecycle_of_def sample_version_def
      limit_defs)

theorem registry_refines_table_witness:
  "map_prod code registry_table (publish registry_empty (sample_version ''w'' 1 LifecycleState.Current))
     = (Ok, [(''w'', 1) \<mapsto> sample_version ''w'' 1 LifecycleState.Current])
   \<and> reg_inv (snd (publish registry_empty (sample_version ''w'' 1 LifecycleState.Current)))"
proof -
  have "registry_table registry_empty = Map.empty"
    by (auto simp: registry_table_def registry_find_def registry_empty_def)
  moreover have "is_ok (rv_validate (sample_version ''w'' 1 LifecycleState.Current))"
    by (rule sample_version_ok) simp_all
  ultimately show ?thesis
    using registry_refines_table [OF reg_inv_empty, of "sample_version ''w'' 1 LifecycleState.Current"]
    by (simp add: spec_publish_def sample_version_def)
qed

theorem retirement_irrevocable_witness:
  "\<exists>s'. lifecycle_of (snd (set_lifecycle sample_registry ''w'' 2 LifecycleState.Retired)) (''w'', 2) = Some s'
     \<and> s' \<in> retiring \<and> \<not> permits_mutation_lifecycle s'"
proof -
  have "(sparing_step (''w'', 2))\<^sup>*\<^sup>* sample_registry (snd (set_lifecycle sample_registry ''w'' 2 LifecycleState.Retired))"
    by (intro r_into_rtranclp spares_change step_set_lifecycle)
  from retirement_irrevocable [OF this sample_registry_inv sample_lifecycle(2)] show ?thesis
    by (auto simp: retiring_def)
qed

theorem authoritative_generation_greatest_witness:
  "authoritative_generation sample_registry ''w'' = Some 1"
proof -
  have "lifecycle_of sample_registry (''w'', g) = Some LifecycleState.Current \<Longrightarrow> g = 1" for g
    using sample_version_ok [of "''w''" 1 LifecycleState.Current]
      sample_version_ok [of "''w''" 2 LifecycleState.RetirementPending]
    by (auto simp: sample_registry_def publish_def restore_def Let_def registry_empty_def
        registry_find_def versions_at_def put_versions_def om_emplace_def lifecycle_of_def sample_version_def
        limit_defs split: if_splits)
  then show ?thesis
    using authoritative_generation_greatest [OF sample_registry_inv, of "''w''"] sample_lifecycle(1)
    by (cases "authoritative_generation sample_registry ''w''") auto
qed

text \<open>
  The publication of a valid, unseen version that is rejected because of its lifecycle or the version bound still
  leaves the component listed: \<open>components()\<close> may report an identity that has no version.
\<close>

theorem rejected_publish_lists_component:
  assumes "reg_inv r" and "is_ok (rv_validate v)"
    and "registry_find r (rv_component v) (rv_generation v) = None"
    and "rv_lifecycle v = LifecycleState.Draining \<or> reg_version_count r = kComponentVersions"
  shows "\<not> is_ok (fst (publish r v)) \<and> registry_table (snd (publish r v)) = registry_table r
    \<and> rv_component v \<in> set (components (snd (publish r v)))"
proof -
  let ?t = "put_versions r (rv_component v) (versions_at r (rv_component v))"
  have "snd (publish r v) = ?t \<and> \<not> is_ok (fst (publish r v))"
    using assms(2-4) by (auto simp: publish_def Let_def)
  moreover have "om_ok (by_component ?t)" using reg_inv_touch [OF assms(1)] reg_invD(1) by blast
  then have "rv_component v \<in> set (components ?t)"
    by (simp add: components_def om_keys_iff) (simp add: put_versions_def)
  ultimately show ?thesis by simp
qed

theorem rejected_publish_lists_component_witness:
  "components registry_empty = [] \<and>
   ''w'' \<in> set (components (snd (publish registry_empty (sample_version ''w'' 1 LifecycleState.Draining))))"
proof -
  let ?v = "sample_version ''w'' 1 LifecycleState.Draining"
  have "registry_find registry_empty (rv_component ?v) (rv_generation ?v) = None"
    by (simp add: registry_find_def registry_empty_def)
  moreover have "is_ok (rv_validate ?v)" by (rule sample_version_ok) simp_all
  moreover have "rv_lifecycle ?v = LifecycleState.Draining \<and> rv_component ?v = ''w''" by (simp add: sample_version_def)
  ultimately show ?thesis
    using rejected_publish_lists_component [OF reg_inv_empty, of ?v]
    by (simp add: components_def registry_empty_def om_keys_def om_empty_def)
qed

end
