(* ===== verification/Ref_Protocol.thy ===== *)
theory Ref_Protocol
  imports Ref_Compat Ref_Component
begin

text \<open>
  Protocol descriptors, their registry, and negotiation: \<open>include/ref/protocol.hpp\<close> and
  \<open>src/protocol.cpp\<close>.

  Negotiation scans the local generation set in its stored (ascending) order and takes the first
  acceptable generation.  Shown: it succeeds exactly when an acceptable common generation exists
  and what it returns is acceptable; and that, contrary to the comment in the code, it is the lowest
  acceptable generation rather than the highest.
\<close>

section \<open>Descriptors\<close>

record FieldDescriptor =
  fd_id :: ident
  fd_introduced_in :: gen
  fd_required :: bool

record MessageTypeDescriptor =
  md_id :: ident
  md_introduced_in :: gen
  md_mutating :: bool
  md_state_replacing :: bool
  md_fields :: "FieldDescriptor list"

datatype UnknownFieldPolicy = Reject | Ignore | Preserve
datatype UnknownMessagePolicy = Reject | Ignore

record ProtocolDescriptor =
  pd_id :: ident
  pd_generation :: gen
  pd_minimum_safety_generation :: gen
  pd_messages :: "MessageTypeDescriptor list"
  pd_unknown_fields :: UnknownFieldPolicy
  pd_unknown_messages :: UnknownMessagePolicy
  pd_provenance :: EvidenceClass
  pd_evidence :: gen
  pd_notes :: string

fun unknown_field_policy_to_string :: "UnknownFieldPolicy \<Rightarrow> string" where
  "unknown_field_policy_to_string UnknownFieldPolicy.Reject = ''REJECT''"
| "unknown_field_policy_to_string UnknownFieldPolicy.Ignore = ''IGNORE''"
| "unknown_field_policy_to_string UnknownFieldPolicy.Preserve = ''PRESERVE''"

fun unknown_message_policy_to_string :: "UnknownMessagePolicy \<Rightarrow> string" where
  "unknown_message_policy_to_string UnknownMessagePolicy.Reject = ''REJECT''"
| "unknown_message_policy_to_string UnknownMessagePolicy.Ignore = ''IGNORE''"

definition field_check :: "gen \<Rightarrow> FieldDescriptor \<Rightarrow> Status" where
  "field_check g f =
     (if fd_id f = [] then failure InvalidArgument ''field id is empty''
      else if \<not> gen_is_set (fd_introduced_in f) \<or> fd_introduced_in f > g
        then failure InvalidArgument ''field introduced beyond the protocol generation''
      else status_ok)"

text \<open>The loop over \<open>messages[i]\<close> with the inner loop over the later messages.\<close>

fun messages_check :: "gen \<Rightarrow> MessageTypeDescriptor list \<Rightarrow> Status" where
  "messages_check g [] = status_ok"
| "messages_check g (m # ms) =
     (if md_id m = [] then failure InvalidArgument ''message type id is empty''
      else if \<not> gen_is_set (md_introduced_in m) \<or> md_introduced_in m > g
        then failure InvalidArgument ''message type introduced at a generation beyond the protocol''
      else if length (md_fields m) > kMessageFields
        then failure LimitExceeded ''message type declares too many fields''
      else let fields = first_failure (field_check g) (md_fields m) in
        if is_failure fields then fields
        else if list_ex (\<lambda>m'. md_id m' = md_id m) ms
          then failure InvalidArgument ''duplicate message type in protocol''
        else messages_check g ms)"

definition pd_validate :: "ProtocolDescriptor \<Rightarrow> Status" where
  "pd_validate d =
     (if pd_id d = [] then failure InvalidArgument ''protocol id is empty''
      else if \<not> gen_is_set (pd_generation d) then failure InvalidArgument ''protocol generation is unset''
      else if \<not> gen_is_set (pd_minimum_safety_generation d)
        then failure InvalidArgument ''protocol minimum safety generation is unset''
      else if pd_minimum_safety_generation d > pd_generation d
        then failure InvalidArgument ''protocol minimum safety generation exceeds the protocol generation''
      else if pd_messages d = [] then failure InvalidArgument ''protocol declares no message types''
      else if length (pd_messages d) > kMessageTypes
        then failure LimitExceeded ''protocol declares too many message types''
      else let messages = messages_check (pd_generation d) (pd_messages d) in
        if is_failure messages then messages
        else if pd_provenance d = EvidenceClass.Unknown
          then failure InvalidArgument ''protocol descriptor has no evidence provenance''
        else status_ok)"

definition find_message :: "ProtocolDescriptor \<Rightarrow> ident \<Rightarrow> MessageTypeDescriptor option" where
  "find_message d message = List.find (\<lambda>m. md_id m = message) (pd_messages d)"

definition supports_message :: "ProtocolDescriptor \<Rightarrow> ident \<Rightarrow> bool" where
  "supports_message d message =
     (case find_message d message of None \<Rightarrow> False | Some m \<Rightarrow> md_introduced_in m \<le> pd_generation d)"

definition supports_mutating :: "ProtocolDescriptor \<Rightarrow> ident \<Rightarrow> bool" where
  "supports_mutating d message =
     (case find_message d message of
        None \<Rightarrow> False | Some m \<Rightarrow> md_mutating m \<and> md_introduced_in m \<le> pd_generation d)"


section \<open>The registry\<close>

type_synonym ProtocolRegistry = "(ident \<times> u64, ProtocolDescriptor) omap"

definition protocol_publish ::
  "ProtocolRegistry \<Rightarrow> ProtocolDescriptor \<Rightarrow> Status \<times> ProtocolRegistry" where
  "protocol_publish r d =
     (if is_failure (pd_validate d) then (pd_validate d, r)
      else let key = (pd_id d, pd_generation d) in
        case om_find r key of
          Some existing \<Rightarrow>
            if pd_minimum_safety_generation existing \<noteq> pd_minimum_safety_generation d
              then (failure Conflict ''protocol generation already published with a different safety floor'', r)
            else (status_ok, om_upd key d r)
        | None \<Rightarrow>
            if om_size r \<ge> kProtocolGenerations
              then (failure LimitExceeded ''protocol generation bound reached'', r)
            else (status_ok, om_emplace key d r))"

definition protocol_find :: "ProtocolRegistry \<Rightarrow> ident \<Rightarrow> gen \<Rightarrow> ProtocolDescriptor option" where
  "protocol_find r p g = om_find r (p, g)"

definition protocol_highest :: "ProtocolRegistry \<Rightarrow> ident \<Rightarrow> gen" where
  "protocol_highest r p =
     foldl (\<lambda>best (key, d). if fst key \<noteq> p then best
            else if \<not> gen_is_set best \<or> pd_generation d > best then pd_generation d else best)
       gen_unset (om_entries r)"

definition protocol_lowest :: "ProtocolRegistry \<Rightarrow> ident \<Rightarrow> gen" where
  "protocol_lowest r p =
     foldl (\<lambda>best (key, d). if fst key \<noteq> p then best
            else if \<not> gen_is_set best \<or> pd_generation d < best then pd_generation d else best)
       gen_unset (om_entries r)"

definition protocol_all :: "ProtocolRegistry \<Rightarrow> ProtocolDescriptor list" where
  "protocol_all r = om_vals r"

definition protocol_entry_check :: "(ident \<times> u64) \<times> ProtocolDescriptor \<Rightarrow> Status" where
  "protocol_entry_check entry =
     (let (key, d) = entry in
      if fst key \<noteq> pd_id d \<or> snd key \<noteq> pd_generation d
        then failure Corrupt ''protocol registry key does not match its descriptor''
      else pd_validate d)"

definition protocol_validate :: "ProtocolRegistry \<Rightarrow> Status" where
  "protocol_validate r =
     (if om_size r > kProtocolGenerations
        then failure Corrupt ''protocol registry exceeds the generation bound''
      else first_failure protocol_entry_check (om_entries r))"

lemma protocol_entry_check_ok:
  "is_ok (protocol_entry_check (k, d)) \<longleftrightarrow> k = (pd_id d, pd_generation d) \<and> is_ok (pd_validate d)"
  by (cases k) (auto simp: protocol_entry_check_def)

interpretation protocols: validated_registry "\<lambda>r. r" protocol_publish pd_validate
    "\<lambda>d. (pd_id d, pd_generation d)" kProtocolGenerations protocol_validate
proof
  fix r d
  show "snd (protocol_publish r d) = r" if "\<not> is_ok (fst (protocol_publish r d))"
    using that by (auto simp: protocol_publish_def Let_def split: option.splits)
  show "is_ok (pd_validate d) \<and> snd (protocol_publish r d) = om_upd (pd_id d, pd_generation d) d r
      \<and> (om_find r (pd_id d, pd_generation d) = None \<longrightarrow> om_size r < kProtocolGenerations)"
    if "is_ok (fst (protocol_publish r d))"
    using that by (auto simp: protocol_publish_def Let_def om_emplace_def split: option.splits if_splits)
  show "is_ok (protocol_validate r) \<longleftrightarrow> om_size r \<le> kProtocolGenerations
      \<and> (\<forall>(k, v)\<in>set r. k = (pd_id v, pd_generation v) \<and> is_ok (pd_validate v))"
    using protocol_entry_check_ok by (auto simp: protocol_validate_def om_entries_def)
qed


section \<open>Negotiation\<close>

datatype OperationClass = NoOperation | ReadOnly | RestrictedMutation | FullMutation

fun operation_class_to_string :: "OperationClass \<Rightarrow> string" where
  "operation_class_to_string NoOperation = ''NONE''"
| "operation_class_to_string ReadOnly = ''READ_ONLY''"
| "operation_class_to_string RestrictedMutation = ''RESTRICTED_MUTATION''"
| "operation_class_to_string FullMutation = ''FULL_MUTATION''"

definition permits_mutation :: "OperationClass \<Rightarrow> bool" where
  "permits_mutation c \<longleftrightarrow> c = RestrictedMutation \<or> c = FullMutation"

definition parse_operation_class :: "string \<Rightarrow> OperationClass option" where
  "parse_operation_class text =
     (if text = ''NONE'' then Some NoOperation
      else if text = ''READ_ONLY'' then Some ReadOnly
      else if text = ''RESTRICTED_MUTATION'' then Some RestrictedMutation
      else if text = ''FULL_MUTATION'' then Some FullMutation
      else None)"

lemma operation_class_roundtrip: "parse_operation_class (operation_class_to_string c) = Some c"
  by (cases c) (simp_all add: parse_operation_class_def)

record NegotiationRequest =
  nq_protocol :: ident
  nq_local_supported :: gen_set
  nq_peer_supported :: gen_set
  nq_required_minimum :: gen
  nq_preferred :: gen
  nq_required_messages :: "ident list"
  nq_required_mutating_messages :: "ident list"
  nq_require_mutation :: bool

record NegotiationResult =
  nr_status :: Status
  nr_chosen :: gen
  nr_peer_highest :: gen
  nr_operation_class :: OperationClass
  nr_outcome :: CompatOutcome
  nr_downgraded :: bool
  nr_explanation :: "string list"

definition negotiation_init :: "gen \<Rightarrow> NegotiationResult" where
  "negotiation_init highest = \<lparr>nr_status = status_ok, nr_chosen = gen_unset, nr_peer_highest = highest,
     nr_operation_class = NoOperation, nr_outcome = CompatOutcome.Unknown, nr_downgraded = False,
     nr_explanation = []\<rparr>"

definition negotiation_ceiling :: "NegotiationRequest \<Rightarrow> gen" where
  "negotiation_ceiling q =
     (if gen_is_set (nq_preferred q) then min (nq_preferred q) (gs_highest (nq_local_supported q))
      else gs_highest (nq_local_supported q))"

text \<open>One candidate of the scan: the body of the loop up to \<open>chosen = candidate\<close>.\<close>

definition candidate_ok :: "ProtocolRegistry \<Rightarrow> NegotiationRequest \<Rightarrow> gen \<Rightarrow> bool" where
  "candidate_ok r q candidate =
     (if candidate > negotiation_ceiling q then False
      else if \<not> gs_contains (nq_peer_supported q) candidate then False
      else if gen_is_set (nq_required_minimum q) \<and> candidate < nq_required_minimum q then False
      else case protocol_find r (nq_protocol q) candidate of
          None \<Rightarrow> False
        | Some d \<Rightarrow>
            if \<not> list_all (supports_message d) (nq_required_messages q) then False
            else list_all (supports_mutating d) (nq_required_mutating_messages q))"

fun choose_generation :: "ProtocolRegistry \<Rightarrow> NegotiationRequest \<Rightarrow> gen list \<Rightarrow> gen" where
  "choose_generation r q [] = gen_unset"
| "choose_generation r q (candidate # rest) =
     (if candidate_ok r q candidate then candidate else choose_generation r q rest)"

definition negotiate :: "ProtocolRegistry option \<Rightarrow> NegotiationRequest \<Rightarrow> NegotiationResult" where
  "negotiate registry q =
     (let result = negotiation_init (gs_highest (nq_peer_supported q));
          incompatible = (\<lambda>text line. result\<lparr>nr_status := failure Incompatible text,
            nr_outcome := IncompatibleProtocol, nr_explanation := [line]\<rparr>) in
      case registry of
        None \<Rightarrow> result\<lparr>nr_status := failure Internal ''protocol negotiator has no registry''\<rparr>
      | Some r \<Rightarrow>
        if nq_protocol q = []
          then result\<lparr>nr_status := failure InvalidArgument ''negotiation requires a protocol id''\<rparr>
        else if nq_local_supported q = [] \<or> nq_peer_supported q = []
          then incompatible ''empty protocol support set'' ''one side declares no protocol generation''
        else let chosen = choose_generation r q (nq_local_supported q) in
        if \<not> gen_is_set chosen then
          (if list_ex (gs_contains (nq_peer_supported q)) (nq_local_supported q)
           then incompatible
             ''no common protocol generation satisfies the required messages and safety floor''
             ''common generations exist but none satisfies required semantics''
           else incompatible ''no common protocol generation between peers''
             ''disjoint protocol support sets'')
        else case protocol_find r (nq_protocol q) chosen of
            None \<Rightarrow> result\<lparr>nr_status := failure Internal ''negotiated generation vanished from the registry''\<rparr>
          | Some d \<Rightarrow>
            let highest_common = min (gs_highest (nq_local_supported q)) (gs_highest (nq_peer_supported q));
                downgraded = chosen < highest_common;
                operation = (if pd_messages d \<noteq> []
                             then (if downgraded then RestrictedMutation else FullMutation) else ReadOnly) in
            if nq_require_mutation q \<and> \<not> permits_mutation operation
              then incompatible ''peer cannot satisfy the required mutation semantics''
                ''mutation required but the negotiated generation offers no mutating message''
            else result\<lparr>nr_chosen := chosen, nr_operation_class := operation, nr_downgraded := downgraded,
              nr_outcome := (if downgraded then CompatibleAfterProtocolNegotiation else FullyCompatible),
              nr_status := status_ok,
              nr_explanation :=
                [''negotiated protocol generation '' @ dec_u64 chosen
                 @ (if downgraded then '' (downgraded from '' @ dec_u64 highest_common @ '')''
                    else '' (highest common)''),
                 ''operation class '' @ operation_class_to_string operation]\<rparr>)"

lemma choose_generation_spec:
  "\<forall>g\<in>set gs. gen_is_set g \<Longrightarrow>
   (gen_is_set (choose_generation r q gs) \<longleftrightarrow> (\<exists>g\<in>set gs. candidate_ok r q g))
   \<and> (gen_is_set (choose_generation r q gs) \<longrightarrow>
        choose_generation r q gs \<in> set gs \<and> candidate_ok r q (choose_generation r q gs))"
  by (induction gs) (auto simp: gen_unset_def gen_is_set_def)

lemma choose_generation_least:
  "sorted_wrt (<) gs \<Longrightarrow> g \<in> set gs \<Longrightarrow> candidate_ok r q g \<Longrightarrow> choose_generation r q gs \<le> g"
  by (induction gs) auto

lemma negotiate_status:
  assumes r: "is_ok (protocol_validate r)" and p: "nq_protocol q \<noteq> []"
    and sets: "gs_inv (nq_local_supported q)"
  shows "is_ok (nr_status (negotiate (Some r) q)) \<longleftrightarrow>
      gen_is_set (choose_generation r q (nq_local_supported q))"
    and "is_ok (nr_status (negotiate (Some r) q)) \<Longrightarrow>
      nr_chosen (negotiate (Some r) q) = choose_generation r q (nq_local_supported q)
      \<and> permits_mutation (nr_operation_class (negotiate (Some r) q))"
proof -
  let ?c = "choose_generation r q (nq_local_supported q)"
  have "\<forall>g\<in>set (nq_local_supported q). gen_is_set g"
    using sets by (auto simp: gs_inv_def gen_is_set_def)
  note spec = choose_generation_spec [OF this, of r q]
  have found: "\<exists>d. protocol_find r (nq_protocol q) ?c = Some d \<and> pd_messages d \<noteq> []" if "gen_is_set ?c"
  proof -
    from spec that have "candidate_ok r q ?c" by blast
    then obtain d where d: "protocol_find r (nq_protocol q) ?c = Some d"
      by (auto simp: candidate_ok_def split: if_splits option.splits)
    then have "is_ok (pd_validate d)"
      using protocols.find_valid [OF r] by (auto simp: protocol_find_def)
    then have "pd_messages d \<noteq> []" by (auto simp: pd_validate_def split: if_splits)
    with d show ?thesis by blast
  qed
  have empty: "\<not> gen_is_set ?c" if "nq_local_supported q = [] \<or> nq_peer_supported q = []"
  proof
    assume "gen_is_set ?c"
    with spec have "?c \<in> set (nq_local_supported q)" "candidate_ok r q ?c" by blast+
    with that show False by (auto simp: candidate_ok_def split: if_splits)
  qed
  have yes: "is_ok (nr_status (negotiate (Some r) q)) \<and> nr_chosen (negotiate (Some r) q) = ?c
      \<and> permits_mutation (nr_operation_class (negotiate (Some r) q))" if c: "gen_is_set ?c"
  proof -
    from found [OF c] obtain d where d: "protocol_find r (nq_protocol q) ?c = Some d" "pd_messages d \<noteq> []"
      by blast
    have "nq_local_supported q \<noteq> [] \<and> nq_peer_supported q \<noteq> []" using empty c by blast
    then show ?thesis
      using p c d by (cases "?c < min (gs_highest (nq_local_supported q)) (gs_highest (nq_peer_supported q))")
        (simp_all add: negotiate_def Let_def negotiation_init_def permits_mutation_def)
  qed
  have no: "\<not> is_ok (nr_status (negotiate (Some r) q))" if "\<not> gen_is_set ?c"
    using p that by (simp add: negotiate_def Let_def negotiation_init_def)
  show "is_ok (nr_status (negotiate (Some r) q)) \<longleftrightarrow> gen_is_set ?c" using yes no by blast
  show "nr_chosen (negotiate (Some r) q) = ?c \<and> permits_mutation (nr_operation_class (negotiate (Some r) q))"
    if "is_ok (nr_status (negotiate (Some r) q))"
    using that yes no by blast
qed

text \<open>
  C23: Negotiation over a validated registry is sound and complete: it succeeds exactly when some
  locally supported generation is supported by the peer, not above the ceiling, not below the
  required minimum, registered, and supports every required message; the chosen generation has all
  of these properties, and the granted operation class permits mutation.
\<close>

theorem negotiate_sound_complete:
  assumes "is_ok (protocol_validate r)" and "nq_protocol q \<noteq> []" and "gs_inv (nq_local_supported q)"
  defines "acceptable \<equiv> \<lambda>g. g \<in> set (nq_local_supported q) \<and> g \<in> set (nq_peer_supported q)
      \<and> g \<le> negotiation_ceiling q \<and> (nq_required_minimum q = 0 \<or> nq_required_minimum q \<le> g)
      \<and> (\<exists>d. protocol_find r (nq_protocol q) g = Some d
           \<and> (\<forall>m\<in>set (nq_required_messages q). supports_message d m)
           \<and> (\<forall>m\<in>set (nq_required_mutating_messages q). supports_mutating d m))"
  shows "(is_ok (nr_status (negotiate (Some r) q)) \<longleftrightarrow> (\<exists>g. acceptable g))
    \<and> (is_ok (nr_status (negotiate (Some r) q)) \<longrightarrow>
         acceptable (nr_chosen (negotiate (Some r) q))
         \<and> permits_mutation (nr_operation_class (negotiate (Some r) q)))"
proof -
  have "\<forall>g\<in>set (nq_local_supported q). gen_is_set g"
    using assms(3) by (auto simp: gs_inv_def gen_is_set_def)
  note spec = choose_generation_spec [OF this, of r q]
  have acc: "acceptable g \<longleftrightarrow> g \<in> set (nq_local_supported q) \<and> candidate_ok r q g" for g
    by (auto simp: acceptable_def candidate_ok_def gs_contains_iff gen_is_set_def list_all_iff not_less not_le
        split: option.splits if_splits)
  show ?thesis
    using spec negotiate_status [OF assms(1-3)] unfolding acc by auto
qed

text \<open>
  C37: The generation negotiated is the least acceptable one: every other acceptable generation is
  at least as new.  (The comment in the code promises the highest.)
\<close>

theorem negotiate_picks_lowest:
  assumes "is_ok (protocol_validate r)" and "nq_protocol q \<noteq> []" and "gs_inv (nq_local_supported q)"
    and "is_ok (nr_status (negotiate (Some r) q))"
    and "g \<in> set (nq_local_supported q)" and "candidate_ok r q g"
  shows "nr_chosen (negotiate (Some r) q) \<le> g"
  using negotiate_status [OF assms(1-3)] assms(3-6) choose_generation_least [of "nq_local_supported q" g r q]
  by (auto simp: gs_inv_def)

definition sample_protocol :: "gen \<Rightarrow> ProtocolDescriptor" where
  "sample_protocol g = \<lparr>pd_id = ''p'', pd_generation = g, pd_minimum_safety_generation = 1,
     pd_messages = [\<lparr>md_id = ''m'', md_introduced_in = 1, md_mutating = True, md_state_replacing = False, md_fields = []\<rparr>],
     pd_unknown_fields = UnknownFieldPolicy.Reject, pd_unknown_messages = UnknownMessagePolicy.Reject,
     pd_provenance = Real, pd_evidence = 1, pd_notes = []\<rparr>"

definition sample_protocols :: ProtocolRegistry where
  "sample_protocols = [((''p'', 1), sample_protocol 1), ((''p'', 2), sample_protocol 2)]"

definition sample_request :: NegotiationRequest where
  "sample_request = \<lparr>nq_protocol = ''p'', nq_local_supported = [1, 2], nq_peer_supported = [1, 2],
     nq_required_minimum = 0, nq_preferred = 0, nq_required_messages = [''m''],
     nq_required_mutating_messages = [''m''], nq_require_mutation = True\<rparr>"

lemma sample_protocols_ok: "is_ok (protocol_validate sample_protocols)"
  by (simp add: protocol_validate_def sample_protocols_def om_size_def om_entries_def limit_defs
      protocol_entry_check_def pd_validate_def sample_protocol_def gen_is_set_def)

lemma sample_request_ok:
  "nq_protocol sample_request \<noteq> []" "gs_inv (nq_local_supported sample_request)"
  "candidate_ok sample_protocols sample_request 1" "candidate_ok sample_protocols sample_request 2"
  by (simp_all add: sample_request_def gs_inv_def kMaxGenerationsPerSet_def candidate_ok_def gen_is_set_def
      negotiation_ceiling_def gs_highest_def protocol_find_def sample_protocols_def om_find_def sample_protocol_def
      supports_message_def supports_mutating_def find_message_def)

theorem negotiate_sound_complete_witness:
  "is_ok (nr_status (negotiate (Some sample_protocols) sample_request))"
  using negotiate_sound_complete [OF sample_protocols_ok sample_request_ok(1,2)] sample_request_ok(4)
  by (auto simp: candidate_ok_def gs_contains_iff gen_is_set_def list_all_iff not_less sample_request_def
      split: option.splits if_splits)

theorem negotiate_picks_lowest_witness:
  "candidate_ok sample_protocols sample_request 2
   \<and> nr_chosen (negotiate (Some sample_protocols) sample_request) \<le> 1"
proof -
  have "is_ok (nr_status (negotiate (Some sample_protocols) sample_request))"
    using negotiate_status(1) [OF sample_protocols_ok sample_request_ok(1,2)] sample_request_ok(3)
    by (simp add: sample_request_def gen_is_set_def)
  from negotiate_picks_lowest [OF sample_protocols_ok sample_request_ok(1,2) this _ sample_request_ok(3)]
  show ?thesis using sample_request_ok(4) by (simp add: sample_request_def)
qed


section \<open>Handshake\<close>

record ProtocolHandshake =
  hs_component :: ident
  hs_version :: RuntimeVersionId
  hs_runtime_generation :: gen
  hs_worker :: ident
  hs_boot :: gen
  hs_protocol :: ident
  hs_supported_protocols :: gen_set
  hs_required_minimum :: gen
  hs_supported_schemas :: gen_set
  hs_committed_schema :: gen
  hs_capability_generation :: gen
  hs_evolution_epoch :: gen
  hs_coordinator_epoch :: gen
  hs_features :: "FeatureSupport list"
  hs_declared_role :: string

definition handshake_validate :: "ProtocolHandshake \<Rightarrow> Status" where
  "handshake_validate h =
     (if \<not> version_is_set (hs_version h) then failure InvalidArgument ''handshake version identity is unset''
      else if hs_component h = [] then failure InvalidArgument ''handshake component is empty''
      else if \<not> gen_is_set (hs_runtime_generation h)
        then failure InvalidArgument ''handshake runtime generation is unset''
      else if \<not> gen_is_set (hs_boot h) then failure InvalidArgument ''handshake boot identity is unset''
      else if hs_worker h = [] then failure InvalidArgument ''handshake worker identity is empty''
      else if hs_protocol h = [] then failure InvalidArgument ''handshake protocol id is empty''
      else if hs_supported_protocols h = []
        then failure InvalidArgument ''handshake declares no supported protocol generation''
      else if hs_supported_schemas h = []
        then failure InvalidArgument ''handshake declares no supported schema generation''
      else if gen_is_set (hs_committed_schema h)
              \<and> \<not> gs_contains (hs_supported_schemas h) (hs_committed_schema h)
        then failure InvalidArgument ''handshake committed schema generation is not in the supported set''
      else if \<not> gen_is_set (hs_capability_generation h)
        then failure InvalidArgument ''handshake capability generation is unset''
      else status_ok)"

end
