(* ===== verification/Ref_Schema.thy ===== *)
theory Ref_Schema
  imports Ref_Compat
begin

text \<open>
  Schema descriptors, their registry and format compatibility: \<open>include/ref/schema.hpp\<close> and
  \<open>src/schema.cpp\<close>.

  The loop of \<open>write_compatibility\<close> walks a range of generations with the saturating successor; it
  is a partial function here, whose value \<open>None\<close> is a loop that never ends.  Shown: it ends and
  finds the least common format whenever the upper end of the range is below the generation
  ceiling, and runs forever when the range reaches the ceiling without a common format.
\<close>

section \<open>Descriptors\<close>

datatype FieldType = U64 | I64 | Boolean | Text | Bytes | Digest

fun field_type_to_string :: "FieldType \<Rightarrow> string" where
  "field_type_to_string U64 = ''U64''"
| "field_type_to_string I64 = ''I64''"
| "field_type_to_string Boolean = ''BOOL''"
| "field_type_to_string Text = ''TEXT''"
| "field_type_to_string Bytes = ''BYTES''"
| "field_type_to_string Digest = ''DIGEST''"

definition parse_field_type :: "string \<Rightarrow> FieldType option" where
  "parse_field_type text =
     (if text = ''U64'' then Some U64
      else if text = ''I64'' then Some I64
      else if text = ''BOOL'' then Some Boolean
      else if text = ''TEXT'' then Some Text
      else if text = ''BYTES'' then Some Bytes
      else if text = ''DIGEST'' then Some Digest
      else None)"

lemma field_type_roundtrip: "parse_field_type (field_type_to_string t) = Some t"
  by (cases t) (simp_all add: parse_field_type_def)

datatype CanonicalizationRule =
  NoCanonicalization | FixedFieldOrder | SortedFieldNames | FixedFieldOrderStableEncoding

fun canonicalization_to_string :: "CanonicalizationRule \<Rightarrow> string" where
  "canonicalization_to_string NoCanonicalization = ''NONE''"
| "canonicalization_to_string FixedFieldOrder = ''FIXED_FIELD_ORDER''"
| "canonicalization_to_string SortedFieldNames = ''SORTED_FIELD_NAMES''"
| "canonicalization_to_string FixedFieldOrderStableEncoding = ''FIXED_FIELD_ORDER_STABLE_ENCODING''"

datatype IntegritySemantics = NoIntegrity | Checksum | ChecksumAndSchemaBinding

fun integrity_to_string :: "IntegritySemantics \<Rightarrow> string" where
  "integrity_to_string NoIntegrity = ''NONE''"
| "integrity_to_string Checksum = ''CHECKSUM''"
| "integrity_to_string ChecksumAndSchemaBinding = ''CHECKSUM_AND_SCHEMA_BINDING''"

record SchemaField =
  sf_id :: ident
  sf_type :: FieldType
  sf_introduced_in :: gen
  sf_removed_in :: gen
  sf_required :: bool
  sf_irreversible :: bool
  sf_required_default :: string

record SchemaDescriptor =
  sd_id :: ident
  sd_generation :: gen
  sd_fields :: "SchemaField list"
  sd_readable_formats :: gen_range
  sd_writable_formats :: gen_range
  sd_reverse_migration_to :: gen
  sd_requires_explicit_commit :: bool
  sd_canonicalization :: CanonicalizationRule
  sd_integrity :: IntegritySemantics
  sd_provenance :: EvidenceClass
  sd_evidence :: gen
  sd_notes :: string

definition can_read_format :: "SchemaDescriptor \<Rightarrow> gen \<Rightarrow> bool" where
  "can_read_format d format = range_contains (sd_readable_formats d) format"

definition can_write_format :: "SchemaDescriptor \<Rightarrow> gen \<Rightarrow> bool" where
  "can_write_format d format = range_contains (sd_writable_formats d) format"

definition find_field :: "SchemaDescriptor \<Rightarrow> ident \<Rightarrow> SchemaField option" where
  "find_field d field = List.find (\<lambda>f. sf_id f = field) (sd_fields d)"

definition has_irreversible_field :: "SchemaDescriptor \<Rightarrow> bool" where
  "has_irreversible_field d \<longleftrightarrow>
     list_ex (\<lambda>f. sf_irreversible f \<and> sf_introduced_in f \<le> sd_generation d
                  \<and> (\<not> gen_is_set (sf_removed_in f) \<or> sf_removed_in f > sd_generation d)) (sd_fields d)"

fun schema_fields_check :: "gen \<Rightarrow> SchemaField list \<Rightarrow> Status" where
  "schema_fields_check g [] = status_ok"
| "schema_fields_check g (f # fs) =
     (if sf_id f = [] then failure InvalidArgument ''schema field id is empty''
      else if \<not> gen_is_set (sf_introduced_in f) \<or> sf_introduced_in f > g
        then failure InvalidArgument ''schema field introduced beyond the generation''
      else if gen_is_set (sf_removed_in f) \<and> sf_removed_in f \<le> sf_introduced_in f
        then failure InvalidArgument ''schema field removed before it was introduced''
      else if gen_is_set (sf_removed_in f) \<and> sf_required f
        then failure InvalidArgument ''removed schema field cannot be required''
      else if list_ex (\<lambda>f'. sf_id f' = sf_id f) fs
        then failure InvalidArgument ''duplicate schema field id''
      else schema_fields_check g fs)"

definition sd_validate :: "SchemaDescriptor \<Rightarrow> Status" where
  "sd_validate d =
     (if sd_id d = [] then failure InvalidArgument ''schema id is empty''
      else if \<not> gen_is_set (sd_generation d) then failure InvalidArgument ''schema generation is unset''
      else if sd_fields d = [] then failure InvalidArgument ''schema declares no fields''
      else if length (sd_fields d) > kMessageFields
        then failure LimitExceeded ''schema declares too many fields''
      else if \<not> range_is_valid (sd_readable_formats d)
        then failure InvalidArgument ''schema readable format range is invalid''
      else if \<not> range_is_valid (sd_writable_formats d)
        then failure InvalidArgument ''schema writable format range is invalid''
      else if \<not> range_contains (sd_readable_formats d) (sd_generation d)
        then failure InvalidArgument ''schema generation cannot read its own stored format''
      else if \<not> range_contains (sd_writable_formats d) (sd_generation d)
        then failure InvalidArgument ''schema generation cannot write its own format''
      else if sd_canonicalization d = NoCanonicalization
        then failure InvalidArgument ''schema generation must declare a canonicalization rule''
      else if gen_is_set (sd_reverse_migration_to d) \<and> sd_reverse_migration_to d \<ge> sd_generation d
        then failure InvalidArgument ''reverse migration target must be older than the schema generation''
      else if has_irreversible_field d \<and> gen_is_set (sd_reverse_migration_to d)
        then failure InvalidArgument ''schema generation declares an irreversible field and a reverse migration''
      else let fields = schema_fields_check (sd_generation d) (sd_fields d) in
        if is_failure fields then fields
        else if sd_provenance d = EvidenceClass.Unknown
          then failure InvalidArgument ''schema descriptor has no evidence provenance''
        else status_ok)"


section \<open>The registry\<close>

type_synonym SchemaRegistry = "(ident \<times> u64, SchemaDescriptor) omap"

definition schema_publish :: "SchemaRegistry \<Rightarrow> SchemaDescriptor \<Rightarrow> Status \<times> SchemaRegistry" where
  "schema_publish r d =
     (if is_failure (sd_validate d) then (sd_validate d, r)
      else let key = (sd_id d, sd_generation d) in
        case om_find r key of
          Some existing \<Rightarrow>
            if sd_readable_formats existing \<noteq> sd_readable_formats d
               \<or> sd_writable_formats existing \<noteq> sd_writable_formats d
               \<or> sd_canonicalization existing \<noteq> sd_canonicalization d
              then (failure Conflict ''schema generation republished with different format compatibility'', r)
            else (status_ok, om_upd key d r)
        | None \<Rightarrow>
            if om_size r \<ge> kSchemaGenerations
              then (failure LimitExceeded ''schema generation bound reached'', r)
            else (status_ok, om_emplace key d r))"

definition schema_find :: "SchemaRegistry \<Rightarrow> ident \<Rightarrow> gen \<Rightarrow> SchemaDescriptor option" where
  "schema_find r s g = om_find r (s, g)"

definition schema_highest :: "SchemaRegistry \<Rightarrow> ident \<Rightarrow> gen" where
  "schema_highest r s =
     foldl (\<lambda>best (key, d). if fst key \<noteq> s then best
            else if \<not> gen_is_set best \<or> sd_generation d > best then sd_generation d else best)
       gen_unset (om_entries r)"

definition schema_all :: "SchemaRegistry \<Rightarrow> SchemaDescriptor list" where
  "schema_all r = om_vals r"

definition schema_entry_check :: "(ident \<times> u64) \<times> SchemaDescriptor \<Rightarrow> Status" where
  "schema_entry_check entry =
     (let (key, d) = entry in
      if fst key \<noteq> sd_id d \<or> snd key \<noteq> sd_generation d
        then failure Corrupt ''schema registry key does not match its descriptor''
      else sd_validate d)"

definition schema_validate :: "SchemaRegistry \<Rightarrow> Status" where
  "schema_validate r =
     (if om_size r > kSchemaGenerations
        then failure Corrupt ''schema registry exceeds the generation bound''
      else first_failure schema_entry_check (om_entries r))"

lemma schema_entry_check_ok:
  "is_ok (schema_entry_check (k, d)) \<longleftrightarrow> k = (sd_id d, sd_generation d) \<and> is_ok (sd_validate d)"
  by (cases k) (auto simp: schema_entry_check_def)

interpretation schemas: validated_registry "\<lambda>r. r" schema_publish sd_validate
    "\<lambda>d. (sd_id d, sd_generation d)" kSchemaGenerations schema_validate
proof
  fix r d
  show "snd (schema_publish r d) = r" if "\<not> is_ok (fst (schema_publish r d))"
    using that by (auto simp: schema_publish_def Let_def split: option.splits)
  show "is_ok (sd_validate d) \<and> snd (schema_publish r d) = om_upd (sd_id d, sd_generation d) d r
      \<and> (om_find r (sd_id d, sd_generation d) = None \<longrightarrow> om_size r < kSchemaGenerations)"
    if "is_ok (fst (schema_publish r d))"
    using that by (auto simp: schema_publish_def Let_def om_emplace_def split: option.splits if_splits)
  show "is_ok (schema_validate r) \<longleftrightarrow> om_size r \<le> kSchemaGenerations
      \<and> (\<forall>(k, v)\<in>set r. k = (sd_id v, sd_generation v) \<and> is_ok (sd_validate v))"
    using schema_entry_check_ok by (auto simp: schema_validate_def om_entries_def)
qed


section \<open>Read and write compatibility\<close>

record SchemaCompatResult =
  sc_outcome :: CompatOutcome
  sc_detail :: string

definition compat_result :: "CompatOutcome \<Rightarrow> string \<Rightarrow> SchemaCompatResult" where
  "compat_result outcome text = \<lparr>sc_outcome = outcome, sc_detail = text_from_valid 192 text\<rparr>"

definition read_compatibility :: "SchemaRegistry \<Rightarrow> ident \<Rightarrow> gen \<Rightarrow> gen \<Rightarrow> SchemaCompatResult" where
  "read_compatibility r s reader_gen stored =
     (case schema_find r s reader_gen of
        None \<Rightarrow> compat_result CompatOutcome.Unknown ''reader schema generation is not registered''
      | Some reader_descriptor \<Rightarrow>
        case schema_find r s stored of
          None \<Rightarrow> compat_result CompatOutcome.Unknown ''stored schema generation is not registered''
        | Some stored_descriptor \<Rightarrow>
            if can_read_format reader_descriptor stored then
              compat_result (if reader_gen = stored then FullyCompatible else ReadCompatible)
                (if reader_gen = stored then ''same schema generation'' else ''older stored format is readable'')
            else compat_result IncompatibleSchema ''reader does not declare the stored format as readable'')"

text \<open>
  The loop \<open>for (format = min; format.is_set() && format <= max; format = format.next())\<close>: the
  first format the consumer reads, if any; \<open>None\<close> when the loop does not end.
\<close>

partial_function (option) write_scan :: "SchemaDescriptor \<Rightarrow> gen \<Rightarrow> gen \<Rightarrow> gen option option" where
  "write_scan consumer maximum format =
     (if gen_is_set format \<and> format \<le> maximum
      then (if can_read_format consumer format then Some (Some format)
            else write_scan consumer maximum (gen_next format))
      else Some None)"

definition write_compatibility ::
  "SchemaRegistry \<Rightarrow> ident \<Rightarrow> gen \<Rightarrow> gen \<Rightarrow> SchemaCompatResult option" where
  "write_compatibility r s writer consumer =
     (case schema_find r s writer of
        None \<Rightarrow> Some (compat_result CompatOutcome.Unknown ''writer schema generation is not registered'')
      | Some writer_descriptor \<Rightarrow>
        case schema_find r s consumer of
          None \<Rightarrow> Some (compat_result CompatOutcome.Unknown ''consumer schema generation is not registered'')
        | Some consumer_descriptor \<Rightarrow>
          case write_scan consumer_descriptor (range_max (sd_writable_formats writer_descriptor))
                 (range_min (sd_writable_formats writer_descriptor)) of
            None \<Rightarrow> None
          | Some None \<Rightarrow> Some (compat_result IncompatibleSchema
              ''no format exists that the writer may emit and the consumer reads'')
          | Some (Some format) \<Rightarrow> Some
              (if writer = consumer then compat_result FullyCompatible ''same schema generation''
               else if format = consumer
                 then compat_result WriteCompatible ''writer can emit the consumer's own format''
               else compat_result MixedVersionCompatible
                 ''writer and consumer share a common stored format''))"

definition has_reverse_migration :: "SchemaRegistry \<Rightarrow> ident \<Rightarrow> gen \<Rightarrow> bool" where
  "has_reverse_migration r s g =
     (case schema_find r s g of None \<Rightarrow> False | Some d \<Rightarrow> gen_is_set (sd_reverse_migration_to d))"

lemma unat_gen_next: "w < kGenerationCeiling \<Longrightarrow> unat (gen_next w) = Suc (unat w)"
  using unat_gen_next_below [of w] by simp

lemma write_scan_terminates:
  assumes max: "maximum < kGenerationCeiling" and set: "gen_is_set format"
  shows "write_scan consumer maximum format =
    Some (let common = {f. format \<le> f \<and> f \<le> maximum \<and> can_read_format consumer f}
          in if common = {} then None else Some (LEAST f. f \<in> common))"
  using set
proof (induction "unat maximum + 1 - unat format" arbitrary: format rule: less_induct)
  case less
  let ?common = "\<lambda>format. {f. format \<le> f \<and> f \<le> maximum \<and> can_read_format consumer f}"
  show ?case
  proof (cases "format \<le> maximum")
    case False
    then have "?common format = {}" by auto
    with False show ?thesis by (subst write_scan.simps) simp
  next
    case True
    show ?thesis
    proof (cases "can_read_format consumer format")
      case read: True
      then have "format \<in> ?common format" using True by simp
      moreover have "(LEAST f. f \<in> ?common format) = format"
        using True read by (intro Least_equality) auto
      ultimately show ?thesis
        using True read less.prems by (subst write_scan.simps) (auto simp: Let_def)
    next
      case unread: False
      have below: "format < kGenerationCeiling" using True max by simp
      have same: "?common (gen_next format) = ?common format"
      proof -
        have "gen_next format \<le> f \<longleftrightarrow> format < f" for f
          using unat_gen_next [OF below] by (simp add: word_le_nat_alt word_less_nat_alt Suc_le_eq)
        with unread show ?thesis by (auto simp: order_le_less)
      qed
      have "unat maximum + 1 - unat (gen_next format) < unat maximum + 1 - unat format"
        using True unat_gen_next [OF below] by (simp add: word_le_nat_alt)
      from less.hyps [OF this gen_next_set] show ?thesis
        using True unread less.prems by (subst write_scan.simps) (simp only: same if_True if_False simp_thms)
    qed
  qed
qed

definition scan_stuck :: "SchemaDescriptor \<Rightarrow> gen \<Rightarrow> gen \<Rightarrow> bool" where
  "scan_stuck consumer maximum format \<longleftrightarrow>
     kGenerationCeiling \<le> maximum \<and> gen_is_set format \<and> format \<le> kGenerationCeiling
     \<and> (\<forall>f. format \<le> f \<and> f \<le> kGenerationCeiling \<longrightarrow> \<not> can_read_format consumer f)"

lemma scan_stuck_next:
  assumes "scan_stuck consumer maximum format"
  shows "scan_stuck consumer maximum (gen_next format)"
proof -
  have "gen_next format \<le> kGenerationCeiling"
    using unat_gen_next [of format]
    by (cases "format < kGenerationCeiling") (auto simp: word_less_nat_alt word_le_nat_alt gen_next_def)
  moreover have "format \<le> gen_next format"
    using gen_next_gt [of format] assms
    by (cases "format < kGenerationCeiling") (auto simp: gen_next_def scan_stuck_def)
  ultimately show ?thesis
    using assms gen_next_set unfolding scan_stuck_def by (meson order_trans)
qed

lemma write_scan_not_stuck:
  "write_scan consumer maximum format = Some y \<Longrightarrow> \<not> scan_stuck consumer maximum format"
proof (rule write_scan.raw_induct [where P = "\<lambda>c m f _. \<not> scan_stuck c m f"])
  fix scan consumer maximum format y
  assume IH: "\<And>c m f y. scan c m f = Some y \<Longrightarrow> \<not> scan_stuck c m f"
    and step: "(if gen_is_set format \<and> format \<le> maximum
         then if can_read_format consumer format then Some (Some format)
              else scan consumer maximum (gen_next format) else Some None) = Some y"
  show "\<not> scan_stuck consumer maximum format"
  proof
    assume stuck: "scan_stuck consumer maximum format"
    then have "gen_is_set format" "format \<le> maximum" "\<not> can_read_format consumer format"
      by (auto simp: scan_stuck_def)
    with step have "scan consumer maximum (gen_next format) = Some y" by simp
    from IH [OF this] scan_stuck_next [OF stuck] show False by blast
  qed
qed

lemma write_scan_diverges: "scan_stuck consumer maximum format \<Longrightarrow> write_scan consumer maximum format = None"
  using write_scan_not_stuck by (cases "write_scan consumer maximum format") blast+

definition common_formats :: "SchemaDescriptor \<Rightarrow> SchemaDescriptor \<Rightarrow> gen set" where
  "common_formats w c = {f. can_write_format w f \<and> can_read_format c f}"

lemma registered_schema:
  assumes "is_ok (schema_validate r)" and "schema_find r s g = Some d"
  shows "range_is_valid (sd_writable_formats d)" and "can_write_format d g" and "can_read_format d g"
proof -
  have "sd_generation d = g" and "is_ok (sd_validate d)"
    using schemas.find_valid [OF assms(1), of "(s, g)" d] assms(2) by (auto simp: schema_find_def)
  then show "range_is_valid (sd_writable_formats d)" and "can_write_format d g" and "can_read_format d g"
    by (auto simp: sd_validate_def can_write_format_def can_read_format_def split: if_splits)
qed

text \<open>
  C33: Between two registered schema generations of a validated registry, where the writer's format
  range ends below the generation ceiling, \<open>write_compatibility\<close> returns; its answer is blocking
  exactly when no format exists that the writer may emit and the consumer can read; a generation is
  always compatible with itself; and WRITE_COMPATIBLE means that the consumer's own format is the
  oldest common one.
\<close>

theorem write_compatibility_exact:
  assumes "is_ok (schema_validate r)" and "schema_find r s writer = Some w" and "schema_find r s consumer = Some c"
    and "range_max (sd_writable_formats w) < kGenerationCeiling"
  shows "\<exists>res. write_compatibility r s writer consumer = Some res
    \<and> (is_blocking_outcome (sc_outcome res) \<longleftrightarrow> common_formats w c = {})
    \<and> (writer = consumer \<longrightarrow> sc_outcome res = FullyCompatible)
    \<and> (sc_outcome res = WriteCompatible \<longleftrightarrow>
         writer \<noteq> consumer \<and> common_formats w c \<noteq> {} \<and> (LEAST f. f \<in> common_formats w c) = consumer)"
proof -
  have valid: "range_is_valid (sd_writable_formats w)" by (rule registered_schema [OF assms(1,2)])
  then have "gen_is_set (range_min (sd_writable_formats w))" by (simp add: range_defs)
  note scan = write_scan_terminates [OF assms(4) this, of c]
  have common: "{f. range_min (sd_writable_formats w) \<le> f \<and> f \<le> range_max (sd_writable_formats w)
      \<and> can_read_format c f} = common_formats w c"
    using valid by (auto simp: common_formats_def can_write_format_def range_contains_def)
  have self: "writer \<in> common_formats w c" if "writer = consumer"
    using that assms registered_schema [OF assms(1,2)] by (auto simp: common_formats_def)
  show ?thesis
  proof (cases "common_formats w c = {}")
    case True
    with scan common self assms(2,3) show ?thesis
      by (auto simp: write_compatibility_def compat_result_def)
  next
    case False
    with scan common have "write_scan c (range_max (sd_writable_formats w)) (range_min (sd_writable_formats w))
        = Some (Some (LEAST f. f \<in> common_formats w c))"
      by (simp add: Let_def)
    with False self assms(2,3) show ?thesis
      by (auto simp: write_compatibility_def compat_result_def)
  qed
qed

text \<open>
  C38: When the writer's format range reaches the generation ceiling and the consumer reads none of
  its formats, \<open>write_compatibility\<close> never returns: the saturating successor keeps the loop variable
  at the ceiling.
\<close>

theorem write_compatibility_diverges:
  assumes "is_ok (schema_validate r)" and "schema_find r s writer = Some w" and "schema_find r s consumer = Some c"
    and "range_max (sd_writable_formats w) = kGenerationCeiling" and "common_formats w c = {}"
  shows "write_compatibility r s writer consumer = None"
proof -
  have "range_is_valid (sd_writable_formats w)" by (rule registered_schema [OF assms(1,2)])
  with assms(4,5) have "scan_stuck c (range_max (sd_writable_formats w)) (range_min (sd_writable_formats w))"
    by (auto simp: scan_stuck_def common_formats_def can_write_format_def range_contains_def range_is_valid_def
        range_is_set_def)
  from write_scan_diverges [OF this] assms(2,3) show ?thesis by (simp add: write_compatibility_def)
qed


section \<open>The built-in component-state schemas\<close>

definition schema_field_default :: SchemaField where
  "schema_field_default = \<lparr>sf_id = [], sf_type = U64, sf_introduced_in = gen_unset, sf_removed_in = gen_unset,
     sf_required = False, sf_irreversible = False, sf_required_default = []\<rparr>"

definition schema_default :: SchemaDescriptor where
  "schema_default = \<lparr>sd_id = [], sd_generation = gen_unset, sd_fields = [], sd_readable_formats = range_unset,
     sd_writable_formats = range_unset, sd_reverse_migration_to = gen_unset, sd_requires_explicit_commit = True,
     sd_canonicalization = FixedFieldOrderStableEncoding, sd_integrity = ChecksumAndSchemaBinding,
     sd_provenance = EvidenceClass.Unknown, sd_evidence = gen_unset, sd_notes = []\<rparr>"

definition note_text :: "string \<Rightarrow> string" where
  "note_text text = text_assign_from 192 (text_from_valid 96 text)"

definition component_state_schema :: ident where
  "component_state_schema = ident_from_valid 63 ''component-state''"

definition builtin_v1 :: SchemaDescriptor where
  "builtin_v1 = schema_default\<lparr>sd_id := component_state_schema, sd_generation := 1,
     sd_readable_formats := range_single 1, sd_writable_formats := range_single 1,
     sd_provenance := Real, sd_evidence := gen_first, sd_notes := note_text ''baseline component state'',
     sd_fields :=
       [schema_field_default\<lparr>sf_id := ''owner'', sf_type := Text, sf_introduced_in := 1, sf_required := True\<rparr>,
        schema_field_default\<lparr>sf_id := ''legacy_token'', sf_type := Text, sf_introduced_in := 1, sf_required := False\<rparr>,
        schema_field_default\<lparr>sf_id := ''mutation_counter'', sf_type := U64, sf_introduced_in := 1, sf_required := True\<rparr>]\<rparr>"

definition builtin_v2 :: SchemaDescriptor where
  "builtin_v2 = builtin_v1\<lparr>sd_generation := 2,
     sd_readable_formats := range_closed 1 2, sd_writable_formats := range_closed 1 2,
     sd_reverse_migration_to := 1,
     sd_notes := note_text ''adds the required state epoch; can still emit the v1 form'',
     sd_fields := sd_fields builtin_v1
       @ [schema_field_default\<lparr>sf_id := ''state_epoch'', sf_type := U64, sf_introduced_in := 2, sf_required := True,
            sf_required_default := text_from_valid 96 ''1''\<rparr>]\<rparr>"

definition builtin_v3 :: SchemaDescriptor where
  "builtin_v3 = builtin_v2\<lparr>sd_generation := 3,
     sd_readable_formats := range_closed 1 3, sd_writable_formats := range_single 3,
     sd_reverse_migration_to := gen_unset,
     sd_notes := note_text ''replaces the legacy token with an irreversible digest'',
     sd_fields :=
       map (\<lambda>f. if sf_id f = ''legacy_token'' then f\<lparr>sf_removed_in := 3, sf_required := False\<rparr> else f)
         (sd_fields builtin_v2)
       @ [schema_field_default\<lparr>sf_id := ''token_digest'', sf_type := Digest, sf_introduced_in := 3,
            sf_required := True, sf_irreversible := True\<rparr>]\<rparr>"

definition install_builtin_state_schemas :: "SchemaRegistry \<Rightarrow> Status \<times> SchemaRegistry" where
  "install_builtin_state_schemas r =
     (let (status, r) = schema_publish r builtin_v1 in
      if is_failure status then (status, r)
      else let (status, r) = schema_publish r builtin_v2 in
        if is_failure status then (status, r)
        else schema_publish r builtin_v3)"

lemma component_state_schema_val [simp]: "component_state_schema = ''component-state''"
  by (simp add: component_state_schema_def ident_from_valid_def ident_parse_def is_valid_ident_char_def
      less_eq_char_def)

lemmas builtin_defs = builtin_v1_def builtin_v2_def builtin_v3_def schema_default_def schema_field_default_def

lemma builtin_valid:
  "is_ok (sd_validate builtin_v1)" "is_ok (sd_validate builtin_v2)" "is_ok (sd_validate builtin_v3)"
  by (simp_all add: sd_validate_def builtin_defs range_defs has_irreversible_field_def limit_defs
      gen_unset_def) (simp_all add: word_le_nat_alt)

definition builtin_schemas :: SchemaRegistry where
  "builtin_schemas = [((''component-state'', 1), builtin_v1), ((''component-state'', 2), builtin_v2),
     ((''component-state'', 3), builtin_v3)]"

lemma install_builtin: "install_builtin_state_schemas om_empty = (status_ok, builtin_schemas)"
proof -
  have "sd_id builtin_v1 = ''component-state''" "sd_id builtin_v2 = ''component-state''"
    "sd_id builtin_v3 = ''component-state''"
    "sd_generation builtin_v1 = 1" "sd_generation builtin_v2 = 2" "sd_generation builtin_v3 = 3"
    by (simp_all add: builtin_defs)
  then show ?thesis
    using builtin_valid
    by (simp add: install_builtin_state_schemas_def schema_publish_def om_eval limit_defs builtin_schemas_def)
qed

lemma builtin_registry_ok: "is_ok (schema_validate builtin_schemas)"
  using builtin_valid
  by (simp add: schema_validate_def builtin_schemas_def om_size_def om_entries_def limit_defs schema_entry_check_def)
    (simp add: builtin_defs)

lemma builtin_find:
  "schema_find builtin_schemas ''component-state'' 1 = Some builtin_v1"
  "schema_find builtin_schemas ''component-state'' 2 = Some builtin_v2"
  "schema_find builtin_schemas ''component-state'' 3 = Some builtin_v3"
  by (simp_all add: schema_find_def builtin_schemas_def om_find_def)

lemma builtin_formats [simp]:
  "can_read_format builtin_v1 f \<longleftrightarrow> f = 1"
  "can_read_format builtin_v2 f \<longleftrightarrow> 1 \<le> f \<and> f \<le> 2"
  "can_read_format builtin_v3 f \<longleftrightarrow> 1 \<le> f \<and> f \<le> 3"
  "can_write_format builtin_v1 f \<longleftrightarrow> f = 1"
  "can_write_format builtin_v2 f \<longleftrightarrow> 1 \<le> f \<and> f \<le> 2"
  "can_write_format builtin_v3 f \<longleftrightarrow> f = 3"
  by (auto simp: can_read_format_def can_write_format_def builtin_defs range_defs)

definition outcome_matrix :: "(SchemaRegistry \<Rightarrow> ident \<Rightarrow> gen \<Rightarrow> gen \<Rightarrow> 'a) \<Rightarrow> 'a list list" where
  "outcome_matrix f = map (\<lambda>a. map (\<lambda>b. f builtin_schemas ''component-state'' a b) [1, 2, 3]) [1, 2, 3]"

text \<open>
  Installing the built-in schemas into an empty registry succeeds and gives a registry that
  passes its validation; every newer generation reads every older stored format and no older one
  reads a newer; the writes that stay compatible are exactly generation 1 to any reader, and
  generation 2 to any reader; what generation 3 writes only generation 3 reads; and only
  generation 2 has a reverse migration.
\<close>

theorem builtin_schema_compatibility:
  "install_builtin_state_schemas om_empty = (status_ok, builtin_schemas)
   \<and> is_ok (schema_validate builtin_schemas)
   \<and> outcome_matrix (\<lambda>r s a b. sc_outcome (read_compatibility r s a b)) =
       [[FullyCompatible, IncompatibleSchema, IncompatibleSchema],
        [ReadCompatible, FullyCompatible, IncompatibleSchema],
        [ReadCompatible, ReadCompatible, FullyCompatible]]
   \<and> outcome_matrix (\<lambda>r s a b. map_option sc_outcome (write_compatibility r s a b)) =
       [[Some FullyCompatible, Some MixedVersionCompatible, Some MixedVersionCompatible],
        [Some WriteCompatible, Some FullyCompatible, Some MixedVersionCompatible],
        [Some IncompatibleSchema, Some IncompatibleSchema, Some FullyCompatible]]
   \<and> map (has_reverse_migration builtin_schemas ''component-state'') [1, 2, 3] = [False, True, False]"
proof (intro conjI)
  have range: "sd_writable_formats builtin_v1 = range_single 1" "sd_writable_formats builtin_v2 = range_closed 1 2"
    "sd_writable_formats builtin_v3 = range_single 3" by (simp_all add: builtin_defs)
  show "outcome_matrix (\<lambda>r s a b. map_option sc_outcome (write_compatibility r s a b)) =
       [[Some FullyCompatible, Some MixedVersionCompatible, Some MixedVersionCompatible],
        [Some WriteCompatible, Some FullyCompatible, Some MixedVersionCompatible],
        [Some IncompatibleSchema, Some IncompatibleSchema, Some FullyCompatible]]"
    by (simp add: outcome_matrix_def write_compatibility_def builtin_find compat_result_def range range_single_def
        range_closed_def write_scan.simps gen_is_set_def gen_next_def kGenerationCeiling_val)
  show "map (has_reverse_migration builtin_schemas ''component-state'') [1, 2, 3] = [False, True, False]"
    by (simp add: has_reverse_migration_def builtin_find) (simp add: builtin_defs gen_is_set_def gen_unset_def)
qed (simp_all add: install_builtin builtin_registry_ok outcome_matrix_def read_compatibility_def builtin_find
    compat_result_def)

theorem write_compatibility_exact_witness:
  "\<exists>res. write_compatibility builtin_schemas ''component-state'' 3 1 = Some res
     \<and> is_blocking_outcome (sc_outcome res)"
proof -
  have "range_max (sd_writable_formats builtin_v3) < kGenerationCeiling"
    by (simp add: builtin_defs range_single_def kGenerationCeiling_val)
  moreover have "common_formats builtin_v3 builtin_v1 = {}" by (auto simp: common_formats_def)
  ultimately show ?thesis
    using write_compatibility_exact [OF builtin_registry_ok builtin_find(3) builtin_find(1)] by auto
qed

theorem write_compatibility_diverges_witness:
  "\<exists>r. is_ok (schema_validate r) \<and> write_compatibility r ''component-state'' 3 1 = None"
proof -
  define d where "d = builtin_v3\<lparr>sd_writable_formats := range_closed 2 kGenerationCeiling\<rparr>"
  define r where "r = [((''component-state'', 1 :: u64), builtin_v1), ((''component-state'', 3), d)]"
  have "is_ok (sd_validate d)"
    by (simp add: d_def sd_validate_def builtin_defs range_defs has_irreversible_field_def limit_defs
        gen_unset_def kGenerationCeiling_val) (simp add: word_le_nat_alt)
  moreover have "sd_id builtin_v1 = ''component-state''" "sd_generation builtin_v1 = 1"
    "sd_id d = ''component-state''" "sd_generation d = 3" by (simp_all add: d_def builtin_defs)
  ultimately have ok: "is_ok (schema_validate r)"
    using builtin_valid(1)
    by (simp add: schema_validate_def r_def om_size_def om_entries_def limit_defs schema_entry_check_def)
  have "schema_find r ''component-state'' 3 = Some d" "schema_find r ''component-state'' 1 = Some builtin_v1"
    by (simp_all add: schema_find_def r_def om_find_def)
  moreover have "common_formats d builtin_v1 = {}"
    by (auto simp: common_formats_def can_write_format_def d_def range_defs) (simp add: word_le_nat_alt)
  moreover have "range_max (sd_writable_formats d) = kGenerationCeiling"
    by (simp add: d_def range_closed_def)
  ultimately show ?thesis using write_compatibility_diverges [OF ok] ok by blast
qed

end
