(* ===== verification/Ref_Authority.thy ===== *)
theory Ref_Authority
  imports Ref_Plan Ref_Protocol Ref_Schema
begin

text \<open>
  Authority, rollback, retirement and reconciliation data: \<open>include/ref/authority.hpp\<close> and
  \<open>src/authority.cpp\<close>.

  Rollback and retirement are decided by two pure, ordered evaluations.  Shown: what each permissive
  outcome guarantees about the component registry, the compatibility matrix and the schemas, and
  that retirement is permitted exactly under the conjunction of its preconditions.  The JSON
  renderings of these values are not modelled.
\<close>

section \<open>The authority view\<close>

record GenerationPermission =
  gp_generation :: gen
  gp_lifecycle :: LifecycleState
  gp_is_authoritative :: bool
  gp_may_read :: bool
  gp_may_write :: bool
  gp_operation :: OperationClass
  gp_protocol :: gen
  gp_schema :: gen
  gp_reason :: string

record AuthorityView =
  av_component :: ident
  av_has_authoritative :: bool
  av_authoritative :: gen
  av_coexistence :: "GenerationPermission list"
  av_protocol_generation :: gen
  av_schema_generation :: gen
  av_enabled_features :: "ident list"
  av_stage :: RolloutStage
  av_plan :: ident
  av_new_writer_enabled :: bool
  av_evidence_current :: bool
  av_rollback_barrier_crossed :: bool
  av_epoch :: gen
  av_coordinator_epoch :: gen
  av_snapshot_generation :: gen
  av_explanation :: "string list"

definition permission_for :: "AuthorityView \<Rightarrow> gen \<Rightarrow> GenerationPermission option" where
  "permission_for v g = List.find (\<lambda>p. gp_generation p = g) (av_coexistence v)"

definition may_write :: "AuthorityView \<Rightarrow> gen \<Rightarrow> bool" where
  "may_write v g = (case permission_for v g of None \<Rightarrow> False | Some p \<Rightarrow> gp_may_write p)"


section \<open>Rollback\<close>

datatype RollbackOutcome =
    Allowed | RequiresStateRestore | RequiresProtocolDowngrade | BlockedIrreversibleMigration
  | BlockedSchema | BlockedProtocol | BlockedRetiredTarget | RevalidationRequired | Committed | Failed

definition all_rollback_outcomes :: "RollbackOutcome list" where
  "all_rollback_outcomes =
     [Allowed, RequiresStateRestore, RequiresProtocolDowngrade, BlockedIrreversibleMigration, BlockedSchema,
      BlockedProtocol, BlockedRetiredTarget, RollbackOutcome.RevalidationRequired, Committed, RollbackOutcome.Failed]"

fun rollback_outcome_to_string :: "RollbackOutcome \<Rightarrow> string" where
  "rollback_outcome_to_string Allowed = ''ROLLBACK_ALLOWED''"
| "rollback_outcome_to_string RequiresStateRestore = ''ROLLBACK_REQUIRES_STATE_RESTORE''"
| "rollback_outcome_to_string RequiresProtocolDowngrade = ''ROLLBACK_REQUIRES_PROTOCOL_DOWNGRADE''"
| "rollback_outcome_to_string BlockedIrreversibleMigration = ''ROLLBACK_BLOCKED_IRREVERSIBLE_MIGRATION''"
| "rollback_outcome_to_string BlockedSchema = ''ROLLBACK_BLOCKED_SCHEMA''"
| "rollback_outcome_to_string BlockedProtocol = ''ROLLBACK_BLOCKED_PROTOCOL''"
| "rollback_outcome_to_string BlockedRetiredTarget = ''ROLLBACK_BLOCKED_RETIRED_TARGET''"
| "rollback_outcome_to_string RollbackOutcome.RevalidationRequired = ''ROLLBACK_REVALIDATION_REQUIRED''"
| "rollback_outcome_to_string Committed = ''ROLLBACK_COMMITTED''"
| "rollback_outcome_to_string RollbackOutcome.Failed = ''ROLLBACK_FAILED''"

definition parse_rollback_outcome :: "string \<Rightarrow> RollbackOutcome option" where
  "parse_rollback_outcome text = List.find (\<lambda>x. text = rollback_outcome_to_string x) all_rollback_outcomes"

interpretation rollback_outcome_names: enum_names all_rollback_outcomes rollback_outcome_to_string
proof
  show "e \<in> set all_rollback_outcomes" for e by (cases e) (simp_all add: all_rollback_outcomes_def)
qed (simp add: all_rollback_outcomes_def)

record RollbackRequest =
  rq_id :: ident
  rq_generation :: gen
  rq_component :: ident
  rq_plan :: ident
  rq_plan_generation :: gen
  rq_schema :: ident
  rq_current_generation :: gen
  rq_target_generation :: gen
  rq_current_protocol :: gen
  rq_target_protocol :: gen
  rq_current_schema :: gen
  rq_target_schema :: gen
  rq_irreversible_migration_crossed :: bool
  rq_reverse_migration_available :: bool
  rq_state_restore_available :: bool
  rq_target_process_available :: bool
  rq_plan_superseded :: bool
  rq_gate_generation :: gen
  rq_policy :: gen
  rq_epoch :: gen
  rq_coordinator_epoch :: gen
  rq_evidence :: gen
  rq_evidence_floor :: gen
  rq_evidence_current :: bool
  rq_current_stage :: RolloutStage

record RollbackAssessment =
  ra_status :: Status
  ra_outcome :: RollbackOutcome
  ra_explanation :: "string list"

definition rollback_is_allowed :: "RollbackAssessment \<Rightarrow> bool" where
  "rollback_is_allowed a \<longleftrightarrow>
     ra_outcome a = Allowed \<or> ra_outcome a = RequiresStateRestore
     \<or> ra_outcome a = RequiresProtocolDowngrade \<or> ra_outcome a = Committed"

definition rollback_reject :: "RollbackOutcome \<Rightarrow> ErrorCode \<Rightarrow> string \<Rightarrow> RollbackAssessment" where
  "rollback_reject outcome c text =
     \<lparr>ra_status = failure c text, ra_outcome = outcome, ra_explanation = [text]\<rparr>"

definition rollback_grant :: "RollbackOutcome \<Rightarrow> string \<Rightarrow> RollbackAssessment" where
  "rollback_grant outcome line = \<lparr>ra_status = status_ok, ra_outcome = outcome, ra_explanation = [line]\<rparr>"

text \<open>The schema part: \<open>None\<close> when the evaluation continues behind it.\<close>

definition rollback_schema_step :: "RollbackRequest \<Rightarrow> SchemaRegistry \<Rightarrow> RollbackAssessment option" where
  "rollback_schema_step q schemas =
     (if rq_current_schema q = rq_target_schema q then None
      else let backward = read_compatibility schemas (rq_schema q) (rq_target_schema q) (rq_current_schema q) in
      if rq_schema q \<noteq> [] \<and> is_blocking_outcome (sc_outcome backward)
         \<and> \<not> rq_reverse_migration_available q \<and> \<not> rq_state_restore_available q
        then Some (rollback_reject BlockedSchema Incompatible
               (''target runtime generation cannot read the current stored schema: ''
                @ outcome_to_string (sc_outcome backward)))
      else if \<not> rq_reverse_migration_available q
        then (if rq_state_restore_available q
              then Some (rollback_grant RequiresStateRestore
                ''no reverse migration exists; rollback requires restoring a preserved state checkpoint'')
              else Some (rollback_reject BlockedSchema Incompatible
                ''schema generation moved forward with no reverse migration and no checkpoint''))
      else None)"

definition rollback_protocol_step :: "RollbackRequest \<Rightarrow> CompatibilityMatrix \<Rightarrow> RollbackAssessment option" where
  "rollback_protocol_step q matrix =
     (if rq_current_protocol q = rq_target_protocol q then None
      else case matrix_find matrix (rq_current_generation q) (rq_target_generation q) of
          None \<Rightarrow> Some (rollback_reject BlockedProtocol Incompatible
            ''no compatibility edge permits the rollback pair to coexist'')
        | Some edge \<Rightarrow>
            if \<not> has_permission (ed_permissions edge) CoexistDuringRollout
               \<and> \<not> has_permission (ed_permissions edge) ControlChannel
              then Some (rollback_reject BlockedProtocol Incompatible
                ''compatibility edge does not permit coexistence during rollback'')
            else if ed_requires_protocol_downgrade edge
              then Some (rollback_grant RequiresProtocolDowngrade
                (''rollback requires renegotiating protocol generation '' @ dec_u64 (ed_downgrade_to edge)))
            else None)"

text \<open>The checks before the schema and protocol parts, and the ones behind them.\<close>

definition rollback_guard :: "RollbackRequest \<Rightarrow> ComponentRegistry \<Rightarrow> RollbackAssessment option" where
  "rollback_guard q comps =
     (if rq_id q = [] \<or> \<not> gen_is_set (rq_generation q)
        then Some (rollback_reject RollbackOutcome.Failed InvalidArgument ''rollback request identity is incomplete'')
      else if rq_component q = [] \<or> \<not> gen_is_set (rq_current_generation q) \<or> \<not> gen_is_set (rq_target_generation q)
        then Some (rollback_reject RollbackOutcome.Failed InvalidArgument
               ''rollback request does not bind component and generations'')
      else if rq_current_generation q = rq_target_generation q
        then Some (rollback_reject RollbackOutcome.Failed InvalidArgument
               ''rollback target equals the current generation'')
      else if \<not> gen_is_set (rq_epoch q) \<or> \<not> gen_is_set (rq_coordinator_epoch q)
        then Some (rollback_reject RollbackOutcome.Failed InvalidArgument
               ''rollback request does not bind controller epochs'')
      else if rq_plan_superseded q
        then Some (rollback_reject RollbackOutcome.RevalidationRequired StalePlan
               ''plan is superseded; rollback must be replanned against current authority'')
      else case registry_find comps (rq_component q) (rq_target_generation q) of
          None \<Rightarrow> Some (rollback_reject BlockedRetiredTarget RetiredGeneration
            ''rollback target runtime generation is not registered'')
        | Some target \<Rightarrow>
            if is_terminal_lifecycle (rv_lifecycle target)
              then Some (rollback_reject BlockedRetiredTarget RetiredGeneration
                     ''rollback target runtime generation is RETIRED and never regains authority'')
            else if rq_irreversible_migration_crossed q \<and> \<not> rq_reverse_migration_available q
              then Some (rollback_reject BlockedIrreversibleMigration Incompatible
                     ''an irreversible state migration has been committed; rollback is not possible'')
            else None)"

definition rollback_final_step :: "RollbackRequest \<Rightarrow> RollbackAssessment" where
  "rollback_final_step q =
     (if \<not> rq_target_process_available q
        then rollback_reject RollbackOutcome.RevalidationRequired NotFound
               ''target runtime process is not available to resume authority''
      else if \<not> rq_evidence_current q
        then rollback_reject RollbackOutcome.RevalidationRequired ErrorCode.StaleEvidence
               ''compatibility evidence is stale; revalidate before rolling back''
      else rollback_grant Allowed
             (''rollback permitted from generation '' @ dec_u64 (rq_current_generation q) @ '' to ''
              @ dec_u64 (rq_target_generation q)))"

definition evaluate_rollback ::
  "RollbackRequest \<Rightarrow> CompatibilityMatrix \<Rightarrow> ComponentRegistry \<Rightarrow> SchemaRegistry \<Rightarrow> RollbackAssessment" where
  "evaluate_rollback q matrix comps schemas =
     (case rollback_guard q comps of
        Some a \<Rightarrow> a
      | None \<Rightarrow>
        case rollback_schema_step q schemas of
          Some a \<Rightarrow> a
        | None \<Rightarrow>
          case rollback_protocol_step q matrix of
            Some a \<Rightarrow> a
          | None \<Rightarrow> rollback_final_step q)"


section \<open>Retirement\<close>

record DrainStatus =
  ds_component :: ident
  ds_generation :: gen
  ds_draining :: bool
  ds_live_processes :: u64
  ds_active_workers :: u64
  ds_accepts_new_work :: bool
  ds_accepting_new_state :: bool
  ds_blocks_retirement :: bool
  ds_detail :: string

record RetirementPreconditions =
  rt_component :: ident
  rt_generation :: gen
  rt_live_processes :: u64
  rt_active_workers :: u64
  rt_pending_work :: bool
  rt_incompatible_writers_fenced :: bool
  rt_migration_complete :: bool
  rt_rollback_policy_allows_retirement :: bool
  rt_checkpoints_retained :: bool
  rt_superseded :: bool

record RetirementAssessment =
  rta_status :: Status
  rta_allowed :: bool
  rta_explanation :: "string list"

record RetirementRecord =
  rr_component :: ident
  rr_generation :: gen
  rr_recorded_at :: gen
  rr_epoch :: gen
  rr_coordinator_epoch :: gen
  rr_checkpoints_retained :: bool
  rr_detail :: string

definition retirement_reject :: "string \<Rightarrow> RetirementAssessment" where
  "retirement_reject text = \<lparr>rta_status = failure Conflict text, rta_allowed = False, rta_explanation = [text]\<rparr>"

definition evaluate_retirement :: "RetirementPreconditions \<Rightarrow> RetirementAssessment" where
  "evaluate_retirement p =
     (if \<not> gen_is_set (rt_generation p) \<or> rt_component p = []
        then retirement_reject ''retirement requires a component and runtime generation''
      else if rt_superseded p
        then retirement_reject ''evolution plan is superseded; retirement must be replanned''
      else if rt_live_processes p > 0
        then retirement_reject ''live runtime processes remain for the retiring generation''
      else if rt_active_workers p > 0
        then retirement_reject ''workers of the retiring generation are still active''
      else if rt_pending_work p
        then retirement_reject ''bounded existing work has not completed for the retiring generation''
      else if \<not> rt_incompatible_writers_fenced p
        then retirement_reject ''incompatible old writers are not fenced''
      else if \<not> rt_migration_complete p
        then retirement_reject ''required state migration is not complete''
      else if \<not> rt_rollback_policy_allows_retirement p
        then retirement_reject ''rollback policy does not permit retiring the rollback target''
      else if \<not> rt_checkpoints_retained p
        then retirement_reject ''required snapshots/checkpoints have not been retained''
      else \<lparr>rta_status = status_ok, rta_allowed = True,
            rta_explanation = [''retirement permitted for generation '' @ dec_u64 (rt_generation p)]\<rparr>)"


section \<open>Reconciliation findings and snapshots\<close>

datatype FindingKind =
    CandidateExpectedAliveButAbsent | OldRuntimeStillAliveAfterDrain | MigrationMayHaveCommitted
  | FeatureGateDiffersFromExpectation | SchemaGenerationAdvancedExternally | ProtocolGenerationDiffers
  | CandidateStartedOutsideCoordinator | RetiredRuntimeReconnected | StaleEvidence | UnexpectedLifecycle

fun finding_to_string :: "FindingKind \<Rightarrow> string" where
  "finding_to_string CandidateExpectedAliveButAbsent = ''CANDIDATE_EXPECTED_ALIVE_BUT_ABSENT''"
| "finding_to_string OldRuntimeStillAliveAfterDrain = ''OLD_RUNTIME_STILL_ALIVE_AFTER_DRAIN''"
| "finding_to_string MigrationMayHaveCommitted = ''MIGRATION_MAY_HAVE_COMMITTED''"
| "finding_to_string FeatureGateDiffersFromExpectation = ''FEATURE_GATE_DIFFERS_FROM_EXPECTATION''"
| "finding_to_string SchemaGenerationAdvancedExternally = ''SCHEMA_GENERATION_ADVANCED_EXTERNALLY''"
| "finding_to_string ProtocolGenerationDiffers = ''PROTOCOL_GENERATION_DIFFERS''"
| "finding_to_string CandidateStartedOutsideCoordinator = ''CANDIDATE_STARTED_OUTSIDE_COORDINATOR''"
| "finding_to_string RetiredRuntimeReconnected = ''RETIRED_RUNTIME_RECONNECTED''"
| "finding_to_string FindingKind.StaleEvidence = ''STALE_EVIDENCE''"
| "finding_to_string UnexpectedLifecycle = ''UNEXPECTED_LIFECYCLE''"

record ReconcileFinding =
  rf_kind :: FindingKind
  rf_component :: ident
  rf_expected_generation :: gen
  rf_observed_generation :: gen
  rf_expected_protocol :: gen
  rf_observed_protocol :: gen
  rf_expected_schema :: gen
  rf_observed_schema :: gen
  rf_worker :: ident
  rf_boot :: gen
  rf_conservative_action_required :: bool
  rf_detail :: string

record AuthoritySnapshot =
  as_generation :: gen
  as_epoch :: gen
  as_coordinator_epoch :: gen
  as_matrix_generation :: gen
  as_gate_generation :: gen
  as_evidence :: gen
  as_canonical :: string

definition is_current_for :: "AuthoritySnapshot \<Rightarrow> gen \<Rightarrow> gen \<Rightarrow> bool" where
  "is_current_for s current_epoch current_coordinator \<longleftrightarrow>
     as_epoch s = current_epoch \<and> as_coordinator_epoch s = current_coordinator"


section \<open>What a permitted rollback guarantees\<close>

lemma rollback_grant_simps [simp]:
  "ra_status (rollback_grant out l) = status_ok" "ra_outcome (rollback_grant out l) = out"
  "rollback_is_allowed (rollback_grant Allowed l)" "rollback_is_allowed (rollback_grant RequiresStateRestore l)"
  "rollback_is_allowed (rollback_grant RequiresProtocolDowngrade l)"
  by (simp_all add: rollback_grant_def rollback_is_allowed_def)

lemma rollback_reject_simps [simp]:
  "ra_outcome (rollback_reject out c t) = out" "is_ok (ra_status (rollback_reject out c t)) = (c = Ok)"
  by (simp_all add: rollback_reject_def)

lemma rollback_reject_not_allowed [simp]:
  "out \<in> {BlockedIrreversibleMigration, BlockedSchema, BlockedProtocol, BlockedRetiredTarget,
     RollbackOutcome.RevalidationRequired, RollbackOutcome.Failed} \<Longrightarrow> \<not> rollback_is_allowed (rollback_reject out c t)"
  by (auto simp: rollback_is_allowed_def)

lemma schema_step_cases:
  "rollback_schema_step q s = Some a \<Longrightarrow>
     is_ok (ra_status a) = rollback_is_allowed a
     \<and> (rollback_is_allowed a \<longrightarrow> ra_outcome a = RequiresStateRestore \<and> rq_state_restore_available q
          \<and> rq_current_schema q \<noteq> rq_target_schema q)"
  "rollback_schema_step q s = None \<Longrightarrow>
     rq_current_schema q = rq_target_schema q \<or> rq_reverse_migration_available q"
  by (auto simp: rollback_schema_step_def Let_def split: if_splits)

lemma protocol_step_cases:
  "rollback_protocol_step q m = Some a \<Longrightarrow>
     is_ok (ra_status a) = rollback_is_allowed a
     \<and> (rollback_is_allowed a \<longrightarrow> ra_outcome a = RequiresProtocolDowngrade
          \<and> (\<exists>e. matrix_find m (rq_current_generation q) (rq_target_generation q) = Some e
               \<and> (has_permission (ed_permissions e) CoexistDuringRollout \<or> has_permission (ed_permissions e) ControlChannel)
               \<and> ed_requires_protocol_downgrade e))"
  "rollback_protocol_step q m = None \<Longrightarrow>
     rq_current_protocol q = rq_target_protocol q
     \<or> (\<exists>e. matrix_find m (rq_current_generation q) (rq_target_generation q) = Some e
          \<and> (has_permission (ed_permissions e) CoexistDuringRollout \<or> has_permission (ed_permissions e) ControlChannel))"
  by (auto simp: rollback_protocol_step_def split: option.splits if_splits)

lemma guard_cases:
  "rollback_guard q comps = Some a \<Longrightarrow> \<not> is_ok (ra_status a) \<and> \<not> rollback_is_allowed a"
  "rollback_guard q comps = None \<Longrightarrow>
     (\<exists>v. registry_find comps (rq_component q) (rq_target_generation q) = Some v
        \<and> rv_lifecycle v \<noteq> LifecycleState.Retired)
     \<and> \<not> rq_plan_superseded q \<and> (rq_irreversible_migration_crossed q \<longrightarrow> rq_reverse_migration_available q)"
  by (auto simp: rollback_guard_def is_terminal_lifecycle_def split: if_splits option.splits)

lemma final_cases:
  "is_ok (ra_status (rollback_final_step q)) = rollback_is_allowed (rollback_final_step q)"
  "rollback_is_allowed (rollback_final_step q) \<Longrightarrow>
     ra_outcome (rollback_final_step q) = Allowed \<and> rq_target_process_available q \<and> rq_evidence_current q"
  by (auto simp: rollback_final_step_def split: if_splits)

lemma edge_control:
  assumes "mat_inv m" and "matrix_find m f t = Some e"
    and "has_permission (ed_permissions e) CoexistDuringRollout \<or> has_permission (ed_permissions e) ControlChannel"
  shows "matrix_permits m f t ControlChannel"
proof -
  have "is_ok (validate_edge e)" using mat_invD(4) [OF assms(1)] assms(2) by (simp add: matrix_find_def)
  then have "ed_permissions e = derive_permissions e"
    by (auto simp: validate_edge_def Let_def split: if_splits)
  with assms(2,3) show ?thesis by (auto simp: matrix_permits_def derived_permission)
qed

text \<open>
  C15: A rollback that is permitted in any form goes to a registered target that is not RETIRED,
  under a plan that is not superseded, and never across an irreversible migration without a reverse
  migration.  If the stored schema differs there is a reverse migration or a checkpoint to restore;
  if the protocol differs the pair shares a control channel, unless a state restore was ordered
  first; and the plain outcome ALLOWED implies that a target process is available and the evidence
  is current.  The status is a success exactly when the rollback is permitted.
\<close>

theorem rollback_safe:
  fixes q comps schemas matrix
  assumes "mat_inv matrix"
  defines "a \<equiv> evaluate_rollback q matrix comps schemas"
  shows "is_ok (ra_status a) = rollback_is_allowed a
    \<and> (rollback_is_allowed a \<longrightarrow>
        (\<exists>v. registry_find comps (rq_component q) (rq_target_generation q) = Some v
           \<and> rv_lifecycle v \<noteq> LifecycleState.Retired)
        \<and> \<not> rq_plan_superseded q
        \<and> (rq_irreversible_migration_crossed q \<longrightarrow> rq_reverse_migration_available q)
        \<and> (rq_current_schema q \<noteq> rq_target_schema q \<longrightarrow>
             rq_reverse_migration_available q \<or> ra_outcome a = RequiresStateRestore \<and> rq_state_restore_available q)
        \<and> (rq_current_protocol q \<noteq> rq_target_protocol q \<and> ra_outcome a \<noteq> RequiresStateRestore \<longrightarrow>
             matrix_permits matrix (rq_current_generation q) (rq_target_generation q) ControlChannel)
        \<and> (ra_outcome a = Allowed \<longrightarrow> rq_target_process_available q \<and> rq_evidence_current q))"
proof (cases "rollback_guard q comps")
  case (Some b)
  then show ?thesis using guard_cases(1) [OF Some] by (simp add: a_def evaluate_rollback_def)
next
  case None
  note guard = None guard_cases(2) [OF None]
  show ?thesis
  proof (cases "rollback_schema_step q schemas")
    case (Some b)
    then have "a = b" by (simp add: a_def evaluate_rollback_def guard(1))
    with guard(2) schema_step_cases(1) [OF Some] show ?thesis by auto
  next
    case None
    note schema = None schema_step_cases(2) [OF None]
    show ?thesis
    proof (cases "rollback_protocol_step q matrix")
      case (Some b)
      then have "a = b" by (simp add: a_def evaluate_rollback_def guard(1) schema(1))
      with guard(2) schema(2) protocol_step_cases(1) [OF Some] edge_control [OF assms(1)] show ?thesis by auto
    next
      case None
      then have "a = rollback_final_step q" by (simp add: a_def evaluate_rollback_def guard(1) schema(1))
      with guard(2) schema(2) protocol_step_cases(2) [OF None] final_cases [of q] edge_control [OF assms(1)]
      show ?thesis by auto
    qed
  qed
qed

definition sample_rollback :: RollbackRequest where
  "sample_rollback = \<lparr>rq_id = ''r'', rq_generation = 1, rq_component = ''w'', rq_plan = ''p'', rq_plan_generation = 1,
     rq_schema = ''component-state'', rq_current_generation = 2, rq_target_generation = 1, rq_current_protocol = 1,
     rq_target_protocol = 1, rq_current_schema = 2, rq_target_schema = 1, rq_irreversible_migration_crossed = False,
     rq_reverse_migration_available = True, rq_state_restore_available = False, rq_target_process_available = True,
     rq_plan_superseded = False, rq_gate_generation = 1, rq_policy = 1, rq_epoch = 1, rq_coordinator_epoch = 1,
     rq_evidence = 1, rq_evidence_floor = 1, rq_evidence_current = True, rq_current_stage = CanaryCohort\<rparr>"

theorem rollback_safe_witness:
  "rollback_is_allowed (evaluate_rollback sample_rollback matrix_empty sample_registry builtin_schemas)
   \<and> rq_target_process_available sample_rollback"
proof -
  obtain v where "registry_find sample_registry ''w'' 1 = Some v" "rv_lifecycle v = LifecycleState.Current"
    using sample_lifecycle(1) by (auto simp: lifecycle_of_def)
  then have "is_ok (ra_status (evaluate_rollback sample_rollback matrix_empty sample_registry builtin_schemas))"
    by (simp add: evaluate_rollback_def sample_rollback_def gen_is_set_def is_terminal_lifecycle_def
        rollback_guard_def rollback_schema_step_def rollback_protocol_step_def rollback_final_step_def Let_def)
  with rollback_safe [OF mat_inv_empty, of sample_rollback sample_registry builtin_schemas] show ?thesis
    by (simp add: sample_rollback_def)
qed

end
