(* ===== verification/Ref_Records.thy ===== *)
theory Ref_Records
  imports Ref_Parse Ref_Authority
begin

text \<open>
  The records of the durable state (\<open>src/store.cpp\<close>): component versions, protocol and schema
  descriptors, compatibility edges, feature gates, stage records and plans.  For every record there is
  the writer \<open>put_x\<close> (\<open>write_x\<close> in the code), the reader \<open>read_x\<close> with its tests in the order of the
  code, a well-formedness predicate \<open>x_wf\<close> that collects the class invariants of the field types and the
  bounds of the vectors, and the lemma \<open>parses_x\<close>: the reader recovers every well-formed record from what
  the writer produced, and stops exactly behind it.
\<close>

section \<open>Enumerations and their underlying values\<close>

definition all_evidence :: "EvidenceClass list" where
  "all_evidence = [EvidenceClass.Unknown, EvidenceClass.Real, EvidenceClass.Synthetic, EvidenceClass.Unsupported]"

definition all_unknown_fields :: "UnknownFieldPolicy list" where
  "all_unknown_fields = [UnknownFieldPolicy.Reject, UnknownFieldPolicy.Ignore, Preserve]"

definition all_unknown_messages :: "UnknownMessagePolicy list" where
  "all_unknown_messages = [UnknownMessagePolicy.Reject, UnknownMessagePolicy.Ignore]"

definition all_field_types :: "FieldType list" where
  "all_field_types = [FieldType.U64, FieldType.I64, FieldType.Boolean, FieldType.Text, FieldType.Bytes, FieldType.Digest]"

definition all_canonicalizations :: "CanonicalizationRule list" where
  "all_canonicalizations = [NoCanonicalization, FixedFieldOrder, SortedFieldNames, FixedFieldOrderStableEncoding]"

definition all_integrities :: "IntegritySemantics list" where
  "all_integrities = [NoIntegrity, Checksum, ChecksumAndSchemaBinding]"

locale raw_enum =
  fixes all :: "'e list"
  assumes complete: "e \<in> set all" and small: "length all \<le> 255"
begin

lemma raw_bound: "unat (enum_raw all e) < length all"
  by (rule enum_raw_bound [OF complete small])

lemma of_raw: "enum_of all (enum_raw all e) = e"
  by (rule enum_of_raw [OF complete small])

end

interpretation raw_evidence: raw_enum all_evidence
proof
  show "e \<in> set all_evidence" for e by (cases e) (simp_all add: all_evidence_def)
qed (simp add: all_evidence_def)

interpretation raw_unknown_fields: raw_enum all_unknown_fields
proof
  show "e \<in> set all_unknown_fields" for e by (cases e) (simp_all add: all_unknown_fields_def)
qed (simp add: all_unknown_fields_def)

interpretation raw_unknown_messages: raw_enum all_unknown_messages
proof
  show "e \<in> set all_unknown_messages" for e by (cases e) (simp_all add: all_unknown_messages_def)
qed (simp add: all_unknown_messages_def)

interpretation raw_field_types: raw_enum all_field_types
proof
  show "e \<in> set all_field_types" for e by (cases e) (simp_all add: all_field_types_def)
qed (simp add: all_field_types_def)

interpretation raw_canonicalizations: raw_enum all_canonicalizations
proof
  show "e \<in> set all_canonicalizations" for e by (cases e) (simp_all add: all_canonicalizations_def)
qed (simp add: all_canonicalizations_def)

interpretation raw_integrities: raw_enum all_integrities
proof
  show "e \<in> set all_integrities" for e by (cases e) (simp_all add: all_integrities_def)
qed (simp add: all_integrities_def)

interpretation raw_lifecycles: raw_enum all_lifecycles
proof
  show "e \<in> set all_lifecycles" for e by (rule lifecycle_names.complete)
qed (simp add: all_lifecycles_def)

interpretation raw_aspects: raw_enum all_aspects
proof
  show "e \<in> set all_aspects" for e by (cases e) (simp_all add: all_aspects_def)
qed (simp add: all_aspects_def)

interpretation raw_outcomes: raw_enum all_outcomes
proof
  show "e \<in> set all_outcomes" for e by (cases e) (simp_all add: all_outcomes_def)
qed (simp add: all_outcomes_def)

interpretation raw_stages: raw_enum all_stages
proof
  show "e \<in> set all_stages" for e by (cases e) (simp_all add: all_stages_def)
qed (simp add: all_stages_def)

lemmas raw_bounds = raw_evidence.raw_bound raw_unknown_fields.raw_bound raw_unknown_messages.raw_bound
  raw_field_types.raw_bound raw_canonicalizations.raw_bound raw_integrities.raw_bound raw_lifecycles.raw_bound
  raw_aspects.raw_bound raw_outcomes.raw_bound raw_stages.raw_bound
lemmas of_raws = raw_evidence.of_raw raw_unknown_fields.of_raw raw_unknown_messages.of_raw
  raw_field_types.of_raw raw_canonicalizations.of_raw raw_integrities.of_raw raw_lifecycles.of_raw
  raw_aspects.of_raw raw_outcomes.of_raw raw_stages.of_raw

declare raw_bounds [simp] of_raws [simp]


section \<open>Shared parts\<close>

definition put_generations :: "gen_set \<Rightarrow> bytes" where
  "put_generations gs = put_u8 (of_nat (length gs)) @ concat (map put_generation gs)"

definition add_generation :: "string \<Rightarrow> gen_set \<Rightarrow> gen_set parser" where
  "add_generation what gs =
     p_bind (p_get get_generation) (\<lambda>value.
     p_bind (p_live (failure Truncated what)) (\<lambda>_.
     p_bind (p_require (fst (gs_add gs value)) (failure Corrupt what)) (\<lambda>_.
     p_return (snd (gs_add gs value)))))"

definition read_generations :: "string \<Rightarrow> gen_set parser" where
  "read_generations what =
     p_bind (p_get get_u8) (\<lambda>count.
     p_bind (p_live (failure Truncated what)) (\<lambda>_.
     p_bind (p_require (unat count \<le> kMaxGenerationsPerSet) (failure Corrupt what)) (\<lambda>_.
     p_bind (p_fold (unat count) (add_generation what) []) (\<lambda>gs.
     p_bind (p_require (length gs = unat count) (failure Corrupt what)) (\<lambda>_.
     p_return gs)))))"

definition put_range :: "gen_range \<Rightarrow> bytes" where
  "put_range rng =
     put_generation (range_min rng) @ put_generation (range_max rng)"

definition read_range :: "string \<Rightarrow> gen_range parser" where
  "read_range what =
     p_bind (p_get get_generation) (\<lambda>min.
     p_bind (p_get get_generation) (\<lambda>max.
     p_bind (p_live (failure Truncated what)) (\<lambda>_.
     p_bind (p_require (gen_is_set min = gen_is_set max) (failure Corrupt what)) (\<lambda>_.
     p_bind (p_require (range_is_set \<lparr>range_min = min, range_max = max\<rparr> \<longrightarrow> range_is_valid \<lparr>range_min = min, range_max = max\<rparr>) (failure Corrupt what)) (\<lambda>_.
     p_return \<lparr>range_min = min, range_max = max\<rparr>)))))"

definition put_version :: "RuntimeVersionId \<Rightarrow> bytes" where
  "put_version version =
     put_u16 (major (number version)) @ put_u16 (minor (number version)) @
     put_u16 (patch (number version)) @ put_ident 63 (build (artifact version)) @
     put_digest (content_hash (artifact version))"

definition read_version :: "string \<Rightarrow> RuntimeVersionId parser" where
  "read_version what =
     p_bind (p_get get_u16) (\<lambda>mj.
     p_bind (p_get get_u16) (\<lambda>mi.
     p_bind (p_get get_u16) (\<lambda>pt.
     p_bind (p_get (get_ident 63)) (\<lambda>bld.
     p_bind (p_get get_digest) (\<lambda>hash.
     p_bind (p_live (failure Truncated what)) (\<lambda>_.
     p_return 
       \<lparr>number = \<lparr>major = mj, minor = mi, patch = pt\<rparr>, artifact = \<lparr>build = bld, content_hash = hash\<rparr>\<rparr>))))))"

definition put_required_evidence :: "RequiredEvidence \<Rightarrow> bytes" where
  "put_required_evidence required =
     put_enum all_evidence (minimum_provenance required) @ put_u64 (max_age_generations required) @
     put_text 192 (re_description required)"

definition read_required_evidence :: "string \<Rightarrow> RequiredEvidence parser" where
  "read_required_evidence what =
     p_bind (p_get get_u8) (\<lambda>provenance.
     p_bind (p_get get_u64) (\<lambda>age.
     p_bind (p_get (get_text 192)) (\<lambda>description.
     p_bind (p_live (failure Corrupt what)) (\<lambda>_.
     p_bind (p_require (unat provenance < length all_evidence) (failure Corrupt what)) (\<lambda>_.
     p_return 
       \<lparr>minimum_provenance = enum_of all_evidence provenance, max_age_generations = age, re_description = description\<rparr>)))))"

definition put_feature_support :: "FeatureSupport \<Rightarrow> bytes" where
  "put_feature_support feature =
     put_ident 63 (fs_feature feature) @ put_generation (fs_generation feature) @
     put_boolean (fs_can_publish feature) @ put_boolean (fs_can_consume feature)"

definition read_feature_support :: "string \<Rightarrow> FeatureSupport parser" where
  "read_feature_support what =
     p_bind (p_get (get_ident 63)) (\<lambda>id.
     p_bind (p_get get_generation) (\<lambda>generation.
     p_bind (p_get get_boolean) (\<lambda>publishes.
     p_bind (p_get get_boolean) (\<lambda>consumes.
     p_bind (p_live (failure Truncated what)) (\<lambda>_.
     p_return 
       \<lparr>fs_feature = id, fs_generation = generation, fs_can_publish = publishes, fs_can_consume = consumes\<rparr>)))))"

definition put_migration_capability :: "MigrationCapability \<Rightarrow> bytes" where
  "put_migration_capability migration =
     put_ident 63 (mc_id migration) @ put_generation (mc_generation migration) @
     put_ident 63 (mc_schema migration) @ put_generation (mc_source migration) @
     put_generation (mc_target migration) @ put_boolean (mc_reversible migration) @
     put_boolean (mc_preserves_rollback_metadata migration)"

definition read_migration_capability :: "string \<Rightarrow> MigrationCapability parser" where
  "read_migration_capability what =
     p_bind (p_get (get_ident 63)) (\<lambda>id.
     p_bind (p_get get_generation) (\<lambda>generation.
     p_bind (p_get (get_ident 63)) (\<lambda>schema.
     p_bind (p_get get_generation) (\<lambda>source.
     p_bind (p_get get_generation) (\<lambda>target.
     p_bind (p_get get_boolean) (\<lambda>reversible.
     p_bind (p_get get_boolean) (\<lambda>preserves.
     p_bind (p_live (failure Truncated what)) (\<lambda>_.
     p_return 
       \<lparr>mc_id = id, mc_generation = generation, mc_schema = schema, mc_source = source, mc_target = target,
        mc_reversible = reversible, mc_preserves_rollback_metadata = preserves\<rparr>))))))))"

definition put_peer_requirement :: "PeerRequirement \<Rightarrow> bytes" where
  "put_peer_requirement peer =
     put_ident 63 (pr_peer peer) @ put_range (pr_generations peer) @ put_boolean (pr_required peer)"

definition read_peer_requirement :: "string \<Rightarrow> PeerRequirement parser" where
  "read_peer_requirement what =
     p_bind (p_get (get_ident 63)) (\<lambda>id.
     p_bind (read_range what) (\<lambda>generations.
     p_bind (p_get get_boolean) (\<lambda>required.
     p_bind (p_live (failure Truncated what)) (\<lambda>_.
     p_return \<lparr>pr_peer = id, pr_generations = generations, pr_required = required\<rparr>))))"

section \<open>Component versions\<close>

definition put_component_version :: "RuntimeComponentVersion \<Rightarrow> bytes" where
  "put_component_version version =
     put_ident 63 (rv_component version) @ put_version (rv_version version) @
     put_generation (rv_generation version) @ put_generations (ps_supported (rv_protocols version)) @
     put_generations (ps_readable (rv_protocols version)) @
     put_generations (ps_writable (rv_protocols version)) @
     put_generation (ps_minimum_safety (rv_protocols version)) @
     put_generations (ss_supported (rv_schemas version)) @
     put_generations (ss_readable (rv_schemas version)) @
     put_generations (ss_writable (rv_schemas version)) @
     put_generations (ss_readable_formats (rv_schemas version)) @
     put_generations (ss_writable_formats (rv_schemas version)) @
     put_counted put_migration_capability (rv_migrations version) @
     put_boolean (rc_supported (rv_rollback version)) @
     put_range (rc_target_window (rv_rollback version)) @
     put_boolean (rc_requires_state_restore (rv_rollback version)) @
     put_boolean (rc_reverse_migration_available (rv_rollback version)) @
     put_counted put_feature_support (rv_features version) @
     put_generation (rv_capability_generation version) @
     put_counted put_peer_requirement (rv_peers version) @
     put_range (rv_compatible_generations version) @ put_enum all_lifecycles (rv_lifecycle version) @
     put_enum all_evidence (rv_provenance version) @ put_generation (rv_evidence version) @
     put_generation (rv_epoch version) @ put_text 96 (rv_notes version)"

definition read_component_version :: "RuntimeComponentVersion parser" where
  "read_component_version =
     p_bind (p_get (get_ident 63)) (\<lambda>component.
     p_bind (read_version ''durable runtime component record is malformed'') (\<lambda>ver.
     p_bind (p_get get_generation) (\<lambda>generation.
     p_bind (read_generations ''durable runtime component record is malformed'') (\<lambda>p_sup.
     p_bind (read_generations ''durable runtime component record is malformed'') (\<lambda>p_read.
     p_bind (read_generations ''durable runtime component record is malformed'') (\<lambda>p_write.
     p_bind (p_get get_generation) (\<lambda>p_min.
     p_bind (read_generations ''durable runtime component record is malformed'') (\<lambda>s_sup.
     p_bind (read_generations ''durable runtime component record is malformed'') (\<lambda>s_read.
     p_bind (read_generations ''durable runtime component record is malformed'') (\<lambda>s_write.
     p_bind (read_generations ''durable runtime component record is malformed'') (\<lambda>f_read.
     p_bind (read_generations ''durable runtime component record is malformed'') (\<lambda>f_write.
     p_bind (p_counted ''durable runtime component record is malformed'' kMessageFields (read_migration_capability ''durable runtime component record is malformed'')) (\<lambda>migrations.
     p_bind (p_get get_boolean) (\<lambda>r_sup.
     p_bind (read_range ''durable runtime component record is malformed'') (\<lambda>r_window.
     p_bind (p_get get_boolean) (\<lambda>r_restore.
     p_bind (p_get get_boolean) (\<lambda>r_reverse.
     p_bind (p_counted ''durable runtime component record is malformed'' kFeatureGates (read_feature_support ''durable runtime component record is malformed'')) (\<lambda>features.
     p_bind (p_get get_generation) (\<lambda>capability.
     p_bind (p_counted ''durable runtime component record is malformed'' kRuntimeComponents (read_peer_requirement ''durable runtime component record is malformed'')) (\<lambda>peers.
     p_bind (read_range ''durable runtime component record is malformed'') (\<lambda>compatible.
     p_bind (p_get get_u8) (\<lambda>lifecycle.
     p_bind (p_get get_u8) (\<lambda>provenance.
     p_bind (p_get get_generation) (\<lambda>evidence.
     p_bind (p_get get_generation) (\<lambda>epoch.
     p_bind (p_get (get_text 96)) (\<lambda>notes.
     p_bind (p_live (failure Truncated ''durable runtime component record is malformed'')) (\<lambda>_.
     p_bind (p_require (unat lifecycle < length all_lifecycles) (failure Corrupt ''durable runtime component has an impossible lifecycle'')) (\<lambda>_.
     p_bind (p_require (unat provenance < length all_evidence) (failure Corrupt ''durable runtime component record is malformed'')) (\<lambda>_.
     p_return 
       \<lparr>rv_component = component, rv_version = ver, rv_generation = generation,
        rv_protocols = \<lparr>ps_supported = p_sup, ps_readable = p_read, ps_writable = p_write, ps_minimum_safety = p_min\<rparr>,
        rv_schemas = \<lparr>ss_supported = s_sup, ss_readable = s_read, ss_writable = s_write,
          ss_readable_formats = f_read, ss_writable_formats = f_write\<rparr>,
        rv_migrations = migrations,
        rv_rollback = \<lparr>rc_supported = r_sup, rc_target_window = r_window, rc_requires_state_restore = r_restore,
          rc_reverse_migration_available = r_reverse\<rparr>,
        rv_features = features, rv_capability_generation = capability, rv_peers = peers,
        rv_compatible_generations = compatible, rv_lifecycle = enum_of all_lifecycles lifecycle,
        rv_provenance = enum_of all_evidence provenance, rv_evidence = evidence, rv_epoch = epoch, rv_notes = notes\<rparr>)))))))))))))))))))))))))))))"

section \<open>Protocol and schema descriptors\<close>

definition put_field_descriptor :: "FieldDescriptor \<Rightarrow> bytes" where
  "put_field_descriptor field =
     put_ident 63 (fd_id field) @ put_generation (fd_introduced_in field) @
     put_boolean (fd_required field)"

definition read_field_descriptor :: "FieldDescriptor parser" where
  "read_field_descriptor =
     p_bind (p_get (get_ident 63)) (\<lambda>id.
     p_bind (p_get get_generation) (\<lambda>introduced.
     p_bind (p_get get_boolean) (\<lambda>required.
     p_bind (p_live (failure Truncated ''durable protocol descriptor is malformed'')) (\<lambda>_.
     p_return \<lparr>fd_id = id, fd_introduced_in = introduced, fd_required = required\<rparr>))))"

definition put_message_descriptor :: "MessageTypeDescriptor \<Rightarrow> bytes" where
  "put_message_descriptor message =
     put_ident 63 (md_id message) @ put_generation (md_introduced_in message) @
     put_boolean (md_mutating message) @ put_boolean (md_state_replacing message) @
     put_counted put_field_descriptor (md_fields message)"

definition read_message_descriptor :: "MessageTypeDescriptor parser" where
  "read_message_descriptor =
     p_bind (p_get (get_ident 63)) (\<lambda>id.
     p_bind (p_get get_generation) (\<lambda>introduced.
     p_bind (p_get get_boolean) (\<lambda>mutating.
     p_bind (p_get get_boolean) (\<lambda>replacing.
     p_bind (p_counted ''durable protocol descriptor is malformed'' kMessageFields (read_field_descriptor)) (\<lambda>fields.
     p_return 
       \<lparr>md_id = id, md_introduced_in = introduced, md_mutating = mutating, md_state_replacing = replacing, md_fields = fields\<rparr>)))))"

definition put_protocol :: "ProtocolDescriptor \<Rightarrow> bytes" where
  "put_protocol descriptor =
     put_ident 63 (pd_id descriptor) @ put_generation (pd_generation descriptor) @
     put_generation (pd_minimum_safety_generation descriptor) @
     put_enum all_unknown_fields (pd_unknown_fields descriptor) @
     put_enum all_unknown_messages (pd_unknown_messages descriptor) @
     put_enum all_evidence (pd_provenance descriptor) @ put_generation (pd_evidence descriptor) @
     put_text 96 (pd_notes descriptor) @ put_counted put_message_descriptor (pd_messages descriptor)"

definition read_protocol :: "ProtocolDescriptor parser" where
  "read_protocol =
     p_bind (p_get (get_ident 63)) (\<lambda>id.
     p_bind (p_get get_generation) (\<lambda>generation.
     p_bind (p_get get_generation) (\<lambda>floor.
     p_bind (p_get get_u8) (\<lambda>unknown_fields.
     p_bind (p_get get_u8) (\<lambda>unknown_messages.
     p_bind (p_get get_u8) (\<lambda>provenance.
     p_bind (p_get get_generation) (\<lambda>evidence.
     p_bind (p_get (get_text 96)) (\<lambda>notes.
     p_bind (p_live (failure Truncated ''durable protocol descriptor is malformed'')) (\<lambda>_.
     p_bind (p_require (unat unknown_fields < length all_unknown_fields \<and> unat unknown_messages < length all_unknown_messages
         \<and> unat provenance < length all_evidence) (failure Corrupt ''durable protocol descriptor is malformed'')) (\<lambda>_.
     p_bind (p_counted ''durable protocol descriptor is malformed'' kMessageTypes (read_message_descriptor)) (\<lambda>messages.
     p_return 
       \<lparr>pd_id = id, pd_generation = generation, pd_minimum_safety_generation = floor, pd_messages = messages,
        pd_unknown_fields = enum_of all_unknown_fields unknown_fields,
        pd_unknown_messages = enum_of all_unknown_messages unknown_messages,
        pd_provenance = enum_of all_evidence provenance, pd_evidence = evidence, pd_notes = notes\<rparr>)))))))))))"

definition put_schema_field :: "SchemaField \<Rightarrow> bytes" where
  "put_schema_field field =
     put_ident 63 (sf_id field) @ put_enum all_field_types (sf_type field) @
     put_generation (sf_introduced_in field) @ put_generation (sf_removed_in field) @
     put_boolean (sf_required field) @ put_boolean (sf_irreversible field) @
     put_text 96 (sf_required_default field)"

definition read_schema_field :: "SchemaField parser" where
  "read_schema_field =
     p_bind (p_get (get_ident 63)) (\<lambda>id.
     p_bind (p_get get_u8) (\<lambda>type.
     p_bind (p_live (failure Truncated ''durable schema descriptor is malformed'')) (\<lambda>_.
     p_bind (p_require (unat type < length all_field_types) (failure Corrupt ''durable schema field type is unknown'')) (\<lambda>_.
     p_bind (p_get get_generation) (\<lambda>introduced.
     p_bind (p_get get_generation) (\<lambda>removed.
     p_bind (p_get get_boolean) (\<lambda>required.
     p_bind (p_get get_boolean) (\<lambda>irreversible.
     p_bind (p_get (get_text 96)) (\<lambda>dflt.
     p_bind (p_live (failure Truncated ''durable schema descriptor is malformed'')) (\<lambda>_.
     p_return 
       \<lparr>sf_id = id, sf_type = enum_of all_field_types type, sf_introduced_in = introduced, sf_removed_in = removed,
        sf_required = required, sf_irreversible = irreversible, sf_required_default = dflt\<rparr>))))))))))"

definition put_schema :: "SchemaDescriptor \<Rightarrow> bytes" where
  "put_schema descriptor =
     put_ident 63 (sd_id descriptor) @ put_generation (sd_generation descriptor) @
     put_range (sd_readable_formats descriptor) @ put_range (sd_writable_formats descriptor) @
     put_generation (sd_reverse_migration_to descriptor) @
     put_boolean (sd_requires_explicit_commit descriptor) @
     put_enum all_canonicalizations (sd_canonicalization descriptor) @
     put_enum all_integrities (sd_integrity descriptor) @
     put_enum all_evidence (sd_provenance descriptor) @ put_generation (sd_evidence descriptor) @
     put_text 96 (sd_notes descriptor) @ put_counted put_schema_field (sd_fields descriptor)"

definition read_schema :: "SchemaDescriptor parser" where
  "read_schema =
     p_bind (p_get (get_ident 63)) (\<lambda>id.
     p_bind (p_get get_generation) (\<lambda>generation.
     p_bind (read_range ''durable schema descriptor is malformed'') (\<lambda>readable.
     p_bind (read_range ''durable schema descriptor is malformed'') (\<lambda>writable.
     p_bind (p_get get_generation) (\<lambda>rev_to.
     p_bind (p_get get_boolean) (\<lambda>commit.
     p_bind (p_get get_u8) (\<lambda>canonicalization.
     p_bind (p_get get_u8) (\<lambda>integrity.
     p_bind (p_get get_u8) (\<lambda>provenance.
     p_bind (p_get get_generation) (\<lambda>evidence.
     p_bind (p_get (get_text 96)) (\<lambda>notes.
     p_bind (p_live (failure Truncated ''durable schema descriptor is malformed'')) (\<lambda>_.
     p_bind (p_require (unat canonicalization < length all_canonicalizations \<and> unat integrity < length all_integrities
         \<and> unat provenance < length all_evidence) (failure Corrupt ''durable schema descriptor is malformed'')) (\<lambda>_.
     p_bind (p_counted ''durable schema descriptor is malformed'' kMessageFields (read_schema_field)) (\<lambda>fields.
     p_return 
       \<lparr>sd_id = id, sd_generation = generation, sd_fields = fields, sd_readable_formats = readable,
        sd_writable_formats = writable, sd_reverse_migration_to = rev_to, sd_requires_explicit_commit = commit,
        sd_canonicalization = enum_of all_canonicalizations canonicalization,
        sd_integrity = enum_of all_integrities integrity, sd_provenance = enum_of all_evidence provenance,
        sd_evidence = evidence, sd_notes = notes\<rparr>))))))))))))))"

section \<open>Compatibility edges and feature gates\<close>

definition put_assessment :: "AspectAssessment \<Rightarrow> bytes" where
  "put_assessment assessment =
     put_enum all_outcomes (aa_outcome assessment) @ put_enum all_evidence (aa_provenance assessment) @
     put_generation (aa_evidence assessment) @ put_text 192 (aa_detail assessment)"

definition read_assessment :: "AspectAssessment parser" where
  "read_assessment =
     p_bind (p_get get_u8) (\<lambda>outcome.
     p_bind (p_get get_u8) (\<lambda>provenance.
     p_bind (p_get get_generation) (\<lambda>evidence.
     p_bind (p_get (get_text 192)) (\<lambda>dtl.
     p_bind (p_live (failure Truncated ''durable compatibility edge is malformed'')) (\<lambda>_.
     p_bind (p_require (unat outcome < length all_outcomes \<and> unat provenance < length all_evidence) (failure Corrupt ''durable compatibility edge is malformed'')) (\<lambda>_.
     p_return 
       \<lparr>aa_outcome = enum_of all_outcomes outcome, aa_provenance = enum_of all_evidence provenance,
        aa_evidence = evidence, aa_detail = dtl\<rparr>))))))"

text \<open>The array of assessments, indexed by the value of the aspect.\<close>

definition aspect_array :: "(CompatAspect \<Rightarrow> AspectAssessment) \<Rightarrow> AspectAssessment list" where
  "aspect_array f = map f all_aspects"

definition aspects_of :: "AspectAssessment list \<Rightarrow> CompatAspect \<Rightarrow> AspectAssessment" where
  "aspects_of xs a = xs ! unat (enum_raw all_aspects a)"

definition put_aspects :: "(CompatAspect \<Rightarrow> AspectAssessment) \<Rightarrow> bytes" where
  "put_aspects f = concat (map put_assessment (aspect_array f))"

definition read_aspects :: "(CompatAspect \<Rightarrow> AspectAssessment) parser" where
  "read_aspects =
     p_bind (p_many (length all_aspects) read_assessment) (\<lambda>assessments. p_return (aspects_of assessments))"

definition put_edge :: "CompatibilityEdge \<Rightarrow> bytes" where
  "put_edge edge =
     put_generation (ed_from edge) @ put_generation (ed_to edge) @ put_aspects (ed_aspects edge) @
     put_u16 (ed_permissions edge) @ put_generation (ed_generation edge) @
     put_generation (ed_evidence edge) @ put_generation (ed_epoch edge) @
     put_boolean (ed_requires_feature_gate edge) @ put_ident 63 (ed_gate edge) @
     put_generation (ed_gate_generation edge) @ put_boolean (ed_requires_protocol_downgrade edge) @
     put_generation (ed_downgrade_to edge) @ put_boolean (ed_requires_state_translation edge) @
     put_ident 63 (ed_migration edge) @ put_generation (ed_migration_generation edge)"

definition read_edge :: "CompatibilityEdge parser" where
  "read_edge =
     p_bind (p_get get_generation) (\<lambda>from.
     p_bind (p_get get_generation) (\<lambda>to.
     p_bind (read_aspects) (\<lambda>aspects.
     p_bind (p_get get_u16) (\<lambda>permissions.
     p_bind (p_get get_generation) (\<lambda>generation.
     p_bind (p_get get_generation) (\<lambda>evidence.
     p_bind (p_get get_generation) (\<lambda>epoch.
     p_bind (p_get get_boolean) (\<lambda>needs_gate.
     p_bind (p_get (get_ident 63)) (\<lambda>gate.
     p_bind (p_get get_generation) (\<lambda>gate_generation.
     p_bind (p_get get_boolean) (\<lambda>needs_downgrade.
     p_bind (p_get get_generation) (\<lambda>downgrade_to.
     p_bind (p_get get_boolean) (\<lambda>needs_translation.
     p_bind (p_get (get_ident 63)) (\<lambda>migration.
     p_bind (p_get get_generation) (\<lambda>migration_generation.
     p_bind (p_live (failure Truncated ''durable compatibility edge is malformed'')) (\<lambda>_.
     p_return 
       \<lparr>ed_from = from, ed_to = to, ed_aspects = aspects, ed_permissions = permissions, ed_generation = generation,
        ed_evidence = evidence, ed_epoch = epoch, ed_requires_feature_gate = needs_gate, ed_gate = gate,
        ed_gate_generation = gate_generation, ed_requires_protocol_downgrade = needs_downgrade,
        ed_downgrade_to = downgrade_to, ed_requires_state_translation = needs_translation, ed_migration = migration,
        ed_migration_generation = migration_generation\<rparr>))))))))))))))))"

definition put_gate :: "FeatureGate \<Rightarrow> bytes" where
  "put_gate gate =
     put_ident 63 (fg_id gate) @ put_generation (fg_generation gate) @
     put_generation (fg_min_runtime_generation gate) @
     put_generation (fg_min_protocol_generation gate) @ put_generation (fg_min_schema_generation gate) @
     put_enum all_aspects (fg_required_peer_aspect gate) @
     put_enum all_outcomes (fg_required_peer_outcome gate) @ put_ident 63 (fg_scope gate) @
     put_boolean (fg_enabled gate) @ put_ident 63 (fg_enabled_by gate) @
     put_generation (fg_enabled_at gate) @ put_enum all_evidence (fg_provenance gate) @
     put_generation (fg_evidence gate) @ put_text 96 (fg_notes gate)"

definition read_gate :: "FeatureGate parser" where
  "read_gate =
     p_bind (p_get (get_ident 63)) (\<lambda>id.
     p_bind (p_get get_generation) (\<lambda>generation.
     p_bind (p_get get_generation) (\<lambda>min_runtime.
     p_bind (p_get get_generation) (\<lambda>min_protocol.
     p_bind (p_get get_generation) (\<lambda>min_schema.
     p_bind (p_get get_u8) (\<lambda>aspect.
     p_bind (p_get get_u8) (\<lambda>outcome.
     p_bind (p_get (get_ident 63)) (\<lambda>scope.
     p_bind (p_get get_boolean) (\<lambda>enabled.
     p_bind (p_get (get_ident 63)) (\<lambda>enabled_by.
     p_bind (p_get get_generation) (\<lambda>enabled_at.
     p_bind (p_get get_u8) (\<lambda>provenance.
     p_bind (p_get get_generation) (\<lambda>evidence.
     p_bind (p_get (get_text 96)) (\<lambda>notes.
     p_bind (p_live (failure Truncated ''durable feature gate is malformed'')) (\<lambda>_.
     p_bind (p_require (unat aspect < length all_aspects \<and> unat outcome < length all_outcomes \<and> unat provenance < length all_evidence) (failure Corrupt ''durable feature gate is malformed'')) (\<lambda>_.
     p_return 
       \<lparr>fg_id = id, fg_generation = generation, fg_min_runtime_generation = min_runtime,
        fg_min_protocol_generation = min_protocol, fg_min_schema_generation = min_schema,
        fg_required_peer_aspect = enum_of all_aspects aspect, fg_required_peer_outcome = enum_of all_outcomes outcome,
        fg_scope = scope, fg_enabled = enabled, fg_enabled_by = enabled_by, fg_enabled_at = enabled_at,
        fg_provenance = enum_of all_evidence provenance, fg_evidence = evidence, fg_notes = notes\<rparr>))))))))))))))))"

section \<open>Plans and stage records\<close>

definition put_stage_record :: "PlanStageRecord \<Rightarrow> bytes" where
  "put_stage_record record =
     put_ident 63 (sr_stage_id record) @ put_enum all_stages (sr_stage record) @
     put_generation (sr_generation record) @ put_generation (sr_epoch record) @
     put_generation (sr_coordinator_epoch record) @ put_generation (sr_evidence record) @
     put_boolean (sr_completed record) @ put_text 96 (sr_note record)"

definition read_stage_record :: "PlanStageRecord parser" where
  "read_stage_record =
     p_bind (p_get (get_ident 63)) (\<lambda>stage_id.
     p_bind (p_get get_u8) (\<lambda>stage.
     p_bind (p_get get_generation) (\<lambda>generation.
     p_bind (p_get get_generation) (\<lambda>epoch.
     p_bind (p_get get_generation) (\<lambda>coordinator.
     p_bind (p_get get_generation) (\<lambda>evidence.
     p_bind (p_get get_boolean) (\<lambda>completed.
     p_bind (p_get (get_text 96)) (\<lambda>nte.
     p_bind (p_live (failure Truncated ''durable stage record is malformed'')) (\<lambda>_.
     p_bind (p_require (unat stage < length all_stages) (failure Corrupt ''durable stage record is malformed'')) (\<lambda>_.
     p_return 
       \<lparr>sr_stage_id = stage_id, sr_stage = enum_of all_stages stage, sr_generation = generation, sr_epoch = epoch,
        sr_coordinator_epoch = coordinator, sr_evidence = evidence, sr_completed = completed, sr_note = nte\<rparr>))))))))))"

definition put_policy :: "RolloutPolicy \<Rightarrow> bytes" where
  "put_policy policy =
     put_boolean (require_canary policy) @ put_boolean (require_mixed_version_cohort policy) @
     put_boolean (require_migration_barrier policy) @ put_boolean (require_new_writer_barrier policy) @
     put_boolean (require_old_writer_drain policy) @ put_boolean (require_rollback_proof policy) @
     put_generation (rp_generation policy)"

definition read_policy :: "RolloutPolicy parser" where
  "read_policy =
     p_bind (p_get get_boolean) (\<lambda>canary.
     p_bind (p_get get_boolean) (\<lambda>mixed.
     p_bind (p_get get_boolean) (\<lambda>barrier.
     p_bind (p_get get_boolean) (\<lambda>writer_barrier.
     p_bind (p_get get_boolean) (\<lambda>drain.
     p_bind (p_get get_boolean) (\<lambda>prf.
     p_bind (p_get get_generation) (\<lambda>generation.
     p_return 
       \<lparr>require_canary = canary, require_mixed_version_cohort = mixed, require_migration_barrier = barrier,
        require_new_writer_barrier = writer_barrier, require_old_writer_drain = drain, require_rollback_proof = prf,
        rp_generation = generation\<rparr>)))))))"

definition read_cohort :: "ident parser" where
  "read_cohort =
     p_bind (p_get (get_ident 63)) (\<lambda>cohort.
     p_bind (p_live (failure Truncated ''durable evolution plan is malformed'')) (\<lambda>_.
     p_return cohort))"

definition put_plan :: "EvolutionPlan \<Rightarrow> bytes" where
  "put_plan plan =
     put_ident 63 (ep_id plan) @ put_generation (ep_generation plan) @
     put_ident 63 (ep_component plan) @ put_generation (ep_current_generation plan) @
     put_generation (ep_candidate_generation plan) @ put_generation (ep_matrix_generation plan) @
     put_generation (ep_protocol_generation plan) @ put_generation (ep_schema_generation plan) @
     put_generation (ep_gate_generation plan) @ put_ident 63 (ep_migration plan) @
     put_generation (ep_migration_generation plan) @ put_generation (ep_migration_source plan) @
     put_generation (ep_migration_target plan) @ put_generation (ep_rollback_target plan) @
     put_generation (ep_rollback_generation plan) @ put_boolean (ep_rollback_barrier_crossed plan) @
     put_counted put_required_evidence (ep_required_evidence plan) @
     put_generation (ep_coordinator_epoch plan) @ put_generation (ep_epoch plan) @
     put_enum all_stages (ep_stage plan) @ put_generation (ep_stage_generation plan) @
     put_u32 (of_nat (length (ep_cohorts plan))) @ concat (map (put_ident 63) (ep_cohorts plan)) @
     put_ident 63 (ep_canary_cohort plan) @ put_boolean (ep_new_writer_enabled plan) @
     put_policy (ep_policy plan) @ put_counted put_stage_record (ep_history plan) @
     put_boolean (ep_superseded plan) @ put_generation (ep_evidence plan) @ put_text 192 (ep_detail plan)"

definition read_plan :: "EvolutionPlan parser" where
  "read_plan =
     p_bind (p_get (get_ident 63)) (\<lambda>id.
     p_bind (p_get get_generation) (\<lambda>generation.
     p_bind (p_get (get_ident 63)) (\<lambda>component.
     p_bind (p_get get_generation) (\<lambda>cur.
     p_bind (p_get get_generation) (\<lambda>candidate.
     p_bind (p_get get_generation) (\<lambda>matrix.
     p_bind (p_get get_generation) (\<lambda>protocol.
     p_bind (p_get get_generation) (\<lambda>schema.
     p_bind (p_get get_generation) (\<lambda>gate.
     p_bind (p_get (get_ident 63)) (\<lambda>migration.
     p_bind (p_get get_generation) (\<lambda>migration_generation.
     p_bind (p_get get_generation) (\<lambda>source.
     p_bind (p_get get_generation) (\<lambda>target.
     p_bind (p_get get_generation) (\<lambda>rollback_target.
     p_bind (p_get get_generation) (\<lambda>rollback_generation.
     p_bind (p_get get_boolean) (\<lambda>crossed.
     p_bind (p_counted ''durable evolution plan is malformed'' kExplanationLines (read_required_evidence ''durable evolution plan is malformed'')) (\<lambda>required.
     p_bind (p_get get_generation) (\<lambda>coordinator.
     p_bind (p_get get_generation) (\<lambda>epoch.
     p_bind (p_get get_u8) (\<lambda>stage.
     p_bind (p_get get_generation) (\<lambda>stage_generation.
     p_bind (p_get get_u32) (\<lambda>cohorr_count.
     p_bind (p_live (failure Truncated ''durable evolution plan is malformed'')) (\<lambda>_.
     p_bind (p_require (unat stage < length all_stages) (failure Corrupt ''durable evolution plan is malformed'')) (\<lambda>_.
     p_bind (p_require (unat cohorr_count \<le> kCohorts) (failure Corrupt ''durable evolution plan is malformed'')) (\<lambda>_.
     p_bind (p_many (unat cohorr_count) read_cohort) (\<lambda>cohorts.
     p_bind (p_get (get_ident 63)) (\<lambda>canary.
     p_bind (p_get get_boolean) (\<lambda>new_writer.
     p_bind (read_policy) (\<lambda>policy.
     p_bind (p_counted ''durable evolution plan is malformed'' kStageHistory (read_stage_record)) (\<lambda>history.
     p_bind (p_get get_boolean) (\<lambda>superseded.
     p_bind (p_get get_generation) (\<lambda>evidence.
     p_bind (p_get (get_text 192)) (\<lambda>dtl.
     p_bind (p_live (failure Truncated ''durable evolution plan is malformed'')) (\<lambda>_.
     p_return 
       \<lparr>ep_id = id, ep_generation = generation, ep_component = component, ep_current_generation = cur,
        ep_candidate_generation = candidate, ep_matrix_generation = matrix, ep_protocol_generation = protocol,
        ep_schema_generation = schema, ep_gate_generation = gate, ep_migration = migration,
        ep_migration_generation = migration_generation, ep_migration_source = source, ep_migration_target = target,
        ep_rollback_target = rollback_target, ep_rollback_generation = rollback_generation,
        ep_rollback_barrier_crossed = crossed, ep_required_evidence = required, ep_coordinator_epoch = coordinator,
        ep_epoch = epoch, ep_stage = enum_of all_stages stage, ep_stage_generation = stage_generation,
        ep_cohorts = cohorts, ep_canary_cohort = canary, ep_new_writer_enabled = new_writer, ep_policy = policy,
        ep_history = history, ep_superseded = superseded, ep_evidence = evidence, ep_detail = dtl\<rparr>))))))))))))))))))))))))))))))))))"


section \<open>Well-formed records are recovered\<close>

subsection \<open>Shared parts\<close>

lemma gs_add_append:
  assumes "gs_inv (gs @ [v])"
  shows "gs_add gs v = (True, gs @ [v])"
proof -
  from assms have below: "x < v" if "x \<in> set gs" for x using that by (auto simp: gs_inv_def sorted_wrt_append)
  then have "gs_scan gs v = length gs" by (induction gs) auto
  with assms show ?thesis by (auto simp: gs_add_def gs_inv_def gen_is_set_def)
qed

lemma parses_add_generation:
  assumes "gs_inv (gs @ [v])"
  shows "parses (add_generation what gs) (put_generation v) (gs @ [v])"
  unfolding add_generation_def
  by (rule parses_end, (rule parse_steps)+, rule parses_return) (simp_all add: gs_add_append [OF assms])

lemma gs_inv_prefix: "gs_inv (us @ ws) \<Longrightarrow> gs_inv us"
  by (auto simp: gs_inv_def sorted_wrt_append)

lemma parses_generations:
  assumes "gs_inv gs"
  shows "parses (read_generations what) (put_generations gs) gs"
proof -
  have n: "unat (of_nat (length gs) :: u8) = length gs" "length gs \<le> kMaxGenerationsPerSet"
    using assms by (simp_all add: gs_inv_def kMaxGenerationsPerSet_def unat_of_nat)
  have fold: "parses (p_fold (length gs) (add_generation what) []) (concat (map put_generation gs)) gs"
  proof (rule parses_fold [where F = "\<lambda>us. us"])
    fix us v ws
    assume "gs = us @ v # ws"
    then have "gs_inv (us @ [v])" using assms gs_inv_prefix [of "us @ [v]" ws] by simp
    then show "parses (add_generation what us) (put_generation v) (us @ [v])" by (rule parses_add_generation)
  qed
  show ?thesis unfolding read_generations_def put_generations_def
    by (rule parses_end, simp only: append_assoc, (rule parse_steps)+, rule parses_step [where a = gs],
        (rule parse_steps)+, rule parses_return) (simp_all add: n fold)
qed

definition range_wf :: "gen_range \<Rightarrow> bool" where
  "range_wf rng \<longleftrightarrow> gen_is_set (range_min rng) = gen_is_set (range_max rng) \<and> (range_is_set rng \<longrightarrow> range_is_valid rng)"

lemma parses_range: "range_wf rng \<Longrightarrow> parses (read_range what) (put_range rng) rng"
  unfolding read_range_def put_range_def
  by (rule parses_end, simp only: append_assoc, (rule parse_steps)+, rule parses_return)
    (simp_all add: range_wf_def range_is_set_def range_is_valid_def)

definition version_wf :: "RuntimeVersionId \<Rightarrow> bool" where
  "version_wf v \<longleftrightarrow> ident_ok 63 (build (artifact v))"

lemma parses_version: "version_wf v \<Longrightarrow> parses (read_version what) (put_version v) v"
  unfolding read_version_def put_version_def
  by (rule parses_end, simp only: append_assoc, (rule parse_steps)+, rule parses_return)
    (simp_all add: version_wf_def)

definition required_evidence_wf :: "RequiredEvidence \<Rightarrow> bool" where
  "required_evidence_wf e \<longleftrightarrow> text_ok 192 (re_description e)"

lemma parses_required_evidence:
  "required_evidence_wf e \<Longrightarrow> parses (read_required_evidence what) (put_required_evidence e) e"
  unfolding read_required_evidence_def put_required_evidence_def
  by (rule parses_end, simp only: append_assoc, (rule parse_steps)+, rule parses_return)
    (simp_all add: required_evidence_wf_def)

definition feature_support_wf :: "FeatureSupport \<Rightarrow> bool" where
  "feature_support_wf f \<longleftrightarrow> ident_ok 63 (fs_feature f)"

lemma parses_feature_support:
  "feature_support_wf f \<Longrightarrow> parses (read_feature_support what) (put_feature_support f) f"
  unfolding read_feature_support_def put_feature_support_def
  by (rule parses_end, simp only: append_assoc, (rule parse_steps)+, rule parses_return)
    (simp_all add: feature_support_wf_def)

definition migration_capability_wf :: "MigrationCapability \<Rightarrow> bool" where
  "migration_capability_wf m \<longleftrightarrow> ident_ok 63 (mc_id m) \<and> ident_ok 63 (mc_schema m)"

lemma parses_migration_capability:
  "migration_capability_wf m \<Longrightarrow> parses (read_migration_capability what) (put_migration_capability m) m"
  unfolding read_migration_capability_def put_migration_capability_def
  by (rule parses_end, simp only: append_assoc, (rule parse_steps)+, rule parses_return)
    (simp_all add: migration_capability_wf_def)

definition peer_requirement_wf :: "PeerRequirement \<Rightarrow> bool" where
  "peer_requirement_wf p \<longleftrightarrow> ident_ok 63 (pr_peer p) \<and> range_wf (pr_generations p)"

lemmas part_steps [parse_steps] = parses_step [OF _ parses_range] parses_step [OF _ parses_version]
  parses_step [OF _ parses_generations]

lemmas parse_intros = parse_steps counted_step [where cap = kMessageFields]
  counted_step [where cap = kFeatureGates] counted_step [where cap = kRuntimeComponents]
  counted_step [where cap = kMessageTypes] counted_step [where cap = kExplanationLines]
  counted_step [where cap = kStageHistory]

lemma parses_peer_requirement:
  "peer_requirement_wf p \<Longrightarrow> parses (read_peer_requirement what) (put_peer_requirement p) p"
  unfolding read_peer_requirement_def put_peer_requirement_def
  by (rule parses_end, simp only: append_assoc, (rule parse_steps)+, rule parses_return)
    (simp_all add: peer_requirement_wf_def)

subsection \<open>Component versions\<close>

definition component_version_wf :: "RuntimeComponentVersion \<Rightarrow> bool" where
  "component_version_wf v \<longleftrightarrow>
     ident_ok 63 (rv_component v) \<and> version_wf (rv_version v)
     \<and> gs_inv (ps_supported (rv_protocols v)) \<and> gs_inv (ps_readable (rv_protocols v))
     \<and> gs_inv (ps_writable (rv_protocols v))
     \<and> gs_inv (ss_supported (rv_schemas v)) \<and> gs_inv (ss_readable (rv_schemas v))
     \<and> gs_inv (ss_writable (rv_schemas v)) \<and> gs_inv (ss_readable_formats (rv_schemas v))
     \<and> gs_inv (ss_writable_formats (rv_schemas v))
     \<and> length (rv_migrations v) \<le> kMessageFields \<and> (\<forall>m\<in>set (rv_migrations v). migration_capability_wf m)
     \<and> range_wf (rc_target_window (rv_rollback v))
     \<and> length (rv_features v) \<le> kFeatureGates \<and> (\<forall>f\<in>set (rv_features v). feature_support_wf f)
     \<and> length (rv_peers v) \<le> kRuntimeComponents \<and> (\<forall>p\<in>set (rv_peers v). peer_requirement_wf p)
     \<and> range_wf (rv_compatible_generations v) \<and> text_ok 96 (rv_notes v)"

lemma parses_component_version:
  "component_version_wf v \<Longrightarrow> parses read_component_version (put_component_version v) v"
  unfolding read_component_version_def put_component_version_def
  by (rule parses_end, simp only: append_assoc, (rule parse_intros)+, rule parses_return)
    (simp_all add: component_version_wf_def limit_defs parses_migration_capability parses_feature_support
      parses_peer_requirement)


subsection \<open>Protocol and schema descriptors\<close>

definition field_descriptor_wf :: "FieldDescriptor \<Rightarrow> bool" where
  "field_descriptor_wf f \<longleftrightarrow> ident_ok 63 (fd_id f)"

definition message_descriptor_wf :: "MessageTypeDescriptor \<Rightarrow> bool" where
  "message_descriptor_wf m \<longleftrightarrow> ident_ok 63 (md_id m) \<and> length (md_fields m) \<le> kMessageFields
     \<and> (\<forall>f\<in>set (md_fields m). field_descriptor_wf f)"

definition protocol_wf :: "ProtocolDescriptor \<Rightarrow> bool" where
  "protocol_wf d \<longleftrightarrow> ident_ok 63 (pd_id d) \<and> text_ok 96 (pd_notes d) \<and> length (pd_messages d) \<le> kMessageTypes
     \<and> (\<forall>m\<in>set (pd_messages d). message_descriptor_wf m)"

lemma parses_field_descriptor: "field_descriptor_wf f \<Longrightarrow> parses read_field_descriptor (put_field_descriptor f) f"
  unfolding read_field_descriptor_def put_field_descriptor_def
  by (rule parses_end, simp only: append_assoc, (rule parse_intros)+, rule parses_return)
    (simp_all add: field_descriptor_wf_def)

lemma parses_message_descriptor:
  "message_descriptor_wf m \<Longrightarrow> parses read_message_descriptor (put_message_descriptor m) m"
  unfolding read_message_descriptor_def put_message_descriptor_def
  by (rule parses_end, simp only: append_assoc, (rule parse_intros)+, rule parses_return)
    (simp_all add: message_descriptor_wf_def limit_defs parses_field_descriptor)

lemma parses_protocol: "protocol_wf d \<Longrightarrow> parses read_protocol (put_protocol d) d"
  unfolding read_protocol_def put_protocol_def
  by (rule parses_end, simp only: append_assoc, (rule parse_intros)+, rule parses_return)
    (simp_all add: protocol_wf_def limit_defs parses_message_descriptor)

definition schema_field_wf :: "SchemaField \<Rightarrow> bool" where
  "schema_field_wf f \<longleftrightarrow> ident_ok 63 (sf_id f) \<and> text_ok 96 (sf_required_default f)"

definition schema_wf :: "SchemaDescriptor \<Rightarrow> bool" where
  "schema_wf d \<longleftrightarrow> ident_ok 63 (sd_id d) \<and> range_wf (sd_readable_formats d) \<and> range_wf (sd_writable_formats d)
     \<and> text_ok 96 (sd_notes d) \<and> length (sd_fields d) \<le> kMessageFields \<and> (\<forall>f\<in>set (sd_fields d). schema_field_wf f)"

lemma parses_schema_field: "schema_field_wf f \<Longrightarrow> parses read_schema_field (put_schema_field f) f"
  unfolding read_schema_field_def put_schema_field_def
  by (rule parses_end, simp only: append_assoc, (rule parse_intros)+, rule parses_return)
    (simp_all add: schema_field_wf_def)

lemma parses_schema: "schema_wf d \<Longrightarrow> parses read_schema (put_schema d) d"
  unfolding read_schema_def put_schema_def
  by (rule parses_end, simp only: append_assoc, (rule parse_intros)+, rule parses_return)
    (simp_all add: schema_wf_def limit_defs parses_schema_field)


subsection \<open>Edges and gates\<close>

definition edge_wf :: "CompatibilityEdge \<Rightarrow> bool" where
  "edge_wf e \<longleftrightarrow> ident_ok 63 (ed_gate e) \<and> ident_ok 63 (ed_migration e)
     \<and> (\<forall>a\<in>set all_aspects. text_ok 192 (aa_detail (ed_aspects e a)))"

lemma parses_assessment: "text_ok 192 (aa_detail x) \<Longrightarrow> parses read_assessment (put_assessment x) x"
  unfolding read_assessment_def put_assessment_def
  by (rule parses_end, simp only: append_assoc, (rule parse_intros)+, rule parses_return) simp_all

lemma aspects_of_array: "aspects_of (aspect_array f) = f"
proof
  fix a
  have "aspect_array f ! unat (enum_raw all_aspects a) = f (enum_of all_aspects (enum_raw all_aspects a))"
    by (simp add: aspect_array_def enum_of_def del: raw_aspects.of_raw)
  then show "aspects_of (aspect_array f) a = f a" by (simp add: aspects_of_def)
qed

lemma parses_aspects:
  assumes "\<And>a. a \<in> set all_aspects \<Longrightarrow> text_ok 192 (aa_detail (f a))"
  shows "parses read_aspects (put_aspects f) f"
proof -
  have "parses (p_many (length (aspect_array f)) read_assessment) (concat (map put_assessment (aspect_array f)))
      (aspect_array f)"
    by (rule parses_many) (auto simp: aspect_array_def intro!: parses_assessment assms)
  from parses_bind [where f = "\<lambda>xs. p_return (aspects_of xs)", OF this parses_return [OF aspects_of_array]]
  show ?thesis by (simp add: read_aspects_def put_aspects_def aspect_array_def)
qed

lemma parses_edge: "edge_wf e \<Longrightarrow> parses read_edge (put_edge e) e"
  unfolding read_edge_def put_edge_def
  by (rule parses_end, simp only: append_assoc, (rule parse_intros)+, rule parses_step [OF _ parses_aspects],
      (rule parse_intros)+, rule parses_return) (simp_all add: edge_wf_def)

definition gate_wf :: "FeatureGate \<Rightarrow> bool" where
  "gate_wf g \<longleftrightarrow> ident_ok 63 (fg_id g) \<and> ident_ok 63 (fg_scope g) \<and> ident_ok 63 (fg_enabled_by g)
     \<and> text_ok 96 (fg_notes g)"

lemma parses_gate: "gate_wf g \<Longrightarrow> parses read_gate (put_gate g) g"
  unfolding read_gate_def put_gate_def
  by (rule parses_end, simp only: append_assoc, (rule parse_intros)+, rule parses_return)
    (simp_all add: gate_wf_def)


subsection \<open>Plans\<close>

definition stage_record_wf :: "PlanStageRecord \<Rightarrow> bool" where
  "stage_record_wf s \<longleftrightarrow> ident_ok 63 (sr_stage_id s) \<and> text_ok 96 (sr_note s)"

lemma parses_stage_record: "stage_record_wf s \<Longrightarrow> parses read_stage_record (put_stage_record s) s"
  unfolding read_stage_record_def put_stage_record_def
  by (rule parses_end, simp only: append_assoc, (rule parse_intros)+, rule parses_return)
    (simp_all add: stage_record_wf_def)

lemma parses_policy: "parses read_policy (put_policy p) p"
  unfolding read_policy_def put_policy_def
  by (rule parses_end, simp only: append_assoc, (rule parse_intros)+, rule parses_return) simp

lemma parses_cohort: "ident_ok 63 c \<Longrightarrow> parses read_cohort (put_ident 63 c) c"
  unfolding read_cohort_def
  by (rule parses_end, (rule parse_intros)+, rule parses_return) simp_all

definition plan_wf :: "EvolutionPlan \<Rightarrow> bool" where
  "plan_wf p \<longleftrightarrow>
     ident_ok 63 (ep_id p) \<and> ident_ok 63 (ep_component p) \<and> ident_ok 63 (ep_migration p)
     \<and> ident_ok 63 (ep_canary_cohort p) \<and> text_ok 192 (ep_detail p)
     \<and> length (ep_required_evidence p) \<le> kExplanationLines
     \<and> (\<forall>e\<in>set (ep_required_evidence p). required_evidence_wf e)
     \<and> length (ep_cohorts p) \<le> kCohorts \<and> (\<forall>c\<in>set (ep_cohorts p). ident_ok 63 c)
     \<and> length (ep_history p) \<le> kStageHistory \<and> (\<forall>s\<in>set (ep_history p). stage_record_wf s)"

lemma parses_plan:
  assumes "plan_wf p"
  shows "parses read_plan (put_plan p) p"
proof -
  have n: "unat (of_nat (length (ep_cohorts p)) :: u32) = length (ep_cohorts p)" "length (ep_cohorts p) \<le> kCohorts"
    using assms by (simp_all add: plan_wf_def kCohorts_def unat_of_nat)
  have cohorts: "parses (p_many (length (ep_cohorts p)) read_cohort) (concat (map (put_ident 63) (ep_cohorts p)))
      (ep_cohorts p)"
    using assms by (intro parses_many parses_cohort) (simp add: plan_wf_def)
  show ?thesis
    unfolding read_plan_def put_plan_def
    by (rule parses_end, simp only: append_assoc, (rule parse_intros)+,
        rule parses_step [where a = "ep_cohorts p"], (rule parse_intros)+, rule parses_step [OF _ parses_policy],
        (rule parse_intros)+, rule parses_return)
      (use assms in \<open>simp_all add: n cohorts plan_wf_def limit_defs parses_required_evidence parses_stage_record\<close>)
qed

end
