(* ===== verification/Ref_Files.thy ===== *)
theory Ref_Files
  imports Ref_Codec
begin

text \<open>
  The bounded filesystem helpers of \<open>src/support.cpp\<close>: size-capped reads and atomic replacement.

  \<^item> The file system is a map from paths to contents (regular files only).  Every call that the
    helpers make to the operating system takes its fate from a script: it succeeds, it fails with
    a message (a failing write may leave a prefix of its bytes behind), or the process dies in it.
    A process that has died makes no further change; what its remaining code computes is never
    observed.  A script that has run out means that every further call succeeds.
  \<^item> Quantifying over all worlds therefore quantifies over every pattern of I/O failures and every
    point at which the process may stop.
  \<^item> The interface \<open>atomic_store\<close> is what the clients rely on: after an accepted write the path
    holds exactly the bytes written, after a failed or interrupted one exactly the bytes it held
    before, and nothing but the path and its temporary sibling is touched.
\<close>

section \<open>The operating system\<close>

datatype os_fate = Succeeds | Fails string nat | Crashes nat

record World =
  files :: "string \<Rightarrow> bytes option"
  script :: "os_fate list"
  alive :: bool

text \<open>
  One call: \<open>None\<close> when it goes through, otherwise the error message and the number of bytes a
  write may have stored before it stopped.
\<close>

definition os_call :: "World \<Rightarrow> (string \<times> nat) option \<times> World" where
  "os_call w =
     (if \<not> alive w then (Some ([], 0), w)
      else case script w of
          [] \<Rightarrow> (None, w)
        | Succeeds # s \<Rightarrow> (None, w\<lparr>script := s\<rparr>)
        | Fails msg n # s \<Rightarrow> (Some (msg, n), w\<lparr>script := s\<rparr>)
        | Crashes n # s \<Rightarrow> (Some ([], n), w\<lparr>script := s, alive := False\<rparr>))"

definition quiet :: "World \<Rightarrow> bool" where
  "quiet w \<longleftrightarrow> alive w \<and> script w = []"

lemma files_os_call [simp, frame_simps]: "files (snd (os_call w)) = files w"
  by (auto simp: os_call_def split: list.splits os_fate.splits)

lemma os_call_quiet [simp]: "quiet w \<Longrightarrow> os_call w = (None, w)"
  by (simp add: quiet_def os_call_def)

lemma quiet_files_update [simp]: "quiet (w\<lparr>files := f\<rparr>) = quiet w"
  by (simp add: quiet_def)

definition rename_call :: "string \<Rightarrow> string \<Rightarrow> World \<Rightarrow> string option \<times> World" where
  "rename_call source dest w =
     (let (err, w) = os_call w in
      case err of
        Some (msg, n) \<Rightarrow> (Some msg, w)
      | None \<Rightarrow>
          (case files w source of
             None \<Rightarrow> (Some ''No such file or directory'', w)
           | Some content \<Rightarrow> (None, w\<lparr>files := (files w)(source := None, dest := Some content)\<rparr>)))"


section \<open>The helpers\<close>

definition file_exists :: "string \<Rightarrow> World \<Rightarrow> bool \<times> World" where
  "file_exists path w =
     (let (err, w) = os_call w in (err = None \<and> files w path \<noteq> None, w))"

definition file_size_or_zero :: "string \<Rightarrow> World \<Rightarrow> nat \<times> World" where
  "file_size_or_zero path w =
     (let (err, w) = os_call w in
      if err \<noteq> None then (0, w)
      else (case files w path of None \<Rightarrow> 0 | Some content \<Rightarrow> length content, w))"

definition temp_sibling_path :: "string \<Rightarrow> string \<Rightarrow> string" where
  "temp_sibling_path path suffix = path @ ''.'' @ suffix"

definition remove_file_if_exists :: "string \<Rightarrow> World \<Rightarrow> Status \<times> World" where
  "remove_file_if_exists path w =
     (let (err, w) = os_call w in
      if err \<noteq> None then (failure IoFailure ''state file could not be removed'', w)
      else (status_ok, w\<lparr>files := (files w)(path := None)\<rparr>))"

definition rename_file :: "string \<Rightarrow> string \<Rightarrow> World \<Rightarrow> Status \<times> World" where
  "rename_file source dest w =
     (let (err, w) = rename_call source dest w in
      if err \<noteq> None then (failure IoFailure ''state file rename failed'', w) else (status_ok, w))"

text \<open>The size is taken first, then the file is opened, then (unless it is empty) read.\<close>

definition read_file_bounded :: "string \<Rightarrow> nat \<Rightarrow> World \<Rightarrow> Status \<times> bytes \<times> World" where
  "read_file_bounded path max_bytes w =
     (let (err, w) = os_call w in
      case (if err = None then files w path else None) of
        None \<Rightarrow> (failure NotFound (''state file is not readable: '' @ path), [], w)
      | Some content \<Rightarrow>
          if length content > max_bytes
            then (failure LimitExceeded ''state file exceeds the configured size bound'', [], w)
          else let (err, w) = os_call w in
            if err \<noteq> None then (failure IoFailure ''state file could not be opened'', [], w)
            else if content = [] then (status_ok, [], w)
            else let (err, w) = os_call w in
              if err \<noteq> None then (failure Truncated ''state file shrank while reading'', [], w)
              else (status_ok, content, w))"

text \<open>The bounded retry loop of the replacement; it returns the last error message.\<close>

fun rename_retry :: "nat \<Rightarrow> string \<Rightarrow> string \<Rightarrow> string \<Rightarrow> World \<Rightarrow> string option \<times> World" where
  "rename_retry 0 err source dest w = (Some err, w)"
| "rename_retry (Suc attempts) err source dest w =
     (case rename_call source dest w of
        (None, w) \<Rightarrow> (None, w)
      | (Some msg, w) \<Rightarrow> rename_retry attempts msg source dest w)"

definition write_file_atomic :: "string \<Rightarrow> bytes \<Rightarrow> World \<Rightarrow> Status \<times> World" where
  "write_file_atomic path bs w =
     (if length bs > kStateFileBytes
        then (failure LimitExceeded ''refusing to write an oversized state file'', w)
      else let temp = temp_sibling_path path ''tmp''; (err, w) = os_call w in
        if err \<noteq> None
          then (failure IoFailure (''temporary state file could not be created: '' @ temp), w)
        else let w = w\<lparr>files := (files w)(temp := Some [])\<rparr>; (err, w) = os_call w in
          case err of
            Some (msg, n) \<Rightarrow>
              let w = w\<lparr>files := (files w)(temp := Some (take n bs))\<rparr>;
                  (_, w) = remove_file_if_exists temp w
              in (failure IoFailure ''temporary state file could not be written'', w)
          | None \<Rightarrow>
              let w = w\<lparr>files := (files w)(temp := Some bs)\<rparr>;
                  (err, w) = rename_retry 8 [] temp path w
              in case err of
                   None \<Rightarrow> (status_ok, w)
                 | Some msg \<Rightarrow>
                     let (_, w) = remove_file_if_exists temp w
                     in (failure IoFailure
                           (''atomic replacement of the state file failed after retries: '' @ msg
                            @ '' ('' @ path @ '')''), w))"


section \<open>What the helpers promise\<close>

lemma files_file_exists [simp, frame_simps]: "files (snd (file_exists p w)) = files w"
  by (simp add: file_exists_def split: prod.splits) (metis files_os_call snd_conv)

lemma file_exists_true: "fst (file_exists p w) \<Longrightarrow> files w p \<noteq> None"
  by (simp add: file_exists_def split: prod.splits) (metis files_os_call snd_conv)

lemma file_exists_quiet [simp]: "quiet w \<Longrightarrow> file_exists p w = (files w p \<noteq> None, w)"
  by (simp add: file_exists_def)

lemma files_read [simp, frame_simps]: "files (snd (snd (read_file_bounded p n w))) = files w"
  unfolding read_file_bounded_def Let_def
  by (auto split: prod.splits option.splits if_splits) (metis files_os_call snd_conv)+

lemma read_ok:
  "is_ok (fst (read_file_bounded p n w)) \<Longrightarrow>
     files w p = Some (fst (snd (read_file_bounded p n w))) \<and> length (fst (snd (read_file_bounded p n w))) \<le> n"
  unfolding read_file_bounded_def Let_def
  by (auto split: prod.splits option.splits if_splits) (metis files_os_call snd_conv)+

lemma read_quiet [simp]: "quiet w \<Longrightarrow> files w p = Some c \<Longrightarrow> length c \<le> n \<Longrightarrow>
    read_file_bounded p n w = (status_ok, c, w)"
  by (simp add: read_file_bounded_def)

lemma files_remove: "q \<noteq> p \<Longrightarrow> files (snd (remove_file_if_exists p w)) q = files w q"
  by (auto simp: remove_file_if_exists_def split: prod.splits) (metis files_os_call snd_conv)+

lemma rename_call_cases:
  "fst (rename_call a b w) = None \<Longrightarrow> \<exists>c. files w a = Some c
      \<and> files (snd (rename_call a b w)) = (files w)(a := None, b := Some c)"
  "fst (rename_call a b w) \<noteq> None \<Longrightarrow> files (snd (rename_call a b w)) = files w"
  by (auto simp: rename_call_def split: prod.splits option.splits) (metis files_os_call snd_conv)+

lemma rename_retry_cases:
  "(fst (rename_retry n e a b w) = None \<longrightarrow> (\<exists>c. files w a = Some c
      \<and> files (snd (rename_retry n e a b w)) = (files w)(a := None, b := Some c)))
   \<and> (fst (rename_retry n e a b w) \<noteq> None \<longrightarrow> files (snd (rename_retry n e a b w)) = files w)"
proof (induction n e a b w rule: rename_retry.induct)
  case (2 attempts err source dest w)
  obtain e w' where call: "rename_call source dest w = (e, w')" by fastforce
  show ?case
  proof (cases e)
    case None
    with rename_call_cases(1) [of source dest w] call show ?thesis by (simp del: fun_upd_apply)
  next
    case (Some msg)
    with rename_call_cases(2) [of source dest w] call have "files w' = files w" by simp
    with "2.IH" [of "Some msg" w' msg] Some call show ?thesis by (simp del: fun_upd_apply)
  qed
qed simp

lemma rename_file_ok: "is_ok (fst (rename_file a b w)) \<Longrightarrow> \<exists>c. files w a = Some c
      \<and> files (snd (rename_file a b w)) = (files w)(a := None, b := Some c)"
  using rename_call_cases(1) [of a b w]
  by (auto simp: rename_file_def Let_def split: prod.splits if_splits)

lemma rename_file_failed: "\<not> is_ok (fst (rename_file a b w)) \<Longrightarrow> files (snd (rename_file a b w)) = files w"
  using rename_call_cases(2) [of a b w]
  by (auto simp: rename_file_def Let_def split: prod.splits if_splits)

lemma rename_file_quiet: "quiet w \<Longrightarrow> files w a = Some c \<Longrightarrow>
    rename_file a b w = (status_ok, w\<lparr>files := (files w)(a := None, b := Some c)\<rparr>)"
  by (simp add: rename_file_def rename_call_def)

locale atomic_store =
  fixes put :: "string \<Rightarrow> bytes \<Rightarrow> World \<Rightarrow> Status \<times> World"
    and temp :: "string \<Rightarrow> string"
  assumes committed: "is_ok (fst (put p bs w)) \<Longrightarrow> files (snd (put p bs w)) p = Some bs"
    and rejected: "\<not> is_ok (fst (put p bs w)) \<Longrightarrow> files (snd (put p bs w)) p = files w p"
    and untouched: "q \<noteq> p \<Longrightarrow> q \<noteq> temp p \<Longrightarrow> files (snd (put p bs w)) q = files w q"
    and progress: "quiet w \<Longrightarrow> length bs \<le> kStateFileBytes \<Longrightarrow>
      is_ok (fst (put p bs w)) \<and> quiet (snd (put p bs w))"
begin

lemma old_or_new: "files (snd (put p bs w)) p \<in> {files w p, Some bs}"
  using committed [of p bs w] rejected [of p bs w] by blast

end

lemma temp_sibling_neq [simp]: "temp_sibling_path p s \<noteq> p" "p \<noteq> temp_sibling_path p s"
  by (simp_all add: temp_sibling_path_def)

lemma files_os_call': "os_call w = (e, w') \<Longrightarrow> files w' = files w"
  using files_os_call [of w] by simp

lemma files_remove': "remove_file_if_exists p w = (s, w') \<Longrightarrow> q \<noteq> p \<Longrightarrow> files w' q = files w q"
  using files_remove [of q p w] by simp

lemma write_cases:
  fixes p bs w
  defines "t \<equiv> temp_sibling_path p ''tmp''" and "r \<equiv> write_file_atomic p bs w"
  shows "is_ok (fst r) \<and> files (snd r) = (files w)(t := None, p := Some bs)
    \<or> \<not> is_ok (fst r) \<and> (\<forall>q. q \<noteq> t \<longrightarrow> files (snd r) q = files w q)"
proof (cases "length bs > kStateFileBytes")
  case small: False
  obtain e1 w1 where c1: "os_call w = (e1, w1)" by fastforce
  then have f1: "files w1 = files w" by (rule files_os_call')
  obtain e2 w2 where c2: "os_call (w1\<lparr>files := (files w1)(t := Some [])\<rparr>) = (e2, w2)" by fastforce
  then have f2: "files w2 = (files w)(t := Some [])" using f1 files_os_call' by fastforce
  obtain e3 w3 where c3: "rename_retry 8 [] t p (w2\<lparr>files := (files w2)(t := Some bs)\<rparr>) = (e3, w3)" by fastforce
  note retry = rename_retry_cases [of 8 "[]" t p "w2\<lparr>files := (files w2)(t := Some bs)\<rparr>"]
  show ?thesis
  proof (cases "e1 = None")
    case created: True
    show ?thesis
    proof (cases e2)
      case None
      show ?thesis
      proof (cases e3)
        case renamed: None
        with retry c3 f2 have "files w3 = (files w)(t := None, p := Some bs)" by (auto simp: t_def)
        with renamed None created small show ?thesis
          by (simp add: r_def write_file_atomic_def t_def [symmetric] c1 c2 c3)
      next
        case (Some msg)
        with retry c3 f2 have "files w3 = (files w)(t := Some bs)" by simp
        moreover obtain s4 w4 where c4: "remove_file_if_exists t w3 = (s4, w4)" by fastforce
        ultimately have "\<forall>q. q \<noteq> t \<longrightarrow> files w4 q = files w q" using files_remove' by fastforce
        with Some None created small show ?thesis
          by (simp add: r_def write_file_atomic_def t_def [symmetric] c1 c2 c3 c4)
      qed
    next
      case (Some err)
      obtain msg n where err: "err = (msg, n)" by fastforce
      obtain s4 w4 where c4: "remove_file_if_exists t (w2\<lparr>files := (files w2)(t := Some (take n bs))\<rparr>) = (s4, w4)"
        by fastforce
      then have "\<forall>q. q \<noteq> t \<longrightarrow> files w4 q = files w q" using f2 files_remove' by fastforce
      with Some err created small show ?thesis
        by (simp add: r_def write_file_atomic_def t_def [symmetric] c1 c2 c4)
    qed
  next
    case False
    with small f1 show ?thesis by (simp add: r_def write_file_atomic_def c1)
  qed
qed (simp add: r_def write_file_atomic_def)

lemma write_quiet:
  assumes "quiet w" and "length bs \<le> kStateFileBytes"
  shows "write_file_atomic p bs w =
    (status_ok, w\<lparr>files := (files w)(temp_sibling_path p ''tmp'' := None, p := Some bs)\<rparr>)"
proof -
  have "rename_retry 8 [] t p (w\<lparr>files := f\<rparr>) = (None, w\<lparr>files := f(t := None, p := Some c)\<rparr>)"
    if "f t = Some c" for f t c
    using that assms(1) by (simp add: rename_call_def eval_nat_numeral)
  with assms show ?thesis by (simp add: write_file_atomic_def)
qed

interpretation atomic: atomic_store write_file_atomic "\<lambda>p. temp_sibling_path p ''tmp''"
proof
  fix p bs w q
  note cases = write_cases [of p bs w]
  show "is_ok (fst (write_file_atomic p bs w)) \<Longrightarrow> files (snd (write_file_atomic p bs w)) p = Some bs"
    using cases by auto
  show "\<not> is_ok (fst (write_file_atomic p bs w)) \<Longrightarrow> files (snd (write_file_atomic p bs w)) p = files w p"
    using cases by auto
  show "q \<noteq> p \<Longrightarrow> q \<noteq> temp_sibling_path p ''tmp'' \<Longrightarrow> files (snd (write_file_atomic p bs w)) q = files w q"
    using cases by auto
  show "quiet w \<Longrightarrow> length bs \<le> kStateFileBytes \<Longrightarrow>
      is_ok (fst (write_file_atomic p bs w)) \<and> quiet (snd (write_file_atomic p bs w))"
    using write_quiet [of w bs p] by simp
qed

end
