(* ===== verification/Ref_Fields.thy ===== *)
theory Ref_Fields
  imports Ref_Codec
begin

text \<open>
  Vectors of named fields.  State objects (\<open>src/migration.cpp\<close>) and wire messages (\<open>src/wire.cpp\<close>)
  keep their fields in a vector that is sorted by name, search it with \<open>std::lower_bound\<close>, bound it
  by 64 fields, and are encoded and decoded field by field.  What the two classes have in common is
  stated here once: the interface \<open>named_fields\<close> gives their meaning as finite maps, and
  \<open>field_codec\<close> gives the round trip of the whole vector from that of a single field.
\<close>

text \<open>\<open>std::lower_bound\<close> on a vector that is sorted by name: the number of entries before the position.\<close>

definition lower_bound :: "('v \<Rightarrow> ident) \<Rightarrow> ident \<Rightarrow> 'v list \<Rightarrow> nat" where
  "lower_bound nm name obj = length (takeWhile (\<lambda>e. nm e < name) obj)"

definition fields_inv :: "('v \<Rightarrow> ident) \<Rightarrow> ('v \<Rightarrow> bool) \<Rightarrow> 'v list \<Rightarrow> bool" where
  "fields_inv nm ok obj \<longleftrightarrow> om_ok (keyed nm obj) \<and> length obj \<le> kMessageFields \<and> list_all ok obj"

text \<open>The loop that decodes a counted sequence of fields, stopping at the first failure.\<close>

fun decode_loop :: "(ByteReader \<Rightarrow> 'o \<Rightarrow> Status \<times> ByteReader \<times> 'o) \<Rightarrow> nat \<Rightarrow> ByteReader \<Rightarrow> 'o
    \<Rightarrow> Status \<times> ByteReader \<times> 'o" where
  "decode_loop step 0 r obj = (status_ok, r, obj)"
| "decode_loop step (Suc n) r obj =
     (let (status, r, obj) = step r obj in
      if is_failure status then (status, r, obj) else decode_loop step n r obj)"

lemma decode_loop_inv:
  assumes "\<And>r obj. P obj \<Longrightarrow> P (snd (snd (step r obj)))"
  shows "P obj \<Longrightarrow> P (snd (snd (decode_loop step n r obj)))"
proof (induction n arbitrary: r obj)
  case (Suc n)
  then show ?case using assms [of obj r] by (cases "step r obj") simp
qed simp

lemma lower_bound_Nil [simp]: "lower_bound nm n [] = 0"
  by (simp add: lower_bound_def)

lemma lower_bound_Cons:
  "lower_bound nm n (v # obj) = (if nm v < n then Suc (lower_bound nm n obj) else 0)"
  by (simp add: lower_bound_def)

lemma lower_bound_le: "lower_bound nm n obj \<le> length obj"
  by (simp add: lower_bound_def length_takeWhile_le)

lemma map_snd_keyed [simp]: "map snd (keyed nm obj) = obj"
  by (simp add: keyed_def comp_def)

lemma length_keyed: "length obj = om_size (keyed nm obj)"
  by (simp add: om_size_def keyed_def)

lemma keyed_upd: "keyed nm (map snd (om_upd (nm v) v (keyed nm obj))) = om_upd (nm v) v (keyed nm obj)"
  by (induction obj) auto

lemma keyed_del: "keyed nm (map snd (om_del n (keyed nm obj))) = om_del n (keyed nm obj)"
  by (induction obj) (auto simp: keyed_def)

lemma list_all_upd: "list_all P (map snd m) \<Longrightarrow> P v \<Longrightarrow> list_all P (map snd (om_upd k v m))"
  by (induction k v m rule: om_upd.induct) auto

lemma list_all_del: "list_all P (map snd m) \<Longrightarrow> list_all P (map snd (om_del k m))"
  by (induction k m rule: om_del.induct) auto

lemma replace_or_insert_om:
  fixes nm obj v
  defines "pos \<equiv> lower_bound nm (nm v) obj"
  shows "keyed nm (if pos < length obj \<and> nm (obj ! pos) = nm v then obj[pos := v]
           else take pos obj @ v # drop pos obj) = om_upd (nm v) v (keyed nm obj)"
  unfolding pos_def by (induction obj) (auto simp: lower_bound_Cons split: if_splits)

lemma erase_om:
  assumes "om_ok (keyed nm obj)" and "om_find (keyed nm obj) n \<noteq> None"
  shows "take (lower_bound nm n obj) obj @ drop (Suc (lower_bound nm n obj)) obj = map snd (om_del n (keyed nm obj))"
  using assms
proof (induction obj)
  case (Cons v obj)
  have "nm v \<le> n"
    using Cons.prems by (auto simp: om_ok_Cons om_find_def dest!: map_of_SomeD split: if_splits)
  with Cons show ?case by (auto simp: lower_bound_Cons om_find_def om_ok_Cons keyed_def comp_def)
qed (simp add: om_find_def)

lemma append_names:
  assumes "om_ok (keyed nm (obj @ [v]))"
  shows "lower_bound nm (nm v) obj = length obj"
  using assms by (induction obj) (auto simp: lower_bound_Cons om_ok_Cons keyed_def)

lemma get_ident_ok: "ident_ok cap (fst (get_ident cap r))"
  by (auto simp: get_ident_def ident_parse_def ident_ok_def Let_def split: prod.splits option.splits if_splits)

text \<open>A field starts with its name and the byte that gives its kind.\<close>

lemma get_name_kind:
  assumes n: "ident_ok 63 n" and r: "\<not> failed r" and rest: "rest r = put_ident 63 n @ put_u8 k @ ys"
  shows "\<exists>r1 j. get_ident 63 r = (n, r1) \<and> get_u8 r1 = (k, r\<lparr>rest := ys, consumed := j\<rparr>)"
proof -
  have "blob_ok 63 (bytes_of n)" "n = [] \<or> ident_parse 63 n \<noteq> None"
    using n by (auto simp: ident_ok_def blob_ok_def ident_parse_def)
  then obtain j where r1: "get_ident 63 r = (n, r\<lparr>rest := put_u8 k @ ys, consumed := j\<rparr>)"
    using c_ident.get_put [where cap = 63 and v = n and r = r] r rest by blast
  then show ?thesis
    using c_u8.get_put [where v = k and r = "r\<lparr>rest := put_u8 k @ ys, consumed := j\<rparr>" and xs = ys] r by auto
qed

lemma fields_inv_Nil [simp]: "fields_inv nm ok []"
  by (simp add: fields_inv_def om_ok_def)


section \<open>The vector as a finite map\<close>

locale named_fields =
  fixes nm :: "'v \<Rightarrow> ident"
    and assign :: "'v list \<Rightarrow> 'v \<Rightarrow> Status \<times> 'v list"
    and find :: "'v list \<Rightarrow> ident \<Rightarrow> 'v option"
    and unnamed full :: Status
  assumes assign_shape: "assign obj v =
      (if nm v = [] then (unnamed, obj)
       else let position = lower_bound nm (nm v) obj in
         if position < length obj \<and> nm (obj ! position) = nm v then (status_ok, obj[position := v])
         else if length obj \<ge> kMessageFields then (full, obj)
         else (status_ok, take position obj @ v # drop position obj))"
    and find_shape: "find obj name =
      (let position = lower_bound nm name obj in
       if position = length obj \<or> nm (obj ! position) \<noteq> name then None else Some (obj ! position))"
    and refusals: "\<not> is_ok unnamed" "\<not> is_ok full"
begin

lemma find_om: "om_ok (keyed nm obj) \<Longrightarrow> find obj n = om_find (keyed nm obj) n"
proof (induction obj)
  case (Cons v obj)
  then have above: "\<forall>(a, b)\<in>set (keyed nm obj). nm v < a" and ok: "om_ok (keyed nm obj)"
    by (auto simp: om_ok_Cons)
  have "om_find (keyed nm obj) n = None" if "n < nm v"
    using that above by (cases "om_find (keyed nm obj) n") (auto dest!: om_findD)
  with Cons.IH [OF ok] show ?case
    by (auto simp: find_shape lower_bound_Cons om_find_def Let_def)
qed (simp add: find_shape om_find_def)

lemma present_iff:
  "om_ok (keyed nm obj) \<Longrightarrow> lower_bound nm n obj < length obj \<and> nm (obj ! lower_bound nm n obj) = n
     \<longleftrightarrow> om_find (keyed nm obj) n \<noteq> None"
  using find_om [of obj n] lower_bound_le [of nm n obj]
  by (cases "om_find (keyed nm obj) n") (auto simp: find_shape Let_def split: if_splits)

lemma assign_cases:
  assumes "om_ok (keyed nm obj)"
  shows "assign obj v =
    (if nm v = [] then (unnamed, obj)
     else if om_find (keyed nm obj) (nm v) = None \<and> length obj \<ge> kMessageFields then (full, obj)
     else (status_ok, map snd (om_upd (nm v) v (keyed nm obj))))"
  using present_iff [OF assms, of "nm v"] arg_cong [OF replace_or_insert_om [of nm v obj], of "map snd"]
  by (simp add: assign_shape Let_def split: if_splits)

lemma assign_inv:
  assumes "fields_inv nm ok obj" and "nm v \<noteq> [] \<Longrightarrow> ok v"
  shows "fields_inv nm ok (snd (assign obj v))"
proof (cases "nm v = [] \<or> om_find (keyed nm obj) (nm v) = None \<and> length obj \<ge> kMessageFields")
  case False
  have "om_size (om_upd (nm v) v (keyed nm obj)) \<le> kMessageFields"
    using assms(1) False by (auto simp: fields_inv_def om_size_upd length_keyed [of _ nm])
  with False assms show ?thesis
    by (simp add: assign_cases fields_inv_def keyed_upd om_ok_upd list_all_upd om_size_def)
qed (use assms in \<open>auto simp: assign_cases fields_inv_def\<close>)

lemma assign_append:
  assumes "om_ok (keyed nm (obj @ [v]))" and "length obj < kMessageFields" and "nm v \<noteq> []"
  shows "assign obj v = (status_ok, obj @ [v])"
  using assms append_names [OF assms(1)] by (simp add: assign_shape)

text \<open>What a client of the vector may rely on.\<close>

lemma assign_spec:
  assumes "om_ok (keyed nm obj)"
  shows "(is_ok (fst (assign obj v)) \<longleftrightarrow> nm v \<noteq> [] \<and> (find obj (nm v) \<noteq> None \<or> length obj < kMessageFields))
    \<and> (is_ok (fst (assign obj v)) \<longrightarrow> find (snd (assign obj v)) = (find obj)(nm v \<mapsto> v))
    \<and> (\<not> is_ok (fst (assign obj v)) \<longrightarrow> snd (assign obj v) = obj)"
proof -
  have find: "find obj = om_find (keyed nm obj)" using find_om [OF assms] by (simp add: fun_eq_iff)
  have "find (map snd (om_upd (nm v) v (keyed nm obj))) = (om_find (keyed nm obj))(nm v \<mapsto> v)"
    using find_om [of "map snd (om_upd (nm v) v (keyed nm obj))"]
    by (simp add: fun_eq_iff keyed_upd om_ok_upd assms om_find_upd)
  with refusals show ?thesis by (auto simp: assign_cases [OF assms] find fun_eq_iff)
qed

end


section \<open>Encoding and decoding the vector\<close>

locale field_codec = named_fields nm assign find unnamed full
  for nm :: "'v \<Rightarrow> ident" and assign find unnamed full +
  fixes ok :: "'v \<Rightarrow> bool"
    and put_field :: "'v \<Rightarrow> bytes"
    and decode_field :: "ByteReader \<Rightarrow> 'v list \<Rightarrow> Status \<times> ByteReader \<times> 'v list"
  assumes decode_put: "ok v \<Longrightarrow> \<not> failed r \<Longrightarrow> om_ok (keyed nm (obj @ [v])) \<Longrightarrow> length obj < kMessageFields \<Longrightarrow>
      rest r = put_field v @ xs \<Longrightarrow>
      \<exists>k. decode_field r obj = (status_ok, r\<lparr>rest := xs, consumed := k\<rparr>, obj @ [v])"
begin

lemma decode_loop_put:
  "list_all ok vs \<Longrightarrow> om_ok (keyed nm (obj @ vs)) \<Longrightarrow> length (obj @ vs) \<le> kMessageFields \<Longrightarrow>
   \<not> failed r \<Longrightarrow> rest r = concat (map put_field vs) @ xs \<Longrightarrow>
   \<exists>k. decode_loop decode_field (length vs) r obj = (status_ok, r\<lparr>rest := xs, consumed := k\<rparr>, obj @ vs)"
proof (induction vs arbitrary: r obj)
  case Nil
  then show ?case by (intro exI [of _ "consumed r"]) (cases r; simp)
next
  case (Cons v vs)
  have "om_ok (keyed nm (obj @ [v]))"
    using Cons.prems(2) by (auto simp: keyed_def om_ok_def sorted_wrt_append)
  with Cons.prems obtain k where k: "decode_field r obj =
      (status_ok, r\<lparr>rest := concat (map put_field vs) @ xs, consumed := k\<rparr>, obj @ [v])"
    using decode_put [of v r obj "concat (map put_field vs) @ xs"] by auto
  with Cons.IH [of "obj @ [v]" "r\<lparr>rest := concat (map put_field vs) @ xs, consumed := k\<rparr>"] Cons.prems
  show ?case by simp
qed

text \<open>The counted encoding of a whole vector is read back and leaves nothing.\<close>

lemma decode_encoded:
  assumes "fields_inv nm ok obj"
  defines "bs \<equiv> put_u32 (of_nat (length obj)) @ concat (map put_field obj)"
  shows "\<exists>r k. get_u32 (reader bs) = (of_nat (length obj), r) \<and> \<not> failed r
    \<and> unat (of_nat (length obj) :: u32) = length obj \<and> length obj \<le> kMessageFields
    \<and> decode_loop decode_field (length obj) r [] = (status_ok, r\<lparr>rest := [], consumed := k\<rparr>, obj)"
proof -
  from assms(1) have bound: "length obj \<le> 64" by (simp add: fields_inv_def kMessageFields_def)
  then have len: "unat (of_nat (length obj) :: u32) = length obj" by (simp add: unat_of_nat)
  let ?r = "(reader bs)\<lparr>rest := concat (map put_field obj), consumed := 4\<rparr>"
  have "get_u32 (reader bs) = (of_nat (length obj), ?r)"
    using c_u32.get_put [where v = "of_nat (length obj)" and r = "reader bs"
        and xs = "concat (map put_field obj)"] by (simp add: reader_def bs_def)
  moreover obtain k where "decode_loop decode_field (length obj) ?r [] = (status_ok, ?r\<lparr>rest := [], consumed := k\<rparr>, obj)"
    using decode_loop_put [of obj "[]" ?r "[]"] assms(1) by (auto simp: fields_inv_def reader_def)
  ultimately show ?thesis using bound len by (auto simp: kMessageFields_def reader_def)
qed

end

end
