(* ===== verification/Ref_State.thy ===== *)
theory Ref_State
  imports Ref_Files Ref_Fields Ref_Schema
begin

text \<open>
  Durable state objects and the state file container: the first half of
  \<open>include/ref/migration.hpp\<close> and \<open>src/migration.cpp\<close>.

  A \<open>StateObject\<close> is the vector of its values, kept sorted by field name and searched with
  \<open>std::lower_bound\<close>.  Shown: it implements a bounded finite map from field names to values;
  everything its decoder accepts satisfies the invariant, and encoding such an object and decoding
  it again gives the object back; a state file that was encoded decodes to its contents, and a
  file whose header or payload was damaged where the checksum or the digest can see it is refused.
\<close>

section \<open>State objects\<close>

record StateValue =
  sv_name :: ident
  sv_type :: FieldType
  sv_number :: u64
  sv_text :: string
  sv_digest :: IntegrityDigest

type_synonym StateObject = "StateValue list"

definition state_value :: StateValue where
  "state_value = \<lparr>sv_name = [], sv_type = U64, sv_number = 0, sv_text = [], sv_digest = digest_zero\<rparr>"

definition so_assign :: "StateObject \<Rightarrow> StateValue \<Rightarrow> Status \<times> StateObject" where
  "so_assign obj v =
     (if sv_name v = [] then (failure InvalidArgument ''state field name is empty'', obj)
      else let position = lower_bound sv_name (sv_name v) obj in
        if position < length obj \<and> sv_name (obj ! position) = sv_name v
          then (status_ok, obj[position := v])
        else if length obj \<ge> kMessageFields
          then (failure LimitExceeded ''state object field bound reached'', obj)
        else (status_ok, take position obj @ v # drop position obj))"

definition set_u64 :: "StateObject \<Rightarrow> ident \<Rightarrow> u64 \<Rightarrow> Status \<times> StateObject" where
  "set_u64 obj name v = so_assign obj (state_value\<lparr>sv_name := name, sv_type := U64, sv_number := v\<rparr>)"

text \<open>A 64-bit signed value is given by its two's complement bit pattern.\<close>

definition set_i64 :: "StateObject \<Rightarrow> ident \<Rightarrow> u64 \<Rightarrow> Status \<times> StateObject" where
  "set_i64 obj name v = so_assign obj (state_value\<lparr>sv_name := name, sv_type := I64, sv_number := v\<rparr>)"

definition set_bool :: "StateObject \<Rightarrow> ident \<Rightarrow> bool \<Rightarrow> Status \<times> StateObject" where
  "set_bool obj name v =
     so_assign obj (state_value\<lparr>sv_name := name, sv_type := Boolean, sv_number := if v then 1 else 0\<rparr>)"

definition set_text :: "StateObject \<Rightarrow> ident \<Rightarrow> string \<Rightarrow> Status \<times> StateObject" where
  "set_text obj name v =
     (if length v > kTextBytes
        then (failure LimitExceeded ''state text field exceeds the text bound'', obj)
      else if \<not> list_all is_valid_text_char v
        then (failure InvalidArgument ''state text field contains control characters'', obj)
      else so_assign obj (state_value\<lparr>sv_name := name, sv_type := Text, sv_text := v\<rparr>))"

definition set_digest :: "StateObject \<Rightarrow> ident \<Rightarrow> IntegrityDigest \<Rightarrow> Status \<times> StateObject" where
  "set_digest obj name v =
     so_assign obj (state_value\<lparr>sv_name := name, sv_type := Digest, sv_digest := v\<rparr>)"

definition remove_field :: "StateObject \<Rightarrow> ident \<Rightarrow> Status \<times> StateObject" where
  "remove_field obj name =
     (let position = lower_bound sv_name name obj in
      if position = length obj \<or> sv_name (obj ! position) \<noteq> name
        then (failure NotFound ''state field is not present'', obj)
      else (status_ok, take position obj @ drop (Suc position) obj))"

definition so_find :: "StateObject \<Rightarrow> ident \<Rightarrow> StateValue option" where
  "so_find obj name =
     (let position = lower_bound sv_name name obj in
      if position = length obj \<or> sv_name (obj ! position) \<noteq> name then None
      else Some (obj ! position))"


subsection \<open>Encoding\<close>

fun field_type_raw :: "FieldType \<Rightarrow> u8" where
  "field_type_raw U64 = 0"
| "field_type_raw I64 = 1"
| "field_type_raw Boolean = 2"
| "field_type_raw Text = 3"
| "field_type_raw Bytes = 4"
| "field_type_raw Digest = 5"

definition field_type_of_raw :: "u8 \<Rightarrow> FieldType option" where
  "field_type_of_raw raw =
     (if raw > field_type_raw Digest then None
      else Some ([U64, I64, Boolean, Text, Bytes, Digest] ! unat raw))"

definition put_value :: "StateValue \<Rightarrow> bytes" where
  "put_value v =
     put_ident 63 (sv_name v) @ put_u8 (field_type_raw (sv_type v)) @
     (case sv_type v of
        U64 \<Rightarrow> put_u64 (sv_number v)
      | I64 \<Rightarrow> put_u64 (sv_number v)
      | Boolean \<Rightarrow> put_u64 (sv_number v)
      | Text \<Rightarrow> put_text kTextBytes (sv_text v)
      | Bytes \<Rightarrow> put_text kTextBytes (sv_text v)
      | Digest \<Rightarrow> put_digest (sv_digest v))"

definition so_encode :: "StateObject \<Rightarrow> bytes" where
  "so_encode obj = put_u32 (of_nat (length obj)) @ concat (map put_value obj)"

text \<open>
  One round of the decoding loop: the value is stored before the reader is asked whether it failed,
  so a truncated number first lands in the object and is then refused.
\<close>

definition decode_typed :: "FieldType \<Rightarrow> ident \<Rightarrow> ByteReader \<Rightarrow> StateObject
    \<Rightarrow> Status \<times> ByteReader \<times> StateObject" where
  "decode_typed type name r obj =
     (case type of
        U64 \<Rightarrow> let (v, r) = get_u64 r; (status, obj) = set_u64 obj name v in (status, r, obj)
      | I64 \<Rightarrow> let (raw, r) = get_u64 r; (status, obj) = set_i64 obj name raw in (status, r, obj)
      | Boolean \<Rightarrow> let (raw, r) = get_u64 r in
          if raw > 1 then (failure Corrupt ''state payload boolean is not 0 or 1'', r, obj)
          else let (status, obj) = set_bool obj name (raw = 1) in (status, r, obj)
      | Digest \<Rightarrow> let (d, r) = get_digest r; (status, obj) = set_digest obj name d in (status, r, obj)
      | _ \<Rightarrow> let (raw, r) = get_bytes kTextBytes r in
          if failed r then (failure Corrupt ''state payload text is truncated'', r, obj)
          else let (status, obj) = set_text obj name (string_of raw) in (status, r, obj))"

definition decode_value :: "ByteReader \<Rightarrow> StateObject \<Rightarrow> Status \<times> ByteReader \<times> StateObject" where
  "decode_value r obj =
     (let (name, r) = get_ident 63 r; (type_raw, r) = get_u8 r in
      if failed r then (failure Corrupt ''state payload field is malformed'', r, obj)
      else case field_type_of_raw type_raw of
          None \<Rightarrow> (failure Corrupt ''state payload field type is unknown'', r, obj)
        | Some type \<Rightarrow>
            let (status, r, obj) = decode_typed type name r obj in
            if is_failure status then (status, r, obj)
            else if failed r then (failure Corrupt ''state payload field is malformed'', r, obj)
            else (status_ok, r, obj))"

definition so_decode :: "bytes \<Rightarrow> Status \<times> StateObject" where
  "so_decode bs =
     (let (count, r) = get_u32 (reader bs) in
      if failed r then (failure Truncated ''state payload header is truncated'', [])
      else if unat count > kMessageFields
        then (failure LimitExceeded ''state payload declares too many fields'', [])
      else let (status, r, obj) = decode_loop decode_value (unat count) r [] in
        if is_failure status then (status, obj)
        else if \<not> at_end r then (failure Corrupt ''state payload has trailing bytes'', obj)
        else (status_ok, obj))"


subsection \<open>Validation against a schema\<close>

definition schema_field_status :: "SchemaDescriptor \<Rightarrow> StateObject \<Rightarrow> SchemaField \<Rightarrow> Status" where
  "schema_field_status d obj f =
     (let present = (\<not> gen_is_set (sf_removed_in f) \<or> sf_removed_in f > sd_generation d);
          v = so_find obj (sf_id f)
      in if \<not> present then
           (if v \<noteq> None then failure Corrupt ''state object carries a removed schema field'' else status_ok)
         else if \<not> sf_introduced_in f \<le> sd_generation d then
           (if v \<noteq> None then failure Corrupt ''state object carries a field not yet introduced'' else status_ok)
         else case v of
             None \<Rightarrow> if sf_required f
               then failure Corrupt ''state object is missing a required schema field'' else status_ok
           | Some v \<Rightarrow> if sv_type v \<noteq> sf_type f
               then failure Corrupt ''state object field type does not match the schema'' else status_ok)"

definition declared_status :: "SchemaDescriptor \<Rightarrow> StateValue \<Rightarrow> Status" where
  "declared_status d v =
     (case find_field d (sv_name v) of
        None \<Rightarrow> failure Corrupt ''state object carries an undeclared field''
      | Some f \<Rightarrow> if sv_type v \<noteq> sf_type f
          then failure Corrupt ''state object field type does not match the schema'' else status_ok)"

definition validate_against :: "StateObject \<Rightarrow> SchemaDescriptor \<Rightarrow> Status" where
  "validate_against obj d =
     (let fields = first_failure (schema_field_status d obj) (sd_fields d) in
      if is_failure fields then fields else first_failure (declared_status d) obj)"


section \<open>State objects as finite maps\<close>

text \<open>A value as the setters build it: the parts its type does not use are default.\<close>

definition sv_ok :: "StateValue \<Rightarrow> bool" where
  "sv_ok v \<longleftrightarrow> sv_name v \<noteq> [] \<and> ident_ok 63 (sv_name v) \<and>
     (case sv_type v of
        U64 \<Rightarrow> sv_text v = [] \<and> sv_digest v = digest_zero
      | I64 \<Rightarrow> sv_text v = [] \<and> sv_digest v = digest_zero
      | Boolean \<Rightarrow> sv_text v = [] \<and> sv_digest v = digest_zero \<and> sv_number v \<le> 1
      | Text \<Rightarrow> sv_number v = 0 \<and> sv_digest v = digest_zero
                  \<and> length (sv_text v) \<le> kTextBytes \<and> list_all is_valid_text_char (sv_text v)
      | Bytes \<Rightarrow> False
      | Digest \<Rightarrow> sv_number v = 0 \<and> sv_text v = [])"

definition so_inv :: "StateObject \<Rightarrow> bool" where
  "so_inv obj \<longleftrightarrow> fields_inv sv_name sv_ok obj"

interpretation so: named_fields sv_name so_assign so_find
    "failure InvalidArgument ''state field name is empty''"
    "failure LimitExceeded ''state object field bound reached''"
  by unfold_locales (simp_all add: so_assign_def so_find_def)

lemma so_inv_ok: "so_inv obj \<Longrightarrow> om_ok (keyed sv_name obj)"
  by (simp add: so_inv_def fields_inv_def)

lemma remove_field_cases:
  assumes "om_ok (keyed sv_name obj)"
  shows "remove_field obj n =
    (if om_find (keyed sv_name obj) n = None then (failure NotFound ''state field is not present'', obj)
     else (status_ok, map snd (om_del n (keyed sv_name obj))))"
  using so.present_iff [OF assms, of n] lower_bound_le [of sv_name n obj] erase_om [OF assms, of n]
  by (auto simp: remove_field_def Let_def)

lemma remove_field_inv:
  assumes "so_inv obj"
  shows "so_inv (snd (remove_field obj n))"
proof (cases "om_find (keyed sv_name obj) n = None")
  case False
  have "om_size (om_del n (keyed sv_name obj)) \<le> kMessageFields"
    using assms om_size_del [of "keyed sv_name obj" n] by (auto simp: so_inv_def fields_inv_def length_keyed [of _ sv_name])
  with False assms show ?thesis
    by (simp add: remove_field_cases so_inv_def fields_inv_def keyed_del om_ok_del list_all_del om_size_def)
qed (use assms in \<open>simp add: remove_field_cases so_inv_def fields_inv_def\<close>)

lemma setter_values_ok:
  "n \<noteq> [] \<Longrightarrow> ident_ok 63 n \<Longrightarrow> sv_ok (state_value\<lparr>sv_name := n, sv_type := U64, sv_number := x\<rparr>)"
  "n \<noteq> [] \<Longrightarrow> ident_ok 63 n \<Longrightarrow> sv_ok (state_value\<lparr>sv_name := n, sv_type := I64, sv_number := x\<rparr>)"
  "n \<noteq> [] \<Longrightarrow> ident_ok 63 n \<Longrightarrow> x \<le> 1 \<Longrightarrow> sv_ok (state_value\<lparr>sv_name := n, sv_type := Boolean, sv_number := x\<rparr>)"
  "n \<noteq> [] \<Longrightarrow> ident_ok 63 n \<Longrightarrow> sv_ok (state_value\<lparr>sv_name := n, sv_type := Digest, sv_digest := d\<rparr>)"
  "n \<noteq> [] \<Longrightarrow> ident_ok 63 n \<Longrightarrow> length t \<le> kTextBytes \<Longrightarrow> list_all is_valid_text_char t \<Longrightarrow>
     sv_ok (state_value\<lparr>sv_name := n, sv_type := Text, sv_text := t\<rparr>)"
  by (simp_all add: sv_ok_def state_value_def)

lemma setters_inv:
  assumes "so_inv obj" and "n \<noteq> [] \<longrightarrow> ident_ok 63 n"
  shows "so_inv (snd (set_u64 obj n x))" "so_inv (snd (set_i64 obj n x))" "so_inv (snd (set_bool obj n b))"
    "so_inv (snd (set_text obj n t))" "so_inv (snd (set_digest obj n d))"
  unfolding set_u64_def set_i64_def set_bool_def set_text_def set_digest_def so_inv_def
  using assms by (auto simp: so_inv_def intro!: so.assign_inv setter_values_ok)


section \<open>Decoding\<close>

lemma decode_typed_inv:
  assumes "so_inv obj" and "ident_ok 63 name"
  shows "so_inv (snd (snd (decode_typed type name r obj)))"
  using assms setters_inv [OF assms(1), of name]
  by (cases type) (simp_all add: decode_typed_def Let_def case_prod_unfold)

lemma decode_value_inv:
  assumes "so_inv obj"
  shows "so_inv (snd (snd (decode_value r obj)))"
proof -
  obtain name r1 where name: "get_ident 63 r = (name, r1)" by fastforce
  with get_ident_ok [of 63 r] have "ident_ok 63 name" by simp
  then have "so_inv (snd (snd (decode_typed type name r' obj)))" for type r'
    using assms by (rule decode_typed_inv [rotated])
  with assms show ?thesis
    by (simp add: decode_value_def name Let_def case_prod_unfold split: option.splits)
qed

lemma so_inv_Nil: "so_inv []"
  by (simp add: so_inv_def)

lemma so_decode_inv: "so_inv (snd (so_decode bs))"
  using decode_loop_inv [of so_inv decode_value "[]"] decode_value_inv so_inv_Nil
  by (simp add: so_decode_def Let_def case_prod_unfold)

lemma field_type_raw_inverse [simp]: "field_type_of_raw (field_type_raw t) = Some t"
  by (cases t) (simp_all add: field_type_of_raw_def word_less_nat_alt)

lemma text_blob_ok: "length t \<le> kTextBytes \<Longrightarrow> blob_ok kTextBytes (bytes_of t)"
  by (simp add: blob_ok_def kTextBytes_def)

lemma decode_typed_put:
  assumes v: "sv_ok v" and r: "\<not> failed r" and obj: "om_ok (keyed sv_name (obj @ [v]))" "length obj < kMessageFields"
    and rest: "rest r = (case sv_type v of Text \<Rightarrow> put_text kTextBytes (sv_text v)
        | Bytes \<Rightarrow> put_text kTextBytes (sv_text v) | Digest \<Rightarrow> put_digest (sv_digest v)
        | _ \<Rightarrow> put_u64 (sv_number v)) @ xs"
  shows "\<exists>k. decode_typed (sv_type v) (sv_name v) r obj = (status_ok, r\<lparr>rest := xs, consumed := k\<rparr>, obj @ [v])"
proof -
  from v have ne: "sv_name v \<noteq> []" by (simp add: sv_ok_def)
  have assign: "so_assign obj v' = (status_ok, obj @ [v])" if "v' = v" for v'
    using that so.assign_append [OF obj ne] by simp
  show ?thesis
  proof (cases "sv_type v")
    case U64
    with rest have "get_u64 r = (sv_number v, r\<lparr>rest := xs, consumed := consumed r + 8\<rparr>)"
      using c_u64.get_put [where v = "sv_number v" and r = r and xs = xs] r by simp
    moreover from U64 v have "state_value\<lparr>sv_name := sv_name v, sv_type := U64, sv_number := sv_number v\<rparr> = v"
      by (simp add: sv_ok_def state_value_def)
    ultimately show ?thesis using U64 assign by (simp add: decode_typed_def set_u64_def) blast
  next
    case I64
    with rest have "get_u64 r = (sv_number v, r\<lparr>rest := xs, consumed := consumed r + 8\<rparr>)"
      using c_u64.get_put [where v = "sv_number v" and r = r and xs = xs] r by simp
    moreover from I64 v have "state_value\<lparr>sv_name := sv_name v, sv_type := I64, sv_number := sv_number v\<rparr> = v"
      by (simp add: sv_ok_def state_value_def)
    ultimately show ?thesis using I64 assign by (simp add: decode_typed_def set_i64_def) blast
  next
    case Boolean
    with rest have "get_u64 r = (sv_number v, r\<lparr>rest := xs, consumed := consumed r + 8\<rparr>)"
      using c_u64.get_put [where v = "sv_number v" and r = r and xs = xs] r by simp
    moreover from Boolean v have bit: "sv_number v \<le> 1" by (simp add: sv_ok_def)
    then have "(if sv_number v = 1 then 1 else 0) = sv_number v"
      using word_unat_eq_iff [of "sv_number v" 1] by (auto simp: word_le_nat_alt le_Suc_eq unat_eq_zero)
    with Boolean v have "state_value\<lparr>sv_name := sv_name v, sv_type := Boolean,
        sv_number := if sv_number v = 1 then 1 else 0\<rparr> = v"
      by (simp add: sv_ok_def state_value_def)
    ultimately show ?thesis
      using Boolean assign bit by (simp add: decode_typed_def set_bool_def linorder_not_less [symmetric]) blast
  next
    case Text
    with rest v have "get_bytes kTextBytes r =
        (bytes_of (sv_text v), r\<lparr>rest := xs, consumed := consumed r + length (put_text kTextBytes (sv_text v))\<rparr>)"
      using c_blob.get_put [where cap = kTextBytes and v = "bytes_of (sv_text v)" and r = r and xs = xs] r text_blob_ok [of "sv_text v"]
      by (simp add: put_text_def sv_ok_def)
    moreover from Text v have "state_value\<lparr>sv_name := sv_name v, sv_type := Text, sv_text := sv_text v\<rparr> = v"
      and "length (sv_text v) \<le> kTextBytes" "list_all is_valid_text_char (sv_text v)"
      by (simp_all add: sv_ok_def state_value_def)
    ultimately show ?thesis using Text assign r by (simp add: decode_typed_def set_text_def) blast
  next
    case Bytes
    with v show ?thesis by (simp add: sv_ok_def)
  next
    case Digest
    with rest have "get_digest r = (sv_digest v, r\<lparr>rest := xs, consumed := consumed r + length (put_digest (sv_digest v))\<rparr>)"
      using c_digest.get_put [where v = "sv_digest v" and r = r and xs = xs] r by simp
    moreover from Digest v have "state_value\<lparr>sv_name := sv_name v, sv_type := Digest, sv_digest := sv_digest v\<rparr> = v"
      by (simp add: sv_ok_def state_value_def)
    ultimately show ?thesis using Digest assign by (simp add: decode_typed_def set_digest_def) blast
  qed
qed

lemma decode_value_put:
  assumes v: "sv_ok v" and r: "\<not> failed r" and obj: "om_ok (keyed sv_name (obj @ [v]))" "length obj < kMessageFields"
    and rest: "rest r = put_value v @ xs"
  shows "\<exists>k. decode_value r obj = (status_ok, r\<lparr>rest := xs, consumed := k\<rparr>, obj @ [v])"
proof -
  define body where "body = (case sv_type v of Text \<Rightarrow> put_text kTextBytes (sv_text v)
      | Bytes \<Rightarrow> put_text kTextBytes (sv_text v) | Digest \<Rightarrow> put_digest (sv_digest v)
      | _ \<Rightarrow> put_u64 (sv_number v))"
  have shape: "rest r = put_ident 63 (sv_name v) @ put_u8 (field_type_raw (sv_type v)) @ body @ xs"
    using rest by (simp add: put_value_def body_def split: FieldType.splits)
  have "ident_ok 63 (sv_name v)" using v by (simp add: sv_ok_def)
  from get_name_kind [OF this r shape] obtain r1 k2 where r1: "get_ident 63 r = (sv_name v, r1)"
    and r2: "get_u8 r1 = (field_type_raw (sv_type v), r\<lparr>rest := body @ xs, consumed := k2\<rparr>)" by auto
  obtain k3 where "decode_typed (sv_type v) (sv_name v) (r\<lparr>rest := body @ xs, consumed := k2\<rparr>) obj =
      (status_ok, r\<lparr>rest := xs, consumed := k3\<rparr>, obj @ [v])"
    using decode_typed_put [OF v _ obj, of "r\<lparr>rest := body @ xs, consumed := k2\<rparr>" xs] r
    by (auto simp: body_def)
  with r1 r2 r show ?thesis by (simp add: decode_value_def) blast
qed

interpretation so: field_codec sv_name so_assign so_find
    "failure InvalidArgument ''state field name is empty''"
    "failure LimitExceeded ''state object field bound reached''" sv_ok put_value decode_value
  by unfold_locales (rule decode_value_put)

lemma so_decode_encode:
  assumes "so_inv obj"
  shows "so_decode (so_encode obj) = (status_ok, obj)"
proof -
  obtain r k where "get_u32 (reader (so_encode obj)) = (of_nat (length obj), r)" "\<not> failed r"
    "unat (of_nat (length obj) :: u32) = length obj" "length obj \<le> kMessageFields"
    "decode_loop decode_value (length obj) r [] = (status_ok, r\<lparr>rest := [], consumed := k\<rparr>, obj)"
    using so.decode_encoded assms unfolding so_inv_def so_encode_def by blast
  then show ?thesis by (simp add: so_decode_def at_end_def)
qed


section \<open>The state file container\<close>

definition kStateFileMagic :: bytes where
  "kStateFileMagic = bytes_of ''REFSTAT1''"

definition kStateFormatGenerationV1 :: gen where
  "kStateFormatGenerationV1 = 1"

record StateFileHeader =
  fh_format :: gen
  fh_schema :: ident
  fh_generation :: gen
  fh_migration :: gen
  fh_epoch :: gen
  fh_policy :: gen
  fh_payload_digest :: IntegrityDigest
  fh_payload_size :: u64
  fh_crc :: u32

record StateFile =
  sfl_header :: StateFileHeader
  sfl_payload :: bytes

definition header_unset :: StateFileHeader where
  "header_unset = \<lparr>fh_format = 0, fh_schema = [], fh_generation = 0, fh_migration = 0, fh_epoch = 0,
     fh_policy = 0, fh_payload_digest = digest_zero, fh_payload_size = 0, fh_crc = 0\<rparr>"

definition state_file_unset :: StateFile where
  "state_file_unset = \<lparr>sfl_header = header_unset, sfl_payload = []\<rparr>"

definition header_is_set :: "StateFileHeader \<Rightarrow> bool" where
  "header_is_set h \<longleftrightarrow> gen_is_set (fh_format h) \<and> gen_is_set (fh_generation h) \<and> fh_schema h \<noteq> []"

text \<open>The header fields in the order of the file, between the magic and the checksum.\<close>

definition put_header :: "StateFileHeader \<Rightarrow> bytes" where
  "put_header h =
     put_generation (fh_format h) @ put_ident 63 (fh_schema h) @ put_generation (fh_generation h)
     @ put_generation (fh_migration h) @ put_generation (fh_epoch h) @ put_generation (fh_policy h)
     @ put_u64 (fh_payload_size h) @ put_digest (fh_payload_digest h)"

definition get_header :: "ByteReader \<Rightarrow> StateFileHeader \<times> ByteReader" where
  "get_header r =
     (let (format, r) = get_generation r; (schema, r) = get_ident 63 r; (generation, r) = get_generation r;
          (migration, r) = get_generation r; (epoch, r) = get_generation r; (policy, r) = get_generation r;
          (size, r) = get_u64 r; (digest, r) = get_digest r
      in (\<lparr>fh_format = format, fh_schema = schema, fh_generation = generation, fh_migration = migration,
           fh_epoch = epoch, fh_policy = policy, fh_payload_digest = digest, fh_payload_size = size,
           fh_crc = 0\<rparr>, r))"

definition encode_state_file :: "StateFile \<Rightarrow> Status \<times> bytes" where
  "encode_state_file file =
     (if \<not> header_is_set (sfl_header file)
        then (failure InvalidArgument ''state file header is incomplete'', [])
      else if length (sfl_payload file) > kStateFileBytes
        then (failure LimitExceeded ''state payload exceeds the size bound'', [])
      else let header = kStateFileMagic @ put_header ((sfl_header file)
                 \<lparr>fh_payload_size := of_nat (length (sfl_payload file)),
                  fh_payload_digest := digest_of (sfl_payload file)\<rparr>)
        in (status_ok, header @ put_u32 (crc32 header) @ sfl_payload file))"

definition decode_state_file :: "bytes \<Rightarrow> Status \<times> StateFile" where
  "decode_state_file bs =
     (if length bs < length kStateFileMagic
        then (failure Truncated ''state file is shorter than its magic'', state_file_unset)
      else if take (length kStateFileMagic) bs \<noteq> kStateFileMagic
        then (failure Corrupt ''state file magic mismatch'', state_file_unset)
      else if length bs > kStateFileBytes
        then (failure LimitExceeded ''state file exceeds the size bound'', state_file_unset)
      else
        let (_, r) = skip_bytes (length kStateFileMagic) (reader bs);
            (header, r) = get_header r;
            crc_offset = consumed r;
            (stored_crc, r) = get_u32 r
        in if failed r then (failure Truncated ''state file header is truncated'', state_file_unset)
           else if fh_format header \<noteq> kStateFormatGenerationV1
             then (failure ErrorCode.Unsupported ''state format generation is not supported'', state_file_unset)
           else if unat (fh_payload_size header) > kStateFileBytes
             then (failure LimitExceeded ''state payload length exceeds the size bound'', state_file_unset)
           else if length (rest r) \<noteq> unat (fh_payload_size header)
             then (failure Truncated ''state payload length does not match the file body'', state_file_unset)
           else if crc32 (take crc_offset bs) \<noteq> stored_crc
             then (failure IntegrityFailure ''state file header checksum mismatch'', state_file_unset)
           else let payload = drop (crc_offset + 4) bs in
             if digest_of payload \<noteq> fh_payload_digest header
               then (failure IntegrityFailure ''state payload digest mismatch'', state_file_unset)
             else (status_ok, \<lparr>sfl_header = header, sfl_payload = payload\<rparr>))"

definition write_state_file :: "string \<Rightarrow> StateFile \<Rightarrow> World \<Rightarrow> Status \<times> World" where
  "write_state_file path file w =
     (let (encoded, bs) = encode_state_file file in
      if is_failure encoded then (encoded, w) else write_file_atomic path bs w)"

definition read_state_file :: "string \<Rightarrow> World \<Rightarrow> Status \<times> StateFile \<times> World" where
  "read_state_file path w =
     (let (read, bs, w) = read_file_bounded path kStateFileBytes w in
      if is_failure read then (read, state_file_unset, w)
      else let (status, file) = decode_state_file bs in (status, file, w))"


subsection \<open>The header is a canonical codec\<close>

lemma get_generation_u64: "get_generation = get_u64" "put_generation = put_u64"
  by (simp_all add: get_generation_def put_generation_def fun_eq_iff)

abbreviation ident63_ok :: "string \<Rightarrow> bool" where
  "ident63_ok s \<equiv> blob_ok 63 (bytes_of s) \<and> (s = [] \<or> ident_parse 63 s \<noteq> None)"

text \<open>The stored fields of a header: the checksum is not part of them.\<close>

type_synonym header_fields = "gen \<times> ident \<times> gen \<times> gen \<times> gen \<times> gen \<times> u64 \<times> IntegrityDigest"

definition header_fields :: "StateFileHeader \<Rightarrow> header_fields" where
  "header_fields h = (fh_format h, fh_schema h, fh_generation h, fh_migration h, fh_epoch h, fh_policy h,
     fh_payload_size h, fh_payload_digest h)"

definition header_of :: "header_fields \<Rightarrow> StateFileHeader" where
  "header_of = (\<lambda>(f, s, g, m, e, p, n, d). \<lparr>fh_format = f, fh_schema = s, fh_generation = g,
     fh_migration = m, fh_epoch = e, fh_policy = p, fh_payload_digest = d, fh_payload_size = n, fh_crc = 0\<rparr>)"

lemma header_of_fields [simp]: "header_of (header_fields h) = h\<lparr>fh_crc := 0\<rparr>"
  by (simp add: header_of_def header_fields_def)

lemma header_fields_of [simp]: "header_fields (header_of t) = t"
  by (simp add: header_of_def header_fields_def split: prod.splits)

definition put_fields :: "header_fields \<Rightarrow> bytes" where
  "put_fields t = put_header (header_of t)"

definition get_fields :: "ByteReader \<Rightarrow> header_fields \<times> ByteReader" where
  "get_fields r = (let (h, r) = get_header r in (header_fields h, r))"

interpretation cc_fields: canonical_codec put_fields get_fields "\<lambda>t. ident63_ok (fst (snd t))"
proof -
  note u = cc_u64.canonical_codec_axioms
  note tuple = canonical_pairI [OF u canonical_pairI [OF cc_ident.canonical_codec_axioms [of 63]
    canonical_pairI [OF u canonical_pairI [OF u canonical_pairI [OF u canonical_pairI [OF u
    canonical_pairI [OF u cc_digest.canonical_codec_axioms]]]]]]]
  have "canonical_codec put_fields get_fields (\<lambda>t. True \<and> ident63_ok (fst (snd t)) \<and> True
      \<and> True \<and> True \<and> True \<and> True \<and> True)"
    by (rule canonical_isoI [OF tuple, where enc = "\<lambda>x. x" and dec' = "\<lambda>x. x"])
      (auto simp: put_fields_def get_fields_def put_header_def get_header_def put_pair_def get_pair_def
         header_of_def header_fields_def get_generation_u64 split: prod.splits)
  then show "canonical_codec put_fields get_fields (\<lambda>t. ident63_ok (fst (snd t)))" by simp
qed

lemma get_header_fields: "get_header r = (let (t, r) = get_fields r in (header_of t, r))"
  by (simp add: get_fields_def get_header_def header_of_def header_fields_def split: prod.splits)

lemma put_header_fields: "put_header h = put_fields (header_fields h)"
  by (simp add: put_fields_def put_header_def)

lemma length_magic [simp]: "length kStateFileMagic = 8"
  by (simp add: kStateFileMagic_def)

lemma skip_magic: "skip_bytes 8 (reader (kStateFileMagic @ xs)) = (True, \<lparr>rest = xs, consumed = 8, failed = False\<rparr>)"
  by (simp add: skip_bytes_def need_def reader_def advance_def)

lemma ident63_ok_iff: "ident63_ok s \<longleftrightarrow> ident_ok 63 s"
  by (auto simp: blob_ok_def ident_parse_def ident_ok_def)

text \<open>Decoding a body that starts with well-formed header fields and a checksum.\<close>

lemma decode_state_file_body:
  fixes t crc payload
  defines "bs \<equiv> kStateFileMagic @ put_fields t @ put_u32 crc @ payload"
  assumes t: "ident63_ok (fst (snd t))" and size: "length bs \<le> kStateFileBytes"
  shows "decode_state_file bs =
    (if fh_format (header_of t) \<noteq> kStateFormatGenerationV1
       then (failure ErrorCode.Unsupported ''state format generation is not supported'', state_file_unset)
     else if unat (fh_payload_size (header_of t)) > kStateFileBytes
       then (failure LimitExceeded ''state payload length exceeds the size bound'', state_file_unset)
     else if length payload \<noteq> unat (fh_payload_size (header_of t))
       then (failure Truncated ''state payload length does not match the file body'', state_file_unset)
     else if crc32 (kStateFileMagic @ put_fields t) \<noteq> crc
       then (failure IntegrityFailure ''state file header checksum mismatch'', state_file_unset)
     else if digest_of payload \<noteq> fh_payload_digest (header_of t)
       then (failure IntegrityFailure ''state payload digest mismatch'', state_file_unset)
     else (status_ok, \<lparr>sfl_header = header_of t, sfl_payload = payload\<rparr>))"
proof -
  let ?r0 = "\<lparr>rest = put_fields t @ put_u32 crc @ payload, consumed = 8, failed = False\<rparr>"
  let ?r1 = "\<lparr>rest = put_u32 crc @ payload, consumed = 8 + length (put_fields t), failed = False\<rparr>"
  have skip: "skip_bytes 8 (reader bs) = (True, ?r0)" unfolding bs_def by (rule skip_magic)
  have header: "get_header ?r0 = (header_of t, ?r1)"
    using cc_fields.get_put [where v = t and r = ?r0 and xs = "put_u32 crc @ payload"] t
    by (simp add: get_header_fields)
  have crc: "get_u32 ?r1 = (crc, ?r1\<lparr>rest := payload, consumed := 8 + length (put_fields t) + 4\<rparr>)"
    using c_u32.get_put [where v = crc and r = ?r1 and xs = payload] by simp
  have "take (8 + length (put_fields t)) bs = kStateFileMagic @ put_fields t"
    and "drop (8 + length (put_fields t) + 4) bs = payload" and "take 8 bs = kStateFileMagic"
    and "8 \<le> length bs"
    by (simp_all add: bs_def)
  with size skip header crc show ?thesis
    unfolding decode_state_file_def length_magic by (simp add: linorder_not_less Let_def)
qed

lemma encode_shape:
  assumes "encode_state_file f = (status_ok, bs)"
  defines "t \<equiv> header_fields ((sfl_header f)\<lparr>fh_payload_size := of_nat (length (sfl_payload f)),
      fh_payload_digest := digest_of (sfl_payload f)\<rparr>)"
  shows "bs = kStateFileMagic @ put_fields t @ put_u32 (crc32 (kStateFileMagic @ put_fields t)) @ sfl_payload f"
    and "header_is_set (sfl_header f)" and "length (sfl_payload f) \<le> kStateFileBytes"
  using assms by (auto simp: encode_state_file_def put_header_fields Let_def failure_def status_ok_def split: if_splits)

lemma decode_encode_state_file:
  assumes enc: "encode_state_file f = (status_ok, bs)" and size: "length bs \<le> kStateFileBytes"
    and schema: "ident_ok 63 (fh_schema (sfl_header f))" and format: "fh_format (sfl_header f) = kStateFormatGenerationV1"
  shows "decode_state_file bs = (status_ok, f\<lparr>sfl_header := (sfl_header f)
      \<lparr>fh_payload_size := of_nat (length (sfl_payload f)), fh_payload_digest := digest_of (sfl_payload f), fh_crc := 0\<rparr>\<rparr>)"
proof -
  let ?h = "(sfl_header f)\<lparr>fh_payload_size := of_nat (length (sfl_payload f)), fh_payload_digest := digest_of (sfl_payload f)\<rparr>"
  note shape = encode_shape [OF enc]
  have len: "unat (of_nat (length (sfl_payload f)) :: u64) = length (sfl_payload f)"
    using shape(3) by (simp add: unat_of_nat kStateFileBytes_def)
  have "ident63_ok (fst (snd (header_fields ?h)))"
    using schema by (simp only: ident63_ok_iff) (simp add: header_fields_def)
  from decode_state_file_body [OF this, of "crc32 (kStateFileMagic @ put_fields (header_fields ?h))" "sfl_payload f"]
  show ?thesis
    using size shape(1,3) format len by (simp add: kStateFileBytes_def)
qed

lemma decode_canonical:
  assumes dec: "decode_state_file bs = (status_ok, f)"
  shows "length bs \<le> kStateFileBytes \<and> ident_ok 63 (fh_schema (sfl_header f))
    \<and> fh_format (sfl_header f) = kStateFormatGenerationV1
    \<and> fh_payload_digest (sfl_header f) = digest_of (sfl_payload f)
    \<and> unat (fh_payload_size (sfl_header f)) = length (sfl_payload f) \<and> fh_crc (sfl_header f) = 0
    \<and> bs = kStateFileMagic @ put_header (sfl_header f)
             @ put_u32 (crc32 (kStateFileMagic @ put_header (sfl_header f))) @ sfl_payload f"
proof -
  from dec have len: "8 \<le> length bs" "length bs \<le> kStateFileBytes" and magic: "take 8 bs = kStateFileMagic"
    unfolding decode_state_file_def length_magic
    by (auto simp: failure_def status_ok_def state_file_unset_def split: if_splits)
  define xs where "xs = drop 8 bs"
  have bs: "bs = kStateFileMagic @ xs" using append_take_drop_id [of 8 bs] by (simp add: xs_def magic)
  let ?r0 = "\<lparr>rest = xs, consumed = 8, failed = False\<rparr>"
  have skip: "skip_bytes 8 (reader bs) = (True, ?r0)" unfolding bs by (rule skip_magic)
  obtain t r1 where t: "get_fields ?r0 = (t, r1)" by fastforce
  obtain crc r2 where crc: "get_u32 r1 = (crc, r2)" by fastforce
  have live: "\<not> failed r2"
  proof
    assume "failed r2"
    with dec len magic skip t crc show False
      unfolding decode_state_file_def length_magic
      by (simp add: get_header_fields linorder_not_less failure_def status_ok_def)
  qed
  then have "\<not> failed r1" using c_u32.sticky [of r1] crc by auto
  with cc_fields.accepted_prefix [OF t] cc_u32.accepted_prefix [OF crc live]
  have valid: "ident63_ok (fst (snd t))" and shape: "bs = kStateFileMagic @ put_fields t @ put_u32 crc @ rest r2"
    by (simp_all add: bs)
  from decode_state_file_body [OF valid, of crc "rest r2"] dec len(2)
  have "f = \<lparr>sfl_header = header_of t, sfl_payload = rest r2\<rparr>" "crc32 (kStateFileMagic @ put_fields t) = crc"
    "fh_format (header_of t) = kStateFormatGenerationV1" "digest_of (rest r2) = fh_payload_digest (header_of t)"
    "length (rest r2) = unat (fh_payload_size (header_of t))"
    by (auto simp: shape failure_def status_ok_def split: if_splits)
  with valid len(2) shape show ?thesis
    unfolding ident63_ok_iff by (simp add: put_header_fields) (simp add: header_of_def split: prod.splits)
qed

lemma put_header_same: "fh_payload_digest h = d \<Longrightarrow> put_header (h\<lparr>fh_payload_digest := d\<rparr>) = put_header h"
  by (simp add: put_header_def)


section \<open>Properties\<close>

text \<open>
  C31: A state object is a bounded finite map from field names to values: storing a value succeeds
  exactly when it has a name and the name is present or there is room below the bound of 64 fields,
  and then only that name is changed; removing succeeds exactly when the name is present; a failed
  operation changes nothing; and every setter keeps the fields sorted, bounded and well typed.
\<close>

theorem state_object_map:
  assumes "so_inv obj"
  shows "(is_ok (fst (so_assign obj v)) \<longleftrightarrow>
        sv_name v \<noteq> [] \<and> (so_find obj (sv_name v) \<noteq> None \<or> length obj < kMessageFields))
    \<and> (is_ok (fst (so_assign obj v)) \<longrightarrow>
        so_find (snd (so_assign obj v)) = (so_find obj)(sv_name v \<mapsto> v))
    \<and> (\<not> is_ok (fst (so_assign obj v)) \<longrightarrow> snd (so_assign obj v) = obj)
    \<and> (is_ok (fst (remove_field obj n)) \<longleftrightarrow> so_find obj n \<noteq> None)
    \<and> so_find (snd (remove_field obj n)) = (so_find obj)(n := None)
    \<and> so_inv (snd (remove_field obj n))
    \<and> (n = [] \<or> ident_ok 63 n \<longrightarrow> so_inv (snd (set_u64 obj n x)) \<and> so_inv (snd (set_i64 obj n x))
         \<and> so_inv (snd (set_bool obj n b)) \<and> so_inv (snd (set_text obj n t)) \<and> so_inv (snd (set_digest obj n d)))"
proof -
  note ok = so_inv_ok [OF assms]
  have find: "so_find obj = om_find (keyed sv_name obj)" using so.find_om [OF ok] by (simp add: fun_eq_iff)
  have del: "so_find (map snd (om_del n (keyed sv_name obj))) = (om_find (keyed sv_name obj))(n := None)"
    using so.find_om [of "map snd (om_del n (keyed sv_name obj))"]
    by (simp add: fun_eq_iff keyed_del om_ok_del ok om_find_del)
  show ?thesis
    using so.assign_spec [OF ok, of v] setters_inv [OF assms, of n] remove_field_inv [OF assms, of n] del
    by (auto simp: remove_field_cases [OF ok] find fun_eq_iff)
qed

definition sample_state :: StateObject where
  "sample_state = [state_value\<lparr>sv_name := ''legacy_token'', sv_type := Text, sv_text := ''abc''\<rparr>,
     state_value\<lparr>sv_name := ''sequence'', sv_type := U64, sv_number := 7\<rparr>]"

lemma sample_state_inv: "so_inv sample_state"
  by (simp add: so_inv_def fields_inv_def sample_state_def om_ok_def sv_ok_def state_value_def ident_ok_def
      is_valid_ident_char_def is_valid_text_char_def limit_defs less_eq_char_def less_char_def)

theorem state_object_map_witness:
  "so_find (snd (remove_field sample_state ''sequence'')) ''sequence'' = None
   \<and> is_ok (fst (remove_field sample_state ''sequence''))"
  using state_object_map [OF sample_state_inv, of _ "''sequence''"]
  by (simp add: so_find_def sample_state_def state_value_def lower_bound_def less_char_def)

text \<open>
  Whatever bytes the state decoder is given, the object it builds satisfies the invariant
  (sorted, at most 64 fields, every value well formed for its type); and every such object is
  recovered from its encoding.
\<close>

theorem state_encoding_roundtrip:
  "so_inv (snd (so_decode bs)) \<and> (so_inv obj \<longrightarrow> so_decode (so_encode obj) = (status_ok, obj))"
  using so_decode_inv so_decode_encode by blast

theorem state_encoding_roundtrip_witness: "so_decode (so_encode sample_state) = (status_ok, sample_state)"
  using state_encoding_roundtrip [of "[]" sample_state] sample_state_inv by simp

text \<open>
  C30: A state file has exactly one accepted representation.  What the encoder writes the decoder
  returns (with size and digest of the payload filled in); conversely, every file the decoder accepts
  and whose header names a schema and a generation is byte for byte what the encoder produces for
  its contents, so its header checksum and payload digest are right.
\<close>

theorem state_file_canonical:
  "(encode_state_file f = (status_ok, bs) \<and> length bs \<le> kStateFileBytes
      \<and> ident_ok 63 (fh_schema (sfl_header f)) \<and> fh_format (sfl_header f) = kStateFormatGenerationV1
    \<longrightarrow> decode_state_file bs = (status_ok, f\<lparr>sfl_header := (sfl_header f)
          \<lparr>fh_payload_size := of_nat (length (sfl_payload f)),
           fh_payload_digest := digest_of (sfl_payload f), fh_crc := 0\<rparr>\<rparr>))
   \<and> (decode_state_file bs = (status_ok, f) \<and> header_is_set (sfl_header f)
    \<longrightarrow> encode_state_file f = (status_ok, bs))"
proof (intro conjI impI)
  assume "decode_state_file bs = (status_ok, f) \<and> header_is_set (sfl_header f)"
  moreover from this have "of_nat (length (sfl_payload f)) = fh_payload_size (sfl_header f)"
    using decode_canonical [of bs f] by (metis of_nat_unat ucast_id)
  ultimately show "encode_state_file f = (status_ok, bs)"
    using decode_canonical [of bs f] put_header_same [of "sfl_header f"] by (auto simp: encode_state_file_def Let_def)
qed (use decode_encode_state_file in blast)

definition sample_file :: StateFile where
  "sample_file = \<lparr>sfl_header = header_unset\<lparr>fh_format := 1, fh_schema := ''component-state'', fh_generation := 1\<rparr>,
     sfl_payload = []\<rparr>"

theorem state_file_canonical_witness:
  "\<exists>f. decode_state_file (snd (encode_state_file sample_file)) = (status_ok, f) \<and> sfl_payload f = []"
proof -
  have "encode_state_file sample_file = (status_ok, snd (encode_state_file sample_file))"
    by (simp add: encode_state_file_def sample_file_def header_is_set_def header_unset_def gen_is_set_def Let_def)
  moreover have "length (snd (encode_state_file sample_file)) \<le> kStateFileBytes"
    by (simp add: encode_state_file_def sample_file_def header_is_set_def header_unset_def gen_is_set_def Let_def
        put_header_def put_generation_def put_ident_def put_text_def put_blob_def put_digest_def kStateFileBytes_def)
  ultimately show ?thesis
    using state_file_canonical [of sample_file "snd (encode_state_file sample_file)"]
    by (auto simp: sample_file_def header_unset_def kStateFormatGenerationV1_def ident_ok_def
        is_valid_ident_char_def less_eq_char_def)
qed

end
