(* ===== verification/Ref_Migration.thy ===== *)
theory Ref_Migration
  imports Ref_State
begin

text \<open>
  State migration: the second half of \<open>include/ref/migration.hpp\<close> and \<open>src/migration.cpp\<close>.

  The migrator reads the authoritative state file, transforms its payload, stages the result beside
  it, verifies the staged file, keeps the original as a checkpoint and commits by renaming.  It runs
  in the world of \<open>Ref_Files\<close>, so every theorem about it holds for every pattern of I/O failures and
  for a process that dies at any call.  Shown: the authoritative file is always either the original
  or the complete, valid target file, and a migration that reports failure left it untouched;
  without faults a planned migration commits; reversing it restores the original bytes; and after
  an interruption anywhere, reconciliation always reaches a decision that agrees with the disk.
\<close>

section \<open>Outcomes, contracts and results\<close>

datatype MigrationOutcome =
    NotRequired | Ready | Committed | Blocked | Failed | RollbackAvailable | Irreversible
  | RevalidationRequired | OutcomeUnknown

definition all_migration_outcomes :: "MigrationOutcome list" where
  "all_migration_outcomes =
     [NotRequired, Ready, Committed, Blocked, MigrationOutcome.Failed, RollbackAvailable, Irreversible,
      MigrationOutcome.RevalidationRequired, MigrationOutcome.OutcomeUnknown]"

fun migration_outcome_to_string :: "MigrationOutcome \<Rightarrow> string" where
  "migration_outcome_to_string NotRequired = ''MIGRATION_NOT_REQUIRED''"
| "migration_outcome_to_string Ready = ''MIGRATION_READY''"
| "migration_outcome_to_string Committed = ''MIGRATION_COMMITTED''"
| "migration_outcome_to_string Blocked = ''MIGRATION_BLOCKED''"
| "migration_outcome_to_string MigrationOutcome.Failed = ''MIGRATION_FAILED''"
| "migration_outcome_to_string RollbackAvailable = ''MIGRATION_ROLLBACK_AVAILABLE''"
| "migration_outcome_to_string Irreversible = ''MIGRATION_IRREVERSIBLE''"
| "migration_outcome_to_string MigrationOutcome.RevalidationRequired = ''REVALIDATION_REQUIRED''"
| "migration_outcome_to_string MigrationOutcome.OutcomeUnknown = ''OUTCOME_UNKNOWN''"

definition parse_migration_outcome :: "string \<Rightarrow> MigrationOutcome option" where
  "parse_migration_outcome text =
     List.find (\<lambda>e. text = migration_outcome_to_string e) all_migration_outcomes"

interpretation migration_outcome_names: enum_names all_migration_outcomes migration_outcome_to_string
proof
  show "e \<in> set all_migration_outcomes" for e by (cases e) (simp_all add: all_migration_outcomes_def)
qed (simp add: all_migration_outcomes_def)

record MigrationContract =
  mc_id :: ident
  mc_generation :: gen
  mc_schema :: ident
  mc_source :: gen
  mc_target :: gen
  mc_runtime_generation :: gen
  mc_epoch :: gen
  mc_policy :: gen
  mc_plan :: ident
  mc_irreversible :: bool
  mc_preserve_rollback_metadata :: bool
  mc_irreversible_acknowledged :: bool

record MigrationResult =
  mr_status :: Status
  mr_outcome :: MigrationOutcome
  mr_observed_generation :: gen
  mr_source_digest :: IntegrityDigest
  mr_target_digest :: IntegrityDigest
  mr_rollback_metadata_present :: bool
  mr_rollback_available :: bool
  mr_irreversible :: bool
  mr_detail :: string

record MigrationRecord =
  mrec_id :: ident
  mrec_generation :: gen
  mrec_schema :: ident
  mrec_source :: gen
  mrec_target :: gen
  mrec_runtime_generation :: gen
  mrec_epoch :: gen
  mrec_policy :: gen
  mrec_plan :: ident
  mrec_source_digest :: IntegrityDigest
  mrec_target_digest :: IntegrityDigest
  mrec_irreversible :: bool
  mrec_rollback_metadata_preserved :: bool
  mrec_rollback_available :: bool
  mrec_outcome :: MigrationOutcome
  mrec_provenance :: EvidenceClass
  mrec_recorded_at :: gen
  mrec_detail :: string

definition migration_result :: MigrationResult where
  "migration_result = \<lparr>mr_status = status_ok, mr_outcome = MigrationOutcome.OutcomeUnknown,
     mr_observed_generation = 0, mr_source_digest = digest_zero, mr_target_digest = digest_zero,
     mr_rollback_metadata_present = False, mr_rollback_available = False, mr_irreversible = False,
     mr_detail = []\<rparr>"

text \<open>The three assignments most exits of the migrator make.\<close>

definition mr_report :: "Status \<Rightarrow> MigrationOutcome \<Rightarrow> string \<Rightarrow> MigrationResult" where
  "mr_report status outcome text =
     migration_result\<lparr>mr_status := status, mr_outcome := outcome, mr_detail := text_from_valid 192 text\<rparr>"

definition mc_validate :: "MigrationContract \<Rightarrow> Status" where
  "mc_validate c =
     (if mc_id c = [] then failure InvalidArgument ''migration id is empty''
      else if \<not> gen_is_set (mc_generation c) then failure InvalidArgument ''migration generation is unset''
      else if mc_schema c = [] then failure InvalidArgument ''migration schema id is empty''
      else if \<not> gen_is_set (mc_source c) \<or> \<not> gen_is_set (mc_target c)
        then failure InvalidArgument ''migration source and target generations must be set''
      else if mc_source c = mc_target c
        then failure InvalidArgument ''migration source equals target generation''
      else if \<not> gen_is_set (mc_runtime_generation c)
        then failure InvalidArgument ''migration must bind a runtime generation''
      else if \<not> gen_is_set (mc_epoch c)
        then failure InvalidArgument ''migration must bind an evolution epoch''
      else if mc_irreversible c \<and> \<not> mc_irreversible_acknowledged c
        then failure Unauthorized ''irreversible migration was not explicitly acknowledged''
      else status_ok)"


section \<open>Transforms\<close>

definition generation_pair :: "gen \<Rightarrow> gen \<Rightarrow> u64" where
  "generation_pair source target = Bit_Operations.or (push_bit 8 source) target"

definition transform_supported :: "ident \<Rightarrow> gen \<Rightarrow> gen \<Rightarrow> bool" where
  "transform_supported schema source target \<longleftrightarrow>
     schema = component_state_schema \<and>
     generation_pair source target \<in>
       {generation_pair 1 2, generation_pair 2 1, generation_pair 2 3}"

definition transform_is_irreversible :: "ident \<Rightarrow> gen \<Rightarrow> gen \<Rightarrow> bool" where
  "transform_is_irreversible schema source target \<longleftrightarrow>
     schema = component_state_schema \<and> source = 2 \<and> target = 3"

definition checkpoint_path :: "string \<Rightarrow> string" where "checkpoint_path path = path @ ''.checkpoint''"
definition staging_path :: "string \<Rightarrow> string" where "staging_path path = path @ ''.migrating''"

definition field_epoch :: ident where "field_epoch = ''state_epoch''"
definition field_token :: ident where "field_token = ''legacy_token''"
definition field_token_digest :: ident where "field_token_digest = ''token_digest''"

definition apply_transform :: "StateObject \<Rightarrow> MigrationContract \<Rightarrow> Status \<times> StateObject" where
  "apply_transform source c =
     (let p = generation_pair (mc_source c) (mc_target c) in
      if p = generation_pair 1 2 then
        set_u64 source field_epoch (if gen_is_set (mc_epoch c) then mc_epoch c else 1)
      else if p = generation_pair 2 1 then
        (case so_find source field_epoch of
           None \<Rightarrow> (failure Corrupt ''source state does not carry the migration-epoch field'', source)
         | Some _ \<Rightarrow> remove_field source field_epoch)
      else if p = generation_pair 2 3 then
        (case so_find source field_token of
           None \<Rightarrow> (failure Corrupt ''source state does not carry the legacy token field'', source)
         | Some token \<Rightarrow>
             let derived = digest_of (bytes_of (sv_text token)); (removed, out) = remove_field source field_token in
             if is_failure removed then (removed, out) else set_digest out field_token_digest derived)
      else (failure ErrorCode.Unsupported ''no migration transform exists for this generation pair'', source))"


section \<open>The migrator\<close>

definition migration_inspect :: "string \<Rightarrow> World \<Rightarrow> MigrationResult \<times> World" where
  "migration_inspect path w =
     (let (present, w) = file_exists path w in
      if \<not> present
        then (mr_report (failure NotFound ''state file is absent'') MigrationOutcome.RevalidationRequired
                ''state file is absent'', w)
      else let (read, file, w) = read_state_file path w in
        if is_failure read then (mr_report read MigrationOutcome.Failed ''state file could not be decoded'', w)
        else let (checkpoint, w) = file_exists (checkpoint_path path) w in
          ((mr_report status_ok Ready ''state file decoded and integrity verified'')
             \<lparr>mr_observed_generation := fh_generation (sfl_header file),
              mr_source_digest := fh_payload_digest (sfl_header file),
              mr_rollback_metadata_present := checkpoint\<rparr>, w))"

text \<open>
  The dry run, in the order of the code: the contract and the schemas; the file and its header; the
  payload, the transform and the two schema checks.
\<close>

definition plan_contract ::
  "SchemaRegistry option \<Rightarrow> MigrationContract \<Rightarrow> MigrationResult + (SchemaDescriptor \<times> SchemaDescriptor \<times> bool)" where
  "plan_contract schemas c =
     (if is_failure (mc_validate c)
        then Inl (mr_report (mc_validate c) Blocked ''migration contract is invalid'')
      else if mc_source c = mc_target c
        then Inl (mr_report status_ok NotRequired ''source and target schema generations are identical'')
      else case schemas of
        None \<Rightarrow> Inl (migration_result\<lparr>mr_status := failure Internal ''migrator has no schema registry'',
                  mr_outcome := MigrationOutcome.Failed\<rparr>)
      | Some registry \<Rightarrow>
        (case (schema_find registry (mc_schema c) (mc_source c), schema_find registry (mc_schema c) (mc_target c)) of
           (Some source_descriptor, Some target_descriptor) \<Rightarrow>
             if \<not> transform_supported (mc_schema c) (mc_source c) (mc_target c)
               then Inl (mr_report (failure ErrorCode.Unsupported ''no migration function for this generation pair'')
                      Blocked ''migration function unavailable'')
             else let irreversible = mc_irreversible c
                      \<or> transform_is_irreversible (mc_schema c) (mc_source c) (mc_target c)
                      \<or> \<not> transform_supported (mc_schema c) (mc_target c) (mc_source c)
                      \<or> has_irreversible_field target_descriptor
               in if irreversible \<and> \<not> mc_irreversible_acknowledged c
                    then Inl ((mr_report (failure Unauthorized ''irreversible migration requires explicit acknowledgement'')
                           Blocked ''irreversible migration not acknowledged'')\<lparr>mr_irreversible := True\<rparr>)
                  else Inr (source_descriptor, target_descriptor, irreversible)
         | _ \<Rightarrow> Inl (mr_report (failure NotFound ''migration references an unregistered schema generation'')
                  Blocked ''schema generation is not registered'')))"

definition plan_state ::
  "SchemaDescriptor \<Rightarrow> SchemaDescriptor \<Rightarrow> MigrationContract \<Rightarrow> StateFile \<Rightarrow> MigrationResult + StateObject" where
  "plan_state source_descriptor target_descriptor c file =
     (if fh_schema (sfl_header file) \<noteq> mc_schema c \<or> fh_generation (sfl_header file) \<noteq> mc_source c
        then Inl ((mr_report (failure StaleGeneration ''state file is not at the declared source generation'')
               MigrationOutcome.RevalidationRequired ''source generation mismatch'')
               \<lparr>mr_observed_generation := fh_generation (sfl_header file)\<rparr>)
      else let (decoded, object) = so_decode (sfl_payload file) in
        if is_failure decoded
          then Inl (mr_report decoded MigrationOutcome.Failed ''state payload is not decodable'')
        else let source_valid = validate_against object source_descriptor in
          if is_failure source_valid
            then Inl (mr_report source_valid MigrationOutcome.Failed
                   ''authoritative state does not satisfy its own schema'')
          else let (transformed, target_object) = apply_transform object c in
            if is_failure transformed
              then Inl (mr_report transformed MigrationOutcome.Failed ''migration transform failed'')
            else let target_valid = validate_against target_object target_descriptor in
              if is_failure target_valid
                then Inl (mr_report target_valid MigrationOutcome.Failed
                       ''migrated state does not satisfy the target schema'')
              else Inr target_object)"

definition plan_migration ::
  "SchemaRegistry option \<Rightarrow> string \<Rightarrow> MigrationContract \<Rightarrow> World \<Rightarrow> MigrationResult \<times> World" where
  "plan_migration schemas path c w =
     (case plan_contract schemas c of
        Inl result \<Rightarrow> (result, w)
      | Inr (source_descriptor, target_descriptor, irreversible) \<Rightarrow>
          let (read, file, w) = read_state_file path w in
          if is_failure read then (mr_report read Blocked ''state file could not be read'', w)
          else case plan_state source_descriptor target_descriptor c file of
              Inl result \<Rightarrow> (result, w)
            | Inr target_object \<Rightarrow>
                let (checkpoint, w) = file_exists (checkpoint_path path) w in
                ((mr_report status_ok Ready ''migration validated; authoritative state untouched'')
                   \<lparr>mr_observed_generation := fh_generation (sfl_header file),
                    mr_source_digest := fh_payload_digest (sfl_header file),
                    mr_target_digest := digest_of (so_encode target_object),
                    mr_irreversible := irreversible,
                    mr_rollback_metadata_present := checkpoint\<rparr>, w))"

definition target_state_file :: "MigrationContract \<Rightarrow> StateFile \<Rightarrow> StateObject \<Rightarrow> StateFile" where
  "target_state_file c source_file target_object =
     \<lparr>sfl_header = header_unset\<lparr>fh_format := fh_format (sfl_header source_file), fh_schema := mc_schema c,
        fh_generation := mc_target c, fh_migration := mc_generation c, fh_epoch := mc_epoch c,
        fh_policy := mc_policy c\<rparr>,
      sfl_payload = so_encode target_object\<rparr>"

text \<open>The second half of \<open>migrate\<close>: the checkpoint and the commit, once the staged file is verified.\<close>

definition preserve_original :: "string \<Rightarrow> MigrationContract \<Rightarrow> World \<Rightarrow> Status \<times> World" where
  "preserve_original path c w =
     (if \<not> mc_preserve_rollback_metadata c then (status_ok, w)
      else let (read, original, w) = read_file_bounded path kStateFileBytes w in
        if is_failure read then (read, w)
        else write_file_atomic (checkpoint_path path) original w)"

definition migration_committed ::
  "string \<Rightarrow> MigrationContract \<Rightarrow> MigrationResult \<Rightarrow> StateFile \<Rightarrow> StateFile \<Rightarrow> World \<Rightarrow> MigrationResult \<times> World" where
  "migration_committed path c planned source_file target_file w =
     (let preserve = mc_preserve_rollback_metadata c;
          (present, w) = (if preserve then file_exists (checkpoint_path path) w else (False, w));
          reversible = (\<not> mr_irreversible planned \<and> transform_supported (mc_schema c) (mc_target c) (mc_source c));
          available = (reversible \<and> present);
          (outcome, text) =
            (if mr_irreversible planned
               then (Irreversible, ''irreversible migration committed; rollback no longer available'')
             else if available
               then (RollbackAvailable, ''migration committed with verified rollback metadata'')
             else (Committed, ''migration committed''))
      in ((mr_report status_ok outcome text)
            \<lparr>mr_observed_generation := mc_target c,
             mr_source_digest := fh_payload_digest (sfl_header source_file),
             mr_target_digest := fh_payload_digest (sfl_header target_file),
             mr_rollback_metadata_present := present, mr_rollback_available := available,
             mr_irreversible := mr_irreversible planned\<rparr>, w))"

definition migration_commit ::
  "string \<Rightarrow> MigrationContract \<Rightarrow> MigrationResult \<Rightarrow> StateFile \<Rightarrow> StateFile \<Rightarrow> World \<Rightarrow> MigrationResult \<times> World" where
  "migration_commit path c planned source_file target_file w =
     (let staging = staging_path path; (preserved, w) = preserve_original path c w in
      if is_failure preserved
        then let (_, w) = remove_file_if_exists staging w in
          (mr_report preserved MigrationOutcome.Failed ''rollback metadata could not be preserved'', w)
      else let (committed, w) = rename_file staging path w in
        if is_failure committed
          then let (_, w) = remove_file_if_exists staging w in
            (mr_report committed MigrationOutcome.Failed ''atomic commit of migrated state failed'', w)
        else migration_committed path c planned source_file target_file w)"

definition migration_stage ::
  "string \<Rightarrow> MigrationContract \<Rightarrow> MigrationResult \<Rightarrow> StateFile \<Rightarrow> StateFile \<Rightarrow> World \<Rightarrow> MigrationResult \<times> World" where
  "migration_stage path c planned source_file target_file w =
     (let staging = staging_path path; (staged, w) = write_state_file staging target_file w in
      if is_failure staged
        then (mr_report staged MigrationOutcome.Failed ''staged migration state could not be written'', w)
      else let (verified, verification, w) = read_state_file staging w in
        if is_failure verified \<or> fh_generation (sfl_header verification) \<noteq> mc_target c
          then let (_, w) = remove_file_if_exists staging w in
            (mr_report (if is_failure verified then verified
                        else failure Corrupt ''staged migration state failed verification'')
               MigrationOutcome.Failed ''staged state failed verification; authoritative state untouched'', w)
        else migration_commit path c planned source_file target_file w)"

definition migrate ::
  "SchemaRegistry option \<Rightarrow> string \<Rightarrow> MigrationContract \<Rightarrow> World \<Rightarrow> MigrationResult \<times> World" where
  "migrate schemas path c w =
     (let (planned, w) = plan_migration schemas path c w in
      if mr_outcome planned = NotRequired \<or> is_failure (mr_status planned) then (planned, w)
      else let (read, source_file, w) = read_state_file path w in
        if is_failure read
          then (migration_result\<lparr>mr_status := read, mr_outcome := MigrationOutcome.Failed\<rparr>, w)
        else let (decoded, object) = so_decode (sfl_payload source_file) in
          if is_failure decoded
            then (mr_report (failure Corrupt ''state payload is not decodable'') MigrationOutcome.Failed
                    ''state payload is not decodable'', w)
          else let (transformed, target_object) = apply_transform object c in
            if is_failure transformed
              then (mr_report transformed MigrationOutcome.Failed ''migration transform failed'', w)
            else migration_stage path c planned source_file
                   (target_state_file c source_file target_object) w)"

definition reverse_of :: "MigrationContract \<Rightarrow> MigrationContract" where
  "reverse_of c = c\<lparr>mc_source := mc_target c, mc_target := mc_source c, mc_irreversible := False,
     mc_irreversible_acknowledged := False\<rparr>"

definition migration_reverse :: "string \<Rightarrow> MigrationContract \<Rightarrow> World \<Rightarrow> MigrationResult \<times> World" where
  "migration_reverse path c w =
     (let r = reverse_of c in
      if is_failure (mc_validate r)
        then (migration_result\<lparr>mr_status := mc_validate r, mr_outcome := Blocked\<rparr>, w)
      else if \<not> transform_supported (mc_schema r) (mc_source r) (mc_target r)
        then ((mr_report (failure ErrorCode.Unsupported ''no reverse migration function exists'') Irreversible
                 ''rollback barrier: reverse migration unavailable'')\<lparr>mr_irreversible := True\<rparr>, w)
      else let (present, w) = file_exists (checkpoint_path path) w in
        if \<not> present
          then (mr_report (failure NotFound ''rollback metadata is absent'') Blocked ''rollback metadata is absent'', w)
        else let (read, original, w) = read_file_bounded (checkpoint_path path) kStateFileBytes w in
          if is_failure read
            then (migration_result\<lparr>mr_status := read, mr_outcome := MigrationOutcome.Failed\<rparr>, w)
          else let (decoded, file) = decode_state_file original in
            if is_failure decoded
              then (mr_report decoded MigrationOutcome.Failed ''rollback metadata is corrupt'', w)
            else if fh_generation (sfl_header file) \<noteq> mc_target r
              then (mr_report (failure Conflict ''rollback metadata generation does not match the target'') Blocked
                      ''rollback metadata generation mismatch'', w)
            else let (restored, w) = write_file_atomic path original w in
              if is_failure restored
                then (migration_result\<lparr>mr_status := restored, mr_outcome := MigrationOutcome.Failed\<rparr>, w)
              else ((mr_report status_ok Committed ''state restored from rollback metadata'')
                      \<lparr>mr_observed_generation := mc_target r,
                       mr_target_digest := fh_payload_digest (sfl_header file),
                       mr_rollback_metadata_present := True, mr_rollback_available := True\<rparr>, w))"

definition migration_reconcile :: "string \<Rightarrow> MigrationContract \<Rightarrow> World \<Rightarrow> MigrationResult \<times> World" where
  "migration_reconcile path c w =
     (let staging = staging_path path;
          (staging_present, w) = file_exists staging w; (state_present, w) = file_exists path w in
      if \<not> state_present \<and> \<not> staging_present
        then (mr_report (failure NotFound ''neither authoritative state nor staging state exists'')
                MigrationOutcome.OutcomeUnknown ''no state file to reconcile'', w)
      else if \<not> state_present \<and> staging_present
        then (mr_report (failure Conflict ''staging state exists without authoritative state'')
                MigrationOutcome.RevalidationRequired ''staging state persists; authoritative state is absent'', w)
      else let (read, file, w) = read_state_file path w in
        if is_failure read
          then (mr_report read MigrationOutcome.OutcomeUnknown ''authoritative state is not decodable'', w)
        else let observed = (\<lambda>result. result\<lparr>mr_observed_generation := fh_generation (sfl_header file),
                               mr_source_digest := fh_payload_digest (sfl_header file)\<rparr>)
          in if fh_generation (sfl_header file) = mc_target c then
               let (_, w) = (if staging_present then remove_file_if_exists staging w else (status_ok, w));
                   irreversible = transform_is_irreversible (mc_schema c) (mc_source c) (mc_target c);
                   (present, w) = file_exists (checkpoint_path path) w
               in (observed (mr_report status_ok Committed
                       ''authoritative state already carries the target generation'')
                     \<lparr>mr_irreversible := irreversible, mr_rollback_metadata_present := present,
                      mr_rollback_available := transform_supported (mc_schema c) (mc_target c) (mc_source c)
                                                \<and> present \<and> \<not> irreversible\<rparr>, w)
             else if fh_generation (sfl_header file) = mc_source c then
               (observed (mr_report status_ok
                  (if staging_present then MigrationOutcome.RevalidationRequired else NotRequired)
                  (if staging_present then ''staging state present but not committed; operator decision required''
                   else ''authoritative state is still at the source generation'')), w)
             else (observed (mr_report (failure Conflict ''authoritative state is at an unexpected generation'')
                     MigrationOutcome.OutcomeUnknown
                     ''authoritative state generation is neither source nor target''), w))"


section \<open>Frames\<close>

lemma files_read_state [simp, frame_simps]: "files (snd (snd (read_state_file p w))) = files w"
  using files_read [of p kStateFileBytes w] by (simp add: read_state_file_def Let_def case_prod_unfold)

text \<open>A status is either the success value itself or carries an error code.\<close>

definition exact_status :: "Status \<Rightarrow> bool" where
  "exact_status s \<longleftrightarrow> (is_ok s \<longrightarrow> s = status_ok)"

lemma exact_status_simps [simp]: "exact_status status_ok" "c \<noteq> Ok \<Longrightarrow> exact_status (failure c d)"
  by (simp_all add: exact_status_def)

lemma decode_state_file_status: "is_ok (fst (decode_state_file bs)) \<Longrightarrow> fst (decode_state_file bs) = status_ok"
proof -
  have "exact_status (fst (decode_state_file bs))"
    unfolding decode_state_file_def by (simp add: Let_def split: prod.split)
  then show "is_ok (fst (decode_state_file bs)) \<Longrightarrow> fst (decode_state_file bs) = status_ok"
    by (simp add: exact_status_def)
qed

lemma read_state_ok:
  assumes "read_state_file p w = (s, file, w')" and "is_ok s"
  shows "files w' = files w \<and> (\<exists>bs. files w p = Some bs \<and> decode_state_file bs = (status_ok, file))"
proof -
  obtain r bs w1 where r: "read_file_bounded p kStateFileBytes w = (r, bs, w1)" by (metis prod_cases3)
  with assms have ok: "is_ok r" "decode_state_file bs = (s, file)" "w' = w1"
    by (auto simp: read_state_file_def split: if_splits prod.splits)
  with read_ok [of p kStateFileBytes w] r assms(2) decode_state_file_status [of bs] files_read [of p kStateFileBytes w]
  show ?thesis by auto
qed

lemma read_state_quiet: "quiet w \<Longrightarrow> files w p = Some bs \<Longrightarrow> length bs \<le> kStateFileBytes \<Longrightarrow>
    read_state_file p w = (fst (decode_state_file bs), snd (decode_state_file bs), w)"
  by (simp add: read_state_file_def case_prod_unfold Let_def)

lemma paths_distinct [simp]:
  "checkpoint_path p \<noteq> p" "p \<noteq> checkpoint_path p" "staging_path p \<noteq> p" "p \<noteq> staging_path p"
  "checkpoint_path p \<noteq> staging_path p" "staging_path p \<noteq> checkpoint_path p"
  "temp_sibling_path (checkpoint_path p) s \<noteq> p" "temp_sibling_path (staging_path p) s \<noteq> p"
  "p \<noteq> temp_sibling_path (checkpoint_path p) s" "p \<noteq> temp_sibling_path (staging_path p) s"
  "staging_path p \<noteq> temp_sibling_path (checkpoint_path p) s"
  "checkpoint_path p \<noteq> temp_sibling_path (staging_path p) s"
  by (simp_all add: checkpoint_path_def staging_path_def temp_sibling_path_def)

definition touched :: "string \<Rightarrow> string set" where
  "touched p = {p, staging_path p, checkpoint_path p, temp_sibling_path (staging_path p) ''tmp'',
     temp_sibling_path (checkpoint_path p) ''tmp''}"

lemma preserve_original_ok:
  assumes "preserve_original p c w = (s, w')"
  shows "\<forall>q. q \<notin> {checkpoint_path p, temp_sibling_path (checkpoint_path p) ''tmp''} \<longrightarrow> files w' q = files w q"
    and "is_ok s \<Longrightarrow> mc_preserve_rollback_metadata c \<Longrightarrow> files w p \<noteq> None \<and> files w' (checkpoint_path p) = files w p"
proof -
  obtain r bs w1 where r: "read_file_bounded p kStateFileBytes w = (r, bs, w1)" by (metis prod_cases3)
  have f: "files w1 = files w" using files_read [of p kStateFileBytes w] r by simp
  show "\<forall>q. q \<notin> {checkpoint_path p, temp_sibling_path (checkpoint_path p) ''tmp''} \<longrightarrow> files w' q = files w q"
    using assms r f atomic.untouched [where p = "checkpoint_path p" and bs = bs and w = w1]
    by (auto simp: preserve_original_def split: if_splits)
  show "files w p \<noteq> None \<and> files w' (checkpoint_path p) = files w p"
    if "is_ok s" "mc_preserve_rollback_metadata c"
    using assms that r f read_ok [of p kStateFileBytes w] atomic.committed [of "checkpoint_path p" bs w1]
    by (auto simp: preserve_original_def split: if_splits)
qed

lemma committed_frame:
  assumes "migration_committed p c pl sf tf w = (res, w')"
  shows "files w' = files w \<and> mr_status res = status_ok \<and> mr_outcome res \<in> {Committed, RollbackAvailable, Irreversible}"
proof -
  have "files (snd (if mc_preserve_rollback_metadata c then file_exists (checkpoint_path p) w else (False, w))) = files w"
    by simp
  with assms show ?thesis
    by (auto simp: migration_committed_def Let_def mr_report_def case_prod_unfold split: if_splits)
qed

lemma commit_cases:
  assumes "migration_commit p c pl sf tf w = (res, w')"
  shows "\<forall>q. q \<notin> touched p \<longrightarrow> files w' q = files w q"
    and "\<not> is_ok (mr_status res) \<Longrightarrow> files w' p = files w p"
    and "is_ok (mr_status res) \<Longrightarrow> files w (staging_path p) \<noteq> None \<and> files w' p = files w (staging_path p)
        \<and> files w' (staging_path p) = None
        \<and> (mc_preserve_rollback_metadata c \<longrightarrow> files w p \<noteq> None \<and> files w' (checkpoint_path p) = files w p)
        \<and> mr_outcome res \<in> {Committed, RollbackAvailable, Irreversible}"
proof -
  obtain s1 w1 where c1: "preserve_original p c w = (s1, w1)" by fastforce
  obtain s2 w2 where c2: "rename_file (staging_path p) p w1 = (s2, w2)" by fastforce
  note f1 = preserve_original_ok [OF c1]
  have rm: "files (snd (remove_file_if_exists (staging_path p) v)) q = files v q" if "q \<noteq> staging_path p" for q v
    using that by (rule files_remove)
  have "(\<forall>q. q \<notin> touched p \<longrightarrow> files w' q = files w q)
    \<and> (\<not> is_ok (mr_status res) \<longrightarrow> files w' p = files w p)
    \<and> (is_ok (mr_status res) \<longrightarrow> files w (staging_path p) \<noteq> None \<and> files w' p = files w (staging_path p)
        \<and> files w' (staging_path p) = None
        \<and> (mc_preserve_rollback_metadata c \<longrightarrow> files w p \<noteq> None \<and> files w' (checkpoint_path p) = files w p)
        \<and> mr_outcome res \<in> {Committed, RollbackAvailable, Irreversible})"
  proof (cases "is_ok s1")
    case False
    with assms c1 have "w' = snd (remove_file_if_exists (staging_path p) w1)" "\<not> is_ok (mr_status res)"
      by (auto simp: migration_commit_def mr_report_def case_prod_unfold Let_def)
    then show ?thesis using f1(1) rm by (auto simp: touched_def)
  next
    case preserved: True
    show ?thesis
    proof (cases "is_ok s2")
      case False
      with assms c1 c2 preserved have w': "w' = snd (remove_file_if_exists (staging_path p) w2)" "\<not> is_ok (mr_status res)"
        by (auto simp: migration_commit_def mr_report_def case_prod_unfold Let_def)
      have "files w2 = files w1" using rename_file_failed [of "staging_path p" p w1] c2 False by simp
      then show ?thesis using w' f1(1) rm by (auto simp: touched_def)
    next
      case True
      with assms c1 c2 preserved have fin: "migration_committed p c pl sf tf w2 = (res, w')"
        by (simp add: migration_commit_def)
      obtain content where content: "files w1 (staging_path p) = Some content"
        "files w2 = (files w1)(staging_path p := None, p := Some content)"
        using rename_file_ok [of "staging_path p" p w1] c2 True by auto
      with f1(1) have "files w (staging_path p) = Some content" by (simp add: touched_def)
      then show ?thesis
        using committed_frame [OF fin] content f1(1) f1(2) [OF preserved] by (auto simp: touched_def)
    qed
  qed
  then show "\<forall>q. q \<notin> touched p \<longrightarrow> files w' q = files w q"
    and "\<not> is_ok (mr_status res) \<Longrightarrow> files w' p = files w p"
    and "is_ok (mr_status res) \<Longrightarrow> files w (staging_path p) \<noteq> None \<and> files w' p = files w (staging_path p)
        \<and> files w' (staging_path p) = None
        \<and> (mc_preserve_rollback_metadata c \<longrightarrow> files w p \<noteq> None \<and> files w' (checkpoint_path p) = files w p)
        \<and> mr_outcome res \<in> {Committed, RollbackAvailable, Irreversible}"
    by blast+
qed

lemma stage_cases:
  assumes "migration_stage p c pl sf tf w = (res, w')"
  shows "(\<forall>q. q \<notin> touched p \<longrightarrow> files w' q = files w q)
    \<and> (\<not> is_ok (mr_status res) \<longrightarrow> files w' p = files w p)
    \<and> (is_ok (mr_status res) \<longrightarrow> (\<exists>bs ver. encode_state_file tf = (status_ok, bs) \<and> files w' p = Some bs
         \<and> decode_state_file bs = (status_ok, ver) \<and> fh_generation (sfl_header ver) = mc_target c)
         \<and> files w' (staging_path p) = None
         \<and> (mc_preserve_rollback_metadata c \<longrightarrow> files w p \<noteq> None \<and> files w' (checkpoint_path p) = files w p)
         \<and> mr_outcome res \<in> {Committed, RollbackAvailable, Irreversible})"
proof -
  let ?s = "staging_path p"
  obtain e bs where enc: "encode_state_file tf = (e, bs)" by fastforce
  obtain s1 w1 where c1: "write_state_file ?s tf w = (s1, w1)" by fastforce
  obtain s2 ver w2 where c2: "read_state_file ?s w1 = (s2, ver, w2)" by (metis prod_cases3)
  have f2: "files w2 = files w1" using files_read_state [of ?s w1] c2 by simp
  have f1: "files w1 q = files w q" if "q \<noteq> ?s" "q \<noteq> temp_sibling_path ?s ''tmp''" for q
    using that c1 enc atomic.untouched [of q ?s bs w] by (auto simp: write_state_file_def split: if_splits)
  show ?thesis
  proof (cases "is_ok s1")
    case False
    with assms c1 f1 show ?thesis by (auto simp: migration_stage_def mr_report_def touched_def)
  next
    case staged: True
    then have e: "is_ok e" and content: "files w1 ?s = Some bs"
      using c1 enc atomic.committed [of ?s bs w] by (auto simp: write_state_file_def split: if_splits)
    then have e': "e = status_ok" using enc by (auto simp: encode_state_file_def Let_def split: if_splits)
    show ?thesis
    proof (cases "is_ok s2 \<and> fh_generation (sfl_header ver) = mc_target c")
      case False
      with assms c1 c2 staged have "w' = snd (remove_file_if_exists ?s w2)" "\<not> is_ok (mr_status res)"
        by (auto simp: migration_stage_def mr_report_def case_prod_unfold Let_def split: if_splits)
      with f1 f2 show ?thesis by (auto simp: touched_def files_remove)
    next
      case verified: True
      with assms c1 c2 staged have fin: "migration_commit p c pl sf tf w2 = (res, w')"
        by (simp add: migration_stage_def)
      have dec: "decode_state_file bs = (status_ok, ver)"
        using read_state_ok [OF c2] verified content by auto
      from commit_cases [OF fin] f1 f2 content dec verified enc e' show ?thesis
        by (auto simp: touched_def)
    qed
  qed
qed

lemma files_plan: "files (snd (plan_migration schemas p c w)) = files w"
  using files_read_state [of p w] files_file_exists
  by (simp add: plan_migration_def Let_def case_prod_unfold split: sum.splits)

lemma plan_ok:
  assumes "plan_migration schemas p c w = (pl, w')" and "is_ok (mr_status pl)" and "mr_outcome pl \<noteq> NotRequired"
  shows "\<exists>ds dt irr bs file tgt. plan_contract schemas c = Inr (ds, dt, irr) \<and> files w p = Some bs
    \<and> decode_state_file bs = (status_ok, file) \<and> plan_state ds dt c file = Inr tgt
    \<and> mr_irreversible pl = irr \<and> mr_outcome pl = Ready"
proof -
  obtain s sfile w1 where r: "read_state_file p w = (s, sfile, w1)" by (metis prod_cases3)
  show ?thesis
  proof (cases "plan_contract schemas c")
    case (Inl e)
    with assms show ?thesis
      by (auto simp: plan_migration_def plan_contract_def mr_report_def migration_result_def Let_def
          split: if_splits option.splits)
  next
    case (Inr d)
    obtain ds dt irr where d: "d = (ds, dt, irr)" by (metis prod_cases3)
    from assms Inr d r have s: "is_ok s" by (auto simp: plan_migration_def mr_report_def split: if_splits)
    from read_state_ok [OF r s] obtain bs where bs: "files w p = Some bs" "decode_state_file bs = (status_ok, sfile)"
      by blast
    show ?thesis
    proof (cases "plan_state ds dt c sfile")
      case (Inl e)
      with assms Inr d r s show ?thesis
        by (auto simp: plan_migration_def plan_state_def mr_report_def Let_def split: if_splits prod.splits)
    next
      case (Inr tgt)
      with assms \<open>plan_contract schemas c = Inr d\<close> d r s bs show ?thesis
        by (auto simp: plan_migration_def mr_report_def Let_def case_prod_unfold)
    qed
  qed
qed

lemma plan_state_ok:
  assumes "plan_state ds dt c file = Inr tgt"
  shows "\<exists>obj. fh_schema (sfl_header file) = mc_schema c \<and> fh_generation (sfl_header file) = mc_source c
    \<and> is_ok (fst (so_decode (sfl_payload file))) \<and> snd (so_decode (sfl_payload file)) = obj
    \<and> is_ok (validate_against obj ds) \<and> is_ok (fst (apply_transform obj c)) \<and> snd (apply_transform obj c) = tgt
    \<and> is_ok (validate_against tgt dt)"
  using assms by (auto simp: plan_state_def Let_def split: if_splits prod.splits)

lemma plan_contract_ok:
  assumes "plan_contract schemas c = Inr (ds, dt, irr)"
  shows "\<exists>reg. schemas = Some reg \<and> is_ok (mc_validate c) \<and> mc_source c \<noteq> mc_target c
    \<and> schema_find reg (mc_schema c) (mc_source c) = Some ds
    \<and> schema_find reg (mc_schema c) (mc_target c) = Some dt
    \<and> transform_supported (mc_schema c) (mc_source c) (mc_target c)
    \<and> (irr \<longrightarrow> mc_irreversible_acknowledged c)
    \<and> (\<not> irr \<longrightarrow> transform_supported (mc_schema c) (mc_target c) (mc_source c))"
  using assms by (auto simp: plan_contract_def Let_def split: if_splits option.splits)

lemma mc_validate_facts:
  "is_ok (mc_validate c) \<Longrightarrow> mc_id c \<noteq> [] \<and> gen_is_set (mc_generation c) \<and> mc_schema c \<noteq> []
     \<and> gen_is_set (mc_source c) \<and> gen_is_set (mc_target c) \<and> mc_source c \<noteq> mc_target c
     \<and> gen_is_set (mc_runtime_generation c) \<and> gen_is_set (mc_epoch c)"
  by (auto simp: mc_validate_def split: if_splits)

lemma apply_transform_inv:
  assumes "so_inv obj"
  shows "so_inv (snd (apply_transform obj c))"
proof -
  have "ident_ok 63 field_epoch" "ident_ok 63 field_token_digest"
    by (simp_all add: ident_ok_def field_epoch_def field_token_digest_def is_valid_ident_char_def less_eq_char_def)
  then show ?thesis
    using assms remove_field_inv [OF assms]
    by (auto simp: apply_transform_def Let_def setters_inv case_prod_unfold split: option.splits)
qed

lemma migrate_cases:
  assumes "migrate schemas p c w = (res, w')"
  shows "(\<forall>q. q \<notin> touched p \<longrightarrow> files w' q = files w q)
    \<and> (\<not> is_ok (mr_status res) \<longrightarrow> files w' p = files w p)
    \<and> (is_ok (mr_status res) \<longrightarrow> (\<exists>ds dt irr bs file tgt bs'. plan_contract schemas c = Inr (ds, dt, irr)
         \<and> files w p = Some bs \<and> decode_state_file bs = (status_ok, file) \<and> plan_state ds dt c file = Inr tgt
         \<and> encode_state_file (target_state_file c file tgt) = (status_ok, bs')
         \<and> files w' p = Some bs' \<and> length bs' \<le> kStateFileBytes
         \<and> files w' (staging_path p) = None
         \<and> (mc_preserve_rollback_metadata c \<longrightarrow> files w' (checkpoint_path p) = Some bs)
         \<and> mr_outcome res \<in> {Committed, RollbackAvailable, Irreversible}))"
proof -
  obtain pl w1 where pl: "plan_migration schemas p c w = (pl, w1)" by fastforce
  then have f1: "files w1 = files w" using files_plan [of schemas p c w] by simp
  show ?thesis
  proof (cases "mr_outcome pl = NotRequired \<or> \<not> is_ok (mr_status pl)")
    case True
    have "\<not> is_ok (mr_status pl)"
    proof
      assume "is_ok (mr_status pl)"
      with True have "mr_outcome pl = NotRequired" by simp
      with pl show False
        by (auto simp: plan_migration_def plan_contract_def plan_state_def mr_report_def migration_result_def
            mc_validate_def Let_def case_prod_unfold split: if_splits option.splits sum.splits)
    qed
    with True assms pl f1 show ?thesis by (auto simp: migrate_def split: if_splits)
  next
    case ready: False
    with plan_ok [OF pl] obtain ds dt irr bs sfile tgt where plan: "plan_contract schemas c = Inr (ds, dt, irr)"
      "files w p = Some bs" "decode_state_file bs = (status_ok, sfile)" "plan_state ds dt c sfile = Inr tgt" by blast
    obtain s2 file2 w2 where r: "read_state_file p w1 = (s2, file2, w2)" by (metis prod_cases3)
    then have f2: "files w2 = files w" using files_read_state [of p w1] f1 by simp
    show ?thesis
    proof (cases "is_ok s2")
      case False
      with assms pl ready r f2 show ?thesis by (auto simp: migrate_def)
    next
      case True
      with read_state_ok [OF r] plan f1 have same: "file2 = sfile" by auto
      from plan_state_ok [OF plan(4)]
      have fin: "migration_stage p c pl sfile (target_state_file c sfile tgt) w2 = (res, w')"
        using assms pl ready r True same by (auto simp: migrate_def Let_def case_prod_unfold split: if_splits)
      from stage_cases [OF fin] decode_canonical plan f2 show ?thesis by (fastforce simp: touched_def)
    qed
  qed
qed

section \<open>What a committed migration leaves on disk\<close>

lemma target_file_decodes:
  assumes "plan_contract schemas c = Inr (ds, dt, irr)" and "decode_state_file bs = (status_ok, src)"
    and "plan_state ds dt c src = Inr tgt"
    and "encode_state_file (target_state_file c src tgt) = (status_ok, bs')" and "length bs' \<le> kStateFileBytes"
  shows "\<exists>f. decode_state_file bs' = (status_ok, f) \<and> fh_generation (sfl_header f) = mc_target c
    \<and> fh_schema (sfl_header f) = mc_schema c \<and> so_decode (sfl_payload f) = (status_ok, tgt)"
proof -
  from plan_state_ok [OF assms(3)] have schema: "fh_schema (sfl_header src) = mc_schema c"
    and tgt: "tgt = snd (apply_transform (snd (so_decode (sfl_payload src))) c)" by auto
  have "so_inv tgt" unfolding tgt by (intro apply_transform_inv so_decode_inv)
  then have payload: "so_decode (so_encode tgt) = (status_ok, tgt)" by (rule so_decode_encode)
  from decode_canonical [OF assms(2)] schema
  have "decode_state_file bs' = (status_ok, (target_state_file c src tgt)\<lparr>sfl_header := (sfl_header (target_state_file c src tgt))
      \<lparr>fh_payload_size := of_nat (length (sfl_payload (target_state_file c src tgt))),
       fh_payload_digest := digest_of (sfl_payload (target_state_file c src tgt)), fh_crc := 0\<rparr>\<rparr>)"
    by (intro decode_encode_state_file [OF assms(4,5)]) (simp_all add: target_state_file_def header_unset_def)
  with payload show ?thesis by (simp add: target_state_file_def header_unset_def)
qed

lemma encode_target_ok:
  assumes "plan_contract schemas c = Inr (ds, dt, irr)" and "decode_state_file bs = (status_ok, src)"
    and "length (so_encode tgt) \<le> kStateFileBytes"
  shows "\<exists>bs'. encode_state_file (target_state_file c src tgt) = (status_ok, bs')"
proof -
  from plan_contract_ok [OF assms(1)] mc_validate_facts [of c]
  have "gen_is_set (mc_target c)" "mc_schema c \<noteq> []" by auto
  moreover from decode_canonical [OF assms(2)] have "gen_is_set (fh_format (sfl_header src))"
    by (simp add: kStateFormatGenerationV1_def gen_is_set_def)
  ultimately show ?thesis
    using assms(3) by (simp add: encode_state_file_def target_state_file_def header_is_set_def header_unset_def Let_def)
qed


section \<open>Progress\<close>

lemma quiet_update: "quiet w \<Longrightarrow> quiet (w\<lparr>files := f\<rparr>)"
  by simp

lemma decode_size: "decode_state_file bs = (status_ok, f) \<Longrightarrow> length bs \<le> kStateFileBytes"
  using decode_canonical by blast

lemma plan_quiet:
  assumes "quiet w" and "plan_contract schemas c = Inr (ds, dt, irr)" and "files w p = Some bs"
    and "decode_state_file bs = (status_ok, src)" and "plan_state ds dt c src = Inr tgt"
  shows "\<exists>pl. plan_migration schemas p c w = (pl, w) \<and> mr_status pl = status_ok \<and> mr_outcome pl = Ready
    \<and> mr_irreversible pl = irr"
  using assms decode_size [OF assms(4)]
  by (simp add: plan_migration_def read_state_quiet mr_report_def)

lemma preserve_quiet:
  assumes "quiet w" and "files w p = Some bs" and "length bs \<le> kStateFileBytes"
  shows "\<exists>w1. preserve_original p c w = (status_ok, w1) \<and> quiet w1"
proof (cases "mc_preserve_rollback_metadata c")
  case True
  with assms write_quiet [OF assms(1,3), of "checkpoint_path p"] show ?thesis
    by (simp add: preserve_original_def)
qed (use assms in \<open>simp add: preserve_original_def\<close>)

lemma stage_quiet:
  assumes w: "quiet w" and enc: "encode_state_file tf = (status_ok, bs')" "length bs' \<le> kStateFileBytes"
    and dec: "decode_state_file bs' = (status_ok, f)" "fh_generation (sfl_header f) = mc_target c"
    and src: "files w p = Some bs" "length bs \<le> kStateFileBytes"
  shows "is_ok (mr_status (fst (migration_stage p c pl sf tf w))) \<and> quiet (snd (migration_stage p c pl sf tf w))"
proof -
  define w1 where "w1 = w\<lparr>files := (files w)(temp_sibling_path (staging_path p) ''tmp'' := None, staging_path p := Some bs')\<rparr>"
  have c1: "write_state_file (staging_path p) tf w = (status_ok, w1)"
    by (simp add: write_state_file_def enc write_quiet [OF w enc(2)] w1_def)
  have q1: "quiet w1" "files w1 (staging_path p) = Some bs'" "files w1 p = Some bs"
    using w src by (simp_all add: w1_def)
  have c2: "read_state_file (staging_path p) w1 = (status_ok, f, w1)"
    using read_state_quiet [OF q1(1,2) enc(2)] dec by simp
  obtain w2 where c3: "preserve_original p c w1 = (status_ok, w2)" "quiet w2"
    using preserve_quiet [OF q1(1,3) src(2)] by blast
  have "files w2 (staging_path p) = Some bs'" using preserve_original_ok(1) [OF c3(1)] q1(2) by simp
  from rename_file_quiet [OF c3(2) this, of p] c1 c2 c3 dec show ?thesis
    by (simp add: migration_stage_def migration_commit_def migration_committed_def mr_report_def Let_def)
qed

lemma migrate_quiet:
  assumes w: "quiet w" and plan: "plan_contract schemas c = Inr (ds, dt, irr)" "files w p = Some bs"
    "decode_state_file bs = (status_ok, src)" "plan_state ds dt c src = Inr tgt"
    and enc: "encode_state_file (target_state_file c src tgt) = (status_ok, bs')" "length bs' \<le> kStateFileBytes"
  shows "is_ok (mr_status (fst (migrate schemas p c w))) \<and> quiet (snd (migrate schemas p c w))"
proof -
  obtain pl where pl: "plan_migration schemas p c w = (pl, w)" "mr_status pl = status_ok" "mr_outcome pl = Ready"
    using plan_quiet [OF w plan] by blast
  have size: "length bs \<le> kStateFileBytes" using decode_canonical [OF plan(3)] by blast
  from plan_state_ok [OF plan(4)] pl
  have "migrate schemas p c w = migration_stage p c pl src (target_state_file c src tgt) w"
    by (auto simp: migrate_def read_state_quiet [OF w plan(2) size] plan(3) Let_def case_prod_unfold)
  moreover obtain f where "decode_state_file bs' = (status_ok, f)" "fh_generation (sfl_header f) = mc_target c"
    using target_file_decodes [OF plan(1,3,4) enc] by blast
  ultimately show ?thesis using stage_quiet [OF w enc _ _ plan(2) size] by simp
qed


section \<open>Reverse and reconcile\<close>

lemma reverse_cases:
  assumes "migration_reverse p c w = (res, w')"
  shows "(\<not> is_ok (mr_status res) \<longrightarrow> files w' p = files w p)
    \<and> (is_ok (mr_status res) \<longrightarrow> (\<exists>bs f. files w (checkpoint_path p) = Some bs \<and> files w' p = Some bs
         \<and> decode_state_file bs = (status_ok, f) \<and> fh_generation (sfl_header f) = mc_source c
         \<and> transform_supported (mc_schema c) (mc_target c) (mc_source c)))"
proof -
  let ?cp = "checkpoint_path p"
  obtain e w1 where c1: "file_exists ?cp w = (e, w1)" by fastforce
  obtain s bs w2 where c2: "read_file_bounded ?cp kStateFileBytes w1 = (s, bs, w2)" by (metis prod_cases3)
  obtain d f where c3: "decode_state_file bs = (d, f)" by fastforce
  obtain s' w3 where c4: "write_file_atomic p bs w2 = (s', w3)" by fastforce
  have f1: "files w1 = files w" using files_file_exists [of ?cp w] c1 by simp
  have f2: "files w2 = files w" using files_read [of ?cp kStateFileBytes w1] c2 f1 by simp
  show ?thesis
  proof (cases "is_ok (mc_validate (reverse_of c)) \<and> transform_supported (mc_schema c) (mc_target c) (mc_source c)
      \<and> e \<and> is_ok s \<and> is_ok d \<and> fh_generation (sfl_header f) = mc_source c")
    case True
    then have bs: "files w ?cp = Some bs" and d: "d = status_ok"
      using read_ok [of ?cp kStateFileBytes w1] c2 f1 decode_state_file_status [of bs] c3 by auto
    have run: "res = (if is_ok s' then (mr_report status_ok Committed ''state restored from rollback metadata'')
          \<lparr>mr_observed_generation := mc_source c, mr_target_digest := fh_payload_digest (sfl_header f),
           mr_rollback_metadata_present := True, mr_rollback_available := True\<rparr>
        else migration_result\<lparr>mr_status := s', mr_outcome := MigrationOutcome.Failed\<rparr>)" "w' = w3"
      using assms True c1 c2 c3 c4 by (auto simp: migration_reverse_def reverse_of_def Let_def split: if_splits)
    show ?thesis
      using run True bs d f2 c3 c4 atomic.committed [of p bs w2] atomic.rejected [of p bs w2]
      by (auto simp: mr_report_def migration_result_def split: if_splits)
  next
    case False
    then have "\<not> is_ok (mr_status res) \<and> files w' = files w"
      using assms c1 c2 c3 f1 f2
      by (auto simp: migration_reverse_def reverse_of_def mr_report_def migration_result_def Let_def split: if_splits)
    then show ?thesis by simp
  qed
qed

lemma reverse_quiet:
  assumes w: "quiet w" and c: "is_ok (mc_validate c)" "transform_supported (mc_schema c) (mc_target c) (mc_source c)"
    and cp: "files w (checkpoint_path p) = Some bs" "decode_state_file bs = (status_ok, f)"
    "fh_generation (sfl_header f) = mc_source c"
  shows "is_ok (mr_status (fst (migration_reverse p c w)))"
proof -
  have size: "length bs \<le> kStateFileBytes" using decode_canonical [OF cp(2)] by blast
  have "is_ok (mc_validate (reverse_of c))"
    using mc_validate_facts [OF c(1)] by (auto simp: mc_validate_def reverse_of_def)
  with c cp size write_quiet [OF w size, of p] w show ?thesis
    by (simp add: migration_reverse_def reverse_of_def mr_report_def)
qed

lemma reconcile_quiet:
  assumes w: "quiet w" and state: "files w p = Some bs" "decode_state_file bs = (status_ok, f)"
    and gens: "fh_generation (sfl_header f) \<in> {mc_source c, mc_target c}" "mc_source c \<noteq> mc_target c"
  shows "is_ok (mr_status (fst (migration_reconcile p c w)))
    \<and> files (snd (migration_reconcile p c w)) p = files w p
    \<and> mr_outcome (fst (migration_reconcile p c w)) =
        (if fh_generation (sfl_header f) = mc_target c then Committed
         else if files w (staging_path p) \<noteq> None then MigrationOutcome.RevalidationRequired else NotRequired)
    \<and> (fh_generation (sfl_header f) = mc_target c \<longrightarrow>
         files (snd (migration_reconcile p c w)) (staging_path p) = None)"
proof -
  have size: "length bs \<le> kStateFileBytes" using decode_canonical [OF state(2)] by blast
  have rm: "remove_file_if_exists (staging_path p) w =
      (status_ok, w\<lparr>files := (files w)(staging_path p := None)\<rparr>)"
    using w by (simp add: remove_file_if_exists_def)
  show ?thesis
    using w state gens read_state_quiet [OF w state(1) size] rm
    by (auto simp: migration_reconcile_def mr_report_def Let_def)
qed

lemma length_put_blob: "length (put_blob cap bs) \<le> 4 + cap"
  by (simp add: put_blob_def Let_def)

lemma length_put_value: "length (put_value v) \<le> 584"
  using length_put_blob [of 63 "bytes_of (sv_name v)"] length_put_blob [of kTextBytes "bytes_of (sv_text v)"]
  by (auto simp: put_value_def put_ident_def put_text_def put_u8_def put_digest_def kTextBytes_def split: FieldType.splits)

lemma length_so_encode: "length obj \<le> kMessageFields \<Longrightarrow> length (so_encode obj) \<le> 4 + 584 * 64"
proof -
  have "length (concat (map put_value obj)) \<le> 584 * length obj"
  proof (induction obj)
    case (Cons v obj)
    with length_put_value [of v] show ?case by simp
  qed simp
  then show "length obj \<le> kMessageFields \<Longrightarrow> length (so_encode obj) \<le> 4 + 584 * 64"
    by (simp add: so_encode_def kMessageFields_def)
qed

text \<open>A migrated object is far below the file size bound, so its file can always be written.\<close>

lemma target_encodes:
  assumes "plan_contract schemas c = Inr (ds, dt, irr)" and "decode_state_file bs = (status_ok, src)"
    and "plan_state ds dt c src = Inr tgt"
  shows "\<exists>bs'. encode_state_file (target_state_file c src tgt) = (status_ok, bs') \<and> length bs' \<le> kStateFileBytes"
proof -
  from plan_state_ok [OF assms(3)] have tgt: "tgt = snd (apply_transform (snd (so_decode (sfl_payload src))) c)"
    by auto
  have "so_inv tgt" unfolding tgt by (intro apply_transform_inv so_decode_inv)
  then have len: "length (so_encode tgt) \<le> 4 + 584 * 64" by (intro length_so_encode) (simp add: so_inv_def fields_inv_def)
  then obtain bs' where enc: "encode_state_file (target_state_file c src tgt) = (status_ok, bs')"
    using encode_target_ok [OF assms(1,2), of tgt] by (auto simp: kStateFileBytes_def)
  have hdr: "length (put_header h) \<le> 131" for h
    using length_put_blob [of 63 "bytes_of (fh_schema h)"]
    by (simp add: put_header_def put_generation_def put_digest_def put_ident_def put_text_def)
  obtain h x where "bs' = kStateFileMagic @ put_header h @ put_u32 x @ so_encode tgt"
    using encode_shape(1) [OF enc] by (simp add: put_header_fields [symmetric] target_state_file_def)
  then have "length bs' \<le> 8 + 131 + 4 + (4 + 584 * 64)"
    using len hdr [of h] by simp
  with enc show ?thesis by (auto simp: kStateFileBytes_def)
qed

lemma split_pair:
  fixes a b :: u64
  assumes "a < 2 ^ 56" and "b < 2 ^ 8"
  shows "drop_bit 8 (generation_pair a b) = a" and "take_bit 8 (generation_pair a b) = b"
proof -
  have a: "take_bit 56 a = a" using assms(1) by (simp add: word_unat_eq_iff unsigned_take_bit_eq take_bit_nat_eq_self word_less_nat_alt)
  have b: "take_bit 8 b = b" using assms(2) by (simp add: word_unat_eq_iff unsigned_take_bit_eq take_bit_nat_eq_self word_less_nat_alt)
  have "n < 56" if "bit a n" for n using a that by (metis bit_take_bit_iff)
  moreover have "\<not> bit b n" if "8 \<le> n" for n using b that by (metis bit_take_bit_iff linorder_not_less)
  ultimately show "drop_bit 8 (generation_pair a b) = a" "take_bit 8 (generation_pair a b) = b"
    unfolding generation_pair_def
    by (auto intro!: bit_word_eqI simp: bit_simps)
qed

lemma pair_inj: "a < 2 ^ 56 \<Longrightarrow> b < 2 ^ 8 \<Longrightarrow> a' < 2 ^ 56 \<Longrightarrow> b' < 2 ^ 8 \<Longrightarrow>
  generation_pair a b = generation_pair a' b' \<longleftrightarrow> a = a' \<and> b = b'"
  using split_pair [of a b] split_pair [of a' b'] by metis

lemma del_upd: "om_ok m \<Longrightarrow> om_find m k = None \<Longrightarrow> om_del k (om_upd k v m) = m"
  by (induction k v m rule: om_upd.induct) (auto simp: om_find_def om_ok_Cons split: if_splits)

section \<open>Properties\<close>

text \<open>
  C17: Migration is atomic under every pattern of I/O failures and for a process that dies at any
  call.  If it reports failure (or never gets to report), the authoritative file holds exactly its
  old contents.  If it succeeds, that file is a complete state file at the target generation whose
  payload decodes to the transformed object, which satisfies the target schema, and the checkpoint
  (when asked for) holds the original bytes.  No file but the state file, the staging file, the
  checkpoint and their temporary siblings is touched.
\<close>

theorem migration_atomic:
  assumes "migrate schemas p c w = (res, w')"
  shows "(\<not> is_ok (mr_status res) \<longrightarrow> files w' p = files w p)
    \<and> (is_ok (mr_status res) \<longrightarrow> (\<exists>reg ds dt bs src bs' f.
         schemas = Some reg \<and> schema_find reg (mc_schema c) (mc_source c) = Some ds
         \<and> schema_find reg (mc_schema c) (mc_target c) = Some dt
         \<and> files w p = Some bs \<and> decode_state_file bs = (status_ok, src)
         \<and> fh_generation (sfl_header src) = mc_source c
         \<and> is_ok (validate_against (snd (so_decode (sfl_payload src))) ds)
         \<and> files w' p = Some bs' \<and> decode_state_file bs' = (status_ok, f)
         \<and> fh_generation (sfl_header f) = mc_target c
         \<and> so_decode (sfl_payload f) = (status_ok, snd (apply_transform (snd (so_decode (sfl_payload src))) c))
         \<and> is_ok (validate_against (snd (so_decode (sfl_payload f))) dt)
         \<and> (mc_preserve_rollback_metadata c \<longrightarrow> files w' (checkpoint_path p) = Some bs)))
    \<and> (\<forall>q. q \<notin> touched p \<longrightarrow> files w' q = files w q)"
proof -
  note cases = migrate_cases [OF assms]
  moreover {
    assume "is_ok (mr_status res)"
    with cases obtain ds dt irr bs src tgt bs' where plan: "plan_contract schemas c = Inr (ds, dt, irr)"
      "decode_state_file bs = (status_ok, src)" "plan_state ds dt c src = Inr tgt"
      and enc: "encode_state_file (target_state_file c src tgt) = (status_ok, bs')" "length bs' \<le> kStateFileBytes"
      and disk: "files w p = Some bs" "files w' p = Some bs'"
        "mc_preserve_rollback_metadata c \<longrightarrow> files w' (checkpoint_path p) = Some bs" by blast
    from plan_contract_ok [OF plan(1)] plan_state_ok [OF plan(3)] target_file_decodes [OF plan enc] plan(2) disk
    have "\<exists>reg ds dt bs src bs' f.
         schemas = Some reg \<and> schema_find reg (mc_schema c) (mc_source c) = Some ds
         \<and> schema_find reg (mc_schema c) (mc_target c) = Some dt
         \<and> files w p = Some bs \<and> decode_state_file bs = (status_ok, src)
         \<and> fh_generation (sfl_header src) = mc_source c
         \<and> is_ok (validate_against (snd (so_decode (sfl_payload src))) ds)
         \<and> files w' p = Some bs' \<and> decode_state_file bs' = (status_ok, f)
         \<and> fh_generation (sfl_header f) = mc_target c
         \<and> so_decode (sfl_payload f) = (status_ok, snd (apply_transform (snd (so_decode (sfl_payload src))) c))
         \<and> is_ok (validate_against (snd (so_decode (sfl_payload f))) dt)
         \<and> (mc_preserve_rollback_metadata c \<longrightarrow> files w' (checkpoint_path p) = Some bs)"
      by auto }
  ultimately show ?thesis by blast
qed

text \<open>
  C19: Progress and reversibility: when the dry run succeeds and no call fails, the migration commits;
  and when the transform has an inverse and the original is preserved, reversing the migration
  afterwards succeeds and restores the original file byte for byte.
\<close>

theorem migration_progress_and_reverse:
  assumes w: "quiet w" and plan: "is_ok (mr_status (fst (plan_migration schemas p c w)))"
  shows "is_ok (mr_status (fst (migrate schemas p c w)))
    \<and> (mc_preserve_rollback_metadata c \<and> transform_supported (mc_schema c) (mc_target c) (mc_source c) \<longrightarrow>
        is_ok (mr_status (fst (migration_reverse p c (snd (migrate schemas p c w)))))
        \<and> files (snd (migration_reverse p c (snd (migrate schemas p c w)))) p = files w p)"
proof -
  obtain pl w1 where pl: "plan_migration schemas p c w = (pl, w1)" by fastforce
  have "mr_outcome pl \<noteq> NotRequired"
    using pl by (auto simp: plan_migration_def plan_contract_def plan_state_def mr_report_def migration_result_def
        mc_validate_def Let_def case_prod_unfold split: if_splits option.splits sum.splits)
  with plan_ok [OF pl] plan pl obtain ds dt irr bs src tgt where
    ready: "plan_contract schemas c = Inr (ds, dt, irr)" "files w p = Some bs"
      "decode_state_file bs = (status_ok, src)" "plan_state ds dt c src = Inr tgt" by auto
  obtain bs' where enc: "encode_state_file (target_state_file c src tgt) = (status_ok, bs')" "length bs' \<le> kStateFileBytes"
    using target_encodes [OF ready(1,3,4)] by blast
  obtain res w2 where run: "migrate schemas p c w = (res, w2)" by fastforce
  from migrate_quiet [OF w ready enc] run have ok: "is_ok (mr_status res)" "quiet w2" by simp_all
  moreover {
    assume rev: "mc_preserve_rollback_metadata c" "transform_supported (mc_schema c) (mc_target c) (mc_source c)"
    with migrate_cases [OF run] ok ready(2) have cp: "files w2 (checkpoint_path p) = Some bs" by auto
    obtain r w3 where undo: "migration_reverse p c w2 = (r, w3)" by fastforce
    from plan_contract_ok [OF ready(1)] plan_state_ok [OF ready(4)]
    have "is_ok (mc_validate c)" "fh_generation (sfl_header src) = mc_source c" by auto
    with reverse_quiet [OF ok(2) _ rev(2) cp ready(3)] undo have "is_ok (mr_status r)" by simp
    with reverse_cases [OF undo] cp ready(2) undo
    have "is_ok (mr_status (fst (migration_reverse p c w2)))
        \<and> files (snd (migration_reverse p c w2)) p = files w p" by auto }
  ultimately show ?thesis using run by auto
qed

text \<open>
  C18: Recovery after an interruption: whenever a migration started from a state file at the source
  generation, and wherever it failed or died, reconciling afterwards (with calls that succeed) reaches
  a definite decision and leaves the authoritative file as it is: COMMITTED exactly when the target
  generation is on disk, with the staging file cleaned up, and otherwise the state is still the
  original one and the outcome tells whether a staged file was left behind.
\<close>

theorem interrupted_migration_reconciles:
  assumes run: "migrate schemas p c w = (res, w')" and src: "files w p = Some bs" "decode_state_file bs = (status_ok, f)"
    "fh_generation (sfl_header f) = mc_source c" "mc_source c \<noteq> mc_target c"
  defines "w2 \<equiv> w'\<lparr>script := [], alive := True\<rparr>"
  defines "r \<equiv> migration_reconcile p c w2"
  shows "is_ok (mr_status (fst r)) \<and> files (snd r) p = files w' p
    \<and> (if mr_outcome (fst r) = Committed
       then is_ok (mr_status res) \<and> files (snd r) (staging_path p) = None
       else files w' p = files w p
         \<and> mr_outcome (fst r) = (if files w' (staging_path p) \<noteq> None then MigrationOutcome.RevalidationRequired else NotRequired))"
proof -
  note cases = migrate_cases [OF run]
  have quiet: "quiet w2" and same: "files w2 = files w'" by (simp_all add: w2_def quiet_def)
  show ?thesis
  proof (cases "is_ok (mr_status res)")
    case True
    with cases obtain ds dt irr bs src tgt bs' where
      plan: "plan_contract schemas c = Inr (ds, dt, irr)" "decode_state_file bs = (status_ok, src)"
        "plan_state ds dt c src = Inr tgt"
      and enc: "encode_state_file (target_state_file c src tgt) = (status_ok, bs')" "length bs' \<le> kStateFileBytes"
      and disk: "files w' p = Some bs'" by blast
    from target_file_decodes [OF plan enc] obtain g where
      "decode_state_file bs' = (status_ok, g)" "fh_generation (sfl_header g) = mc_target c" by blast
    with reconcile_quiet [OF quiet, of p bs' g c] disk same True assms(5) show ?thesis by (simp add: r_def)
  next
    case False
    with cases have "files w2 p = Some bs" using src same by simp
    from reconcile_quiet [OF quiet this src(2), of c] src same assms(5) False cases show ?thesis
      by (auto simp: r_def)
  qed
qed

text \<open>
  For generations below 256 a transform exists exactly for the three documented steps 1 to 2,
  2 to 1 and 2 to 3; but since the pair is packed as \<open>(from << 8) | to\<close>, larger generations alias
  them: 1 to 258 is accepted as 1 to 2.
\<close>

theorem transform_pairs:
  "(a < 2 ^ 56 \<and> b < 2 ^ 8 \<longrightarrow>
      (transform_supported component_state_schema a b \<longleftrightarrow> (a, b) \<in> {(1, 2), (2, 1), (2, 3)}))
   \<and> transform_supported component_state_schema 1 258
   \<and> transform_supported component_state_schema (2 ^ 56 + 1) 2"
proof (intro conjI impI)
  assume ab: "a < 2 ^ 56 \<and> b < 2 ^ 8"
  then show "transform_supported component_state_schema a b \<longleftrightarrow> (a, b) \<in> {(1, 2), (2, 1), (2, 3)}"
    using pair_inj [of a b 1 2] pair_inj [of a b 2 1] pair_inj [of a b 2 3]
    by (auto simp: transform_supported_def)
qed (simp_all add: transform_supported_def generation_pair_def)

text \<open>
  The step from generation 1 to 2 is reversible without loss: applied to an object that has no
  epoch field and room for one it succeeds, and the mirrored transform gives back the same object.
\<close>

theorem transform_reversible:
  assumes "so_inv obj" and "length obj < kMessageFields" and "so_find obj field_epoch = None"
    and "mc_source c = 1" "mc_target c = 2"
  shows "is_ok (fst (apply_transform obj c))
    \<and> apply_transform (snd (apply_transform obj c)) (reverse_of c) = (status_ok, obj)"
proof -
  note ok = so_inv_ok [OF assms(1)]
  have absent: "om_find (keyed sv_name obj) field_epoch = None" using assms(3) so.find_om [OF ok] by simp
  define v where "v = state_value\<lparr>sv_name := field_epoch, sv_type := U64, sv_number := if gen_is_set (mc_epoch c) then mc_epoch c else 1\<rparr>"
  have name: "sv_name v = field_epoch" "field_epoch \<noteq> []" by (simp_all add: v_def field_epoch_def)
  define obj' where "obj' = map snd (om_upd field_epoch v (keyed sv_name obj))"
  have step: "apply_transform obj c = (status_ok, obj')"
    using so.assign_cases [OF ok, of v] assms(2,4,5) absent name
    by (simp add: apply_transform_def set_u64_def v_def [symmetric] obj'_def)
  have keyed: "keyed sv_name obj' = om_upd field_epoch v (keyed sv_name obj)" 
    using keyed_upd [of sv_name v obj] name by (simp add: obj'_def)
  then have ok': "om_ok (keyed sv_name obj')" using ok by (simp add: om_ok_upd)
  have "so_find obj' field_epoch = Some v" using so.find_om [OF ok'] keyed by simp
  moreover have "remove_field obj' field_epoch = (status_ok, obj)"
    using remove_field_cases [OF ok', of field_epoch] keyed del_upd [OF ok absent, of v] by simp
  moreover have "generation_pair 2 1 \<noteq> generation_pair 1 2" by (simp add: generation_pair_def)
  ultimately show ?thesis
    using step assms(4,5) by (simp add: apply_transform_def [of obj'] reverse_of_def)
qed


definition sample_contract :: MigrationContract where
  "sample_contract = \<lparr>mc_id = ''m1'', mc_generation = 1, mc_schema = ''component-state'', mc_source = 1, mc_target = 2,
     mc_runtime_generation = 2, mc_epoch = 5, mc_policy = 1, mc_plan = ''plan'', mc_irreversible = False,
     mc_preserve_rollback_metadata = True, mc_irreversible_acknowledged = False\<rparr>"

definition sample_v1 :: StateObject where
  "sample_v1 = [state_value\<lparr>sv_name := ''mutation_counter'', sv_type := U64, sv_number := 3\<rparr>,
     state_value\<lparr>sv_name := ''owner'', sv_type := Text, sv_text := ''ops''\<rparr>]"

definition sample_v1_file :: StateFile where
  "sample_v1_file = \<lparr>sfl_header = header_unset\<lparr>fh_format := 1, fh_schema := ''component-state'', fh_generation := 1\<rparr>,
     sfl_payload = so_encode sample_v1\<rparr>"

definition sample_disk :: World where
  "sample_disk = \<lparr>files = (\<lambda>q. if q = ''s'' then Some (snd (encode_state_file sample_v1_file)) else None),
     script = [], alive = True\<rparr>"

lemma sample_v1_inv: "so_inv sample_v1"
  by (simp add: so_inv_def fields_inv_def sample_v1_def om_ok_def sv_ok_def state_value_def ident_ok_def
      is_valid_ident_char_def is_valid_text_char_def limit_defs less_eq_char_def less_char_def)

lemma sample_v1_decodes:
  "\<exists>f. decode_state_file (snd (encode_state_file sample_v1_file)) = (status_ok, f)
     \<and> fh_schema (sfl_header f) = ''component-state'' \<and> fh_generation (sfl_header f) = 1
     \<and> sfl_payload f = so_encode sample_v1"
proof -
  have len: "length (so_encode sample_v1) \<le> 4 + 584 * 64"
    using sample_v1_inv by (intro length_so_encode) (simp add: so_inv_def fields_inv_def)
  then have enc: "encode_state_file sample_v1_file = (status_ok, snd (encode_state_file sample_v1_file))"
    by (simp add: encode_state_file_def sample_v1_file_def header_is_set_def header_unset_def gen_is_set_def Let_def
        kStateFileBytes_def)
  have "length (snd (encode_state_file sample_v1_file)) \<le> kStateFileBytes"
    using len by (simp add: encode_state_file_def sample_v1_file_def header_is_set_def header_unset_def gen_is_set_def Let_def
        put_header_def put_generation_def put_ident_def put_text_def put_blob_def put_digest_def kStateFileBytes_def)
  from decode_encode_state_file [OF enc this] show ?thesis
    by (simp add: sample_v1_file_def header_unset_def kStateFormatGenerationV1_def ident_ok_def
        is_valid_ident_char_def less_eq_char_def)
qed

lemma sample_plan_contract:
  "plan_contract (Some builtin_schemas) sample_contract = Inr (builtin_v1, builtin_v2, False)"
  by (simp add: plan_contract_def sample_contract_def mc_validate_def gen_is_set_def builtin_find
      transform_supported_def transform_is_irreversible_def)
    (simp add: has_irreversible_field_def builtin_defs)

lemma sample_plan_state:
  assumes "fh_schema (sfl_header f) = ''component-state''" "fh_generation (sfl_header f) = 1"
    "sfl_payload f = so_encode sample_v1"
  shows "\<exists>tgt. plan_state builtin_v1 builtin_v2 sample_contract f = Inr tgt"
proof -
  note eval = sample_v1_def sample_contract_def state_value_def builtin_defs so_find_def lower_bound_def
    less_char_def gen_is_set_def gen_unset_def find_field_def Let_def
  have "is_ok (validate_against sample_v1 builtin_v1)"
    by (simp add: validate_against_def schema_field_status_def declared_status_def eval)
  moreover have tr: "apply_transform sample_v1 sample_contract = (status_ok,
      sample_v1 @ [state_value\<lparr>sv_name := field_epoch, sv_type := U64, sv_number := 5\<rparr>])"
    by (simp add: apply_transform_def set_u64_def so_assign_def limit_defs field_epoch_def eval)
  moreover have "is_ok (validate_against (snd (apply_transform sample_v1 sample_contract)) builtin_v2)"
    unfolding tr by (simp add: validate_against_def schema_field_status_def declared_status_def field_epoch_def eval)
  moreover have "so_decode (so_encode sample_v1) = (status_ok, sample_v1)"
    by (rule so_decode_encode [OF sample_v1_inv])
  ultimately show ?thesis
    using assms by (simp add: plan_state_def) (simp add: sample_contract_def)
qed

lemma sample_plan: "is_ok (mr_status (fst (plan_migration (Some builtin_schemas) ''s'' sample_contract sample_disk)))"
proof -
  obtain f where f: "decode_state_file (snd (encode_state_file sample_v1_file)) = (status_ok, f)"
    "fh_schema (sfl_header f) = ''component-state''" "fh_generation (sfl_header f) = 1"
    "sfl_payload f = so_encode sample_v1" using sample_v1_decodes by blast
  obtain tgt where "plan_state builtin_v1 builtin_v2 sample_contract f = Inr tgt"
    using sample_plan_state [OF f(2-)] by blast
  from plan_quiet [OF _ sample_plan_contract _ f(1) this, of sample_disk "''s''"] show ?thesis
    by (auto simp: sample_disk_def quiet_def)
qed

theorem migration_progress_and_reverse_witness:
  "is_ok (mr_status (fst (migrate (Some builtin_schemas) ''s'' sample_contract sample_disk)))
   \<and> files (snd (migration_reverse ''s'' sample_contract (snd (migrate (Some builtin_schemas) ''s'' sample_contract sample_disk)))) ''s''
     = files sample_disk ''s''"
  using migration_progress_and_reverse [OF _ sample_plan]
  by (simp add: sample_disk_def quiet_def) (simp add: sample_contract_def transform_supported_def)

theorem migration_atomic_witness:
  "\<exists>res w'. migrate (Some builtin_schemas) ''s'' sample_contract
       (sample_disk\<lparr>script := replicate 5 Succeeds @ [Crashes 3]\<rparr>) = (res, w') \<and> files w' ''other'' = None"
proof -
  obtain res w' where run: "migrate (Some builtin_schemas) ''s'' sample_contract
       (sample_disk\<lparr>script := replicate 5 Succeeds @ [Crashes 3]\<rparr>) = (res, w')" by fastforce
  from migration_atomic [OF this] have "files w' ''other'' = files sample_disk ''other''"
    by (simp add: touched_def checkpoint_path_def staging_path_def temp_sibling_path_def)
  with run show ?thesis by (simp add: sample_disk_def)
qed

theorem interrupted_migration_reconciles_witness:
  "\<exists>w'. is_ok (mr_status (fst (migration_reconcile ''s'' sample_contract (w'\<lparr>script := [], alive := True\<rparr>))))
     \<and> snd (migrate (Some builtin_schemas) ''s'' sample_contract (sample_disk\<lparr>script := [Crashes 0]\<rparr>)) = w'"
proof -
  obtain res w' where run: "migrate (Some builtin_schemas) ''s'' sample_contract (sample_disk\<lparr>script := [Crashes 0]\<rparr>) = (res, w')"
    by fastforce
  obtain f where "decode_state_file (snd (encode_state_file sample_v1_file)) = (status_ok, f)"
    "fh_generation (sfl_header f) = 1" using sample_v1_decodes by blast
  from interrupted_migration_reconciles [OF run _ this(1)] this run show ?thesis
    by (simp add: sample_disk_def sample_contract_def)
qed

theorem transform_pairs_witness: "\<not> transform_supported component_state_schema 1 3"
  using transform_pairs [of 1 3] by simp

theorem transform_reversible_witness:
  "apply_transform (snd (apply_transform sample_v1 sample_contract)) (reverse_of sample_contract) = (status_ok, sample_v1)"
  using transform_reversible [OF sample_v1_inv, of sample_contract]
  by (simp add: sample_contract_def) (simp add: sample_v1_def limit_defs so_find_def lower_bound_def
      state_value_def less_char_def field_epoch_def)

end
