(* ===== verification/Ref_Reload.thy ===== *)
theory Ref_Reload
  imports Ref_Component Ref_Compat
begin

text \<open>
  Rebuilding registries from their listings.  The durable state stores the component registry and the
  compatibility matrix as flat lists of records and reloads them with \<open>restore\<close> and \<open>upsert\<close>
  (\<open>DurableStore::encode\<close> and \<open>decode\<close> in \<open>src/store.cpp\<close>).  Both structures are redundant: a two-level map with
  a counter, and an edge map with a sorted neighbour index.  The lemmas show that the flat list
  determines them, so reloading gives back the very same structure.
\<close>

section \<open>The component registry is determined by its table\<close>

definition reg_full :: "ComponentRegistry \<Rightarrow> bool" where
  "reg_full r \<longleftrightarrow> (\<forall>c m. om_find (by_component r) c = Some m \<longrightarrow> m \<noteq> [])"

lemma registry_ext:
  assumes r: "reg_inv r" "reg_full r" and r': "reg_inv r'" "reg_full r'"
    and table: "registry_table r = registry_table r'"
  shows "r = r'"
proof -
  have find: "registry_find r c g = registry_find r' c g" for c g
    using fun_cong [OF table, of "(c, g)"] by (simp add: registry_table_def)
  have inner: "om_find (by_component r') c = Some m" if "om_find (by_component r) c = Some m"
    and "reg_inv r" "reg_full r" "reg_inv r'" and eq: "\<And>g. registry_find r c g = registry_find r' c g" for r r' c m
  proof -
    from that have m: "om_ok m" "m \<noteq> []" by (auto simp: reg_inv_def reg_full_def)
    then obtain g v where "(g, v) \<in> set m" by (cases m) auto
    with m have "om_find m g = Some v" by (simp add: om_in_iff)
    with that(1) eq [of g] have "registry_find r' c g = Some v" by (simp add: registry_find_def)
    then obtain m' where m': "om_find (by_component r') c = Some m'"
      by (auto simp: registry_find_def split: option.splits)
    with that(4) have "om_ok m'" by (auto simp: reg_inv_def)
    moreover have "om_find m = om_find m'" using that(1) m' eq by (auto simp: registry_find_def)
    ultimately show ?thesis using om_ext [OF m(1)] m' by simp
  qed
  have "om_find (by_component r) = om_find (by_component r')"
  proof
    fix c
    show "om_find (by_component r) c = om_find (by_component r') c"
      using inner [of r c _ r'] inner [of r' c _ r] r r' find
      by (cases "om_find (by_component r) c"; cases "om_find (by_component r') c") auto
  qed
  then have "by_component r = by_component r'"
    using om_ext reg_invD(1) [OF r(1)] reg_invD(1) [OF r'(1)] by blast
  moreover have "reg_version_count r = reg_version_count r'"
    using card_registry_table [OF r(1)] card_registry_table [OF r'(1)] table by simp
  ultimately show ?thesis by (cases r; cases r') simp
qed

lemma all_versions_iff:
  assumes "reg_inv r"
  shows "v \<in> set (all_versions r) \<longleftrightarrow> registry_find r (rv_component v) (rv_generation v) = Some v"
proof -
  have ok: "om_ok (by_component r)" and inner: "om_find (by_component r) c = Some m \<Longrightarrow> om_ok m" for c m
    using assms by (auto simp: reg_inv_def)
  have "v \<in> set (all_versions r) \<longleftrightarrow> (\<exists>m. m \<in> set (om_vals (by_component r)) \<and> v \<in> set (om_vals m))"
    by (auto simp: all_versions_def)
  also have "\<dots> \<longleftrightarrow> (\<exists>c g. registry_find r c g = Some v)"
  proof
    assume "\<exists>m. m \<in> set (om_vals (by_component r)) \<and> v \<in> set (om_vals m)"
    then obtain m c where m: "om_find (by_component r) c = Some m" "v \<in> set (om_vals m)"
      using om_vals_iff [OF ok] by blast
    with om_vals_iff [OF inner [OF m(1)]] obtain g where "om_find m g = Some v" by blast
    with m(1) show "\<exists>c g. registry_find r c g = Some v" by (intro exI [of _ c] exI [of _ g]) (simp add: registry_find_def)
  next
    assume "\<exists>c g. registry_find r c g = Some v"
    then show "\<exists>m. m \<in> set (om_vals (by_component r)) \<and> v \<in> set (om_vals m)"
      using ok inner by (force simp: om_vals_iff registry_find_def split: option.splits)
  qed
  also have "\<dots> \<longleftrightarrow> registry_find r (rv_component v) (rv_generation v) = Some v"
    using reg_invD(3) [OF assms] by blast
  finally show ?thesis .
qed

abbreviation version_key :: "RuntimeComponentVersion \<Rightarrow> ident \<times> gen" where
  "version_key v \<equiv> (rv_component v, rv_generation v)"

text \<open>The rows of the two-level map, one after the other, are sorted by component and generation.\<close>

definition row_keys :: "ident \<times> version_map \<Rightarrow> bool" where
  "row_keys = (\<lambda>(c, m). om_ok m \<and> (\<forall>(g, v)\<in>set m. rv_component v = c \<and> rv_generation v = g))"

lemma row_keyed: "row_keys (c, m) \<Longrightarrow> keyed version_key (om_vals m) = map (\<lambda>(g, v). ((c, g), v)) m"
  unfolding row_keys_def by (induction m) (auto simp: om_vals_def om_ok_Cons)

lemma rows_sorted:
  "om_ok b \<Longrightarrow> list_all row_keys b \<Longrightarrow> om_ok (keyed version_key (concat (map om_vals (om_vals b))))"
proof (induction b)
  case (Cons p b)
  obtain c m where p: "p = (c, m)" by (cases p)
  from Cons have m: "row_keys (c, m)" and b: "om_ok (keyed version_key (concat (map om_vals (om_vals b))))"
    by (simp_all add: p om_ok_Cons)
  have above: "c < rv_component v" if "v \<in> set (concat (map om_vals (om_vals b)))" for v
  proof -
    from that obtain c' m' g where "(c', m') \<in> set b" "(g, v) \<in> set m'" by (auto simp: om_vals_def)
    with Cons.prems p show ?thesis by (force simp: om_ok_Cons list_all_iff row_keys_def)
  qed
  have "sorted_wrt (<) (map fst (map (\<lambda>(g, v). ((c, g), v)) m))"
    using m by (auto simp: row_keys_def om_ok_def sorted_wrt_map split_def elim!: sorted_wrt_mono_rel [rotated])
  moreover have "concat (map om_vals (om_vals (p # b))) = om_vals m @ concat (map om_vals (om_vals b))"
    by (simp add: p om_vals_def)
  moreover have "x < y" if "x \<in> set (map fst (map (\<lambda>(g, v). ((c, g), v)) m))"
    and "y \<in> set (map fst (keyed version_key (concat (map om_vals (om_vals b)))))" for x y
    using that above by (fastforce simp: keyed_def less_prod_def)
  ultimately show ?case
    using b unfolding om_ok_def by (simp only: keyed_append row_keyed [OF m] map_append sorted_wrt_append) blast
qed (simp add: om_vals_def om_ok_def)

lemma all_versions_sorted:
  assumes "reg_inv r"
  shows "om_ok (keyed version_key (all_versions r))"
proof -
  have "list_all row_keys (by_component r)"
    using assms unfolding list_all_iff row_keys_def
    by (auto simp: reg_inv_def om_in_iff registry_find_def split: option.splits)
  with rows_sorted reg_invD(1) [OF assms] show ?thesis unfolding all_versions_def by blast
qed


text \<open>Restoring the listed versions of a registry, one by one, rebuilds it.\<close>

definition restore_all :: "RuntimeComponentVersion list \<Rightarrow> ComponentRegistry" where
  "restore_all vs = foldl (\<lambda>r v. snd (restore r v)) registry_empty vs"

lemma reg_full_put_versions: "reg_full r \<Longrightarrow> m \<noteq> [] \<Longrightarrow> reg_full ((put_versions r c m)\<lparr>reg_version_count := n\<rparr>)"
  by (auto simp: reg_full_def put_versions_def)

lemma om_upd_not_Nil [simp]: "om_upd k v m \<noteq> []"
  by (cases m) (auto split: if_splits)

lemma restore_fresh:
  assumes inv: "reg_inv r" and v: "is_ok (rv_validate v)"
    and new: "registry_table r (version_key v) = None" and room: "reg_version_count r < kComponentVersions"
  shows "is_ok (fst (restore r v))" and "registry_table (snd (restore r v)) = (registry_table r)(version_key v \<mapsto> v)"
    and "reg_inv (snd (restore r v))" and "reg_full r \<Longrightarrow> reg_full (snd (restore r v))"
proof -
  have find: "registry_find r (rv_component v) (rv_generation v) = None" using new by (simp add: registry_table_def)
  have eq: "restore r v = (status_ok, (put_versions (put_versions r (rv_component v) (versions_at r (rv_component v)))
      (rv_component v) (om_upd (rv_generation v) v (versions_at r (rv_component v))))
      \<lparr>reg_version_count := reg_version_count r + 1\<rparr>)"
    using v find room by (simp add: restore_def Let_def om_emplace_def put_versions_def)
  show "is_ok (fst (restore r v))" by (simp add: eq)
  show "registry_table (snd (restore r v)) = (registry_table r)(version_key v \<mapsto> v)"
    by (auto simp: eq registry_table_def fun_eq_iff reg_invD(2) [OF inv])
  show "reg_inv (snd (restore r v))" by (rule restore_refines(2) [OF inv])
  assume "reg_full r"
  then show "reg_full (snd (restore r v))"
    by (auto simp: eq reg_full_def put_versions_def split: if_splits)
qed

lemma reg_empty_props: "reg_inv registry_empty" "reg_full registry_empty" "registry_table registry_empty = Map.empty"
  by (auto simp: reg_inv_def reg_full_def registry_empty_def registry_table_def registry_find_def kComponentVersions_def)

lemma restore_all_spec:
  assumes "om_ok (keyed version_key vs)" and "list_all (\<lambda>v. is_ok (rv_validate v)) vs" and "length vs \<le> kComponentVersions"
  shows "reg_inv (restore_all vs) \<and> reg_full (restore_all vs)
    \<and> registry_table (restore_all vs) = om_find (keyed version_key vs) \<and> reg_version_count (restore_all vs) = length vs"
  using assms
proof (induction vs rule: rev_induct)
  case Nil
  then show ?case using reg_empty_props by (auto simp: restore_all_def om_find_def registry_empty_def)
next
  case (snoc v vs)
  let ?r = "restore_all vs"
  from snoc.prems(1) have ok: "om_ok (keyed version_key vs @ [(version_key v, v)])" by (simp add: keyed_append)
  with snoc om_ok_prefix [OF ok] have r: "reg_inv ?r" "reg_full ?r"
    "registry_table ?r = om_find (keyed version_key vs)" "reg_version_count ?r = length vs" by simp_all
  have new: "registry_table ?r (version_key v) = None" using om_find_snoc [OF ok] r(3) by simp
  have step: "restore_all (vs @ [v]) = snd (restore ?r v)" by (simp add: restore_all_def)
  note fresh = restore_fresh [OF r(1) _ new]
  have table: "registry_table (snd (restore ?r v)) = om_find (keyed version_key (vs @ [v]))"
    using fresh(2) snoc.prems r om_find_upd [of "version_key v" v "keyed version_key vs"] om_upd_snoc [OF ok]
    by (simp add: keyed_append)
  moreover have inv: "reg_inv (snd (restore ?r v))" using fresh(3) snoc.prems r by simp
  moreover have "reg_version_count (snd (restore ?r v)) = length (vs @ [v])"
    using card_registry_table [OF inv] om.size_card [OF snoc.prems(1)] table by (simp add: om_entries_def keyed_def)
  ultimately show ?case using fresh(4) snoc.prems r by (simp add: step)
qed

lemma versions_table: "reg_inv r \<Longrightarrow> om_find (keyed version_key (all_versions r)) = registry_table r"
proof (rule ext)
  fix k :: "ident \<times> gen"
  assume inv: "reg_inv r"
  obtain c g where k: "k = (c, g)" by (cases k)
  show "om_find (keyed version_key (all_versions r)) k = registry_table r k"
  proof (cases "registry_table r k")
    case (Some v)
    then have "registry_find r c g = Some v" by (simp add: registry_table_def k)
    moreover from this have "version_key v = k" using reg_invD(3) [OF inv] by (auto simp: k)
    ultimately have "(k, v) \<in> set (keyed version_key (all_versions r))"
      using all_versions_iff [OF inv, of v] by (auto simp: keyed_def k)
    with Some show ?thesis by (simp add: om_in_iff [OF all_versions_sorted [OF inv]])
  next
    case None
    have "om_find (keyed version_key (all_versions r)) k = None"
    proof (rule ccontr)
      assume "om_find (keyed version_key (all_versions r)) k \<noteq> None"
      then obtain v where "(k, v) \<in> set (keyed version_key (all_versions r))" using om_findD by fast
      then have "v \<in> set (all_versions r)" "k = version_key v" by (auto simp: keyed_def)
      with all_versions_iff [OF inv, of v] None show False by (simp add: registry_table_def)
    qed
    with None show ?thesis by simp
  qed
qed

lemma all_versions_props:
  assumes "reg_inv r"
  shows "list_all (\<lambda>v. is_ok (rv_validate v)) (all_versions r)" and "length (all_versions r) = reg_version_count r"
proof -
  show "list_all (\<lambda>v. is_ok (rv_validate v)) (all_versions r)"
    using all_versions_iff [OF assms] reg_invD(3) [OF assms] by (auto simp: list_all_iff)
  show "length (all_versions r) = reg_version_count r"
    using card_registry_table [OF assms] om.size_card [OF all_versions_sorted [OF assms]] versions_table [OF assms]
    by (simp add: om_entries_def keyed_def)
qed

lemma restore_all_versions:
  assumes "reg_inv r" and "reg_full r"
  shows "restore_all (all_versions r) = r"
  using restore_all_spec [OF all_versions_sorted [OF assms(1)] all_versions_props(1) [OF assms(1)]]
    all_versions_props(2) [OF assms(1)] versions_table [OF assms(1)] reg_invD(5) [OF assms(1)] assms
  by (intro registry_ext) auto


text \<open>A rejected publication can leave a component without versions; the listing does not show it, so
  reloading drops it.\<close>

definition reg_compact :: "ComponentRegistry \<Rightarrow> ComponentRegistry" where
  "reg_compact r = r\<lparr>by_component := filter (\<lambda>(c, m). m \<noteq> []) (by_component r)\<rparr>"

lemma om_ok_filter: "om_ok m \<Longrightarrow> om_ok (filter P m)"
  unfolding om_ok_def by (metis sorted_wrt_filter sorted_wrt_map)

lemma om_find_filter:
  assumes "om_ok m"
  shows "om_find (filter P m) k = Some v \<longleftrightarrow> om_find m k = Some v \<and> P (k, v)"
  unfolding om_in_iff [OF assms, symmetric] om_in_iff [OF om_ok_filter [OF assms], symmetric] by auto

lemma compact_find:
  "reg_inv r \<Longrightarrow> om_find (by_component (reg_compact r)) c = Some m \<longleftrightarrow> om_find (by_component r) c = Some m \<and> m \<noteq> []"
  by (simp add: reg_compact_def om_find_filter reg_invD(1))

lemma compact_registry_find: 
  assumes "reg_inv r"
  shows "registry_find (reg_compact r) c g = registry_find r c g"
proof -
  have nil: "om_find [] g = (None :: RuntimeComponentVersion option)" by (simp add: om_find_def)
  show ?thesis
  proof (cases "om_find (by_component (reg_compact r)) c")
    case None
    then have "om_find (by_component r) c = Some m \<Longrightarrow> m = []" for m using compact_find [OF assms, of c m] by auto
    with None nil show ?thesis by (cases "om_find (by_component r) c") (simp_all add: registry_find_def)
  next
    case (Some m)
    with compact_find [OF assms, of c m] show ?thesis by (simp add: registry_find_def)
  qed
qed

lemma compact_versions: "all_versions (reg_compact r) = all_versions r"
proof -
  have "concat (map om_vals (om_vals (filter (\<lambda>(c, m). m \<noteq> []) b))) = concat (map om_vals (om_vals b))" for b :: "(ident, version_map) omap"
    by (induction b) (auto simp: om_vals_def)
  then show ?thesis by (simp add: all_versions_def reg_compact_def)
qed

lemma compact_sum: "om_sum om_size (filter (\<lambda>(c, m). m \<noteq> []) b) = om_sum om_size b"
  by (induction b) (auto simp: om_sum_def om_vals_def om_size_def)

lemma compact_inv:
  assumes "reg_inv r"
  shows "reg_inv (reg_compact r)" and "reg_full (reg_compact r)"
proof -
  show "reg_full (reg_compact r)" by (simp add: reg_full_def compact_find [OF assms])
  have "om_ok (by_component (reg_compact r))" using reg_invD(1) [OF assms] by (simp add: reg_compact_def om_ok_filter)
  moreover have "reg_version_count (reg_compact r) = om_sum om_size (by_component (reg_compact r))"
    using assms by (simp add: reg_compact_def compact_sum reg_inv_def)
  moreover have "reg_version_count (reg_compact r) \<le> kComponentVersions"
    using assms by (simp add: reg_compact_def reg_inv_def)
  ultimately show "reg_inv (reg_compact r)"
    using assms unfolding reg_inv_def compact_find [OF assms] compact_registry_find [OF assms] by blast
qed

lemma compact_id: "reg_inv r \<Longrightarrow> reg_full r \<Longrightarrow> reg_compact r = r"
  by (rule registry_ext) (simp_all add: compact_inv registry_table_def compact_registry_find fun_eq_iff)


section \<open>A matrix is determined by its edges\<close>

definition rows_full :: "CompatibilityMatrix \<Rightarrow> bool" where
  "rows_full m \<longleftrightarrow> (\<forall>f row. om_find (neighbour_rows m) f = Some row \<longrightarrow> row \<noteq> [])"

lemma matrix_ext:
  assumes m: "mat_inv m" "rows_full m" and m': "mat_inv m'" "rows_full m'"
    and edges: "edges m = edges m'" and generation: "mat_generation m = mat_generation m'"
  shows "m = m'"
proof -
  have row: "row_at m f = row_at m' f" for f
    using mat_invD(5,6) [OF m(1), of f] mat_invD(5,6) [OF m'(1), of f] edges
    by (intro strict_sorted_equal) auto
  have find: "om_find (neighbour_rows m) f = (if row_at m f = [] then None else Some (row_at m f))" if "rows_full m" for m f
    using that by (auto simp: row_at_def rows_full_def split: option.splits)
  have "om_find (neighbour_rows m) = om_find (neighbour_rows m')"
    by (rule ext) (simp add: find m(2) m'(2) row)
  then have "neighbour_rows m = neighbour_rows m'"
    using om_ext mat_invD(2) [OF m(1)] mat_invD(2) [OF m'(1)] by blast
  with edges generation show ?thesis by (cases m; cases m') simp
qed

abbreviation edge_key :: "CompatibilityEdge \<Rightarrow> gen \<times> gen" where
  "edge_key e \<equiv> (ed_from e, ed_to e)"

definition upsert_all :: "CompatibilityEdge list \<Rightarrow> CompatibilityMatrix" where
  "upsert_all es = foldl (\<lambda>m e. snd (matrix_upsert m e)) matrix_empty es"

lemma row_insert_not_Nil [simp]: "row_insert t row \<noteq> []"
  using set_row_insert [of t row] by auto

lemma upsert_fresh:
  assumes "is_ok (validate_edge e)" and "om_find (edges m) (edge_key e) = None" and "om_size (edges m) < kCompatibilityEdges"
  shows "is_ok (fst (matrix_upsert m e))" and "edges (snd (matrix_upsert m e)) = om_upd (edge_key e) e (edges m)"
    and "rows_full m \<Longrightarrow> rows_full (snd (matrix_upsert m e))"
  using assms by (auto simp: matrix_upsert_def Let_def om_emplace_def rows_full_def split: if_splits)

lemma upsert_all_spec:
  assumes "om_ok (keyed edge_key es)" and "list_all (\<lambda>e. is_ok (validate_edge e)) es" and "length es \<le> kCompatibilityEdges"
  shows "mat_inv (upsert_all es) \<and> rows_full (upsert_all es) \<and> edges (upsert_all es) = keyed edge_key es"
  using assms
proof (induction es rule: rev_induct)
  case Nil
  show ?case using mat_inv_empty by (simp add: upsert_all_def matrix_empty_def rows_full_def om_empty_def om_find_def)
next
  case (snoc e es)
  from snoc.prems(1) have ok: "om_ok (keyed edge_key es @ [(edge_key e, e)])" by (simp add: keyed_append)
  with snoc om_ok_prefix [OF ok] have m: "mat_inv (upsert_all es)" "rows_full (upsert_all es)"
    "edges (upsert_all es) = keyed edge_key es" by simp_all
  have step: "upsert_all (es @ [e]) = snd (matrix_upsert (upsert_all es) e)" by (simp add: upsert_all_def)
  have "om_find (edges (upsert_all es)) (edge_key e) = None" using om_find_snoc [OF ok] m(3) by simp
  moreover have "om_size (edges (upsert_all es)) < kCompatibilityEdges"
    using snoc.prems(3) m(3) by (simp add: om_size_def keyed_def)
  ultimately show ?case
    using upsert_fresh [of e "upsert_all es"] snoc.prems(2) m om_upd_snoc [OF ok] mat_inv_upsert [OF m(1)]
    by (simp add: step keyed_append)
qed

lemma mat_keyed: "mat_inv m \<Longrightarrow> keyed edge_key (all_edges m) = edges m"
  unfolding all_edges_def by (rule keyed_vals) (auto simp: om_in_iff mat_inv_def)

lemma upsert_all_edges:
  assumes "mat_inv m" and "rows_full m"
  shows "(upsert_all (all_edges m))\<lparr>mat_generation := mat_generation m\<rparr> = m"
proof -
  have "list_all (\<lambda>e. is_ok (validate_edge e)) (all_edges m)" "length (all_edges m) \<le> kCompatibilityEdges"
    using assms(1) by (auto simp: mat_inv_def all_edges_def list_all_iff om_vals_def om_in_iff om_size_def)
  with upsert_all_spec [of "all_edges m"] mat_keyed [OF assms(1)] mat_invD(1) [OF assms(1)]
  have "mat_inv (upsert_all (all_edges m))" "rows_full (upsert_all (all_edges m))" "edges (upsert_all (all_edges m)) = edges m"
    by simp_all
  with assms show ?thesis
    by (intro matrix_ext) (auto simp: mat_inv_def rows_full_def row_at_def)
qed

end
