(* ===== verification/Ref_Store.thy ===== *)
theory Ref_Store
  imports Ref_Records Ref_Migration Ref_Reload
begin

text \<open>
  The durable evolution state (\<open>include/ref/store.hpp\<close>, \<open>src/store.cpp\<close>): its records, its validation
  across sections, its encoding with a checksummed header and a digest over the body, its decoding into
  a temporary, and saving and loading it through the files of \<open>Ref_Files\<close>.

  The state is what a restart recovers, so the main result is that decoding inverts encoding on every
  state the coordinator can hold (\<open>durable_ok\<close>): all registries with their indexes and generations, all
  plans, records, fences and retirements come back exactly.
\<close>

section \<open>Migration, rollback, retirement, fencing and worker records\<close>

record RollbackRecord =
  rb_id :: ident
  rb_generation :: gen
  rb_component :: ident
  rb_from_generation :: gen
  rb_to_generation :: gen
  rb_plan :: ident
  rb_outcome :: RollbackOutcome
  rb_epoch :: gen
  rb_coordinator_epoch :: gen
  rb_recorded_at :: gen
  rb_detail :: string

record FencedBoot =
  fb_worker :: ident
  fb_boot :: gen
  fb_component :: ident
  fb_generation :: gen
  fb_reason :: string
  fb_fenced_at :: gen

record WorkerRecord =
  wr_worker :: ident
  wr_component :: ident
  wr_generation :: gen
  wr_last_boot :: gen
  wr_fenced :: bool
  wr_drained :: bool
  wr_evidence :: gen
  wr_detail :: string

definition put_migration_record :: "MigrationRecord \<Rightarrow> bytes" where
  "put_migration_record record =
     put_ident 63 (mrec_id record) @ put_generation (mrec_generation record) @
     put_ident 63 (mrec_schema record) @ put_generation (mrec_source record) @
     put_generation (mrec_target record) @ put_generation (mrec_runtime_generation record) @
     put_generation (mrec_epoch record) @ put_generation (mrec_policy record) @
     put_ident 63 (mrec_plan record) @ put_digest (mrec_source_digest record) @
     put_digest (mrec_target_digest record) @ put_boolean (mrec_irreversible record) @
     put_boolean (mrec_rollback_metadata_preserved record) @
     put_boolean (mrec_rollback_available record) @
     put_enum all_migration_outcomes (mrec_outcome record) @
     put_enum all_evidence (mrec_provenance record) @ put_generation (mrec_recorded_at record) @
     put_text 192 (mrec_detail record)"

definition read_migration_record :: "MigrationRecord parser" where
  "read_migration_record =
     p_bind (p_get (get_ident 63)) (\<lambda>id.
     p_bind (p_get get_generation) (\<lambda>generation.
     p_bind (p_get (get_ident 63)) (\<lambda>schema.
     p_bind (p_get get_generation) (\<lambda>source.
     p_bind (p_get get_generation) (\<lambda>target.
     p_bind (p_get get_generation) (\<lambda>runtime.
     p_bind (p_get get_generation) (\<lambda>epoch.
     p_bind (p_get get_generation) (\<lambda>policy.
     p_bind (p_get (get_ident 63)) (\<lambda>plan.
     p_bind (p_get get_digest) (\<lambda>source_digest.
     p_bind (p_get get_digest) (\<lambda>target_digest.
     p_bind (p_get get_boolean) (\<lambda>irreversible.
     p_bind (p_get get_boolean) (\<lambda>preserved.
     p_bind (p_get get_boolean) (\<lambda>available.
     p_bind (p_get get_u8) (\<lambda>outcome.
     p_bind (p_get get_u8) (\<lambda>provenance.
     p_bind (p_get get_generation) (\<lambda>recorded.
     p_bind (p_get (get_text 192)) (\<lambda>dtl.
     p_bind (p_live (failure Truncated ''durable migration record is malformed'')) (\<lambda>_.
     p_bind (p_require (unat outcome < length all_migration_outcomes \<and> unat provenance < length all_evidence) (failure Corrupt ''durable migration record is malformed'')) (\<lambda>_.
     p_return 
       \<lparr>mrec_id = id, mrec_generation = generation, mrec_schema = schema, mrec_source = source, mrec_target = target,
        mrec_runtime_generation = runtime, mrec_epoch = epoch, mrec_policy = policy, mrec_plan = plan,
        mrec_source_digest = source_digest, mrec_target_digest = target_digest, mrec_irreversible = irreversible,
        mrec_rollback_metadata_preserved = preserved, mrec_rollback_available = available,
        mrec_outcome = enum_of all_migration_outcomes outcome, mrec_provenance = enum_of all_evidence provenance,
        mrec_recorded_at = recorded, mrec_detail = dtl\<rparr>))))))))))))))))))))"

definition put_rollback_record :: "RollbackRecord \<Rightarrow> bytes" where
  "put_rollback_record record =
     put_ident 63 (rb_id record) @ put_generation (rb_generation record) @
     put_ident 63 (rb_component record) @ put_generation (rb_from_generation record) @
     put_generation (rb_to_generation record) @ put_ident 63 (rb_plan record) @
     put_enum all_rollback_outcomes (rb_outcome record) @ put_generation (rb_epoch record) @
     put_generation (rb_coordinator_epoch record) @ put_generation (rb_recorded_at record) @
     put_text 192 (rb_detail record)"

definition read_rollback_record :: "RollbackRecord parser" where
  "read_rollback_record =
     p_bind (p_get (get_ident 63)) (\<lambda>id.
     p_bind (p_get get_generation) (\<lambda>generation.
     p_bind (p_get (get_ident 63)) (\<lambda>component.
     p_bind (p_get get_generation) (\<lambda>from.
     p_bind (p_get get_generation) (\<lambda>to.
     p_bind (p_get (get_ident 63)) (\<lambda>plan.
     p_bind (p_get get_u8) (\<lambda>outcome.
     p_bind (p_get get_generation) (\<lambda>epoch.
     p_bind (p_get get_generation) (\<lambda>coordinator.
     p_bind (p_get get_generation) (\<lambda>recorded.
     p_bind (p_get (get_text 192)) (\<lambda>dtl.
     p_bind (p_live (failure Truncated ''durable rollback record is malformed'')) (\<lambda>_.
     p_bind (p_require (unat outcome < length all_rollback_outcomes) (failure Corrupt ''durable rollback record is malformed'')) (\<lambda>_.
     p_return 
       \<lparr>rb_id = id, rb_generation = generation, rb_component = component, rb_from_generation = from,
        rb_to_generation = to, rb_plan = plan, rb_outcome = enum_of all_rollback_outcomes outcome, rb_epoch = epoch,
        rb_coordinator_epoch = coordinator, rb_recorded_at = recorded, rb_detail = dtl\<rparr>)))))))))))))"

definition put_retirement :: "RetirementRecord \<Rightarrow> bytes" where
  "put_retirement record =
     put_ident 63 (rr_component record) @ put_generation (rr_generation record) @
     put_generation (rr_recorded_at record) @ put_generation (rr_epoch record) @
     put_generation (rr_coordinator_epoch record) @ put_boolean (rr_checkpoints_retained record) @
     put_text 192 (rr_detail record)"

definition read_retirement :: "RetirementRecord parser" where
  "read_retirement =
     p_bind (p_get (get_ident 63)) (\<lambda>component.
     p_bind (p_get get_generation) (\<lambda>generation.
     p_bind (p_get get_generation) (\<lambda>recorded.
     p_bind (p_get get_generation) (\<lambda>epoch.
     p_bind (p_get get_generation) (\<lambda>coordinator.
     p_bind (p_get get_boolean) (\<lambda>retained.
     p_bind (p_get (get_text 192)) (\<lambda>dtl.
     p_bind (p_live (failure Truncated ''durable retirement record is malformed'')) (\<lambda>_.
     p_return 
       \<lparr>rr_component = component, rr_generation = generation, rr_recorded_at = recorded, rr_epoch = epoch,
        rr_coordinator_epoch = coordinator, rr_checkpoints_retained = retained, rr_detail = dtl\<rparr>))))))))"

definition put_fenced_boot :: "FencedBoot \<Rightarrow> bytes" where
  "put_fenced_boot record =
     put_ident 63 (fb_worker record) @ put_generation (fb_boot record) @
     put_ident 63 (fb_component record) @ put_generation (fb_generation record) @
     put_text 96 (fb_reason record) @ put_generation (fb_fenced_at record)"

definition read_fenced_boot :: "FencedBoot parser" where
  "read_fenced_boot =
     p_bind (p_get (get_ident 63)) (\<lambda>worker.
     p_bind (p_get get_generation) (\<lambda>boot.
     p_bind (p_get (get_ident 63)) (\<lambda>component.
     p_bind (p_get get_generation) (\<lambda>generation.
     p_bind (p_get (get_text 96)) (\<lambda>reason.
     p_bind (p_get get_generation) (\<lambda>fenced.
     p_bind (p_live (failure Truncated ''durable fenced boot record is malformed'')) (\<lambda>_.
     p_return 
       \<lparr>fb_worker = worker, fb_boot = boot, fb_component = component, fb_generation = generation, fb_reason = reason,
        fb_fenced_at = fenced\<rparr>)))))))"

definition put_worker_record :: "WorkerRecord \<Rightarrow> bytes" where
  "put_worker_record record =
     put_ident 63 (wr_worker record) @ put_ident 63 (wr_component record) @
     put_generation (wr_generation record) @ put_generation (wr_last_boot record) @
     put_boolean (wr_fenced record) @ put_boolean (wr_drained record) @
     put_generation (wr_evidence record) @ put_text 192 (wr_detail record)"

definition read_worker_record :: "WorkerRecord parser" where
  "read_worker_record =
     p_bind (p_get (get_ident 63)) (\<lambda>worker.
     p_bind (p_get (get_ident 63)) (\<lambda>component.
     p_bind (p_get get_generation) (\<lambda>generation.
     p_bind (p_get get_generation) (\<lambda>last_boot.
     p_bind (p_get get_boolean) (\<lambda>fenced.
     p_bind (p_get get_boolean) (\<lambda>drained.
     p_bind (p_get get_generation) (\<lambda>evidence.
     p_bind (p_get (get_text 192)) (\<lambda>dtl.
     p_bind (p_live (failure Truncated ''durable worker record is malformed'')) (\<lambda>_.
     p_return 
       \<lparr>wr_worker = worker, wr_component = component, wr_generation = generation, wr_last_boot = last_boot,
        wr_fenced = fenced, wr_drained = drained, wr_evidence = evidence, wr_detail = dtl\<rparr>)))))))))"


section \<open>The durable state\<close>

record DurableState =
  ds_format_version :: u32
  ds_writer_version :: RuntimeVersionId
  ds_evolution_epoch :: gen
  ds_coordinator_epoch :: gen
  ds_matrix_generation :: gen
  ds_gate_generation :: gen
  ds_evidence_generation :: gen
  ds_snapshot_generation :: gen
  ds_policy_generation :: gen
  ds_stage_generation :: gen
  ds_migration_generation :: gen
  ds_rollback_generation :: gen
  ds_replay_watermark :: gen
  ds_components :: ComponentRegistry
  ds_matrix :: CompatibilityMatrix
  ds_protocols :: ProtocolRegistry
  ds_schemas :: SchemaRegistry
  ds_gates :: FeatureGateRegistry
  ds_plans :: "(ident, EvolutionPlan) omap"
  ds_migrations :: "MigrationRecord list"
  ds_rollbacks :: "RollbackRecord list"
  ds_retirements :: "(ident \<times> u64, RetirementRecord) omap"
  ds_fenced_boots :: "(ident \<times> u64, FencedBoot) omap"
  ds_workers :: "(ident, WorkerRecord) omap"
  ds_stage_history :: "PlanStageRecord list"

definition kEvolutionStateMagic :: bytes where
  "kEvolutionStateMagic = bytes_of ''REFEVOL1''"

definition kEvolutionStateFormatVersion :: u32 where
  "kEvolutionStateFormatVersion = 1"

definition version_unset :: RuntimeVersionId where
  "version_unset = \<lparr>number = \<lparr>major = 0, minor = 0, patch = 0\<rparr>,
     artifact = \<lparr>build = [], content_hash = digest_zero\<rparr>\<rparr>"

definition durable_empty :: DurableState where
  "durable_empty = \<lparr>ds_format_version = kEvolutionStateFormatVersion, ds_writer_version = version_unset,
     ds_evolution_epoch = gen_unset, ds_coordinator_epoch = gen_unset, ds_matrix_generation = gen_unset,
     ds_gate_generation = gen_unset, ds_evidence_generation = gen_unset, ds_snapshot_generation = gen_unset,
     ds_policy_generation = gen_unset, ds_stage_generation = gen_unset, ds_migration_generation = gen_unset,
     ds_rollback_generation = gen_unset, ds_replay_watermark = gen_unset, ds_components = registry_empty,
     ds_matrix = matrix_empty, ds_protocols = om_empty, ds_schemas = om_empty, ds_gates = gates_empty,
     ds_plans = om_empty, ds_migrations = [], ds_rollbacks = [], ds_retirements = om_empty,
     ds_fenced_boots = om_empty, ds_workers = om_empty, ds_stage_history = []\<rparr>"

definition is_retired :: "DurableState \<Rightarrow> ident \<Rightarrow> gen \<Rightarrow> bool" where
  "is_retired s component generation \<longleftrightarrow> om_find (ds_retirements s) (component, generation) \<noteq> None"

definition is_boot_fenced :: "DurableState \<Rightarrow> ident \<Rightarrow> gen \<Rightarrow> bool" where
  "is_boot_fenced s worker boot \<longleftrightarrow> om_find (ds_fenced_boots s) (worker, boot) \<noteq> None"


section \<open>Validation\<close>

definition cross_version :: "DurableState \<Rightarrow> RuntimeComponentVersion \<Rightarrow> Status" where
  "cross_version s v =
     (if is_retired s (rv_component v) (rv_generation v) \<and> is_authoritative_lifecycle (rv_lifecycle v)
        then failure Corrupt ''durable state marks a retired generation as current'' else status_ok)"

definition cross_plan :: "DurableState \<Rightarrow> ident \<times> EvolutionPlan \<Rightarrow> Status" where
  "cross_plan s entry =
     (let (id, plan) = entry; status = plan_validate plan in
      if id \<noteq> ep_id plan then failure Corrupt ''plan key does not match its id''
      else if is_failure status then status
      else if ep_rollback_barrier_crossed plan
        then first_failure (\<lambda>record.
               if mrec_plan record \<noteq> ep_id plan then status_ok
               else if mrec_rollback_available record
                 then failure Corrupt ''durable state contradicts itself: barrier crossed but rollback available''
               else status_ok) (ds_migrations s)
      else status_ok)"

definition cross_migration :: "MigrationRecord \<Rightarrow> Status" where
  "cross_migration record =
     (if mrec_source record = mrec_target record
        then failure Corrupt ''migration record has identical source and target''
      else if \<not> gen_is_set (mrec_source record) \<or> \<not> gen_is_set (mrec_target record)
        then failure Corrupt ''migration record has an unset generation''
      else if mrec_irreversible record \<and> mrec_rollback_available record
        then failure Corrupt ''irreversible migration claims rollback availability''
      else status_ok)"

definition cross_rollback :: "RollbackRecord \<Rightarrow> Status" where
  "cross_rollback record =
     (if \<not> gen_is_set (rb_from_generation record) \<or> \<not> gen_is_set (rb_to_generation record)
        then failure Corrupt ''rollback record has an unset generation''
      else if rb_from_generation record = rb_to_generation record
        then failure Corrupt ''rollback record rolls back to the same generation''
      else status_ok)"

definition validate_cross_section :: "DurableState \<Rightarrow> Status" where
  "validate_cross_section s =
     (let versions = first_failure (cross_version s) (all_versions (ds_components s));
          plans = first_failure (cross_plan s) (om_entries (ds_plans s));
          migrations = first_failure cross_migration (ds_migrations s) in
      if is_failure versions then versions
      else if is_failure plans then plans
      else if is_failure migrations then migrations
      else first_failure cross_rollback (ds_rollbacks s))"

definition durable_validate :: "DurableState \<Rightarrow> Status" where
  "durable_validate s =
     (if ds_format_version s \<noteq> kEvolutionStateFormatVersion
        then failure ErrorCode.Unsupported ''durable state format version is not supported''
      else if reg_version_count (ds_components s) > kComponentVersions
        then failure Corrupt ''component count exceeds the bound''
      else if is_failure (matrix_validate (ds_matrix s)) then matrix_validate (ds_matrix s)
      else if is_failure (protocol_validate (ds_protocols s)) then protocol_validate (ds_protocols s)
      else if is_failure (schema_validate (ds_schemas s)) then schema_validate (ds_schemas s)
      else if is_failure (gates_validate (ds_gates s)) then gates_validate (ds_gates s)
      else if om_size (ds_plans s) > kPlanHistory then failure Corrupt ''plan count exceeds the bound''
      else if length (ds_migrations s) > kMigrationRecords
        then failure Corrupt ''migration history exceeds the bound''
      else if length (ds_rollbacks s) > kRollbackRecords
        then failure Corrupt ''rollback history exceeds the bound''
      else if om_size (ds_fenced_boots s) > kFencedBoots
        then failure Corrupt ''fenced boot table exceeds the bound''
      else if om_size (ds_workers s) > kWorkers then failure Corrupt ''worker table exceeds the bound''
      else if mat_generation (ds_matrix s) \<noteq> ds_matrix_generation s
        then failure Corrupt ''matrix generation disagrees with the compatibility matrix''
      else if fgr_generation (ds_gates s) \<noteq> ds_gate_generation s
        then failure Corrupt ''gate generation disagrees with the feature gate registry''
      else validate_cross_section s)"


section \<open>Encoding\<close>

definition put_counters :: "DurableState \<Rightarrow> bytes" where
  "put_counters s =
     put_generation (ds_evolution_epoch s) @ put_generation (ds_coordinator_epoch s)
     @ put_generation (ds_matrix_generation s) @ put_generation (ds_gate_generation s)
     @ put_generation (ds_evidence_generation s) @ put_generation (ds_snapshot_generation s)
     @ put_generation (ds_policy_generation s) @ put_generation (ds_stage_generation s)
     @ put_generation (ds_migration_generation s) @ put_generation (ds_rollback_generation s)
     @ put_generation (ds_replay_watermark s)"

definition durable_body :: "DurableState \<Rightarrow> bytes" where
  "durable_body s =
     put_version (ds_writer_version s) @ put_counters s
     @ put_counted put_component_version (all_versions (ds_components s))
     @ put_counted put_protocol (protocol_all (ds_protocols s))
     @ put_counted put_schema (schema_all (ds_schemas s))
     @ put_counted put_edge (all_edges (ds_matrix s))
     @ put_counted put_gate (gate_all (ds_gates s))
     @ put_counted put_plan (om_vals (ds_plans s))
     @ put_counted put_migration_record (ds_migrations s)
     @ put_counted put_rollback_record (ds_rollbacks s)
     @ put_counted put_retirement (om_vals (ds_retirements s))
     @ put_counted put_fenced_boot (om_vals (ds_fenced_boots s))
     @ put_counted put_worker_record (om_vals (ds_workers s))
     @ put_counted put_stage_record (ds_stage_history s)"

definition durable_encode :: "DurableState \<Rightarrow> Status \<times> bytes" where
  "durable_encode s =
     (if is_failure (durable_validate s) then (durable_validate s, [])
      else let body = durable_body s in
        if length body > kStateFileBytes
          then (failure LimitExceeded ''durable state exceeds the size bound'', [])
        else let head = kEvolutionStateMagic @ put_u32 kEvolutionStateFormatVersion @ put_u64 (of_nat (length body))
          in (status_ok, head @ put_u32 (crc32 head) @ put_digest (digest_of body) @ body))"


section \<open>Decoding\<close>

definition what_body :: string where
  "what_body = ''durable state body is malformed''"

definition p_status :: "Status \<Rightarrow> unit parser" where
  "p_status s = p_require (is_ok s) s"

definition load_component :: "ComponentRegistry \<Rightarrow> ComponentRegistry parser" where
  "load_component registry =
     p_bind read_component_version (\<lambda>record.
     p_bind (p_status (fst (restore registry record))) (\<lambda>_.
     p_return (snd (restore registry record))))"

definition load_protocol :: "ProtocolRegistry \<Rightarrow> ProtocolRegistry parser" where
  "load_protocol registry =
     p_bind read_protocol (\<lambda>descriptor.
     p_bind (p_require (is_ok (fst (protocol_publish registry descriptor)))
       (failure Corrupt ''duplicate or invalid protocol record'')) (\<lambda>_.
     p_return (snd (protocol_publish registry descriptor))))"

definition load_schema :: "SchemaRegistry \<Rightarrow> SchemaRegistry parser" where
  "load_schema registry =
     p_bind read_schema (\<lambda>descriptor.
     p_bind (p_require (is_ok (fst (schema_publish registry descriptor)))
       (failure Corrupt ''duplicate or invalid schema record'')) (\<lambda>_.
     p_return (snd (schema_publish registry descriptor))))"

definition load_edge :: "CompatibilityMatrix \<Rightarrow> CompatibilityMatrix parser" where
  "load_edge matrix =
     p_bind read_edge (\<lambda>edge.
     p_bind (p_status (fst (matrix_upsert matrix edge))) (\<lambda>_.
     p_return (snd (matrix_upsert matrix edge))))"

definition load_gate :: "FeatureGateRegistry \<Rightarrow> FeatureGateRegistry parser" where
  "load_gate registry =
     p_bind read_gate (\<lambda>gate.
     p_bind (p_status (fst (gate_restore registry gate))) (\<lambda>_.
     p_return (snd (gate_restore registry gate))))"

text \<open>\<open>emplace\<close> into a map, refusing a key that is already there.\<close>

definition p_emplace :: "'k::linorder \<Rightarrow> 'v \<Rightarrow> ('k, 'v) omap \<Rightarrow> string \<Rightarrow> ('k, 'v) omap parser" where
  "p_emplace key v m duplicate =
     p_bind (p_require (om_find m key = None) (failure Corrupt duplicate)) (\<lambda>_. p_return (om_emplace key v m))"

definition load_plan :: "(ident, EvolutionPlan) omap \<Rightarrow> (ident, EvolutionPlan) omap parser" where
  "load_plan plans =
     p_bind read_plan (\<lambda>plan.
     p_bind (p_require (ep_id plan \<noteq> []) (failure Corrupt ''durable plan has an empty id'')) (\<lambda>_.
     p_emplace (ep_id plan) plan plans ''duplicate evolution plan id in durable state''))"

definition load_retirement :: "(ident \<times> u64, RetirementRecord) omap \<Rightarrow> (ident \<times> u64, RetirementRecord) omap parser" where
  "load_retirement retirements =
     p_bind read_retirement (\<lambda>record.
     p_emplace (rr_component record, rr_generation record) record retirements
       ''duplicate retirement record in durable state'')"

definition load_fenced :: "(ident \<times> u64, FencedBoot) omap \<Rightarrow> (ident \<times> u64, FencedBoot) omap parser" where
  "load_fenced fenced =
     p_bind read_fenced_boot (\<lambda>record.
     p_emplace (fb_worker record, fb_boot record) record fenced ''duplicate fenced boot record in durable state'')"

definition load_worker :: "(ident, WorkerRecord) omap \<Rightarrow> (ident, WorkerRecord) omap parser" where
  "load_worker workers =
     p_bind read_worker_record (\<lambda>record.
     p_bind (p_require (wr_worker record \<noteq> []) (failure Corrupt ''durable worker record has an empty id'')) (\<lambda>_.
     p_emplace (wr_worker record) record workers ''duplicate worker record in durable state''))"

text \<open>A section: the count, the test of the reader, the bound, and the loop.\<close>

definition p_section :: "nat \<Rightarrow> ('s \<Rightarrow> 's parser) \<Rightarrow> 's \<Rightarrow> 's parser" where
  "p_section cap step s = p_bind (p_count what_body cap) (\<lambda>n. p_fold n step s)"

definition read_durable_body :: "DurableState parser" where
  "read_durable_body =
     p_bind (read_version what_body) (\<lambda>writer.
     p_bind (p_get get_generation) (\<lambda>evolution.
     p_bind (p_get get_generation) (\<lambda>coordinator.
     p_bind (p_get get_generation) (\<lambda>matrix_generation.
     p_bind (p_get get_generation) (\<lambda>gate_generation.
     p_bind (p_get get_generation) (\<lambda>evidence.
     p_bind (p_get get_generation) (\<lambda>snapshot.
     p_bind (p_get get_generation) (\<lambda>policy.
     p_bind (p_get get_generation) (\<lambda>stage.
     p_bind (p_get get_generation) (\<lambda>migration.
     p_bind (p_get get_generation) (\<lambda>rollback.
     p_bind (p_get get_generation) (\<lambda>watermark.
     p_bind (p_live (failure Truncated what_body)) (\<lambda>_.
     p_bind (p_section kComponentVersions load_component registry_empty) (\<lambda>components.
     p_bind (p_section kProtocolGenerations load_protocol om_empty) (\<lambda>protocols.
     p_bind (p_section kSchemaGenerations load_schema om_empty) (\<lambda>schemas.
     p_bind (p_section kCompatibilityEdges load_edge matrix_empty) (\<lambda>matrix.
     p_bind (p_section kFeatureGates load_gate gates_empty) (\<lambda>gates.
     p_bind (p_section kPlanHistory load_plan om_empty) (\<lambda>plans.
     p_bind (p_counted what_body kMigrationRecords read_migration_record) (\<lambda>migrations.
     p_bind (p_counted what_body kRollbackRecords read_rollback_record) (\<lambda>rollbacks.
     p_bind (p_section kRetiredGenerations load_retirement om_empty) (\<lambda>retirements.
     p_bind (p_section kFencedBoots load_fenced om_empty) (\<lambda>fenced.
     p_bind (p_section kWorkers load_worker om_empty) (\<lambda>workers.
     p_bind (p_counted what_body kStageHistory read_stage_record) (\<lambda>history.
     p_return \<lparr>ds_format_version = kEvolutionStateFormatVersion, ds_writer_version = writer,
       ds_evolution_epoch = evolution, ds_coordinator_epoch = coordinator,
       ds_matrix_generation = matrix_generation, ds_gate_generation = gate_generation,
       ds_evidence_generation = evidence, ds_snapshot_generation = snapshot, ds_policy_generation = policy,
       ds_stage_generation = stage, ds_migration_generation = migration, ds_rollback_generation = rollback,
       ds_replay_watermark = watermark, ds_components = components,
       ds_matrix = matrix\<lparr>mat_generation := matrix_generation\<rparr>, ds_protocols = protocols, ds_schemas = schemas,
       ds_gates = gates\<lparr>fgr_generation := gate_generation\<rparr>, ds_plans = plans, ds_migrations = migrations,
       ds_rollbacks = rollbacks, ds_retirements = retirements, ds_fenced_boots = fenced, ds_workers = workers,
       ds_stage_history = history\<rparr>)))))))))))))))))))))))))"

definition durable_decode :: "bytes \<Rightarrow> Status + DurableState" where
  "durable_decode bs =
     (if length bs < length kEvolutionStateMagic + 4 + 8 + 4 + 16
        then Inl (failure Truncated ''durable state is shorter than its header'')
      else if take (length kEvolutionStateMagic) bs \<noteq> kEvolutionStateMagic
        then Inl (failure Corrupt ''durable state magic mismatch'')
      else if length bs > kStateFileBytes
        then Inl (failure LimitExceeded ''durable state exceeds the size bound'')
      else
        let (_, r) = skip_bytes (length kEvolutionStateMagic) (reader bs);
            (version, r) = get_u32 r;
            (body_size, r) = get_u64 r;
            crc_offset = consumed r;
            (stored_crc, r) = get_u32 r;
            (stored_digest, r) = get_digest r
        in if failed r then Inl (failure Truncated ''durable state header is truncated'')
           else if version \<noteq> kEvolutionStateFormatVersion
             then Inl (failure ErrorCode.Unsupported ''durable state format version is not supported'')
           else if unat body_size > kStateFileBytes \<or> length (rest r) \<noteq> unat body_size
             then Inl (failure Truncated ''durable state body length does not match the file'')
           else if crc32 (take crc_offset bs) \<noteq> stored_crc
             then Inl (failure IntegrityFailure ''durable state header checksum mismatch'')
           else let body = drop (crc_offset + 4 + 16) bs in
             if digest_of body \<noteq> stored_digest
               then Inl (failure IntegrityFailure ''durable state body digest mismatch'')
             else case read_durable_body (reader body) of
                 Inl status \<Rightarrow> Inl status
               | Inr (temp, r) \<Rightarrow>
                   if \<not> at_end r then Inl (failure Corrupt ''durable state body has trailing bytes'')
                   else if is_failure (durable_validate temp) then Inl (durable_validate temp) else Inr temp)"

text \<open>\<open>DurableStore::save\<close> and \<open>load\<close>; a failed load leaves the destination untouched.\<close>

definition store_save :: "string \<Rightarrow> DurableState \<Rightarrow> World \<Rightarrow> Status \<times> World" where
  "store_save path s w =
     (let (encoded, bs) = durable_encode s in
      if is_failure encoded then (encoded, w) else write_file_atomic path bs w)"

definition store_load :: "string \<Rightarrow> DurableState \<Rightarrow> World \<Rightarrow> Status \<times> DurableState \<times> World" where
  "store_load path out w =
     (let (read, bs, w) = read_file_bounded path kStateFileBytes w in
      if is_failure read then (read, out, w)
      else case durable_decode bs of Inl status \<Rightarrow> (status, out, w) | Inr s \<Rightarrow> (status_ok, s, w))"


section \<open>Decoding inverts encoding\<close>

interpretation raw_migration_outcomes: raw_enum all_migration_outcomes
proof
  show "e \<in> set all_migration_outcomes" for e by (rule migration_outcome_names.complete)
qed (simp add: all_migration_outcomes_def)

interpretation raw_rollback_outcomes: raw_enum all_rollback_outcomes
proof
  show "e \<in> set all_rollback_outcomes" for e by (rule rollback_outcome_names.complete)
qed (simp add: all_rollback_outcomes_def)

declare raw_migration_outcomes.raw_bound [simp] raw_migration_outcomes.of_raw [simp]
  raw_rollback_outcomes.raw_bound [simp] raw_rollback_outcomes.of_raw [simp]

definition migration_record_wf :: "MigrationRecord \<Rightarrow> bool" where
  "migration_record_wf m \<longleftrightarrow> ident_ok 63 (mrec_id m) \<and> ident_ok 63 (mrec_schema m) \<and> ident_ok 63 (mrec_plan m)
     \<and> text_ok 192 (mrec_detail m)"

definition rollback_record_wf :: "RollbackRecord \<Rightarrow> bool" where
  "rollback_record_wf r \<longleftrightarrow> ident_ok 63 (rb_id r) \<and> ident_ok 63 (rb_component r) \<and> ident_ok 63 (rb_plan r)
     \<and> text_ok 192 (rb_detail r)"

definition retirement_wf :: "RetirementRecord \<Rightarrow> bool" where
  "retirement_wf r \<longleftrightarrow> ident_ok 63 (rr_component r) \<and> text_ok 192 (rr_detail r)"

definition fenced_boot_wf :: "FencedBoot \<Rightarrow> bool" where
  "fenced_boot_wf f \<longleftrightarrow> ident_ok 63 (fb_worker f) \<and> ident_ok 63 (fb_component f) \<and> text_ok 96 (fb_reason f)"

definition worker_record_wf :: "WorkerRecord \<Rightarrow> bool" where
  "worker_record_wf w \<longleftrightarrow> ident_ok 63 (wr_worker w) \<and> wr_worker w \<noteq> [] \<and> ident_ok 63 (wr_component w)
     \<and> text_ok 192 (wr_detail w)"

lemma parses_migration_record:
  "migration_record_wf m \<Longrightarrow> parses read_migration_record (put_migration_record m) m"
  unfolding read_migration_record_def put_migration_record_def
  by (rule parses_end, simp only: append_assoc, (rule parse_steps)+, rule parses_return)
    (simp_all add: migration_record_wf_def)

lemma parses_rollback_record: "rollback_record_wf r \<Longrightarrow> parses read_rollback_record (put_rollback_record r) r"
  unfolding read_rollback_record_def put_rollback_record_def
  by (rule parses_end, simp only: append_assoc, (rule parse_steps)+, rule parses_return)
    (simp_all add: rollback_record_wf_def)

lemma parses_retirement: "retirement_wf r \<Longrightarrow> parses read_retirement (put_retirement r) r"
  unfolding read_retirement_def put_retirement_def
  by (rule parses_end, simp only: append_assoc, (rule parse_steps)+, rule parses_return)
    (simp_all add: retirement_wf_def)

lemma parses_fenced_boot: "fenced_boot_wf f \<Longrightarrow> parses read_fenced_boot (put_fenced_boot f) f"
  unfolding read_fenced_boot_def put_fenced_boot_def
  by (rule parses_end, simp only: append_assoc, (rule parse_steps)+, rule parses_return)
    (simp_all add: fenced_boot_wf_def)

lemma parses_worker_record: "worker_record_wf w \<Longrightarrow> parses read_worker_record (put_worker_record w) w"
  unfolding read_worker_record_def put_worker_record_def
  by (rule parses_end, simp only: append_assoc, (rule parse_steps)+, rule parses_return)
    (simp_all add: worker_record_wf_def)


subsection \<open>Sections\<close>

lemma parses_section:
  assumes "\<And>us v ws. vs = us @ v # ws \<Longrightarrow> parses (step (F us)) (put v) (F (us @ [v]))"
    and "length vs \<le> cap" and "cap < 2 ^ 32" and "s = F []" and "t = F vs"
  shows "parses (p_section cap step s) (put_counted put vs) t"
  unfolding p_section_def put_counted_def assms(4,5)
  by (rule parses_bind, rule parses_count [OF assms(2,3)], rule parses_fold, rule assms(1))

text \<open>A section that reads a record and hands it to a function that may refuse it.\<close>

lemma parses_load:
  assumes "parses rd bs v" and "accept v" and "result v = t"
  shows "parses (p_bind rd (\<lambda>v. p_bind (p_require (accept v) (bad v)) (\<lambda>_. p_return (result v)))) bs t"
  by (rule parses_end, rule parses_bind [OF assms(1)], rule parses_require, rule parses_return) (rule assms)+

lemma parses_p_emplace:
  assumes "om_ok (keyed key (us @ v # ws))"
  shows "parses (p_emplace (key v) v (keyed key us) dup) [] (keyed key (us @ [v]))"
proof -
  note ok = keyed_ok_prefix [OF assms]
  show ?thesis unfolding p_emplace_def
    by (rule parses_require, rule parses_return) (simp_all add: om_find_snoc [OF ok] om_emplace_snoc [OF ok] keyed_append)
qed

lemma components_section:
  assumes r: "reg_inv r" "reg_full r" and wf: "\<forall>v\<in>set (all_versions r). component_version_wf v"
  shows "parses (p_section kComponentVersions load_component registry_empty)
    (put_counted put_component_version (all_versions r)) r"
proof (rule parses_section [where F = restore_all])
  fix us v ws
  assume split: "all_versions r = us @ v # ws"
  note sorted = all_versions_sorted [OF r(1), unfolded split]
  have ok: "om_ok (keyed version_key us @ [(version_key v, v)])" by (rule keyed_ok_prefix [OF sorted])
  have valid: "list_all (\<lambda>v. is_ok (rv_validate v)) us" "is_ok (rv_validate v)"
    and len: "length us < kComponentVersions"
    using all_versions_props [OF r(1)] reg_invD(5) [OF r(1)] by (simp_all add: split)
  have spec: "reg_inv (restore_all us)" "registry_table (restore_all us) = om_find (keyed version_key us)"
    "reg_version_count (restore_all us) = length us"
    using restore_all_spec [OF om_ok_prefix [OF ok] valid(1)] len by simp_all
  have "is_ok (fst (restore (restore_all us) v))"
    by (rule restore_fresh(1)) (simp_all add: spec valid len om_find_snoc [OF ok])
  then show "parses (load_component (restore_all us)) (put_component_version v) (restore_all (us @ [v]))"
    unfolding load_component_def p_status_def
    by (intro parses_load [OF parses_component_version]) (use wf in \<open>simp_all add: split restore_all_def\<close>)
qed (use all_versions_props [OF r(1)] reg_invD(5) [OF r(1)] in
  \<open>simp_all add: restore_all_versions [OF r] limit_defs\<close>, simp add: restore_all_def)

lemma edges_section:
  assumes m: "mat_inv m" "rows_full m" and wf: "\<forall>e\<in>set (all_edges m). edge_wf e"
  shows "parses (p_section kCompatibilityEdges load_edge matrix_empty) (put_counted put_edge (all_edges m))
    (upsert_all (all_edges m))"
proof (rule parses_section [where F = upsert_all])
  have props: "list_all (\<lambda>e. is_ok (validate_edge e)) (all_edges m)" "length (all_edges m) \<le> kCompatibilityEdges"
    using m(1) by (auto simp: mat_inv_def all_edges_def list_all_iff om_vals_def om_in_iff om_size_def)
  fix us v ws
  assume split: "all_edges m = us @ v # ws"
  have "om_ok (keyed edge_key (us @ v # ws))" using mat_keyed [OF m(1)] mat_invD(1) [OF m(1)] by (simp add: split)
  then have ok: "om_ok (keyed edge_key us @ [(edge_key v, v)])" by (rule keyed_ok_prefix)
  from props have "list_all (\<lambda>e. is_ok (validate_edge e)) us" "is_ok (validate_edge v)" "length us < kCompatibilityEdges"
    by (simp_all add: split)
  with upsert_all_spec [OF om_ok_prefix [OF ok]] om_find_snoc [OF ok] upsert_fresh(1) [of v "upsert_all us"]
  have "is_ok (fst (matrix_upsert (upsert_all us) v))" by (simp add: om_size_def keyed_def)
  then show "parses (load_edge (upsert_all us)) (put_edge v) (upsert_all (us @ [v]))"
    unfolding load_edge_def p_status_def
    by (intro parses_load [OF parses_edge]) (use wf in \<open>simp_all add: split upsert_all_def\<close>)
qed (use m(1) in \<open>simp_all add: upsert_all_def limit_defs mat_inv_def all_edges_def om_vals_def om_size_def\<close>)

abbreviation protocol_key :: "ProtocolDescriptor \<Rightarrow> ident \<times> gen" where
  "protocol_key d \<equiv> (pd_id d, pd_generation d)"

abbreviation schema_key :: "SchemaDescriptor \<Rightarrow> ident \<times> gen" where
  "schema_key d \<equiv> (sd_id d, sd_generation d)"

lemma keyed_section:
  assumes keys: "\<And>k v. (k, v) \<in> set m \<Longrightarrow> k = key v" and ok: "om_ok m" and size: "om_size m \<le> cap" and cap: "cap < 2 ^ 32"
    and wf: "\<And>v. v \<in> set (om_vals m) \<Longrightarrow> good v" and start: "s = G []" and finish: "t = G m"
    and step: "\<And>us v ws. om_vals m = us @ v # ws \<Longrightarrow> om_ok (keyed key us @ [(key v, v)]) \<Longrightarrow> length us < cap \<Longrightarrow> good v
      \<Longrightarrow> parses (load (G (keyed key us))) (put v) (G (keyed key us @ [(key v, v)]))"
  shows "parses (p_section cap load s) (put_counted put (om_vals m)) t"
proof (rule parses_section [where F = "\<lambda>us. G (keyed key us)"])
  have m: "keyed key (om_vals m) = m" by (rule keyed_vals) (rule keys)
  show "t = G (keyed key (om_vals m))" by (simp add: m finish)
  show "length (om_vals m) \<le> cap" using size by (simp add: om_vals_def om_size_def)
  fix us v ws
  assume split: "om_vals m = us @ v # ws"
  with ok m have "om_ok (keyed key (us @ v # ws))" by simp
  from keyed_ok_prefix [OF this] have "om_ok (keyed key us @ [(key v, v)])" .
  moreover have "length us < cap" using \<open>length (om_vals m) \<le> cap\<close> split by simp
  ultimately show "parses (load (G (keyed key us))) (put v) (G (keyed key (us @ [v])))"
    using step [OF split] wf [of v] split by (simp add: keyed_append)
qed (use cap in \<open>simp_all add: start\<close>)

lemma protocols_section:
  assumes "om_ok r" "is_ok (protocol_validate r)" "\<forall>d\<in>set (protocol_all r). protocol_wf d"
  shows "parses (p_section kProtocolGenerations load_protocol om_empty) (put_counted put_protocol (protocol_all r)) r"
  unfolding protocol_all_def
proof (rule keyed_section [where key = protocol_key and G = "\<lambda>r. r" and good = "\<lambda>d. protocol_wf d \<and> is_ok (pd_validate d)"])
  fix us d ws
  assume ok: "om_ok (keyed protocol_key us @ [(protocol_key d, d)])" and "length us < kProtocolGenerations"
    and d: "protocol_wf d \<and> is_ok (pd_validate d)"
  then have pub: "protocol_publish (keyed protocol_key us) d = (status_ok, keyed protocol_key us @ [(protocol_key d, d)])"
    by (simp add: protocol_publish_def om_find_snoc [OF ok] om_emplace_snoc [OF ok] length_keyed [symmetric] Let_def)
  then show "parses (load_protocol (keyed protocol_key us)) (put_protocol d) (keyed protocol_key us @ [(protocol_key d, d)])"
    unfolding load_protocol_def by (intro parses_load [OF parses_protocol]) (simp_all add: d)
qed (use assms protocols.check_iff [of r] in
  \<open>auto simp: limit_defs protocol_all_def om_vals_def om_empty_def\<close>)

lemma schemas_section:
  assumes "om_ok r" "is_ok (schema_validate r)" "\<forall>d\<in>set (schema_all r). schema_wf d"
  shows "parses (p_section kSchemaGenerations load_schema om_empty) (put_counted put_schema (schema_all r)) r"
  unfolding schema_all_def
proof (rule keyed_section [where key = schema_key and G = "\<lambda>r. r" and good = "\<lambda>d. schema_wf d \<and> is_ok (sd_validate d)"])
  fix us d ws
  assume ok: "om_ok (keyed schema_key us @ [(schema_key d, d)])" and "length us < kSchemaGenerations"
    and d: "schema_wf d \<and> is_ok (sd_validate d)"
  then have pub: "schema_publish (keyed schema_key us) d = (status_ok, keyed schema_key us @ [(schema_key d, d)])"
    by (simp add: schema_publish_def om_find_snoc [OF ok] om_emplace_snoc [OF ok] length_keyed [symmetric] Let_def)
  then show "parses (load_schema (keyed schema_key us)) (put_schema d) (keyed schema_key us @ [(schema_key d, d)])"
    unfolding load_schema_def by (intro parses_load [OF parses_schema]) (simp_all add: d)
qed (use assms schemas.check_iff [of r] in
  \<open>auto simp: limit_defs schema_all_def om_vals_def om_empty_def\<close>)

lemma gates_section:
  assumes "om_ok (gates r)" "is_ok (gates_validate r)" "\<forall>g\<in>set (gate_all r). gate_wf g"
  shows "parses (p_section kFeatureGates load_gate gates_empty) (put_counted put_gate (gate_all r))
    (gates_empty\<lparr>gates := gates r\<rparr>)"
  unfolding gate_all_def
proof (rule keyed_section [where key = fg_id and G = "\<lambda>m. gates_empty\<lparr>gates := m\<rparr>"
      and good = "\<lambda>g. gate_wf g \<and> is_ok (gate_validate g)"])
  fix us g ws
  assume ok: "om_ok (keyed fg_id us @ [(fg_id g, g)])" and "length us < kFeatureGates"
    and g: "gate_wf g \<and> is_ok (gate_validate g)"
  then have "gate_restore (gates_empty\<lparr>gates := keyed fg_id us\<rparr>) g
      = (status_ok, gates_empty\<lparr>gates := keyed fg_id us @ [(fg_id g, g)]\<rparr>)"
    by (simp add: gate_restore_def om_find_snoc [OF ok] om_emplace_snoc [OF ok] length_keyed [symmetric] Let_def)
  then show "parses (load_gate (gates_empty\<lparr>gates := keyed fg_id us\<rparr>)) (put_gate g)
      (gates_empty\<lparr>gates := keyed fg_id us @ [(fg_id g, g)]\<rparr>)"
    unfolding load_gate_def p_status_def by (intro parses_load [OF parses_gate]) (simp_all add: g)
qed (use assms gate_load.check_iff [of r] in
  \<open>auto simp: limit_defs gate_all_def om_vals_def om_empty_def gates_empty_def\<close>)

lemma parses_emplaced:
  assumes "parses rd bs v" and "om_ok (m @ [(key v, v)])"
  shows "parses (p_bind rd (\<lambda>v. p_emplace (key v) v m dup)) bs (m @ [(key v, v)])"
  unfolding p_emplace_def
  by (rule parses_load [OF assms(1)]) (simp_all add: om_find_snoc [OF assms(2)] om_emplace_snoc [OF assms(2)])

lemma parses_checked_emplaced:
  assumes "parses rd bs v" and "om_ok (m @ [(key v, v)])" and "accept v"
  shows "parses (p_bind rd (\<lambda>v. p_bind (p_require (accept v) bad) (\<lambda>_. p_emplace (key v) v m dup))) bs (m @ [(key v, v)])"
  unfolding p_emplace_def
  by (rule parses_end, rule parses_bind [OF assms(1)], rule parses_require, rule parses_require, rule parses_return)
    (simp_all add: om_find_snoc [OF assms(2)] om_emplace_snoc [OF assms(2)] assms(3))

definition keys_match :: "('v \<Rightarrow> 'k) \<Rightarrow> ('k::linorder, 'v) omap \<Rightarrow> bool" where
  "keys_match key m \<longleftrightarrow> om_ok m \<and> list_all (\<lambda>(k, v). k = key v) m"

abbreviation retirement_key :: "RetirementRecord \<Rightarrow> ident \<times> gen" where
  "retirement_key r \<equiv> (rr_component r, rr_generation r)"

abbreviation fenced_key :: "FencedBoot \<Rightarrow> ident \<times> gen" where
  "fenced_key f \<equiv> (fb_worker f, fb_boot f)"

lemma plans_section:
  assumes "keys_match ep_id m" "om_size m \<le> kPlanHistory" "\<forall>p\<in>set (om_vals m). plan_wf p \<and> ep_id p \<noteq> []"
  shows "parses (p_section kPlanHistory load_plan om_empty) (put_counted put_plan (om_vals m)) m"
  by (rule keyed_section [where key = ep_id and G = "\<lambda>r. r" and good = "\<lambda>p. plan_wf p \<and> ep_id p \<noteq> []"],
      unfold load_plan_def)
    (use assms in \<open>auto simp: limit_defs keys_match_def list_all_iff om_empty_def intro!: parses_checked_emplaced parses_plan\<close>)

lemma retirements_section:
  assumes "keys_match retirement_key m" "om_size m \<le> kRetiredGenerations" "\<forall>r\<in>set (om_vals m). retirement_wf r"
  shows "parses (p_section kRetiredGenerations load_retirement om_empty) (put_counted put_retirement (om_vals m)) m"
  by (rule keyed_section [where key = retirement_key and G = "\<lambda>r. r" and good = retirement_wf], unfold load_retirement_def)
    (use assms in \<open>auto simp: limit_defs keys_match_def list_all_iff om_empty_def intro!: parses_emplaced parses_retirement\<close>)

lemma fenced_section:
  assumes "keys_match fenced_key m" "om_size m \<le> kFencedBoots" "\<forall>f\<in>set (om_vals m). fenced_boot_wf f"
  shows "parses (p_section kFencedBoots load_fenced om_empty) (put_counted put_fenced_boot (om_vals m)) m"
  by (rule keyed_section [where key = fenced_key and G = "\<lambda>r. r" and good = fenced_boot_wf], unfold load_fenced_def)
    (use assms in \<open>auto simp: limit_defs keys_match_def list_all_iff om_empty_def intro!: parses_emplaced parses_fenced_boot\<close>)

lemma workers_section:
  assumes "keys_match wr_worker m" "om_size m \<le> kWorkers" "\<forall>w\<in>set (om_vals m). worker_record_wf w"
  shows "parses (p_section kWorkers load_worker om_empty) (put_counted put_worker_record (om_vals m)) m"
  by (rule keyed_section [where key = wr_worker and G = "\<lambda>r. r" and good = worker_record_wf], unfold load_worker_def)
    (use assms in \<open>auto simp: limit_defs keys_match_def list_all_iff om_empty_def worker_record_wf_def
       intro!: parses_checked_emplaced parses_worker_record\<close>)

subsection \<open>The state\<close>

text \<open>What the class types and the operations of the code guarantee of every state the coordinator holds:
  the registries satisfy their invariants, maps are keyed by their values, texts and vectors are within
  the bounds of their types.\<close>

definition durable_ok :: "DurableState \<Rightarrow> bool" where
  "durable_ok s \<longleftrightarrow>
     version_wf (ds_writer_version s)
     \<and> reg_inv (ds_components s)
     \<and> (\<forall>v\<in>set (all_versions (ds_components s)). component_version_wf v)
     \<and> om_ok (ds_protocols s) \<and> (\<forall>d\<in>set (protocol_all (ds_protocols s)). protocol_wf d)
     \<and> om_ok (ds_schemas s) \<and> (\<forall>d\<in>set (schema_all (ds_schemas s)). schema_wf d)
     \<and> mat_inv (ds_matrix s) \<and> rows_full (ds_matrix s) \<and> (\<forall>e\<in>set (all_edges (ds_matrix s)). edge_wf e)
     \<and> om_ok (gates (ds_gates s)) \<and> (\<forall>g\<in>set (gate_all (ds_gates s)). gate_wf g)
     \<and> om_ok (ds_plans s) \<and> (\<forall>p\<in>set (om_vals (ds_plans s)). plan_wf p)
     \<and> (\<forall>m\<in>set (ds_migrations s). migration_record_wf m)
     \<and> (\<forall>r\<in>set (ds_rollbacks s). rollback_record_wf r)
     \<and> keys_match retirement_key (ds_retirements s) \<and> om_size (ds_retirements s) \<le> kRetiredGenerations
     \<and> (\<forall>r\<in>set (om_vals (ds_retirements s)). retirement_wf r)
     \<and> keys_match fenced_key (ds_fenced_boots s) \<and> (\<forall>f\<in>set (om_vals (ds_fenced_boots s)). fenced_boot_wf f)
     \<and> keys_match wr_worker (ds_workers s) \<and> (\<forall>w\<in>set (om_vals (ds_workers s)). worker_record_wf w)
     \<and> length (ds_stage_history s) \<le> kStageHistory \<and> (\<forall>h\<in>set (ds_stage_history s). stage_record_wf h)"

lemma durable_validateD:
  assumes "is_ok (durable_validate s)"
  shows "ds_format_version s = kEvolutionStateFormatVersion"
    and "is_ok (protocol_validate (ds_protocols s))" and "is_ok (schema_validate (ds_schemas s))"
    and "is_ok (gates_validate (ds_gates s))" and "om_size (ds_plans s) \<le> kPlanHistory"
    and "length (ds_migrations s) \<le> kMigrationRecords" and "length (ds_rollbacks s) \<le> kRollbackRecords"
    and "om_size (ds_fenced_boots s) \<le> kFencedBoots" and "om_size (ds_workers s) \<le> kWorkers"
    and "mat_generation (ds_matrix s) = ds_matrix_generation s" and "fgr_generation (ds_gates s) = ds_gate_generation s"
    and "is_ok (validate_cross_section s)"
  using assms by (auto simp: durable_validate_def split: if_splits)

lemma plan_id_not_Nil: "is_ok (plan_validate p) \<Longrightarrow> ep_id p \<noteq> []"
  by (auto simp: plan_validate_def split: if_splits)

lemma cross_plansD:
  assumes "is_ok (validate_cross_section s)" and "(i, p) \<in> set (ds_plans s)"
  shows "i = ep_id p" and "is_ok (plan_validate p)" and "ep_id p \<noteq> []"
proof -
  have "is_ok (first_failure (cross_plan s) (om_entries (ds_plans s)))"
    using assms(1) by (auto simp: validate_cross_section_def Let_def split: if_splits)
  then have "is_ok (cross_plan s (i, p))" using assms(2) by (simp add: om_entries_def)
  then show "i = ep_id p" "is_ok (plan_validate p)" "ep_id p \<noteq> []"
    using plan_id_not_Nil [of p] by (auto simp: cross_plan_def Let_def split: if_splits)
qed

lemma durable_plans_ok:
  assumes "is_ok (durable_validate s)" and "durable_ok s"
  shows "keys_match ep_id (ds_plans s)" and "\<forall>p\<in>set (om_vals (ds_plans s)). plan_wf p \<and> ep_id p \<noteq> []"
proof -
  note plan = cross_plansD [OF durable_validateD(12) [OF assms(1)]]
  show "keys_match ep_id (ds_plans s)"
    using plan(1) assms(2) by (auto simp: keys_match_def durable_ok_def list_all_iff)
  show "\<forall>p\<in>set (om_vals (ds_plans s)). plan_wf p \<and> ep_id p \<noteq> []"
    using plan(3) assms(2) by (fastforce simp: durable_ok_def om_vals_def)
qed

lemma gates_rebuild: "fgr_generation r = g \<Longrightarrow> (gates_empty\<lparr>gates := gates r\<rparr>)\<lparr>fgr_generation := g\<rparr> = r"
  by (cases r) (auto simp: gates_empty_def)

lemma parses_durable_body:
  assumes valid: "is_ok (durable_validate s)" and ok: "durable_ok s" and full: "reg_full (ds_components s)"
  shows "parses read_durable_body (durable_body s) s"
proof -
  note v = durable_validateD [OF valid] and plans = durable_plans_ok [OF valid ok]
  have matrix: "(upsert_all (all_edges (ds_matrix s)))\<lparr>mat_generation := ds_matrix_generation s\<rparr> = ds_matrix s"
    using upsert_all_edges [of "ds_matrix s"] ok v(10) by (simp add: durable_ok_def)
  note sections = parses_step [OF _ components_section] parses_step [OF _ protocols_section]
    parses_step [OF _ schemas_section] parses_step [OF _ edges_section] parses_step [OF _ gates_section]
    parses_step [OF _ plans_section] parses_step [OF _ retirements_section] parses_step [OF _ fenced_section]
    parses_step [OF _ workers_section] counted_step [where cap = kMigrationRecords]
    counted_step [where cap = kRollbackRecords] counted_step [where cap = kStageHistory]
  show ?thesis
    unfolding read_durable_body_def durable_body_def put_counters_def
    by (rule parses_end, simp only: append_assoc, (rule parse_steps sections)+, rule parses_return)
      (use ok v plans full in \<open>simp_all add: durable_ok_def limit_defs matrix gates_rebuild parses_migration_record
        parses_rollback_record parses_stage_record\<close>)
qed


subsection \<open>The file\<close>

lemma length_evolution_magic [simp]: "length kEvolutionStateMagic = 8"
  by (simp add: kEvolutionStateMagic_def)

definition durable_head :: "bytes \<Rightarrow> bytes" where
  "durable_head body = kEvolutionStateMagic @ put_u32 kEvolutionStateFormatVersion @ put_u64 (of_nat (length body))"

definition durable_file :: "bytes \<Rightarrow> bytes" where
  "durable_file body = durable_head body @ put_u32 (crc32 (durable_head body)) @ put_digest (digest_of body) @ body"

lemma length_put_digest: "length (put_digest d) = 16"
  by (simp add: put_digest_def)

lemma length_durable_file: "length (durable_head body) = 20" "length (durable_file body) = 40 + length body"
  by (simp_all add: durable_file_def durable_head_def length_put_digest)

lemma encode_durable:
  "durable_encode s = (status_ok, bs) \<longleftrightarrow>
     is_ok (durable_validate s) \<and> length (durable_body s) \<le> kStateFileBytes \<and> bs = durable_file (durable_body s)"
  by (auto simp: durable_encode_def durable_file_def durable_head_def Let_def status_ok_def failure_def is_ok_def)

lemma decode_durable_file:
  assumes size: "40 + length body \<le> kStateFileBytes"
  shows "durable_decode (durable_file body) =
    (case read_durable_body (reader body) of Inl status \<Rightarrow> Inl status
     | Inr (temp, r) \<Rightarrow>
         if \<not> at_end r then Inl (failure Corrupt ''durable state body has trailing bytes'')
         else if is_failure (durable_validate temp) then Inl (durable_validate temp) else Inr temp)"
proof -
  let ?bs = "durable_file body" and ?n = "of_nat (length body) :: u64"
  have n: "unat ?n = length body" using size by (simp add: unat_of_nat kStateFileBytes_def)
  let ?r0 = "\<lparr>rest = put_u32 kEvolutionStateFormatVersion @ put_u64 ?n @ put_u32 (crc32 (durable_head body))
      @ put_digest (digest_of body) @ body, consumed = 8, failed = False\<rparr>"
  have skip: "skip_bytes 8 (reader ?bs) = (True, ?r0)"
    by (simp add: durable_file_def durable_head_def skip_bytes_def need_def reader_def advance_def)
  note get = c_u32.get_put [where v = kEvolutionStateFormatVersion and r = ?r0]
    c_u64.get_put [where v = ?n] c_u32.get_put [where v = "crc32 (durable_head body)"]
    c_digest.get_put [where v = "digest_of body"]
  have "take 8 ?bs = kEvolutionStateMagic" and "take 20 ?bs = durable_head body" and "drop 40 ?bs = body"
    by (simp_all add: durable_file_def durable_head_def length_put_digest)
  with size n skip show ?thesis
    unfolding durable_decode_def length_evolution_magic
    by (simp add: get length_put_digest length_durable_file(2) Let_def kStateFileBytes_def)
qed

text \<open>Reloading drops components that a rejected publication left without versions; they are not visible
  in any listing or lookup.\<close>

definition durable_settle :: "DurableState \<Rightarrow> DurableState" where
  "durable_settle s = s\<lparr>ds_components := reg_compact (ds_components s)\<rparr>"

lemma settle_fields:
  "ds_components (durable_settle s) = reg_compact (ds_components s)"
  "ds_format_version (durable_settle s) = ds_format_version s" "ds_matrix (durable_settle s) = ds_matrix s"
  "ds_protocols (durable_settle s) = ds_protocols s" "ds_schemas (durable_settle s) = ds_schemas s"
  "ds_gates (durable_settle s) = ds_gates s" "ds_plans (durable_settle s) = ds_plans s"
  "ds_migrations (durable_settle s) = ds_migrations s" "ds_rollbacks (durable_settle s) = ds_rollbacks s"
  "ds_retirements (durable_settle s) = ds_retirements s" "ds_fenced_boots (durable_settle s) = ds_fenced_boots s"
  "ds_workers (durable_settle s) = ds_workers s" "ds_matrix_generation (durable_settle s) = ds_matrix_generation s"
  "ds_gate_generation (durable_settle s) = ds_gate_generation s"
  "reg_version_count (reg_compact r) = reg_version_count r"
  by (simp_all add: durable_settle_def reg_compact_def)

lemma settle_validate: "durable_validate (durable_settle s) = durable_validate s"
proof -
  have v: "cross_version (durable_settle s) = cross_version s" and p: "cross_plan (durable_settle s) = cross_plan s"
    unfolding cross_version_def cross_plan_def is_retired_def settle_fields by (rule refl)+
  have "validate_cross_section (durable_settle s) = validate_cross_section s"
    unfolding validate_cross_section_def v p settle_fields compact_versions by (rule refl)
  then show ?thesis unfolding durable_validate_def settle_fields by (simp only:)
qed

lemma settle_body: "durable_body (durable_settle s) = durable_body s"
  by (simp add: durable_body_def durable_settle_def put_counters_def compact_versions)

lemma settle_ok: "durable_ok s \<Longrightarrow> durable_ok (durable_settle s)"
  by (simp add: durable_ok_def durable_settle_def compact_inv compact_versions)

lemma settle_full: "durable_ok s \<Longrightarrow> reg_full (ds_components (durable_settle s))"
  by (simp add: durable_ok_def durable_settle_def compact_inv)

lemma settle_id: "durable_ok s \<Longrightarrow> reg_full (ds_components s) \<Longrightarrow> durable_settle s = s"
  by (simp add: durable_ok_def durable_settle_def compact_id)

lemma settle_retired: "is_retired (durable_settle s) c g = is_retired s c g"
  and settle_fenced: "is_boot_fenced (durable_settle s) w b = is_boot_fenced s w b"
  by (simp_all add: is_retired_def is_boot_fenced_def durable_settle_def)

lemma decode_encoded_durable:
  assumes "durable_ok s" and "durable_encode s = (status_ok, bs)" and "length bs \<le> kStateFileBytes"
  shows "durable_decode bs = Inr (durable_settle s)"
proof -
  let ?s = "durable_settle s" and ?body = "durable_body s"
  from assms(2) have valid: "is_ok (durable_validate ?s)" and bs: "bs = durable_file ?body"
    by (simp_all add: encode_durable settle_validate)
  have "parses read_durable_body ?body ?s"
    using parses_durable_body [OF valid settle_ok [OF assms(1)] settle_full [OF assms(1)]] by (simp add: settle_body)
  then have "read_durable_body (reader ?body)
      = Inr (?s, (reader ?body)\<lparr>rest := [], consumed := consumed (reader ?body) + length ?body\<rparr>)"
    by (rule parsesD) (simp_all add: reader_def)
  with decode_durable_file [of ?body] assms(3) valid show ?thesis
    by (simp add: bs length_durable_file at_end_def reader_def)
qed

lemma save_ok:
  assumes "is_ok (fst (store_save path s w))"
  obtains bs where "durable_encode s = (status_ok, bs)" "length bs \<le> kStateFileBytes"
    "files (snd (store_save path s w)) path = Some bs"
proof -
  obtain e bs where enc: "durable_encode s = (e, bs)" by fastforce
  with assms have ok: "is_ok e" "is_ok (fst (write_file_atomic path bs w))"
    by (auto simp: store_save_def split: if_splits)
  from ok(1) enc have "durable_encode s = (status_ok, bs)"
    by (auto simp: durable_encode_def Let_def split: if_splits)
  moreover from ok(2) have "length bs \<le> kStateFileBytes" by (auto simp: write_file_atomic_def split: if_splits)
  moreover have "files (snd (store_save path s w)) path = Some bs"
    using atomic.committed [OF ok(2)] ok(1) enc by (simp add: store_save_def)
  ultimately show thesis by (rule that)
qed

lemma save_failed: "\<not> is_ok (fst (store_save path s w)) \<Longrightarrow> files (snd (store_save path s w)) path = files w path"
  using atomic.rejected by (auto simp: store_save_def split: prod.splits if_splits)

text \<open>
  C6: A saved evolution state comes back exactly.  When \<open>DurableStore::save\<close> reports success, every later
  load of the path that reports success yields the state that was saved, registries with their
  indexes and counters included, and it does report success when the system calls succeed.  Only
  components without any version (left by a rejected publication) are dropped; without such, the state is
  the very same.  When saving fails, the file is untouched, and a failed load leaves the destination alone.
\<close>

theorem durable_state_roundtrip:
  assumes "durable_ok s"
  shows "(is_ok (fst (store_save path s w)) \<and> files v path = files (snd (store_save path s w)) path
      \<longrightarrow> (is_ok (fst (store_load path out v)) \<longrightarrow> fst (snd (store_load path out v)) = durable_settle s)
        \<and> (quiet v \<longrightarrow> store_load path out v = (status_ok, durable_settle s, v)))
   \<and> (reg_full (ds_components s) \<longrightarrow> durable_settle s = s)
   \<and> (\<not> is_ok (fst (store_save path s w)) \<longrightarrow> files (snd (store_save path s w)) path = files w path)
   \<and> (\<not> is_ok (fst (store_load path out v)) \<longrightarrow> fst (snd (store_load path out v)) = out)"
proof (intro conjI impI)
  assume a: "is_ok (fst (store_save path s w)) \<and> files v path = files (snd (store_save path s w)) path"
  with save_ok obtain bs where bs: "durable_encode s = (status_ok, bs)" "length bs \<le> kStateFileBytes"
    "files v path = Some bs" by metis
  note decoded = decode_encoded_durable [OF assms bs(1,2)]
  show "store_load path out v = (status_ok, durable_settle s, v)" if "quiet v"
    using that bs decoded by (simp add: store_load_def)
  assume "is_ok (fst (store_load path out v))"
  then have "is_ok (fst (read_file_bounded path kStateFileBytes v))" by (auto simp: store_load_def Let_def split: prod.splits if_splits)
  moreover from read_ok [OF this] bs(3) have "fst (snd (read_file_bounded path kStateFileBytes v)) = bs" by simp
  ultimately show "fst (snd (store_load path out v)) = durable_settle s"
    using decoded by (auto simp: store_load_def split: prod.splits)
next
  assume "\<not> is_ok (fst (store_load path out v))"
  then show "fst (snd (store_load path out v)) = out" by (auto simp: store_load_def split: prod.splits sum.splits)
qed (use assms settle_id save_failed in blast)+

definition sample_durable :: DurableState where
  "sample_durable = durable_empty\<lparr>ds_evolution_epoch := 4, ds_coordinator_epoch := 2,
     ds_retirements := [((''gateway'', 3), \<lparr>rr_component = ''gateway'', rr_generation = 3, rr_recorded_at = 1,
       rr_epoch = 4, rr_coordinator_epoch = 2, rr_checkpoints_retained = True, rr_detail = ''drained''\<rparr>)],
     ds_fenced_boots := [((''worker-1'', 7), \<lparr>fb_worker = ''worker-1'', fb_boot = 7, fb_component = ''gateway'',
       fb_generation = 3, fb_reason = ''retired'', fb_fenced_at = 4\<rparr>)]\<rparr>"

lemma sample_durable_ok: "durable_ok sample_durable"
proof -
  have "reg_inv registry_empty" "reg_full registry_empty" by (rule reg_empty_props)+
  moreover have "mat_inv matrix_empty" by (rule mat_inv_empty)
  ultimately show ?thesis
    by (simp add: durable_ok_def sample_durable_def durable_empty_def version_wf_def version_unset_def om_vals_def
      all_versions_def registry_empty_def om_empty_def protocol_all_def schema_all_def all_edges_def matrix_empty_def
      rows_full_def gates_empty_def gate_all_def keys_match_def retirement_wf_def fenced_boot_wf_def ident_ok_def text_ok_def
      is_valid_ident_char_def is_valid_text_char_def less_eq_char_def limit_defs om_find_def om_size_def om_ok_def)
qed

lemma sample_durable_full: "reg_full (ds_components sample_durable)"
  using reg_empty_props by (simp add: sample_durable_def durable_empty_def)

lemma sample_durable_encodes:
  "durable_encode sample_durable = (status_ok, durable_file (durable_body sample_durable))"
  "length (durable_file (durable_body sample_durable)) \<le> kStateFileBytes"
proof -
  have body: "length (durable_body sample_durable) \<le> kStateFileBytes - 40"
    by (simp add: durable_body_def put_counters_def put_counted_def put_version_def put_retirement_def put_fenced_boot_def
      put_generation_def put_ident_def put_text_def put_blob_def put_boolean_def put_digest_def put_u8_def sample_durable_def durable_empty_def
      version_unset_def om_vals_def all_versions_def registry_empty_def om_empty_def protocol_all_def schema_all_def
      all_edges_def matrix_empty_def gates_empty_def gate_all_def kStateFileBytes_def)
  have "is_ok (durable_validate sample_durable)"
    by (simp add: durable_validate_def validate_cross_section_def Let_def sample_durable_def durable_empty_def
      om_vals_def all_versions_def registry_empty_def om_empty_def matrix_validate_def matrix_empty_def protocol_validate_def
      schema_validate_def gates_validate_def gates_empty_def om_entries_def om_size_def limit_defs)
  with body show "durable_encode sample_durable = (status_ok, durable_file (durable_body sample_durable))"
    "length (durable_file (durable_body sample_durable)) \<le> kStateFileBytes"
    by (simp_all add: encode_durable length_durable_file kStateFileBytes_def)
qed

theorem durable_state_roundtrip_witness:
  "\<exists>w. store_load ''state'' durable_empty w = (status_ok, sample_durable, w)"
proof -
  let ?w = "\<lparr>files = \<lambda>_. None, script = [], alive = True\<rparr>"
  have save: "store_save ''state'' sample_durable ?w = write_file_atomic ''state'' (durable_file (durable_body sample_durable)) ?w"
    by (simp add: store_save_def sample_durable_encodes)
  have "quiet ?w" by (simp add: quiet_def)
  from atomic.progress [OF this sample_durable_encodes(2)] save
  have "is_ok (fst (store_save ''state'' sample_durable ?w))" "quiet (snd (store_save ''state'' sample_durable ?w))" by simp_all
  with durable_state_roundtrip [OF sample_durable_ok, of "''state''" ?w "snd (store_save ''state'' sample_durable ?w)" durable_empty]
    sample_durable_full
  show ?thesis by metis
qed

end
