(* ===== verification/Ref_Load.thy ===== *)
theory Ref_Load
  imports Ref_Store
begin

text \<open>
  What decoding can yield.  The bytes of the durable state come from a file, so nothing may be assumed of
  them.  \<open>yields p P\<close> says that whatever \<open>p\<close> reads, a value it returns satisfies \<open>P\<close>; the lemmas \<open>yields_x\<close> follow
  the readers of \<open>Ref_Records\<close> and \<open>Ref_Store\<close> step by step.  The result is that a state that was decoded at
  all satisfies every invariant the operations of the coordinator rely on.
\<close>

section \<open>What a parser can yield\<close>

definition yields :: "'a parser \<Rightarrow> ('a \<Rightarrow> bool) \<Rightarrow> bool" where
  "yields p P \<longleftrightarrow> (\<forall>r v r'. p r = Inr (v, r') \<longrightarrow> P v)"

named_theorems yield_steps "what the parts of a parser can yield"

lemma yieldsI: "(\<And>r v r'. p r = Inr (v, r') \<Longrightarrow> P v) \<Longrightarrow> yields p P"
  by (auto simp: yields_def)

lemma yieldsD: "yields p P \<Longrightarrow> p r = Inr (v, r') \<Longrightarrow> P v"
  by (auto simp: yields_def)

lemma yields_return: "P v \<Longrightarrow> yields (p_return v) P"
  by (auto simp: yields_def p_return_def)

lemma yields_bind: "(\<And>v. Q v \<Longrightarrow> yields (f v) P) \<Longrightarrow> yields p Q \<Longrightarrow> yields (p_bind p f) P"
  by (auto simp: yields_def p_bind_def split: sum.splits)

lemma yields_weaken: "yields p Q \<Longrightarrow> (\<And>v. Q v \<Longrightarrow> P v) \<Longrightarrow> yields p P"
  by (auto simp: yields_def)

lemma yields_any: "(\<And>v. yields (f v) P) \<Longrightarrow> yields (p_bind (p_get g) f) P"
  by (rule yields_bind [where Q = "\<lambda>_. True"]) (simp_all add: yields_def)

lemma yields_live: "yields (f ()) P \<Longrightarrow> yields (p_bind (p_live s) f) P"
  by (auto simp: yields_def p_bind_def p_live_def split: if_splits sum.splits)

lemma yields_require: "(b \<Longrightarrow> yields (f ()) P) \<Longrightarrow> yields (p_bind (p_require b s) f) P"
  by (auto simp: yields_def p_bind_def p_require_def split: if_splits sum.splits)

lemma yields_get_ident: "yields (p_get (get_ident 63)) (ident_ok 63)"
  by (rule yieldsI) (auto simp: p_get_def get_ident_def Let_def ident_parse_def ident_ok_def
      split: prod.splits if_splits option.splits)

lemma yields_get_text: "yields (p_get (get_text cap)) (text_ok cap)"
  by (rule yieldsI) (auto simp: p_get_def get_text_def Let_def text_parse_def text_ok_def
      split: prod.splits if_splits option.splits)

lemmas yields_ident = yields_bind [OF _ yields_get_ident]
lemmas yields_text = yields_bind [OF _ yields_get_text]

lemma yields_fold:
  assumes "\<And>k s. Inv k s \<Longrightarrow> yields (step s) (Inv (Suc k))"
  shows "Inv k s \<Longrightarrow> yields (p_fold n step s) (Inv (k + n))"
proof (induction n arbitrary: k s)
  case (Suc n)
  have "yields (p_bind (step s) (p_fold n step)) (Inv (Suc k + n))"
    by (rule yields_bind [OF Suc.IH]) (use Suc.prems assms in blast)+
  then show ?case by simp
qed (simp add: yields_return)

lemma yields_many: "yields p P \<Longrightarrow> yields (p_many n p) (\<lambda>xs. length xs = n \<and> (\<forall>x\<in>set xs. P x))"
proof -
  assume p: "yields p P"
  let ?Inv = "\<lambda>k xs. length xs = k \<and> (\<forall>x\<in>set xs. P x)"
  have "yields (p_bind p (\<lambda>x. p_return (xs @ [x]))) (?Inv (Suc k))" if "?Inv k xs" for k xs
    by (rule yields_bind [OF yields_return p]) (use that in auto)
  from yields_fold [where Inv = ?Inv and k = 0 and s = "[]", OF this] show ?thesis by (simp add: p_many_def)
qed

lemma yields_count: "yields (p_count what cap) (\<lambda>n. n \<le> cap)"
  unfolding p_count_def by (rule yields_any yields_live yields_require yields_return | assumption)+

lemma yields_counted: "yields p P \<Longrightarrow> yields (p_counted what cap p) (\<lambda>xs. length xs \<le> cap \<and> (\<forall>x\<in>set xs. P x))"
  unfolding p_counted_def
  by (rule yields_bind [OF _ yields_count], rule yields_weaken [OF yields_many]) auto

lemmas basic_yields [yield_steps] = yields_ident yields_text yields_any yields_live yields_require

lemma yields_generations: "yields (read_generations what) gs_inv"
  unfolding read_generations_def
proof ((rule yield_steps)+, rule yields_bind)
  have "yields (add_generation what gs) gs_inv" if "gs_inv gs" for gs
    unfolding add_generation_def
    by ((rule yield_steps)+, rule yields_return) (use that gs_add_spec in auto)
  then show "yields (p_fold (unat v) (add_generation what) []) gs_inv" for v :: u8
    using yields_fold [where Inv = "\<lambda>_. gs_inv" and k = 0 and s = "[]"] gs_inv_empty by blast
qed ((rule yield_steps)+, rule yields_return, assumption)

lemma yields_range: "yields (read_range what) range_wf"
  unfolding read_range_def
  by ((rule yield_steps)+, rule yields_return) (simp add: range_wf_def)

lemma yields_version: "yields (read_version what) version_wf"
  unfolding read_version_def
  by ((rule yield_steps)+, rule yields_return) (simp add: version_wf_def)

lemma yields_required_evidence: "yields (read_required_evidence what) required_evidence_wf"
  unfolding read_required_evidence_def
  by ((rule yield_steps)+, rule yields_return) (simp add: required_evidence_wf_def)

lemma yields_feature_support: "yields (read_feature_support what) feature_support_wf"
  unfolding read_feature_support_def
  by ((rule yield_steps)+, rule yields_return) (simp add: feature_support_wf_def)

lemma yields_migration_capability: "yields (read_migration_capability what) migration_capability_wf"
  unfolding read_migration_capability_def
  by ((rule yield_steps)+, rule yields_return) (simp add: migration_capability_wf_def)


lemmas part_yields [yield_steps] = yields_bind [OF _ yields_range] yields_bind [OF _ yields_version]
  yields_bind [OF _ yields_generations]

lemma yields_peer_requirement: "yields (read_peer_requirement what) peer_requirement_wf"
  unfolding read_peer_requirement_def
  by ((rule yield_steps)+, rule yields_return) (simp add: peer_requirement_wf_def)

lemmas vector_yields [yield_steps] =
  yields_bind [OF _ yields_counted [OF yields_required_evidence]]
  yields_bind [OF _ yields_counted [OF yields_feature_support]]
  yields_bind [OF _ yields_counted [OF yields_migration_capability]]
  yields_bind [OF _ yields_counted [OF yields_peer_requirement]]

lemma yields_component_version: "yields read_component_version component_version_wf"
  unfolding read_component_version_def
  by ((rule yield_steps)+, rule yields_return) (simp add: component_version_wf_def)

lemma yields_field_descriptor: "yields read_field_descriptor field_descriptor_wf"
  unfolding read_field_descriptor_def
  by ((rule yield_steps)+, rule yields_return) (simp add: field_descriptor_wf_def)

lemma yields_message_descriptor: "yields read_message_descriptor message_descriptor_wf"
  unfolding read_message_descriptor_def
  by ((rule yield_steps yields_bind [OF _ yields_counted [OF yields_field_descriptor]])+, rule yields_return)
    (simp add: message_descriptor_wf_def)

lemma yields_protocol: "yields read_protocol protocol_wf"
  unfolding read_protocol_def
  by ((rule yield_steps yields_bind [OF _ yields_counted [OF yields_message_descriptor]])+, rule yields_return)
    (simp add: protocol_wf_def)

lemma yields_schema_field: "yields read_schema_field schema_field_wf"
  unfolding read_schema_field_def
  by ((rule yield_steps)+, rule yields_return) (simp add: schema_field_wf_def)

lemma yields_schema: "yields read_schema schema_wf"
  unfolding read_schema_def
  by ((rule yield_steps yields_bind [OF _ yields_counted [OF yields_schema_field]])+, rule yields_return)
    (simp add: schema_wf_def)

lemma yields_assessment: "yields read_assessment (\<lambda>x. text_ok 192 (aa_detail x))"
  unfolding read_assessment_def
  by ((rule yield_steps)+, rule yields_return) simp

lemma yields_aspects: "yields read_aspects (\<lambda>f. \<forall>a\<in>set all_aspects. text_ok 192 (aa_detail (f a)))"
  unfolding read_aspects_def
proof (rule yields_bind [OF yields_return yields_many [OF yields_assessment]])
  fix xs :: "AspectAssessment list"
  assume xs: "length xs = length all_aspects \<and> (\<forall>x\<in>set xs. text_ok 192 (aa_detail x))"
  then have "aspects_of xs a \<in> set xs" for a
    using raw_aspects.raw_bound [of a] by (simp add: aspects_of_def)
  with xs show "\<forall>a\<in>set all_aspects. text_ok 192 (aa_detail (aspects_of xs a))" by blast
qed

lemma yields_edge: "yields read_edge edge_wf"
  unfolding read_edge_def
  by ((rule yield_steps yields_bind [OF _ yields_aspects])+, rule yields_return) (simp add: edge_wf_def)

lemma yields_gate: "yields read_gate gate_wf"
  unfolding read_gate_def
  by ((rule yield_steps)+, rule yields_return) (simp add: gate_wf_def)

lemma yields_stage_record: "yields read_stage_record stage_record_wf"
  unfolding read_stage_record_def
  by ((rule yield_steps)+, rule yields_return) (simp add: stage_record_wf_def)

lemma yields_policy: "yields read_policy (\<lambda>_. True)"
  by (simp add: yields_def)

lemma yields_cohort: "yields read_cohort (ident_ok 63)"
  unfolding read_cohort_def by ((rule yield_steps)+, rule yields_return)

lemma yields_plan: "yields read_plan plan_wf"
  unfolding read_plan_def
  by ((rule yield_steps yields_bind [OF _ yields_policy] yields_bind [OF _ yields_many [OF yields_cohort]]
      yields_bind [OF _ yields_counted [OF yields_stage_record]])+, rule yields_return) (simp add: plan_wf_def)

lemma yields_migration_record: "yields read_migration_record migration_record_wf"
  unfolding read_migration_record_def
  by ((rule yield_steps)+, rule yields_return) (simp add: migration_record_wf_def)

lemma yields_rollback_record: "yields read_rollback_record rollback_record_wf"
  unfolding read_rollback_record_def
  by ((rule yield_steps)+, rule yields_return) (simp add: rollback_record_wf_def)

lemma yields_retirement: "yields read_retirement retirement_wf"
  unfolding read_retirement_def
  by ((rule yield_steps)+, rule yields_return) (simp add: retirement_wf_def)

lemma yields_fenced_boot: "yields read_fenced_boot fenced_boot_wf"
  unfolding read_fenced_boot_def
  by ((rule yield_steps)+, rule yields_return) (simp add: fenced_boot_wf_def)

definition worker_record_typed :: "WorkerRecord \<Rightarrow> bool" where
  "worker_record_typed w \<longleftrightarrow> ident_ok 63 (wr_worker w) \<and> ident_ok 63 (wr_component w) \<and> text_ok 192 (wr_detail w)"

lemma yields_worker_record: "yields read_worker_record worker_record_typed"
  unfolding read_worker_record_def
  by ((rule yield_steps)+, rule yields_return) (simp add: worker_record_typed_def)


section \<open>What the sections can yield\<close>

lemma yields_section:
  assumes "\<And>k s. Inv k s \<Longrightarrow> yields (step s) (Inv (Suc k))" and "Inv 0 s"
  shows "yields (p_section cap step s) (\<lambda>t. \<exists>n\<le>cap. Inv n t)"
  unfolding p_section_def
  by (rule yields_bind [OF _ yields_count], rule yields_weaken [OF yields_fold [where Inv = Inv and k = 0]])
    (use assms in auto)

lemma yields_load:
  assumes "yields rd P" and "\<And>v. P v \<Longrightarrow> accept v \<Longrightarrow> Q (result v)"
  shows "yields (p_bind rd (\<lambda>v. p_bind (p_require (accept v) (bad v)) (\<lambda>_. p_return (result v)))) Q"
  by (rule yields_bind [OF _ assms(1)], rule yields_require, rule yields_return) (rule assms(2))

lemma restore_inserts:
  assumes "reg_inv r" and "is_ok (fst (restore r v))"
  shows "\<forall>x\<in>set (all_versions (snd (restore r v))). x = v \<or> x \<in> set (all_versions r)"
    and "reg_full r \<Longrightarrow> reg_full (snd (restore r v))"
proof -
  have fresh: "is_ok (rv_validate v)" "registry_table r (version_key v) = None" "reg_version_count r < kComponentVersions"
    using assms(2) by (auto simp: restore_def Let_def put_versions_def registry_table_def registry_find_def versions_at_def
        split: if_splits option.splits)
  note restored = restore_fresh [OF assms(1) fresh]
  show "\<forall>x\<in>set (all_versions (snd (restore r v))). x = v \<or> x \<in> set (all_versions r)"
  proof
    fix x
    assume "x \<in> set (all_versions (snd (restore r v)))"
    then have "registry_table (snd (restore r v)) (version_key x) = Some x"
      using all_versions_iff [OF restored(3), of x] by (simp add: registry_table_def)
    then have "x = v \<or> registry_table r (version_key x) = Some x" by (auto simp: restored(2) split: if_splits)
    then show "x = v \<or> x \<in> set (all_versions r)"
      using all_versions_iff [OF assms(1), of x] by (auto simp: registry_table_def)
  qed
  show "reg_full r \<Longrightarrow> reg_full (snd (restore r v))" by (rule restored(4))
qed

lemma yields_components:
  "yields (p_section kComponentVersions load_component registry_empty)
    (\<lambda>r. reg_inv r \<and> reg_full r \<and> (\<forall>v\<in>set (all_versions r). component_version_wf v))" (is "yields _ ?ok")
proof -
  have "yields (load_component r) ?ok" if "?ok r" for r
    unfolding load_component_def p_status_def
  proof (rule yields_load [OF yields_component_version])
    fix v
    assume v: "component_version_wf v" and ok: "is_ok (fst (restore r v))"
    from that have inv: "reg_inv r" by blast
    show "?ok (snd (restore r v))"
      using restore_refines(2) [OF inv, of v] restore_inserts [OF inv ok] that v by auto
  qed
  moreover have "?ok registry_empty" using reg_empty_props by (simp add: all_versions_def registry_empty_def om_vals_def om_empty_def)
  ultimately show ?thesis by (intro yields_weaken [OF yields_section [where Inv = "\<lambda>_. ?ok"]]) auto
qed

lemma om_vals_upd_sub: "set (om_vals (om_upd k v m)) \<subseteq> insert v (set (om_vals m))"
  by (induction k v m rule: om_upd.induct) (auto simp: om_vals_def)

lemma loaded_upsert_edges: "is_ok (fst (matrix_upsert m e)) \<Longrightarrow> edges (snd (matrix_upsert m e)) = om_upd (edge_key e) e (edges m)"
  by (auto simp: matrix_upsert_def Let_def om_emplace_def split: option.splits if_splits)

lemma upsert_rows_full: "rows_full m \<Longrightarrow> rows_full (snd (matrix_upsert m e))"
  by (auto simp: matrix_upsert_def Let_def rows_full_def split: option.splits)

lemma yields_edges:
  "yields (p_section kCompatibilityEdges load_edge matrix_empty)
    (\<lambda>m. mat_inv m \<and> rows_full m \<and> (\<forall>e\<in>set (all_edges m). edge_wf e))" (is "yields _ ?ok")
proof -
  have "yields (load_edge m) ?ok" if "?ok m" for m
    unfolding load_edge_def p_status_def
  proof (rule yields_load [OF yields_edge])
    fix e
    assume "edge_wf e" "is_ok (fst (matrix_upsert m e))"
    then have "\<forall>x\<in>set (all_edges (snd (matrix_upsert m e))). edge_wf x"
      using that om_vals_upd_sub [of "edge_key e" e "edges m"] by (auto simp: all_edges_def loaded_upsert_edges)
    with that show "?ok (snd (matrix_upsert m e))" by (simp add: mat_inv_upsert upsert_rows_full)
  qed
  moreover have "?ok matrix_empty"
    using mat_inv_empty by (simp add: rows_full_def matrix_empty_def all_edges_def om_empty_def om_find_def om_vals_def)
  ultimately show ?thesis by (intro yields_weaken [OF yields_section [where Inv = "\<lambda>_. ?ok"]]) auto
qed

text \<open>A map filled by insertion is sorted and holds only records that were read.\<close>

definition table_ok :: "('v \<Rightarrow> bool) \<Rightarrow> ('k::linorder, 'v) omap \<Rightarrow> bool" where
  "table_ok P m \<longleftrightarrow> om_ok m \<and> (\<forall>v\<in>set (om_vals m). P v)"

lemma table_ok_empty: "table_ok P om_empty"
  by (simp add: table_ok_def om_empty_def om_vals_def om_ok_def)

lemma table_ok_upd: "table_ok P m \<Longrightarrow> P v \<Longrightarrow> table_ok P (om_upd k v m)"
  using om_vals_upd_sub [of k v m] by (auto simp: table_ok_def om_ok_upd)

lemma yields_protocols: "yields (p_section kProtocolGenerations load_protocol om_empty) (table_ok protocol_wf)"
proof -
  have "yields (load_protocol r) (table_ok protocol_wf)" if "table_ok protocol_wf r" for r
    unfolding load_protocol_def
    by (rule yields_load [OF yields_protocol]) (use that protocols.put_ok table_ok_upd in metis)
  then show ?thesis
    using table_ok_empty by (intro yields_weaken [OF yields_section [where Inv = "\<lambda>_. table_ok protocol_wf"]]) auto
qed

lemma yields_schemas: "yields (p_section kSchemaGenerations load_schema om_empty) (table_ok schema_wf)"
proof -
  have "yields (load_schema r) (table_ok schema_wf)" if "table_ok schema_wf r" for r
    unfolding load_schema_def
    by (rule yields_load [OF yields_schema]) (use that schemas.put_ok table_ok_upd in metis)
  then show ?thesis
    using table_ok_empty by (intro yields_weaken [OF yields_section [where Inv = "\<lambda>_. table_ok schema_wf"]]) auto
qed

lemma yields_gates: "yields (p_section kFeatureGates load_gate gates_empty) (\<lambda>r. table_ok gate_wf (gates r))"
proof -
  have "yields (load_gate r) (\<lambda>r. table_ok gate_wf (gates r))" if "table_ok gate_wf (gates r)" for r
    unfolding load_gate_def p_status_def
    by (rule yields_load [OF yields_gate]) (use that gate_load.put_ok table_ok_upd in metis)
  then show ?thesis
    using table_ok_empty by (intro yields_weaken [OF yields_section [where Inv = "\<lambda>_ r. table_ok gate_wf (gates r)"]])
      (auto simp: gates_empty_def)
qed

text \<open>Maps filled with \<open>emplace\<close>, keyed by their values, no larger than the number of records read.\<close>

definition rows_ok :: "('v \<Rightarrow> 'k) \<Rightarrow> ('v \<Rightarrow> bool) \<Rightarrow> nat \<Rightarrow> ('k::linorder, 'v) omap \<Rightarrow> bool" where
  "rows_ok key P n m \<longleftrightarrow> keys_match key m \<and> om_size m \<le> n \<and> (\<forall>v\<in>set (om_vals m). P v)"

lemma set_om_upd: "set (om_upd k v m) \<subseteq> insert (k, v) (set m)"
  by (induction k v m rule: om_upd.induct) auto

lemma rows_ok_insert: "rows_ok key P n m \<Longrightarrow> P v \<Longrightarrow> rows_ok key P (Suc n) (om_upd (key v) v m)"
  using set_om_upd [of "key v" v m] om_vals_upd_sub [of "key v" v m]
  by (auto simp: rows_ok_def keys_match_def list_all_iff om_ok_upd om_size_upd)

lemma yields_emplace:
  assumes "rows_ok key P n m" and "P v"
  shows "yields (p_emplace (key v) v m dup) (rows_ok key P (Suc n))"
  unfolding p_emplace_def
  by (rule yields_require, rule yields_return) (use rows_ok_insert [OF assms] in \<open>simp add: om_emplace_def\<close>)

lemma yields_rows:
  assumes "\<And>n m. rows_ok key P n m \<Longrightarrow> yields (load m) (rows_ok key P (Suc n))"
  shows "yields (p_section cap load om_empty) (rows_ok key P cap)"
  by (rule yields_weaken [OF yields_section [where Inv = "rows_ok key P"]])
    (use assms in \<open>auto simp: rows_ok_def keys_match_def om_empty_def om_vals_def om_size_def om_ok_def\<close>)

lemma yields_plans: "yields (p_section kPlanHistory load_plan om_empty) (rows_ok ep_id plan_wf kPlanHistory)"
  by (rule yields_rows, unfold load_plan_def, rule yields_bind [OF _ yields_plan], rule yields_require, rule yields_emplace)

lemma yields_retirements:
  "yields (p_section kRetiredGenerations load_retirement om_empty) (rows_ok retirement_key retirement_wf kRetiredGenerations)"
  by (rule yields_rows, unfold load_retirement_def, rule yields_bind [OF _ yields_retirement], rule yields_emplace)

lemma yields_fenced: "yields (p_section kFencedBoots load_fenced om_empty) (rows_ok fenced_key fenced_boot_wf kFencedBoots)"
  by (rule yields_rows, unfold load_fenced_def, rule yields_bind [OF _ yields_fenced_boot], rule yields_emplace)

lemma yields_workers: "yields (p_section kWorkers load_worker om_empty) (rows_ok wr_worker worker_record_wf kWorkers)"
  by (rule yields_rows, unfold load_worker_def, rule yields_bind [OF _ yields_worker_record], rule yields_require,
      rule yields_emplace, assumption) (simp add: worker_record_typed_def worker_record_wf_def)

lemma yields_durable_body: "yields read_durable_body durable_ok"
proof -
  note steps = yields_bind [OF _ yields_components] yields_bind [OF _ yields_protocols] yields_bind [OF _ yields_schemas]
    yields_bind [OF _ yields_edges] yields_bind [OF _ yields_gates] yields_bind [OF _ yields_plans]
    yields_bind [OF _ yields_counted [OF yields_migration_record]]
    yields_bind [OF _ yields_counted [OF yields_rollback_record]] yields_bind [OF _ yields_retirements]
    yields_bind [OF _ yields_fenced] yields_bind [OF _ yields_workers]
    yields_bind [OF _ yields_counted [OF yields_stage_record]]
  show ?thesis unfolding read_durable_body_def
    by ((rule yield_steps steps)+, rule yields_return)
      (auto simp: durable_ok_def table_ok_def rows_ok_def keys_match_def protocol_all_def schema_all_def gate_all_def
        mat_inv_def rows_full_def row_at_def all_edges_def)
qed

lemma decoded_durable_ok:
  assumes "durable_decode bs = Inr s"
  shows "durable_ok s" and "is_ok (durable_validate s)"
  using assms yieldsD [OF yields_durable_body]
  by (auto simp: durable_decode_def Let_def split: prod.splits if_splits sum.splits)

lemma cross_sectionD:
  assumes "is_ok (validate_cross_section s)"
  shows "v \<in> set (all_versions (ds_components s)) \<Longrightarrow> is_ok (cross_version s v)"
    and "(i, p) \<in> set (ds_plans s) \<Longrightarrow> is_ok (cross_plan s (i, p))"
    and "m \<in> set (ds_migrations s) \<Longrightarrow> is_ok (cross_migration m)"
    and "b \<in> set (ds_rollbacks s) \<Longrightarrow> is_ok (cross_rollback b)"
  using assms by (auto simp: validate_cross_section_def Let_def om_entries_def split: if_splits)

lemma cross_plan_barrier:
  "is_ok (cross_plan s (i, p)) \<Longrightarrow> ep_rollback_barrier_crossed p \<Longrightarrow> m \<in> set (ds_migrations s) \<Longrightarrow>
   mrec_plan m = i \<Longrightarrow> \<not> mrec_rollback_available m"
  by (auto simp: cross_plan_def Let_def split: if_splits)

text \<open>
  C7: Whatever bytes the decoder of the durable state is given, a state it returns satisfies all
  invariants the coordinator relies on: registries, matrix and tables are well formed and within their
  bounds, no retired generation carries an authoritative lifecycle, every plan is valid under its own
  key, no migration of a plan whose rollback barrier was crossed still offers a rollback, and migration
  and rollback records connect two different generations that are set.
\<close>

theorem durable_decode_typed:
  assumes "durable_decode bs = Inr s"
  shows "durable_ok s \<and> is_ok (durable_validate s)
    \<and> (\<forall>v\<in>set (all_versions (ds_components s)). is_retired s (rv_component v) (rv_generation v) \<longrightarrow>
         \<not> is_authoritative_lifecycle (rv_lifecycle v))
    \<and> (\<forall>(i, p)\<in>set (ds_plans s). i = ep_id p \<and> is_ok (plan_validate p)
         \<and> (ep_rollback_barrier_crossed p \<longrightarrow>
             (\<forall>m\<in>set (ds_migrations s). mrec_plan m = i \<longrightarrow> \<not> mrec_rollback_available m)))
    \<and> (\<forall>m\<in>set (ds_migrations s). mrec_source m \<noteq> mrec_target m \<and> gen_is_set (mrec_source m)
         \<and> gen_is_set (mrec_target m) \<and> \<not> (mrec_irreversible m \<and> mrec_rollback_available m))
    \<and> (\<forall>b\<in>set (ds_rollbacks s). rb_from_generation b \<noteq> rb_to_generation b \<and> gen_is_set (rb_from_generation b)
         \<and> gen_is_set (rb_to_generation b))"
proof -
  note ok = decoded_durable_ok [OF assms]
  note cross = durable_validateD(12) [OF ok(2)]
  note parts = cross_sectionD [OF cross]
  have "\<forall>v\<in>set (all_versions (ds_components s)). is_retired s (rv_component v) (rv_generation v) \<longrightarrow>
      \<not> is_authoritative_lifecycle (rv_lifecycle v)"
    using parts(1) by (fastforce simp: cross_version_def split: if_splits)
  moreover have "\<forall>(i, p)\<in>set (ds_plans s). i = ep_id p \<and> is_ok (plan_validate p) \<and> (ep_rollback_barrier_crossed p \<longrightarrow>
      (\<forall>m\<in>set (ds_migrations s). mrec_plan m = i \<longrightarrow> \<not> mrec_rollback_available m))"
    using parts(2) cross_plansD(1,2) [OF cross] cross_plan_barrier by blast
  moreover have "\<forall>m\<in>set (ds_migrations s). mrec_source m \<noteq> mrec_target m \<and> gen_is_set (mrec_source m)
      \<and> gen_is_set (mrec_target m) \<and> \<not> (mrec_irreversible m \<and> mrec_rollback_available m)"
    using parts(3) by (fastforce simp: cross_migration_def split: if_splits)
  moreover have "\<forall>b\<in>set (ds_rollbacks s). rb_from_generation b \<noteq> rb_to_generation b
      \<and> gen_is_set (rb_from_generation b) \<and> gen_is_set (rb_to_generation b)"
    using parts(4) by (fastforce simp: cross_rollback_def split: if_splits)
  ultimately show ?thesis using ok by simp
qed

theorem durable_decode_typed_witness:
  "durable_ok sample_durable \<and> is_ok (durable_validate sample_durable)"
proof -
  have "durable_decode (durable_file (durable_body sample_durable)) = Inr sample_durable"
    using decode_encoded_durable [OF sample_durable_ok sample_durable_encodes]
      settle_id [OF sample_durable_ok sample_durable_full] by simp
  from durable_decode_typed [OF this] show ?thesis by blast
qed

end
