(* ===== verification/Ref_Wire.thy ===== *)
theory Ref_Wire
  imports Ref_Fields Ref_Protocol
begin

unbundle bit_operations_syntax

text \<open>
  Frames and field-typed messages: the first half of \<open>include/ref/wire.hpp\<close> and \<open>src/wire.cpp\<close>.

  A frame is a 76-byte header and a payload; its checksum covers the header before it and the payload.
  A message body is a vector of named fields, an instance of \<open>named_fields\<close>.  Shown: frames and
  message bodies round-trip, an accepted frame has exactly one representation, and a frame that is
  damaged in its envelope is refused with the documented error.
\<close>

section \<open>Message types\<close>

datatype MessageType =
    Invalid | Hello | HelloAck | RegisterComponent | RegisterComponentAck | PublishCapability |
    PublishCapabilityAck | PublishCompatibility | PublishCompatibilityAck | NegotiateProtocol |
    NegotiateProtocolAck | PublishSchema | PublishSchemaAck | RequestUpgrade | RequestUpgradeAck |
    RequestDrain | RequestDrainAck | RequestMigration | RequestMigrationAck | RequestRollback |
    RequestRollbackAck | RequestRetirement | RequestRetirementAck | PublishStage |
    PublishStageAck | PublishCompletion | PublishCompletionAck | QueryState | QueryStateAck |
    Fence | FenceAck | Heartbeat | HeartbeatAck | Error | Goodbye | ReconcileReport |
    RequestStateTransform | RequestMigrationDispatch | RequestRollbackDispatch | RequestSupersede |
    RequestFeatureEnable | RequestPlanRebind | RequestLifecycle

definition all_message_types :: "MessageType list" where
  "all_message_types = [
     Invalid, Hello, HelloAck, RegisterComponent, RegisterComponentAck, PublishCapability,
     PublishCapabilityAck, PublishCompatibility, PublishCompatibilityAck, NegotiateProtocol,
     NegotiateProtocolAck, PublishSchema, PublishSchemaAck, RequestUpgrade, RequestUpgradeAck,
     RequestDrain, RequestDrainAck, RequestMigration, RequestMigrationAck, RequestRollback,
     RequestRollbackAck, RequestRetirement, RequestRetirementAck, PublishStage, PublishStageAck,
     PublishCompletion, PublishCompletionAck, QueryState, QueryStateAck, Fence, FenceAck,
     Heartbeat, HeartbeatAck, Error, Goodbye, ReconcileReport, RequestStateTransform,
     RequestMigrationDispatch, RequestRollbackDispatch, RequestSupersede, RequestFeatureEnable,
     RequestPlanRebind, RequestLifecycle]"

fun message_number :: "MessageType \<Rightarrow> nat" where
  "message_number Invalid = 0"
| "message_number Hello = 1"
| "message_number HelloAck = 2"
| "message_number RegisterComponent = 3"
| "message_number RegisterComponentAck = 4"
| "message_number PublishCapability = 5"
| "message_number PublishCapabilityAck = 6"
| "message_number PublishCompatibility = 7"
| "message_number PublishCompatibilityAck = 8"
| "message_number NegotiateProtocol = 9"
| "message_number NegotiateProtocolAck = 10"
| "message_number PublishSchema = 11"
| "message_number PublishSchemaAck = 12"
| "message_number RequestUpgrade = 13"
| "message_number RequestUpgradeAck = 14"
| "message_number RequestDrain = 15"
| "message_number RequestDrainAck = 16"
| "message_number RequestMigration = 17"
| "message_number RequestMigrationAck = 18"
| "message_number RequestRollback = 19"
| "message_number RequestRollbackAck = 20"
| "message_number RequestRetirement = 21"
| "message_number RequestRetirementAck = 22"
| "message_number PublishStage = 23"
| "message_number PublishStageAck = 24"
| "message_number PublishCompletion = 25"
| "message_number PublishCompletionAck = 26"
| "message_number QueryState = 27"
| "message_number QueryStateAck = 28"
| "message_number Fence = 29"
| "message_number FenceAck = 30"
| "message_number Heartbeat = 31"
| "message_number HeartbeatAck = 32"
| "message_number Error = 33"
| "message_number Goodbye = 34"
| "message_number ReconcileReport = 35"
| "message_number RequestStateTransform = 36"
| "message_number RequestMigrationDispatch = 37"
| "message_number RequestRollbackDispatch = 38"
| "message_number RequestSupersede = 39"
| "message_number RequestFeatureEnable = 40"
| "message_number RequestPlanRebind = 41"
| "message_number RequestLifecycle = 42"

definition kMaxMessageType :: nat where "kMaxMessageType = 42"

definition kMessageNames :: "string list" where
  "kMessageNames = [
     ''INVALID'', ''HELLO'', ''HELLO_ACK'', ''REGISTER_COMPONENT'', ''REGISTER_COMPONENT_ACK'',
     ''PUBLISH_CAPABILITY'', ''PUBLISH_CAPABILITY_ACK'', ''PUBLISH_COMPATIBILITY'',
     ''PUBLISH_COMPATIBILITY_ACK'', ''NEGOTIATE_PROTOCOL'', ''NEGOTIATE_PROTOCOL_ACK'',
     ''PUBLISH_SCHEMA'', ''PUBLISH_SCHEMA_ACK'', ''REQUEST_UPGRADE'', ''REQUEST_UPGRADE_ACK'',
     ''REQUEST_DRAIN'', ''REQUEST_DRAIN_ACK'', ''REQUEST_MIGRATION'', ''REQUEST_MIGRATION_ACK'',
     ''REQUEST_ROLLBACK'', ''REQUEST_ROLLBACK_ACK'', ''REQUEST_RETIREMENT'',
     ''REQUEST_RETIREMENT_ACK'', ''PUBLISH_STAGE'', ''PUBLISH_STAGE_ACK'', ''PUBLISH_COMPLETION'',
     ''PUBLISH_COMPLETION_ACK'', ''QUERY_STATE'', ''QUERY_STATE_ACK'', ''FENCE'', ''FENCE_ACK'',
     ''HEARTBEAT'', ''HEARTBEAT_ACK'', ''ERROR'', ''GOODBYE'', ''RECONCILE_REPORT'',
     ''REQUEST_STATE_TRANSFORM'', ''REQUEST_MIGRATION_DISPATCH'', ''REQUEST_ROLLBACK_DISPATCH'',
     ''REQUEST_SUPERSEDE'', ''REQUEST_FEATURE_ENABLE'', ''REQUEST_PLAN_REBIND'',
     ''REQUEST_LIFECYCLE'']"

definition message_type_to_string :: "MessageType \<Rightarrow> string" where
  "message_type_to_string type = kMessageNames ! message_number type"

definition message_type_raw :: "MessageType \<Rightarrow> u16" where
  "message_type_raw type = of_nat (message_number type)"

text \<open>\<open>static_cast<MessageType>\<close> of a number that has been checked against the range.\<close>

definition message_type_of_raw :: "u16 \<Rightarrow> MessageType" where
  "message_type_of_raw raw = all_message_types ! unat raw"

definition parse_message_type :: "string \<Rightarrow> MessageType option" where
  "parse_message_type text = List.find (\<lambda>t. text = message_type_to_string t) all_message_types"

definition message_introduced_in :: "MessageType \<Rightarrow> gen" where
  "message_introduced_in type =
     (case type of RequestStateTransform \<Rightarrow> 2 | Invalid \<Rightarrow> gen_unset | _ \<Rightarrow> 1)"

definition message_is_mutating :: "MessageType \<Rightarrow> bool" where
  "message_is_mutating type \<longleftrightarrow> type \<in> {
     RegisterComponent, PublishCapability, PublishCompatibility, PublishSchema, RequestUpgrade,
     RequestDrain, RequestMigration, RequestRollback, RequestRetirement, PublishStage,
     PublishCompletion, Fence, RequestStateTransform, RequestMigrationDispatch,
     RequestRollbackDispatch, RequestSupersede, RequestFeatureEnable, RequestPlanRebind,
     RequestLifecycle}"

lemma message_type_complete: "t \<in> set all_message_types"
  by (cases t) (simp_all add: all_message_types_def)

lemma message_number_nth [simp]: "all_message_types ! message_number t = t"
  by (cases t) (simp_all add: all_message_types_def)

lemma message_number_bound: "message_number t \<le> kMaxMessageType"
  by (cases t) (simp_all add: kMaxMessageType_def)

lemma message_number_of_index: "n \<le> kMaxMessageType \<Longrightarrow> message_number (all_message_types ! n) = n"
proof -
  have "\<forall>n\<in>set [0..<43]. message_number (all_message_types ! n) = n"
    by (simp add: all_message_types_def upt_rec)
  then show "n \<le> kMaxMessageType \<Longrightarrow> message_number (all_message_types ! n) = n"
    by (simp add: kMaxMessageType_def)
qed

interpretation message_names: enum_names all_message_types message_type_to_string
proof
  have "map message_type_to_string all_message_types = kMessageNames"
    by (simp add: all_message_types_def message_type_to_string_def kMessageNames_def)
  moreover have "distinct kMessageNames" by (simp add: kMessageNames_def)
  ultimately show "distinct (map message_type_to_string all_message_types)" by simp
qed (rule message_type_complete)

lemma message_type_raw_bound: "unat (message_type_raw t) \<le> kMaxMessageType"
  using message_number_bound [of t] by (simp add: message_type_raw_def unat_of_nat kMaxMessageType_def)

lemma message_type_raw_inverse [simp]: "message_type_of_raw (message_type_raw t) = t"
  using message_number_bound [of t]
  by (simp add: message_type_of_raw_def message_type_raw_def unat_of_nat kMaxMessageType_def)

lemma message_type_raw_of_raw: "unat raw \<le> kMaxMessageType \<Longrightarrow> message_type_raw (message_type_of_raw raw) = raw"
  by (simp add: message_type_of_raw_def message_type_raw_def message_number_of_index)

lemma message_type_raw_zero [simp]: "message_type_raw t = 0 \<longleftrightarrow> t = Invalid"
  by (cases t) (simp_all add: message_type_raw_def)


section \<open>Frames\<close>

definition kWireMagic :: u32 where "kWireMagic = 0x52454631"
definition kWireTransportVersion :: u16 where "kWireTransportVersion = 1"
definition kFrameHeaderBytes :: nat where "kFrameHeaderBytes = 76"
definition kFrameFlagResponse :: u32 where "kFrameFlagResponse = 1"
definition kFrameFlagFatal :: u32 where "kFrameFlagFatal = 2"
definition kFrameFlagOperator :: u32 where "kFrameFlagOperator = 4"
definition kFrameFlagCompletion :: u32 where "kFrameFlagCompletion = 8"

definition kKnownFrameFlags :: u32 where
  "kKnownFrameFlags = kFrameFlagResponse OR kFrameFlagFatal OR kFrameFlagOperator OR kFrameFlagCompletion"

record FrameHeader =
  wh_magic :: u32
  wh_transport_version :: u16
  wh_type :: MessageType
  wh_flags :: u32
  wh_payload_length :: u32
  wh_runtime_generation :: gen
  wh_protocol_generation :: gen
  wh_schema_generation :: gen
  wh_coordinator_epoch :: gen
  wh_evolution_epoch :: gen
  wh_boot :: gen
  wh_sequence :: u64
  wh_crc :: u32

record Frame =
  fr_header :: FrameHeader
  fr_payload :: bytes

definition frame_header_default :: FrameHeader where
  "frame_header_default = \<lparr>wh_magic = kWireMagic, wh_transport_version = kWireTransportVersion, wh_type = Invalid,
     wh_flags = 0, wh_payload_length = 0, wh_runtime_generation = 0, wh_protocol_generation = 0,
     wh_schema_generation = 0, wh_coordinator_epoch = 0, wh_evolution_epoch = 0, wh_boot = 0, wh_sequence = 0,
     wh_crc = 0\<rparr>"

definition frame_default :: Frame where
  "frame_default = \<lparr>fr_header = frame_header_default, fr_payload = []\<rparr>"

definition is_response :: "Frame \<Rightarrow> bool" where
  "is_response f \<longleftrightarrow> wh_flags (fr_header f) AND kFrameFlagResponse \<noteq> 0"

definition is_fatal :: "Frame \<Rightarrow> bool" where
  "is_fatal f \<longleftrightarrow> wh_flags (fr_header f) AND kFrameFlagFatal \<noteq> 0"

text \<open>The header fields before the checksum, as they are written and read.\<close>

type_synonym frame_fields = "u32 \<times> u16 \<times> u16 \<times> u32 \<times> u32 \<times> gen \<times> gen \<times> gen \<times> gen \<times> gen \<times> gen \<times> u64"

definition put_frame_fields :: "frame_fields \<Rightarrow> bytes" where
  "put_frame_fields = (\<lambda>(magic, version, type, flags, len, runtime, protocol, schema, coordinator, evolution, boot, sequence).
     put_u32 magic @ put_u16 version @ put_u16 type @ put_u32 flags @ put_u32 len
     @ put_generation runtime @ put_generation protocol @ put_generation schema @ put_generation coordinator
     @ put_generation evolution @ put_generation boot @ put_u64 sequence)"

definition get_frame_fields :: "ByteReader \<Rightarrow> frame_fields \<times> ByteReader" where
  "get_frame_fields r =
     (let (magic, r) = get_u32 r; (version, r) = get_u16 r; (type, r) = get_u16 r; (flags, r) = get_u32 r;
          (len, r) = get_u32 r; (runtime, r) = get_generation r; (protocol, r) = get_generation r;
          (schema, r) = get_generation r; (coordinator, r) = get_generation r; (evolution, r) = get_generation r;
          (boot, r) = get_generation r; (sequence, r) = get_u64 r
      in ((magic, version, type, flags, len, runtime, protocol, schema, coordinator, evolution, boot, sequence), r))"

definition encode_frame :: "Frame \<Rightarrow> Status \<times> bytes" where
  "encode_frame f =
     (let h = fr_header f in
      if length (fr_payload f) > kFrameBytes
        then (failure LimitExceeded ''frame payload exceeds the frame bound'', [])
      else if wh_type h = Invalid
        then (failure InvalidArgument ''cannot encode a frame with an invalid message type'', [])
      else let header = put_frame_fields (kWireMagic, kWireTransportVersion, message_type_raw (wh_type h), wh_flags h,
                 of_nat (length (fr_payload f)), wh_runtime_generation h, wh_protocol_generation h,
                 wh_schema_generation h, wh_coordinator_epoch h, wh_evolution_epoch h, wh_boot h, wh_sequence h)
        in (status_ok, header @ put_u32 (crc32 (header @ fr_payload f)) @ fr_payload f))"

definition decode_frame :: "bytes \<Rightarrow> nat \<Rightarrow> Status \<times> Frame" where
  "decode_frame bs max_payload =
     (if length bs < kFrameHeaderBytes
        then (failure Truncated ''frame is shorter than the frame header'', frame_default)
      else if length bs > kFrameHeaderBytes + max_payload
        then (failure LimitExceeded ''frame exceeds the maximum frame size'', frame_default)
      else
        let ((magic, version, raw_type, flags, payload_length, runtime, protocol, schema, coordinator, evolution,
              boot, sequence), r) = get_frame_fields (reader bs);
            crc_offset = consumed r;
            (stored_crc, r) = get_u32 r
        in if failed r then (failure Truncated ''frame header is truncated'', frame_default)
           else if magic \<noteq> kWireMagic then (failure Corrupt ''frame magic mismatch'', frame_default)
           else if version \<noteq> kWireTransportVersion
             then (failure ErrorCode.Unsupported ''frame transport version is not supported'', frame_default)
           else if raw_type = 0 \<or> unat raw_type > kMaxMessageType
             then (failure ErrorCode.Unsupported ''frame message type is unknown'', frame_default)
           else if flags AND NOT kKnownFrameFlags \<noteq> 0
             then (failure InvalidArgument ''frame carries unknown flags'', frame_default)
           else if unat payload_length > max_payload
             then (failure LimitExceeded ''frame payload exceeds the maximum frame size'', frame_default)
           else if length (rest r) \<noteq> unat payload_length
             then (failure Truncated ''frame payload length does not match the frame body'', frame_default)
           else if crc32 (take crc_offset bs @ take (unat payload_length) (drop (crc_offset + 4) bs)) \<noteq> stored_crc
             then (failure IntegrityFailure ''frame integrity check failed'', frame_default)
           else (status_ok,
             \<lparr>fr_header = \<lparr>wh_magic = magic, wh_transport_version = version, wh_type = message_type_of_raw raw_type,
                wh_flags = flags, wh_payload_length = payload_length, wh_runtime_generation = runtime,
                wh_protocol_generation = protocol, wh_schema_generation = schema, wh_coordinator_epoch = coordinator,
                wh_evolution_epoch = evolution, wh_boot = boot, wh_sequence = sequence, wh_crc = stored_crc\<rparr>,
              fr_payload = drop kFrameHeaderBytes bs\<rparr>))"

definition validate_frame_envelope :: "Frame \<Rightarrow> nat \<Rightarrow> Status" where
  "validate_frame_envelope f max_payload =
     (let h = fr_header f in
      if wh_magic h \<noteq> kWireMagic then failure Corrupt ''frame magic mismatch''
      else if wh_transport_version h \<noteq> kWireTransportVersion
        then failure ErrorCode.Unsupported ''frame transport version is not supported''
      else if wh_type h = Invalid then failure ErrorCode.Unsupported ''frame message type is unknown''
      else if wh_flags h AND NOT kKnownFrameFlags \<noteq> 0
        then failure InvalidArgument ''frame carries unknown flags''
      else if length (fr_payload f) > max_payload
        then failure LimitExceeded ''frame payload exceeds the maximum frame size''
      else if unat (wh_payload_length h) \<noteq> length (fr_payload f)
        then failure Truncated ''frame payload length does not match the frame body''
      else status_ok)"


section \<open>Field-typed messages\<close>

text \<open>Kinds: 0 is a number, 1 text, 2 a truth value, 3 a digest, 4 a document.\<close>

record WireField =
  wf_name :: ident
  wf_kind :: u8
  wf_number :: u64
  wf_text :: string
  wf_digest :: IntegrityDigest

type_synonym WireMessage = "WireField list"

definition wire_field :: WireField where
  "wire_field = \<lparr>wf_name = [], wf_kind = 0, wf_number = 0, wf_text = [], wf_digest = digest_zero\<rparr>"

definition wm_assign :: "WireMessage \<Rightarrow> WireField \<Rightarrow> Status \<times> WireMessage" where
  "wm_assign msg v =
     (if wf_name v = [] then (failure InvalidArgument ''wire field name is empty'', msg)
      else let position = lower_bound wf_name (wf_name v) msg in
        if position < length msg \<and> wf_name (msg ! position) = wf_name v
          then (status_ok, msg[position := v])
        else if length msg \<ge> kMessageFields
          then (failure LimitExceeded ''wire message field bound reached'', msg)
        else (status_ok, take position msg @ v # drop position msg))"

definition wm_set_u64 :: "WireMessage \<Rightarrow> ident \<Rightarrow> u64 \<Rightarrow> Status \<times> WireMessage" where
  "wm_set_u64 msg name v = wm_assign msg (wire_field\<lparr>wf_name := name, wf_kind := 0, wf_number := v\<rparr>)"

definition wm_set_bool :: "WireMessage \<Rightarrow> ident \<Rightarrow> bool \<Rightarrow> Status \<times> WireMessage" where
  "wm_set_bool msg name v =
     wm_assign msg (wire_field\<lparr>wf_name := name, wf_kind := 2, wf_number := if v then 1 else 0\<rparr>)"

definition wm_set_text :: "WireMessage \<Rightarrow> ident \<Rightarrow> string \<Rightarrow> Status \<times> WireMessage" where
  "wm_set_text msg name v =
     (if length v > kTextBytes then (failure LimitExceeded ''wire text field exceeds the text bound'', msg)
      else if \<not> list_all is_valid_text_char v
        then (failure InvalidArgument ''wire text field contains control characters'', msg)
      else wm_assign msg (wire_field\<lparr>wf_name := name, wf_kind := 1, wf_text := v\<rparr>))"

definition wm_set_document :: "WireMessage \<Rightarrow> ident \<Rightarrow> string \<Rightarrow> Status \<times> WireMessage" where
  "wm_set_document msg name v =
     (if length v > kQueryBytes then (failure LimitExceeded ''wire document field exceeds the document bound'', msg)
      else if \<not> list_all is_valid_text_char v
        then (failure InvalidArgument ''wire document field contains control characters'', msg)
      else wm_assign msg (wire_field\<lparr>wf_name := name, wf_kind := 4, wf_text := v\<rparr>))"

definition wm_set_digest :: "WireMessage \<Rightarrow> ident \<Rightarrow> IntegrityDigest \<Rightarrow> Status \<times> WireMessage" where
  "wm_set_digest msg name v =
     wm_assign msg (wire_field\<lparr>wf_name := name, wf_kind := 3, wf_digest := v\<rparr>)"

definition wm_field :: "WireMessage \<Rightarrow> ident \<Rightarrow> WireField option" where
  "wm_field msg name =
     (let position = lower_bound wf_name name msg in
      if position = length msg \<or> wf_name (msg ! position) \<noteq> name then None else Some (msg ! position))"

definition wm_has :: "WireMessage \<Rightarrow> ident \<Rightarrow> bool" where
  "wm_has msg name \<longleftrightarrow> wm_field msg name \<noteq> None"

definition wm_u64 :: "WireMessage \<Rightarrow> ident \<Rightarrow> u64 option" where
  "wm_u64 msg name =
     (case wm_field msg name of None \<Rightarrow> None
      | Some e \<Rightarrow> if wf_kind e \<noteq> 0 \<and> wf_kind e \<noteq> 2 then None else Some (wf_number e))"

definition wm_boolean :: "WireMessage \<Rightarrow> ident \<Rightarrow> bool option" where
  "wm_boolean msg name =
     (case wm_field msg name of None \<Rightarrow> None
      | Some e \<Rightarrow> if wf_kind e \<noteq> 2 then None else Some (wf_number e \<noteq> 0))"

definition wm_text :: "WireMessage \<Rightarrow> ident \<Rightarrow> string option" where
  "wm_text msg name =
     (case wm_field msg name of None \<Rightarrow> None
      | Some e \<Rightarrow> if wf_kind e \<noteq> 1 \<and> wf_kind e \<noteq> 4 then None else Some (wf_text e))"

definition wm_document :: "WireMessage \<Rightarrow> ident \<Rightarrow> string option" where
  "wm_document msg name =
     (case wm_field msg name of None \<Rightarrow> None
      | Some e \<Rightarrow> if wf_kind e \<noteq> 4 then None else Some (wf_text e))"

definition wm_generation :: "WireMessage \<Rightarrow> ident \<Rightarrow> gen" where
  "wm_generation msg name = (case wm_u64 msg name of Some v \<Rightarrow> v | None \<Rightarrow> gen_unset)"

definition wm_ident :: "nat \<Rightarrow> WireMessage \<Rightarrow> ident \<Rightarrow> ident" where
  "wm_ident cap msg name = (case wm_text msg name of None \<Rightarrow> [] | Some v \<Rightarrow> ident_from_valid cap v)"

definition put_wire_field :: "WireField \<Rightarrow> bytes" where
  "put_wire_field e =
     put_ident 63 (wf_name e) @ put_u8 (wf_kind e) @
     (if wf_kind e = 0 \<or> wf_kind e = 2 then put_u64 (wf_number e)
      else if wf_kind e = 1 then put_text kTextBytes (wf_text e)
      else if wf_kind e = 4 then put_text kQueryBytes (wf_text e)
      else if wf_kind e = 3 then put_digest (wf_digest e)
      else [])"

definition wm_encode :: "WireMessage \<Rightarrow> bytes" where
  "wm_encode msg = put_u32 (of_nat (length msg)) @ concat (map put_wire_field msg)"

definition decode_kind :: "u8 \<Rightarrow> ident \<Rightarrow> ByteReader \<Rightarrow> WireMessage \<Rightarrow> Status \<times> ByteReader \<times> WireMessage" where
  "decode_kind kind name r msg =
     (if kind = 0 then let (v, r) = get_u64 r; (status, msg) = wm_set_u64 msg name v in (status, r, msg)
      else if kind = 2 then
        let (v, r) = get_u64 r in
        if v > 1 then (failure Corrupt ''wire boolean field is not 0 or 1'', r, msg)
        else let (status, msg) = wm_set_bool msg name (v = 1) in (status, r, msg)
      else if kind = 1 then
        let (v, r) = get_bytes kTextBytes r in
        if failed r then (failure Corrupt ''wire text field is truncated'', r, msg)
        else let (status, msg) = wm_set_text msg name (string_of v) in (status, r, msg)
      else if kind = 4 then
        let (v, r) = get_bytes kQueryBytes r in
        if failed r then (failure Corrupt ''wire document field is truncated'', r, msg)
        else let (status, msg) = wm_set_document msg name (string_of v) in (status, r, msg)
      else if kind = 3 then
        let (v, r) = get_digest r; (status, msg) = wm_set_digest msg name v in (status, r, msg)
      else (failure Corrupt ''wire message field kind is unknown'', r, msg))"

definition decode_wire_field :: "ByteReader \<Rightarrow> WireMessage \<Rightarrow> Status \<times> ByteReader \<times> WireMessage" where
  "decode_wire_field r msg =
     (let (name, r) = get_ident 63 r; (kind, r) = get_u8 r in
      if failed r then (failure Corrupt ''wire message field is malformed'', r, msg)
      else if kind > 4 then (failure Corrupt ''wire message field kind is unknown'', r, msg)
      else let (status, r, msg) = decode_kind kind name r msg in
        if is_failure status then (status, r, msg)
        else if failed r then (failure Corrupt ''wire message field is malformed'', r, msg)
        else (status_ok, r, msg))"

definition wm_decode :: "bytes \<Rightarrow> Status \<times> WireMessage" where
  "wm_decode bs =
     (let (count, r) = get_u32 (reader bs) in
      if failed r then (failure Truncated ''wire message header is truncated'', [])
      else if unat count > kMessageFields
        then (failure LimitExceeded ''wire message declares too many fields'', [])
      else let (status, r, msg) = decode_loop decode_wire_field (unat count) r [] in
        if is_failure status then (status, msg)
        else if \<not> at_end r then (failure Corrupt ''wire message has trailing bytes'', msg)
        else (status_ok, msg))"

definition required_field_status :: "WireMessage \<Rightarrow> string \<Rightarrow> Status" where
  "required_field_status msg name =
     (case ident_parse 63 name of
        None \<Rightarrow> failure Internal ''handler declared an invalid field name''
      | Some field \<Rightarrow> if \<not> wm_has msg field
          then failure InvalidArgument (''required field is absent: '' @ name) else status_ok)"

definition require_fields :: "WireMessage \<Rightarrow> string list \<Rightarrow> Status" where
  "require_fields msg names = first_failure (required_field_status msg) names"


section \<open>Frames round-trip and are canonical\<close>

interpretation cc_frame: canonical_codec put_frame_fields get_frame_fields "\<lambda>_. True"
proof -
  note u16 = cc_u16.canonical_codec_axioms and u32 = cc_u32.canonical_codec_axioms
    and u64 = cc_u64.canonical_codec_axioms
  note tuple = canonical_pairI [OF u32 canonical_pairI [OF u16 canonical_pairI [OF u16 canonical_pairI [OF u32
    canonical_pairI [OF u32 canonical_pairI [OF u64 canonical_pairI [OF u64 canonical_pairI [OF u64
    canonical_pairI [OF u64 canonical_pairI [OF u64 canonical_pairI [OF u64 u64]]]]]]]]]]]
  have "canonical_codec put_frame_fields get_frame_fields (\<lambda>t. True \<and> True \<and> True \<and> True \<and> True \<and> True
      \<and> True \<and> True \<and> True \<and> True \<and> True \<and> True)"
    by (rule canonical_isoI [OF tuple, where enc = "\<lambda>x. x" and dec' = "\<lambda>x. x"])
      (auto simp: put_frame_fields_def get_frame_fields_def put_pair_def get_pair_def get_generation_def
         put_generation_def split: prod.splits)
  then show "canonical_codec put_frame_fields get_frame_fields (\<lambda>_. True)" by simp
qed

lemma length_put_frame_fields [simp]: "length (put_frame_fields t) = 72"
  by (simp add: put_frame_fields_def put_generation_def split: prod.splits)

definition frame_of :: "frame_fields \<Rightarrow> u32 \<Rightarrow> bytes \<Rightarrow> Frame" where
  "frame_of = (\<lambda>(magic, version, type, flags, len, runtime, protocol, schema, coordinator, evolution, boot, sequence) crc payload.
     \<lparr>fr_header = \<lparr>wh_magic = magic, wh_transport_version = version, wh_type = message_type_of_raw type,
        wh_flags = flags, wh_payload_length = len, wh_runtime_generation = runtime,
        wh_protocol_generation = protocol, wh_schema_generation = schema, wh_coordinator_epoch = coordinator,
        wh_evolution_epoch = evolution, wh_boot = boot, wh_sequence = sequence, wh_crc = crc\<rparr>,
      fr_payload = payload\<rparr>)"

definition envelope_status :: "frame_fields \<Rightarrow> nat \<Rightarrow> u32 \<Rightarrow> bytes \<Rightarrow> Status" where
  "envelope_status t max_payload crc payload =
     (case t of (magic, version, type, flags, len, _) \<Rightarrow>
        if magic \<noteq> kWireMagic then failure Corrupt ''frame magic mismatch''
        else if version \<noteq> kWireTransportVersion
          then failure ErrorCode.Unsupported ''frame transport version is not supported''
        else if type = 0 \<or> unat type > kMaxMessageType
          then failure ErrorCode.Unsupported ''frame message type is unknown''
        else if flags AND NOT kKnownFrameFlags \<noteq> 0 then failure InvalidArgument ''frame carries unknown flags''
        else if unat len > max_payload
          then failure LimitExceeded ''frame payload exceeds the maximum frame size''
        else if length payload \<noteq> unat len
          then failure Truncated ''frame payload length does not match the frame body''
        else if crc32 (put_frame_fields t @ payload) \<noteq> crc
          then failure IntegrityFailure ''frame integrity check failed''
        else status_ok)"

lemma decode_frame_body:
  assumes "length payload \<le> max_payload"
  shows "decode_frame (put_frame_fields t @ put_u32 crc @ payload) max_payload =
    (let s = envelope_status t max_payload crc payload in
     (s, if is_ok s then frame_of t crc payload else frame_default))"
proof -
  let ?bs = "put_frame_fields t @ put_u32 crc @ payload"
  let ?r = "(reader ?bs)\<lparr>rest := put_u32 crc @ payload, consumed := 72\<rparr>"
  have fields: "get_frame_fields (reader ?bs) = (t, ?r)"
    using cc_frame.get_put [where v = t and r = "reader ?bs" and xs = "put_u32 crc @ payload"]
    by (simp add: reader_def)
  have crc: "get_u32 ?r = (crc, ?r\<lparr>rest := payload, consumed := 76\<rparr>)"
    using c_u32.get_put [where v = crc and r = ?r and xs = payload] by (simp add: reader_def)
  obtain a b c d e f g where t: "t = (a, b, c, d, e, f, g)" by (cases t)
  obtain g1 g2 g3 g4 g5 g6 where g: "g = (g1, g2, g3, g4, g5, g6)" by (cases g)
  show ?thesis
    using assms fields crc unfolding decode_frame_def kFrameHeaderBytes_def
    by (simp add: t g envelope_status_def frame_of_def reader_def Let_def)
qed

lemma decode_frame_canonical:
  assumes dec: "decode_frame bs max_payload = (status_ok, f)"
  shows "\<exists>t crc payload. bs = put_frame_fields t @ put_u32 crc @ payload \<and> length payload \<le> max_payload
    \<and> is_ok (envelope_status t max_payload crc payload) \<and> f = frame_of t crc payload"
proof -
  obtain t r1 where t: "get_frame_fields (reader bs) = (t, r1)" by fastforce
  obtain crc r2 where crc: "get_u32 r1 = (crc, r2)" by fastforce
  have len: "length bs \<le> 76 + max_payload"
    using dec by (auto simp: decode_frame_def kFrameHeaderBytes_def failure_def status_ok_def split: if_splits)
  have live: "\<not> failed r2"
  proof
    assume "failed r2"
    with t crc have "\<not> is_ok (fst (decode_frame bs max_payload))"
      by (cases t) (simp add: decode_frame_def Let_def split: prod.split)
    with dec show False by simp
  qed
  then have "\<not> failed r1" using c_u32.sticky [of r1] crc by auto
  with cc_frame.accepted_prefix [OF t] cc_u32.accepted_prefix [OF crc live]
  have shape: "bs = put_frame_fields t @ put_u32 crc @ rest r2" by (simp add: reader_def)
  with len have "length (rest r2) \<le> max_payload" by simp
  with decode_frame_body [OF this, of t crc] dec shape show ?thesis
    by (intro exI [of _ t] exI [of _ crc] exI [of _ "rest r2"]) (auto simp: Let_def split: if_splits)
qed

lemma encode_frame_shape:
  assumes "encode_frame f = (status_ok, bs)"
  defines "h \<equiv> fr_header f"
  defines "t \<equiv> (kWireMagic, kWireTransportVersion, message_type_raw (wh_type h), wh_flags h,
                 of_nat (length (fr_payload f)), wh_runtime_generation h, wh_protocol_generation h,
                 wh_schema_generation h, wh_coordinator_epoch h, wh_evolution_epoch h, wh_boot h, wh_sequence h) :: frame_fields"
  shows "bs = put_frame_fields t @ put_u32 (crc32 (put_frame_fields t @ fr_payload f)) @ fr_payload f"
    and "length (fr_payload f) \<le> kFrameBytes" and "wh_type h \<noteq> Invalid"
  using assms by (auto simp: encode_frame_def Let_def failure_def status_ok_def split: if_splits)

lemma decode_encoded_frame:
  assumes enc: "encode_frame f = (status_ok, bs)" and flags: "wh_flags (fr_header f) AND NOT kKnownFrameFlags = 0"
    and len: "length (fr_payload f) \<le> max_payload"
  shows "\<exists>crc. decode_frame bs max_payload = (status_ok, f\<lparr>fr_header := (fr_header f)
          \<lparr>wh_magic := kWireMagic, wh_transport_version := kWireTransportVersion,
           wh_payload_length := of_nat (length (fr_payload f)), wh_crc := crc\<rparr>\<rparr>)"
proof -
  define h where "h = fr_header f"
  define t :: frame_fields where "t = (kWireMagic, kWireTransportVersion, message_type_raw (wh_type h), wh_flags h,
    of_nat (length (fr_payload f)), wh_runtime_generation h, wh_protocol_generation h,
    wh_schema_generation h, wh_coordinator_epoch h, wh_evolution_epoch h, wh_boot h, wh_sequence h)"
  define crc where "crc = crc32 (put_frame_fields t @ fr_payload f)"
  have bs: "bs = put_frame_fields t @ put_u32 crc @ fr_payload f" and bound: "length (fr_payload f) \<le> kFrameBytes"
    and type: "wh_type h \<noteq> Invalid"
    using encode_frame_shape [OF enc] by (simp_all add: t_def crc_def h_def)
  from bound have "unat (of_nat (length (fr_payload f)) :: u32) = length (fr_payload f)"
    by (simp add: unat_of_nat kFrameBytes_def)
  moreover have "\<not> kMaxMessageType < unat (message_type_raw (wh_type h))"
    using message_type_raw_bound [of "wh_type h"] by simp
  ultimately have "envelope_status t max_payload crc (fr_payload f) = status_ok"
    using flags len type by (simp add: envelope_status_def t_def crc_def h_def)
  with decode_frame_body [OF len, of t crc] bs show ?thesis
    by (auto simp: Let_def t_def frame_of_def h_def intro!: exI [of _ crc])
qed


section \<open>Messages as finite maps, and their encoding\<close>

definition wf_ok :: "WireField \<Rightarrow> bool" where
  "wf_ok e \<longleftrightarrow> wf_name e \<noteq> [] \<and> ident_ok 63 (wf_name e) \<and>
     (wf_kind e = 0 \<and> wf_text e = [] \<and> wf_digest e = digest_zero
      \<or> wf_kind e = 2 \<and> wf_text e = [] \<and> wf_digest e = digest_zero \<and> wf_number e \<le> 1
      \<or> wf_kind e = 1 \<and> wf_number e = 0 \<and> wf_digest e = digest_zero
         \<and> length (wf_text e) \<le> kTextBytes \<and> list_all is_valid_text_char (wf_text e)
      \<or> wf_kind e = 4 \<and> wf_number e = 0 \<and> wf_digest e = digest_zero
         \<and> length (wf_text e) \<le> kQueryBytes \<and> list_all is_valid_text_char (wf_text e)
      \<or> wf_kind e = 3 \<and> wf_number e = 0 \<and> wf_text e = [])"

definition wm_inv :: "WireMessage \<Rightarrow> bool" where
  "wm_inv msg \<longleftrightarrow> fields_inv wf_name wf_ok msg"

interpretation wm: named_fields wf_name wm_assign wm_field
    "failure InvalidArgument ''wire field name is empty''"
    "failure LimitExceeded ''wire message field bound reached''"
  by unfold_locales (simp_all add: wm_assign_def wm_field_def)

lemma wm_values_ok:
  "n \<noteq> [] \<Longrightarrow> ident_ok 63 n \<Longrightarrow> wf_ok (wire_field\<lparr>wf_name := n, wf_kind := 0, wf_number := x\<rparr>)"
  "n \<noteq> [] \<Longrightarrow> ident_ok 63 n \<Longrightarrow> x \<le> 1 \<Longrightarrow> wf_ok (wire_field\<lparr>wf_name := n, wf_kind := 2, wf_number := x\<rparr>)"
  "n \<noteq> [] \<Longrightarrow> ident_ok 63 n \<Longrightarrow> length t \<le> kTextBytes \<Longrightarrow> list_all is_valid_text_char t \<Longrightarrow>
     wf_ok (wire_field\<lparr>wf_name := n, wf_kind := 1, wf_text := t\<rparr>)"
  "n \<noteq> [] \<Longrightarrow> ident_ok 63 n \<Longrightarrow> length t \<le> kQueryBytes \<Longrightarrow> list_all is_valid_text_char t \<Longrightarrow>
     wf_ok (wire_field\<lparr>wf_name := n, wf_kind := 4, wf_text := t\<rparr>)"
  "n \<noteq> [] \<Longrightarrow> ident_ok 63 n \<Longrightarrow> wf_ok (wire_field\<lparr>wf_name := n, wf_kind := 3, wf_digest := d\<rparr>)"
  by (simp_all add: wf_ok_def wire_field_def)

lemma wm_setters_inv:
  assumes "wm_inv msg" and "n \<noteq> [] \<longrightarrow> ident_ok 63 n"
  shows "wm_inv (snd (wm_set_u64 msg n x))" "wm_inv (snd (wm_set_bool msg n b))" "wm_inv (snd (wm_set_text msg n t))"
    "wm_inv (snd (wm_set_document msg n t))" "wm_inv (snd (wm_set_digest msg n d))"
  unfolding wm_set_u64_def wm_set_bool_def wm_set_text_def wm_set_document_def wm_set_digest_def wm_inv_def
  using assms by (auto simp: wm_inv_def intro!: wm.assign_inv wm_values_ok)

lemma decode_kind_inv:
  assumes "wm_inv msg" and "ident_ok 63 name"
  shows "wm_inv (snd (snd (decode_kind kind name r msg)))"
  using assms wm_setters_inv [OF assms(1), of name]
  by (simp add: decode_kind_def Let_def case_prod_unfold)

lemma decode_wire_field_inv:
  assumes "wm_inv msg"
  shows "wm_inv (snd (snd (decode_wire_field r msg)))"
proof -
  obtain name r1 where name: "get_ident 63 r = (name, r1)" by fastforce
  with get_ident_ok [of 63 r] have "ident_ok 63 name" by simp
  then have "wm_inv (snd (snd (decode_kind kind name r' msg)))" for kind r'
    using assms by (rule decode_kind_inv [rotated])
  with assms show ?thesis by (simp add: decode_wire_field_def name Let_def case_prod_unfold)
qed

lemma wm_decode_inv: "wm_inv (snd (wm_decode bs))"
  using decode_loop_inv [of wm_inv decode_wire_field "[]"] decode_wire_field_inv
  by (simp add: wm_decode_def Let_def case_prod_unfold wm_inv_def)

lemma decode_kind_put:
  assumes v: "wf_ok v" and r: "\<not> failed r" and msg: "om_ok (keyed wf_name (msg @ [v]))" "length msg < kMessageFields"
    and rest: "put_wire_field v = put_ident 63 (wf_name v) @ put_u8 (wf_kind v) @ body" "rest r = body @ xs"
  shows "\<exists>k. decode_kind (wf_kind v) (wf_name v) r msg = (status_ok, r\<lparr>rest := xs, consumed := k\<rparr>, msg @ [v])"
proof -
  from v have ne: "wf_name v \<noteq> []" by (simp add: wf_ok_def)
  have assign: "wm_assign msg v' = (status_ok, msg @ [v])" if "v' = v" for v'
    using that wm.assign_append [OF msg ne] by simp
  from v consider (number) "wf_kind v = 0" "wf_text v = []" "wf_digest v = digest_zero"
    | (boolean) "wf_kind v = 2" "wf_text v = []" "wf_digest v = digest_zero" "wf_number v \<le> 1"
    | (string) "wf_kind v = 1" "wf_number v = 0" "wf_digest v = digest_zero" "length (wf_text v) \<le> kTextBytes"
        "list_all is_valid_text_char (wf_text v)"
    | (document) "wf_kind v = 4" "wf_number v = 0" "wf_digest v = digest_zero" "length (wf_text v) \<le> kQueryBytes"
        "list_all is_valid_text_char (wf_text v)"
    | (digest) "wf_kind v = 3" "wf_number v = 0" "wf_text v = []"
    unfolding wf_ok_def by blast
  then show ?thesis
  proof cases
    case number
    with rest obtain k where "get_u64 r = (wf_number v, r\<lparr>rest := xs, consumed := k\<rparr>)"
      using c_u64.get_put [where v = "wf_number v" and r = r and xs = xs] r by (simp add: put_wire_field_def)
    moreover from number have "wire_field\<lparr>wf_name := wf_name v, wf_kind := 0, wf_number := wf_number v\<rparr> = v"
      by (simp add: wire_field_def)
    ultimately show ?thesis using number assign by (simp add: decode_kind_def wm_set_u64_def) blast
  next
    case boolean
    with rest obtain k where "get_u64 r = (wf_number v, r\<lparr>rest := xs, consumed := k\<rparr>)"
      using c_u64.get_put [where v = "wf_number v" and r = r and xs = xs] r by (simp add: put_wire_field_def)
    moreover have "(if wf_number v = 1 then 1 else 0) = wf_number v"
      using boolean(4) word_unat_eq_iff [of "wf_number v" 1] by (auto simp: word_le_nat_alt le_Suc_eq unat_eq_zero)
    with boolean have "wire_field\<lparr>wf_name := wf_name v, wf_kind := 2,
        wf_number := if wf_number v = 1 then 1 else 0\<rparr> = v" by (simp add: wire_field_def)
    ultimately show ?thesis
      using boolean assign by (simp add: decode_kind_def wm_set_bool_def linorder_not_less [symmetric]) blast
  next
    case string
    with rest obtain k where "get_bytes kTextBytes r = (bytes_of (wf_text v), r\<lparr>rest := xs, consumed := k\<rparr>)"
      using c_blob.get_put [where cap = kTextBytes and v = "bytes_of (wf_text v)" and r = r and xs = xs] r
      by (simp add: put_wire_field_def put_text_def blob_ok_def kTextBytes_def)
    moreover from string have "wire_field\<lparr>wf_name := wf_name v, wf_kind := 1, wf_text := wf_text v\<rparr> = v"
      by (simp add: wire_field_def)
    ultimately show ?thesis using string assign r by (simp add: decode_kind_def wm_set_text_def) blast
  next
    case document
    with rest obtain k where "get_bytes kQueryBytes r = (bytes_of (wf_text v), r\<lparr>rest := xs, consumed := k\<rparr>)"
      using c_blob.get_put [where cap = kQueryBytes and v = "bytes_of (wf_text v)" and r = r and xs = xs] r
      by (simp add: put_wire_field_def put_text_def blob_ok_def kQueryBytes_def)
    moreover from document have "wire_field\<lparr>wf_name := wf_name v, wf_kind := 4, wf_text := wf_text v\<rparr> = v"
      by (simp add: wire_field_def)
    ultimately show ?thesis using document assign r by (simp add: decode_kind_def wm_set_document_def) blast
  next
    case digest
    with rest obtain k where "get_digest r = (wf_digest v, r\<lparr>rest := xs, consumed := k\<rparr>)"
      using c_digest.get_put [where v = "wf_digest v" and r = r and xs = xs] r by (simp add: put_wire_field_def)
    moreover from digest have "wire_field\<lparr>wf_name := wf_name v, wf_kind := 3, wf_digest := wf_digest v\<rparr> = v"
      by (simp add: wire_field_def)
    ultimately show ?thesis using digest assign by (simp add: decode_kind_def wm_set_digest_def) blast
  qed
qed

lemma decode_wire_field_put:
  assumes v: "wf_ok v" and r: "\<not> failed r" and msg: "om_ok (keyed wf_name (msg @ [v]))" "length msg < kMessageFields"
    and rest: "rest r = put_wire_field v @ xs"
  shows "\<exists>k. decode_wire_field r msg = (status_ok, r\<lparr>rest := xs, consumed := k\<rparr>, msg @ [v])"
proof -
  obtain body where body: "put_wire_field v = put_ident 63 (wf_name v) @ put_u8 (wf_kind v) @ body"
    by (auto simp: put_wire_field_def)
  have name: "wf_name v \<noteq> []" "ident_ok 63 (wf_name v)" and kind: "\<not> 4 < wf_kind v"
    using v by (auto simp: wf_ok_def word_less_nat_alt)
  from get_name_kind [OF name(2) r, of "wf_kind v" "body @ xs"] rest body
  obtain r1 k where r1: "get_ident 63 r = (wf_name v, r1)"
    and r2: "get_u8 r1 = (wf_kind v, r\<lparr>rest := body @ xs, consumed := k\<rparr>)" by auto
  obtain k' where "decode_kind (wf_kind v) (wf_name v) (r\<lparr>rest := body @ xs, consumed := k\<rparr>) msg =
      (status_ok, r\<lparr>rest := xs, consumed := k'\<rparr>, msg @ [v])"
    using decode_kind_put [OF v _ msg body, of "r\<lparr>rest := body @ xs, consumed := k\<rparr>" xs] r by auto
  with r1 r2 r kind show ?thesis by (simp add: decode_wire_field_def) blast
qed

interpretation wm: field_codec wf_name wm_assign wm_field
    "failure InvalidArgument ''wire field name is empty''"
    "failure LimitExceeded ''wire message field bound reached''" wf_ok put_wire_field decode_wire_field
  by unfold_locales (rule decode_wire_field_put)

lemma wm_decode_encode:
  assumes "wm_inv msg"
  shows "wm_decode (wm_encode msg) = (status_ok, msg)"
proof -
  obtain r k where "get_u32 (reader (wm_encode msg)) = (of_nat (length msg), r)" "\<not> failed r"
    "unat (of_nat (length msg) :: u32) = length msg" "length msg \<le> kMessageFields"
    "decode_loop decode_wire_field (length msg) r [] = (status_ok, r\<lparr>rest := [], consumed := k\<rparr>, msg)"
    using wm.decode_encoded assms unfolding wm_inv_def wm_encode_def by blast
  then show ?thesis by (simp add: wm_decode_def at_end_def)
qed


section \<open>Properties\<close>

text \<open>
  C28: A frame has exactly one accepted representation: what the encoder writes the decoder returns,
  with magic, version, length and checksum filled in; and every frame the decoder accepts is byte for
  byte what the encoder produces for it and passes the envelope validation, so its magic, version,
  type, flags, length and checksum are right.
\<close>

theorem frame_canonical:
  "(encode_frame f = (status_ok, bs) \<and> wh_flags (fr_header f) AND NOT kKnownFrameFlags = 0
      \<and> length (fr_payload f) \<le> max_payload
    \<longrightarrow> (\<exists>crc. decode_frame bs max_payload = (status_ok, f\<lparr>fr_header := (fr_header f)
          \<lparr>wh_magic := kWireMagic, wh_transport_version := kWireTransportVersion,
           wh_payload_length := of_nat (length (fr_payload f)), wh_crc := crc\<rparr>\<rparr>)))
   \<and> (decode_frame bs max_payload = (status_ok, f) \<and> max_payload \<le> kFrameBytes
    \<longrightarrow> encode_frame f = (status_ok, bs) \<and> is_ok (validate_frame_envelope f max_payload))"
proof (intro conjI impI)
  assume "encode_frame f = (status_ok, bs) \<and> wh_flags (fr_header f) AND NOT kKnownFrameFlags = 0
      \<and> length (fr_payload f) \<le> max_payload"
  then show "\<exists>crc. decode_frame bs max_payload = (status_ok, f\<lparr>fr_header := (fr_header f)
          \<lparr>wh_magic := kWireMagic, wh_transport_version := kWireTransportVersion,
           wh_payload_length := of_nat (length (fr_payload f)), wh_crc := crc\<rparr>\<rparr>)"
    by (intro decode_encoded_frame) simp_all
next
  assume a: "decode_frame bs max_payload = (status_ok, f) \<and> max_payload \<le> kFrameBytes"
  then obtain t crc payload where shape: "bs = put_frame_fields t @ put_u32 crc @ payload"
    "length payload \<le> max_payload" "is_ok (envelope_status t max_payload crc payload)" "f = frame_of t crc payload"
    using decode_frame_canonical by blast
  obtain m v ty fl len g where t: "t = (m, v, ty, fl, len, g)" by (cases t)
  obtain g1 g2 g3 g4 g5 g6 g7 where g: "g = (g1, g2, g3, g4, g5, g6, g7)" by (cases g)
  from shape(3) have ok: "m = kWireMagic" "v = kWireTransportVersion" "ty \<noteq> 0" "unat ty \<le> kMaxMessageType"
    "fl AND NOT kKnownFrameFlags = 0" "length payload = unat len" "crc32 (put_frame_fields t @ payload) = crc"
    by (auto simp: envelope_status_def t g split: if_splits)
  have "of_nat (length payload) = len" using ok(6) by (simp add: word_unat_eq_iff unat_of_nat)
  moreover have "message_type_raw (message_type_of_raw ty) = ty" by (rule message_type_raw_of_raw [OF ok(4)])
  moreover from this ok(3) have "message_type_of_raw ty \<noteq> Invalid" by (metis message_type_raw_zero)
  ultimately show "encode_frame f = (status_ok, bs)" "is_ok (validate_frame_envelope f max_payload)"
    using shape a ok by (simp_all add: t g encode_frame_def frame_of_def validate_frame_envelope_def)
qed

definition sample_frame :: Frame where
  "sample_frame = \<lparr>fr_header = frame_header_default\<lparr>wh_type := Heartbeat, wh_boot := 3\<rparr>, fr_payload = []\<rparr>"

theorem frame_canonical_witness:
  "\<exists>f. decode_frame (snd (encode_frame sample_frame)) 0 = (status_ok, f) \<and> wh_boot (fr_header f) = 3"
proof -
  have "encode_frame sample_frame = (status_ok, snd (encode_frame sample_frame))"
    by (simp add: encode_frame_def sample_frame_def frame_header_default_def Let_def)
  then show ?thesis
    using frame_canonical [of sample_frame "snd (encode_frame sample_frame)" 0]
    by (auto simp: sample_frame_def frame_header_default_def)
qed

text \<open>
  C29: Whatever bytes the message decoder is given, the message it builds has sorted, distinct field
  names, at most 64 fields, and every field well formed for its kind; every such message is recovered
  from its encoding; and setting a field makes exactly that field readable with the value set.
\<close>

theorem wire_message_roundtrip:
  "wm_inv (snd (wm_decode bs))
   \<and> (wm_inv msg \<longrightarrow> wm_decode (wm_encode msg) = (status_ok, msg))
   \<and> (wm_inv msg \<and> is_ok (fst (wm_set_u64 msg n x)) \<longrightarrow> wm_u64 (snd (wm_set_u64 msg n x)) = (wm_u64 msg)(n \<mapsto> x))
   \<and> (wm_inv msg \<and> is_ok (fst (wm_set_text msg n t)) \<longrightarrow> wm_text (snd (wm_set_text msg n t)) = (wm_text msg)(n \<mapsto> t))"
proof -
  have ok: "om_ok (keyed wf_name msg)" if "wm_inv msg" using that by (simp add: wm_inv_def fields_inv_def)
  have u64: "wm_u64 (snd (wm_set_u64 msg n x)) = (wm_u64 msg)(n \<mapsto> x)"
    if "wm_inv msg" "is_ok (fst (wm_set_u64 msg n x))"
    using wm.assign_spec [OF ok [OF that(1)], of "wire_field\<lparr>wf_name := n, wf_kind := 0, wf_number := x\<rparr>"] that(2)
    by (auto simp: wm_u64_def wm_set_u64_def fun_eq_iff wire_field_def)
  have string: "wm_text (snd (wm_set_text msg n t)) = (wm_text msg)(n \<mapsto> t)"
    if "wm_inv msg" "is_ok (fst (wm_set_text msg n t))"
    using wm.assign_spec [OF ok [OF that(1)], of "wire_field\<lparr>wf_name := n, wf_kind := 1, wf_text := t\<rparr>"] that(2)
    by (auto simp: wm_text_def wm_set_text_def fun_eq_iff wire_field_def split: if_splits)
  show ?thesis using wm_decode_inv wm_decode_encode wm_setters_inv(1) u64 string by blast
qed

definition sample_message :: WireMessage where
  "sample_message = [wire_field\<lparr>wf_name := ''boot'', wf_kind := 0, wf_number := 3\<rparr>,
     wire_field\<lparr>wf_name := ''worker'', wf_kind := 1, wf_text := ''w1''\<rparr>]"

theorem wire_message_roundtrip_witness: "wm_decode (wm_encode sample_message) = (status_ok, sample_message)"
proof -
  have "wm_inv sample_message"
    by (simp add: wm_inv_def fields_inv_def sample_message_def om_ok_def wf_ok_def wire_field_def ident_ok_def
        is_valid_ident_char_def is_valid_text_char_def limit_defs less_eq_char_def less_char_def)
  then show ?thesis using wire_message_roundtrip [of "[]" sample_message "[]" 0 "[]"] by simp
qed

end
