(* ===== verification/Ref_Messages.thy ===== *)
theory Ref_Messages
  imports Ref_Load Ref_Wire
begin

text \<open>
  The field contract of the wire messages, the protocol descriptor built from it, and the text form of
  generation sets (\<open>src/wire.cpp\<close>, \<open>include/ref/wire.hpp\<close>).  The contract says which fields a message may
  carry, which it must carry, and whether it changes state; the coordinator publishes it as the
  descriptor of the protocol \<open>ref-wire\<close>.
\<close>

section \<open>The field contract\<close>

record WireMessageSpec =
  ws_type :: MessageType
  ws_mutating :: bool
  ws_operator_only :: bool
  ws_fields :: "string list"
  ws_required :: "string list"

definition wire_message_specs :: "WireMessageSpec list" where
  "wire_message_specs = [
     \<lparr>ws_type = Hello, ws_mutating = False, ws_operator_only = False,
      ws_fields =
        [''component'', ''version'', ''artifact'', ''runtime_generation'', ''worker'', ''boot'',
        ''protocol'', ''supported_protocols'', ''required_minimum'', ''supported_schemas'',
        ''committed_schema'', ''capability_generation'', ''evolution_epoch'',
        ''coordinator_epoch'', ''features'', ''declared_role''],
      ws_required =
        [''component'', ''runtime_generation'', ''worker'', ''boot'', ''protocol'',
        ''supported_protocols'', ''supported_schemas'', ''capability_generation'']\<rparr>,
     \<lparr>ws_type = HelloAck, ws_mutating = False, ws_operator_only = False,
      ws_fields =
        [''status'', ''detail'', ''negotiated_protocol'', ''negotiated_schema'',
        ''operation_class'', ''evolution_epoch'', ''coordinator_epoch'', ''stage_generation'',
        ''gate_generation'', ''matrix_generation'', ''new_writer_enabled'',
        ''authoritative_generation'', ''features'', ''explanation'', ''registered'',
        ''rollout_stage''],
      ws_required =
        [''status'', ''operation_class'']\<rparr>,
     \<lparr>ws_type = RegisterComponent, ws_mutating = True, ws_operator_only = False,
      ws_fields =
        [''component'', ''version'', ''artifact'', ''runtime_generation'', ''supported_protocols'',
        ''readable_protocols'', ''writable_protocols'', ''min_safety_protocol'',
        ''supported_schemas'', ''readable_schemas'', ''writable_schemas'', ''readable_formats'',
        ''writable_formats'', ''capability_generation'', ''lifecycle'', ''provenance'',
        ''features'', ''migrations''],
      ws_required =
        [''component'', ''runtime_generation'', ''supported_protocols'', ''supported_schemas'']\<rparr>,
     \<lparr>ws_type = RegisterComponentAck, ws_mutating = False, ws_operator_only = False,
      ws_fields =
        [''status'', ''detail''],
      ws_required =
        [''status'']\<rparr>,
     \<lparr>ws_type = PublishCapability, ws_mutating = True, ws_operator_only = False,
      ws_fields =
        [''component'', ''runtime_generation'', ''capability_generation'', ''features''],
      ws_required =
        [''component'', ''runtime_generation'', ''capability_generation'']\<rparr>,
     \<lparr>ws_type = PublishCapabilityAck, ws_mutating = False, ws_operator_only = False,
      ws_fields =
        [''status'', ''detail''],
      ws_required =
        [''status'']\<rparr>,
     \<lparr>ws_type = PublishCompatibility, ws_mutating = True, ws_operator_only = True,
      ws_fields =
        [''from_generation'', ''to_generation'', ''permissions'', ''requires_feature_gate'',
        ''gate'', ''gate_generation'', ''requires_protocol_downgrade'', ''downgrade_to'',
        ''requires_state_translation'', ''migration'', ''migration_generation'', ''provenance'',
        ''aspect_binary_api'', ''aspect_abi'', ''aspect_wire_protocol'', ''aspect_protocol_read'',
        ''aspect_protocol_write'', ''aspect_schema_read'', ''aspect_schema_write'',
        ''aspect_state_migration'', ''aspect_peer_version'', ''aspect_feature_gate'',
        ''aspect_persistence_format'', ''aspect_snapshot'', ''aspect_rollback'',
        ''aspect_capability''],
      ws_required =
        [''from_generation'', ''to_generation'', ''permissions'', ''provenance'']\<rparr>,
     \<lparr>ws_type = PublishCompatibilityAck, ws_mutating = False, ws_operator_only = False,
      ws_fields =
        [''status'', ''detail''],
      ws_required =
        [''status'']\<rparr>,
     \<lparr>ws_type = NegotiateProtocol, ws_mutating = False, ws_operator_only = False,
      ws_fields =
        [''protocol'', ''supported_protocols'', ''required_minimum'', ''preferred''],
      ws_required =
        [''protocol'', ''supported_protocols'']\<rparr>,
     \<lparr>ws_type = NegotiateProtocolAck, ws_mutating = False, ws_operator_only = False,
      ws_fields =
        [''status'', ''detail'', ''negotiated_protocol'', ''operation_class'', ''explanation'',
        ''downgraded''],
      ws_required =
        [''status'']\<rparr>,
     \<lparr>ws_type = PublishSchema, ws_mutating = True, ws_operator_only = True,
      ws_fields =
        [''schema'', ''generation'', ''readable_min'', ''readable_max'', ''writable_min'',
        ''writable_max'', ''reverse_migration_to'', ''canonicalization'', ''integrity'',
        ''provenance'', ''fields''],
      ws_required =
        [''schema'', ''generation'', ''provenance'']\<rparr>,
     \<lparr>ws_type = PublishSchemaAck, ws_mutating = False, ws_operator_only = False,
      ws_fields =
        [''status'', ''detail''],
      ws_required =
        [''status'']\<rparr>,
     \<lparr>ws_type = RequestUpgrade, ws_mutating = True, ws_operator_only = True,
      ws_fields =
        [''plan'', ''component'', ''candidate_generation'', ''policy_require_canary'',
        ''policy_require_mixed_version'', ''policy_require_migration_barrier'',
        ''policy_require_new_writer_barrier'', ''policy_require_old_writer_drain'', ''cohorts'',
        ''canary_cohort'', ''migration'', ''migration_generation'', ''migration_source'',
        ''migration_target''],
      ws_required =
        [''component'', ''candidate_generation'']\<rparr>,
     \<lparr>ws_type = RequestUpgradeAck, ws_mutating = False, ws_operator_only = False,
      ws_fields =
        [''status'', ''detail'', ''plan'', ''stage''],
      ws_required =
        [''status'']\<rparr>,
     \<lparr>ws_type = RequestDrain, ws_mutating = True, ws_operator_only = False,
      ws_fields =
        [''component'', ''runtime_generation'', ''plan'', ''stage_generation''],
      ws_required =
        [''component'', ''runtime_generation'']\<rparr>,
     \<lparr>ws_type = RequestDrainAck, ws_mutating = False, ws_operator_only = False,
      ws_fields =
        [''status'', ''detail'', ''live_processes'', ''active_workers''],
      ws_required =
        [''status'']\<rparr>,
     \<lparr>ws_type = RequestMigration, ws_mutating = True, ws_operator_only = False,
      ws_fields =
        [''plan'', ''worker'', ''boot'', ''migration'', ''migration_generation'', ''source'',
        ''target'', ''action_id'', ''irreversible''],
      ws_required =
        [''plan'', ''worker'', ''boot'', ''source'', ''target'']\<rparr>,
     \<lparr>ws_type = RequestMigrationAck, ws_mutating = False, ws_operator_only = False,
      ws_fields =
        [''status'', ''detail'', ''migration_outcome''],
      ws_required =
        [''status'']\<rparr>,
     \<lparr>ws_type = RequestRollback, ws_mutating = True, ws_operator_only = False,
      ws_fields =
        [''plan'', ''target_schema'', ''worker'', ''boot'', ''rollback_id''],
      ws_required =
        [''plan'']\<rparr>,
     \<lparr>ws_type = RequestRollbackAck, ws_mutating = False, ws_operator_only = False,
      ws_fields =
        [''status'', ''detail''],
      ws_required =
        [''status'']\<rparr>,
     \<lparr>ws_type = RequestRetirement, ws_mutating = True, ws_operator_only = True,
      ws_fields =
        [''component'', ''runtime_generation'', ''checkpoints_retained''],
      ws_required =
        [''component'', ''runtime_generation'']\<rparr>,
     \<lparr>ws_type = RequestRetirementAck, ws_mutating = False, ws_operator_only = False,
      ws_fields =
        [''status'', ''detail''],
      ws_required =
        [''status'']\<rparr>,
     \<lparr>ws_type = PublishStage, ws_mutating = True, ws_operator_only = True,
      ws_fields =
        [''plan'', ''stage'', ''stage_generation'', ''stage_id'', ''note''],
      ws_required =
        [''plan'', ''stage'', ''stage_generation'']\<rparr>,
     \<lparr>ws_type = PublishStageAck, ws_mutating = False, ws_operator_only = False,
      ws_fields =
        [''status'', ''detail'', ''stage''],
      ws_required =
        [''status'']\<rparr>,
     \<lparr>ws_type = PublishCompletion, ws_mutating = True, ws_operator_only = False,
      ws_fields =
        [''plan'', ''stage_id'', ''stage_generation'', ''migration_outcome'', ''state_digest'',
        ''worker'', ''boot'', ''drain'', ''detail''],
      ws_required =
        [''plan'', ''stage_id'', ''stage_generation'']\<rparr>,
     \<lparr>ws_type = PublishCompletionAck, ws_mutating = False, ws_operator_only = False,
      ws_fields =
        [''status'', ''detail''],
      ws_required =
        [''status'']\<rparr>,
     \<lparr>ws_type = QueryState, ws_mutating = False, ws_operator_only = False,
      ws_fields =
        [''component'', ''query''],
      ws_required =
        [''query'']\<rparr>,
     \<lparr>ws_type = QueryStateAck, ws_mutating = False, ws_operator_only = False,
      ws_fields =
        [''status'', ''detail'', ''json''],
      ws_required =
        [''status'']\<rparr>,
     \<lparr>ws_type = Fence, ws_mutating = True, ws_operator_only = True,
      ws_fields =
        [''worker'', ''boot'', ''reason'', ''component'', ''runtime_generation''],
      ws_required =
        [''worker'', ''boot'', ''reason'']\<rparr>,
     \<lparr>ws_type = FenceAck, ws_mutating = False, ws_operator_only = False,
      ws_fields =
        [''status'', ''detail''],
      ws_required =
        [''status'']\<rparr>,
     \<lparr>ws_type = Heartbeat, ws_mutating = False, ws_operator_only = False,
      ws_fields =
        [''worker'', ''boot'', ''capability_generation'', ''committed_schema''],
      ws_required =
        [''worker'', ''boot'']\<rparr>,
     \<lparr>ws_type = HeartbeatAck, ws_mutating = False, ws_operator_only = False,
      ws_fields =
        [''status'', ''detail'', ''coordinator_epoch'', ''evolution_epoch'', ''operation_class'',
        ''negotiated_protocol'', ''negotiated_schema''],
      ws_required =
        [''status'']\<rparr>,
     \<lparr>ws_type = Error, ws_mutating = False, ws_operator_only = False,
      ws_fields =
        [''status'', ''detail''],
      ws_required =
        [''status'']\<rparr>,
     \<lparr>ws_type = Goodbye, ws_mutating = False, ws_operator_only = False,
      ws_fields =
        [''worker'', ''boot''],
      ws_required =
        []\<rparr>,
     \<lparr>ws_type = ReconcileReport, ws_mutating = False, ws_operator_only = False,
      ws_fields =
        [''component'', ''json'', ''plan'', ''migration_outcome'', ''state_digest'', ''boot'',
        ''state_generation''],
      ws_required =
        [''json'']\<rparr>,
     \<lparr>ws_type = RequestStateTransform, ws_mutating = True, ws_operator_only = False,
      ws_fields =
        [''plan'', ''target_schema'', ''worker'', ''boot'', ''feature''],
      ws_required =
        [''plan'', ''target_schema'', ''worker'', ''boot'']\<rparr>,
     \<lparr>ws_type = RequestMigrationDispatch, ws_mutating = True, ws_operator_only = True,
      ws_fields =
        [''plan''],
      ws_required =
        [''plan'']\<rparr>,
     \<lparr>ws_type = RequestRollbackDispatch, ws_mutating = True, ws_operator_only = True,
      ws_fields =
        [''plan''],
      ws_required =
        [''plan'']\<rparr>,
     \<lparr>ws_type = RequestSupersede, ws_mutating = True, ws_operator_only = True,
      ws_fields =
        [''plan''],
      ws_required =
        [''plan'']\<rparr>,
     \<lparr>ws_type = RequestFeatureEnable, ws_mutating = True, ws_operator_only = True,
      ws_fields =
        [''plan'', ''feature''],
      ws_required =
        [''plan'', ''feature'']\<rparr>,
     \<lparr>ws_type = RequestPlanRebind, ws_mutating = True, ws_operator_only = True,
      ws_fields =
        [''plan'', ''plan_generation''],
      ws_required =
        [''plan'']\<rparr>,
     \<lparr>ws_type = RequestLifecycle, ws_mutating = True, ws_operator_only = True,
      ws_fields =
        [''component'', ''runtime_generation'', ''lifecycle''],
      ws_required =
        [''component'', ''runtime_generation'', ''lifecycle'']\<rparr>]"

definition wire_message_spec :: "MessageType \<Rightarrow> WireMessageSpec option" where
  "wire_message_spec type = List.find (\<lambda>spec. ws_type spec = type) wire_message_specs"

definition wire_field_descriptor :: "WireMessageSpec \<Rightarrow> string \<Rightarrow> FieldDescriptor" where
  "wire_field_descriptor spec field = \<lparr>fd_id = ident_from_valid 63 field, fd_introduced_in = message_introduced_in (ws_type spec),
     fd_required = list_ex (\<lambda>required. required = field) (ws_required spec)\<rparr>"

definition wire_message_descriptor :: "WireMessageSpec \<Rightarrow> MessageTypeDescriptor" where
  "wire_message_descriptor spec = \<lparr>md_id = ident_from_valid 63 (message_type_to_string (ws_type spec)),
     md_introduced_in = message_introduced_in (ws_type spec), md_mutating = ws_mutating spec,
     md_state_replacing = False, md_fields = map (wire_field_descriptor spec) (ws_fields spec)\<rparr>"

definition build_wire_protocol :: "gen \<Rightarrow> ProtocolDescriptor" where
  "build_wire_protocol generation = \<lparr>pd_id = ident_from_valid 63 ''ref-wire'', pd_generation = generation,
     pd_minimum_safety_generation = 1,
     pd_messages = map wire_message_descriptor
       (filter (\<lambda>spec. \<not> message_introduced_in (ws_type spec) > generation) wire_message_specs),
     pd_unknown_fields = UnknownFieldPolicy.Reject, pd_unknown_messages = UnknownMessagePolicy.Reject,
     pd_provenance = Real, pd_evidence = gen_first,
     pd_notes = text_from_valid 96 (if generation = 1 then ''baseline wire protocol''
       else ''wire protocol with state transformation messages'')\<rparr>"


section \<open>Generation sets as text\<close>

definition encode_generation_set :: "gen_set \<Rightarrow> string" where
  "encode_generation_set s = foldl (\<lambda>out g. (if out \<noteq> [] then out @ '','' else out) @ dec_u64 g) [] s"

lemma tl_dropWhile_shorter: "t \<noteq> [] \<Longrightarrow> length (tl (dropWhile P t)) < length t"
  by (cases t) (auto simp: less_Suc_eq_le intro: le_trans [OF diff_le_self length_dropWhile_le])

function decode_generation_set :: "string \<Rightarrow> gen_set \<Rightarrow> Status \<times> gen_set" where
  "decode_generation_set text out =
     (if text = [] then (status_ok, out)
      else let token = takeWhile (\<lambda>c. c \<noteq> CHR '','') text; after = dropWhile (\<lambda>c. c \<noteq> CHR '','') text;
               continue = (\<lambda>out. if after = [] then (status_ok, out) else decode_generation_set (tl after) out)
        in if token = [] then continue out
           else case parse_u64 token of
               None \<Rightarrow> (failure InvalidArgument ''generation set entry is not a number'', out)
             | Some raw \<Rightarrow>
                 let (added, out') = gs_add out raw in
                 if \<not> added then (failure LimitExceeded ''generation set exceeds its bound'', out')
                 else continue out')"
  by pat_completeness auto
termination
  by (relation "measure (\<lambda>(t, out). length t)") (simp_all add: tl_dropWhile_shorter del: length_tl)

declare decode_generation_set.simps [simp del]


section \<open>What is shown\<close>

definition spec_consistent :: "WireMessageSpec \<Rightarrow> bool" where
  "spec_consistent spec \<longleftrightarrow> ws_mutating spec = message_is_mutating (ws_type spec)
     \<and> (ws_operator_only spec \<longrightarrow> ws_mutating spec) \<and> distinct (ws_fields spec)
     \<and> list_all (\<lambda>f. f \<in> set (ws_fields spec)) (ws_required spec)"

lemma specs_consistent: "list_all spec_consistent wire_message_specs"
  by code_simp

lemma specs_complete: "map ws_type wire_message_specs = tl all_message_types"
  by code_simp

lemma wire_1_valid: "pd_validate (build_wire_protocol 1) = status_ok"
  by code_simp

lemma wire_2_valid: "pd_validate (build_wire_protocol 2) = status_ok"
  by code_simp


definition comma_tail :: "gen_set \<Rightarrow> string" where
  "comma_tail s = concat (map (\<lambda>g. '','' @ dec_u64 g) s)"

lemma comma_tail_simps [simp]:
  "comma_tail [] = []" "comma_tail (g # gs) = CHR '','' # dec_u64 g @ comma_tail gs"
  by (simp_all add: comma_tail_def)

lemma encode_tail:
  "out \<noteq> [] \<Longrightarrow> foldl (\<lambda>out g. (if out \<noteq> [] then out @ '','' else out) @ dec_u64 g) out s = out @ comma_tail s"
  by (induction s arbitrary: out) simp_all

lemma dec_u64_nonempty [simp]: "dec_u64 g \<noteq> []"
  by (simp add: dec_u64_def)

lemma encode_generation_set_simps:
  "encode_generation_set [] = []" "encode_generation_set (g # gs) = dec_u64 g @ comma_tail gs"
  by (simp_all add: encode_generation_set_def encode_tail)

lemma dec_u64_no_comma: "c \<in> set (dec_u64 g) \<Longrightarrow> c \<noteq> CHR '',''"
  using dec_digits [of c "unat g"] of_char_digit_char
  by (auto simp: dec_u64_def dest!: arg_cong [where f = "of_char :: char \<Rightarrow> nat"])

lemma token_split:
  "takeWhile (\<lambda>c. c \<noteq> CHR '','') (dec_u64 g @ comma_tail gs) = dec_u64 g"
  "dropWhile (\<lambda>c. c \<noteq> CHR '','') (dec_u64 g @ comma_tail gs) = comma_tail gs"
  using dec_u64_no_comma
  by (cases gs; fastforce simp: takeWhile_append dropWhile_append takeWhile_eq_all_conv dropWhile_eq_Nil_conv)+

lemma token_last:
  "takeWhile (\<lambda>c. c \<noteq> CHR '','') (dec_u64 g) = dec_u64 g" "dropWhile (\<lambda>c. c \<noteq> CHR '','') (dec_u64 g) = []"
  using token_split [of g "[]"] by simp_all

lemma gs_add_above:
  assumes "list_all (\<lambda>x. x < g) out" "g \<noteq> 0" "length out < kMaxGenerationsPerSet"
  shows "gs_add out g = (True, out @ [g])"
proof -
  have "gs_scan out g = length out" using assms(1) by (induction out) auto
  then show ?thesis using assms by (simp add: gs_add_def gen_is_set_def)
qed

lemma decode_encoded_tail:
  assumes "gs_inv (out @ g # gs)" "list_all (\<lambda>x. x \<le> kGenerationCeiling) (g # gs)"
  shows "decode_generation_set (dec_u64 g @ comma_tail gs) out = (status_ok, out @ g # gs)"
  using assms
proof (induction gs arbitrary: out g)
  case (Cons h gs)
  have "gs_add out g = (True, out @ [g])"
    using Cons.prems(1) by (intro gs_add_above) (auto simp: gs_inv_def sorted_wrt_append list_all_iff)
  moreover have "decode_generation_set (dec_u64 h @ comma_tail gs) (out @ [g]) = (status_ok, (out @ [g]) @ h # gs)"
    using Cons.prems by (intro Cons.IH) simp_all
  ultimately show ?case
    using Cons.prems(2) token_split [of g "h # gs"]
    by (subst decode_generation_set.simps) (simp add: parse_u64_roundtrip Let_def)
next
  case Nil
  then have "gs_add out g = (True, out @ [g])"
    by (intro gs_add_above) (auto simp: gs_inv_def sorted_wrt_append list_all_iff)
  with Nil.prems(2) show ?case
    by (subst decode_generation_set.simps) (simp add: token_last parse_u64_roundtrip Let_def)
qed

text \<open>
  Every valid generation set of legal generations is recovered by \<open>decode_generation_set\<close> from the comma
  separated text that \<open>encode_generation_set\<close> writes for it.
\<close>

theorem generation_set_text_roundtrip:
  assumes "gs_inv s" and "list_all (\<lambda>g. g \<le> kGenerationCeiling) s"
  shows "decode_generation_set (encode_generation_set s) [] = (status_ok, s)"
proof (cases s)
  case Nil
  then show ?thesis by (simp add: encode_generation_set_simps decode_generation_set.simps)
next
  case (Cons g gs)
  then show ?thesis using decode_encoded_tail [of "[]" g gs] assms by (simp add: encode_generation_set_simps)
qed

theorem generation_set_text_roundtrip_witness:
  "gs_inv [1, 2, 40] \<and> decode_generation_set (encode_generation_set [1, 2, 40]) [] = (status_ok, [1, 2, 40])"
  using generation_set_text_roundtrip [of "[1, 2, 40]"]
  by (simp add: gs_inv_def kMaxGenerationsPerSet_def kGenerationCeiling_val)

text \<open>
  The field contract covers every message type but \<open>Invalid\<close> exactly once, agrees with
  \<open>message_is_mutating\<close>, lets only operators send operator messages that change state, names no field
  twice and requires only fields it allows; and the descriptors built from it for both protocol
  generations pass the validation of the protocol registry.
\<close>

theorem wire_contract_consistent:
  "map ws_type wire_message_specs = tl all_message_types \<and> list_all spec_consistent wire_message_specs
   \<and> pd_validate (build_wire_protocol 1) = status_ok \<and> pd_validate (build_wire_protocol 2) = status_ok"
  by (intro conjI specs_complete specs_consistent wire_1_valid wire_2_valid)

end
