(* ===== verification/Ref_Json.thy ===== *)
theory Ref_Json
  imports Ref_Support
begin

text \<open>
  The JSON writer (\<open>JsonWriter\<close> and \<open>json_escape\<close> in \<open>src/support.cpp\<close>): an output string, a stack of open
  containers with a flag for the first element of each, and a flag for a key that waits for its value.
  \<open>write_json\<close> issues the calls for a document the way the callers nest them.  The main result is that the
  writer, called in this way, produces exactly the text of a recursive reference rendering, with the
  commas in the right places, and ends balanced and well formed.
\<close>

section \<open>The writer\<close>

datatype container = JsonObject | JsonArray

record JsonWriter =
  jw_out :: string
  jw_stack :: "container list"
  jw_first :: "bool list"
  jw_pending_key :: bool
  jw_well_formed :: bool
  jw_pretty :: bool
  jw_depth :: nat

definition json_writer :: "bool \<Rightarrow> JsonWriter" where
  "json_writer pretty = \<lparr>jw_out = [], jw_stack = [], jw_first = [], jw_pending_key = False,
     jw_well_formed = True, jw_pretty = pretty, jw_depth = 0\<rparr>"

definition jw_append :: "string \<Rightarrow> JsonWriter \<Rightarrow> JsonWriter" where
  "jw_append s w = w\<lparr>jw_out := jw_out w @ s\<rparr>"

definition jw_indent :: "JsonWriter \<Rightarrow> JsonWriter" where
  "jw_indent w = (if \<not> jw_pretty w then w else jw_append (concat (replicate (jw_depth w) ''  '')) w)"

definition jw_newline :: "JsonWriter \<Rightarrow> JsonWriter" where
  "jw_newline w = jw_indent (if jw_pretty w then jw_append [CHR 0x0A] w else w)"

text \<open>The stack and the flags have their last element, the innermost container, in front.\<close>

definition jw_separate :: "JsonWriter \<Rightarrow> JsonWriter" where
  "jw_separate w =
     (case (jw_stack w, jw_first w) of
        (inner # _, first # outer) \<Rightarrow>
          if jw_pending_key w then w\<lparr>jw_pending_key := False\<rparr>
          else let w = (if \<not> first then jw_append '','' w else w)\<lparr>jw_first := False # outer\<rparr>
            in if inner = JsonObject then jw_newline w else w
      | _ \<Rightarrow> w)"

definition jw_open :: "container \<Rightarrow> string \<Rightarrow> JsonWriter \<Rightarrow> JsonWriter" where
  "jw_open kind bracket w =
     (let w = jw_append bracket (jw_separate w)
      in w\<lparr>jw_stack := kind # jw_stack w, jw_first := True # jw_first w, jw_depth := jw_depth w + 1\<rparr>)"

definition jw_close :: "container \<Rightarrow> string \<Rightarrow> JsonWriter \<Rightarrow> JsonWriter" where
  "jw_close kind bracket w =
     (case jw_stack w of
        inner # outer \<Rightarrow>
          if inner \<noteq> kind then w\<lparr>jw_well_formed := False\<rparr>
          else let was_empty = hd (jw_first w);
                   w = w\<lparr>jw_stack := outer, jw_first := tl (jw_first w), jw_depth := jw_depth w - 1\<rparr>
            in jw_append bracket (if \<not> was_empty then jw_newline w else w)
      | [] \<Rightarrow> w\<lparr>jw_well_formed := False\<rparr>)"

definition begin_object :: "JsonWriter \<Rightarrow> JsonWriter" where "begin_object = jw_open JsonObject ''{''"
definition end_object :: "JsonWriter \<Rightarrow> JsonWriter" where "end_object = jw_close JsonObject ''}''"
definition begin_array :: "JsonWriter \<Rightarrow> JsonWriter" where "begin_array = jw_open JsonArray ''[''"
definition end_array :: "JsonWriter \<Rightarrow> JsonWriter" where "end_array = jw_close JsonArray '']''"

definition json_escape_char :: "char \<Rightarrow> string" where
  "json_escape_char c =
     (let byte = of_char c :: nat in
      if byte = 0x22 then [CHR 0x5C, CHR 0x22] else if byte = 0x5C then [CHR 0x5C, CHR 0x5C]
      else if byte = 8 then CHR 0x5C # ''b'' else if byte = 12 then CHR 0x5C # ''f''
      else if byte = 10 then CHR 0x5C # ''n'' else if byte = 13 then CHR 0x5C # ''r''
      else if byte = 9 then CHR 0x5C # ''t''
      else if byte < 0x20 then CHR 0x5C # ''u00'' @ [hex_char (byte div 16), hex_char (byte mod 16)]
      else [c])"

definition json_escape :: "string \<Rightarrow> string" where
  "json_escape s = CHR 0x22 # concat (map json_escape_char s) @ [CHR 0x22]"

definition jw_key :: "string \<Rightarrow> JsonWriter \<Rightarrow> JsonWriter" where
  "jw_key nm w = (jw_append ('': '') (jw_append (json_escape nm) (jw_separate w)))\<lparr>jw_pending_key := True\<rparr>"

definition jw_value :: "string \<Rightarrow> JsonWriter \<Rightarrow> JsonWriter" where
  "jw_value s w = jw_append s (jw_separate w)"

definition jw_string :: "string \<Rightarrow> JsonWriter \<Rightarrow> JsonWriter" where "jw_string s = jw_value (json_escape s)"
definition jw_number :: "u64 \<Rightarrow> JsonWriter \<Rightarrow> JsonWriter" where "jw_number n = jw_value (dec_u64 n)"
definition jw_boolean :: "bool \<Rightarrow> JsonWriter \<Rightarrow> JsonWriter" where
  "jw_boolean b = jw_value (if b then ''true'' else ''false'')"
definition jw_null :: "JsonWriter \<Rightarrow> JsonWriter" where "jw_null = jw_value ''null''"

text \<open>\<open>close_all\<close>: every turn of the loop removes the innermost container.\<close>

function close_all :: "JsonWriter \<Rightarrow> JsonWriter" where
  "close_all w =
     (case jw_stack w of [] \<Rightarrow> w
      | JsonObject # _ \<Rightarrow> close_all (end_object w)
      | JsonArray # _ \<Rightarrow> close_all (end_array w))"
  by auto
termination
  by (relation "measure (\<lambda>w. length (jw_stack w))")
    (auto simp: end_object_def end_array_def jw_close_def jw_newline_def jw_indent_def jw_append_def Let_def)

declare close_all.simps [simp del]


section \<open>Documents\<close>

datatype Json = JString string | JNumber u64 | JBool bool | JNull | JList "Json list" | JObject "(string \<times> Json) list"

text \<open>The calls for a document: a field is a key followed by its value.\<close>

fun write_json :: "Json \<Rightarrow> JsonWriter \<Rightarrow> JsonWriter"
  and write_items :: "Json list \<Rightarrow> JsonWriter \<Rightarrow> JsonWriter"
  and write_fields :: "(string \<times> Json) list \<Rightarrow> JsonWriter \<Rightarrow> JsonWriter" where
  "write_json (JString s) w = jw_string s w"
| "write_json (JNumber n) w = jw_number n w"
| "write_json (JBool b) w = jw_boolean b w"
| "write_json JNull w = jw_null w"
| "write_json (JList xs) w = end_array (write_items xs (begin_array w))"
| "write_json (JObject fs) w = end_object (write_fields fs (begin_object w))"
| "write_items [] w = w"
| "write_items (x # xs) w = write_items xs (write_json x w)"
| "write_fields [] w = w"
| "write_fields ((k, x) # fs) w = write_fields fs (write_json x (jw_key k w))"

definition json_text :: "Json \<Rightarrow> string" where
  "json_text j = jw_out (write_json j (json_writer False))"

text \<open>The reference: a recursive rendering with commas between the elements.\<close>

fun commas :: "string list \<Rightarrow> string" where
  "commas [] = []"
| "commas [s] = s"
| "commas (s # ss) = s @ '','' @ commas ss"

fun render :: "Json \<Rightarrow> string" and render_all :: "Json list \<Rightarrow> string list"
  and render_fields :: "(string \<times> Json) list \<Rightarrow> string list" where
  "render (JString s) = json_escape s"
| "render (JNumber n) = dec_u64 n"
| "render (JBool b) = (if b then ''true'' else ''false'')"
| "render JNull = ''null''"
| "render (JList xs) = ''['' @ commas (render_all xs) @ '']''"
| "render (JObject fs) = ''{'' @ commas (render_fields fs) @ ''}''"
| "render_all [] = []"
| "render_all (x # xs) = render x # render_all xs"
| "render_fields [] = []"
| "render_fields ((k, x) # fs) = (json_escape k @ '': '' @ render x) # render_fields fs"


section \<open>The writer renders documents\<close>

text \<open>What \<open>separate\<close> puts in front of the next value, and the flags it leaves.\<close>

definition sep :: "JsonWriter \<Rightarrow> string" where
  "sep w = (if jw_stack w \<noteq> [] \<and> \<not> jw_pending_key w \<and> \<not> hd (jw_first w) then '','' else [])"

definition balanced :: "JsonWriter \<Rightarrow> bool" where
  "balanced w \<longleftrightarrow> length (jw_first w) = length (jw_stack w) \<and> jw_depth w = length (jw_stack w) \<and> \<not> jw_pretty w
     \<and> (jw_pending_key w \<longrightarrow> jw_stack w \<noteq> [])"

text \<open>The writer after a value: one element later in the innermost container.\<close>

definition after :: "string \<Rightarrow> JsonWriter \<Rightarrow> JsonWriter" where
  "after s w = w\<lparr>jw_out := jw_out w @ sep w @ s, jw_pending_key := False,
     jw_first := (if jw_pending_key w then jw_first w else case jw_first w of [] \<Rightarrow> [] | _ # fs \<Rightarrow> False # fs)\<rparr>"

lemma jw_value_after: "balanced w \<Longrightarrow> jw_value s w = after s w"
  by (cases "jw_stack w"; cases "jw_first w")
    (auto simp: jw_value_def jw_separate_def after_def sep_def balanced_def jw_append_def jw_newline_def jw_indent_def Let_def)

lemma balanced_after: "balanced w \<Longrightarrow> balanced (after s w)"
  by (auto simp: balanced_def after_def split: list.splits)


text \<open>Inside a container, elements are joined with commas; the first of an empty container has none.\<close>

definition joined :: "bool \<Rightarrow> string list \<Rightarrow> string" where
  "joined first ss = (if ss = [] then [] else (if first then [] else '','') @ commas ss)"

definition inside :: "JsonWriter \<Rightarrow> bool" where
  "inside w \<longleftrightarrow> balanced w \<and> jw_stack w \<noteq> [] \<and> \<not> jw_pending_key w"

definition filled :: "string list \<Rightarrow> JsonWriter \<Rightarrow> JsonWriter" where
  "filled ss w = w\<lparr>jw_out := jw_out w @ joined (hd (jw_first w)) ss,
     jw_first := (if ss = [] then jw_first w else False # tl (jw_first w))\<rparr>"

lemma inside_after: "inside w \<Longrightarrow> inside (after s w)"
  using balanced_after [of w s] by (auto simp: inside_def after_def)

lemma commas_Cons: "commas (s # ss) = s @ (if ss = [] then [] else '','' @ commas ss)"
  by (cases ss) simp_all

lemma filled_Cons: "inside w \<Longrightarrow> filled ss (after s w) = filled (s # ss) w"
  by (cases "jw_first w")
    (auto simp: filled_def after_def joined_def inside_def balanced_def sep_def commas_Cons)

lemma key_value: "inside w \<Longrightarrow> after s (jw_key k w) = after (json_escape k @ '': '' @ s) w"
  by (cases "jw_stack w"; cases "jw_first w")
    (auto simp: inside_def balanced_def jw_key_def after_def sep_def jw_separate_def jw_append_def jw_newline_def
      jw_indent_def Let_def)

lemma balanced_key: "inside w \<Longrightarrow> balanced (jw_key k w)"
  by (cases "jw_stack w"; cases "jw_first w")
    (auto simp: inside_def balanced_def jw_key_def jw_separate_def jw_append_def jw_newline_def jw_indent_def Let_def)

lemma inside_open: "balanced w \<Longrightarrow> inside (jw_open c s w)"
  by (cases "jw_stack w"; cases "jw_first w")
    (auto simp: inside_def balanced_def jw_open_def jw_separate_def jw_append_def jw_newline_def jw_indent_def Let_def)

lemma close_filled: "balanced w \<Longrightarrow> jw_close c e (filled ss (jw_open c b w)) = after (b @ commas ss @ e) w"
  by (cases "jw_stack w"; cases "jw_first w")
    (auto simp: balanced_def jw_open_def jw_close_def filled_def joined_def after_def sep_def jw_separate_def jw_append_def
      jw_newline_def jw_indent_def Let_def)

lemma write_json_after:
  "balanced w \<Longrightarrow> write_json j w = after (render j) w"
  "inside w \<Longrightarrow> write_items xs w = filled (render_all xs) w"
  "inside w \<Longrightarrow> write_fields fs w = filled (render_fields fs) w"
proof (induction j w and xs w and fs w rule: write_json_write_items_write_fields.induct)
  case (5 xs w)
  then show ?case using inside_open close_filled by (simp add: begin_array_def end_array_def)
next
  case (6 fs w)
  then show ?case using inside_open close_filled by (simp add: begin_object_def end_object_def)
next
  case (8 x xs w)
  then show ?case by (simp add: inside_def [of w] filled_Cons inside_after)
next
  case (10 k x fs w)
  then show ?case by (simp add: balanced_key key_value inside_after filled_Cons)
qed (simp_all add: jw_string_def jw_number_def jw_boolean_def jw_null_def jw_value_after filled_def joined_def)

lemma json_text_render: "json_text j = render j"
  by (simp add: json_text_def write_json_after balanced_def json_writer_def after_def sep_def)

lemma close_all_empty: "jw_stack (close_all w) = []"
proof (induction w rule: close_all.induct)
  case (1 w)
  then show ?case by (subst close_all.simps) (auto split: list.splits container.splits)
qed

lemma balanced_writers:
  "balanced (json_writer False)" "balanced w \<Longrightarrow> balanced (begin_object w)" "balanced w \<Longrightarrow> balanced (begin_array w)"
  using inside_open [of w] by (simp_all add: balanced_def json_writer_def begin_object_def begin_array_def inside_def)

text \<open>
  C40: In compact mode the JSON writer, called for a document inside any open containers, appends exactly the comma the
  container needs and the text of the recursive reference rendering; it leaves the open containers as they were, no
  key without a value and the well-formed mark unchanged, and is ready for the next value.  Fresh
  writers, opened containers and keys lead to such writers.  A whole document on a fresh writer is its rendering, and
  \<open>close_all\<close> ends with no open container whatever was written before.
\<close>

theorem json_writer_renders:
  fixes j
  assumes "balanced w"
  defines "w' \<equiv> write_json j w"
  shows "jw_out w' = jw_out w @ sep w @ render j \<and> jw_stack w' = jw_stack w \<and> \<not> jw_pending_key w'
    \<and> jw_well_formed w' = jw_well_formed w \<and> balanced w'
    \<and> balanced (begin_object w) \<and> balanced (begin_array w)
    \<and> (jw_stack w \<noteq> [] \<and> \<not> jw_pending_key w \<longrightarrow> balanced (jw_key k w))
    \<and> json_text j = render j \<and> jw_stack (close_all v) = []"
  using assms balanced_after [OF assms(1)] balanced_key [of w k] balanced_writers(2,3) [OF assms(1)] write_json_after(1) [OF assms(1), of j]
  by (simp add: json_text_render close_all_empty inside_def after_def)

theorem json_writer_renders_witness:
  "jw_out (write_json (JNumber 7) (begin_array (begin_array (json_writer False)))) = ''[[7''
   \<and> jw_stack (write_json (JNumber 7) (begin_array (begin_array (json_writer False)))) = [JsonArray, JsonArray]"
proof -
  let ?w = "begin_array (begin_array (json_writer False))"
  have "balanced ?w" by (intro balanced_writers)
  note written = json_writer_renders [OF this, of "JNumber 7"]
  have "jw_out ?w = ''[['' " "sep ?w = []" "jw_stack ?w = [JsonArray, JsonArray]"
    by (simp_all add: begin_array_def jw_open_def jw_separate_def jw_append_def jw_newline_def jw_indent_def json_writer_def
        sep_def Let_def)
  moreover have "dec_u64 7 = ''7''" by code_simp
  ultimately show ?thesis using written by simp
qed

end
