(* ===== verification/Ref_Coordinator.thy ===== *)
theory Ref_Coordinator
  imports Ref_Messages Ref_Json
begin

text \<open>
  The evolution coordinator: its state, the helpers every command uses, persistence and recovery, the
  authority view and the handshake (\<open>include/ref/coordinator.hpp\<close>, \<open>src/coordinator.cpp\<close>,
  \<open>src/coordinator_internal.cpp\<close>, the session table of \<open>src/coordinator_net.cpp\<close>).

  Commands come from the event thread and from callers in the same process, and each runs under the state
  lock; a command is a function from the coordinator's state to its result and the state after it.  The
  file system is part of the state (\<open>c_world\<close>), so that a command that cannot persist is a case of the model.
  The source encodes the state under the lock but writes the file after it has released the lock, and no lock
  covers the write.  The function of a command does both at once, which is the behaviour of a command
  that no other one overlaps; \<open>Ref_Region\<close> shows that it is the lock region followed by the write, and
  \<open>Ref_Overlap\<close> has the two as separate steps with other lock regions and writes between them.
  Sockets are not: a session is its queue of outgoing frames.
\<close>

section \<open>Data\<close>

record CoordinatorConfig =
  cf_bind_host :: string
  cf_port :: u16
  cf_state_path :: string
  cf_event_queue_depth :: nat
  cf_fabric_version :: string
  cf_evidence_max_age :: u64

record CoordinatorStats =
  st_connections_accepted :: u64
  st_connections_rejected :: u64
  st_frames_received :: u64
  st_frames_rejected :: u64
  st_events_processed :: u64
  st_events_rejected :: u64
  st_queue_rejections :: u64
  st_persistence_saves :: u64
  st_persistence_loads :: u64
  st_handshakes_ok :: u64
  st_handshakes_rejected :: u64
  st_completions_accepted :: u64
  st_completions_rejected :: u64
  st_migrations_committed :: u64
  st_rollbacks_committed :: u64
  st_retirements_committed :: u64
  st_fenced_boots :: u64

record LiveWorker =
  lw_worker :: ident
  lw_component :: ident
  lw_generation :: gen
  lw_boot :: gen
  lw_capability_generation :: gen
  lw_negotiated_protocol :: gen
  lw_committed_schema :: gen
  lw_operation :: OperationClass
  lw_session :: ident
  lw_active :: bool
  lw_draining :: bool
  lw_fenced :: bool
  lw_frames :: u64
  lw_evidence :: gen

datatype ActionState = ActionRegistered | Dispatched | Acknowledged | ActionOutcomeUnknown | Abandoned

record PendingAction =
  pa_action_id :: u64
  pa_plan :: ident
  pa_worker :: ident
  pa_boot :: gen
  pa_migration :: ident
  pa_migration_generation :: gen
  pa_source :: gen
  pa_target :: gen
  pa_state :: ActionState
  pa_stage :: gen
  pa_detail :: string

record CommandResult =
  cr_status :: Status
  cr_json :: string
  cr_fields :: WireMessage
  cr_explanation :: "string list"

record PeerIdentity =
  pi_session :: ident
  pi_component :: ident
  pi_version :: RuntimeVersionId
  pi_worker :: ident
  pi_boot :: gen
  pi_runtime_generation :: gen
  pi_protocol :: ident
  pi_agreed_protocol :: gen
  pi_agreed_schema :: gen
  pi_capability_generation :: gen
  pi_operation :: OperationClass
  pi_epoch :: gen
  pi_coordinator_epoch :: gen
  pi_is_operator :: bool
  pi_registered :: bool
  pi_authenticated :: bool

text \<open>\<open>se_listed\<close> says that the session is in the table \<open>sessions_\<close>; a session that was reaped is still held by
  the events that refer to it.\<close>

record Session =
  se_id :: ident
  se_loopback :: bool
  se_closed :: bool
  se_handshaked :: bool
  se_peer :: PeerIdentity
  se_last_sequence :: u64
  se_outgoing :: "Frame BoundedQueue"
  se_reader_done :: bool
  se_writer_done :: bool
  se_listed :: bool

record Coord =
  c_config :: CoordinatorConfig
  c_durable :: DurableState
  c_live :: "(ident, LiveWorker) omap"
  c_pending :: "PendingAction list"
  c_snapshots :: "AuthoritySnapshot list"
  c_sessions :: "(ident, Session) omap"
  c_worker_sessions :: "(ident, ident) omap"
  c_stats :: CoordinatorStats
  c_persistence_writes :: u64
  c_fail_persistence :: bool
  c_running :: bool
  c_action_counter :: u64
  c_session_counter :: u64
  c_frame_counter :: u64
  c_events :: "(ident \<times> Frame) BoundedQueue"
  c_world :: World

definition peer_unset :: PeerIdentity where
  "peer_unset = \<lparr>pi_session = [], pi_component = [], pi_version = version_unset, pi_worker = [], pi_boot = gen_unset,
     pi_runtime_generation = gen_unset, pi_protocol = [], pi_agreed_protocol = gen_unset, pi_agreed_schema = gen_unset,
     pi_capability_generation = gen_unset, pi_operation = NoOperation, pi_epoch = gen_unset,
     pi_coordinator_epoch = gen_unset, pi_is_operator = False, pi_registered = False, pi_authenticated = False\<rparr>"

definition live_worker_unset :: LiveWorker where
  "live_worker_unset = \<lparr>lw_worker = [], lw_component = [], lw_generation = gen_unset, lw_boot = gen_unset,
     lw_capability_generation = gen_unset, lw_negotiated_protocol = gen_unset, lw_committed_schema = gen_unset,
     lw_operation = NoOperation, lw_session = [], lw_active = False, lw_draining = False, lw_fenced = False,
     lw_frames = 0, lw_evidence = gen_unset\<rparr>"

definition worker_record_unset :: WorkerRecord where
  "worker_record_unset = \<lparr>wr_worker = [], wr_component = [], wr_generation = gen_unset, wr_last_boot = gen_unset,
     wr_fenced = False, wr_drained = False, wr_evidence = gen_unset, wr_detail = []\<rparr>"

definition stats_zero :: CoordinatorStats where
  "stats_zero = \<lparr>st_connections_accepted = 0, st_connections_rejected = 0, st_frames_received = 0,
     st_frames_rejected = 0, st_events_processed = 0, st_events_rejected = 0, st_queue_rejections = 0,
     st_persistence_saves = 0, st_persistence_loads = 0, st_handshakes_ok = 0, st_handshakes_rejected = 0,
     st_completions_accepted = 0, st_completions_rejected = 0, st_migrations_committed = 0,
     st_rollbacks_committed = 0, st_retirements_committed = 0, st_fenced_boots = 0\<rparr>"

text \<open>A new coordinator; \<open>World\<close> is the file system it starts in.\<close>

definition coordinator_new :: "CoordinatorConfig \<Rightarrow> World \<Rightarrow> Coord" where
  "coordinator_new config w = \<lparr>c_config = config, c_durable = durable_empty, c_live = om_empty, c_pending = [],
     c_snapshots = [], c_sessions = om_empty, c_worker_sessions = om_empty, c_stats = stats_zero,
     c_persistence_writes = 0, c_fail_persistence = False, c_running = False, c_action_counter = 0,
     c_session_counter = 0, c_frame_counter = 0, c_events = queue_new (cf_event_queue_depth config), c_world = w\<rparr>"

text \<open>Updates of the durable state and of the counters inside the coordinator.\<close>

definition on_durable :: "(DurableState \<Rightarrow> DurableState) \<Rightarrow> Coord \<Rightarrow> Coord" where
  "on_durable f c = c\<lparr>c_durable := f (c_durable c)\<rparr>"

definition on_stats :: "(CoordinatorStats \<Rightarrow> CoordinatorStats) \<Rightarrow> Coord \<Rightarrow> Coord" where
  "on_stats f c = c\<lparr>c_stats := f (c_stats c)\<rparr>"

definition detail_text :: "string \<Rightarrow> string" where "detail_text = text_from_valid 192"
definition note96 :: "string \<Rightarrow> string" where "note96 = text_from_valid 96"
definition ident63 :: "string \<Rightarrow> ident" where "ident63 = ident_from_valid 63"


section \<open>Results\<close>

definition wire_protocol_id :: ident where "wire_protocol_id = ''ref-wire''"
definition token_transform_feature_id :: ident where "token_transform_feature_id = ''state-token-transform''"
definition shadow_query_feature_id :: ident where "shadow_query_feature_id = ''shadow-query''"

definition result_unset :: CommandResult where
  "result_unset = \<lparr>cr_status = status_ok, cr_json = [], cr_fields = [], cr_explanation = []\<rparr>"

definition json_doc :: "(string \<times> Json) list \<Rightarrow> string" where
  "json_doc fs = json_text (JObject fs)"

definition ok_result :: "string \<Rightarrow> CommandResult" where
  "ok_result dtl = result_unset\<lparr>cr_json := json_doc [(''status'', JString ''OK''), (''detail'', JString dtl)],
     cr_explanation := [dtl]\<rparr>"

definition ok_json :: "string \<Rightarrow> string \<Rightarrow> CommandResult" where
  "ok_json json remark = result_unset\<lparr>cr_json := json, cr_explanation := [remark]\<rparr>"

definition failure_result :: "Status \<Rightarrow> CommandResult" where
  "failure_result s = result_unset\<lparr>cr_status := s,
     cr_json := json_doc [(''status'', JString (error_code_to_string (code s))), (''detail'', JString (detail s))],
     cr_explanation := [status_to_string s]\<rparr>"

definition reject :: "Coord \<Rightarrow> ErrorCode \<Rightarrow> string \<Rightarrow> CommandResult \<times> Coord" where
  "reject c e text = (failure_result (failure e text), c)"

definition validate_operator :: "PeerIdentity \<Rightarrow> Status" where
  "validate_operator peer =
     (if \<not> pi_is_operator peer then failure Unauthorized ''command requires operator authority'' else status_ok)"

definition operator_identity :: "Coord \<Rightarrow> PeerIdentity" where
  "operator_identity c = peer_unset\<lparr>pi_session := ''operator'', pi_is_operator := True, pi_authenticated := True,
     pi_coordinator_epoch := ds_coordinator_epoch (c_durable c)\<rparr>"

definition coordinator_stats :: "Coord \<Rightarrow> CoordinatorStats" where
  "coordinator_stats c = (c_stats c)\<lparr>st_persistence_saves := c_persistence_writes c\<rparr>"


section \<open>Helpers\<close>

text \<open>Among the active plans of a component, the one of the greatest epoch, the first on ties.\<close>

fun best_plan :: "ident \<Rightarrow> EvolutionPlan option \<Rightarrow> EvolutionPlan list \<Rightarrow> EvolutionPlan option" where
  "best_plan component best [] = best"
| "best_plan component best (p # ps) =
     (if ep_component p \<noteq> component then best_plan component best ps
      else if \<not> plan_is_active p then best_plan component best ps
      else case best of
          None \<Rightarrow> best_plan component (Some p) ps
        | Some b \<Rightarrow> best_plan component (if ep_epoch p > ep_epoch b then Some p else Some b) ps)"

definition active_plan :: "DurableState \<Rightarrow> ident \<Rightarrow> EvolutionPlan option" where
  "active_plan s component = best_plan component None (om_vals (ds_plans s))"

definition epoch_for :: "DurableState \<Rightarrow> ident \<Rightarrow> gen" where
  "epoch_for s component = (case active_plan s component of Some plan \<Rightarrow> ep_epoch plan | None \<Rightarrow> gen_unset)"

definition plan_locked :: "DurableState \<Rightarrow> ident \<Rightarrow> EvolutionPlan option" where
  "plan_locked s i = om_find (ds_plans s) i"

text \<open>Writing through the pointer that \<open>mutable_plan_locked\<close> returned.\<close>

definition put_plan_at :: "ident \<Rightarrow> EvolutionPlan \<Rightarrow> DurableState \<Rightarrow> DurableState" where
  "put_plan_at i plan s = s\<lparr>ds_plans := om_upd i plan (ds_plans s)\<rparr>"

definition live_worker_count :: "Coord \<Rightarrow> ident \<Rightarrow> gen \<Rightarrow> u64" where
  "live_worker_count c component generation =
     of_nat (length (filter (\<lambda>w. lw_component w = component \<and> lw_generation w = generation \<and> lw_active w \<and> \<not> lw_fenced w)
       (om_vals (c_live c))))"

definition generation_has_live_workers :: "Coord \<Rightarrow> ident \<Rightarrow> gen \<Rightarrow> bool" where
  "generation_has_live_workers c component generation \<longleftrightarrow> live_worker_count c component generation > 0"

definition advance_lifecycle :: "ident \<Rightarrow> gen \<Rightarrow> LifecycleState \<Rightarrow> Coord \<Rightarrow> Status \<times> Coord" where
  "advance_lifecycle component generation nxt c =
     (let (status, registry) = set_lifecycle (ds_components (c_durable c)) component generation nxt
      in (status, on_durable (\<lambda>s. s\<lparr>ds_components := registry\<rparr>) c))"

definition evidence_current :: "Coord \<Rightarrow> CompatibilityEdge \<Rightarrow> bool" where
  "evidence_current c edge \<longleftrightarrow>
     \<not> list_ex (\<lambda>a. \<not> aa_is_current (ed_aspects edge a) (ds_evidence_generation (c_durable c))
                        (cf_evidence_max_age (c_config c))
                   \<and> aa_outcome (ed_aspects edge a) = CompatOutcome.Unknown) all_aspects"

definition candidate_operation :: "RolloutStage \<Rightarrow> OperationClass" where
  "candidate_operation stage =
     (case stage of
        CandidateRegistered \<Rightarrow> NoOperation | CompatibilityProven \<Rightarrow> NoOperation
      | CanaryCohort \<Rightarrow> ReadOnly
      | MixedVersionCohort \<Rightarrow> RestrictedMutation | ExpandedCohort \<Rightarrow> RestrictedMutation
      | MigrationBarrier \<Rightarrow> RestrictedMutation
      | NewWriterEnabled \<Rightarrow> FullMutation | OldWriterDrain \<Rightarrow> FullMutation
      | FullPromotion \<Rightarrow> FullMutation | OldGenerationRetirement \<Rightarrow> FullMutation
      | _ \<Rightarrow> ReadOnly)"

definition derive_operation_class :: "DurableState \<Rightarrow> ident \<Rightarrow> gen \<Rightarrow> gen \<Rightarrow> OperationClass" where
  "derive_operation_class s component generation protocol =
     (case registry_find (ds_components s) component generation of
        None \<Rightarrow> NoOperation
      | Some v \<Rightarrow>
          if is_terminal_lifecycle (rv_lifecycle v) then NoOperation
          else case active_plan s component of
              None \<Rightarrow>
                if is_authoritative_lifecycle (rv_lifecycle v)
                  then (if permits_mutation_lifecycle (rv_lifecycle v) then FullMutation else ReadOnly)
                else ReadOnly
            | Some plan \<Rightarrow>
                let protocol_below_plan = gen_is_set protocol \<and> protocol < ep_protocol_generation plan in
                if generation = ep_candidate_generation plan then
                  let operation = candidate_operation (ep_stage plan) in
                  if protocol_below_plan \<and> operation = FullMutation then RestrictedMutation else operation
                else if generation = ep_current_generation plan
                  then (if ep_stage plan \<ge> OldWriterDrain then ReadOnly else FullMutation)
                else ReadOnly)"

text \<open>The authority of every live session of the component is derived again.\<close>

fun refresh_sessions :: "DurableState \<Rightarrow> ident \<Rightarrow> (ident, Session) omap \<Rightarrow> (ident, LiveWorker) omap
    \<Rightarrow> (ident, Session) omap \<times> (ident, LiveWorker) omap" where
  "refresh_sessions s component [] live = ([], live)"
| "refresh_sessions s component ((i, session) # table) live =
     (if \<not> se_listed session \<or> pi_component (se_peer session) \<noteq> component \<or> \<not> se_handshaked session
        then let (table, live) = refresh_sessions s component table live in ((i, session) # table, live)
      else
        let operation = derive_operation_class s component (pi_runtime_generation (se_peer session))
              (pi_agreed_protocol (se_peer session));
            live = (case om_find live (pi_worker (se_peer session)) of
                      None \<Rightarrow> live
                    | Some w \<Rightarrow> om_upd (pi_worker (se_peer session)) (w\<lparr>lw_operation := operation\<rparr>) live);
            (table, live) = refresh_sessions s component table live
        in ((i, session\<lparr>se_peer := (se_peer session)\<lparr>pi_operation := operation\<rparr>\<rparr>) # table, live))"

definition refresh_worker_authority :: "ident \<Rightarrow> Coord \<Rightarrow> Coord" where
  "refresh_worker_authority component c =
     (let (sessions, live) = refresh_sessions (c_durable c) component (c_sessions c) (c_live c)
      in c\<lparr>c_sessions := sessions, c_live := live\<rparr>)"


section \<open>Persistence and recovery\<close>

text \<open>A call of \<open>write_file_atomic\<close> is one step here.  In the source two threads may be inside it at once, with the same
  temporary sibling; that is not modelled.\<close>

definition persist :: "bytes \<Rightarrow> Coord \<Rightarrow> Status \<times> Coord" where
  "persist encoded c =
     (if cf_state_path (c_config c) = [] then (status_ok, c)
      else if c_fail_persistence c then (failure IoFailure ''persistence failure injected'', c)
      else let (written, w) = write_file_atomic (cf_state_path (c_config c)) encoded (c_world c);
               c = c\<lparr>c_world := w\<rparr>
        in (written, if is_ok written then c\<lparr>c_persistence_writes := c_persistence_writes c + 1\<rparr> else c))"

text \<open>How a command ends: encode the state, under the lock, and persist the image, in the source after the lock was
  released.  Here nothing comes between the two; see \<open>Ref_Overlap\<close> for the commands that overlap.\<close>

definition save_state :: "Coord \<Rightarrow> Status \<times> Coord" where
  "save_state c =
     (let (encoded_status, encoded) = durable_encode (c_durable c)
      in if is_failure encoded_status then (encoded_status, c) else persist encoded c)"

definition finish :: "CommandResult \<Rightarrow> Coord \<Rightarrow> CommandResult \<times> Coord" where
  "finish result c =
     (let (status, c) = save_state c in if is_failure status then (failure_result status, c) else (result, c))"

definition next_evidence :: "Coord \<Rightarrow> Coord" where
  "next_evidence c = on_durable (\<lambda>s. s\<lparr>ds_evidence_generation := gen_next (ds_evidence_generation s)\<rparr>) c"

definition recover_worker :: "WorkerRecord \<Rightarrow> WorkerRecord" where
  "recover_worker record = record\<lparr>wr_drained := False,
     wr_detail := detail_text ''awaiting re-registration after coordinator restart''\<rparr>"

definition om_map_vals :: "('v \<Rightarrow> 'v) \<Rightarrow> ('k, 'v) omap \<Rightarrow> ('k, 'v) omap" where
  "om_map_vals f m = map (\<lambda>(k, v). (k, f v)) m"

definition baseline :: "DurableState \<Rightarrow> DurableState" where
  "baseline s = s\<lparr>ds_coordinator_epoch := gen_first, ds_evolution_epoch := gen_first,
     ds_evidence_generation := gen_first, ds_stage_generation := gen_first, ds_snapshot_generation := gen_first,
     ds_policy_generation := gen_first, ds_matrix_generation := gen_unset, ds_gate_generation := gen_unset,
     ds_replay_watermark := gen_unset\<rparr>"

definition recover_state :: "DurableState \<Rightarrow> DurableState" where
  "recover_state loaded = loaded\<lparr>ds_coordinator_epoch := gen_bump (ds_coordinator_epoch loaded),
     ds_workers := om_map_vals recover_worker (ds_workers loaded)\<rparr>"

definition load_durable :: "Coord \<Rightarrow> Status \<times> Coord" where
  "load_durable c =
     (let c = on_durable baseline c; path = cf_state_path (c_config c) in
      if path = [] then (status_ok, c)
      else let (present, w) = file_exists path (c_world c); c = c\<lparr>c_world := w\<rparr> in
        if \<not> present then (status_ok, c)
        else let (status, loaded, w) = store_load path durable_empty (c_world c); c = c\<lparr>c_world := w\<rparr> in
          if is_failure status then (status, c)
          else (status_ok, on_stats (\<lambda>st. st\<lparr>st_persistence_loads := st_persistence_loads st + 1\<rparr>)
                 (c\<lparr>c_durable := recover_state loaded, c_live := om_empty, c_worker_sessions := om_empty\<rparr>)))"

text \<open>The built-in protocol generations and state schemas are installed at start.\<close>

fun publish_wire_protocols :: "gen list \<Rightarrow> Coord \<Rightarrow> Status \<times> Coord" where
  "publish_wire_protocols [] c = (status_ok, c)"
| "publish_wire_protocols (g # gs) c =
     (let (published, registry) = protocol_publish (ds_protocols (c_durable c)) (build_wire_protocol g);
          c = on_durable (\<lambda>s. s\<lparr>ds_protocols := registry\<rparr>) c
      in if is_failure published then (published, c) else publish_wire_protocols gs c)"

definition install_builtin_protocols :: "Coord \<Rightarrow> Status \<times> Coord" where
  "install_builtin_protocols c =
     (let (published, c) = publish_wire_protocols [1, 2] c in if is_failure published then (published, c) else save_state c)"

definition install_builtin_schemas :: "Coord \<Rightarrow> Status \<times> Coord" where
  "install_builtin_schemas c =
     (let (installed, registry) = install_builtin_state_schemas (ds_schemas (c_durable c));
          c = on_durable (\<lambda>s. s\<lparr>ds_schemas := registry\<rparr>) c
      in if is_failure installed then (installed, c) else save_state c)"


section \<open>The authority view\<close>

text \<open>The protocol and schema generations shown when no plan is active: those of the greatest authoritative
  version, as the loop over the versions finds them.\<close>

fun best_version :: "gen \<times> gen \<times> gen \<Rightarrow> RuntimeComponentVersion list \<Rightarrow> gen \<times> gen \<times> gen" where
  "best_version best [] = best"
| "best_version best (v # vs) =
     (if is_authoritative_lifecycle (rv_lifecycle v) \<and> (\<not> gen_is_set (fst best) \<or> rv_generation v > fst best)
        then best_version (rv_generation v, gs_highest (ps_supported (rv_protocols v)),
               gs_highest (ss_supported (rv_schemas v))) vs
      else best_version best vs)"

definition generation_permission ::
  "DurableState \<Rightarrow> ident \<Rightarrow> EvolutionPlan option \<Rightarrow> gen option \<Rightarrow> RuntimeComponentVersion \<Rightarrow> GenerationPermission" where
  "generation_permission s component plan authoritative v =
     (let operation = derive_operation_class s component (rv_generation v)
            (case plan of Some p \<Rightarrow> ep_protocol_generation p | None \<Rightarrow> gs_highest (ps_supported (rv_protocols v)));
          candidate = (case plan of Some p \<Rightarrow> rv_generation v = ep_candidate_generation p | None \<Rightarrow> False);
          retired = is_terminal_lifecycle (rv_lifecycle v);
          authority = (case authoritative of Some g \<Rightarrow> g | None \<Rightarrow> gen_unset)
      in \<lparr>gp_generation = rv_generation v, gp_lifecycle = rv_lifecycle v,
          gp_is_authoritative = (authoritative = Some (rv_generation v)),
          gp_may_read = (\<not> retired \<and> operation \<noteq> NoOperation),
          gp_may_write = (\<not> retired \<and> permits_mutation operation),
          gp_operation = (if retired then NoOperation else operation),
          gp_protocol = (case plan of
               Some p \<Rightarrow> if candidate then ep_protocol_generation p else gs_highest (ps_supported (rv_protocols v))
             | None \<Rightarrow> gs_highest (ps_supported (rv_protocols v))),
          gp_schema = (case plan of
               Some p \<Rightarrow> if candidate then ep_schema_generation p else gs_highest (ss_supported (rv_schemas v))
             | None \<Rightarrow> gs_highest (ss_supported (rv_schemas v))),
          gp_reason =
            (if retired then detail_text ''RETIRED: terminal for this runtime generation''
             else if rv_generation v = authority then detail_text ''authoritative runtime generation''
             else if candidate then detail_text ''candidate generation under active evolution plan''
             else detail_text ''coexisting generation'')\<rparr>)"

definition authority_explanation :: "DurableState \<Rightarrow> ident \<Rightarrow> gen \<Rightarrow> EvolutionPlan option \<Rightarrow> gen option \<Rightarrow> string list" where
  "authority_explanation s component epoch plan authoritative =
     [''coordinator epoch '' @ dec_u64 (ds_coordinator_epoch s), ''evolution epoch '' @ dec_u64 epoch,
      case authoritative of
        Some g \<Rightarrow> ''authoritative runtime generation '' @ dec_u64 g
      | None \<Rightarrow> ''no authoritative runtime generation is recorded for this component'']
     @ (case plan of
          Some p \<Rightarrow>
            [''rollout stage '' @ stage_to_string (ep_stage p),
             ''new writer enabled: '' @ (if ep_new_writer_enabled p then ''yes'' else ''no'')]
            @ (if ep_rollback_barrier_crossed p
               then [''rollback barrier has been crossed; rollback is no longer available''] else [])
        | None \<Rightarrow> [''no active evolution plan for this component''])
     @ (if is_retired s component (case authoritative of Some g \<Rightarrow> g | None \<Rightarrow> gen_unset)
        then [''the authoritative generation is retired (inconsistent state)''] else [])"

definition authority_view :: "Coord \<Rightarrow> ident \<Rightarrow> AuthorityView" where
  "authority_view c component =
     (let s = c_durable c; authoritative = authoritative_generation (ds_components s) component;
          plan = active_plan s component; versions = versions_of (ds_components s) component;
          (_, protocol, schema) = best_version (gen_unset, gen_unset, gen_unset) versions;
          epoch = (case plan of Some p \<Rightarrow> ep_epoch p | None \<Rightarrow> ds_evolution_epoch s)
      in \<lparr>av_component = component, av_has_authoritative = (authoritative \<noteq> None),
          av_authoritative = (case authoritative of Some g \<Rightarrow> g | None \<Rightarrow> gen_unset),
          av_coexistence = sort_key gp_generation (map (generation_permission s component plan authoritative) versions),
          av_protocol_generation = (case plan of Some p \<Rightarrow> ep_protocol_generation p | None \<Rightarrow> protocol),
          av_schema_generation = (case plan of Some p \<Rightarrow> ep_schema_generation p | None \<Rightarrow> schema),
          av_enabled_features = map fg_id (filter fg_enabled (gate_all (ds_gates s))),
          av_stage = (case plan of Some p \<Rightarrow> ep_stage p | None \<Rightarrow> NoStage),
          av_plan = (case plan of Some p \<Rightarrow> ep_id p | None \<Rightarrow> []),
          av_new_writer_enabled = (case plan of Some p \<Rightarrow> ep_new_writer_enabled p | None \<Rightarrow> False),
          av_evidence_current = (case plan of
               Some p \<Rightarrow> (case matrix_find (ds_matrix s) (ep_current_generation p) (ep_candidate_generation p) of
                   Some edge \<Rightarrow> evidence_current c edge | None \<Rightarrow> False)
             | None \<Rightarrow> True),
          av_rollback_barrier_crossed = (case plan of Some p \<Rightarrow> ep_rollback_barrier_crossed p | None \<Rightarrow> False),
          av_epoch = epoch, av_coordinator_epoch = ds_coordinator_epoch s,
          av_snapshot_generation = ds_snapshot_generation s,
          av_explanation = authority_explanation s component epoch plan authoritative\<rparr>)"


section \<open>The handshake\<close>

definition local_protocols :: "DurableState \<Rightarrow> ident \<Rightarrow> gen_set" where
  "local_protocols s protocol =
     foldl (\<lambda>gs d. if pd_id d \<noteq> protocol then gs else snd (gs_add gs (pd_generation d))) [] (protocol_all (ds_protocols s))"

definition negotiation_request :: "ident \<Rightarrow> gen_set \<Rightarrow> gen_set \<Rightarrow> gen \<Rightarrow> NegotiationRequest" where
  "negotiation_request protocol local peer required = \<lparr>nq_protocol = protocol, nq_local_supported = local,
     nq_peer_supported = peer, nq_required_minimum = required, nq_preferred = gen_unset, nq_required_messages = [],
     nq_required_mutating_messages = [], nq_require_mutation = False\<rparr>"

definition hello_refuse :: "Coord \<Rightarrow> CommandResult \<Rightarrow> CommandResult \<times> Coord" where
  "hello_refuse c result = (result, on_stats (\<lambda>st. st\<lparr>st_handshakes_rejected := st_handshakes_rejected st + 1\<rparr>) c)"

definition hello_reject :: "Coord \<Rightarrow> ErrorCode \<Rightarrow> string \<Rightarrow> string list \<Rightarrow> CommandResult \<times> Coord" where
  "hello_reject c e text lines = hello_refuse c (result_unset\<lparr>cr_status := failure e text, cr_explanation := lines\<rparr>)"

text \<open>The checks on a worker that is already known.\<close>

definition known_worker_refusal :: "ProtocolHandshake \<Rightarrow> WorkerRecord \<Rightarrow> (string \<times> string) option" where
  "known_worker_refusal h record =
     (if hs_boot h < wr_last_boot record
        then Some (''boot identity is older than the recorded incarnation'', ''stale boot identity rejected'')
      else if wr_fenced record \<and> hs_boot h = wr_last_boot record
        then Some (''recorded boot identity is fenced'', ''fenced boot identity rejected'')
      else None)"

definition hello_peer :: "Coord \<Rightarrow> ProtocolHandshake \<Rightarrow> gen \<Rightarrow> PeerIdentity \<Rightarrow> PeerIdentity" where
  "hello_peer c h chosen peer =
     (let s = c_durable c; registered = registry_find (ds_components s) (hs_component h) (hs_runtime_generation h) \<noteq> None;
          operation = derive_operation_class s (hs_component h) (hs_runtime_generation h) chosen
      in peer\<lparr>pi_component := hs_component h, pi_version := hs_version h, pi_worker := hs_worker h, pi_boot := hs_boot h,
          pi_runtime_generation := hs_runtime_generation h, pi_protocol := hs_protocol h, pi_agreed_protocol := chosen,
          pi_agreed_schema := (if gen_is_set (hs_committed_schema h) then hs_committed_schema h
                               else gs_highest (hs_supported_schemas h)),
          pi_capability_generation := hs_capability_generation h, pi_coordinator_epoch := ds_coordinator_epoch s,
          pi_epoch := epoch_for s (hs_component h), pi_registered := registered,
          pi_operation := (if pi_is_operator peer then FullMutation else if \<not> registered then NoOperation
                           else operation)\<rparr>)"

definition hello_worker :: "Coord \<Rightarrow> ProtocolHandshake \<Rightarrow> PeerIdentity \<Rightarrow> LiveWorker" where
  "hello_worker c h peer = live_worker_unset\<lparr>lw_worker := hs_worker h, lw_component := hs_component h,
     lw_generation := hs_runtime_generation h, lw_boot := hs_boot h,
     lw_capability_generation := hs_capability_generation h, lw_negotiated_protocol := pi_agreed_protocol peer,
     lw_committed_schema := pi_agreed_schema peer, lw_operation := pi_operation peer, lw_session := pi_session peer,
     lw_active := True, lw_frames := 0, lw_evidence := ds_evidence_generation (c_durable c)\<rparr>"

definition hello_record :: "Coord \<Rightarrow> ProtocolHandshake \<Rightarrow> WorkerRecord" where
  "hello_record c h = \<lparr>wr_worker = hs_worker h, wr_component = hs_component h, wr_generation = hs_runtime_generation h,
     wr_last_boot = hs_boot h, wr_fenced = False, wr_drained = False,
     wr_evidence = ds_evidence_generation (c_durable c),
     wr_detail = detail_text ''handshake accepted; authority requires revalidation''\<rparr>"

definition hello_json :: "DurableState \<Rightarrow> PeerIdentity \<Rightarrow> string list \<Rightarrow> string" where
  "hello_json s peer lines =
     (let plan = active_plan s (pi_component peer) in json_doc
       [(''status'', JString ''OK''), (''detail'', JString ''handshake accepted''),
        (''negotiated_protocol'', JNumber (pi_agreed_protocol peer)),
        (''negotiated_schema'', JNumber (pi_agreed_schema peer)),
        (''operation_class'', JString (operation_class_to_string (pi_operation peer))),
        (''evolution_epoch'', JNumber (pi_epoch peer)), (''coordinator_epoch'', JNumber (pi_coordinator_epoch peer)),
        (''stage_generation'', JNumber (ds_stage_generation s)),
        (''gate_generation'', JNumber (fgr_generation (ds_gates s))),
        (''matrix_generation'', JNumber (mat_generation (ds_matrix s))), (''registered'', JBool (pi_registered peer)),
        (''new_writer_enabled'', JBool (case plan of Some p \<Rightarrow> ep_new_writer_enabled p | None \<Rightarrow> False)),
        (''rollout_stage'', JString (stage_to_string (case plan of Some p \<Rightarrow> ep_stage p | None \<Rightarrow> NoStage))),
        (''authoritative_generation'', JNumber (case authoritative_generation (ds_components s) (pi_component peer) of
            Some g \<Rightarrow> g | None \<Rightarrow> gen_unset)),
        (''features'', JList (map (\<lambda>gate. JObject [(''feature'', JString (fg_id gate)),
            (''generation'', JNumber (fg_generation gate))]) (filter fg_enabled (gate_all (ds_gates s))))),
        (''explanation'', JList (map JString lines))])"

text \<open>The structured fields of a response; the status of each \<open>set\<close> is dropped as in the code.\<close>

definition with_u64 :: "string \<Rightarrow> u64 \<Rightarrow> WireMessage \<Rightarrow> WireMessage" where
  "with_u64 nm v m = snd (wm_set_u64 m (ident63 nm) v)"

definition with_bool :: "string \<Rightarrow> bool \<Rightarrow> WireMessage \<Rightarrow> WireMessage" where
  "with_bool nm v m = snd (wm_set_bool m (ident63 nm) v)"

definition with_text :: "string \<Rightarrow> string \<Rightarrow> WireMessage \<Rightarrow> WireMessage" where
  "with_text nm v m = snd (wm_set_text m (ident63 nm) v)"

definition hello_fields :: "DurableState \<Rightarrow> PeerIdentity \<Rightarrow> WireMessage" where
  "hello_fields s peer =
     (with_u64 ''authoritative_generation''
        (case authoritative_generation (ds_components s) (pi_component peer) of Some g \<Rightarrow> g | None \<Rightarrow> gen_unset)
      \<circ> with_bool ''new_writer_enabled''
        (case active_plan s (pi_component peer) of Some p \<Rightarrow> ep_new_writer_enabled p | None \<Rightarrow> False)
      \<circ> with_bool ''registered'' (pi_registered peer)
      \<circ> with_u64 ''matrix_generation'' (mat_generation (ds_matrix s))
      \<circ> with_u64 ''gate_generation'' (fgr_generation (ds_gates s))
      \<circ> with_u64 ''stage_generation'' (ds_stage_generation s)
      \<circ> with_u64 ''coordinator_epoch'' (pi_coordinator_epoch peer)
      \<circ> with_u64 ''evolution_epoch'' (pi_epoch peer)
      \<circ> with_text ''operation_class'' (operation_class_to_string (pi_operation peer))
      \<circ> with_u64 ''negotiated_schema'' (pi_agreed_schema peer)
      \<circ> with_u64 ''negotiated_protocol'' (pi_agreed_protocol peer)) []"

text \<open>The part after all checks: the session becomes current and the worker is recorded.  A state that
  cannot be encoded leaves the handshake accepted; only a failed write is reported.\<close>

definition hello_accept :: "ProtocolHandshake \<Rightarrow> NegotiationResult \<Rightarrow> PeerIdentity \<Rightarrow> Coord
    \<Rightarrow> CommandResult \<times> PeerIdentity \<times> Coord" where
  "hello_accept h negotiation peer c =
     (let peer = hello_peer c h (nr_chosen negotiation) peer;
          c = c\<lparr>c_live := om_upd (hs_worker h) (hello_worker c h peer) (c_live c),
                c_worker_sessions := om_upd (hs_worker h) (pi_session peer) (c_worker_sessions c),
                c_durable := (c_durable c)\<lparr>ds_workers := om_upd (hs_worker h) (hello_record c h)
                  (ds_workers (c_durable c))\<rparr>\<rparr>;
          c = on_stats (\<lambda>st. st\<lparr>st_handshakes_ok := st_handshakes_ok st + 1\<rparr>) c;
          result = result_unset\<lparr>cr_json := hello_json (c_durable c) peer (nr_explanation negotiation),
            cr_fields := hello_fields (c_durable c) peer\<rparr>;
          (encoded_status, encoded) = durable_encode (c_durable c)
      in if is_failure encoded_status then (result, peer, c)
         else let (stored, c) = persist encoded c in
           if is_failure stored
             then (result\<lparr>cr_status := stored,
                     cr_explanation := [''handshake accepted but durable state could not be persisted'']\<rparr>, peer, c)
           else (result, peer, c))"

definition hello_negotiate :: "ProtocolHandshake \<Rightarrow> PeerIdentity \<Rightarrow> Coord \<Rightarrow> CommandResult \<times> PeerIdentity \<times> Coord" where
  "hello_negotiate h peer c =
     (let s = c_durable c; refuse = (\<lambda>(result, c). (result, peer, c)); local = local_protocols s (hs_protocol h) in
      if local = [] then refuse (hello_reject c NotFound ''peer requested an unknown protocol id'' [])
      else
        let negotiation = negotiate (Some (ds_protocols s)) (negotiation_request (hs_protocol h) local
              (hs_supported_protocols h)
              (if gen_is_set (hs_required_minimum h) then hs_required_minimum h else 1))
        in if is_failure (nr_status negotiation)
             then refuse (hello_refuse c (result_unset\<lparr>cr_status := nr_status negotiation, cr_json := ''{}'',
                    cr_explanation := nr_explanation negotiation\<rparr>))
           else case registry_find (ds_components s) (hs_component h) (hs_runtime_generation h) of
               Some v \<Rightarrow>
                 if \<not> gs_contains (ss_readable (rv_schemas v)) (hs_committed_schema h) \<and> gen_is_set (hs_committed_schema h)
                   then refuse (hello_reject c Incompatible
                     ''peer committed schema generation is not readable by its registered version'' [])
                 else hello_accept h negotiation peer c
             | None \<Rightarrow> hello_accept h negotiation peer c)"

definition command_hello :: "ProtocolHandshake \<Rightarrow> PeerIdentity \<Rightarrow> Coord \<Rightarrow> CommandResult \<times> PeerIdentity \<times> Coord" where
  "command_hello h peer c =
     (let s = c_durable c; refuse = (\<lambda>(result, c). (result, peer, c)) in
      if is_failure (handshake_validate h)
        then refuse (hello_refuse c (result_unset\<lparr>cr_status := handshake_validate h, cr_json := ''{}''\<rparr>))
      else if is_retired s (hs_component h) (hs_runtime_generation h)
        then refuse (hello_reject c RetiredGeneration ''runtime generation is retired and may not reconnect''
               [''retired runtime generation rejected before session creation''])
      else if is_boot_fenced s (hs_worker h) (hs_boot h)
        then refuse (hello_reject c StaleBoot ''boot identity has been fenced''
               [''fenced boot rejected before session creation''])
      else case om_find (ds_workers s) (hs_worker h) of
          Some record \<Rightarrow>
            (case known_worker_refusal h record of
               Some (text, line) \<Rightarrow> refuse (hello_reject c StaleBoot text [line])
             | None \<Rightarrow> hello_negotiate h peer c)
        | None \<Rightarrow> hello_negotiate h peer c)"

end
