(* ===== verification/Ref_Commands.thy ===== *)
theory Ref_Commands
  imports Ref_Coordinator
begin

text \<open>
  The operator's and the workers' commands: registration and publication, plan creation, stage
  advancement, rebinding and feature gates (\<open>src/coordinator_commands.cpp\<close>).  Pointers into the
  registries are looked up again after each change, because the code reads through them later.
\<close>

section \<open>Registration and publication\<close>

definition on_components :: "(ComponentRegistry \<Rightarrow> Status \<times> ComponentRegistry) \<Rightarrow> Coord \<Rightarrow> Status \<times> Coord" where
  "on_components f c =
     (let (status, registry) = f (ds_components (c_durable c))
      in (status, on_durable (\<lambda>s. s\<lparr>ds_components := registry\<rparr>) c))"

definition command_register_component :: "PeerIdentity \<Rightarrow> RuntimeComponentVersion \<Rightarrow> Coord \<Rightarrow> CommandResult \<times> Coord" where
  "command_register_component peer v c =
     (let s = c_durable c; valid = rv_validate v in
      if is_failure valid then (failure_result valid, c)
      else if \<not> pi_is_operator peer
              \<and> \<not> (pi_component peer = rv_component v \<and> pi_runtime_generation peer = rv_generation v)
        then reject c Unauthorized ''worker may only register its own component generation''
      else if \<not> pi_is_operator peer \<and> rv_lifecycle v \<noteq> LifecycleState.Registered
        then reject c Unauthorized ''lifecycle at registration must be REGISTERED when self-registering''
      else if is_retired s (rv_component v) (rv_generation v)
        then reject c RetiredGeneration ''runtime generation is retired and cannot be re-registered''
      else case registry_find (ds_components s) (rv_component v) (rv_generation v) of
          Some existing \<Rightarrow>
            if rv_version existing \<noteq> rv_version v
              then reject c Conflict ''runtime generation is already bound to a different artifact identity''
            else
              let updated = existing\<lparr>rv_capability_generation := rv_capability_generation v,
                    rv_features := rv_features v, rv_migrations := rv_migrations v,
                    rv_evidence := ds_evidence_generation s\<rparr>;
                  (stored, c) = on_components (\<lambda>r. publish r updated) c
              in if is_failure stored then (failure_result stored, c)
                 else finish (ok_result ''runtime component version registered'') (next_evidence c)
        | None \<Rightarrow>
            let (published, c) = on_components (\<lambda>r. publish r v) c
            in if is_failure published then (failure_result published, c)
               else finish (ok_result ''runtime component version registered'') (next_evidence c))"

definition command_publish_capability ::
  "PeerIdentity \<Rightarrow> ident \<Rightarrow> gen \<Rightarrow> gen \<Rightarrow> FeatureSupport list \<Rightarrow> Coord \<Rightarrow> CommandResult \<times> Coord" where
  "command_publish_capability peer component generation capability features c =
     (let s = c_durable c in
      if \<not> pi_is_operator peer \<and> \<not> (pi_component peer = component \<and> pi_runtime_generation peer = generation)
        then reject c Unauthorized ''capability publication is limited to the publisher's own generation''
      else case registry_find (ds_components s) component generation of
          None \<Rightarrow> reject c NotFound ''runtime generation is not registered''
        | Some existing \<Rightarrow>
            if \<not> gen_is_set capability then reject c InvalidArgument ''capability generation is unset''
            else if gen_is_set (rv_capability_generation existing) \<and> capability < rv_capability_generation existing
              then reject c StaleGeneration ''capability generation is older than the recorded one''
            else
              let updated = existing\<lparr>rv_capability_generation := capability, rv_features := features,
                    rv_evidence := ds_evidence_generation s\<rparr>;
                  (stored, c) = on_components (\<lambda>r. publish r updated) c
              in if is_failure stored then (failure_result stored, c)
                 else finish (ok_result ''capability generation published'') (next_evidence c))"

text \<open>A published edge that permits coexistence makes the candidate eligible, in every component that
  has a version of that generation.\<close>

definition make_eligible :: "gen \<Rightarrow> Coord \<Rightarrow> ident \<Rightarrow> Coord" where
  "make_eligible to c component =
     (case registry_find (ds_components (c_durable c)) component to of
        None \<Rightarrow> c
      | Some v \<Rightarrow>
          let c = (if rv_lifecycle v = LifecycleState.Registered
                   then snd (advance_lifecycle component to CompatibilityPending c) else c)
          in case registry_find (ds_components (c_durable c)) component to of
               Some v \<Rightarrow> if rv_lifecycle v = CompatibilityPending
                 then snd (advance_lifecycle component to Eligible c) else c
             | None \<Rightarrow> c)"

definition command_publish_compatibility :: "PeerIdentity \<Rightarrow> CompatibilityEdge \<Rightarrow> Coord \<Rightarrow> CommandResult \<times> Coord" where
  "command_publish_compatibility peer edge c =
     (let s = c_durable c; authorized = validate_operator peer in
      if is_failure authorized then (failure_result authorized, c)
      else
        let stamped = edge\<lparr>ed_generation := gen_bump (mat_generation (ds_matrix s)), ed_epoch := ds_evolution_epoch s,
              ed_evidence := ds_evidence_generation s\<rparr>;
            (published, matrix) = matrix_upsert (ds_matrix s) stamped;
            c = on_durable (\<lambda>s. s\<lparr>ds_matrix := matrix\<rparr>) c
        in if is_failure published then (failure_result published, c)
           else
             let c = next_evidence (on_durable (\<lambda>s. s\<lparr>ds_matrix_generation := mat_generation (ds_matrix s)\<rparr>) c);
                 eligible_edge = (has_permission (ed_permissions stamped) ControlChannel
                   \<and> has_permission (ed_permissions stamped) CoexistDuringRollout);
                 c = (if eligible_edge
                      then foldl (make_eligible (ed_to stamped)) c (components (ds_components (c_durable c))) else c)
             in finish (ok_result ''compatibility edge published; bound plans must be rebound'') c)"

definition command_publish_schema :: "PeerIdentity \<Rightarrow> SchemaDescriptor \<Rightarrow> Coord \<Rightarrow> CommandResult \<times> Coord" where
  "command_publish_schema peer descriptor c =
     (let authorized = validate_operator peer in
      if is_failure authorized then (failure_result authorized, c)
      else let (published, registry) = schema_publish (ds_schemas (c_durable c)) descriptor;
               c = on_durable (\<lambda>s. s\<lparr>ds_schemas := registry\<rparr>) c
        in if is_failure published then (failure_result published, c)
           else finish (ok_result ''schema generation published'') c)"

definition command_publish_protocol :: "PeerIdentity \<Rightarrow> ProtocolDescriptor \<Rightarrow> Coord \<Rightarrow> CommandResult \<times> Coord" where
  "command_publish_protocol peer descriptor c =
     (let authorized = validate_operator peer in
      if is_failure authorized then (failure_result authorized, c)
      else let (published, registry) = protocol_publish (ds_protocols (c_durable c)) descriptor;
               c = on_durable (\<lambda>s. s\<lparr>ds_protocols := registry\<rparr>) c
        in if is_failure published then (failure_result published, c)
           else finish (ok_result ''protocol generation published'') c)"


section \<open>Plans\<close>

record PlanSpec =
  ps_id :: ident
  ps_component :: ident
  ps_candidate_generation :: gen
  ps_migration :: ident
  ps_migration_generation :: gen
  ps_migration_source :: gen
  ps_migration_target :: gen
  ps_canary_cohort :: ident
  ps_cohorts :: "ident list"
  ps_policy :: RolloutPolicy
  ps_required_evidence :: "RequiredEvidence list"
  ps_detail :: string

definition push_bounded :: "nat \<Rightarrow> 'a \<Rightarrow> 'a list \<Rightarrow> 'a list" where
  "push_bounded cap x xs = (if length (xs @ [x]) > cap then tl (xs @ [x]) else xs @ [x])"

definition stage_record :: "RolloutStage \<Rightarrow> gen \<Rightarrow> gen \<Rightarrow> gen \<Rightarrow> gen \<Rightarrow> string \<Rightarrow> PlanStageRecord" where
  "stage_record stage generation epoch coordinator evidence remark = \<lparr>sr_stage_id = ident63 (''stage-'' @ dec_u64 generation),
     sr_stage = stage, sr_generation = generation, sr_epoch = epoch, sr_coordinator_epoch = coordinator,
     sr_evidence = evidence, sr_completed = False, sr_note = note96 remark\<rparr>"

definition common_protocols :: "RuntimeComponentVersion \<Rightarrow> RuntimeComponentVersion \<Rightarrow> gen_set" where
  "common_protocols current candidate =
     foldl (\<lambda>gs g. if gs_contains (ps_supported (rv_protocols candidate)) g then snd (gs_add gs g) else gs) []
       (ps_supported (rv_protocols current))"

text \<open>The checks of \<open>command_create_plan\<close> on the specification, in their order; \<open>None\<close> when all pass.\<close>

definition plan_spec_refusal :: "DurableState \<Rightarrow> PlanSpec \<Rightarrow> gen \<Rightarrow> RuntimeComponentVersion \<Rightarrow> RuntimeComponentVersion
    \<Rightarrow> (ErrorCode \<times> string) option" where
  "plan_spec_refusal s spec authoritative candidate current =
     (if rv_lifecycle current \<noteq> Current \<and> rv_lifecycle current \<noteq> Eligible
        then Some (Conflict, ''current generation is not in a state that can be evolved'')
      else case matrix_find (ds_matrix s) authoritative (ps_candidate_generation spec) of
          None \<Rightarrow> Some (Incompatible, ''no compatibility edge exists for the candidate pair'')
        | Some edge \<Rightarrow>
            if \<not> has_permission (ed_permissions edge) ControlChannel
              then Some (Incompatible, ''compatibility edge does not permit a control channel'')
            else if \<not> has_permission (ed_permissions edge) CoexistDuringRollout
              then Some (Incompatible, ''compatibility edge does not permit coexistence during rollout'')
            else if require_canary (ps_policy spec) \<and> ps_canary_cohort spec = []
              then Some (InvalidArgument, ''policy requires a canary cohort but none was supplied'')
            else if require_migration_barrier (ps_policy spec)
                    \<and> (ps_migration spec = [] \<or> \<not> gen_is_set (ps_migration_generation spec))
              then Some (InvalidArgument, ''policy requires a migration barrier but no migration was supplied'')
            else if ps_migration spec \<noteq> []
                    \<and> (\<not> gen_is_set (ps_migration_source spec) \<or> \<not> gen_is_set (ps_migration_target spec))
              then Some (InvalidArgument, ''migration binding requires explicit source and target schema generations'')
            else if ps_migration spec \<noteq> []
                    \<and> find_migration candidate (ps_migration_source spec) (ps_migration_target spec) = None
              then Some (Incompatible, ''candidate generation does not declare the requested migration capability'')
            else if list_ex (\<lambda>cohort. cohort = []) (ps_cohorts spec)
              then Some (InvalidArgument, ''plan cohort id is empty'')
            else if common_protocols current candidate = []
              then Some (Incompatible, ''current and candidate generations share no protocol generation'')
            else None)"

definition new_plan :: "DurableState \<Rightarrow> PlanSpec \<Rightarrow> gen \<Rightarrow> RuntimeComponentVersion \<Rightarrow> RuntimeComponentVersion \<Rightarrow> EvolutionPlan" where
  "new_plan s spec authoritative candidate current =
     (let epoch = gen_bump (ds_evolution_epoch s); stage = gen_bump (ds_stage_generation s);
          writable = gs_highest (ss_writable (rv_schemas current))
      in \<lparr>ep_id = (if ps_id spec = [] then ident63 (''plan-'' @ dec (om_size (ds_plans s) + 1)) else ps_id spec),
          ep_generation = gen_first, ep_component = ps_component spec, ep_current_generation = authoritative,
          ep_candidate_generation = ps_candidate_generation spec, ep_matrix_generation = mat_generation (ds_matrix s),
          ep_protocol_generation = gs_highest (common_protocols current candidate),
          ep_schema_generation = (if gen_is_set writable then writable else gs_highest (ss_supported (rv_schemas current))),
          ep_gate_generation = fgr_generation (ds_gates s), ep_migration = ps_migration spec,
          ep_migration_generation = ps_migration_generation spec, ep_migration_source = ps_migration_source spec,
          ep_migration_target = ps_migration_target spec, ep_rollback_target = authoritative,
          ep_rollback_generation = gen_first, ep_rollback_barrier_crossed = False,
          ep_required_evidence = ps_required_evidence spec, ep_coordinator_epoch = ds_coordinator_epoch s,
          ep_epoch = epoch, ep_stage = CandidateRegistered, ep_stage_generation = stage, ep_cohorts = ps_cohorts spec,
          ep_canary_cohort = ps_canary_cohort spec, ep_new_writer_enabled = False,
          ep_policy = (ps_policy spec)\<lparr>rp_generation := gen_bump (ds_policy_generation s)\<rparr>,
          ep_history = [stage_record CandidateRegistered stage epoch (ds_coordinator_epoch s) (ds_evidence_generation s)
            ''candidate registered''],
          ep_superseded = False, ep_evidence = gen_unset, ep_detail = ps_detail spec\<rparr>)"

definition install_plan :: "EvolutionPlan \<Rightarrow> DurableState \<Rightarrow> DurableState" where
  "install_plan plan s = s\<lparr>ds_evolution_epoch := ep_epoch plan, ds_stage_generation := ep_stage_generation plan,
     ds_policy_generation := rp_generation (ep_policy plan),
     ds_stage_history := push_bounded kStageHistory (last (ep_history plan)) (ds_stage_history s)\<rparr>"

definition plan_json :: "EvolutionPlan \<Rightarrow> string" where
  "plan_json plan = json_doc [(''status'', JString ''OK''), (''plan'', JString (ep_id plan)),
     (''stage'', JString (stage_to_string (ep_stage plan))), (''evolution_epoch'', JNumber (ep_epoch plan)),
     (''protocol_generation'', JNumber (ep_protocol_generation plan)),
     (''schema_generation'', JNumber (ep_schema_generation plan)),
     (''stage_generation'', JNumber (ep_stage_generation plan))]"

definition create_checked_plan :: "PlanSpec \<Rightarrow> gen \<Rightarrow> RuntimeComponentVersion \<Rightarrow> RuntimeComponentVersion \<Rightarrow> Coord
    \<Rightarrow> CommandResult \<times> Coord" where
  "create_checked_plan spec authoritative candidate current c =
     (let plan = new_plan (c_durable c) spec authoritative candidate current; valid = plan_validate plan in
      if is_failure valid then (failure_result valid, c)
      else if om_size (ds_plans (c_durable c)) \<ge> kPlanHistory then reject c LimitExceeded ''plan history bound reached''
      else
        let c = on_durable (install_plan plan) c;
            (transitioned, c) = advance_lifecycle (ps_component spec) (ps_candidate_generation spec) UpgradePending c
        in if is_failure transitioned then (failure_result transitioned, c)
           else
             let c = refresh_worker_authority (ps_component spec) c;
                 c = next_evidence (on_durable (\<lambda>s. s\<lparr>ds_plans := om_emplace (ep_id plan) plan (ds_plans s)\<rparr>) c)
             in finish (ok_json (plan_json plan) ''plan created with a fresh evolution epoch'') c)"

definition command_create_plan :: "PeerIdentity \<Rightarrow> PlanSpec \<Rightarrow> Coord \<Rightarrow> CommandResult \<times> Coord" where
  "command_create_plan peer spec c =
     (let s = c_durable c; component = ps_component spec; authorized = validate_operator peer in
      if is_failure authorized then (failure_result authorized, c)
      else if component = [] \<or> \<not> gen_is_set (ps_candidate_generation spec)
        then reject c InvalidArgument ''plan requires a component and candidate generation''
      else if is_retired s component (ps_candidate_generation spec)
        then reject c RetiredGeneration ''candidate generation is retired and cannot be a rollout target''
      else case registry_find (ds_components s) component (ps_candidate_generation spec) of
          None \<Rightarrow> reject c NotFound ''candidate runtime generation is not registered''
        | Some candidate \<Rightarrow>
      (case authoritative_generation (ds_components s) component of
          None \<Rightarrow> reject c Conflict ''component has no authoritative generation to evolve away from''
        | Some authoritative \<Rightarrow>
            if authoritative = ps_candidate_generation spec
              then reject c Conflict ''candidate generation is already authoritative''
            else if active_plan s component \<noteq> None
              then reject c Conflict ''an active evolution plan already exists for this component''
            else case registry_find (ds_components s) component authoritative of
                None \<Rightarrow> reject c Internal ''authoritative generation is not registered''
              | Some current \<Rightarrow>
                  (case plan_spec_refusal s spec authoritative candidate current of
                     Some (e, text) \<Rightarrow> reject c e text
                   | None \<Rightarrow> create_checked_plan spec authoritative candidate current c)))"

section \<open>Stages\<close>

definition migration_committed :: "MigrationOutcome \<Rightarrow> bool" where
  "migration_committed outcome \<longleftrightarrow>
     outcome = MigrationOutcome.Committed \<or> outcome = RollbackAvailable \<or> outcome = Irreversible"

text \<open>The records of a plan that count as a completed migration; the last one decides irreversibility.\<close>

definition plan_migrations :: "DurableState \<Rightarrow> ident \<Rightarrow> MigrationRecord list" where
  "plan_migrations s i = filter (\<lambda>m. mrec_plan m = i \<and> migration_committed (mrec_outcome m)) (ds_migrations s)"

definition rollback_still_valid :: "DurableState \<Rightarrow> EvolutionPlan \<Rightarrow> bool" where
  "rollback_still_valid s plan \<longleftrightarrow>
     (let native = (case registry_find (ds_components s) (ep_component plan) (ep_current_generation plan) of
            Some v \<Rightarrow> gs_highest (ss_writable (rv_schemas v)) | None \<Rightarrow> gen_unset)
      in if gen_is_set native \<and> ep_schema_generation plan = native then True
         else (case schema_find (ds_schemas s) component_state_schema (ep_schema_generation plan) of
                 Some d \<Rightarrow> gen_is_set (sd_reverse_migration_to d) | None \<Rightarrow> False)
              \<or> ep_schema_generation plan = ep_migration_source plan)"

definition stage_preconditions :: "Coord \<Rightarrow> EvolutionPlan \<Rightarrow> StagePreconditions" where
  "stage_preconditions c plan =
     (let s = c_durable c;
          edge = matrix_find (ds_matrix s) (ep_current_generation plan) (ep_candidate_generation plan);
          records = plan_migrations s (ep_id plan);
          old_live = live_worker_count c (ep_component plan) (ep_current_generation plan);
          candidate_live = live_worker_count c (ep_component plan) (ep_candidate_generation plan);
          any_undrained_old = list_ex (\<lambda>w. lw_component w = ep_component plan
            \<and> lw_generation w = ep_current_generation plan \<and> lw_active w \<and> \<not> lw_draining w) (om_vals (c_live c))
      in \<lparr>sp_compatibility_proven = (case edge of
              Some e \<Rightarrow> has_permission (ed_permissions e) ControlChannel
                \<and> has_permission (ed_permissions e) CoexistDuringRollout
            | None \<Rightarrow> False),
          sp_migration_contract_bound = (ep_migration plan \<noteq> [] \<and> gen_is_set (ep_migration_generation plan)
            \<and> gen_is_set (ep_migration_source plan) \<and> gen_is_set (ep_migration_target plan)),
          sp_migration_complete = (records \<noteq> []),
          sp_migration_irreversible = (records \<noteq> [] \<and> mrec_irreversible (last records)),
          sp_old_writers_drained = (old_live = 0 \<and> candidate_live > 0),
          sp_new_writer_fence_satisfied = (\<not> any_undrained_old),
          sp_rollback_valid = (ep_rollback_barrier_crossed plan \<or> rollback_still_valid s plan),
          sp_evidence_current = (case edge of Some e \<Rightarrow> evidence_current c e | None \<Rightarrow> False),
          sp_canary_cohort_active = (candidate_live > 0),
          sp_mixed_version_active = (candidate_live > 0 \<and> old_live > 0)\<rparr>)"

text \<open>The candidate is walked through the lifecycle states up to the one the stage implies; states
  outside forward progress stop the walk.\<close>

fun progress_rank :: "LifecycleState \<Rightarrow> int" where
  "progress_rank CanaryActive = 1"
| "progress_rank MixedVersionActive = 2"
| "progress_rank RolloutActive = 3"
| "progress_rank Current = 4"
| "progress_rank Draining = -1"
| "progress_rank RollbackPending = -1"
| "progress_rank RollingBack = -1"
| "progress_rank LifecycleState.RolledBack = -1"
| "progress_rank RetirementPending = -1"
| "progress_rank Retired = -1"
| "progress_rank LifecycleState.RevalidationRequired = -1"
| "progress_rank LifecycleState.Failed = -1"
| "progress_rank _ = 0"

definition stage_walk :: "(LifecycleState \<times> RolloutStage) list" where
  "stage_walk = [(CanaryActive, CanaryCohort), (MixedVersionActive, MixedVersionCohort), (RolloutActive, ExpandedCohort),
     (Current, FullPromotion)]"

fun walk_candidate :: "nat \<Rightarrow> ident \<Rightarrow> gen \<Rightarrow> (LifecycleState \<times> RolloutStage) list \<Rightarrow> Coord \<Rightarrow> Status \<times> Coord" where
  "walk_candidate rank component generation [] c = (status_ok, c)"
| "walk_candidate rank component generation ((state, threshold) # walk) c =
     (if rank < rollout_stage_rank threshold then (status_ok, c)
      else case registry_find (ds_components (c_durable c)) component generation of
          None \<Rightarrow> (status_ok, c)
        | Some v \<Rightarrow>
            if progress_rank (rv_lifecycle v) < 0 then (status_ok, c)
            else if progress_rank (rv_lifecycle v) \<ge> progress_rank state
              then walk_candidate rank component generation walk c
            else let (transition, c) = advance_lifecycle component generation state c
              in if is_failure transition then (transition, c)
                 else walk_candidate rank component generation walk c)"

text \<open>Draining the old generation unless it is draining already.\<close>

definition drain_current :: "EvolutionPlan \<Rightarrow> Status \<Rightarrow> Coord \<Rightarrow> Status \<times> Coord" where
  "drain_current plan transition c =
     (case registry_find (ds_components (c_durable c)) (ep_component plan) (ep_current_generation plan) of
        Some v \<Rightarrow> if rv_lifecycle v \<noteq> Draining
          then advance_lifecycle (ep_component plan) (ep_current_generation plan) Draining c else (transition, c)
      | None \<Rightarrow> (transition, c))"

definition enter_stage :: "RolloutStage \<Rightarrow> EvolutionPlan \<Rightarrow> Coord \<Rightarrow> EvolutionPlan" where
  "enter_stage target plan c =
     (case target of
        MigrationBarrier \<Rightarrow>
          if gen_is_set (ep_migration_target plan)
            then plan\<lparr>ep_schema_generation := ep_migration_target plan\<rparr> else plan
      | NewWriterEnabled \<Rightarrow>
          let plan = plan\<lparr>ep_new_writer_enabled := True\<rparr> in
          (case registry_find (ds_components (c_durable c)) (ep_component plan) (ep_candidate_generation plan) of
             Some v \<Rightarrow>
               let plan = plan\<lparr>ep_protocol_generation := gs_highest (ps_supported (rv_protocols v))\<rparr>;
                   native = gs_highest (ss_writable (rv_schemas v))
               in if gen_is_set native then plan\<lparr>ep_schema_generation := native\<rparr> else plan
           | None \<Rightarrow> plan)
      | _ \<Rightarrow> plan)"

definition drain_for_stage :: "RolloutStage \<Rightarrow> EvolutionPlan \<Rightarrow> Status \<Rightarrow> Coord \<Rightarrow> Status \<times> Coord" where
  "drain_for_stage target plan transition c =
     (case target of
        OldWriterDrain \<Rightarrow> drain_current plan transition c
      | FullPromotion \<Rightarrow> if is_ok transition then drain_current plan transition c else (transition, c)
      | _ \<Rightarrow> (transition, c))"

text \<open>The plan and the counters at the new stage; the evidence generation of the record is already the
  next one.\<close>

definition stage_plan :: "DurableState \<Rightarrow> RolloutStage \<Rightarrow> StageDecision \<Rightarrow> EvolutionPlan \<Rightarrow> EvolutionPlan \<times> PlanStageRecord" where
  "stage_plan s target decision plan =
     (let stage = gen_next (ds_stage_generation s);
          record = stage_record target stage (ep_epoch plan) (ds_coordinator_epoch s) (gen_next (ds_evidence_generation s))
            (if dn_explanation decision = [] then ''stage advanced'' else last (dn_explanation decision))
      in (plan\<lparr>ep_stage := target, ep_stage_generation := stage, ep_evidence := ds_evidence_generation s,
               ep_history := push_bounded kStageHistory record (ep_history plan)\<rparr>, record))"

definition stage_json :: "EvolutionPlan \<Rightarrow> string" where
  "stage_json plan = json_doc [(''status'', JString ''OK''), (''plan'', JString (ep_id plan)),
     (''stage'', JString (stage_to_string (ep_stage plan))), (''stage_generation'', JNumber (ep_stage_generation plan)),
     (''protocol_generation'', JNumber (ep_protocol_generation plan)),
     (''schema_generation'', JNumber (ep_schema_generation plan)),
     (''new_writer_enabled'', JBool (ep_new_writer_enabled plan))]"

definition apply_stage :: "ident \<Rightarrow> RolloutStage \<Rightarrow> StageDecision \<Rightarrow> EvolutionPlan \<Rightarrow> Coord \<Rightarrow> CommandResult \<times> Coord" where
  "apply_stage i target decision plan c =
     (let (plan, record) = stage_plan (c_durable c) target decision plan;
          c = on_durable (\<lambda>s. put_plan_at i plan (s\<lparr>ds_stage_generation := ep_stage_generation plan,
                ds_evidence_generation := gen_next (ds_evidence_generation s),
                ds_stage_history := push_bounded kStageHistory record (ds_stage_history s)\<rparr>)) c;
          (transition, c) = walk_candidate (rollout_stage_rank target) (ep_component plan) (ep_candidate_generation plan)
            stage_walk c;
          plan = enter_stage target plan c;
          c = on_durable (put_plan_at i plan) c;
          (transition, c) = drain_for_stage target plan transition c
      in if is_failure transition then (failure_result transition, c)
         else finish (result_unset\<lparr>cr_json := stage_json plan, cr_explanation := dn_explanation decision\<rparr>)
                (refresh_worker_authority (ep_component plan) c))"

definition command_advance_stage :: "PeerIdentity \<Rightarrow> ident \<Rightarrow> RolloutStage \<Rightarrow> gen \<Rightarrow> Coord \<Rightarrow> CommandResult \<times> Coord" where
  "command_advance_stage peer i target expected c =
     (let s = c_durable c; authorized = validate_operator peer in
      if is_failure authorized then (failure_result authorized, c)
      else case plan_locked s i of
          None \<Rightarrow> reject c NotFound ''plan is not known''
        | Some plan \<Rightarrow>
            if ep_superseded plan then reject c StalePlan ''plan is superseded and cannot advance''
            else if gen_is_set expected \<and> expected \<noteq> ep_stage_generation plan
              then reject c StalePlan ''stage generation does not match; the request is late or duplicated''
            else if ep_matrix_generation plan \<noteq> mat_generation (ds_matrix s)
              then reject c ErrorCode.StaleEvidence ''compatibility matrix changed since the plan was bound; rebind the plan''
            else if ep_gate_generation plan \<noteq> fgr_generation (ds_gates s)
              then reject c ErrorCode.StaleEvidence ''feature-gate generation changed since the plan was bound; rebind the plan''
            else let decision = evaluate_stage_advance plan target (stage_preconditions c plan) in
              if \<not> dn_allowed decision
                then ((failure_result (dn_status decision))\<lparr>cr_explanation := dn_explanation decision\<rparr>, c)
              else apply_stage i target decision plan c)"

definition command_rebind_plan :: "PeerIdentity \<Rightarrow> ident \<Rightarrow> gen \<Rightarrow> Coord \<Rightarrow> CommandResult \<times> Coord" where
  "command_rebind_plan peer i expected c =
     (let s = c_durable c; authorized = validate_operator peer in
      if is_failure authorized then (failure_result authorized, c)
      else case plan_locked s i of
          None \<Rightarrow> reject c NotFound ''plan is not known''
        | Some plan \<Rightarrow>
            if ep_superseded plan then reject c StalePlan ''superseded plan cannot be rebound''
            else if gen_is_set expected \<and> expected \<noteq> ep_generation plan
              then reject c StalePlan ''plan generation does not match''
            else
              let plan = plan\<lparr>ep_generation := gen_next (ep_generation plan),
                    ep_matrix_generation := mat_generation (ds_matrix s),
                    ep_gate_generation := fgr_generation (ds_gates s), ep_evidence := ds_evidence_generation s\<rparr>;
                  json = json_doc [(''status'', JString ''OK''), (''plan'', JString (ep_id plan)),
                    (''plan_generation'', JNumber (ep_generation plan)),
                    (''matrix_generation'', JNumber (ep_matrix_generation plan)),
                    (''gate_generation'', JNumber (ep_gate_generation plan))]
              in finish (ok_json json ''plan rebound to current compatibility and gate generations'')
                   (on_durable (put_plan_at i plan) c))"


section \<open>Features\<close>

definition gate_context :: "EvolutionPlan \<Rightarrow> gen \<Rightarrow> gen \<Rightarrow> gen \<Rightarrow> CompatibilityEdge option \<Rightarrow> bool \<Rightarrow> GateContext" where
  "gate_context plan runtime protocol schema edge old_writers_live = \<lparr>gc_runtime_generation = runtime,
     gc_protocol_generation = protocol, gc_schema_generation = schema,
     gc_peer_outcome = (case edge of
         Some e \<Rightarrow> if old_writers_live then MixedVersionCompatible else ed_outcome e PeerVersion
       | None \<Rightarrow> CompatOutcome.Unknown),
     gc_cohort = ep_canary_cohort plan, gc_plan = ep_id plan, gc_stage = ep_stage_generation plan\<rparr>"

definition rebind_gate :: "gen \<Rightarrow> EvolutionPlan \<Rightarrow> EvolutionPlan" where
  "rebind_gate generation plan =
     (if ep_superseded plan then plan else if \<not> plan_is_active plan then plan
      else plan\<lparr>ep_gate_generation := generation\<rparr>)"

definition apply_feature :: "ident \<Rightarrow> ident \<Rightarrow> EvolutionPlan \<Rightarrow> GateDecision \<Rightarrow> Coord \<Rightarrow> CommandResult \<times> Coord" where
  "apply_feature feature i plan decision c =
     (let (enabled, registry) = gate_set_enabled (ds_gates (c_durable c)) feature True (ep_id plan) (ep_stage_generation plan);
          c = on_durable (\<lambda>s. s\<lparr>ds_gates := registry\<rparr>) c
      in if is_failure enabled then (failure_result enabled, c)
         else
           let generation = fgr_generation (ds_gates (c_durable c));
               c = on_durable (\<lambda>s. s\<lparr>ds_plans := om_map_vals (rebind_gate generation) (ds_plans s)\<rparr>) c;
               c = on_durable (put_plan_at i (plan\<lparr>ep_gate_generation := generation\<rparr>)) c;
               c = next_evidence (on_durable (\<lambda>s. s\<lparr>ds_gate_generation := generation\<rparr>) c);
               json = json_doc [(''status'', JString ''OK''), (''feature'', JString feature),
                 (''gate_generation'', JNumber generation),
                 (''protocol_generation'', JNumber (ep_protocol_generation plan)),
                 (''schema_generation'', JNumber (ep_schema_generation plan))]
           in finish (result_unset\<lparr>cr_json := json, cr_explanation := gd_explanation decision
                 @ [''active plans rebound to the new feature-gate generation'']\<rparr>) c)"

definition command_enable_feature :: "PeerIdentity \<Rightarrow> ident \<Rightarrow> ident \<Rightarrow> Coord \<Rightarrow> CommandResult \<times> Coord" where
  "command_enable_feature peer feature i c =
     (let s = c_durable c; authorized = validate_operator peer in
      if is_failure authorized then (failure_result authorized, c)
      else case plan_locked s i of
          None \<Rightarrow> reject c NotFound ''plan is not known''
        | Some plan \<Rightarrow>
      (if ep_superseded plan then reject c StalePlan ''superseded plan cannot enable features''
       else if gate_find (ds_gates s) feature = None then reject c NotFound ''feature gate is not defined''
       else case registry_find (ds_components s) (ep_component plan) (ep_candidate_generation plan) of
           None \<Rightarrow> reject c NotFound ''candidate generation is not registered''
         | Some candidate \<Rightarrow>
             if (case find_feature candidate feature of Some f \<Rightarrow> \<not> fs_can_publish f | None \<Rightarrow> True)
               then reject c Incompatible ''candidate generation does not declare support for the feature''
             else
               let edge = matrix_find (ds_matrix s) (ep_current_generation plan) (ep_candidate_generation plan);
                   old_writers_live = live_worker_count c (ep_component plan) (ep_current_generation plan) > 0;
                   context = gate_context plan (ep_candidate_generation plan) (ep_protocol_generation plan)
                     (ep_schema_generation plan) edge old_writers_live;
                   decision = gate_evaluate (ds_gates s) feature context False
               in if \<not> gd_permitted decision
                    then ((failure_result (gd_status decision))\<lparr>cr_explanation := gd_explanation decision\<rparr>, c)
                  else apply_feature feature i plan decision c))"

end
