(* ===== verification/Ref_Actions.thy ===== *)
theory Ref_Actions
  imports Ref_Commands
begin

text \<open>
  Authority transitions (\<open>src/coordinator_actions.cpp\<close>): built-in features, draining, dispatching
  migrations, rollback, retirement, superseding plans, lifecycle changes, fencing, completions,
  negotiation and the state transform; with the sending of frames to workers
  (\<open>send_to_worker_locked\<close> in \<open>src/coordinator_net.cpp\<close>) they need.
\<close>

section \<open>Built-in features\<close>

definition builtin_gate :: "ident \<Rightarrow> gen \<Rightarrow> gen \<Rightarrow> gen \<Rightarrow> CompatOutcome \<Rightarrow> string \<Rightarrow> FeatureGate" where
  "builtin_gate i runtime protocol schema outcome remark = \<lparr>fg_id = i, fg_generation = gen_first,
     fg_min_runtime_generation = runtime, fg_min_protocol_generation = protocol, fg_min_schema_generation = schema,
     fg_required_peer_aspect = PeerVersion, fg_required_peer_outcome = outcome, fg_scope = [], fg_enabled = False,
     fg_enabled_by = [], fg_enabled_at = gen_unset, fg_provenance = Real, fg_evidence = gen_first,
     fg_notes = note96 remark\<rparr>"

definition install_builtin_features :: "Coord \<Rightarrow> Status \<times> Coord" where
  "install_builtin_features c =
     (let gates = ds_gates (c_durable c);
          bind = on_durable (\<lambda>s. s\<lparr>ds_gate_generation := fgr_generation (ds_gates s)\<rparr>) in
      if gate_find gates shadow_query_feature_id \<noteq> None \<and> gate_find gates token_transform_feature_id \<noteq> None
        then save_state (bind c)
      else
        let shadow = builtin_gate shadow_query_feature_id 1 1 1 MixedVersionCompatible
              ''read-only shadow queries on a candidate runtime'';
            (shadow_status, gates) = gate_define gates shadow;
            c = on_durable (\<lambda>s. s\<lparr>ds_gates := gates\<rparr>) c
        in if is_failure shadow_status then (shadow_status, c)
           else
             let transform = builtin_gate token_transform_feature_id 2 2 3 FullyCompatible
                   ''protocol-2 state transformation; requires drained old writers'';
                 (transform_status, gates) = gate_define gates transform;
                 c = on_durable (\<lambda>s. s\<lparr>ds_gates := gates\<rparr>) c
             in if is_failure transform_status then (transform_status, c) else save_state (bind c))"


section \<open>Sending to a worker\<close>

definition put_session :: "Session \<Rightarrow> Coord \<Rightarrow> Coord" where
  "put_session session c = c\<lparr>c_sessions := om_upd (se_id session) session (c_sessions c)\<rparr>"

definition send_to_worker :: "ident \<Rightarrow> MessageType \<Rightarrow> WireMessage \<Rightarrow> Frame \<Rightarrow> Coord \<Rightarrow> Status \<times> Coord" where
  "send_to_worker worker type payload template c =
     (case om_find (c_worker_sessions c) worker of
        None \<Rightarrow> (failure NotFound ''worker has no live session'', c)
      | Some i \<Rightarrow>
          (case om_find (c_sessions c) i of
             None \<Rightarrow> (failure NotFound ''worker session is gone'', c)
           | Some session \<Rightarrow>
               if \<not> se_listed session then (failure NotFound ''worker session is gone'', c)
               else let encoded = wm_encode payload in
                 if length encoded > kFrameBytes
                   then (failure LimitExceeded ''outbound frame exceeds the frame bound'', c)
                 else
                   let c = c\<lparr>c_frame_counter := c_frame_counter c + 1\<rparr>;
                       frame = \<lparr>fr_header = (fr_header template)\<lparr>wh_type := type, wh_magic := kWireMagic,
                           wh_transport_version := kWireTransportVersion, wh_flags := 0,
                           wh_payload_length := of_nat (length encoded),
                           wh_coordinator_epoch := ds_coordinator_epoch (c_durable c),
                           wh_sequence := c_frame_counter c\<rparr>, fr_payload = encoded\<rparr>;
                       (sent, queue) = offer frame (se_outgoing session);
                       c = put_session (session\<lparr>se_outgoing := queue\<rparr>) c
                   in if sent = None then (failure QueueFull ''worker session queue is full; action not dispatched'', c)
                      else (status_ok, c)))"


section \<open>Drain\<close>

definition drain_frame :: "DurableState \<Rightarrow> ident \<Rightarrow> gen \<Rightarrow> LiveWorker \<Rightarrow> Frame" where
  "drain_frame s component generation w = frame_default\<lparr>fr_header := frame_header_default\<lparr>wh_type := RequestDrain,
     wh_runtime_generation := generation, wh_protocol_generation := lw_negotiated_protocol w,
     wh_schema_generation := lw_committed_schema w, wh_coordinator_epoch := ds_coordinator_epoch s,
     wh_boot := lw_boot w, wh_evolution_epoch := epoch_for s component\<rparr>\<rparr>"

definition drain_payload :: "DurableState \<Rightarrow> ident \<Rightarrow> gen \<Rightarrow> WireMessage" where
  "drain_payload s component generation =
     (let payload = with_u64 ''runtime_generation'' generation (with_text ''component'' component []) in
      case active_plan s component of
        Some plan \<Rightarrow> with_u64 ''stage_generation'' (ep_stage_generation plan) (with_text ''plan'' (ep_id plan) payload)
      | None \<Rightarrow> payload)"

definition on_generation :: "ident \<Rightarrow> gen \<Rightarrow> LiveWorker \<Rightarrow> bool" where
  "on_generation component generation w \<longleftrightarrow> lw_component w = component \<and> lw_generation w = generation"

definition dispatch_drain :: "ident \<Rightarrow> gen \<Rightarrow> Coord \<Rightarrow> Status \<times> Coord" where
  "dispatch_drain component generation c =
     (let workers = filter (\<lambda>(i, w). on_generation component generation w) (c_live c);
          c' = foldl (\<lambda>c (i, w). snd (send_to_worker i RequestDrain (drain_payload (c_durable c) component generation)
                 (drain_frame (c_durable c) component generation w) c)) c workers
      in if workers = [] then (failure NotFound ''no live workers for the requested generation'', c')
         else (status_ok, c'))"

definition mark_draining :: "ident \<Rightarrow> gen \<Rightarrow> LiveWorker \<Rightarrow> LiveWorker" where
  "mark_draining component generation w =
     (if on_generation component generation w then w\<lparr>lw_draining := True\<rparr> else w)"

definition drain_json :: "Coord \<Rightarrow> ident \<Rightarrow> gen \<Rightarrow> string" where
  "drain_json c component generation = json_doc [(''status'', JString ''OK''), (''component'', JString component),
     (''generation'', JNumber generation),
     (''workers_marked'', JNumber (of_nat (length (filter (on_generation component generation) (om_vals (c_live c)))))),
     (''live_processes'', JNumber (live_worker_count c component generation))]"

definition command_request_drain :: "PeerIdentity \<Rightarrow> ident \<Rightarrow> gen \<Rightarrow> Coord \<Rightarrow> CommandResult \<times> Coord" where
  "command_request_drain peer component generation c =
     (if \<not> pi_is_operator peer \<and> \<not> (pi_component peer = component \<and> pi_runtime_generation peer = generation)
        then reject c Unauthorized ''drain requests require operator authority or the drained generation''
      else if component = [] \<or> \<not> gen_is_set generation
        then reject c InvalidArgument ''drain requires a component and generation''
      else case registry_find (ds_components (c_durable c)) component generation of
          None \<Rightarrow> reject c NotFound ''runtime generation is not registered''
        | Some v \<Rightarrow>
            if is_terminal_lifecycle (rv_lifecycle v) then reject c RetiredGeneration ''runtime generation is retired''
            else
              let c = c\<lparr>c_live := om_map_vals (mark_draining component generation) (c_live c)\<rparr>;
                  (transition, c) = (if rv_lifecycle v \<noteq> Draining then advance_lifecycle component generation Draining c
                                     else (status_ok, c))
              in if is_failure transition \<and> rv_lifecycle v \<noteq> Current \<and> rv_lifecycle v \<noteq> MixedVersionActive
                    \<and> rv_lifecycle v \<noteq> RolloutActive \<and> rv_lifecycle v \<noteq> Eligible
                   then (failure_result transition, c)
                 else let (dispatched, c) = dispatch_drain component generation c in
                   if is_failure dispatched \<and> code dispatched \<noteq> NotFound then (failure_result dispatched, c)
                   else
                     let c = next_evidence (refresh_worker_authority component c)
                     in finish (ok_json (drain_json c component generation)
                          ''drain recorded; workers must report completion before retirement'') c)"


section \<open>Migration\<close>

definition action_open :: "PendingAction \<Rightarrow> bool" where
  "action_open a \<longleftrightarrow> pa_state a \<noteq> Acknowledged \<and> pa_state a \<noteq> Abandoned"

definition migration_payload :: "DurableState \<Rightarrow> EvolutionPlan \<Rightarrow> ident \<Rightarrow> gen \<Rightarrow> u64 \<Rightarrow> WireMessage" where
  "migration_payload s plan worker boot action_id =
     (let irreversible = (case schema_find (ds_schemas s) component_state_schema (ep_migration_target plan) of
            Some d \<Rightarrow> has_irreversible_field d \<or> \<not> gen_is_set (sd_reverse_migration_to d) | None \<Rightarrow> False)
      in (with_bool ''irreversible'' irreversible \<circ> with_u64 ''action_id'' action_id
          \<circ> with_u64 ''target'' (ep_migration_target plan) \<circ> with_u64 ''source'' (ep_migration_source plan)
          \<circ> with_u64 ''migration_generation'' (ep_migration_generation plan) \<circ> with_text ''migration'' (ep_migration plan)
          \<circ> with_u64 ''boot'' boot \<circ> with_text ''worker'' worker \<circ> with_text ''plan'' (ep_id plan)) [])"

definition migration_frame :: "DurableState \<Rightarrow> EvolutionPlan \<Rightarrow> gen \<Rightarrow> Frame" where
  "migration_frame s plan boot = frame_default\<lparr>fr_header := frame_header_default\<lparr>wh_type := RequestMigration,
     wh_runtime_generation := ep_candidate_generation plan, wh_protocol_generation := ep_protocol_generation plan,
     wh_schema_generation := ep_schema_generation plan, wh_coordinator_epoch := ds_coordinator_epoch s,
     wh_evolution_epoch := ep_epoch plan, wh_boot := boot\<rparr>\<rparr>"

text \<open>The attempt is registered before it is sent, and the last entry is updated afterwards.\<close>

definition new_action :: "Coord \<Rightarrow> EvolutionPlan \<Rightarrow> ident \<Rightarrow> gen \<Rightarrow> PendingAction" where
  "new_action c plan worker boot = \<lparr>pa_action_id = c_action_counter c + 1, pa_plan = ep_id plan, pa_worker = worker,
     pa_boot = boot, pa_migration = ep_migration plan, pa_migration_generation = ep_migration_generation plan,
     pa_source = ep_migration_source plan, pa_target = ep_migration_target plan, pa_state = ActionRegistered,
     pa_stage = ep_stage_generation plan, pa_detail = note96 ''migration attempt registered before dispatch''\<rparr>"

definition dispatch_migration :: "EvolutionPlan \<Rightarrow> ident \<Rightarrow> gen \<Rightarrow> Coord \<Rightarrow> Status \<times> Coord" where
  "dispatch_migration plan worker boot c =
     (if list_ex (\<lambda>a. pa_plan a = ep_id plan \<and> pa_worker a = worker \<and> action_open a) (c_pending c)
        then (failure Conflict ''a migration action for this plan and worker is already outstanding'', c)
      else if length (c_pending c) \<ge> kMigrationRecords then (failure LimitExceeded ''pending action bound reached'', c)
      else
        let action = new_action c plan worker boot; pending = c_pending c;
            c = c\<lparr>c_action_counter := c_action_counter c + 1, c_pending := pending @ [action]\<rparr>;
            (sent, c) = send_to_worker worker RequestMigration
              (migration_payload (c_durable c) plan worker boot (pa_action_id action)) (migration_frame (c_durable c) plan boot) c
        in if is_failure sent
             then (failure ErrorCode.OutcomeUnknown ''migration dispatch failed; the attempt is recorded as OUTCOME_UNKNOWN'',
                   c\<lparr>c_pending := pending @ [action\<lparr>pa_state := ActionOutcomeUnknown,
                      pa_detail := note96 ''dispatch failed; outcome unknown and not retried automatically''\<rparr>]\<rparr>)
           else (status_ok, c\<lparr>c_pending := pending @ [action\<lparr>pa_state := Dispatched\<rparr>]\<rparr>))"

definition migration_worker :: "Coord \<Rightarrow> EvolutionPlan \<Rightarrow> (ident \<times> LiveWorker) option" where
  "migration_worker c plan = List.find (\<lambda>(i, w). on_generation (ep_component plan) (ep_candidate_generation plan) w
     \<and> lw_active w \<and> \<not> lw_fenced w \<and> permits_mutation (lw_operation w)) (c_live c)"

definition command_request_migration :: "PeerIdentity \<Rightarrow> ident \<Rightarrow> Coord \<Rightarrow> CommandResult \<times> Coord" where
  "command_request_migration peer i c =
     (let s = c_durable c; authorized = validate_operator peer in
      if is_failure authorized then (failure_result authorized, c)
      else case plan_locked s i of
          None \<Rightarrow> reject c NotFound ''plan is not known''
        | Some plan \<Rightarrow>
            if ep_superseded plan then reject c StalePlan ''superseded plan cannot dispatch migration''
            else if ep_migration plan = [] \<or> \<not> gen_is_set (ep_migration_generation plan)
              then reject c InvalidArgument ''plan binds no migration''
            else if rollout_stage_rank (ep_stage plan) < rollout_stage_rank MigrationBarrier
              then reject c Conflict ''migration may only be dispatched once the migration barrier stage is reached''
            else if schema_find (ds_schemas s) component_state_schema (ep_migration_target plan) = None
              then reject c NotFound ''migration target schema generation is unknown''
            else case migration_worker c plan of
                None \<Rightarrow> reject c NotFound ''no candidate worker currently holds mutation authority for this migration''
              | Some (worker, w) \<Rightarrow>
                  let (dispatched, c) = dispatch_migration plan worker (lw_boot w) c;
                      result = (if is_failure dispatched
                        then (failure_result dispatched)\<lparr>cr_explanation := cr_explanation (failure_result dispatched)
                               @ [''attempt recorded; outcome unknown outcomes require reconciliation'']\<rparr>
                        else ok_json (json_doc [(''status'', JString ''OK''), (''plan'', JString (ep_id plan)),
                               (''worker'', JString worker),
                               (''migration_generation'', JNumber (ep_migration_generation plan)),
                               (''source'', JNumber (ep_migration_source plan)),
                               (''target'', JNumber (ep_migration_target plan))])
                             ''migration dispatched; completion is required before authority advances'')
                  in finish result c)"

section \<open>Rollback\<close>

definition rollback_request :: "Coord \<Rightarrow> EvolutionPlan \<Rightarrow> RollbackRequest" where
  "rollback_request c plan =
     (let s = c_durable c; target = registry_find (ds_components s) (ep_component plan) (ep_rollback_target plan);
          target_available = (case target of Some v \<Rightarrow> \<not> is_terminal_lifecycle (rv_lifecycle v) | None \<Rightarrow> False);
          reverse = (case schema_find (ds_schemas s) component_state_schema (ep_schema_generation plan) of
             Some d \<Rightarrow> gen_is_set (sd_reverse_migration_to d) \<and> \<not> ep_rollback_barrier_crossed plan | None \<Rightarrow> False)
      in \<lparr>rq_id = ident63 (''rollback-'' @ dec_u64 (ep_rollback_generation plan)),
          rq_generation = gen_next (ep_rollback_generation plan), rq_component = ep_component plan, rq_plan = ep_id plan,
          rq_plan_generation = ep_generation plan, rq_schema = component_state_schema,
          rq_current_generation = ep_candidate_generation plan, rq_target_generation = ep_rollback_target plan,
          rq_current_protocol = ep_protocol_generation plan,
          rq_target_protocol = (case target of Some v \<Rightarrow> gs_highest (ps_supported (rv_protocols v)) | None \<Rightarrow> gen_unset),
          rq_current_schema = ep_schema_generation plan,
          rq_target_schema = (case target of Some v \<Rightarrow> gs_highest (ss_writable (rv_schemas v)) | None \<Rightarrow> gen_unset),
          rq_irreversible_migration_crossed = ep_rollback_barrier_crossed plan, rq_reverse_migration_available = reverse,
          rq_state_restore_available = reverse, rq_target_process_available = target_available,
          rq_plan_superseded = ep_superseded plan, rq_gate_generation = fgr_generation (ds_gates s),
          rq_policy = rp_generation (ep_policy plan), rq_epoch = ep_epoch plan,
          rq_coordinator_epoch = ds_coordinator_epoch s, rq_evidence = ds_evidence_generation s,
          rq_evidence_floor = ds_evidence_generation s, rq_evidence_current = True, rq_current_stage = ep_stage plan\<rparr>)"

definition rollback_record :: "DurableState \<Rightarrow> EvolutionPlan \<Rightarrow> RollbackRequest \<Rightarrow> RollbackAssessment \<Rightarrow> RollbackRecord" where
  "rollback_record s plan request assessment = \<lparr>rb_id = rq_id request, rb_generation = rq_generation request,
     rb_component = ep_component plan, rb_from_generation = rq_current_generation request,
     rb_to_generation = rq_target_generation request, rb_plan = ep_id plan, rb_outcome = ra_outcome assessment,
     rb_epoch = ep_epoch plan, rb_coordinator_epoch = ds_coordinator_epoch s, rb_recorded_at = ds_stage_generation s,
     rb_detail = detail_text (if ra_explanation assessment = [] then ''rollback evaluated''
       else last (ra_explanation assessment))\<rparr>"

definition refuse_rollback :: "RollbackRecord \<Rightarrow> RollbackAssessment \<Rightarrow> Coord \<Rightarrow> CommandResult \<times> Coord" where
  "refuse_rollback record assessment c =
     (if length (ds_rollbacks (c_durable c)) \<ge> kRollbackRecords
        then reject c LimitExceeded ''rollback history bound reached''
      else finish ((failure_result (ra_status assessment))\<lparr>cr_explanation := ra_explanation assessment,
               cr_json := json_doc [(''status'', JString (error_code_to_string (code (ra_status assessment)))),
                 (''detail'', JString (detail (ra_status assessment))),
                 (''rollback_outcome'', JString (rollback_outcome_to_string (ra_outcome assessment)))]\<rparr>)
             (on_durable (\<lambda>s. s\<lparr>ds_rollbacks := ds_rollbacks s @ [record]\<rparr>) c))"

text \<open>Lifecycle changes one after the other, up to the first that fails.\<close>

fun advance_all :: "ident \<Rightarrow> gen \<Rightarrow> LifecycleState list \<Rightarrow> Coord \<Rightarrow> Status \<times> Coord" where
  "advance_all component generation [] c = (status_ok, c)"
| "advance_all component generation (state # states) c =
     (let (transition, c) = advance_lifecycle component generation state c
      in if is_failure transition then (transition, c) else advance_all component generation states c)"

definition demote_candidate :: "EvolutionPlan \<Rightarrow> Coord \<Rightarrow> Status \<times> Coord" where
  "demote_candidate plan c =
     (case registry_find (ds_components (c_durable c)) (ep_component plan) (ep_candidate_generation plan) of
        Some _ \<Rightarrow> advance_all (ep_component plan) (ep_candidate_generation plan)
          [RollbackPending, RollingBack, LifecycleState.RolledBack] c
      | None \<Rightarrow> (status_ok, c))"

definition resume_target :: "EvolutionPlan \<Rightarrow> Coord \<Rightarrow> Status \<times> Coord" where
  "resume_target plan c =
     (let component = ep_component plan; target = ep_rollback_target plan in
      case registry_find (ds_components (c_durable c)) component target of
        None \<Rightarrow> (status_ok, c)
      | Some v \<Rightarrow>
          let (transition, c) = (if rv_lifecycle v = Draining
                then advance_lifecycle component target LifecycleState.RolledBack c else (status_ok, c))
          in if is_failure transition then (transition, c)
             else case registry_find (ds_components (c_durable c)) component target of
                 Some v \<Rightarrow> if rv_lifecycle v \<noteq> Current then advance_lifecycle component target Current c
                   else (status_ok, c)
               | None \<Rightarrow> (status_ok, c))"

definition rollback_payload :: "EvolutionPlan \<Rightarrow> ident \<Rightarrow> gen \<Rightarrow> WireMessage" where
  "rollback_payload plan worker boot = (with_u64 ''boot'' boot \<circ> with_text ''worker'' worker
     \<circ> with_u64 ''target_schema'' (ep_migration_source plan) \<circ> with_text ''plan'' (ep_id plan)) []"

definition dispatch_rollback_state :: "EvolutionPlan \<Rightarrow> ident \<Rightarrow> gen \<Rightarrow> Coord \<Rightarrow> Status \<times> Coord" where
  "dispatch_rollback_state plan worker boot c =
     (if worker = [] then (failure NotFound ''no worker session to notify'', c)
      else send_to_worker worker RequestRollback (rollback_payload plan worker boot)
        (frame_default\<lparr>fr_header := frame_header_default\<lparr>wh_type := RequestRollback,
           wh_runtime_generation := ep_rollback_target plan, wh_protocol_generation := ep_protocol_generation plan,
           wh_schema_generation := ep_migration_source plan,
           wh_coordinator_epoch := ds_coordinator_epoch (c_durable c), wh_evolution_epoch := ep_epoch plan\<rparr>\<rparr>) c)"

definition rolled_back_plan :: "DurableState \<Rightarrow> RollbackRequest \<Rightarrow> EvolutionPlan \<Rightarrow> EvolutionPlan \<times> PlanStageRecord" where
  "rolled_back_plan s request plan =
     (let stage = gen_next (ds_stage_generation s);
          record = stage_record RolloutStage.RolledBack stage (ep_epoch plan) (ds_coordinator_epoch s)
            (ds_evidence_generation s) ''rollback committed; candidate generation lost authority''
      in (plan\<lparr>ep_stage := RolloutStage.RolledBack, ep_rollback_generation := rq_generation request,
               ep_new_writer_enabled := False, ep_stage_generation := stage, ep_history := ep_history plan @ [record]\<rparr>,
          record))"

definition commit_rollback :: "ident \<Rightarrow> RollbackRequest \<Rightarrow> RollbackRecord \<Rightarrow> RollbackAssessment \<Rightarrow> EvolutionPlan \<Rightarrow> Coord
    \<Rightarrow> CommandResult \<times> Coord" where
  "commit_rollback i request record assessment plan c =
     (let (plan, stage) = rolled_back_plan (c_durable c) request plan;
          record = record\<lparr>rb_outcome := RollbackOutcome.Committed, rb_recorded_at := ep_stage_generation plan,
            rb_detail := detail_text ''rollback committed''\<rparr>;
          c = on_durable (\<lambda>s. put_plan_at i plan (s\<lparr>ds_stage_generation := ep_stage_generation plan,
                ds_stage_history := push_bounded kStageHistory stage (ds_stage_history s),
                ds_rollbacks := (if length (ds_rollbacks s) < kRollbackRecords then ds_rollbacks s @ [record]
                                 else ds_rollbacks s)\<rparr>)) c;
          c = on_stats (\<lambda>st. st\<lparr>st_rollbacks_committed := st_rollbacks_committed st + 1\<rparr>) c;
          c = next_evidence (refresh_worker_authority (ep_component plan) c)
      in finish (result_unset\<lparr>cr_json := json_doc [(''status'', JString ''OK''), (''plan'', JString (ep_id plan)),
               (''rollback_outcome'', JString (rollback_outcome_to_string RollbackOutcome.Committed)),
               (''rollback_generation'', JNumber (ep_rollback_generation plan)),
               (''authoritative_generation'', JNumber (ep_rollback_target plan))],
             cr_explanation := ra_explanation assessment\<rparr>) c)"

definition command_request_rollback :: "PeerIdentity \<Rightarrow> ident \<Rightarrow> Coord \<Rightarrow> CommandResult \<times> Coord" where
  "command_request_rollback peer i c =
     (let s = c_durable c; authorized = validate_operator peer in
      if is_failure authorized then (failure_result authorized, c)
      else case plan_locked s i of
          None \<Rightarrow> reject c NotFound ''plan is not known''
        | Some plan \<Rightarrow>
            if ep_stage plan = RolloutStage.RolledBack then reject c Conflict ''plan has already been rolled back''
            else
              let request = rollback_request c plan;
                  assessment = evaluate_rollback request (ds_matrix s) (ds_components s) (ds_schemas s);
                  record = rollback_record s plan request assessment
              in if \<not> rollback_is_allowed assessment then refuse_rollback record assessment c
                 else let (transition, c) = demote_candidate plan c in
                   if is_failure transition then (failure_result transition, c)
                   else let (transition, c) = resume_target plan c in
                     if is_failure transition then (failure_result transition, c)
                     else let (dispatched, c) = dispatch_rollback_state plan [] gen_unset c in
                       if is_failure dispatched \<and> code dispatched \<noteq> NotFound then (failure_result dispatched, c)
                       else commit_rollback i request record assessment plan c)"


section \<open>Retirement\<close>

definition retirement_preconditions :: "Coord \<Rightarrow> ident \<Rightarrow> gen \<Rightarrow> RetirementPreconditions" where
  "retirement_preconditions c component generation =
     (let s = c_durable c; workers = filter (on_generation component generation) (om_vals (c_live c));
          unfenced = filter (\<lambda>w. \<not> lw_fenced w) workers; plan = active_plan s component
      in \<lparr>rt_component = component, rt_generation = generation, rt_live_processes = of_nat (length unfenced),
          rt_active_workers = of_nat (length (filter (\<lambda>w. lw_active w \<and> \<not> lw_draining w) unfenced)),
          rt_pending_work = list_ex (\<lambda>r. wr_component r = component \<and> wr_generation r = generation \<and> \<not> wr_fenced r
            \<and> \<not> wr_drained r) (om_vals (ds_workers s)),
          rt_incompatible_writers_fenced = \<not> list_ex (\<lambda>w. \<not> lw_fenced w \<and> \<not> lw_draining w) workers,
          rt_migration_complete = (case plan of
              Some p \<Rightarrow> ep_migration p = [] \<or> plan_migrations s (ep_id p) \<noteq> [] | None \<Rightarrow> True),
          rt_rollback_policy_allows_retirement = (case plan of
              Some p \<Rightarrow> ep_rollback_barrier_crossed p \<or> ep_rollback_target p \<noteq> generation | None \<Rightarrow> True),
          rt_checkpoints_retained = \<not> list_ex (\<lambda>m. mrec_plan m \<noteq> []
            \<and> (case plan of Some p \<Rightarrow> mrec_plan m = ep_id p | None \<Rightarrow> True)
            \<and> mrec_irreversible m \<and> \<not> mrec_rollback_metadata_preserved m) (ds_migrations s),
          rt_superseded = (case plan of Some p \<Rightarrow> ep_superseded p | None \<Rightarrow> False)\<rparr>)"

text \<open>The way to \<open>RETIREMENT_PENDING\<close>, by way of \<open>DRAINING\<close> when it cannot be entered directly.\<close>

definition pend_retirement :: "ident \<Rightarrow> gen \<Rightarrow> LifecycleState \<Rightarrow> Coord \<Rightarrow> Status \<times> Coord" where
  "pend_retirement component generation state c =
     (if state = RetirementPending then (status_ok, c)
      else let (transition, c) = advance_lifecycle component generation RetirementPending c in
        if is_failure transition \<and> (state = LifecycleState.Failed \<or> state = Draining \<or> state = Current \<or> state = Eligible)
          then advance_all component generation [Draining, RetirementPending] c
        else (transition, c))"

definition fence_live :: "ident \<Rightarrow> gen \<Rightarrow> LiveWorker \<Rightarrow> LiveWorker" where
  "fence_live component generation w =
     (if on_generation component generation w then w\<lparr>lw_fenced := True, lw_active := False\<rparr> else w)"

definition retired_boot :: "DurableState \<Rightarrow> ident \<Rightarrow> gen \<Rightarrow> ident \<Rightarrow> LiveWorker \<Rightarrow> FencedBoot" where
  "retired_boot s component generation i w = \<lparr>fb_worker = i, fb_boot = lw_boot w, fb_component = component,
     fb_generation = generation, fb_reason = note96 ''runtime generation retired'', fb_fenced_at = ds_stage_generation s\<rparr>"

definition fence_boot_of :: "ident \<Rightarrow> gen \<Rightarrow> DurableState \<Rightarrow> ident \<times> LiveWorker \<Rightarrow> DurableState" where
  "fence_boot_of component generation s entry =
     (let (i, w) = entry in
      if om_size (ds_fenced_boots s) < kFencedBoots
        then s\<lparr>ds_fenced_boots := om_upd (i, lw_boot w) (retired_boot s component generation i w) (ds_fenced_boots s)\<rparr>
      else s)"

definition fence_record_of :: "ident \<Rightarrow> gen \<Rightarrow> WorkerRecord \<Rightarrow> WorkerRecord" where
  "fence_record_of component generation r =
     (if wr_component r = component \<and> wr_generation r = generation then r\<lparr>wr_fenced := True\<rparr> else r)"

definition retirement_record :: "DurableState \<Rightarrow> RetirementPreconditions \<Rightarrow> ident \<Rightarrow> gen \<Rightarrow> RetirementRecord" where
  "retirement_record s pre component generation = \<lparr>rr_component = component, rr_generation = generation,
     rr_recorded_at = ds_stage_generation s, rr_epoch = ds_evolution_epoch s, rr_coordinator_epoch = ds_coordinator_epoch s,
     rr_checkpoints_retained = rt_checkpoints_retained pre,
     rr_detail = detail_text ''retired; reconnects and late frames are rejected''\<rparr>"

definition commit_retirement :: "ident \<Rightarrow> gen \<Rightarrow> RetirementPreconditions \<Rightarrow> RetirementAssessment \<Rightarrow> Coord
    \<Rightarrow> CommandResult \<times> Coord" where
  "commit_retirement component generation pre assessment c =
     (let workers = filter (\<lambda>(i, w). on_generation component generation w) (c_live c);
          c = on_durable (\<lambda>s. s\<lparr>ds_retirements := om_upd (component, generation)
                (retirement_record s pre component generation) (ds_retirements s)\<rparr>) c;
          c = on_durable (\<lambda>s. foldl (fence_boot_of component generation) s workers)
                (c\<lparr>c_live := om_map_vals (fence_live component generation) (c_live c)\<rparr>);
          c = on_durable (\<lambda>s. s\<lparr>ds_workers := om_map_vals (fence_record_of component generation) (ds_workers s)\<rparr>) c;
          c = on_stats (\<lambda>st. st\<lparr>st_retirements_committed := st_retirements_committed st + 1,
                st_fenced_boots := st_fenced_boots st + 1\<rparr>) c;
          c = next_evidence (refresh_worker_authority component c)
      in finish (result_unset\<lparr>cr_json := json_doc [(''status'', JString ''OK''), (''component'', JString component),
               (''generation'', JNumber generation), (''fenced_workers'', JNumber (of_nat (length workers)))],
             cr_explanation := rta_explanation assessment\<rparr>) c)"

definition command_request_retirement :: "PeerIdentity \<Rightarrow> ident \<Rightarrow> gen \<Rightarrow> Coord \<Rightarrow> CommandResult \<times> Coord" where
  "command_request_retirement peer component generation c =
     (let authorized = validate_operator peer in
      if is_failure authorized then (failure_result authorized, c)
      else case registry_find (ds_components (c_durable c)) component generation of
          None \<Rightarrow> reject c NotFound ''runtime generation is not registered''
        | Some v \<Rightarrow>
            if is_terminal_lifecycle (rv_lifecycle v)
              then reject c RetiredGeneration ''runtime generation is already retired''
            else
              let pre = retirement_preconditions c component generation; assessment = evaluate_retirement pre in
              if \<not> rta_allowed assessment
                then ((failure_result (rta_status assessment))\<lparr>cr_explanation := rta_explanation assessment\<rparr>, c)
              else let (transition, c) = pend_retirement component generation (rv_lifecycle v) c in
                if is_failure transition then (failure_result transition, c)
                else let (retired, c) = advance_lifecycle component generation Retired c in
                  if is_failure retired then (failure_result retired, c)
                  else if om_size (ds_retirements (c_durable c)) \<ge> kRetiredGenerations
                    then reject c LimitExceeded ''retirement table bound reached''
                  else commit_retirement component generation pre assessment c)"


section \<open>Supersession, lifecycle, fencing\<close>

definition command_supersede_plan :: "PeerIdentity \<Rightarrow> ident \<Rightarrow> Coord \<Rightarrow> CommandResult \<times> Coord" where
  "command_supersede_plan peer i c =
     (let s = c_durable c; authorized = validate_operator peer in
      if is_failure authorized then (failure_result authorized, c)
      else case plan_locked s i of
          None \<Rightarrow> reject c NotFound ''plan is not known''
        | Some plan \<Rightarrow>
            if ep_superseded plan then reject c Conflict ''plan is already superseded''
            else
              let stage = gen_next (ds_stage_generation s);
                  record = stage_record RolloutStage.Superseded stage (ep_epoch plan) (ds_coordinator_epoch s)
                    (ds_evidence_generation s) ''plan superseded; late completions are rejected'';
                  plan = plan\<lparr>ep_superseded := True, ep_stage := RolloutStage.Superseded,
                    ep_generation := gen_next (ep_generation plan), ep_stage_generation := stage,
                    ep_history := ep_history plan @ [record]\<rparr>;
                  c = next_evidence (on_durable (\<lambda>s. put_plan_at i plan (s\<lparr>ds_stage_generation := stage,
                        ds_stage_history := push_bounded kStageHistory record (ds_stage_history s)\<rparr>)) c)
              in finish (ok_json (json_doc [(''status'', JString ''OK''), (''plan'', JString (ep_id plan)),
                     (''stage'', JString (stage_to_string (ep_stage plan)))])
                   ''plan superseded; historical record preserved'') c)"

definition command_request_lifecycle :: "PeerIdentity \<Rightarrow> ident \<Rightarrow> gen \<Rightarrow> LifecycleState \<Rightarrow> Coord \<Rightarrow> CommandResult \<times> Coord" where
  "command_request_lifecycle peer component generation nxt c =
     (let authorized = validate_operator peer in
      if is_failure authorized then (failure_result authorized, c)
      else if component = [] \<or> \<not> gen_is_set generation
        then reject c InvalidArgument ''lifecycle change requires a generation''
      else case registry_find (ds_components (c_durable c)) component generation of
          None \<Rightarrow> reject c NotFound ''runtime generation is not registered''
        | Some v \<Rightarrow>
            if is_terminal_lifecycle (rv_lifecycle v)
              then reject c RetiredGeneration ''RETIRED is terminal for this runtime generation''
            else
              let states = (if nxt = Current \<and> rv_lifecycle v = LifecycleState.Registered
                            then [CompatibilityPending, Eligible, nxt] else [nxt]);
                  (transition, c) = advance_all component generation states c
              in if is_failure transition then (failure_result transition, c)
                 else finish (ok_json (json_doc [(''status'', JString ''OK''), (''component'', JString component),
                        (''runtime_generation'', JNumber generation), (''lifecycle'', JString (lifecycle_to_string nxt))])
                      ''lifecycle transition committed'')
                    (next_evidence (refresh_worker_authority component c)))"

definition command_fence :: "PeerIdentity \<Rightarrow> ident \<Rightarrow> gen \<Rightarrow> string \<Rightarrow> Coord \<Rightarrow> CommandResult \<times> Coord" where
  "command_fence peer worker boot reason c =
     (let s = c_durable c; authorized = validate_operator peer in
      if is_failure authorized then (failure_result authorized, c)
      else if worker = [] \<or> \<not> gen_is_set boot
        then reject c InvalidArgument ''fencing requires a worker and boot identity''
      else if om_size (ds_fenced_boots s) \<ge> kFencedBoots
        then reject c LimitExceeded ''fenced boot table bound reached''
      else
        let record = \<lparr>fb_worker = worker, fb_boot = boot, fb_component = [], fb_generation = gen_unset,
              fb_reason = note96 reason, fb_fenced_at = ds_stage_generation s\<rparr>;
            (record, c) = (case om_find (c_live c) worker of
               Some w \<Rightarrow> (record\<lparr>fb_component := lw_component w, fb_generation := lw_generation w\<rparr>,
                 c\<lparr>c_live := om_upd worker (w\<lparr>lw_fenced := True, lw_active := False\<rparr>) (c_live c)\<rparr>)
             | None \<Rightarrow> (record, c));
            (record, c) = (case om_find (ds_workers s) worker of
               Some r \<Rightarrow> (record\<lparr>fb_component := (if fb_component record = [] then wr_component r else fb_component record),
                   fb_generation := (if \<not> gen_is_set (fb_generation record) then wr_generation r else fb_generation record)\<rparr>,
                 on_durable (\<lambda>s. s\<lparr>ds_workers := om_upd worker (r\<lparr>wr_fenced := True,
                   wr_detail := detail_text ''fenced by operator''\<rparr>) (ds_workers s)\<rparr>) c)
             | None \<Rightarrow> (record, c));
            c = on_durable (\<lambda>s. s\<lparr>ds_fenced_boots := om_upd (worker, boot) record (ds_fenced_boots s)\<rparr>) c;
            c = next_evidence (on_stats (\<lambda>st. st\<lparr>st_fenced_boots := st_fenced_boots st + 1\<rparr>) c)
        in finish (ok_json (json_doc [(''status'', JString ''OK''), (''worker'', JString worker), (''boot'', JNumber boot)])
             ''boot identity fenced durably'') c)"

section \<open>Completion\<close>

definition complete_reject :: "Coord \<Rightarrow> ErrorCode \<Rightarrow> string \<Rightarrow> CommandResult \<times> Coord" where
  "complete_reject c e text =
     (failure_result (failure e text), on_stats (\<lambda>st. st\<lparr>st_completions_rejected := st_completions_rejected st + 1\<rparr>) c)"

definition complete_drain :: "PeerIdentity \<Rightarrow> ident \<Rightarrow> gen \<Rightarrow> Coord \<Rightarrow> CommandResult \<times> Coord" where
  "complete_drain peer i stage_generation c =
     (let s = c_durable c; plan = (if i = [] then None else plan_locked s i) in
      if i \<noteq> [] \<and> plan = None then complete_reject c NotFound ''plan is not known''
      else if (case plan of Some p \<Rightarrow> gen_is_set stage_generation \<and> stage_generation \<noteq> ep_stage_generation p | None \<Rightarrow> False)
        then complete_reject c StalePlan ''drain completion targets a superseded stage generation''
      else case om_find (c_live c) (pi_worker peer) of
          None \<Rightarrow> complete_reject c StaleBoot ''worker is not current''
        | Some w \<Rightarrow>
            if lw_boot w \<noteq> pi_boot peer then complete_reject c StaleBoot ''boot identity does not match the session''
            else if \<not> lw_draining w then complete_reject c Conflict ''worker was not asked to drain''
            else if \<not> lw_active w then complete_reject c Conflict ''duplicate drain completion rejected''
            else
              let c = c\<lparr>c_live := om_upd (pi_worker peer) (w\<lparr>lw_active := False\<rparr>) (c_live c)\<rparr>;
                  c = (case om_find (ds_workers s) (pi_worker peer) of
                         Some r \<Rightarrow> on_durable (\<lambda>s. s\<lparr>ds_workers := om_upd (pi_worker peer) (r\<lparr>wr_drained := True,
                           wr_detail := detail_text ''drained''\<rparr>) (ds_workers s)\<rparr>) c
                       | None \<Rightarrow> c);
                  c = next_evidence (on_stats (\<lambda>st. st\<lparr>st_completions_accepted := st_completions_accepted st + 1\<rparr>) c)
              in finish (ok_json (json_doc [(''status'', JString ''OK''), (''detail'', JString ''drain completion recorded''),
                     (''duplicate'', JBool False)]) ''drain completion recorded'') c)"

definition awaits :: "ident \<Rightarrow> ident \<Rightarrow> PendingAction \<Rightarrow> bool" where
  "awaits i worker a \<longleftrightarrow> pa_plan a = i \<and> pa_worker a = worker \<and> action_open a"

text \<open>The first action that is still open for the plan and the worker is acknowledged.\<close>

fun acknowledge_first :: "(PendingAction \<Rightarrow> bool) \<Rightarrow> PendingAction list \<Rightarrow> PendingAction list" where
  "acknowledge_first P [] = []"
| "acknowledge_first P (a # as) =
     (if P a then a\<lparr>pa_state := Acknowledged\<rparr> # as else a # acknowledge_first P as)"

definition outcome_completed :: "MigrationOutcome \<Rightarrow> bool" where
  "outcome_completed m \<longleftrightarrow>
     m = MigrationOutcome.Committed \<or> m = MigrationOutcome.RollbackAvailable \<or> m = MigrationOutcome.Irreversible"

definition completion_record :: "EvolutionPlan \<Rightarrow> PendingAction \<Rightarrow> MigrationOutcome \<Rightarrow> IntegrityDigest \<Rightarrow> MigrationRecord" where
  "completion_record plan action outcome digest = \<lparr>mrec_id = pa_migration action,
     mrec_generation = pa_migration_generation action, mrec_schema = component_state_schema,
     mrec_source = pa_source action, mrec_target = pa_target action,
     mrec_runtime_generation = ep_candidate_generation plan, mrec_epoch = ep_epoch plan,
     mrec_policy = rp_generation (ep_policy plan), mrec_plan = ep_id plan, mrec_source_digest = digest_zero,
     mrec_target_digest = digest, mrec_irreversible = (outcome = MigrationOutcome.Irreversible),
     mrec_rollback_metadata_preserved = (outcome = MigrationOutcome.RollbackAvailable),
     mrec_rollback_available = (outcome = MigrationOutcome.RollbackAvailable), mrec_outcome = outcome,
     mrec_provenance = Real, mrec_recorded_at = ep_stage_generation plan,
     mrec_detail = detail_text ''migration completion observed''\<rparr>"

definition mark_completed :: "PlanStageRecord list \<Rightarrow> PlanStageRecord list" where
  "mark_completed rs = (if rs = [] then [] else butlast rs @ [(last rs)\<lparr>sr_completed := True\<rparr>])"

definition accept_completion :: "ident \<Rightarrow> EvolutionPlan \<Rightarrow> PendingAction \<Rightarrow> MigrationOutcome \<Rightarrow> IntegrityDigest \<Rightarrow> Coord
    \<Rightarrow> CommandResult \<times> Coord" where
  "accept_completion i plan action outcome digest c =
     (if outcome_completed outcome \<and> length (ds_migrations (c_durable c)) \<ge> kMigrationRecords
        then reject c LimitExceeded ''migration history bound reached''
      else
        let c = (if outcome_completed outcome
              then on_stats (\<lambda>st. st\<lparr>st_migrations_committed := st_migrations_committed st + 1\<rparr>)
                (on_durable (\<lambda>s. s\<lparr>ds_migrations := ds_migrations s @ [completion_record plan action outcome digest]\<rparr>) c)
              else c);
            plan = plan\<lparr>ep_rollback_barrier_crossed :=
                (ep_rollback_barrier_crossed plan \<or> outcome = MigrationOutcome.Irreversible),
              ep_history := mark_completed (ep_history plan)\<rparr>;
            c = on_durable (put_plan_at i plan) c;
            c = next_evidence (on_stats (\<lambda>st. st\<lparr>st_completions_accepted := st_completions_accepted st + 1\<rparr>) c)
        in finish (ok_json (json_doc [(''status'', JString ''OK''), (''plan'', JString (ep_id plan)),
               (''migration_outcome'', JString (migration_outcome_to_string outcome)), (''duplicate'', JBool False)])
             ''completion accepted exactly once'') c)"

definition complete_stage :: "PeerIdentity \<Rightarrow> ident \<Rightarrow> ident \<Rightarrow> gen \<Rightarrow> MigrationOutcome \<Rightarrow> IntegrityDigest \<Rightarrow> Coord
    \<Rightarrow> CommandResult \<times> Coord" where
  "complete_stage peer i stage_id stage_generation outcome digest c =
     (if i = [] \<or> \<not> gen_is_set stage_generation then reject c InvalidArgument ''completion is incomplete''
      else case plan_locked (c_durable c) i of
          None \<Rightarrow> complete_reject c NotFound ''plan is not known''
        | Some plan \<Rightarrow>
            if ep_superseded plan then complete_reject c StalePlan ''plan is superseded; late completion is rejected''
            else if stage_generation \<noteq> ep_stage_generation plan
              then complete_reject c StalePlan ''completion targets a superseded stage generation''
            else if ep_history plan \<noteq> [] \<and> sr_stage_id (last (ep_history plan)) \<noteq> stage_id
              then complete_reject c StalePlan ''completion does not reference the current stage identity''
            else case List.find (awaits i (pi_worker peer)) (c_pending c) of
                None \<Rightarrow> complete_reject c Conflict ''no outstanding action for this completion; duplicate rejected''
              | Some action \<Rightarrow>
                  accept_completion i plan action outcome digest
                    (c\<lparr>c_pending := acknowledge_first (awaits i (pi_worker peer)) (c_pending c)\<rparr>))"

definition command_publish_completion :: "PeerIdentity \<Rightarrow> ident \<Rightarrow> ident \<Rightarrow> gen \<Rightarrow> MigrationOutcome \<Rightarrow> IntegrityDigest \<Rightarrow> bool
    \<Rightarrow> Coord \<Rightarrow> CommandResult \<times> Coord" where
  "command_publish_completion peer i stage_id stage_generation outcome digest drain c =
     (if stage_id = [] then reject c InvalidArgument ''completion has no stage identity''
      else if drain \<or> take 5 stage_id = ''drain'' then complete_drain peer i stage_generation c
      else complete_stage peer i stage_id stage_generation outcome digest c)"


section \<open>Negotiation and the state transform\<close>

definition command_negotiate :: "PeerIdentity \<Rightarrow> gen_set \<Rightarrow> Coord \<Rightarrow> CommandResult" where
  "command_negotiate peer supported c =
     (let s = c_durable c;
          negotiation = negotiate (Some (ds_protocols s)) (negotiation_request (pi_protocol peer)
            (local_protocols s (pi_protocol peer)) supported 1)
      in if is_failure (nr_status negotiation)
           then (failure_result (nr_status negotiation))\<lparr>cr_explanation := nr_explanation negotiation\<rparr>
         else
           let operation = derive_operation_class s (pi_component peer) (pi_runtime_generation peer) (nr_chosen negotiation) in
           if nr_chosen negotiation < pi_agreed_protocol peer
             then failure_result (failure Unauthorized ''protocol downgrade below the session's agreed generation is refused'')
           else result_unset\<lparr>cr_json := json_doc [(''status'', JString ''OK''),
               (''negotiated_protocol'', JNumber (nr_chosen negotiation)),
               (''operation_class'', JString (operation_class_to_string operation)),
               (''downgraded'', JBool (nr_downgraded negotiation)),
               (''explanation'', JList (map JString (nr_explanation negotiation)))],
             cr_explanation := nr_explanation negotiation\<rparr>)"

definition command_state_transform :: "PeerIdentity \<Rightarrow> ident \<Rightarrow> gen \<Rightarrow> Coord \<Rightarrow> CommandResult" where
  "command_state_transform peer i target c =
     (let s = c_durable c; refuse = (\<lambda>e text. failure_result (failure e text)) in
      case plan_locked s i of
        None \<Rightarrow> refuse NotFound ''plan is not known''
      | Some plan \<Rightarrow>
          if ep_superseded plan then refuse StalePlan ''superseded plan cannot transform state''
          else if gate_find (ds_gates s) token_transform_feature_id = None
            then refuse NotFound ''feature gate is not defined''
          else
            let edge = matrix_find (ds_matrix s) (ep_current_generation plan) (ep_candidate_generation plan);
                old_writers_live = live_worker_count c (ep_component plan) (ep_current_generation plan) > 0;
                decision = gate_evaluate (ds_gates s) token_transform_feature_id
                  (gate_context plan (pi_runtime_generation peer) (pi_agreed_protocol peer) (pi_agreed_schema peer)
                    edge old_writers_live) True
            in if \<not> gd_permitted decision
                 then (failure_result (gd_status decision))\<lparr>cr_explanation := gd_explanation decision\<rparr>
               else if target \<noteq> ep_migration_target plan \<and> gen_is_set target
                 then refuse StaleGeneration ''state transformation target is not the plan's migration target''
               else if pi_agreed_protocol peer < 2
                 then refuse Unauthorized ''state transformation requires the protocol-2 negotiation''
               else result_unset\<lparr>cr_json := json_doc [(''status'', JString ''OK''), (''plan'', JString (ep_id plan)),
                   (''target_schema'', JNumber (ep_migration_target plan)),
                   (''protocol_generation'', JNumber (pi_agreed_protocol peer))],
                 cr_explanation := [''state transformation authorized under the negotiated protocol'']\<rparr>)"

end
