(* ===== verification/Ref_Query.thy ===== *)
theory Ref_Query
  imports Ref_Actions
begin

text \<open>
  Inspection and reconciliation (\<open>src/coordinator_query.cpp\<close>, the JSON form of the authority view in
  \<open>src/authority.cpp\<close>): snapshots, the comparison of durable expectations with the live workers, and the
  documents that answer queries.
\<close>

section \<open>Documents\<close>

text \<open>A document whose branch leaves the outer object open is closed by \<open>close_all\<close>.\<close>

definition open_doc :: "(string \<times> Json) list \<Rightarrow> string" where
  "open_doc fs = jw_out (close_all (write_fields fs (begin_object (json_writer False))))"

definition closed_doc :: "(string \<times> Json) list \<Rightarrow> string" where
  "closed_doc fs = jw_out (close_all (write_json (JObject fs) (json_writer False)))"

definition permission_json :: "GenerationPermission \<Rightarrow> Json" where
  "permission_json e = JObject [(''generation'', JNumber (gp_generation e)),
     (''lifecycle'', JString (lifecycle_to_string (gp_lifecycle e))), (''authoritative'', JBool (gp_is_authoritative e)),
     (''may_read'', JBool (gp_may_read e)), (''may_write'', JBool (gp_may_write e)),
     (''operation_class'', JString (operation_class_to_string (gp_operation e))),
     (''protocol_generation'', JNumber (gp_protocol e)), (''schema_generation'', JNumber (gp_schema e)),
     (''reason'', JString (gp_reason e))]"

definition authority_json :: "AuthorityView \<Rightarrow> string" where
  "authority_json v = json_doc [(''component'', JString (av_component v)),
     (''has_authoritative'', JBool (av_has_authoritative v)), (''authoritative_generation'', JNumber (av_authoritative v)),
     (''protocol_generation'', JNumber (av_protocol_generation v)), (''schema_generation'', JNumber (av_schema_generation v)),
     (''rollout_stage'', JString (stage_to_string (av_stage v))), (''plan'', JString (av_plan v)),
     (''new_writer_enabled'', JBool (av_new_writer_enabled v)), (''evidence_current'', JBool (av_evidence_current v)),
     (''rollback_barrier_crossed'', JBool (av_rollback_barrier_crossed v)), (''evolution_epoch'', JNumber (av_epoch v)),
     (''coordinator_epoch'', JNumber (av_coordinator_epoch v)), (''snapshot_generation'', JNumber (av_snapshot_generation v)),
     (''enabled_features'', JList (map JString (av_enabled_features v))),
     (''coexistence'', JList (map permission_json (av_coexistence v))),
     (''explanation'', JList (map JString (av_explanation v)))]"


section \<open>Reconciliation\<close>

record ReconcileReport =
  rc_findings :: "ReconcileFinding list"
  rc_requires_operator :: bool

definition finding_of :: "FindingKind \<Rightarrow> ident \<Rightarrow> ident \<Rightarrow> gen \<Rightarrow> bool \<Rightarrow> string \<Rightarrow> ReconcileFinding" where
  "finding_of kind component worker boot conservative remark = \<lparr>rf_kind = kind, rf_component = component,
     rf_expected_generation = gen_unset, rf_observed_generation = gen_unset, rf_expected_protocol = gen_unset,
     rf_observed_protocol = gen_unset, rf_expected_schema = gen_unset, rf_observed_schema = gen_unset,
     rf_worker = worker, rf_boot = boot, rf_conservative_action_required = conservative, rf_detail = note96 remark\<rparr>"

text \<open>The lambda \<open>open\<close> together with the assignments to the finding it returns.\<close>

definition add_finding :: "ReconcileFinding \<Rightarrow> ReconcileReport \<Rightarrow> ReconcileReport" where
  "add_finding finding report =
     (if length (rc_findings report) \<ge> kReconcileFindings then report
      else report\<lparr>rc_findings := rc_findings report @ [finding],
             rc_requires_operator := (rc_requires_operator report \<or> rf_conservative_action_required finding)\<rparr>)"

definition reconcile_plan :: "Coord \<Rightarrow> EvolutionPlan \<Rightarrow> ReconcileReport \<Rightarrow> ReconcileReport" where
  "reconcile_plan c plan report =
     (if \<not> plan_is_active plan then report
      else
        let candidate_live = live_worker_count c (ep_component plan) (ep_candidate_generation plan);
            old_live = live_worker_count c (ep_component plan) (ep_current_generation plan);
            report = (if rollout_stage_rank (ep_stage plan) \<ge> rollout_stage_rank CanaryCohort \<and> candidate_live = 0
              then add_finding ((finding_of CandidateExpectedAliveButAbsent (ep_component plan) [] gen_unset True
                ''candidate generation is expected alive during this stage but no live worker is present'')
                \<lparr>rf_expected_generation := ep_candidate_generation plan\<rparr>) report
              else report);
            report = (case registry_find (ds_components (c_durable c)) (ep_component plan) (ep_current_generation plan) of
                Some v \<Rightarrow> if rv_lifecycle v = Draining \<and> old_live > 0
                  then add_finding ((finding_of OldRuntimeStillAliveAfterDrain (ep_component plan) [] gen_unset True
                    ''old generation is draining but still has live workers'')
                    \<lparr>rf_expected_generation := ep_current_generation plan,
                     rf_observed_generation := ep_current_generation plan\<rparr>) report
                  else report
              | None \<Rightarrow> report)
        in if ep_new_writer_enabled plan \<and> rollout_stage_rank (ep_stage plan) < rollout_stage_rank NewWriterEnabled
           then add_finding ((finding_of FeatureGateDiffersFromExpectation (ep_component plan) [] gen_unset True
             ''plan reports new-writer enablement before the new-writer stage'')
             \<lparr>rf_expected_generation := ep_candidate_generation plan\<rparr>) report
           else report)"

definition reconcile_action :: "Coord \<Rightarrow> PendingAction \<Rightarrow> ReconcileReport \<Rightarrow> ReconcileReport" where
  "reconcile_action c action report =
     (if pa_state action \<noteq> Dispatched \<and> pa_state action \<noteq> ActionOutcomeUnknown then report
      else if om_find (c_worker_sessions c) (pa_worker action) \<noteq> None \<and> pa_state action = Dispatched then report
      else add_finding ((finding_of MigrationMayHaveCommitted [] (pa_worker action) (pa_boot action) True
        ''migration was dispatched and no completion was observed; the outcome is unknown and must be inspected rather than repeated'')
        \<lparr>rf_expected_schema := pa_source action, rf_observed_schema := pa_source action\<rparr>) report)"

definition reconcile_candidate :: "EvolutionPlan \<Rightarrow> LiveWorker \<Rightarrow> ReconcileReport \<Rightarrow> ReconcileReport" where
  "reconcile_candidate plan w report =
     (let finding = (\<lambda>kind. finding_of kind (lw_component w) (lw_worker w) (lw_boot w));
          report = (if lw_negotiated_protocol w \<noteq> ep_protocol_generation plan
            then add_finding ((finding ProtocolGenerationDiffers False
              ''candidate worker negotiated a protocol generation different from the plan'')
              \<lparr>rf_expected_protocol := ep_protocol_generation plan, rf_observed_protocol := lw_negotiated_protocol w\<rparr>) report
            else report);
          report = (if lw_committed_schema w > ep_schema_generation plan
            then add_finding ((finding SchemaGenerationAdvancedExternally True
              ''candidate worker reports a schema generation ahead of the plan'')
              \<lparr>rf_expected_schema := ep_schema_generation plan, rf_observed_schema := lw_committed_schema w\<rparr>) report
            else report)
      in if rollout_stage_rank (ep_stage plan) < rollout_stage_rank CanaryCohort
         then add_finding ((finding CandidateStartedOutsideCoordinator False
           ''candidate worker connected before the plan reached the canary stage'')
           \<lparr>rf_expected_generation := ep_candidate_generation plan, rf_observed_generation := lw_generation w\<rparr>) report
         else report)"

definition reconcile_worker :: "Coord \<Rightarrow> LiveWorker \<Rightarrow> ReconcileReport \<Rightarrow> ReconcileReport" where
  "reconcile_worker c w report =
     (let s = c_durable c; finding = (\<lambda>kind. finding_of kind (lw_component w) (lw_worker w) (lw_boot w)) in
      if is_retired s (lw_component w) (lw_generation w)
        then add_finding ((finding RetiredRuntimeReconnected True ''a retired runtime generation has a live worker'')
          \<lparr>rf_expected_generation := lw_generation w, rf_observed_generation := lw_generation w\<rparr>) report
      else case active_plan s (lw_component w) of
          None \<Rightarrow>
            if (case registry_find (ds_components s) (lw_component w) (lw_generation w) of
                  None \<Rightarrow> True | Some v \<Rightarrow> \<not> is_authoritative_lifecycle (rv_lifecycle v))
              then add_finding ((finding CandidateStartedOutsideCoordinator True
                ''a non-authoritative runtime generation is running without an evolution plan'')
                \<lparr>rf_observed_generation := lw_generation w\<rparr>) report
            else report
        | Some plan \<Rightarrow>
            let report = (if lw_generation w = ep_candidate_generation plan then reconcile_candidate plan w report else report)
            in if is_stale_relative_to (lw_evidence w) (ds_evidence_generation s)
                  \<and> ds_evidence_generation s - lw_evidence w > cf_evidence_max_age (c_config c)
               then add_finding ((finding FindingKind.StaleEvidence False
                 ''worker evidence is older than the accepted evidence window'')
                 \<lparr>rf_observed_generation := lw_generation w\<rparr>) report
               else report)"

definition reconcile_retirement :: "DurableState \<Rightarrow> RetirementRecord \<Rightarrow> ReconcileReport \<Rightarrow> ReconcileReport" where
  "reconcile_retirement s record report =
     (case registry_find (ds_components s) (rr_component record) (rr_generation record) of
        Some v \<Rightarrow> if \<not> is_terminal_lifecycle (rv_lifecycle v)
          then add_finding ((finding_of RetiredRuntimeReconnected (rr_component record) [] gen_unset True
            ''retirement record exists but the generation is not RETIRED'')\<lparr>rf_expected_generation := rr_generation record\<rparr>)
            report
          else report
      | None \<Rightarrow> report)"

definition reconcile_gate_plan :: "FeatureGate \<Rightarrow> EvolutionPlan \<Rightarrow> ReconcileReport \<Rightarrow> ReconcileReport" where
  "reconcile_gate_plan gate plan report =
     (if ep_id plan \<noteq> fg_enabled_by gate then report
      else if rollout_stage_rank (ep_stage plan) < rollout_stage_rank NewWriterEnabled
              \<and> fg_min_protocol_generation gate > ep_protocol_generation plan
        then add_finding ((finding_of FeatureGateDiffersFromExpectation (ep_component plan) [] gen_unset True
          ''feature gate is enabled while the bound plan has not reached the new-writer stage'')
          \<lparr>rf_expected_protocol := ep_protocol_generation plan, rf_observed_protocol := fg_min_protocol_generation gate\<rparr>)
          report
      else report)"

definition reconcile_gate :: "DurableState \<Rightarrow> FeatureGate \<Rightarrow> ReconcileReport \<Rightarrow> ReconcileReport" where
  "reconcile_gate s gate report =
     (if \<not> fg_enabled gate then report
      else let plans = om_vals (ds_plans s); report = fold (reconcile_gate_plan gate) plans report in
        if list_ex (\<lambda>p. ep_id p = fg_enabled_by gate) plans then report
        else add_finding (finding_of FeatureGateDiffersFromExpectation [] [] gen_unset False
          ''an enabled feature gate does not reference a known plan'') report)"

definition reconcile :: "Coord \<Rightarrow> ReconcileReport" where
  "reconcile c =
     (let s = c_durable c in
      (fold (reconcile_gate s) (gate_all (ds_gates s)) \<circ> fold (reconcile_retirement s) (om_vals (ds_retirements s))
       \<circ> fold (reconcile_worker c) (om_vals (c_live c)) \<circ> fold (reconcile_action c) (c_pending c)
       \<circ> fold (reconcile_plan c) (om_vals (ds_plans s))) \<lparr>rc_findings = [], rc_requires_operator = False\<rparr>)"

definition finding_json :: "ReconcileFinding \<Rightarrow> Json" where
  "finding_json f = JObject [(''kind'', JString (finding_to_string (rf_kind f))), (''component'', JString (rf_component f)),
     (''expected_generation'', JNumber (rf_expected_generation f)),
     (''observed_generation'', JNumber (rf_observed_generation f)), (''worker'', JString (rf_worker f)),
     (''boot'', JNumber (rf_boot f)), (''conservative_action_required'', JBool (rf_conservative_action_required f)),
     (''detail'', JString (rf_detail f))]"

definition command_reconcile :: "PeerIdentity \<Rightarrow> Coord \<Rightarrow> CommandResult" where
  "command_reconcile peer c =
     (let report = reconcile c in
      result_unset\<lparr>cr_json := json_doc [(''status'', JString ''OK''),
          (''requires_operator'', JBool (rc_requires_operator report)),
          (''finding_count'', JNumber (of_nat (length (rc_findings report)))),
          (''findings'', JList (map finding_json (rc_findings report)))],
        cr_explanation := [''reconciliation completed without rewriting durable history'']\<rparr>)"


section \<open>Queries\<close>

definition version_json :: "RuntimeComponentVersion \<Rightarrow> Json" where
  "version_json v = JObject [(''component'', JString (rv_component v)),
     (''version'', JString (runtime_version_to_string (rv_version v))),
     (''artifact'', JString (build (artifact (rv_version v)))), (''runtime_generation'', JNumber (rv_generation v)),
     (''lifecycle'', JString (lifecycle_to_string (rv_lifecycle v))),
     (''capability_generation'', JNumber (rv_capability_generation v)),
     (''supported_protocols'', JString (encode_generation_set (ps_supported (rv_protocols v)))),
     (''readable_protocols'', JString (encode_generation_set (ps_readable (rv_protocols v)))),
     (''writable_protocols'', JString (encode_generation_set (ps_writable (rv_protocols v)))),
     (''supported_schemas'', JString (encode_generation_set (ss_supported (rv_schemas v)))),
     (''readable_schemas'', JString (encode_generation_set (ss_readable (rv_schemas v)))),
     (''writable_schemas'', JString (encode_generation_set (ss_writable (rv_schemas v)))),
     (''provenance'', JString (evidence_class_to_string (rv_provenance v)))]"

definition stage_record_json :: "PlanStageRecord \<Rightarrow> Json" where
  "stage_record_json r = JObject [(''stage_id'', JString (sr_stage_id r)), (''stage'', JString (stage_to_string (sr_stage r))),
     (''stage_generation'', JNumber (sr_generation r)), (''evolution_epoch'', JNumber (sr_epoch r)),
     (''completed'', JBool (sr_completed r)), (''note'', JString (sr_note r))]"

definition plan_entry_json :: "EvolutionPlan \<Rightarrow> Json" where
  "plan_entry_json p = JObject [(''plan'', JString (ep_id p)), (''plan_generation'', JNumber (ep_generation p)),
     (''component'', JString (ep_component p)), (''current_generation'', JNumber (ep_current_generation p)),
     (''candidate_generation'', JNumber (ep_candidate_generation p)), (''stage'', JString (stage_to_string (ep_stage p))),
     (''stage_generation'', JNumber (ep_stage_generation p)), (''evolution_epoch'', JNumber (ep_epoch p)),
     (''coordinator_epoch'', JNumber (ep_coordinator_epoch p)), (''matrix_generation'', JNumber (ep_matrix_generation p)),
     (''gate_generation'', JNumber (ep_gate_generation p)), (''protocol_generation'', JNumber (ep_protocol_generation p)),
     (''schema_generation'', JNumber (ep_schema_generation p)),
     (''migration_generation'', JNumber (ep_migration_generation p)),
     (''rollback_target'', JNumber (ep_rollback_target p)),
     (''rollback_barrier_crossed'', JBool (ep_rollback_barrier_crossed p)),
     (''new_writer_enabled'', JBool (ep_new_writer_enabled p)), (''superseded'', JBool (ep_superseded p)),
     (''stage_history'', JList (map stage_record_json (ep_history p)))]"

definition edge_json :: "CompatibilityEdge \<Rightarrow> Json" where
  "edge_json e = JObject [(''from'', JNumber (ed_from e)), (''to'', JNumber (ed_to e)),
     (''permissions'', JString (describe_permissions (ed_permissions e))),
     (''requires_feature_gate'', JBool (ed_requires_feature_gate e)),
     (''requires_protocol_downgrade'', JBool (ed_requires_protocol_downgrade e)),
     (''requires_state_translation'', JBool (ed_requires_state_translation e)),
     (''edge_generation'', JNumber (ed_generation e)),
     (''aspects'', JObject (map (\<lambda>a. (aspect_to_string a, JString (outcome_to_string (aa_outcome (ed_aspects e a))))) all_aspects))]"

definition protocol_json :: "ProtocolDescriptor \<Rightarrow> Json" where
  "protocol_json d = JObject [(''protocol'', JString (pd_id d)), (''generation'', JNumber (pd_generation d)),
     (''minimum_safety_generation'', JNumber (pd_minimum_safety_generation d)),
     (''unknown_fields'', JString (unknown_field_policy_to_string (pd_unknown_fields d))),
     (''unknown_messages'', JString (unknown_message_policy_to_string (pd_unknown_messages d))),
     (''message_types'', JNumber (of_nat (length (pd_messages d))))]"

definition schema_json :: "SchemaDescriptor \<Rightarrow> Json" where
  "schema_json d = JObject [(''schema'', JString (sd_id d)), (''generation'', JNumber (sd_generation d)),
     (''readable_min'', JNumber (range_min (sd_readable_formats d))), (''readable_max'', JNumber (range_max (sd_readable_formats d))),
     (''writable_min'', JNumber (range_min (sd_writable_formats d))), (''writable_max'', JNumber (range_max (sd_writable_formats d))),
     (''reverse_migration_to'', JNumber (sd_reverse_migration_to d)), (''irreversible'', JBool (has_irreversible_field d)),
     (''canonicalization'', JString (canonicalization_to_string (sd_canonicalization d))),
     (''integrity'', JString (integrity_to_string (sd_integrity d))), (''fields'', JNumber (of_nat (length (sd_fields d))))]"

definition gate_json :: "FeatureGate \<Rightarrow> Json" where
  "gate_json g = JObject [(''feature'', JString (fg_id g)), (''generation'', JNumber (fg_generation g)),
     (''enabled'', JBool (fg_enabled g)), (''min_runtime_generation'', JNumber (fg_min_runtime_generation g)),
     (''min_protocol_generation'', JNumber (fg_min_protocol_generation g)),
     (''min_schema_generation'', JNumber (fg_min_schema_generation g)), (''enabled_by'', JString (fg_enabled_by g)),
     (''scope'', JString (fg_scope g))]"

definition migration_json :: "MigrationRecord \<Rightarrow> Json" where
  "migration_json m = JObject [(''migration'', JString (mrec_id m)), (''migration_generation'', JNumber (mrec_generation m)),
     (''schema'', JString (mrec_schema m)), (''source'', JNumber (mrec_source m)), (''target'', JNumber (mrec_target m)),
     (''outcome'', JString (migration_outcome_to_string (mrec_outcome m))), (''irreversible'', JBool (mrec_irreversible m)),
     (''rollback_available'', JBool (mrec_rollback_available m)), (''plan'', JString (mrec_plan m))]"

fun action_state_number :: "ActionState \<Rightarrow> u64" where
  "action_state_number ActionRegistered = 0"
| "action_state_number Dispatched = 1"
| "action_state_number Acknowledged = 2"
| "action_state_number ActionOutcomeUnknown = 3"
| "action_state_number Abandoned = 4"

definition action_json :: "PendingAction \<Rightarrow> Json" where
  "action_json a = JObject [(''action_id'', JNumber (pa_action_id a)), (''plan'', JString (pa_plan a)),
     (''worker'', JString (pa_worker a)), (''boot'', JNumber (pa_boot a)), (''source'', JNumber (pa_source a)),
     (''target'', JNumber (pa_target a)), (''state'', JNumber (action_state_number (pa_state a))),
     (''detail'', JString (pa_detail a))]"

definition live_json :: "LiveWorker \<Rightarrow> Json" where
  "live_json w = JObject [(''worker'', JString (lw_worker w)), (''component'', JString (lw_component w)),
     (''generation'', JNumber (lw_generation w)), (''boot'', JNumber (lw_boot w)),
     (''negotiated_protocol'', JNumber (lw_negotiated_protocol w)), (''committed_schema'', JNumber (lw_committed_schema w)),
     (''operation_class'', JString (operation_class_to_string (lw_operation w))), (''active'', JBool (lw_active w)),
     (''draining'', JBool (lw_draining w)), (''fenced'', JBool (lw_fenced w)), (''frames'', JNumber (lw_frames w))]"

definition worker_record_json :: "WorkerRecord \<Rightarrow> Json" where
  "worker_record_json r = JObject [(''worker'', JString (wr_worker r)), (''component'', JString (wr_component r)),
     (''generation'', JNumber (wr_generation r)), (''last_boot'', JNumber (wr_last_boot r)),
     (''fenced'', JBool (wr_fenced r)), (''drained'', JBool (wr_drained r))]"

definition retirement_json :: "RetirementRecord \<Rightarrow> Json" where
  "retirement_json r = JObject [(''component'', JString (rr_component r)), (''generation'', JNumber (rr_generation r)),
     (''recorded_at'', JNumber (rr_recorded_at r)), (''evolution_epoch'', JNumber (rr_epoch r)),
     (''coordinator_epoch'', JNumber (rr_coordinator_epoch r)),
     (''checkpoints_retained'', JBool (rr_checkpoints_retained r))]"

definition fenced_json :: "FencedBoot \<Rightarrow> Json" where
  "fenced_json f = JObject [(''worker'', JString (fb_worker f)), (''boot'', JNumber (fb_boot f)),
     (''component'', JString (fb_component f)), (''generation'', JNumber (fb_generation f)),
     (''reason'', JString (fb_reason f))]"

definition snapshot_json :: "AuthoritySnapshot \<Rightarrow> Json" where
  "snapshot_json s = JObject [(''snapshot_generation'', JNumber (as_generation s)), (''evolution_epoch'', JNumber (as_epoch s)),
     (''coordinator_epoch'', JNumber (as_coordinator_epoch s)),
     (''canonical_bytes'', JNumber (of_nat (length (as_canonical s))))]"

definition full_finding_json :: "ReconcileFinding \<Rightarrow> Json" where
  "full_finding_json f = JObject [(''kind'', JString (finding_to_string (rf_kind f))),
     (''component'', JString (rf_component f)), (''expected_generation'', JNumber (rf_expected_generation f)),
     (''observed_generation'', JNumber (rf_observed_generation f)), (''expected_protocol'', JNumber (rf_expected_protocol f)),
     (''observed_protocol'', JNumber (rf_observed_protocol f)), (''expected_schema'', JNumber (rf_expected_schema f)),
     (''observed_schema'', JNumber (rf_observed_schema f)), (''worker'', JString (rf_worker f)),
     (''conservative_action_required'', JBool (rf_conservative_action_required f)), (''detail'', JString (rf_detail f))]"

definition yes_no :: "bool \<Rightarrow> string" where
  "yes_no b = (if b then ''yes'' else ''no'')"

definition explain_lines :: "Coord \<Rightarrow> ident \<Rightarrow> string list" where
  "explain_lines c component =
     (case active_plan (c_durable c) component of
        None \<Rightarrow> [''no active evolution plan for this component'']
      | Some plan \<Rightarrow>
          let matrix = ds_matrix (c_durable c); pre = stage_preconditions c plan in
          (case matrix_find matrix (ep_current_generation plan) (ep_candidate_generation plan) of
             Some _ \<Rightarrow> explain_edge matrix (ep_current_generation plan) (ep_candidate_generation plan)
           | None \<Rightarrow> [''no compatibility edge is recorded for the active plan pair''])
          @ [''stage '' @ stage_to_string (ep_stage plan) @ '' at generation '' @ dec_u64 (ep_stage_generation plan),
             ''compatibility proven: '' @ yes_no (sp_compatibility_proven pre),
             ''evidence current: '' @ yes_no (sp_evidence_current pre),
             ''old writers drained: '' @ yes_no (sp_old_writers_drained pre),
             ''new writer fence satisfied: '' @ yes_no (sp_new_writer_fence_satisfied pre),
             ''rollback valid: '' @ yes_no (sp_rollback_valid pre),
             ''rollback barrier crossed: '' @ yes_no (ep_rollback_barrier_crossed plan)])"

definition epoch_fields :: "Coord \<Rightarrow> ident \<Rightarrow> (string \<times> Json) list" where
  "epoch_fields c component =
     (let s = c_durable c in
      [(''coordinator_epoch'', JNumber (ds_coordinator_epoch s)), (''evolution_epoch'', JNumber (ds_evolution_epoch s)),
       (''stage_generation'', JNumber (ds_stage_generation s)), (''matrix_generation'', JNumber (mat_generation (ds_matrix s))),
       (''gate_generation'', JNumber (fgr_generation (ds_gates s))),
       (''evidence_generation'', JNumber (ds_evidence_generation s)),
       (''snapshot_generation'', JNumber (ds_snapshot_generation s)),
       (''migration_generation'', JNumber (ds_migration_generation s)),
       (''rollback_generation'', JNumber (ds_rollback_generation s)),
       (''component_epoch'', JNumber (epoch_for s component))])"

definition query_json :: "Coord \<Rightarrow> string \<Rightarrow> ident \<Rightarrow> string" where
  "query_json c query component =
     (let s = c_durable c; head = [(''status'', JString ''OK''), (''query'', JString query)] in
      if query = ''authority'' then authority_json (authority_view c component)
      else if query = ''components''
        then open_doc (head @ [(''components'', JList (map version_json (all_versions (ds_components s))))])
      else if query = ''plans'' \<or> query = ''plan''
        then open_doc (head @ [(''plans'', JList (map plan_entry_json (om_vals (ds_plans s))))])
      else if query = ''compatibility''
        then closed_doc (head @ [(''matrix_generation'', JNumber (mat_generation (ds_matrix s))),
               (''edges'', JList (map edge_json (all_edges (ds_matrix s))))])
      else if query = ''protocols''
        then open_doc (head @ [(''protocols'', JList (map protocol_json (protocol_all (ds_protocols s))))])
      else if query = ''schemas''
        then open_doc (head @ [(''schemas'', JList (map schema_json (schema_all (ds_schemas s))))])
      else if query = ''gates''
        then open_doc (head @ [(''gate_generation'', JNumber (fgr_generation (ds_gates s))),
               (''gates'', JList (map gate_json (gate_all (ds_gates s))))])
      else if query = ''migrations''
        then open_doc (head @ [(''migrations'', JList (map migration_json (ds_migrations s))),
               (''pending_actions'', JList (map action_json (c_pending c)))])
      else if query = ''workers''
        then open_doc (head @ [(''coordinator_epoch'', JNumber (ds_coordinator_epoch s)),
               (''evolution_epoch'', JNumber (ds_evolution_epoch s)),
               (''workers'', JList (map live_json (om_vals (c_live c)))),
               (''durable_worker_records'', JList (map worker_record_json (om_vals (ds_workers s))))])
      else if query = ''epochs'' then closed_doc (head @ epoch_fields c component)
      else if query = ''retirement''
        then open_doc (head @ [(''retirements'', JList (map retirement_json (om_vals (ds_retirements s)))),
               (''fenced_boots'', JList (map fenced_json (om_vals (ds_fenced_boots s))))])
      else if query = ''snapshots''
        then open_doc (head @ [(''snapshots'', JList (map snapshot_json (c_snapshots c)))])
      else if query = ''reconcile''
        then let report = reconcile c in
          open_doc (head @ [(''requires_operator'', JBool (rc_requires_operator report)),
            (''findings'', JList (map full_finding_json (rc_findings report)))])
      else if query = ''explain''
        then open_doc (head @ [(''explanation'', JList (map JString (explain_lines c component)))])
      else closed_doc [(''status'', JString ''INVALID_ARGUMENT''), (''detail'', JString ''unknown query kind'')])"

definition query_component :: "Coord \<Rightarrow> PeerIdentity \<Rightarrow> ident \<Rightarrow> ident" where
  "query_component c peer requested =
     (if requested \<noteq> [] then requested else if pi_component peer \<noteq> [] then pi_component peer
      else case components (ds_components (c_durable c)) of [] \<Rightarrow> [] | n # _ \<Rightarrow> n)"

definition command_query :: "PeerIdentity \<Rightarrow> string \<Rightarrow> ident \<Rightarrow> Coord \<Rightarrow> CommandResult" where
  "command_query peer query requested c =
     (if \<not> pi_is_operator peer \<and> \<not> pi_registered peer
        then failure_result (failure Unauthorized ''queries require a registered runtime generation'')
      else let json = query_json c query (query_component c peer requested) in
        if length json > kQueryBytes then failure_result (failure LimitExceeded ''query result exceeds the bound'')
        else result_unset\<lparr>cr_json := json, cr_explanation := [''read-only inspection completed'']\<rparr>)"


section \<open>Snapshots\<close>

definition take_snapshot :: "ident \<Rightarrow> Coord \<Rightarrow> AuthoritySnapshot \<times> Coord" where
  "take_snapshot component c =
     (let s = c_durable c;
          snapshot = \<lparr>as_generation = gen_bump (ds_snapshot_generation s), as_epoch = epoch_for s component,
            as_coordinator_epoch = ds_coordinator_epoch s, as_matrix_generation = mat_generation (ds_matrix s),
            as_gate_generation = fgr_generation (ds_gates s), as_evidence = ds_evidence_generation s,
            as_canonical = query_json c ''authority'' component\<rparr>;
          kept = (if length (c_snapshots c) \<ge> kSnapshots then tl (c_snapshots c) else c_snapshots c)
      in (snapshot, on_durable (\<lambda>s. s\<lparr>ds_snapshot_generation := as_generation snapshot\<rparr>)
           (c\<lparr>c_snapshots := kept @ [snapshot]\<rparr>)))"

end
