(* ===== verification/Ref_Net.thy ===== *)
theory Ref_Net
  imports Ref_Query
begin

text \<open>
  Sessions, events and frames (\<open>src/coordinator_net.cpp\<close>).  The sockets and threads are left to the
  environment: accepting a connection, receiving a frame, handling the next event, a session thread
  ending and reaping finished sessions are the steps the threads make under the locks.
\<close>

section \<open>Lists inside text fields\<close>

text \<open>The loops over comma separated entries; \<open>f\<close> is the body, \<open>None\<close> when it adds nothing.\<close>

function comma_entries :: "nat \<Rightarrow> (string \<Rightarrow> 'a option) \<Rightarrow> string \<Rightarrow> 'a list \<Rightarrow> 'a list" where
  "comma_entries cap f t acc =
     (if t = [] \<or> length acc \<ge> cap then acc
      else let entry = takeWhile (\<lambda>c. c \<noteq> CHR '','') t; left = dropWhile (\<lambda>c. c \<noteq> CHR '','') t;
               acc = (case f entry of Some a \<Rightarrow> acc @ [a] | None \<Rightarrow> acc)
        in if left = [] then acc else comma_entries cap f (tl left) acc)"
  by pat_completeness auto
termination
  by (relation "measure (\<lambda>(cap, f, t, acc). length t)") (simp_all add: tl_dropWhile_shorter del: length_tl)

declare comma_entries.simps [simp del]

text \<open>The parts of an entry around its first two colons.\<close>

definition colon_split :: "string \<Rightarrow> (string \<times> string \<times> string option) option" where
  "colon_split entry =
     (let left = dropWhile (\<lambda>c. c \<noteq> CHR '':'') entry in
      if left = [] then None
      else let second = dropWhile (\<lambda>c. c \<noteq> CHR '':'') (tl left) in
        Some (takeWhile (\<lambda>c. c \<noteq> CHR '':'') entry, takeWhile (\<lambda>c. c \<noteq> CHR '':'') (tl left),
              if second = [] then None else Some (tl second)))"

definition parse_or_zero :: "string \<Rightarrow> u64" where
  "parse_or_zero t = (case parse_u64 t of Some v \<Rightarrow> v | None \<Rightarrow> 0)"

definition feature_entry :: "string \<Rightarrow> FeatureSupport option" where
  "feature_entry entry =
     (case colon_split entry of
        None \<Rightarrow> None
      | Some (nm, generation, flags) \<Rightarrow>
          let feature = ident63 nm in
          if feature = [] then None
          else Some \<lparr>fs_feature = feature, fs_generation = parse_or_zero generation,
            fs_can_publish = (case flags of Some fl \<Rightarrow> CHR ''p'' \<in> set fl | None \<Rightarrow> False),
            fs_can_consume = (case flags of Some fl \<Rightarrow> CHR ''c'' \<in> set fl | None \<Rightarrow> False)\<rparr>)"

definition decode_features :: "string \<Rightarrow> FeatureSupport list" where
  "decode_features t = comma_entries kFeatureGates feature_entry t []"

definition encode_features :: "FeatureSupport list \<Rightarrow> string" where
  "encode_features fs = foldl (\<lambda>out f. (if out \<noteq> [] then out @ '','' else out) @ fs_feature f @ '':''
     @ dec_u64 (fs_generation f) @ '':'' @ (if fs_can_publish f then ''p'' else []) @ (if fs_can_consume f then ''c'' else []))
     [] fs"

text \<open>The flag \<open>ok\<close> is the one of the last number parsed.\<close>

definition migration_entry :: "string \<Rightarrow> MigrationCapability option" where
  "migration_entry entry =
     (case colon_split entry of
        None \<Rightarrow> None
      | Some (nm, source, target) \<Rightarrow>
          let ok = (case target of Some t \<Rightarrow> parse_u64 t \<noteq> None | None \<Rightarrow> parse_u64 source \<noteq> None) in
          if ok \<and> ident63 nm \<noteq> []
            then Some \<lparr>MigrationCapability.mc_id = ident63 nm, MigrationCapability.mc_generation = gen_first, MigrationCapability.mc_schema = component_state_schema,
              MigrationCapability.mc_source = parse_or_zero source,
              MigrationCapability.mc_target = (case target of Some t \<Rightarrow> parse_or_zero t | None \<Rightarrow> gen_unset), MigrationCapability.mc_reversible = True,
              MigrationCapability.mc_preserves_rollback_metadata = True\<rparr>
          else None)"

definition schema_field_entry :: "gen \<Rightarrow> string \<Rightarrow> SchemaField option" where
  "schema_field_entry generation entry =
     (case colon_split entry of
        None \<Rightarrow> None
      | Some (nm, ty, _) \<Rightarrow>
          if ident63 nm = [] then None
          else Some \<lparr>sf_id = ident63 nm, sf_type = (case parse_field_type ty of Some k \<Rightarrow> k | None \<Rightarrow> U64),
            sf_introduced_in = generation, sf_removed_in = gen_unset, sf_required = True, sf_irreversible = False,
            sf_required_default = []\<rparr>)"

definition cohort_entry :: "string \<Rightarrow> ident option" where
  "cohort_entry entry = (if ident63 entry = [] then None else Some (ident63 entry))"


section \<open>Reading the fields of a message\<close>

definition msg_text :: "WireMessage \<Rightarrow> string \<Rightarrow> string option" where "msg_text m nm = wm_text m (ident63 nm)"
definition msg_ident :: "WireMessage \<Rightarrow> string \<Rightarrow> ident" where "msg_ident m nm = wm_ident 63 m (ident63 nm)"
definition msg_gen :: "WireMessage \<Rightarrow> string \<Rightarrow> gen" where "msg_gen m nm = wm_generation m (ident63 nm)"

definition msg_bool :: "WireMessage \<Rightarrow> string \<Rightarrow> bool \<Rightarrow> bool" where
  "msg_bool m nm fallback = (case wm_boolean m (ident63 nm) of Some b \<Rightarrow> b | None \<Rightarrow> fallback)"

definition msg_set :: "WireMessage \<Rightarrow> string \<Rightarrow> gen_set \<Rightarrow> gen_set" where
  "msg_set m nm fallback = (case msg_text m nm of Some t \<Rightarrow> snd (decode_generation_set t []) | None \<Rightarrow> fallback)"

definition msg_version :: "WireMessage \<Rightarrow> RuntimeVersionId" where
  "msg_version m =
     \<lparr>number = (case msg_text m ''version'' of
          Some t \<Rightarrow> (case version_parse t of Some v \<Rightarrow> v | None \<Rightarrow> number version_unset) | None \<Rightarrow> number version_unset),
      artifact = (case msg_text m ''artifact'' of
          Some t \<Rightarrow> (artifact version_unset)\<lparr>build := ident63 t\<rparr> | None \<Rightarrow> artifact version_unset)\<rparr>"

definition msg_features :: "WireMessage \<Rightarrow> FeatureSupport list" where
  "msg_features m = (case msg_text m ''features'' of Some t \<Rightarrow> decode_features t | None \<Rightarrow> [])"

definition frame_handshake :: "WireMessage \<Rightarrow> ProtocolHandshake" where
  "frame_handshake m = \<lparr>hs_component = msg_ident m ''component'', hs_version = msg_version m,
     hs_runtime_generation = msg_gen m ''runtime_generation'', hs_worker = msg_ident m ''worker'',
     hs_boot = msg_gen m ''boot'', hs_protocol = msg_ident m ''protocol'',
     hs_supported_protocols = msg_set m ''supported_protocols'' [],
     hs_required_minimum = msg_gen m ''required_minimum'', hs_supported_schemas = msg_set m ''supported_schemas'' [],
     hs_committed_schema = msg_gen m ''committed_schema'', hs_capability_generation = msg_gen m ''capability_generation'',
     hs_evolution_epoch = msg_gen m ''evolution_epoch'', hs_coordinator_epoch = msg_gen m ''coordinator_epoch'',
     hs_features = msg_features m,
     hs_declared_role = (case msg_text m ''declared_role'' of Some t \<Rightarrow> note96 t | None \<Rightarrow> [])\<rparr>"

definition frame_version :: "WireMessage \<Rightarrow> RuntimeComponentVersion" where
  "frame_version m =
     (let protocols = msg_set m ''supported_protocols'' []; schemas = msg_set m ''supported_schemas'' [];
          safety = msg_gen m ''min_safety_protocol''; capability = msg_gen m ''capability_generation'';
          format = snd (gs_add [] kStateFormatGenerationV1)
      in \<lparr>rv_component = msg_ident m ''component'', rv_version = msg_version m,
          rv_generation = msg_gen m ''runtime_generation'',
          rv_protocols = \<lparr>ps_supported = protocols, ps_readable = msg_set m ''readable_protocols'' protocols,
            ps_writable = msg_set m ''writable_protocols'' protocols,
            ps_minimum_safety = (if gen_is_set safety then safety else 1)\<rparr>,
          rv_schemas = \<lparr>ss_supported = schemas, ss_readable = msg_set m ''readable_schemas'' schemas,
            ss_writable = msg_set m ''writable_schemas'' schemas,
            ss_readable_formats = msg_set m ''readable_formats'' format,
            ss_writable_formats = msg_set m ''writable_formats'' format\<rparr>,
          rv_migrations = (case msg_text m ''migrations'' of
              Some t \<Rightarrow> comma_entries kMessageFields migration_entry t [] | None \<Rightarrow> []),
          rv_rollback = \<lparr>rc_supported = False, rc_target_window = range_unset, rc_requires_state_restore = False,
            rc_reverse_migration_available = False\<rparr>,
          rv_features = msg_features m,
          rv_capability_generation = (if gen_is_set capability then capability else gen_first), rv_peers = [],
          rv_compatible_generations = range_unset,
          rv_lifecycle = (case msg_text m ''lifecycle'' of
              Some t \<Rightarrow> (case parse_lifecycle t of Some l \<Rightarrow> l | None \<Rightarrow> LifecycleState.Registered)
            | None \<Rightarrow> LifecycleState.Registered),
          rv_provenance = (case msg_text m ''provenance'' of
              Some t \<Rightarrow> (case parse_evidence_class t of Some e \<Rightarrow> e | None \<Rightarrow> EvidenceClass.Unknown) | None \<Rightarrow> Real),
          rv_evidence = gen_unset, rv_epoch = gen_unset, rv_notes = []\<rparr>)"

definition lower_char :: "char \<Rightarrow> char" where
  "lower_char c = (if CHR ''A'' \<le> c \<and> c \<le> CHR ''Z'' then char_of ((of_char c :: nat) + 32) else c)"

definition aspect_field :: "CompatAspect \<Rightarrow> string" where
  "aspect_field a = map lower_char (''aspect_'' @ aspect_to_string a)"

text \<open>The edge of a \<open>PUBLISH_COMPATIBILITY\<close> frame, or why there is none.\<close>

definition frame_edge :: "WireMessage \<Rightarrow> string + CompatibilityEdge" where
  "frame_edge m =
     (let texts = (\<lambda>a. msg_text m (aspect_field a));
          outcome = (\<lambda>a. case texts a of Some t \<Rightarrow> parse_compat_outcome t | None \<Rightarrow> None) in
      if list_ex (\<lambda>a. texts a = None) all_aspects then Inl ''compatibility edge must declare every aspect''
      else if list_ex (\<lambda>a. outcome a = None) all_aspects then Inl ''compatibility aspect outcome is not recognised''
      else Inr \<lparr>ed_from = msg_gen m ''from_generation'', ed_to = msg_gen m ''to_generation'',
        ed_aspects = (\<lambda>a. \<lparr>aa_outcome = (case outcome a of Some k \<Rightarrow> k | None \<Rightarrow> CompatOutcome.Unknown),
          aa_provenance = Real, aa_evidence = gen_first, aa_detail = detail_text ''published over the wire''\<rparr>),
        ed_permissions = ucast (case wm_u64 m (ident63 ''permissions'') of Some v \<Rightarrow> v | None \<Rightarrow> 0),
        ed_generation = gen_unset, ed_evidence = gen_unset, ed_epoch = gen_unset,
        ed_requires_feature_gate = msg_bool m ''requires_feature_gate'' False, ed_gate = msg_ident m ''gate'',
        ed_gate_generation = msg_gen m ''gate_generation'',
        ed_requires_protocol_downgrade = msg_bool m ''requires_protocol_downgrade'' False,
        ed_downgrade_to = msg_gen m ''downgrade_to'',
        ed_requires_state_translation = msg_bool m ''requires_state_translation'' False,
        ed_migration = msg_ident m ''migration'', ed_migration_generation = msg_gen m ''migration_generation''\<rparr>)"

definition frame_schema :: "WireMessage \<Rightarrow> SchemaDescriptor" where
  "frame_schema m =
     (let generation = msg_gen m ''generation'' in
      \<lparr>sd_id = msg_ident m ''schema'', sd_generation = generation,
       sd_fields = (case msg_text m ''fields'' of
           Some t \<Rightarrow> comma_entries kMessageFields (schema_field_entry generation) t [] | None \<Rightarrow> []),
       sd_readable_formats = \<lparr>range_min = msg_gen m ''readable_min'', range_max = msg_gen m ''readable_max''\<rparr>,
       sd_writable_formats = \<lparr>range_min = msg_gen m ''writable_min'', range_max = msg_gen m ''writable_max''\<rparr>,
       sd_reverse_migration_to = msg_gen m ''reverse_migration_to'', sd_requires_explicit_commit = True,
       sd_canonicalization = FixedFieldOrderStableEncoding, sd_integrity = ChecksumAndSchemaBinding,
       sd_provenance = Real, sd_evidence = gen_first, sd_notes = []\<rparr>)"

definition frame_plan :: "WireMessage \<Rightarrow> PlanSpec" where
  "frame_plan m = \<lparr>ps_id = msg_ident m ''plan'', ps_component = msg_ident m ''component'',
     ps_candidate_generation = msg_gen m ''candidate_generation'', ps_migration = msg_ident m ''migration'',
     ps_migration_generation = msg_gen m ''migration_generation'', ps_migration_source = msg_gen m ''migration_source'',
     ps_migration_target = msg_gen m ''migration_target'', ps_canary_cohort = msg_ident m ''canary_cohort'',
     ps_cohorts = (case msg_text m ''cohorts'' of Some t \<Rightarrow> comma_entries kCohorts cohort_entry t [] | None \<Rightarrow> []),
     ps_policy = \<lparr>require_canary = msg_bool m ''policy_require_canary'' True,
       require_mixed_version_cohort = msg_bool m ''policy_require_mixed_version'' True,
       require_migration_barrier = msg_bool m ''policy_require_migration_barrier'' False,
       require_new_writer_barrier = msg_bool m ''policy_require_new_writer_barrier'' True,
       require_old_writer_drain = msg_bool m ''policy_require_old_writer_drain'' True, require_rollback_proof = True,
       rp_generation = gen_unset\<rparr>,
     ps_required_evidence = [], ps_detail = []\<rparr>"

definition msg_outcome :: "WireMessage \<Rightarrow> MigrationOutcome" where
  "msg_outcome m = (case msg_text m ''migration_outcome'' of
     Some t \<Rightarrow> (case parse_migration_outcome t of Some k \<Rightarrow> k | None \<Rightarrow> MigrationOutcome.OutcomeUnknown)
   | None \<Rightarrow> MigrationOutcome.OutcomeUnknown)"

definition msg_digest :: "WireMessage \<Rightarrow> IntegrityDigest" where
  "msg_digest m = (case msg_text m ''state_digest'' of
     Some t \<Rightarrow> (case digest_from_hex t of Some d \<Rightarrow> d | None \<Rightarrow> digest_zero) | None \<Rightarrow> digest_zero)"



section \<open>Responses\<close>

definition kSessionQueueDepth :: nat where "kSessionQueueDepth = 256"

text \<open>\<open>session->outgoing->offer\<close>; its answer is dropped.\<close>

definition queue_frame :: "ident \<Rightarrow> Frame \<Rightarrow> Coord \<Rightarrow> Coord" where
  "queue_frame i frame c =
     (case om_find (c_sessions c) i of
        None \<Rightarrow> c
      | Some session \<Rightarrow> c\<lparr>c_sessions := om_upd i (session\<lparr>se_outgoing := snd (offer frame (se_outgoing session))\<rparr>)
          (c_sessions c)\<rparr>)"

definition response_body :: "CommandResult \<Rightarrow> WireMessage" where
  "response_body result =
     (let body = with_text ''detail'' (detail (cr_status result))
            (with_text ''status'' (error_code_to_string (code (cr_status result))) (cr_fields result))
      in if cr_json result \<noteq> [] then snd (wm_set_document body (ident63 ''json'') (cr_json result)) else body)"

definition respond :: "ident \<Rightarrow> Frame \<Rightarrow> MessageType \<Rightarrow> CommandResult \<Rightarrow> u32 \<Rightarrow> Coord \<Rightarrow> Coord" where
  "respond i request type result extra c =
     (let encoded = wm_encode (response_body result); h = fr_header request;
          c = c\<lparr>c_frame_counter := c_frame_counter c + 1\<rparr>;
          header = frame_header_default\<lparr>wh_type := type, wh_flags := kFrameFlagResponse OR extra,
            wh_runtime_generation := wh_runtime_generation h, wh_protocol_generation := wh_protocol_generation h,
            wh_schema_generation := wh_schema_generation h, wh_coordinator_epoch := ds_coordinator_epoch (c_durable c),
            wh_evolution_epoch := wh_evolution_epoch h, wh_boot := wh_boot h, wh_sequence := c_frame_counter c\<rparr>
      in if length encoded > kFrameBytes then c
         else queue_frame i \<lparr>fr_header = header, fr_payload = encoded\<rparr> c)"


section \<open>Frame semantics\<close>

definition validate_frame_semantics :: "Session \<Rightarrow> Frame \<Rightarrow> Coord \<Rightarrow> Status + WireMessage" where
  "validate_frame_semantics session frame c =
     (let peer = se_peer session; s = c_durable c; h = fr_header frame; deny = (\<lambda>e text. Inl (failure e text)) in
      if \<not> se_handshaked session then deny Unauthorized ''session has not completed a handshake''
      else if wh_runtime_generation h \<noteq> pi_runtime_generation peer
        then deny StaleGeneration ''frame runtime generation does not match the negotiated session''
      else if wh_boot h \<noteq> pi_boot peer then deny StaleBoot ''frame boot identity does not match the session''
      else if is_retired s (pi_component peer) (pi_runtime_generation peer)
        then deny RetiredGeneration ''runtime generation is retired''
      else if is_boot_fenced s (pi_worker peer) (wh_boot h) then deny StaleBoot ''boot identity has been fenced''
      else case om_find (c_live c) (pi_worker peer) of
          None \<Rightarrow> deny StaleBoot ''worker is not current; re-registration is required''
        | Some live \<Rightarrow>
      (if lw_fenced live then deny StaleBoot ''worker has been fenced''
       else if wh_coordinator_epoch h \<noteq> ds_coordinator_epoch s then deny StaleEpoch ''frame carries a stale coordinator epoch''
       else if wh_evolution_epoch h \<noteq> epoch_for s (pi_component peer)
         then deny StaleEpoch ''frame carries a stale evolution epoch''
       else if wh_protocol_generation h \<noteq> pi_agreed_protocol peer
         then deny StaleGeneration ''frame protocol generation is not the negotiated generation''
       else if wh_schema_generation h \<noteq> pi_agreed_schema peer
         then deny StaleGeneration ''frame schema generation is not the negotiated generation''
       else case protocol_find (ds_protocols s) (pi_protocol peer) (pi_agreed_protocol peer) of
           None \<Rightarrow> deny ErrorCode.Unsupported ''negotiated protocol generation is not registered''
         | Some descriptor \<Rightarrow>
       (let type_id = ident63 (message_type_to_string (wh_type h)) in
        if \<not> supports_message descriptor type_id
          then deny ErrorCode.Unsupported ''message type is not available at the negotiated protocol generation''
        else case wire_message_spec (wh_type h) of
            None \<Rightarrow> deny ErrorCode.Unsupported ''message type has no declared field contract''
          | Some spec \<Rightarrow>
        (if ws_operator_only spec \<and> \<not> pi_is_operator peer
           then deny Unauthorized ''message type requires operator authority''
         else let (decoded, message) = wm_decode (fr_payload frame); declared = find_message descriptor type_id in
           if is_failure decoded then Inl decoded
           else if message \<noteq> [] \<and> declared = None
             then deny ErrorCode.Unsupported ''message type is not declared by the protocol''
           else if list_ex (\<lambda>f. \<not> list_ex (\<lambda>d. fd_id d = wf_name f) (case declared of Some d \<Rightarrow> md_fields d | None \<Rightarrow> [])) message
             then deny ErrorCode.Unsupported ''message carries a field the protocol does not declare''
           else if is_failure (require_fields message (ws_required spec)) then Inl (require_fields message (ws_required spec))
           else if message_is_mutating (wh_type h) \<and> \<not> permits_mutation (pi_operation peer)
                   \<and> wh_type h \<noteq> RegisterComponent \<and> wh_type h \<noteq> PublishCapability
             then deny Unauthorized ''negotiated operation class does not permit mutating messages''
           else Inr message))))"


section \<open>Handlers\<close>

definition handle_heartbeat :: "PeerIdentity \<Rightarrow> WireMessage \<Rightarrow> Coord \<Rightarrow> CommandResult \<times> Coord" where
  "handle_heartbeat peer m c =
     (case om_find (c_live c) (pi_worker peer) of
        None \<Rightarrow> reject c StaleBoot ''worker is not current''
      | Some w \<Rightarrow>
          if lw_boot w \<noteq> pi_boot peer then reject c StaleBoot ''boot identity mismatch''
          else
            let w = w\<lparr>lw_active := True,
                  lw_capability_generation := (case msg_text m ''capability_generation'' of
                      Some t \<Rightarrow> (case parse_u64 t of Some v \<Rightarrow> v | None \<Rightarrow> lw_capability_generation w)
                    | None \<Rightarrow> lw_capability_generation w)\<rparr>;
                result = ok_json (json_doc [(''status'', JString ''OK''), (''detail'', JString ''heartbeat accepted''),
                    (''coordinator_epoch'', JNumber (ds_coordinator_epoch (c_durable c))),
                    (''evolution_epoch'', JNumber (epoch_for (c_durable c) (pi_component peer)))]) ''heartbeat accepted''
            in (result\<lparr>cr_fields := with_u64 ''negotiated_schema'' (lw_committed_schema w)
                  (with_u64 ''negotiated_protocol'' (lw_negotiated_protocol w)
                    (with_text ''operation_class'' (operation_class_to_string (lw_operation w)) (cr_fields result)))\<rparr>,
                c\<lparr>c_live := om_upd (pi_worker peer) w (c_live c)\<rparr>))"

text \<open>What a report says of an action: \<open>None\<close> when the action stays outstanding.\<close>

definition reported_outcome :: "DurableState \<Rightarrow> WireMessage \<Rightarrow> PendingAction \<Rightarrow> MigrationOutcome option" where
  "reported_outcome s m action =
     (let observed = msg_gen m ''state_generation''; outcome = msg_outcome m;
          concluded = (if outcome = MigrationOutcome.OutcomeUnknown \<and> gen_is_set observed \<and> observed = pa_target action
            then (case schema_find (ds_schemas s) component_state_schema (pa_target action) of
                    Some d \<Rightarrow> if gen_is_set (sd_reverse_migration_to d) then RollbackAvailable else Irreversible
                  | None \<Rightarrow> Irreversible)
            else outcome)
      in if outcome_completed concluded then Some concluded else None)"

definition report_action :: "PeerIdentity \<Rightarrow> WireMessage \<Rightarrow> PendingAction \<Rightarrow> Coord \<Rightarrow> PendingAction \<times> Coord" where
  "report_action peer m action c =
     (let i = msg_ident m ''plan''; s = c_durable c in
      if pa_worker action \<noteq> pi_worker peer \<or> i \<noteq> [] \<and> pa_plan action \<noteq> i \<or> \<not> action_open action then (action, c)
      else case reported_outcome s m action of
          None \<Rightarrow> (action, c)
        | Some outcome \<Rightarrow>
            (case plan_locked s (pa_plan action) of
               None \<Rightarrow> (action, c)
             | Some plan \<Rightarrow>
                 (action\<lparr>pa_state := Acknowledged\<rparr>,
                  if length (ds_migrations s) < kMigrationRecords
                  then on_stats (\<lambda>st. st\<lparr>st_migrations_committed := st_migrations_committed st + 1\<rparr>)
                    (on_durable (put_plan_at (pa_plan action) (plan\<lparr>ep_rollback_barrier_crossed :=
                        (ep_rollback_barrier_crossed plan \<or> outcome = MigrationOutcome.Irreversible)\<rparr>))
                      (on_durable (\<lambda>s. s\<lparr>ds_migrations := ds_migrations s @
                        [(completion_record plan action outcome digest_zero)\<lparr>mrec_detail :=
                           detail_text ''reconciled after an ambiguous completion''\<rparr>]\<rparr>) c))
                  else c)))"

fun report_actions :: "PeerIdentity \<Rightarrow> WireMessage \<Rightarrow> PendingAction list \<Rightarrow> Coord \<Rightarrow> PendingAction list \<times> Coord" where
  "report_actions peer m [] c = ([], c)"
| "report_actions peer m (a # as) c =
     (let (a, c) = report_action peer m a c; (as, c) = report_actions peer m as c in (a # as, c))"

definition handle_report :: "PeerIdentity \<Rightarrow> WireMessage \<Rightarrow> Coord \<Rightarrow> CommandResult \<times> Coord" where
  "handle_report peer m c =
     (let (actions, c) = report_actions peer m (c_pending c) c
      in finish (ok_result ''reconciliation report recorded'') (next_evidence (c\<lparr>c_pending := actions\<rparr>)))"

definition reject_frame :: "Coord \<Rightarrow> ErrorCode \<Rightarrow> string \<Rightarrow> CommandResult \<times> Coord" where
  "reject_frame c e text =
     reject (on_stats (\<lambda>st. st\<lparr>st_frames_rejected := st_frames_rejected st + 1\<rparr>) c) e text"

text \<open>The switch over the message types, with the type of the answer.\<close>

definition frame_command :: "PeerIdentity \<Rightarrow> MessageType \<Rightarrow> WireMessage \<Rightarrow> Coord \<Rightarrow> (CommandResult \<times> Coord) \<times> MessageType" where
  "frame_command peer type m c =
     (case type of
        RegisterComponent \<Rightarrow> (command_register_component peer (frame_version m) c, RegisterComponentAck)
      | PublishCapability \<Rightarrow>
          (command_publish_capability peer (msg_ident m ''component'') (msg_gen m ''runtime_generation'')
             (case msg_text m ''capability_generation'' of Some t \<Rightarrow> parse_or_zero t | None \<Rightarrow> 0) (msg_features m) c,
           PublishCapabilityAck)
      | PublishCompatibility \<Rightarrow>
          (case frame_edge m of Inl text \<Rightarrow> reject c InvalidArgument text
           | Inr edge \<Rightarrow> command_publish_compatibility peer edge c, PublishCompatibilityAck)
      | PublishSchema \<Rightarrow> (command_publish_schema peer (frame_schema m) c, PublishSchemaAck)
      | NegotiateProtocol \<Rightarrow> ((command_negotiate peer (msg_set m ''supported_protocols'' []) c, c), NegotiateProtocolAck)
      | RequestUpgrade \<Rightarrow> (command_create_plan peer (frame_plan m) c, RequestUpgradeAck)
      | RequestDrain \<Rightarrow>
          (command_request_drain peer (msg_ident m ''component'') (msg_gen m ''runtime_generation'') c, RequestDrainAck)
      | RequestRetirement \<Rightarrow>
          (command_request_retirement peer (msg_ident m ''component'') (msg_gen m ''runtime_generation'') c,
           RequestRetirementAck)
      | PublishStage \<Rightarrow>
          (case (case msg_text m ''stage'' of Some t \<Rightarrow> parse_rollout_stage t | None \<Rightarrow> None) of
             None \<Rightarrow> reject c InvalidArgument ''stage name is unknown''
           | Some stage \<Rightarrow> command_advance_stage peer (msg_ident m ''plan'') stage (msg_gen m ''stage_generation'') c,
           PublishStageAck)
      | PublishCompletion \<Rightarrow>
          (command_publish_completion peer (msg_ident m ''plan'') (msg_ident m ''stage_id'') (msg_gen m ''stage_generation'')
             (msg_outcome m) (msg_digest m) (msg_bool m ''drain'' False) c, PublishCompletionAck)
      | QueryState \<Rightarrow>
          ((command_query peer (case msg_text m ''query'' of Some t \<Rightarrow> t | None \<Rightarrow> ''authority'') (msg_ident m ''component'') c, c),
           QueryStateAck)
      | Fence \<Rightarrow>
          (command_fence peer (msg_ident m ''worker'') (msg_gen m ''boot'')
             (case msg_text m ''reason'' of Some t \<Rightarrow> t | None \<Rightarrow> ''operator fence'') c, FenceAck)
      | Heartbeat \<Rightarrow> (handle_heartbeat peer m c, HeartbeatAck)
      | Goodbye \<Rightarrow> ((ok_result ''session closing'', c), Goodbye)
      | ReconcileReport \<Rightarrow> (handle_report peer m c, PublishCompletionAck)
      | RequestStateTransform \<Rightarrow>
          ((command_state_transform peer (msg_ident m ''plan'') (msg_gen m ''target_schema'') c, c), PublishStageAck)
      | RequestMigrationDispatch \<Rightarrow> (command_request_migration peer (msg_ident m ''plan'') c, RequestMigrationAck)
      | RequestRollbackDispatch \<Rightarrow> (command_request_rollback peer (msg_ident m ''plan'') c, RequestRollbackAck)
      | RequestSupersede \<Rightarrow> (command_supersede_plan peer (msg_ident m ''plan'') c, PublishStageAck)
      | RequestFeatureEnable \<Rightarrow>
          (command_enable_feature peer (msg_ident m ''feature'') (msg_ident m ''plan'') c, PublishStageAck)
      | RequestLifecycle \<Rightarrow>
          (case (case msg_text m ''lifecycle'' of Some t \<Rightarrow> parse_lifecycle t | None \<Rightarrow> None) of
             None \<Rightarrow> reject c InvalidArgument ''lifecycle name is not recognised''
           | Some l \<Rightarrow> command_request_lifecycle peer (msg_ident m ''component'') (msg_gen m ''runtime_generation'') l c,
           PublishStageAck)
      | RequestPlanRebind \<Rightarrow>
          (command_rebind_plan peer (msg_ident m ''plan'') (msg_gen m ''plan_generation'') c, PublishStageAck)
      | RequestMigration \<Rightarrow>
          (reject_frame c Unauthorized ''message type is coordinator-to-worker only and is not accepted inbound'', Error)
      | RequestRollback \<Rightarrow>
          (reject_frame c Unauthorized ''message type is coordinator-to-worker only and is not accepted inbound'', Error)
      | _ \<Rightarrow> (reject_frame c ErrorCode.Unsupported ''message type is not accepted by the coordinator'', Error))"

definition rejected_frames :: "Coord \<Rightarrow> Coord" where
  "rejected_frames c = on_stats (\<lambda>st. st\<lparr>st_frames_rejected := st_frames_rejected st + 1\<rparr>) c"

definition handle_hello :: "ident \<Rightarrow> Session \<Rightarrow> Frame \<Rightarrow> Coord \<Rightarrow> Coord" where
  "handle_hello i session frame c =
     (let (decoded, m) = wm_decode (fr_payload frame) in
      if is_failure decoded
        then respond i frame Error (failure_result decoded) kFrameFlagFatal (rejected_frames c)
      else
        let operator = (se_loopback session \<and> wh_flags (fr_header frame) AND kFrameFlagOperator \<noteq> 0);
            peer = peer_unset\<lparr>pi_session := se_id session, pi_is_operator := operator, pi_authenticated := operator\<rparr>;
            (result, peer, c) = command_hello (frame_handshake m) peer c;
            c = (if is_ok (cr_status result)
                 then (case om_find (c_sessions c) i of
                         Some session \<Rightarrow> c\<lparr>c_sessions := om_upd i (session\<lparr>se_peer := peer, se_handshaked := True,
                           se_last_sequence := wh_sequence (fr_header frame)\<rparr>) (c_sessions c)\<rparr>
                       | None \<Rightarrow> c)
                 else rejected_frames c)
        in respond i frame HelloAck result 0 c)"

text \<open>The watermark of the session and the freshness of the worker, before the switch.\<close>

definition admit_frame :: "ident \<Rightarrow> Session \<Rightarrow> Frame \<Rightarrow> Coord \<Rightarrow> Coord" where
  "admit_frame i session frame c =
     (let c = c\<lparr>c_sessions := om_upd i (session\<lparr>se_last_sequence := wh_sequence (fr_header frame)\<rparr>) (c_sessions c)\<rparr>;
          worker = pi_worker (se_peer session)
      in case om_find (c_live c) worker of
           Some w \<Rightarrow> c\<lparr>c_live := om_upd worker (w\<lparr>lw_frames := lw_frames w + 1,
             lw_evidence := ds_evidence_generation (c_durable c)\<rparr>) (c_live c)\<rparr>
         | None \<Rightarrow> c)"

definition count_event :: "CommandResult \<Rightarrow> Coord \<Rightarrow> Coord" where
  "count_event result c = on_stats (\<lambda>st. if is_ok (cr_status result)
     then st\<lparr>st_events_processed := st_events_processed st + 1\<rparr>
     else st\<lparr>st_events_rejected := st_events_rejected st + 1\<rparr>) c"

text \<open>Admission and command are two lock regions of the source, and a command called in process may run between
  them; here the command of a frame follows its admission at once.  \<open>Ref_Overlap\<close> has them as separate steps.\<close>

definition handle_frame :: "ident \<Rightarrow> Frame \<Rightarrow> Coord \<Rightarrow> Coord" where
  "handle_frame i frame c =
     (case om_find (c_sessions c) i of
        None \<Rightarrow> c
      | Some session \<Rightarrow>
          if is_failure (validate_frame_envelope frame kFrameBytes) then rejected_frames c
          else if wh_type (fr_header frame) = Hello then handle_hello i session frame c
          else case validate_frame_semantics session frame c of
              Inl status \<Rightarrow> respond i frame Error (failure_result status) 0 (rejected_frames c)
            | Inr m \<Rightarrow>
                if wh_sequence (fr_header frame) \<le> se_last_sequence session
                  then respond i frame Error (failure_result (failure Conflict
                    ''frame sequence is not ahead of the session watermark'')) 0 (rejected_frames c)
                else
                  let ((result, c), type) = frame_command (se_peer session) (wh_type (fr_header frame)) m
                        (admit_frame i session frame c)
                  in respond i frame type result 0 (count_event result c))"


section \<open>Sessions and the event queue\<close>

text \<open>One turn of the accept loop, for an accepted connection.\<close>

definition listed_sessions :: "Coord \<Rightarrow> nat" where
  "listed_sessions c = length (filter se_listed (om_vals (c_sessions c)))"

definition new_session :: "ident \<Rightarrow> bool \<Rightarrow> Session" where
  "new_session i loopback = \<lparr>se_id = i, se_loopback = loopback, se_closed = False, se_handshaked = False,
     se_peer = peer_unset, se_last_sequence = 0, se_outgoing = queue_new kSessionQueueDepth, se_reader_done = False,
     se_writer_done = False, se_listed = True\<rparr>"

definition accept_connection :: "bool \<Rightarrow> Coord \<Rightarrow> Coord" where
  "accept_connection loopback c =
     (if listed_sessions c \<ge> kConnections
        then on_stats (\<lambda>st. st\<lparr>st_connections_rejected := st_connections_rejected st + 1\<rparr>) c
      else let n = c_session_counter c + 1; i = ident63 (''s-'' @ dec_u64 n) in
        on_stats (\<lambda>st. st\<lparr>st_connections_accepted := st_connections_accepted st + 1\<rparr>)
          (c\<lparr>c_session_counter := n, c_sessions := om_upd i (new_session i loopback) (c_sessions c)\<rparr>))"

text \<open>One turn of a session's reader, for a received frame; a full queue refuses the frame.\<close>

definition queue_full_frame :: "DurableState \<Rightarrow> Frame" where
  "queue_full_frame s = \<lparr>fr_header = frame_header_default\<lparr>wh_type := Error,
       wh_flags := kFrameFlagResponse OR kFrameFlagFatal, wh_coordinator_epoch := ds_coordinator_epoch s\<rparr>,
     fr_payload = wm_encode (with_text ''detail'' ''coordinator event queue is full; frame rejected without mutation''
       (with_text ''status'' ''QUEUE_FULL'' []))\<rparr>"

definition receive_frame :: "ident \<Rightarrow> Frame \<Rightarrow> Coord \<Rightarrow> Coord" where
  "receive_frame i frame c =
     (let (sequence, events) = offer (i, frame) (c_events c); c = c\<lparr>c_events := events\<rparr> in
      if sequence \<noteq> None then c
      else queue_frame i (queue_full_frame (c_durable c))
        (on_stats (\<lambda>st. st\<lparr>st_queue_rejections := st_queue_rejections st + 1\<rparr>) c))"

definition close_session :: "Session \<Rightarrow> Session" where
  "close_session session = session\<lparr>se_closed := True, se_outgoing := queue_close (se_outgoing session)\<rparr>"

definition on_session :: "ident \<Rightarrow> (Session \<Rightarrow> Session) \<Rightarrow> Coord \<Rightarrow> Coord" where
  "on_session i f c =
     (case om_find (c_sessions c) i of
        None \<Rightarrow> c | Some session \<Rightarrow> c\<lparr>c_sessions := om_upd i (f session) (c_sessions c)\<rparr>)"

text \<open>A reader closes its session before it ends; a writer closes it when a frame could not be sent.\<close>

definition reader_ends :: "ident \<Rightarrow> Coord \<Rightarrow> Coord" where
  "reader_ends i c = on_session i (\<lambda>se. (close_session se)\<lparr>se_reader_done := True\<rparr>) c"

definition writer_ends :: "ident \<Rightarrow> bool \<Rightarrow> Coord \<Rightarrow> Coord" where
  "writer_ends i send_failed c =
     on_session i (\<lambda>se. (if send_failed then close_session se else se)\<lparr>se_writer_done := True\<rparr>) c"

definition reap_ready :: "Session \<Rightarrow> bool" where
  "reap_ready session \<longleftrightarrow> se_listed session \<and> se_reader_done session \<and> se_writer_done session"

definition drop_worker :: "Coord \<Rightarrow> Session \<Rightarrow> Coord" where
  "drop_worker c session =
     (let worker = pi_worker (se_peer session) in
      if om_find (c_worker_sessions c) worker = Some (se_id session)
        then c\<lparr>c_worker_sessions := om_del worker (c_worker_sessions c), c_live := om_del worker (c_live c)\<rparr>
      else c)"

definition reap_sessions :: "Coord \<Rightarrow> Coord" where
  "reap_sessions c =
     foldl drop_worker
       (c\<lparr>c_sessions := om_map_vals (\<lambda>se. if reap_ready se then se\<lparr>se_listed := False\<rparr> else se) (c_sessions c)\<rparr>)
       (filter reap_ready (om_vals (c_sessions c)))"

text \<open>One turn of the event loop; \<open>None\<close> while it waits.\<close>

definition next_event :: "Coord \<Rightarrow> Coord option" where
  "next_event c =
     (case wait_pop (c_events c) of
        None \<Rightarrow> None
      | Some (None, q) \<Rightarrow> None
      | Some (Some (_, i, frame), q) \<Rightarrow>
          Some (on_stats (\<lambda>st. st\<lparr>st_events_processed := st_events_processed st + 1\<rparr>)
            (handle_frame i frame (c\<lparr>c_events := q\<rparr>))))"

definition shutdown_sessions :: "Coord \<Rightarrow> Coord" where
  "shutdown_sessions c =
     c\<lparr>c_sessions := om_map_vals (\<lambda>se. if se_listed se then (close_session se)\<lparr>se_listed := False\<rparr> else se) (c_sessions c),
       c_worker_sessions := om_empty, c_live := om_empty\<rparr>"

definition coordinator_stop :: "Coord \<Rightarrow> Coord" where
  "coordinator_stop c =
     (if \<not> c_running c then c\<lparr>c_events := queue_close (c_events c)\<rparr>
      else let c = shutdown_sessions (c\<lparr>c_running := False\<rparr>) in c\<lparr>c_events := queue_close (c_events c)\<rparr>)"

text \<open>Starting, up to opening the listener, whose result is a parameter.\<close>

definition coordinator_start :: "Status \<Rightarrow> Coord \<Rightarrow> Status \<times> Coord" where
  "coordinator_start opened c =
     (if c_running c then (failure Conflict ''coordinator is already running'', c)
      else let (loaded, c) = load_durable c in
        if is_failure loaded then (loaded, c)
        else let (bootstrap, c) = install_builtin_protocols c in
          if is_failure bootstrap then (bootstrap, c)
          else let (bootstrap, c) = install_builtin_schemas c in
            if is_failure bootstrap then (bootstrap, c)
            else let (bootstrap, c) = install_builtin_features c in
              if is_failure bootstrap then (bootstrap, c)
              else if is_failure opened then (opened, c)
              else (status_ok, c\<lparr>c_running := True\<rparr>))"

end
