(* ===== verification/Ref_Fabric.thy ===== *)
theory Ref_Fabric
  imports Ref_Net
begin

text \<open>
  The coordinator over time: the commands as one datatype, a step relation over them, and the order in which
  the durable state moves.
\<close>

section \<open>Commands and runs\<close>

datatype Command =
    DoHello ProtocolHandshake
  | DoRegisterComponent RuntimeComponentVersion
  | DoPublishCapability ident gen gen "FeatureSupport list"
  | DoPublishCompatibility CompatibilityEdge
  | DoPublishSchema SchemaDescriptor
  | DoPublishProtocol ProtocolDescriptor
  | DoCreatePlan PlanSpec
  | DoAdvanceStage ident RolloutStage gen
  | DoRebindPlan ident gen
  | DoEnableFeature ident ident
  | DoRequestDrain ident gen
  | DoRequestMigration ident
  | DoRequestRollback ident
  | DoRequestRetirement ident gen
  | DoSupersedePlan ident
  | DoRequestLifecycle ident gen LifecycleState
  | DoFenceBoot ident gen string
  | DoPublishCompletion ident ident gen MigrationOutcome IntegrityDigest bool
  | DoNegotiate gen_set
  | DoStateTransform ident gen

fun run_command :: "PeerIdentity \<Rightarrow> Command \<Rightarrow> Coord \<Rightarrow> CommandResult \<times> Coord" where
  "run_command peer (DoHello h) c = (let (result, _, c) = command_hello h peer c in (result, c))"
| "run_command peer (DoRegisterComponent v) c = command_register_component peer v c"
| "run_command peer (DoPublishCapability n g k fs) c = command_publish_capability peer n g k fs c"
| "run_command peer (DoPublishCompatibility e) c = command_publish_compatibility peer e c"
| "run_command peer (DoPublishSchema d) c = command_publish_schema peer d c"
| "run_command peer (DoPublishProtocol d) c = command_publish_protocol peer d c"
| "run_command peer (DoCreatePlan spec) c = command_create_plan peer spec c"
| "run_command peer (DoAdvanceStage i target g) c = command_advance_stage peer i target g c"
| "run_command peer (DoRebindPlan i g) c = command_rebind_plan peer i g c"
| "run_command peer (DoEnableFeature f i) c = command_enable_feature peer f i c"
| "run_command peer (DoRequestDrain n g) c = command_request_drain peer n g c"
| "run_command peer (DoRequestMigration i) c = command_request_migration peer i c"
| "run_command peer (DoRequestRollback i) c = command_request_rollback peer i c"
| "run_command peer (DoRequestRetirement n g) c = command_request_retirement peer n g c"
| "run_command peer (DoSupersedePlan i) c = command_supersede_plan peer i c"
| "run_command peer (DoRequestLifecycle n g st) c = command_request_lifecycle peer n g st c"
| "run_command peer (DoFenceBoot w b reason) c = command_fence peer w b reason c"
| "run_command peer (DoPublishCompletion i st g m d drain) c = command_publish_completion peer i st g m d drain c"
| "run_command peer (DoNegotiate gs) c = (command_negotiate peer gs c, c)"
| "run_command peer (DoStateTransform i g) c = (command_state_transform peer i g c, c)"

text \<open>What the accept loop, the session threads and the event loop do, with the test hook that makes writes
  fail and the end of the process.\<close>

inductive thread_step :: "Coord \<Rightarrow> Coord \<Rightarrow> bool" where
  event_step: "next_event c = Some c' \<Longrightarrow> thread_step c c'"
| accept_step: "thread_step c (accept_connection loopback c)"
| receive_step: "thread_step c (receive_frame i frame c)"
| reader_step: "thread_step c (reader_ends i c)"
| writer_step: "thread_step c (writer_ends i send_failed c)"
| reap_step: "thread_step c (reap_sessions c)"
| snapshot_step: "thread_step c (snd (take_snapshot n c))"
| fault_step: "thread_step c (c\<lparr>c_fail_persistence := fault\<rparr>)"
| stop_step: "thread_step c (coordinator_stop c)"

text \<open>The steps of the running coordinator: calls of the commands by the embedding process, and the threads.\<close>

inductive fabric_step :: "Coord \<Rightarrow> Coord \<Rightarrow> bool" where
  command_step: "fabric_step c (snd (run_command peer cmd c))"
| threads: "thread_step c c' \<Longrightarrow> fabric_step c c'"


section \<open>The order of durable states\<close>

text \<open>Counters never go down, except that the raw value above the ceiling saturates to the ceiling.\<close>

definition gen_le :: "gen \<Rightarrow> gen \<Rightarrow> bool" where
  "gen_le g g' \<longleftrightarrow> min g kGenerationCeiling \<le> g'"

text \<open>What may become of a plan: its identity and its bindings stay, a crossed rollback barrier stays
  crossed, and a superseded plan changes in nothing but that barrier.\<close>

definition plan_follows :: "EvolutionPlan \<Rightarrow> EvolutionPlan \<Rightarrow> bool" where
  "plan_follows p q \<longleftrightarrow> ep_id q = ep_id p \<and> ep_component q = ep_component p \<and> ep_epoch q = ep_epoch p
     \<and> ep_current_generation q = ep_current_generation p \<and> ep_candidate_generation q = ep_candidate_generation p
     \<and> ep_rollback_target q = ep_rollback_target p \<and> ep_migration q = ep_migration p
     \<and> (ep_rollback_barrier_crossed p \<longrightarrow> ep_rollback_barrier_crossed q)
     \<and> gen_le (ep_generation p) (ep_generation q) \<and> (ep_superseded p \<longrightarrow> q\<lparr>ep_rollback_barrier_crossed := True\<rparr> = p\<lparr>ep_rollback_barrier_crossed := True\<rparr>)"

text \<open>What may become of a worker's record: its boot never becomes older, and a fenced boot stays fenced.\<close>

definition worker_follows :: "WorkerRecord \<Rightarrow> WorkerRecord \<Rightarrow> bool" where
  "worker_follows r r' \<longleftrightarrow> wr_last_boot r \<le> wr_last_boot r'
     \<and> (wr_fenced r \<and> wr_last_boot r' = wr_last_boot r \<longrightarrow> wr_fenced r')"

definition table_follows :: "('v \<Rightarrow> 'v \<Rightarrow> bool) \<Rightarrow> ('k :: linorder, 'v) omap \<Rightarrow> ('k, 'v) omap \<Rightarrow> bool" where
  "table_follows R m m' \<longleftrightarrow> (\<forall>k v. om_find m k = Some v \<longrightarrow> (\<exists>v'. om_find m' k = Some v' \<and> R v v'))"

definition appended :: "'a list \<Rightarrow> 'a list \<Rightarrow> bool" where
  "appended xs ys \<longleftrightarrow> (\<exists>zs. ys = xs @ zs)"

definition durable_le :: "DurableState \<Rightarrow> DurableState \<Rightarrow> bool" where
  "durable_le s s' \<longleftrightarrow>
     registry_step\<^sup>*\<^sup>* (ds_components s) (ds_components s')
     \<and> table_follows (\<lambda>_ _. True) (ds_retirements s) (ds_retirements s')
     \<and> table_follows (\<lambda>_ _. True) (ds_fenced_boots s) (ds_fenced_boots s')
     \<and> table_follows plan_follows (ds_plans s) (ds_plans s')
     \<and> table_follows worker_follows (ds_workers s) (ds_workers s')
     \<and> appended (ds_migrations s) (ds_migrations s') \<and> appended (ds_rollbacks s) (ds_rollbacks s')
     \<and> ds_coordinator_epoch s' = ds_coordinator_epoch s
     \<and> gen_le (ds_evolution_epoch s) (ds_evolution_epoch s') \<and> gen_le (ds_stage_generation s) (ds_stage_generation s')
     \<and> gen_le (ds_evidence_generation s) (ds_evidence_generation s') \<and> gen_le (ds_policy_generation s) (ds_policy_generation s')"

lemma gen_le_refl [simp]: "gen_le g g"
  by (simp add: gen_le_def)

lemma gen_le_trans: "gen_le a b \<Longrightarrow> gen_le b c \<Longrightarrow> gen_le a c"
  by (auto simp: gen_le_def min_def split: if_splits)

lemma gen_le_next [simp]: "gen_le g (gen_next g)"
proof (cases "g < kGenerationCeiling")
  case True
  then have "g < gen_next g" by (rule gen_next_gt)
  then have "g \<le> gen_next g" by (rule less_imp_le)
  with True show ?thesis by (simp add: gen_le_def min_def less_imp_le)
qed (simp add: gen_le_def gen_next_def min_def not_less)

lemma gen_le_bump [simp]: "gen_le g (gen_bump g)"
proof (cases "gen_is_set g")
  case False
  then show ?thesis by (simp add: gen_bump_def gen_is_set_def gen_le_def)
qed (simp add: gen_bump_def)

lemma plan_follows_refl [simp]: "plan_follows p p"
  by (simp add: plan_follows_def)

lemma plan_follows_trans: "plan_follows p q \<Longrightarrow> plan_follows q r \<Longrightarrow> plan_follows p r"
  unfolding plan_follows_def by (auto intro: gen_le_trans dest: arg_cong [where f = ep_superseded])

lemma worker_follows_refl [simp]: "worker_follows r r"
  by (simp add: worker_follows_def)

lemma worker_follows_trans: "worker_follows p q \<Longrightarrow> worker_follows q r \<Longrightarrow> worker_follows p r"
  by (auto simp: worker_follows_def)

lemma table_follows_refl [simp]: "(\<And>v. R v v) \<Longrightarrow> table_follows R m m"
  by (simp add: table_follows_def)

lemma table_follows_trans:
  "(\<And>u v w. R u v \<Longrightarrow> R v w \<Longrightarrow> R u w) \<Longrightarrow> table_follows R m n \<Longrightarrow> table_follows R n l \<Longrightarrow> table_follows R m l"
  unfolding table_follows_def by meson

lemma table_follows_upd:
  "(\<And>v. R v v) \<Longrightarrow> (\<And>v. om_find m k = Some v \<Longrightarrow> R v w) \<Longrightarrow> table_follows R m (om_upd k w m)"
  by (auto simp: table_follows_def)

lemma table_follows_emplace: "(\<And>v. R v v) \<Longrightarrow> table_follows R m (om_emplace k w m)"
  by (auto simp: table_follows_def om_find_emplace)

lemma om_find_map_vals [simp]: "om_find (om_map_vals f m) k = map_option f (om_find m k)"
  by (induction m) (auto simp: om_map_vals_def om_find_def)

lemma table_follows_map: "(\<And>v. R v (f v)) \<Longrightarrow> table_follows R m (om_map_vals f m)"
  by (auto simp: table_follows_def)

lemma appended_refl [simp]: "appended xs xs"
  by (simp add: appended_def)

lemma appended_append [simp]: "appended xs (xs @ ys)"
  by (simp add: appended_def)

lemma appended_trans: "appended xs ys \<Longrightarrow> appended ys zs \<Longrightarrow> appended xs zs"
  by (auto simp: appended_def)


lemma durable_le_refl [simp]: "durable_le s s"
  by (simp add: durable_le_def)

lemma durable_le_trans: "durable_le s t \<Longrightarrow> durable_le t u \<Longrightarrow> durable_le s u"
  unfolding durable_le_def
  by (elim conjE, intro conjI)
     (blast intro: rtranclp_trans gen_le_trans appended_trans plan_follows_trans worker_follows_trans
        table_follows_trans [where R = "\<lambda>_ _. True"] table_follows_trans [where R = plan_follows]
        table_follows_trans [where R = worker_follows] | simp)+


section \<open>The durable part of each operation\<close>

named_theorems durable_frame
named_theorems durable_intros

lemma durable_updates [durable_frame]:
  "c_durable (on_durable f c) = f (c_durable c)"
  "c_durable (on_stats g c) = c_durable c"
  "c_durable (next_evidence c) = (c_durable c)\<lparr>ds_evidence_generation := gen_next (ds_evidence_generation (c_durable c))\<rparr>"
  "c_durable (put_session se c) = c_durable c"
  by (simp_all add: on_durable_def on_stats_def next_evidence_def put_session_def)

lemma durable_refresh [durable_frame]: "c_durable (refresh_worker_authority n c) = c_durable c"
  by (simp add: refresh_worker_authority_def split_def Let_def)

lemma durable_persist [durable_frame]:
  "c_durable (snd (persist bs c)) = c_durable c"
  "c_durable (snd (save_state c)) = c_durable c"
  "c_durable (snd (finish r c)) = c_durable c"
  by (simp_all add: persist_def save_state_def finish_def split_def Let_def)

lemma durable_rejections [durable_frame]:
  "c_durable (snd (reject c e t)) = c_durable c"
  "c_durable (snd (complete_reject c e t)) = c_durable c"
  "c_durable (snd (hello_refuse c r)) = c_durable c"
  "c_durable (snd (hello_reject c e t ls)) = c_durable c"
  by (simp_all add: reject_def complete_reject_def hello_reject_def hello_refuse_def on_stats_def)

lemma durable_send [durable_frame]: "c_durable (snd (send_to_worker w ty m f c)) = c_durable c"
  by (simp add: send_to_worker_def put_session_def split_def Let_def split: option.splits)

lemma durable_dispatch_drain [durable_frame]: "c_durable (snd (dispatch_drain n g c)) = c_durable c"
proof -
  have "c_durable (foldl (\<lambda>c (i, w). snd (send_to_worker i MessageType.RequestDrain (drain_payload (c_durable c) n g)
      (drain_frame (c_durable c) n g w) c)) c ws) = c_durable c" for ws
    by (induction ws arbitrary: c) (auto simp: durable_send split_def)
  then show ?thesis by (simp add: dispatch_drain_def Let_def)
qed

lemma durable_dispatch [durable_frame]:
  "c_durable (snd (dispatch_migration p w b c)) = c_durable c"
  "c_durable (snd (dispatch_rollback_state p w b c)) = c_durable c"
proof -
  have "c_durable c' = c_durable c" if "send_to_worker w t m f c = (st, c')" for t m f c st c'
    using durable_send [of w t m f c] that by simp
  then show "c_durable (snd (dispatch_migration p w b c)) = c_durable c"
    by (force simp: dispatch_migration_def Let_def split: prod.splits)
qed (simp add: dispatch_rollback_state_def durable_send)


section \<open>Every command moves the durable state upwards\<close>

lemma le_fields [durable_intros]:
  assumes "durable_le s t"
  shows "gen_le (ds_evidence_generation t) g \<Longrightarrow> durable_le s (t\<lparr>ds_evidence_generation := g\<rparr>)"
    and "gen_le (ds_stage_generation t) g \<Longrightarrow> durable_le s (t\<lparr>ds_stage_generation := g\<rparr>)"
    and "gen_le (ds_evolution_epoch t) g \<Longrightarrow> durable_le s (t\<lparr>ds_evolution_epoch := g\<rparr>)"
    and "gen_le (ds_policy_generation t) g \<Longrightarrow> durable_le s (t\<lparr>ds_policy_generation := g\<rparr>)"
    and "durable_le s (t\<lparr>ds_matrix_generation := g\<rparr>)" and "durable_le s (t\<lparr>ds_gate_generation := g\<rparr>)"
    and "durable_le s (t\<lparr>ds_matrix := m\<rparr>)" and "durable_le s (t\<lparr>ds_gates := gs\<rparr>)"
    and "durable_le s (t\<lparr>ds_schemas := sc\<rparr>)" and "durable_le s (t\<lparr>ds_protocols := pr\<rparr>)"
    and "durable_le s (t\<lparr>ds_stage_history := h\<rparr>)"
    and "registry_step\<^sup>*\<^sup>* (ds_components t) r \<Longrightarrow> durable_le s (t\<lparr>ds_components := r\<rparr>)"
    and "table_follows plan_follows (ds_plans t) ps \<Longrightarrow> durable_le s (t\<lparr>ds_plans := ps\<rparr>)"
    and "table_follows worker_follows (ds_workers t) ws \<Longrightarrow> durable_le s (t\<lparr>ds_workers := ws\<rparr>)"
    and "table_follows (\<lambda>_ _. True) (ds_retirements t) rs \<Longrightarrow> durable_le s (t\<lparr>ds_retirements := rs\<rparr>)"
    and "table_follows (\<lambda>_ _. True) (ds_fenced_boots t) fs \<Longrightarrow> durable_le s (t\<lparr>ds_fenced_boots := fs\<rparr>)"
    and "appended (ds_migrations t) ms \<Longrightarrow> durable_le s (t\<lparr>ds_migrations := ms\<rparr>)"
    and "appended (ds_rollbacks t) bs \<Longrightarrow> durable_le s (t\<lparr>ds_rollbacks := bs\<rparr>)"
  by (rule durable_le_trans [OF assms]; simp add: durable_le_def)+

lemma le_advance [durable_intros]:
  "durable_le s (c_durable c) \<Longrightarrow> durable_le s (c_durable (snd (advance_lifecycle n g st c)))"
  by (simp add: advance_lifecycle_def split_def Let_def durable_frame durable_intros step_set_lifecycle r_into_rtranclp)

lemma le_on_components [durable_intros]:
  "durable_le s (c_durable c) \<Longrightarrow> durable_le s (c_durable (snd (on_components (\<lambda>r. publish r v) c)))"
  by (simp add: on_components_def split_def Let_def durable_frame durable_intros step_publish r_into_rtranclp)

lemma le_advance_all [durable_intros]:
  "durable_le s (c_durable c) \<Longrightarrow> durable_le s (c_durable (snd (advance_all n g sts c)))"
  by (induction sts arbitrary: c) (simp_all add: split_def Let_def durable_intros)

lemma le_walk [durable_intros]:
  "durable_le s (c_durable c) \<Longrightarrow> durable_le s (c_durable (snd (walk_candidate k n g w c)))"
proof (induction w arbitrary: c)
  case (Cons entry w)
  then show ?case by (cases entry) (auto simp: split_def Let_def durable_intros split: option.splits)
qed simp


lemma le_drain_current [durable_intros]:
  "durable_le s (c_durable c) \<Longrightarrow> durable_le s (c_durable (snd (drain_current p st c)))"
  by (simp add: drain_current_def durable_intros split: option.splits)

lemma le_drain_for_stage [durable_intros]:
  "durable_le s (c_durable c) \<Longrightarrow> durable_le s (c_durable (snd (drain_for_stage t p st c)))"
  by (simp add: drain_for_stage_def durable_intros split: RolloutStage.splits)

lemma le_make_eligible: "durable_le s (c_durable c) \<Longrightarrow> durable_le s (c_durable (foldl (make_eligible g) c ns))"
proof (induction ns arbitrary: c)
  case (Cons n ns)
  have "durable_le s (c_durable (make_eligible g c n))"
    using Cons.prems by (auto simp: make_eligible_def Let_def durable_intros split: option.splits)
  with Cons.IH show ?case by simp
qed simp

lemma register_moves: "durable_le (c_durable c) (c_durable (snd (command_register_component peer v c)))"
  by (simp add: command_register_component_def Let_def split_def durable_frame durable_intros split: option.splits)

lemma capability_moves: "durable_le (c_durable c) (c_durable (snd (command_publish_capability peer n g k fs c)))"
  by (simp add: command_publish_capability_def Let_def split_def durable_frame durable_intros split: option.splits)

lemma compatibility_moves: "durable_le (c_durable c) (c_durable (snd (command_publish_compatibility peer e c)))"
  by (simp add: command_publish_compatibility_def Let_def split_def durable_frame durable_intros le_make_eligible)

lemma schema_moves: "durable_le (c_durable c) (c_durable (snd (command_publish_schema peer d c)))"
  by (simp add: command_publish_schema_def Let_def split_def durable_frame durable_intros)

lemma protocol_moves: "durable_le (c_durable c) (c_durable (snd (command_publish_protocol peer d c)))"
  by (simp add: command_publish_protocol_def Let_def split_def durable_frame durable_intros)


lemma plans_advance [simp]: "ds_plans (c_durable (snd (advance_lifecycle n g st c))) = ds_plans (c_durable c)"
  by (simp add: advance_lifecycle_def split_def Let_def durable_frame)

lemma plans_advance_all [simp]: "ds_plans (c_durable (snd (advance_all n g sts c))) = ds_plans (c_durable c)"
  by (induction sts arbitrary: c) (simp_all add: split_def Let_def)

lemma plans_walk [simp]: "ds_plans (c_durable (snd (walk_candidate k n g w c))) = ds_plans (c_durable c)"
proof (induction w arbitrary: c)
  case (Cons entry w)
  then show ?case by (cases entry) (auto simp: split_def Let_def split: option.splits)
qed simp

lemma plans_demote [simp]: "ds_plans (c_durable (snd (demote_candidate p c))) = ds_plans (c_durable c)"
  by (simp add: demote_candidate_def del: advance_all.simps split: option.splits)

lemma plans_resume [simp]: "ds_plans (c_durable (snd (resume_target p c))) = ds_plans (c_durable c)"
  by (simp add: resume_target_def Let_def split_def split: option.splits)

lemma le_demote [durable_intros]:
  "durable_le s (c_durable c) \<Longrightarrow> durable_le s (c_durable (snd (demote_candidate p c)))"
  by (simp add: demote_candidate_def durable_intros del: advance_all.simps split: option.splits)

lemma le_resume [durable_intros]:
  "durable_le s (c_durable c) \<Longrightarrow> durable_le s (c_durable (snd (resume_target p c)))"
  by (simp add: resume_target_def Let_def split_def durable_intros split: option.splits)

lemma le_put_plan [durable_intros]:
  "durable_le s t \<Longrightarrow> (\<And>p. om_find (ds_plans t) i = Some p \<Longrightarrow> plan_follows p q) \<Longrightarrow> durable_le s (put_plan_at i q t)"
  by (simp add: put_plan_at_def durable_intros table_follows_upd)

lemma stage_plan_follows: "\<not> ep_superseded p \<Longrightarrow> plan_follows p (fst (stage_plan s target d p))"
  by (simp add: plan_follows_def stage_plan_def Let_def)

lemma enter_stage_follows: "\<not> ep_superseded p \<Longrightarrow> plan_follows p (enter_stage target p c)"
  by (simp add: plan_follows_def enter_stage_def Let_def split: RolloutStage.splits option.splits)

lemma stage_plan_open [simp]: "ep_superseded (fst (stage_plan s target d p)) = ep_superseded p"
  by (simp add: stage_plan_def Let_def)

lemma stage_plan_generation [simp]:
  "ep_stage_generation (fst (stage_plan s target d p)) = gen_next (ds_stage_generation s)"
  by (simp add: stage_plan_def Let_def)

lemma plans_put_plan [simp]: "ds_plans (put_plan_at i q s) = om_upd i q (ds_plans s)"
  by (simp add: put_plan_at_def)

lemma apply_stage_moves:
  assumes "om_find (ds_plans (c_durable c)) i = Some p" "\<not> ep_superseded p"
  shows "durable_le (c_durable c) (c_durable (snd (apply_stage i target d p c)))"
proof -
  let ?q = "fst (stage_plan (c_durable c) target d p)"
  have q: "plan_follows p ?q" "\<not> ep_superseded ?q" using assms(2) by (simp_all add: stage_plan_follows)
  show ?thesis
    using assms q unfolding apply_stage_def Let_def split_def
    by (auto simp: durable_frame intro!: durable_intros enter_stage_follows)
qed

lemma advance_stage_moves: "durable_le (c_durable c) (c_durable (snd (command_advance_stage peer i target g c)))"
  by (simp add: command_advance_stage_def plan_locked_def Let_def durable_frame durable_intros apply_stage_moves split: option.splits)

lemma create_plan_moves: "durable_le (c_durable c) (c_durable (snd (command_create_plan peer spec c)))"
proof -
  have "durable_le (c_durable c) (c_durable (snd (create_checked_plan spec a v w c)))" for a v w
    by (simp add: create_checked_plan_def Let_def split_def durable_frame durable_intros install_plan_def new_plan_def
      table_follows_emplace)
  then show ?thesis
    by (simp add: command_create_plan_def Let_def split_def durable_frame split: option.splits)
qed

lemma rebind_moves: "durable_le (c_durable c) (c_durable (snd (command_rebind_plan peer i g c)))"
  by (auto simp: command_rebind_plan_def plan_locked_def Let_def durable_frame plan_follows_def intro!: durable_intros
      split: option.splits)

lemma feature_moves: "durable_le (c_durable c) (c_durable (snd (command_enable_feature peer f i c)))"
proof -
  have "durable_le (c_durable c) (c_durable (snd (apply_feature f i p d c)))"
    if "om_find (ds_plans (c_durable c)) i = Some p" "\<not> ep_superseded p" for p d
    using that by (auto simp: apply_feature_def Let_def split_def durable_frame rebind_gate_def plan_follows_def
        intro!: durable_intros table_follows_map split: if_splits)
  then show ?thesis
    by (simp add: command_enable_feature_def plan_locked_def Let_def split_def durable_frame split: option.splits)
qed


lemma drain_moves: "durable_le (c_durable c) (c_durable (snd (command_request_drain peer n g c)))"
  by (simp add: command_request_drain_def Let_def split_def durable_frame durable_intros split: option.splits)

lemma migration_moves: "durable_le (c_durable c) (c_durable (snd (command_request_migration peer i c)))"
  by (simp add: command_request_migration_def Let_def split_def durable_frame split: option.splits)

lemma rolled_back_plan_follows: "\<not> ep_superseded p \<Longrightarrow> plan_follows p (fst (rolled_back_plan s q p))"
  by (simp add: plan_follows_def rolled_back_plan_def Let_def)

lemma rolled_back_stage [simp]: "ep_stage_generation (fst (rolled_back_plan s q p)) = gen_next (ds_stage_generation s)"
  by (simp add: rolled_back_plan_def Let_def)

lemma commit_rollback_moves:
  assumes "durable_le s (c_durable c)" "om_find (ds_plans (c_durable c)) i = Some p" "\<not> ep_superseded p"
  shows "durable_le s (c_durable (snd (commit_rollback i q r a p c)))"
  using assms unfolding commit_rollback_def Let_def split_def
  by (auto simp: durable_frame intro!: durable_intros rolled_back_plan_follows)

lemma rollback_allowed_open:
  "rollback_is_allowed (evaluate_rollback q m r sc) \<Longrightarrow> \<not> rq_plan_superseded q"
  using guard_cases [of q r] by (cases "rollback_guard q r") (auto simp: evaluate_rollback_def)

lemma rollback_request_superseded [simp]: "rq_plan_superseded (rollback_request c p) = ep_superseded p"
  by (simp add: rollback_request_def Let_def)

lemma rollback_moves: "durable_le (c_durable c) (c_durable (snd (command_request_rollback peer i c)))"
proof -
  have refuse: "durable_le (c_durable c) (c_durable (snd (refuse_rollback r a c)))" for r a
    by (simp add: refuse_rollback_def durable_frame durable_intros)
  show ?thesis
    using refuse unfolding command_request_rollback_def plan_locked_def Let_def split_def
    by (auto simp: durable_frame split: option.splits dest!: rollback_allowed_open
        intro!: commit_rollback_moves durable_intros)
qed

lemma fence_boots_le: "durable_le s t \<Longrightarrow> durable_le s (foldl (fence_boot_of n g) t ws)"
proof (induction ws arbitrary: t)
  case (Cons w ws)
  have "durable_le s (fence_boot_of n g t w)"
    using Cons.prems by (simp add: fence_boot_of_def split_def Let_def durable_intros table_follows_upd)
  with Cons.IH show ?case by simp
qed simp

lemma le_pend [durable_intros]:
  "durable_le s (c_durable c) \<Longrightarrow> durable_le s (c_durable (snd (pend_retirement n g st c)))"
  by (simp add: pend_retirement_def Let_def split_def durable_intros del: advance_all.simps)

lemma commit_retirement_moves [durable_intros]:
  "durable_le s (c_durable c) \<Longrightarrow> durable_le s (c_durable (snd (commit_retirement n g pre a c)))"
  unfolding commit_retirement_def Let_def
  by (auto simp: durable_frame fence_record_of_def worker_follows_def
      intro!: durable_intros fence_boots_le table_follows_upd table_follows_map)

lemma retirement_moves: "durable_le (c_durable c) (c_durable (snd (command_request_retirement peer n g c)))"
  by (simp add: command_request_retirement_def Let_def split_def durable_frame durable_intros split: option.splits)

lemma supersede_moves: "durable_le (c_durable c) (c_durable (snd (command_supersede_plan peer i c)))"
  by (auto simp: command_supersede_plan_def plan_locked_def Let_def durable_frame plan_follows_def intro!: durable_intros
      split: option.splits)

lemma lifecycle_moves: "durable_le (c_durable c) (c_durable (snd (command_request_lifecycle peer n g st c)))"
  by (simp add: command_request_lifecycle_def Let_def split_def durable_frame durable_intros del: advance_all.simps split: option.splits)

lemma fence_moves: "durable_le (c_durable c) (c_durable (snd (command_fence peer w b reason c)))"
  by (auto simp: command_fence_def Let_def split_def durable_frame worker_follows_def
      intro!: durable_intros table_follows_upd split: option.splits)

lemma completion_moves:
  "durable_le (c_durable c) (c_durable (snd (command_publish_completion peer i st g m d drain c)))"
proof -
  have accept: "durable_le (c_durable c) (c_durable (snd (accept_completion i p a m d (c\<lparr>c_pending := as\<rparr>))))"
    if "om_find (ds_plans (c_durable c)) i = Some p" "\<not> ep_superseded p" for p a as
    using that by (auto simp: accept_completion_def Let_def durable_frame plan_follows_def intro!: durable_intros)
  have stage: "durable_le (c_durable c) (c_durable (snd (complete_stage peer i st g m d c)))"
    by (auto simp: complete_stage_def plan_locked_def durable_frame split: option.splits intro!: accept)
  have "durable_le (c_durable c) (c_durable (snd (complete_drain peer i g c)))"
    by (auto simp: complete_drain_def Let_def durable_frame worker_follows_def split: option.splits
        intro!: durable_intros table_follows_upd)
  with stage show ?thesis by (simp add: command_publish_completion_def durable_frame)
qed


lemma hello_moves: "durable_le (c_durable c) (c_durable (snd (snd (command_hello h peer c))))"
proof -
  let ?known = "\<lambda>r. hs_boot h < wr_last_boot r \<or> wr_fenced r \<and> hs_boot h = wr_last_boot r"
  have accept: "durable_le (c_durable c) (c_durable (snd (snd (hello_accept h n peer c))))"
    if "\<And>r. om_find (ds_workers (c_durable c)) (hs_worker h) = Some r \<Longrightarrow> \<not> ?known r" for n
    using that unfolding hello_accept_def Let_def split_def
    by (auto simp: durable_frame hello_record_def worker_follows_def not_less intro!: durable_intros table_follows_upd)
  have negotiate: "durable_le (c_durable c) (c_durable (snd (snd (hello_negotiate h peer c))))"
    if "\<And>r. om_find (ds_workers (c_durable c)) (hs_worker h) = Some r \<Longrightarrow> \<not> ?known r"
    using accept [OF that] by (auto simp: hello_negotiate_def Let_def split_def durable_frame split: option.splits)
  show ?thesis
    by (auto simp: command_hello_def known_worker_refusal_def Let_def split_def durable_frame
        split: option.splits if_splits intro!: negotiate)
qed

lemma run_command_moves: "durable_le (c_durable c) (c_durable (snd (run_command peer cmd c)))"
  by (cases cmd) (simp_all add: hello_moves register_moves capability_moves compatibility_moves schema_moves protocol_moves
    create_plan_moves advance_stage_moves rebind_moves feature_moves drain_moves migration_moves rollback_moves
    retirement_moves supersede_moves lifecycle_moves fence_moves completion_moves split_def Let_def)


section \<open>Frames and threads\<close>

lemma report_action_moves [durable_intros]:
  "durable_le s (c_durable c) \<Longrightarrow> durable_le s (c_durable (snd (report_action peer m a c)))"
  by (auto simp: report_action_def plan_locked_def Let_def durable_frame plan_follows_def split: option.splits
      intro!: durable_intros)

lemma report_actions_moves [durable_intros]:
  "durable_le s (c_durable c) \<Longrightarrow> durable_le s (c_durable (snd (report_actions peer m as c)))"
  by (induction as arbitrary: c) (simp_all add: Let_def split_def durable_intros)

lemma handle_report_moves: "durable_le (c_durable c) (c_durable (snd (handle_report peer m c)))"
  by (simp add: handle_report_def Let_def split_def durable_frame durable_intros)

lemma durable_net [durable_frame]:
  "c_durable (queue_frame i f c) = c_durable c" "c_durable (respond i f ty r x c) = c_durable c"
  "c_durable (rejected_frames c) = c_durable c" "c_durable (count_event r c) = c_durable c"
  "c_durable (admit_frame i se f c) = c_durable c" "c_durable (snd (reject_frame c e t)) = c_durable c"
  "c_durable (snd (handle_heartbeat peer m c)) = c_durable c"
  "c_durable (on_session i g c) = c_durable c"
  by (simp_all add: queue_frame_def respond_def rejected_frames_def count_event_def admit_frame_def reject_frame_def
      handle_heartbeat_def on_session_def durable_updates durable_rejections Let_def split: option.splits)

lemma frame_command_moves: "durable_le (c_durable c) (c_durable (snd (fst (frame_command peer ty m c))))"
  by (cases ty) (auto simp: frame_command_def durable_frame register_moves capability_moves compatibility_moves schema_moves
    create_plan_moves advance_stage_moves rebind_moves feature_moves drain_moves migration_moves rollback_moves
    retirement_moves supersede_moves lifecycle_moves fence_moves completion_moves handle_report_moves
    split: option.splits sum.splits)

lemma handle_frame_moves: "durable_le (c_durable c) (c_durable (handle_frame i f c))"
proof -
  have hello: "durable_le (c_durable c) (c_durable (handle_hello i se f c))" for se
  proof -
    obtain r p c' where h: "command_hello (frame_handshake (snd (wm_decode (fr_payload f)))) (peer_unset\<lparr>pi_session := se_id se,
        pi_is_operator := se_loopback se \<and> wh_flags (fr_header f) AND kFrameFlagOperator \<noteq> 0,
        pi_authenticated := se_loopback se \<and> wh_flags (fr_header f) AND kFrameFlagOperator \<noteq> 0\<rparr>) c = (r, p, c')"
      by (metis prod_cases3)
    then have "durable_le (c_durable c) (c_durable c')" using hello_moves by (metis snd_conv)
    then show ?thesis using h by (auto simp: handle_hello_def Let_def split_def durable_frame split: option.splits)
  qed
  have "durable_le (c_durable c) (c_durable (snd (fst (frame_command p ty m (admit_frame i se f c)))))" for p ty m se
    using frame_command_moves [of "admit_frame i se f c" p ty m] by (simp add: durable_frame)
  with hello show ?thesis
    by (auto simp: handle_frame_def Let_def split_def durable_frame split: option.splits sum.splits)
qed


lemma durable_drop [durable_frame]: "c_durable (foldl drop_worker c ses) = c_durable c"
  by (induction ses arbitrary: c) (simp_all add: drop_worker_def Let_def)

lemma le_snapshot [durable_intros]: "durable_le s t \<Longrightarrow> durable_le s (t\<lparr>ds_snapshot_generation := g\<rparr>)"
  by (simp add: durable_le_def)

lemma handled_event:
  assumes "next_event c = Some c'"
  obtains i f q where "c' = on_stats (\<lambda>st. st\<lparr>st_events_processed := st_events_processed st + 1\<rparr>)
      (handle_frame i f (c\<lparr>c_events := q\<rparr>))"
  using assms by (auto simp: next_event_def split: option.splits prod.splits)

lemma thread_step_moves: "thread_step c c' \<Longrightarrow> durable_le (c_durable c) (c_durable c')"
proof (induction rule: thread_step.induct)
  case (event_step c c')
  then obtain i f q where "c' = on_stats (\<lambda>st. st\<lparr>st_events_processed := st_events_processed st + 1\<rparr>)
      (handle_frame i f (c\<lparr>c_events := q\<rparr>))"
    by (rule handled_event)
  then show ?case using handle_frame_moves [of "c\<lparr>c_events := q\<rparr>" i f] by (simp add: durable_frame)
next
  case (snapshot_step c n)
  show ?case by (simp add: take_snapshot_def Let_def durable_frame durable_intros)
next
  case (stop_step c)
  show ?case by (simp add: coordinator_stop_def shutdown_sessions_def Let_def)
qed (simp_all add: accept_connection_def receive_frame_def reader_ends_def writer_ends_def reap_sessions_def
    durable_frame Let_def split_def)

lemma fabric_step_moves: "fabric_step c c' \<Longrightarrow> durable_le (c_durable c) (c_durable c')"
  by (induction rule: fabric_step.induct) (simp_all add: run_command_moves thread_step_moves)

text \<open>What a run gives, from what each step gives.\<close>

locale monotone_run =
  fixes step :: "'s \<Rightarrow> 's \<Rightarrow> bool" and view :: "'s \<Rightarrow> 'd" and le :: "'d \<Rightarrow> 'd \<Rightarrow> bool"
  assumes le_refl: "le d d"
    and le_trans: "le d e \<Longrightarrow> le e f \<Longrightarrow> le d f"
    and step_le: "step c c' \<Longrightarrow> le (view c) (view c')"
begin

lemma run_le: "step\<^sup>*\<^sup>* c c' \<Longrightarrow> le (view c) (view c')"
  by (induction rule: rtranclp_induct) (auto intro: le_refl le_trans step_le)

end

interpretation fabric: monotone_run fabric_step c_durable durable_le
  by unfold_locales (auto intro: durable_le_trans fabric_step_moves)

lemma durable_le_retired: "durable_le s t \<Longrightarrow> is_retired s n g \<Longrightarrow> is_retired t n g"
  by (auto simp: durable_le_def table_follows_def is_retired_def)

lemma durable_le_fenced: "durable_le s t \<Longrightarrow> is_boot_fenced s w b \<Longrightarrow> is_boot_fenced t w b"
  by (auto simp: durable_le_def table_follows_def is_boot_fenced_def)

lemma durable_le_lifecycle: "durable_le s t \<Longrightarrow> lifecycle_of (ds_components s) k = Some LifecycleState.Retired \<Longrightarrow>
    lifecycle_of (ds_components t) k = Some LifecycleState.Retired"
  using reg.closed_set_kept [of "{LifecycleState.Retired}" "ds_components s" "ds_components t" k LifecycleState.Retired]
    retired_closed
  by (auto simp: durable_le_def)

text \<open>
  C5: Whatever commands are called and whatever frames arrive, in any interleaving of the coordinator's
  threads, the durable history is only added to.  Retirement records and fenced boots are never removed
  and a RETIRED generation stays RETIRED; every plan keeps its identity, its generations, its migration
  and its epoch, a crossed rollback barrier stays crossed and a superseded plan changes in nothing else;
  the boot of a worker's record never becomes older and a fenced boot stays fenced; migration and
  rollback records are only appended; the coordinator's epoch does not change; and the epoch, stage,
  evidence and policy counters never go down.
\<close>

theorem durable_history_kept:
  assumes "fabric_step\<^sup>*\<^sup>* c c'"
  defines "s \<equiv> c_durable c" and "s' \<equiv> c_durable c'"
  shows "(is_retired s n g \<longrightarrow> is_retired s' n g) \<and> (is_boot_fenced s w b \<longrightarrow> is_boot_fenced s' w b)
    \<and> (lifecycle_of (ds_components s) (n, g) = Some LifecycleState.Retired \<longrightarrow>
         lifecycle_of (ds_components s') (n, g) = Some LifecycleState.Retired)
    \<and> (\<forall>p. plan_locked s i = Some p \<longrightarrow> (\<exists>q. plan_locked s' i = Some q \<and> plan_follows p q))
    \<and> (\<forall>r. om_find (ds_workers s) w = Some r \<longrightarrow> (\<exists>r'. om_find (ds_workers s') w = Some r' \<and> worker_follows r r'))
    \<and> (\<exists>ms. ds_migrations s' = ds_migrations s @ ms) \<and> (\<exists>rs. ds_rollbacks s' = ds_rollbacks s @ rs)
    \<and> ds_coordinator_epoch s' = ds_coordinator_epoch s
    \<and> gen_le (ds_evolution_epoch s) (ds_evolution_epoch s') \<and> gen_le (ds_stage_generation s) (ds_stage_generation s')
    \<and> gen_le (ds_evidence_generation s) (ds_evidence_generation s')
    \<and> gen_le (ds_policy_generation s) (ds_policy_generation s')"
proof -
  have le: "durable_le s s'" unfolding s_def s'_def using assms(1) by (rule fabric.run_le)
  show ?thesis
    using le durable_le_retired [OF le, of n g] durable_le_fenced [OF le, of w b] durable_le_lifecycle [OF le, of "(n, g)"]
    by (auto simp: durable_le_def table_follows_def appended_def plan_locked_def)
qed

theorem durable_history_kept_witness:
  defines "c \<equiv> (coordinator_new \<lparr>cf_bind_host = [], cf_port = 0, cf_state_path = [], cf_event_queue_depth = 4,
      cf_fabric_version = [], cf_evidence_max_age = 8\<rparr> \<lparr>files = \<lambda>_. None, script = [], alive = True\<rparr>)\<lparr>c_durable := sample_durable\<rparr>"
  defines "c' \<equiv> snd (run_command (operator_identity c) (DoFenceBoot ''worker-2'' 9 ''stuck'') c)"
  shows "is_retired (c_durable c') ''gateway'' 3 \<and> is_boot_fenced (c_durable c') ''worker-1'' 7"
proof -
  have "fabric_step\<^sup>*\<^sup>* c c'" unfolding c'_def by (intro r_into_rtranclp command_step)
  moreover have "is_retired (c_durable c) ''gateway'' 3 \<and> is_boot_fenced (c_durable c) ''worker-1'' 7"
    by (simp add: c_def sample_durable_def is_retired_def is_boot_fenced_def om_find_def)
  ultimately show ?thesis
    using durable_history_kept [of c c' "''gateway''" 3 "''worker-1''" 7] by blast
qed

end
