(* ===== verification/Ref_Admission.thy ===== *)
theory Ref_Admission
  imports Ref_Fabric
begin

text \<open>
  Who gets in: exactly which handshakes the coordinator accepts, exactly which frames reach a handler,
  and that a retired generation or a fenced boot never does again.
\<close>

section \<open>Handshakes\<close>

definition hello_negotiation :: "DurableState \<Rightarrow> ProtocolHandshake \<Rightarrow> NegotiationResult" where
  "hello_negotiation s h = negotiate (Some (ds_protocols s)) (negotiation_request (hs_protocol h)
     (local_protocols s (hs_protocol h)) (hs_supported_protocols h)
     (if gen_is_set (hs_required_minimum h) then hs_required_minimum h else 1))"

definition admissible :: "DurableState \<Rightarrow> ProtocolHandshake \<Rightarrow> bool" where
  "admissible s h \<longleftrightarrow> is_ok (handshake_validate h)
     \<and> \<not> is_retired s (hs_component h) (hs_runtime_generation h) \<and> \<not> is_boot_fenced s (hs_worker h) (hs_boot h)
     \<and> (case om_find (ds_workers s) (hs_worker h) of None \<Rightarrow> True
        | Some r \<Rightarrow> wr_last_boot r \<le> hs_boot h \<and> \<not> (wr_fenced r \<and> hs_boot h = wr_last_boot r))
     \<and> local_protocols s (hs_protocol h) \<noteq> [] \<and> is_ok (nr_status (hello_negotiation s h))
     \<and> (case registry_find (ds_components s) (hs_component h) (hs_runtime_generation h) of None \<Rightarrow> True
        | Some v \<Rightarrow> gen_is_set (hs_committed_schema h) \<longrightarrow> gs_contains (ss_readable (rv_schemas v)) (hs_committed_schema h))"

definition refused :: "Coord \<Rightarrow> Coord" where
  "refused c = on_stats (\<lambda>st. st\<lparr>st_handshakes_rejected := st_handshakes_rejected st + 1\<rparr>) c"

lemma hello_refuse_eq: "hello_refuse c r = (r, refused c)"
  by (simp add: hello_refuse_def refused_def)

lemma hello_reject_eq: "hello_reject c e t ls = (result_unset\<lparr>cr_status := failure e t, cr_explanation := ls\<rparr>, refused c)"
  by (simp add: hello_reject_def hello_refuse_eq)

lemma hello_cases:
  "admissible (c_durable c) h \<Longrightarrow> command_hello h peer c = hello_accept h (hello_negotiation (c_durable c) h) peer c"
  "\<not> admissible (c_durable c) h \<Longrightarrow> \<exists>r. \<not> is_ok (cr_status r) \<and> command_hello h peer c = (r, peer, refused c)"
  by (auto simp: admissible_def command_hello_def hello_negotiate_def known_worker_refusal_def hello_negotiation_def
      hello_refuse_eq hello_reject_eq Let_def not_less split: option.splits)

text \<open>A handshake ends by saving the state with the worker's record; when that state cannot be encoded the
  handshake is accepted nevertheless.\<close>

definition greeted :: "ProtocolHandshake \<Rightarrow> NegotiationResult \<Rightarrow> PeerIdentity \<Rightarrow> Coord \<Rightarrow> Coord" where
  "greeted h n peer c = on_stats (\<lambda>st. st\<lparr>st_handshakes_ok := st_handshakes_ok st + 1\<rparr>)
     (c\<lparr>c_live := om_upd (hs_worker h) (hello_worker c h (hello_peer c h (nr_chosen n) peer)) (c_live c),
        c_worker_sessions := om_upd (hs_worker h) (pi_session (hello_peer c h (nr_chosen n) peer)) (c_worker_sessions c),
        c_durable := (c_durable c)\<lparr>ds_workers := om_upd (hs_worker h) (hello_record c h) (ds_workers (c_durable c))\<rparr>\<rparr>)"

lemma hello_accept_saves:
  "snd (snd (hello_accept h n peer c)) = snd (save_state (greeted h n peer c))"
  "is_ok (cr_status (fst (hello_accept h n peer c))) \<Longrightarrow> is_ok (fst (durable_encode (c_durable (greeted h n peer c)))) \<Longrightarrow>
     is_ok (fst (save_state (greeted h n peer c)))"
  unfolding hello_accept_def Let_def greeted_def [symmetric]
  by (auto simp: save_state_def split_def result_unset_def split: if_splits)

lemma hello_accept_effects:
  fixes c peer h n
  defines "r \<equiv> hello_accept h n peer c"
  shows "fst (snd r) = hello_peer c h (nr_chosen n) peer"
    and "c_live (snd (snd r)) = om_upd (hs_worker h) (hello_worker c h (hello_peer c h (nr_chosen n) peer)) (c_live c)"
    and "c_durable (snd (snd r)) = (c_durable c)\<lparr>ds_workers := om_upd (hs_worker h) (hello_record c h) (ds_workers (c_durable c))\<rparr>"
    and "c_worker_sessions (snd (snd r)) = om_upd (hs_worker h) (pi_session peer) (c_worker_sessions c)"
  unfolding r_def hello_accept_def Let_def split_def
  by (auto simp: durable_frame persist_def on_stats_def hello_peer_def Let_def split_def)

text \<open>
  C9: A handshake is accepted exactly when it is well formed, its generation is not retired, its boot is
  neither fenced nor older than the recorded one, its protocol is known, a protocol generation can be
  negotiated, and its committed schema is readable by its registered version.  A refused handshake
  changes only the count of refusals.  An accepted one makes the worker live with the boot and the
  generation it named, records that boot, and gives a peer that is not an operator no authority when its
  generation is not registered and otherwise exactly the operation class derived from lifecycle and plan.
\<close>

theorem hello_admission:
  fixes c h peer
  defines "s \<equiv> c_durable c" and "out \<equiv> command_hello h peer c"
  shows "(\<not> admissible s h \<longrightarrow> \<not> is_ok (cr_status (fst out)) \<and> snd out = (peer, refused c))
    \<and> (admissible s h \<longrightarrow>
        (\<exists>w r. om_find (c_live (snd (snd out))) (hs_worker h) = Some w \<and> lw_boot w = hs_boot h
           \<and> lw_generation w = hs_runtime_generation h \<and> lw_component w = hs_component h \<and> lw_active w \<and> \<not> lw_fenced w
           \<and> om_find (ds_workers (c_durable (snd (snd out)))) (hs_worker h) = Some r \<and> wr_last_boot r = hs_boot h
           \<and> lw_operation w = pi_operation (fst (snd out)))
        \<and> (\<not> pi_is_operator peer \<longrightarrow> pi_operation (fst (snd out)) =
             (if registry_find (ds_components s) (hs_component h) (hs_runtime_generation h) = None then NoOperation
              else derive_operation_class s (hs_component h) (hs_runtime_generation h) (nr_chosen (hello_negotiation s h)))))"
proof (cases "admissible s h")
  case True
  then have out: "out = hello_accept h (hello_negotiation s h) peer c"
    using hello_cases(1) by (simp add: out_def s_def)
  show ?thesis
    using True unfolding out
    by (auto simp: hello_accept_effects s_def hello_worker_def hello_peer_def hello_record_def live_worker_unset_def Let_def)
next
  case False
  then obtain r where "\<not> is_ok (cr_status r)" "out = (r, peer, refused c)"
    using hello_cases(2) [of c h peer] by (auto simp: out_def s_def)
  with False show ?thesis by simp
qed

section \<open>Frames\<close>

text \<open>Nothing but answers, session bookkeeping and statistics.\<close>

definition untouched :: "Coord \<Rightarrow> Coord \<Rightarrow> bool" where
  "untouched c c' \<longleftrightarrow> c_durable c' = c_durable c \<and> c_live c' = c_live c \<and> c_pending c' = c_pending c
     \<and> c_worker_sessions c' = c_worker_sessions c \<and> c_snapshots c' = c_snapshots c \<and> c_world c' = c_world c"

lemma untouched_respond: "untouched c (respond i f ty r x (rejected_frames c))"
  by (simp add: untouched_def respond_def queue_frame_def rejected_frames_def on_stats_def Let_def split: option.splits)

lemma untouched_rejected: "untouched c (rejected_frames c)"
  by (simp add: untouched_def rejected_frames_def on_stats_def)

definition frame_admissible :: "Session \<Rightarrow> Frame \<Rightarrow> Coord \<Rightarrow> bool" where
  "frame_admissible se f c \<longleftrightarrow>
     (let peer = se_peer se; s = c_durable c; h = fr_header f in
      se_handshaked se \<and> wh_runtime_generation h = pi_runtime_generation peer \<and> wh_boot h = pi_boot peer
      \<and> \<not> is_retired s (pi_component peer) (pi_runtime_generation peer) \<and> \<not> is_boot_fenced s (pi_worker peer) (pi_boot peer)
      \<and> (case om_find (c_live c) (pi_worker peer) of None \<Rightarrow> False | Some w \<Rightarrow> \<not> lw_fenced w)
      \<and> wh_coordinator_epoch h = ds_coordinator_epoch s \<and> wh_evolution_epoch h = epoch_for s (pi_component peer)
      \<and> wh_protocol_generation h = pi_agreed_protocol peer \<and> wh_schema_generation h = pi_agreed_schema peer
      \<and> (case wire_message_spec (wh_type h) of None \<Rightarrow> False
         | Some spec \<Rightarrow> (ws_operator_only spec \<longrightarrow> pi_is_operator peer))
      \<and> (message_is_mutating (wh_type h) \<longrightarrow>
           permits_mutation (pi_operation peer) \<or> wh_type h = RegisterComponent \<or> wh_type h = PublishCapability))"

lemma semantics_admissible: "validate_frame_semantics se f c = Inr m \<Longrightarrow> frame_admissible se f c"
  unfolding validate_frame_semantics_def frame_admissible_def Let_def split_def
  by (auto split: if_splits option.splits)

text \<open>
  C10: A frame other than a handshake changes the fabric (the durable state, the live workers, the pending
  actions, the worker sessions, the snapshots or the file system) only when its envelope is valid, its
  session has completed a handshake whose generation, boot, protocol and schema it carries, that
  generation is not retired and that boot not fenced, the worker is live and not fenced, it carries the
  current coordinator and evolution epoch, its sequence number is ahead of the session, operator messages
  come from an operator, and messages that change state come from a peer whose operation class permits
  mutation, registration and capability publication excepted.
\<close>

theorem frame_admission:
  assumes "om_find (c_sessions c) i = Some se" and "wh_type (fr_header f) \<noteq> Hello"
    and "\<not> untouched c (handle_frame i f c)"
  shows "is_ok (validate_frame_envelope f kFrameBytes) \<and> frame_admissible se f c
    \<and> se_last_sequence se < wh_sequence (fr_header f)"
proof -
  consider "\<not> is_ok (validate_frame_envelope f kFrameBytes)"
    | status where "is_ok (validate_frame_envelope f kFrameBytes)" "validate_frame_semantics se f c = Inl status"
    | m where "is_ok (validate_frame_envelope f kFrameBytes)" "validate_frame_semantics se f c = Inr m"
    by (cases "validate_frame_semantics se f c") auto
  then show ?thesis
  proof cases
    case 1
    then show ?thesis using assms by (simp add: handle_frame_def untouched_rejected)
  next
    case 2
    then show ?thesis using assms by (simp add: handle_frame_def untouched_respond)
  next
    case 3
    then show ?thesis
      using assms semantics_admissible [OF 3(2)] by (auto simp: handle_frame_def untouched_respond not_le split: if_splits)
  qed
qed

section \<open>Retirement and fencing are final\<close>

text \<open>Whom a session stands for.\<close>

definition session_identity :: "Coord \<Rightarrow> ident \<Rightarrow> (PeerIdentity \<times> bool) option" where
  "session_identity c i = map_option (\<lambda>se. (se_peer se, se_handshaked se)) (om_find (c_sessions c) i)"

text \<open>A generation that is retired, or a boot that is fenced.\<close>

definition barred :: "DurableState \<Rightarrow> ident \<Rightarrow> gen \<Rightarrow> ident \<Rightarrow> gen \<Rightarrow> bool" where
  "barred s component generation worker boot \<longleftrightarrow> is_retired s component generation \<or> is_boot_fenced s worker boot"

definition barred_handshake :: "DurableState \<Rightarrow> ProtocolHandshake \<Rightarrow> bool" where
  "barred_handshake s h \<longleftrightarrow> barred s (hs_component h) (hs_runtime_generation h) (hs_worker h) (hs_boot h)"

definition barred_peer :: "DurableState \<Rightarrow> PeerIdentity \<Rightarrow> bool" where
  "barred_peer s peer \<longleftrightarrow> barred s (pi_component peer) (pi_runtime_generation peer) (pi_worker peer) (pi_boot peer)"

lemma session_identity_respond [simp]: "session_identity (respond j f ty r x c) i = session_identity c i"
  by (simp add: session_identity_def respond_def queue_frame_def Let_def split: option.splits)

lemma session_identity_stats [simp]: "session_identity (rejected_frames c) i = session_identity c i"
  "session_identity (refused c) i = session_identity c i"
  by (simp_all add: session_identity_def rejected_frames_def refused_def on_stats_def)

lemma untouched_refused: "untouched c (respond i f ty r x (rejected_frames (refused c)))"
  by (simp add: untouched_def respond_def queue_frame_def rejected_frames_def refused_def on_stats_def Let_def split: option.splits)

lemma barred_kept:
  assumes "durable_le s t" "barred s n g w b"
  shows "barred t n g w b"
  using assms durable_le_retired durable_le_fenced by (auto simp: barred_def)

lemma barred_hello_frame:
  assumes "wh_type (fr_header f) = Hello" and "barred_handshake (c_durable c) (frame_handshake (snd (wm_decode (fr_payload f))))"
  shows "untouched c (handle_frame i f c) \<and> session_identity (handle_frame i f c) j = session_identity c j"
proof -
  let ?h = "frame_handshake (snd (wm_decode (fr_payload f)))"
  have "\<not> admissible (c_durable c) ?h" using assms(2) by (auto simp: barred_handshake_def barred_def admissible_def)
  then have "\<exists>r. \<not> is_ok (cr_status r) \<and> command_hello ?h peer c = (r, peer, refused c)" for peer by (rule hello_cases(2))
  then have "untouched c (handle_hello i se f c) \<and> session_identity (handle_hello i se f c) j = session_identity c j" for se
    unfolding handle_hello_def Let_def split_def
    by (smt (verit) untouched_refused untouched_respond session_identity_respond session_identity_stats fst_conv snd_conv)
  then show ?thesis
    using assms(1) by (auto simp: handle_frame_def untouched_rejected split: option.splits) (simp_all add: untouched_def)
qed

lemma barred_session_frame:
  assumes "om_find (c_sessions c) i = Some se" and "barred_peer (c_durable c) (se_peer se)" and "wh_type (fr_header f) \<noteq> Hello"
  shows "untouched c (handle_frame i f c)"
proof (rule ccontr)
  assume touched: "\<not> untouched c (handle_frame i f c)"
  have "\<not> frame_admissible se f c" using assms(2) by (auto simp: barred_peer_def barred_def frame_admissible_def Let_def)
  moreover have "frame_admissible se f c"
  proof (cases "validate_frame_semantics se f c")
    case (Inl status)
    then show ?thesis using touched assms(1,3)
      by (auto simp: handle_frame_def untouched_respond untouched_rejected split: if_splits)
  next
    case (Inr m)
    then show ?thesis by (rule semantics_admissible)
  qed
  ultimately show False by blast
qed

text \<open>
  C4: Once a generation is retired or a boot is fenced, no sequence of commands, frames and thread steps
  lets it back in.  In every later state, every handshake that names the retired generation or the fenced boot is
  refused and changes nothing but the count of refusals; a handshake frame that names it leaves the fabric untouched and
  every session as it was; and every other frame of a session that stands for it, handled from then on, leaves the
  fabric untouched.
\<close>

theorem retired_never_readmitted:
  assumes "fabric_step\<^sup>*\<^sup>* c c'"
  shows "(\<forall>h peer. barred_handshake (c_durable c) h
      \<longrightarrow> (\<exists>r. \<not> is_ok (cr_status r) \<and> command_hello h peer c' = (r, peer, refused c')))
    \<and> (\<forall>i f. wh_type (fr_header f) = Hello \<and> barred_handshake (c_durable c) (frame_handshake (snd (wm_decode (fr_payload f))))
      \<longrightarrow> untouched c' (handle_frame i f c') \<and> (\<forall>j. session_identity (handle_frame i f c') j = session_identity c' j))
    \<and> (\<forall>i se f. om_find (c_sessions c') i = Some se \<and> barred_peer (c_durable c) (se_peer se) \<and> wh_type (fr_header f) \<noteq> Hello
      \<longrightarrow> untouched c' (handle_frame i f c'))"
proof -
  have le: "durable_le (c_durable c) (c_durable c')" using assms by (rule fabric.run_le)
  have kept: "barred_handshake (c_durable c) h \<Longrightarrow> barred_handshake (c_durable c') h"
    "barred_peer (c_durable c) p \<Longrightarrow> barred_peer (c_durable c') p" for h p
    using barred_kept [OF le] by (auto simp: barred_handshake_def barred_peer_def)
  have "\<exists>r. \<not> is_ok (cr_status r) \<and> command_hello h peer c' = (r, peer, refused c')"
    if "barred_handshake (c_durable c) h" for h peer
    using kept(1) [OF that] by (intro hello_cases(2)) (auto simp: barred_handshake_def barred_def admissible_def)
  then show ?thesis using kept barred_hello_frame barred_session_frame by blast
qed


section \<open>Witnesses\<close>

definition sample_config :: CoordinatorConfig where
  "sample_config = \<lparr>cf_bind_host = [], cf_port = 0, cf_state_path = [], cf_event_queue_depth = 4,
     cf_fabric_version = [], cf_evidence_max_age = 8\<rparr>"

definition sample_world :: World where
  "sample_world = \<lparr>files = \<lambda>_. None, script = [], alive = True\<rparr>"

definition sample_coord :: "DurableState \<Rightarrow> Coord" where
  "sample_coord s = (coordinator_new sample_config sample_world)\<lparr>c_durable := s\<rparr>"

definition sample_hello :: ProtocolHandshake where
  "sample_hello = \<lparr>hs_component = ''gateway'', hs_version = version_unset\<lparr>number := \<lparr>major = 1, minor = 0, patch = 0\<rparr>\<rparr>,
     hs_runtime_generation = 4, hs_worker = ''worker-1'', hs_boot = 8, hs_protocol = ''ref-wire'',
     hs_supported_protocols = [1], hs_required_minimum = 1, hs_supported_schemas = [1], hs_committed_schema = 1,
     hs_capability_generation = 1, hs_evolution_epoch = 0, hs_coordinator_epoch = 0, hs_features = [],
     hs_declared_role = []\<rparr>"

definition wired_durable :: DurableState where
  "wired_durable = sample_durable\<lparr>ds_protocols := om_upd (''ref-wire'', 1) (build_wire_protocol 1) om_empty\<rparr>"

lemma sample_hello_admissible: "admissible wired_durable sample_hello"
  by code_simp


definition sample_session :: "PeerIdentity \<Rightarrow> Session" where
  "sample_session peer = (new_session ''s-1'' True)\<lparr>se_peer := peer, se_handshaked := True\<rparr>"

definition beat_fields :: WireMessage where
  "beat_fields = with_u64 ''boot'' 8 (with_text ''worker'' ''worker-1'' [])"

definition sample_beat :: Frame where
  "sample_beat = \<lparr>fr_header = frame_header_default\<lparr>wh_type := Heartbeat,
        wh_payload_length := of_nat (length (wm_encode beat_fields)),
        wh_runtime_generation := 4, wh_protocol_generation := 1, wh_schema_generation := 1, wh_coordinator_epoch := 2,
        wh_boot := 8, wh_sequence := 1\<rparr>, fr_payload = wm_encode beat_fields\<rparr>"

definition sample_peer :: PeerIdentity where
  "sample_peer = peer_unset\<lparr>pi_session := ''s-1'', pi_component := ''gateway'', pi_worker := ''worker-1'', pi_boot := 8,
     pi_runtime_generation := 4, pi_protocol := ''ref-wire'', pi_agreed_protocol := 1, pi_agreed_schema := 1\<rparr>"

definition live_coord :: Coord where
  "live_coord = (sample_coord wired_durable)\<lparr>c_live := om_upd ''worker-1'' (live_worker_unset\<lparr>lw_worker := ''worker-1'',
       lw_component := ''gateway'', lw_generation := 4, lw_boot := 8, lw_active := True\<rparr>) om_empty,
     c_sessions := om_upd ''s-1'' (sample_session sample_peer) om_empty\<rparr>"

lemma beat_decodes: "wm_decode (wm_encode beat_fields) = (status_ok, beat_fields)" "length (wm_encode beat_fields) = 44"
  by code_simp+

lemma beat_declared:
  "supports_message (build_wire_protocol 1) (ident63 (message_type_to_string Heartbeat))"
  "map_option (\<lambda>d. list_all (\<lambda>f. list_ex (\<lambda>d. fd_id d = wf_name f) (md_fields d)) beat_fields)
     (find_message (build_wire_protocol 1) (ident63 (message_type_to_string Heartbeat))) = Some True"
  "map_option (\<lambda>spec. (ws_operator_only spec, require_fields beat_fields (ws_required spec))) (wire_message_spec Heartbeat)
     = Some (False, status_ok)"
  by code_simp+

lemma durable_sample_coord [simp]: "c_durable (sample_coord s) = s"
  by (simp add: sample_coord_def)

lemma live_coord_facts [simp]:
  "c_durable live_coord = wired_durable" "om_find (c_sessions live_coord) ''s-1'' = Some (sample_session sample_peer)"
  "om_find (c_live live_coord) ''worker-1'' = Some (live_worker_unset\<lparr>lw_worker := ''worker-1'',
       lw_component := ''gateway'', lw_generation := 4, lw_boot := 8, lw_active := True\<rparr>)"
  by (simp_all add: live_coord_def)

lemma live_net:
  "c_live (respond i f ty r x c) = c_live c" "c_live (count_event r c) = c_live c"
  by (simp_all add: respond_def queue_frame_def count_event_def on_stats_def Let_def split: option.splits)

lemma wired_facts:
  "protocol_find (ds_protocols wired_durable) ''ref-wire'' 1 = Some (build_wire_protocol 1)"
  "is_retired wired_durable ''gateway'' 3" "\<not> is_retired wired_durable ''gateway'' 4"
  "\<not> is_boot_fenced wired_durable ''worker-1'' 8" "ds_coordinator_epoch wired_durable = 2"
  "epoch_for wired_durable n = 0"
  by (simp_all add: wired_durable_def sample_durable_def durable_empty_def protocol_find_def is_retired_def is_boot_fenced_def
      epoch_for_def active_plan_def om_vals_def om_empty_def om_find_def gen_unset_def)

lemma beat_semantics: "validate_frame_semantics (sample_session sample_peer) sample_beat live_coord = Inr beat_fields"
proof -
  obtain d where d: "find_message (build_wire_protocol 1) (ident63 (message_type_to_string Heartbeat)) = Some d"
    "list_all (\<lambda>f. list_ex (\<lambda>d. fd_id d = wf_name f) (md_fields d)) beat_fields"
    using beat_declared(2) by (auto simp: map_option_case split: option.splits)
  obtain spec where spec: "wire_message_spec Heartbeat = Some spec" "\<not> ws_operator_only spec"
    "require_fields beat_fields (ws_required spec) = status_ok"
    using beat_declared(3) by auto
  have "\<not> list_ex (\<lambda>f. \<not> list_ex (\<lambda>d. fd_id d = wf_name f) (md_fields d)) beat_fields"
    using d(2) by (auto simp: list_all_iff list_ex_iff)
  then show ?thesis
    using d spec beat_declared(1) wired_facts beat_decodes(1)
    by (simp add: validate_frame_semantics_def sample_session_def new_session_def sample_peer_def peer_unset_def sample_beat_def
        frame_header_default_def live_worker_unset_def Let_def message_is_mutating_def)
qed

lemma beat_envelope: "is_ok (validate_frame_envelope sample_beat kFrameBytes)"
  using beat_decodes(2) by (simp add: validate_frame_envelope_def sample_beat_def frame_header_default_def limit_defs Let_def)

lemma beat_touches: "\<not> untouched live_coord (handle_frame ''s-1'' sample_beat live_coord)"
proof -
  have "map_option lw_frames (om_find (c_live (handle_frame ''s-1'' sample_beat live_coord)) ''worker-1'') = Some 1"
    using beat_envelope beat_semantics
    by (simp add: handle_frame_def sample_beat_def [THEN arg_cong, of "\<lambda>f. wh_type (fr_header f)"]
        sample_beat_def [THEN arg_cong, of "\<lambda>f. wh_sequence (fr_header f)"] sample_session_def new_session_def
        frame_command_def live_net handle_heartbeat_def admit_frame_def sample_peer_def peer_unset_def live_worker_unset_def
        Let_def split_def)
  moreover have "map_option lw_frames (om_find (c_live live_coord) ''worker-1'') = Some 0"
    by (simp add: live_worker_unset_def)
  ultimately show ?thesis by (auto simp: untouched_def)
qed

theorem hello_admission_witness:
  "admissible (c_durable (sample_coord wired_durable)) sample_hello
   \<and> pi_operation (fst (snd (command_hello sample_hello peer_unset (sample_coord wired_durable)))) = NoOperation"
proof -
  have "admissible (c_durable (sample_coord wired_durable)) sample_hello"
    using sample_hello_admissible by simp
  moreover have "registry_find (ds_components (c_durable (sample_coord wired_durable))) (hs_component sample_hello)
      (hs_runtime_generation sample_hello) = None"
    by (simp add: wired_durable_def sample_durable_def durable_empty_def registry_find_def registry_empty_def)
  ultimately show ?thesis
    using hello_admission [of "sample_coord wired_durable" sample_hello peer_unset] by (simp add: peer_unset_def)
qed

theorem frame_admission_witness: "frame_admissible (sample_session sample_peer) sample_beat live_coord"
proof -
  have "wh_type (fr_header sample_beat) \<noteq> Hello" by (simp add: sample_beat_def)
  then show ?thesis using frame_admission [OF live_coord_facts(2) _ beat_touches] by blast
qed

theorem retired_never_readmitted_witness:
  defines "se \<equiv> sample_session (peer_unset\<lparr>pi_component := ''gateway'', pi_runtime_generation := 3\<rparr>)"
  defines "c \<equiv> (sample_coord wired_durable)\<lparr>c_sessions := om_upd ''s-1'' se om_empty\<rparr>"
  defines "c' \<equiv> c\<lparr>c_fail_persistence := True\<rparr>"
  shows "untouched c' (handle_frame ''s-1'' sample_beat c')
    \<and> (\<exists>r. \<not> is_ok (cr_status r)
         \<and> command_hello (sample_hello\<lparr>hs_runtime_generation := 3\<rparr>) peer_unset c' = (r, peer_unset, refused c'))"
proof -
  have run: "fabric_step\<^sup>*\<^sup>* c c'" unfolding c'_def by (intro r_into_rtranclp threads fault_step)
  have retired: "is_retired (c_durable c) ''gateway'' 3" using wired_facts(2) by (simp add: c_def)
  have "om_find (c_sessions c') ''s-1'' = Some se" by (simp add: c_def c'_def)
  moreover have "wh_type (fr_header sample_beat) \<noteq> Hello" by (simp add: sample_beat_def)
  moreover have "barred_peer (c_durable c) (se_peer se)"
    using retired by (simp add: barred_peer_def barred_def se_def sample_session_def)
  moreover have "barred_handshake (c_durable c) (sample_hello\<lparr>hs_runtime_generation := 3\<rparr>)"
    using retired by (simp add: barred_handshake_def barred_def sample_hello_def)
  ultimately show ?thesis using retired_never_readmitted [OF run] by blast
qed

end
