(* ===== verification/Ref_Typing.thy ===== *)
theory Ref_Typing
  imports Ref_Admission
begin

text \<open>
  The types the C++ code enforces by construction (bounded identifiers and texts, keyed maps, bounded
  histories) as an invariant of the running coordinator: every command on typed arguments and every frame,
  whatever its payload, keeps the coordinator typed.  Together with the validation every save makes, this
  is what the decoder of the state file needs.
\<close>

section \<open>Typed states\<close>

definition reg_typed :: "ComponentRegistry \<Rightarrow> bool" where
  "reg_typed r \<longleftrightarrow> reg_inv r \<and> (\<forall>v\<in>set (all_versions r). component_version_wf v)"

definition mat_typed :: "CompatibilityMatrix \<Rightarrow> bool" where
  "mat_typed m \<longleftrightarrow> mat_inv m \<and> rows_full m \<and> (\<forall>e\<in>set (all_edges m). edge_wf e)"

text \<open>A plan without the bound on its history, which rolling back and superseding do not keep.\<close>

definition plan_typed :: "EvolutionPlan \<Rightarrow> bool" where
  "plan_typed p \<longleftrightarrow> plan_wf (p\<lparr>ep_history := []\<rparr>) \<and> (\<forall>r\<in>set (ep_history p). stage_record_wf r)"

definition keyed_ok :: "('v \<Rightarrow> 'k) \<Rightarrow> ('v \<Rightarrow> bool) \<Rightarrow> ('k::linorder, 'v) omap \<Rightarrow> bool" where
  "keyed_ok key P m \<longleftrightarrow> keys_match key m \<and> (\<forall>v\<in>set (om_vals m). P v)"

definition history_typed :: "PlanStageRecord list \<Rightarrow> bool" where
  "history_typed rs \<longleftrightarrow> length rs \<le> kStageHistory \<and> (\<forall>r\<in>set rs. stage_record_wf r)"

definition durable_typed :: "DurableState \<Rightarrow> bool" where
  "durable_typed s \<longleftrightarrow>
     version_wf (ds_writer_version s) \<and> reg_typed (ds_components s) \<and> table_ok protocol_wf (ds_protocols s)
     \<and> table_ok schema_wf (ds_schemas s) \<and> mat_typed (ds_matrix s) \<and> table_ok gate_wf (gates (ds_gates s))
     \<and> table_ok plan_typed (ds_plans s) \<and> list_all migration_record_wf (ds_migrations s)
     \<and> list_all rollback_record_wf (ds_rollbacks s)
     \<and> keyed_ok retirement_key retirement_wf (ds_retirements s) \<and> om_size (ds_retirements s) \<le> kRetiredGenerations
     \<and> keyed_ok fenced_key fenced_boot_wf (ds_fenced_boots s) \<and> keyed_ok wr_worker worker_record_wf (ds_workers s)
     \<and> history_typed (ds_stage_history s)"

definition live_typed :: "(ident, LiveWorker) omap \<Rightarrow> bool" where
  "live_typed live \<longleftrightarrow> (\<forall>(i, w)\<in>set live. ident_ok 63 i \<and> ident_ok 63 (lw_component w))"

definition pending_typed :: "PendingAction list \<Rightarrow> bool" where
  "pending_typed as \<longleftrightarrow> list_all (\<lambda>a. ident_ok 63 (pa_migration a)) as"

definition coord_typed :: "Coord \<Rightarrow> bool" where
  "coord_typed c \<longleftrightarrow> durable_typed (c_durable c) \<and> live_typed (c_live c) \<and> pending_typed (c_pending c)"

text \<open>Between them, typing and validation give what the decoder needs, and the decoder gives typed states.\<close>

lemma durable_typed_ok: "durable_typed s \<Longrightarrow> is_ok (durable_validate s) \<Longrightarrow> durable_ok s"
proof -
  assume typed: "durable_typed s" and valid: "is_ok (durable_validate s)"
  have "plan_wf p" if "p \<in> set (om_vals (ds_plans s))" for p
  proof -
    from that obtain i where "(i, p) \<in> set (ds_plans s)" by (auto simp: om_vals_def)
    then have "is_ok (plan_validate p)" by (rule cross_plansD [OF durable_validateD(12) [OF valid]])
    then have "length (ep_history p) \<le> kStageHistory" by (auto simp: plan_validate_def not_less split: if_splits)
    with that typed show ?thesis by (auto simp: durable_typed_def table_ok_def plan_typed_def plan_wf_def)
  qed
  with typed show ?thesis
    by (auto simp: durable_typed_def durable_ok_def reg_typed_def mat_typed_def table_ok_def keyed_ok_def history_typed_def
        protocol_all_def schema_all_def gate_all_def list_all_iff)
qed

lemma durable_ok_typed: "durable_ok s \<Longrightarrow> durable_typed s"
  by (auto simp: durable_typed_def durable_ok_def reg_typed_def mat_typed_def table_ok_def keyed_ok_def history_typed_def
      protocol_all_def schema_all_def gate_all_def list_all_iff plan_typed_def plan_wf_def)


section \<open>Typed values\<close>

named_theorems typing

lemma typed_texts [simp]: "ident_ok 63 (ident63 t)" "text_ok 96 (note96 t)" "text_ok 192 (detail_text t)"
  "ident_ok 63 []" "text_ok k []"
proof -
  show "ident_ok 63 (ident63 t)" "text_ok 96 (note96 t)" "text_ok 192 (detail_text t)"
    by (simp_all add: ident63_def note96_def detail_text_def ident_from_valid_ok text_from_valid_ok)
qed (simp_all add: ident_ok_def text_ok_def)

lemma stage_record_typed [simp]: "stage_record_wf (stage_record st g e ce ev t)"
  by (simp add: stage_record_def stage_record_wf_def)

lemma component_schema_ok [simp]: "ident_ok 63 ''component-state''"
  by code_simp

lemma table_ok_find: "table_ok P m \<Longrightarrow> om_find m k = Some v \<Longrightarrow> P v"
  by (auto simp: table_ok_def om_vals_iff)

lemma table_ok_emplace: "table_ok P m \<Longrightarrow> P v \<Longrightarrow> table_ok P (om_emplace k v m)"
  by (simp add: om_emplace_def table_ok_upd split: option.split)

lemma om_vals_map_vals: "set (om_vals (om_map_vals f m)) = f ` set (om_vals m)"
  by (force simp: om_vals_def om_map_vals_def)

lemma om_ok_map_vals [simp]: "om_ok (om_map_vals f m) = om_ok m"
  by (simp add: om_ok_def om_map_vals_def comp_def split_def)

lemma table_ok_map: "table_ok P m \<Longrightarrow> (\<And>v. P v \<Longrightarrow> P (f v)) \<Longrightarrow> table_ok P (om_map_vals f m)"
  by (auto simp: table_ok_def om_vals_map_vals)

lemma keyed_ok_find: "keyed_ok key P m \<Longrightarrow> om_find m k = Some v \<Longrightarrow> P v \<and> key v = k"
  by (auto simp: keyed_ok_def keys_match_def om_vals_iff list_all_iff dest: om_findD)

lemma keyed_ok_upd: "keyed_ok key P m \<Longrightarrow> P v \<Longrightarrow> key v = k \<Longrightarrow> keyed_ok key P (om_upd k v m)"
  using set_om_upd [of k v m] om_vals_upd_sub [of k v m]
  by (auto simp: keyed_ok_def keys_match_def list_all_iff om_ok_upd)

lemma keyed_ok_map:
  "keyed_ok key P m \<Longrightarrow> (\<And>v. P v \<Longrightarrow> P (f v)) \<Longrightarrow> (\<And>v. key (f v) = key v) \<Longrightarrow> keyed_ok key P (om_map_vals f m)"
proof -
  assume a: "keyed_ok key P m" "\<And>v. P v \<Longrightarrow> P (f v)" "\<And>v. key (f v) = key v"
  have "list_all (\<lambda>(k, v). k = key v) (om_map_vals f m) = list_all (\<lambda>(k, v). k = key v) m"
    by (simp add: list_all_iff om_map_vals_def split_def a(3))
  with a(1,2) show ?thesis by (auto simp: keyed_ok_def keys_match_def om_vals_map_vals)
qed

lemma history_push: "history_typed rs \<Longrightarrow> stage_record_wf r \<Longrightarrow> history_typed (push_bounded kStageHistory r rs)"
  by (cases rs) (auto simp: history_typed_def push_bounded_def kStageHistory_def)

lemma reg_typed_iff:
  "reg_typed r \<longleftrightarrow> reg_inv r \<and> (\<forall>n g v. registry_find r n g = Some v \<longrightarrow> component_version_wf v)"
  using all_versions_iff [of r] by (auto simp: reg_typed_def reg_inv_def)

lemma reg_typed_find: "reg_typed r \<Longrightarrow> registry_find r n g = Some v \<Longrightarrow> component_version_wf v \<and> rv_component v = n"
  by (auto simp: reg_typed_iff reg_inv_def)

lemma reg_typed_publish: "reg_typed r \<Longrightarrow> component_version_wf v \<Longrightarrow> reg_typed (snd (publish r v))"
proof -
  assume typed: "reg_typed r" and v: "component_version_wf v"
  then have inv: "reg_inv r" by (simp add: reg_typed_def)
  have "registry_table (snd (publish r v)) = snd (spec_publish (registry_table r) v)"
    using publish_refines(1) [OF inv, of v] by (metis snd_map_prod)
  then have "registry_find (snd (publish r v)) n g = Some x \<Longrightarrow> x = v \<or> registry_find r n g = Some x" for n g x
    by (auto simp: registry_table_apply [symmetric] spec_publish_def Let_def split: if_splits option.splits)
  with typed v have "registry_find (snd (publish r v)) n g = Some x \<Longrightarrow> component_version_wf x" for n g x
    by (metis reg_typed_iff)
  with publish_refines(2) [OF inv, of v] show ?thesis by (simp add: reg_typed_iff)
qed

lemma reg_typed_lifecycle: "reg_typed r \<Longrightarrow> reg_typed (snd (set_lifecycle r n g st))"
proof -
  assume typed: "reg_typed r"
  then have inv: "reg_inv r" by (simp add: reg_typed_def)
  have wf: "component_version_wf (v\<lparr>rv_lifecycle := st\<rparr>) = component_version_wf v" for v
    by (simp add: component_version_wf_def)
  have "registry_table (snd (set_lifecycle r n g st)) = snd (spec_set_lifecycle (registry_table r) n g st)"
    using set_lifecycle_refines(1) [OF inv, of n g st] by (metis snd_map_prod)
  then have "registry_find (snd (set_lifecycle r n g st)) m k = Some x \<Longrightarrow> component_version_wf x" for m k x
    using typed
    by (auto simp: registry_table_apply [symmetric] spec_set_lifecycle_def reg_typed_iff wf split: if_splits option.splits)
  with set_lifecycle_refines(2) [OF inv] show ?thesis by (simp add: reg_typed_iff)
qed

lemma mat_typed_upsert: "mat_typed m \<Longrightarrow> edge_wf e \<Longrightarrow> mat_typed (snd (matrix_upsert m e))"
proof (cases "is_ok (fst (matrix_upsert m e))")
  case True
  then show "mat_typed m \<Longrightarrow> edge_wf e \<Longrightarrow> ?thesis"
    using om_vals_upd_sub [of "edge_key e" e "edges m"]
    by (auto simp: mat_typed_def mat_inv_upsert upsert_rows_full all_edges_def loaded_upsert_edges)
next
  case False
  then have "snd (matrix_upsert m e) = m" by (auto simp: matrix_upsert_def Let_def split: option.splits if_splits)
  then show "mat_typed m \<Longrightarrow> edge_wf e \<Longrightarrow> ?thesis" by simp
qed

context validated_registry
begin

lemma put_table: "table_ok P (entries r) \<Longrightarrow> P v \<Longrightarrow> table_ok P (entries (snd (put r v)))"
  using put_fails [of r v] put_ok [of r v] by (cases "is_ok (fst (put r v))") (simp_all add: table_ok_upd)

end

lemmas tables_typed_put [typing] = protocols.put_table [where P = protocol_wf] schemas.put_table [where P = schema_wf]
  gate_table.put_table [where P = gate_wf]

lemma gates_typed_enable [typing]:
  "table_ok gate_wf (gates r) \<Longrightarrow> ident_ok 63 plan \<Longrightarrow> table_ok gate_wf (gates (snd (gate_set_enabled r i en plan st)))"
  by (auto simp: gate_set_enabled_def gate_wf_def intro!: table_ok_upd dest: table_ok_find split: option.split)


section \<open>Typed updates\<close>

lemma typed_fields [typing]:
  assumes "durable_typed s"
  shows "reg_typed r \<Longrightarrow> durable_typed (s\<lparr>ds_components := r\<rparr>)"
    "table_ok protocol_wf pr \<Longrightarrow> durable_typed (s\<lparr>ds_protocols := pr\<rparr>)"
    "table_ok schema_wf sc \<Longrightarrow> durable_typed (s\<lparr>ds_schemas := sc\<rparr>)"
    "mat_typed m \<Longrightarrow> durable_typed (s\<lparr>ds_matrix := m\<rparr>)"
    "table_ok gate_wf (gates gs) \<Longrightarrow> durable_typed (s\<lparr>ds_gates := gs\<rparr>)"
    "table_ok plan_typed ps \<Longrightarrow> durable_typed (s\<lparr>ds_plans := ps\<rparr>)"
    "list_all migration_record_wf ms \<Longrightarrow> durable_typed (s\<lparr>ds_migrations := ms\<rparr>)"
    "list_all rollback_record_wf bs \<Longrightarrow> durable_typed (s\<lparr>ds_rollbacks := bs\<rparr>)"
    "keyed_ok retirement_key retirement_wf rs \<Longrightarrow> om_size rs \<le> kRetiredGenerations \<Longrightarrow> durable_typed (s\<lparr>ds_retirements := rs\<rparr>)"
    "keyed_ok fenced_key fenced_boot_wf fs \<Longrightarrow> durable_typed (s\<lparr>ds_fenced_boots := fs\<rparr>)"
    "keyed_ok wr_worker worker_record_wf ws \<Longrightarrow> durable_typed (s\<lparr>ds_workers := ws\<rparr>)"
    "history_typed h \<Longrightarrow> durable_typed (s\<lparr>ds_stage_history := h\<rparr>)"
    "durable_typed (s\<lparr>ds_evidence_generation := g\<rparr>)" "durable_typed (s\<lparr>ds_stage_generation := g\<rparr>)"
    "durable_typed (s\<lparr>ds_evolution_epoch := g\<rparr>)" "durable_typed (s\<lparr>ds_policy_generation := g\<rparr>)"
    "durable_typed (s\<lparr>ds_matrix_generation := g\<rparr>)" "durable_typed (s\<lparr>ds_gate_generation := g\<rparr>)"
    "durable_typed (s\<lparr>ds_snapshot_generation := g\<rparr>)"
  using assms by (simp_all add: durable_typed_def)

lemma typedD:
  assumes "durable_typed s"
  shows "reg_typed (ds_components s)" "table_ok protocol_wf (ds_protocols s)" "table_ok schema_wf (ds_schemas s)"
    "mat_typed (ds_matrix s)" "table_ok gate_wf (gates (ds_gates s))" "table_ok plan_typed (ds_plans s)"
    "list_all migration_record_wf (ds_migrations s)" "list_all rollback_record_wf (ds_rollbacks s)"
    "keyed_ok retirement_key retirement_wf (ds_retirements s)" "om_size (ds_retirements s) \<le> kRetiredGenerations"
    "keyed_ok fenced_key fenced_boot_wf (ds_fenced_boots s)" "keyed_ok wr_worker worker_record_wf (ds_workers s)"
    "history_typed (ds_stage_history s)"
  using assms by (simp_all add: durable_typed_def)

lemma coord_durable: "coord_typed c \<Longrightarrow> durable_typed (c_durable c)"
  by (simp add: coord_typed_def)

lemma coord_on_durable [typing]: "coord_typed c \<Longrightarrow> durable_typed (f (c_durable c)) \<Longrightarrow> coord_typed (on_durable f c)"
  by (simp add: coord_typed_def on_durable_def)

lemma coord_updates [simp]:
  "coord_typed (on_stats g c) = coord_typed c" "coord_typed (put_session se c) = coord_typed c"
  "coord_typed (c\<lparr>c_sessions := ses\<rparr>) = coord_typed c" "coord_typed (c\<lparr>c_worker_sessions := ws\<rparr>) = coord_typed c"
  "coord_typed (c\<lparr>c_action_counter := k\<rparr>) = coord_typed c" "coord_typed (c\<lparr>c_frame_counter := k\<rparr>) = coord_typed c"
  "coord_typed (c\<lparr>c_events := q\<rparr>) = coord_typed c" "coord_typed (c\<lparr>c_session_counter := k\<rparr>) = coord_typed c"
  "coord_typed (c\<lparr>c_snapshots := ss\<rparr>) = coord_typed c" "coord_typed (c\<lparr>c_fail_persistence := b\<rparr>) = coord_typed c"
  "coord_typed (c\<lparr>c_running := b\<rparr>) = coord_typed c" "coord_typed (c\<lparr>c_world := w\<rparr>) = coord_typed c"
  "coord_typed (c\<lparr>c_persistence_writes := n\<rparr>) = coord_typed c"
  by (simp_all add: coord_typed_def on_stats_def put_session_def)

lemma coord_next_evidence [typing]: "coord_typed c \<Longrightarrow> coord_typed (next_evidence c)"
  by (simp add: next_evidence_def typing coord_durable)

lemma live_upd: "live_typed l \<Longrightarrow> ident_ok 63 i \<Longrightarrow> ident_ok 63 (lw_component w) \<Longrightarrow> live_typed (om_upd i w l)"
  using set_om_upd [of i w l] by (auto simp: live_typed_def)

lemma live_find: "live_typed l \<Longrightarrow> om_find l i = Some w \<Longrightarrow> ident_ok 63 i \<and> ident_ok 63 (lw_component w)"
  by (auto simp: live_typed_def dest!: om_findD)

lemma live_map: "live_typed l \<Longrightarrow> (\<And>w. lw_component (f w) = lw_component w) \<Longrightarrow> live_typed (om_map_vals f l)"
  by (auto simp: live_typed_def om_map_vals_def)

lemma live_del: "live_typed l \<Longrightarrow> live_typed (om_del i l)"
  by (auto simp: live_typed_def dest: in_om_del)

lemma live_touch: "live_typed l \<Longrightarrow> om_find l i = Some w \<Longrightarrow> lw_component w' = lw_component w \<Longrightarrow> live_typed (om_upd i w' l)"
  using live_find [of l i w] by (simp add: live_upd)

lemma live_refresh: "live_typed l \<Longrightarrow> live_typed (snd (refresh_sessions s n ses l))"
proof (induction ses arbitrary: l)
  case (Cons entry ses)
  obtain i se where entry: "entry = (i, se)" by fastforce
  have "live_typed (case om_find l (pi_worker (se_peer se)) of None \<Rightarrow> l
      | Some w \<Rightarrow> om_upd (pi_worker (se_peer se)) (w\<lparr>lw_operation := op\<rparr>) l)" for op
    using Cons.prems by (auto intro: live_touch split: option.split)
  with Cons show ?case by (simp add: entry Let_def split_def)
qed simp

lemma coord_live [typing]: "coord_typed c \<Longrightarrow> live_typed l \<Longrightarrow> coord_typed (c\<lparr>c_live := l\<rparr>)"
  by (simp add: coord_typed_def)

lemma coord_pending [typing]: "coord_typed c \<Longrightarrow> pending_typed as \<Longrightarrow> coord_typed (c\<lparr>c_pending := as\<rparr>)"
  by (simp add: coord_typed_def)

lemma coord_live_typed: "coord_typed c \<Longrightarrow> live_typed (c_live c)"
  by (simp add: coord_typed_def)

lemma coord_pending_typed: "coord_typed c \<Longrightarrow> pending_typed (c_pending c)"
  by (simp add: coord_typed_def)

lemma coord_refresh [typing]: "coord_typed c \<Longrightarrow> coord_typed (refresh_worker_authority n c)"
  by (simp add: refresh_worker_authority_def Let_def split_def coord_typed_def live_refresh)

lemma coord_save [typing]:
  "coord_typed c \<Longrightarrow> coord_typed (snd (persist bs c))" "coord_typed c \<Longrightarrow> coord_typed (snd (save_state c))"
  "coord_typed c \<Longrightarrow> coord_typed (snd (finish r c))"
  by (simp_all add: persist_def save_state_def finish_def Let_def split_def)

lemma coord_rejections [simp]:
  "coord_typed (snd (reject c e t)) = coord_typed c" "coord_typed (snd (complete_reject c e t)) = coord_typed c"
  by (simp_all add: reject_def complete_reject_def)

lemma coord_advance [typing]: "coord_typed c \<Longrightarrow> coord_typed (snd (advance_lifecycle n g st c))"
  by (simp add: advance_lifecycle_def Let_def split_def typing coord_durable reg_typed_lifecycle typedD)

lemma coord_on_components [typing]:
  "coord_typed c \<Longrightarrow> component_version_wf v \<Longrightarrow> coord_typed (snd (on_components (\<lambda>r. publish r v) c))"
  by (simp add: on_components_def Let_def split_def typing coord_durable reg_typed_publish typedD)

lemma coord_advance_all [typing]: "coord_typed c \<Longrightarrow> coord_typed (snd (advance_all n g sts c))"
  by (induction sts arbitrary: c) (simp_all add: Let_def split_def typing)

lemma coord_walk [typing]: "coord_typed c \<Longrightarrow> coord_typed (snd (walk_candidate k n g w c))"
proof (induction w arbitrary: c)
  case (Cons entry w)
  then show ?case by (cases entry) (auto simp: split_def Let_def typing split: option.split)
qed simp

lemma coord_make_eligible [typing]: "coord_typed c \<Longrightarrow> coord_typed (foldl (make_eligible g) c ns)"
proof (induction ns arbitrary: c)
  case (Cons n ns)
  have "coord_typed (make_eligible g c n)" using Cons.prems by (simp add: make_eligible_def Let_def typing split: option.split)
  with Cons.IH show ?case by simp
qed simp

lemma coord_drain [typing]:
  assumes "coord_typed c"
  shows "coord_typed (snd (drain_current p st c))" "coord_typed (snd (drain_for_stage t p st c))"
    "coord_typed (snd (demote_candidate p c))" "coord_typed (snd (resume_target p c))"
    "coord_typed (snd (pend_retirement n g ls c))"
  using assms by (simp_all add: drain_current_def drain_for_stage_def demote_candidate_def resume_target_def
      pend_retirement_def Let_def split_def typing del: advance_all.simps split: option.split RolloutStage.split)

lemma coord_send [simp]: "coord_typed (snd (send_to_worker w ty m f c)) = coord_typed c"
  by (simp add: send_to_worker_def Let_def split_def split: option.split)

lemma coord_dispatch_drain [typing]: "coord_typed c \<Longrightarrow> coord_typed (snd (dispatch_drain n g c))"
proof -
  have "coord_typed (foldl (\<lambda>c (i, w). snd (send_to_worker i MessageType.RequestDrain (drain_payload (c_durable c) n g)
      (drain_frame (c_durable c) n g w) c)) c ws) = coord_typed c" for ws
    by (induction ws arbitrary: c) (auto simp: split_def)
  then show "coord_typed c \<Longrightarrow> ?thesis" by (simp add: dispatch_drain_def Let_def)
qed

lemma coord_dispatch_migration [typing]:
  assumes "coord_typed c" "plan_typed p"
  shows "coord_typed (snd (dispatch_migration p w b c))"
proof -
  have "pending_typed (c_pending c @ [new_action c p w b])"
    "pending_typed (c_pending c @ [new_action c p w b\<lparr>pa_state := st, pa_detail := d\<rparr>])"
    "pending_typed (c_pending c @ [new_action c p w b\<lparr>pa_state := st\<rparr>])" for st d
    using assms by (simp_all add: coord_typed_def pending_typed_def new_action_def plan_typed_def plan_wf_def)
  with assms(1) show ?thesis by (simp add: dispatch_migration_def Let_def split_def typing)
qed

lemma coord_dispatch_rollback [typing]: "coord_typed c \<Longrightarrow> coord_typed (snd (dispatch_rollback_state p w b c))"
  by (simp add: dispatch_rollback_state_def)


section \<open>Typed commands\<close>

definition spec_typed :: "PlanSpec \<Rightarrow> bool" where
  "spec_typed spec \<longleftrightarrow> ident_ok 63 (ps_id spec) \<and> ident_ok 63 (ps_component spec) \<and> ident_ok 63 (ps_migration spec)
     \<and> ident_ok 63 (ps_canary_cohort spec) \<and> text_ok 192 (ps_detail spec)
     \<and> length (ps_required_evidence spec) \<le> kExplanationLines \<and> list_all required_evidence_wf (ps_required_evidence spec)
     \<and> length (ps_cohorts spec) \<le> kCohorts \<and> list_all (ident_ok 63) (ps_cohorts spec)"

definition hello_typed :: "ProtocolHandshake \<Rightarrow> bool" where
  "hello_typed h \<longleftrightarrow> ident_ok 63 (hs_component h) \<and> ident_ok 63 (hs_worker h)"

fun command_typed :: "Command \<Rightarrow> bool" where
  "command_typed (DoHello h) = hello_typed h"
| "command_typed (DoRegisterComponent v) = component_version_wf v"
| "command_typed (DoPublishCapability n g k fs) = (length fs \<le> kFeatureGates \<and> list_all feature_support_wf fs)"
| "command_typed (DoPublishCompatibility e) = edge_wf e"
| "command_typed (DoPublishSchema d) = schema_wf d"
| "command_typed (DoPublishProtocol d) = protocol_wf d"
| "command_typed (DoCreatePlan spec) = spec_typed spec"
| "command_typed (DoFenceBoot w b reason) = ident_ok 63 w"
| "command_typed _ = True"

lemma typed_publication:
  assumes "coord_typed c"
  shows "component_version_wf v \<Longrightarrow> coord_typed (snd (command_register_component peer v c))"
    "length fs \<le> kFeatureGates \<Longrightarrow> list_all feature_support_wf fs \<Longrightarrow>
       coord_typed (snd (command_publish_capability peer n g k fs c))"
    "edge_wf e \<Longrightarrow> coord_typed (snd (command_publish_compatibility peer e c))"
    "schema_wf d \<Longrightarrow> coord_typed (snd (command_publish_schema peer d c))"
    "protocol_wf d' \<Longrightarrow> coord_typed (snd (command_publish_protocol peer d' c))"
proof -
  note s = typedD [OF coord_durable [OF assms]]
  have found: "component_version_wf x" if "registry_find (ds_components (c_durable c)) m k = Some x" for m k x
    using reg_typed_find [OF s(1) that] by blast
  show "coord_typed (snd (command_register_component peer v c))" if "component_version_wf v"
    using assms that found [unfolded component_version_wf_def]
    by (auto simp: command_register_component_def Let_def split_def component_version_wf_def intro!: typing split: option.split)
  show "coord_typed (snd (command_publish_capability peer n g k fs c))"
    if "length fs \<le> kFeatureGates" "list_all feature_support_wf fs"
    using assms that found [unfolded component_version_wf_def]
    by (auto simp: command_publish_capability_def Let_def split_def component_version_wf_def list_all_iff intro!: typing
        split: option.split)
  show "coord_typed (snd (command_publish_compatibility peer e c))" if "edge_wf e"
  proof -
    have "edge_wf (e\<lparr>ed_generation := g1, ed_epoch := g2, ed_evidence := g3\<rparr>)" for g1 g2 g3
      using that by (simp add: edge_wf_def)
    then show ?thesis
      using assms s(4) coord_durable [OF assms]
      by (simp add: command_publish_compatibility_def Let_def split_def typing mat_typed_upsert durable_frame)
  qed
  show "coord_typed (snd (command_publish_schema peer d c))" if "schema_wf d"
    using assms that s coord_durable [OF assms] by (simp add: command_publish_schema_def Let_def split_def typing)
  show "coord_typed (snd (command_publish_protocol peer d' c))" if "protocol_wf d'"
    using assms that s coord_durable [OF assms] by (simp add: command_publish_protocol_def Let_def split_def typing)
qed

lemma plan_find: "durable_typed s \<Longrightarrow> plan_locked s i = Some p \<Longrightarrow> plan_typed p"
  using table_ok_find [OF typedD(6)] by (auto simp: plan_locked_def)

lemma typed_put_plan [typing]: "durable_typed s \<Longrightarrow> plan_typed p \<Longrightarrow> durable_typed (put_plan_at i p s)"
  by (simp add: put_plan_at_def typing table_ok_upd typedD)

lemma push_in: "y \<in> set (push_bounded k x xs) \<Longrightarrow> y = x \<or> y \<in> set xs"
  by (cases xs) (auto simp: push_bounded_def split: if_splits)

lemma plan_parts_typed:
  "plan_typed p \<Longrightarrow> plan_typed (fst (stage_plan s target d p))" "plan_typed p \<Longrightarrow> plan_typed (enter_stage target p c)"
  "plan_typed p \<Longrightarrow> plan_typed (rebind_gate g p)" "plan_typed p \<Longrightarrow> plan_typed (fst (rolled_back_plan s q p))"
  "plan_typed p \<Longrightarrow> ident_ok 63 (ep_id p) \<and> ident_ok 63 (ep_component p) \<and> ident_ok 63 (ep_migration p)"
  by (auto simp: plan_typed_def plan_wf_def stage_plan_def enter_stage_def rebind_gate_def rolled_back_plan_def Let_def
      dest!: push_in split: RolloutStage.split option.split)

lemma stage_records_typed [simp]:
  "stage_record_wf (snd (stage_plan s target d p))" "stage_record_wf (snd (rolled_back_plan s q p))"
  by (simp_all add: stage_plan_def rolled_back_plan_def Let_def)

lemma new_plan_typed: "spec_typed spec \<Longrightarrow> plan_typed (new_plan s spec g v w)"
  by (auto simp: plan_typed_def plan_wf_def new_plan_def spec_typed_def Let_def list_all_iff)

lemma typed_create_plan:
  assumes "coord_typed c" "spec_typed spec"
  shows "coord_typed (snd (command_create_plan peer spec c))"
proof -
  have "coord_typed (snd (create_checked_plan spec g v w c))" for g v w
  proof -
    let ?p = "new_plan (c_durable c) spec g v w"
    have "durable_typed (install_plan ?p (c_durable c))"
      using coord_durable [OF assms(1)] typedD(13) [OF coord_durable [OF assms(1)]]
      by (auto simp: install_plan_def new_plan_def Let_def intro!: typing history_push)
    then have "coord_typed (on_durable (install_plan ?p) c)" using assms(1) by (rule coord_on_durable [rotated])
    then show ?thesis
      using assms(1) new_plan_typed [OF assms(2)]
      by (simp add: create_checked_plan_def Let_def split_def typing coord_durable typedD table_ok_emplace)
  qed
  then show ?thesis using assms(1) by (simp add: command_create_plan_def Let_def split: option.split)
qed

lemma typed_advance_stage:
  assumes "coord_typed c"
  shows "coord_typed (snd (command_advance_stage peer i target g c))"
proof -
  have "coord_typed (snd (apply_stage i target d p c))" if "plan_typed p" for d p
    using assms that
    by (simp add: apply_stage_def Let_def split_def typing coord_durable plan_parts_typed history_push typedD)
  then show ?thesis
    using assms plan_find [OF coord_durable [OF assms]]
    by (simp add: command_advance_stage_def Let_def split: option.split)
qed

lemma typed_rebind: "coord_typed c \<Longrightarrow> coord_typed (snd (command_rebind_plan peer i g c))"
  using plan_find [OF coord_durable, of c i]
  by (auto simp: command_rebind_plan_def Let_def plan_typed_def plan_wf_def coord_durable intro!: typing split: option.split)

lemma typed_feature:
  assumes "coord_typed c"
  shows "coord_typed (snd (command_enable_feature peer f i c))"
proof -
  have "coord_typed (snd (apply_feature f i p d c))" if "plan_typed p" for p d
  proof -
    have "plan_typed (p\<lparr>ep_gate_generation := g\<rparr>)" for g using that by (simp add: plan_typed_def plan_wf_def)
    then show ?thesis
      using assms plan_parts_typed(5) [OF that]
      by (simp add: apply_feature_def Let_def split_def typing coord_durable typedD table_ok_map plan_parts_typed durable_frame)
  qed
  then show ?thesis
    using assms plan_find [OF coord_durable [OF assms]]
    by (simp add: command_enable_feature_def Let_def split: option.split)
qed

lemma typed_supersede: "coord_typed c \<Longrightarrow> coord_typed (snd (command_supersede_plan peer i c))"
  using plan_find [OF coord_durable, of c i]
  by (auto simp: command_supersede_plan_def Let_def plan_typed_def plan_wf_def coord_durable history_push typedD
      intro!: typing split: option.split)

lemma typed_drain: "coord_typed c \<Longrightarrow> coord_typed (snd (command_request_drain peer n g c))"
  by (simp add: command_request_drain_def Let_def split_def typing coord_live_typed live_map mark_draining_def
      split: option.split)

lemma typed_migration: "coord_typed c \<Longrightarrow> coord_typed (snd (command_request_migration peer i c))"
  using plan_find [OF coord_durable, of c i]
  by (simp add: command_request_migration_def Let_def split_def typing split: option.split)

lemma rollback_record_typed: "plan_typed p \<Longrightarrow> rollback_record_wf (rollback_record s p (rollback_request c p) a)"
  by (simp add: rollback_record_wf_def rollback_record_def rollback_request_def Let_def plan_parts_typed)

lemma typed_rollback:
  assumes "coord_typed c"
  shows "coord_typed (snd (command_request_rollback peer i c))"
proof -
  have refuse: "coord_typed (snd (refuse_rollback r a c))" if "rollback_record_wf r" for r a
    using assms that by (simp add: refuse_rollback_def typing coord_durable typedD)
  have commit: "coord_typed (snd (commit_rollback i q r a p d))"
    if "coord_typed d" "rollback_record_wf r" "plan_typed p" for q r a p d
  proof -
    have "rollback_record_wf (r\<lparr>rb_outcome := out, rb_recorded_at := at, rb_detail := detail_text t\<rparr>)" for out at t
      using that(2) by (simp add: rollback_record_wf_def)
    then show ?thesis
      using that by (simp add: commit_rollback_def Let_def split_def typing coord_durable typedD history_push plan_parts_typed)
  qed
  show ?thesis
    using assms plan_find [OF coord_durable [OF assms], of i]
    by (simp add: command_request_rollback_def Let_def split_def refuse commit rollback_record_typed typing split: option.split)
qed

lemma fence_boots_typed:
  "durable_typed s \<Longrightarrow> ident_ok 63 n \<Longrightarrow> list_all (\<lambda>(i, w). ident_ok 63 i) ws \<Longrightarrow> durable_typed (foldl (fence_boot_of n g) s ws)"
proof (induction ws arbitrary: s)
  case (Cons w ws)
  then have "durable_typed (fence_boot_of n g s w)"
    by (auto simp: fence_boot_of_def retired_boot_def fenced_boot_wf_def intro!: typing keyed_ok_upd typedD)
  with Cons show ?case by simp
qed simp

lemma commit_retirement_typed:
  assumes "coord_typed c" "ident_ok 63 n" "om_size (ds_retirements (c_durable c)) < kRetiredGenerations"
  shows "coord_typed (snd (commit_retirement n g pre a c))"
proof -
  let ?s = "c_durable c" and ?ws = "filter (\<lambda>(i, w). on_generation n g w) (c_live c)"
  let ?r = "om_upd (n, g) (retirement_record ?s pre n g) (ds_retirements ?s)"
  note s = coord_durable [OF assms(1)]
  have "keyed_ok retirement_key retirement_wf ?r"
    using typedD(9) [OF s] assms(2) by (auto simp: retirement_record_def retirement_wf_def intro!: keyed_ok_upd)
  moreover have "om_size ?r \<le> kRetiredGenerations"
    using typedD(9) [OF s] assms(3) by (simp add: keyed_ok_def keys_match_def om_size_upd)
  ultimately have retired: "durable_typed (?s\<lparr>ds_retirements := ?r\<rparr>)" using s by (simp add: typing)
  have "list_all (\<lambda>(i, w). ident_ok 63 i) ?ws"
    using coord_live_typed [OF assms(1)] by (auto simp: live_typed_def list_all_iff)
  with retired assms(2) have "durable_typed (foldl (fence_boot_of n g) (?s\<lparr>ds_retirements := ?r\<rparr>) ?ws)"
    by (rule fence_boots_typed)
  moreover have "keyed_ok wr_worker worker_record_wf (om_map_vals (fence_record_of n g) ws)"
    if "keyed_ok wr_worker worker_record_wf ws" for ws
    using that by (rule keyed_ok_map) (auto simp: fence_record_of_def worker_record_wf_def)
  ultimately show ?thesis
    using assms(1) retired
    by (simp add: commit_retirement_def Let_def typing coord_live_typed live_map fence_live_def durable_frame typedD)
qed

lemma typed_retirement:
  assumes "coord_typed c"
  shows "coord_typed (snd (command_request_retirement peer n g c))"
proof -
  have "ident_ok 63 n" if "registry_find (ds_components (c_durable c)) n g = Some v" for v
    using reg_typed_find [OF typedD(1) [OF coord_durable [OF assms]] that] by (auto simp: component_version_wf_def)
  with assms show ?thesis
    by (simp add: command_request_retirement_def Let_def split_def typing commit_retirement_typed not_le split: option.split)
qed

lemma typed_lifecycle: "coord_typed c \<Longrightarrow> coord_typed (snd (command_request_lifecycle peer n g st c))"
  by (simp add: command_request_lifecycle_def Let_def split_def typing del: advance_all.simps split: option.split)

lemma worker_find: "durable_typed s \<Longrightarrow> om_find (ds_workers s) i = Some r \<Longrightarrow> worker_record_wf r \<and> wr_worker r = i"
  by (rule keyed_ok_find [OF typedD(12)])

lemma worker_touch:
  assumes "durable_typed s" "om_find (ds_workers s) i = Some r" "wr_worker r' = wr_worker r" "worker_record_wf r'"
  shows "durable_typed (s\<lparr>ds_workers := om_upd i r' (ds_workers s)\<rparr>)"
  using assms worker_find [OF assms(1,2)] by (simp add: typing typedD keyed_ok_upd)

lemma typed_fence:
  assumes "coord_typed c" "ident_ok 63 w"
  shows "coord_typed (snd (command_fence peer w b reason c))"
proof -
  define bare where "bare = \<lparr>fb_worker = w, fb_boot = b, fb_component = [], fb_generation = gen_unset,
    fb_reason = note96 reason, fb_fenced_at = ds_stage_generation (c_durable c)\<rparr>"
  define live where "live = (case om_find (c_live c) w of
      Some v \<Rightarrow> (bare\<lparr>fb_component := lw_component v, fb_generation := lw_generation v\<rparr>,
        c\<lparr>c_live := om_upd w (v\<lparr>lw_fenced := True, lw_active := False\<rparr>) (c_live c)\<rparr>)
    | None \<Rightarrow> (bare, c))"
  define known where "known = (case om_find (ds_workers (c_durable c)) w of
      Some r \<Rightarrow> ((fst live)\<lparr>fb_component := (if fb_component (fst live) = [] then wr_component r else fb_component (fst live)),
          fb_generation := (if \<not> gen_is_set (fb_generation (fst live)) then wr_generation r else fb_generation (fst live))\<rparr>,
        on_durable (\<lambda>s. s\<lparr>ds_workers := om_upd w (r\<lparr>wr_fenced := True,
          wr_detail := detail_text ''fenced by operator''\<rparr>) (ds_workers s)\<rparr>) (snd live))
    | None \<Rightarrow> (fst live, snd live))"
  have live: "fenced_boot_wf (fst live)" "fenced_key (fst live) = (w, b)" "coord_typed (snd live)" "c_durable (snd live) = c_durable c"
    using assms live_find [OF coord_live_typed [OF assms(1)], of w]
    by (auto simp: live_def bare_def fenced_boot_wf_def coord_live_typed live_upd intro!: typing split: option.split)
  have "coord_typed (snd known)" "fenced_boot_wf (fst known)" "fenced_key (fst known) = (w, b)"
    using live worker_find [OF coord_durable [OF assms(1)], of w] worker_touch [OF coord_durable [OF assms(1)], of w]
    by (auto simp: known_def fenced_boot_wf_def worker_record_wf_def intro!: coord_on_durable split: option.split)
  then have "durable_typed ((c_durable (snd known))\<lparr>ds_fenced_boots :=
      om_upd (w, b) (fst known) (ds_fenced_boots (c_durable (snd known)))\<rparr>)"
    by (auto intro!: typing keyed_ok_upd typedD coord_durable)
  with \<open>coord_typed (snd known)\<close> assms(1) show ?thesis
    unfolding command_fence_def Let_def bare_def [symmetric] live_def [symmetric] split_def known_def [symmetric]
    by (simp add: typing)
qed

lemma acknowledge_typed: "pending_typed as \<Longrightarrow> pending_typed (acknowledge_first P as)"
  by (induction as) (auto simp: pending_typed_def)

lemma completion_record_typed:
  "plan_typed p \<Longrightarrow> ident_ok 63 (pa_migration a) \<Longrightarrow> migration_record_wf (completion_record p a m d)"
  by (simp add: migration_record_wf_def completion_record_def plan_parts_typed)

lemma pending_find: "coord_typed c \<Longrightarrow> List.find P (c_pending c) = Some a \<Longrightarrow> ident_ok 63 (pa_migration a)"
  by (auto simp: coord_typed_def pending_typed_def list_all_iff find_Some_iff)

lemma accept_typed:
  assumes "coord_typed c" "plan_typed p" "ident_ok 63 (pa_migration a)"
  shows "coord_typed (snd (accept_completion i p a m d c))"
proof -
  have "plan_typed (p\<lparr>ep_rollback_barrier_crossed := b, ep_history := mark_completed (ep_history p)\<rparr>)" for b
    using assms(2) by (auto simp: plan_typed_def plan_wf_def mark_completed_def stage_record_wf_def dest: in_set_butlastD)
  then show ?thesis
    using assms by (simp add: accept_completion_def Let_def typing coord_durable typedD completion_record_typed durable_frame)
qed

lemma typed_completion:
  assumes "coord_typed c"
  shows "coord_typed (snd (command_publish_completion peer i sid g m d drain c))"
proof -
  note s = coord_durable [OF assms]
  have stage: "coord_typed (snd (complete_stage peer i sid g m d c))"
    using assms plan_find [OF s] pending_find [OF assms] coord_pending_typed [OF assms]
    by (simp add: complete_stage_def typing accept_typed acknowledge_typed split: option.split)
  have "durable_typed ((c_durable c)\<lparr>ds_workers := om_upd n (r\<lparr>wr_drained := True, wr_detail := detail_text t\<rparr>)
      (ds_workers (c_durable c))\<rparr>)" if "om_find (ds_workers (c_durable c)) n = Some r" for n r t
    using worker_find [OF s that] by (intro worker_touch [OF s that]) (auto simp: worker_record_wf_def)
  then have "coord_typed (snd (complete_drain peer i g c))"
    using assms live_touch [OF coord_live_typed [OF assms]]
    by (simp add: complete_drain_def Let_def typing split: option.split)
  with stage assms show ?thesis by (simp add: command_publish_completion_def)
qed

lemma typed_hello:
  assumes "coord_typed c" "hello_typed h"
  shows "coord_typed (snd (snd (command_hello h peer c)))"
proof (cases "admissible (c_durable c) h")
  case True
  then have worker: "hs_worker h \<noteq> []"
    by (auto simp: admissible_def handshake_validate_def split: if_splits)
  have "durable_typed ((c_durable c)\<lparr>ds_workers := om_upd (hs_worker h) (hello_record c h) (ds_workers (c_durable c))\<rparr>)"
    using assms worker coord_durable [OF assms(1)]
    by (auto simp: hello_record_def worker_record_wf_def hello_typed_def intro!: typing keyed_ok_upd typedD)
  moreover have "live_typed (om_upd (hs_worker h) (hello_worker c h q) (c_live c))" for q
    using assms by (simp add: hello_worker_def hello_typed_def coord_live_typed live_upd)
  ultimately have "coord_typed (greeted h n peer c)" for n
    using assms(1) by (simp add: greeted_def) (simp add: coord_typed_def)
  then show ?thesis by (simp add: hello_cases(1) [OF True] hello_accept_saves typing)
next
  case False
  then show ?thesis using hello_cases(2) [OF False, of peer] assms(1) by (auto simp: refused_def)
qed

lemma run_command_typed: "coord_typed c \<Longrightarrow> command_typed cmd \<Longrightarrow> coord_typed (snd (run_command peer cmd c))"
  using typed_publication typed_create_plan typed_advance_stage typed_rebind typed_feature typed_drain typed_migration
    typed_rollback typed_retirement typed_supersede typed_lifecycle typed_fence typed_completion typed_hello
  by (cases cmd) (simp_all add: Let_def split_def)


section \<open>Typed frames\<close>

lemma entries_typed:
  assumes "\<And>e a. f e = Some a \<Longrightarrow> P a"
  shows "length acc \<le> cap \<Longrightarrow> list_all P acc \<Longrightarrow>
    length (comma_entries cap f t acc) \<le> cap \<and> list_all P (comma_entries cap f t acc)"
proof (induction "length t" arbitrary: t acc rule: less_induct)
  case less
  let ?e = "takeWhile (\<lambda>c. c \<noteq> CHR '','') t" and ?left = "dropWhile (\<lambda>c. c \<noteq> CHR '','') t"
  let ?acc = "case f ?e of Some a \<Rightarrow> acc @ [a] | None \<Rightarrow> acc"
  show ?case
  proof (cases "t = [] \<or> cap \<le> length acc")
    case True
    then show ?thesis using less.prems by (subst (1 2) comma_entries.simps) simp
  next
    case False
    then have acc: "length ?acc \<le> cap" "list_all P ?acc" using less.prems assms by (auto split: option.split)
    from False have "length (tl ?left) < length t" by (intro tl_dropWhile_shorter) simp
    from less.hyps [OF this acc] acc False show ?thesis
      by (subst (1 2) comma_entries.simps) (simp add: Let_def)
  qed
qed

lemma features_typed: "length (msg_features m) \<le> kFeatureGates" "list_all feature_support_wf (msg_features m)"
proof -
  have "feature_support_wf a" if "feature_entry e = Some a" for e a
    using that by (auto simp: feature_entry_def feature_support_wf_def Let_def split: option.splits if_splits)
  then have "length (decode_features t) \<le> kFeatureGates \<and> list_all feature_support_wf (decode_features t)" for t
    unfolding decode_features_def by (intro entries_typed) simp_all
  then show "length (msg_features m) \<le> kFeatureGates" "list_all feature_support_wf (msg_features m)"
    by (simp_all add: msg_features_def split: option.split)
qed

lemma msg_ident_typed [simp]: "ident_ok 63 (msg_ident m nm)"
  by (simp add: msg_ident_def wm_ident_def ident_from_valid_ok split: option.split)

lemma decode_set_typed: "gs_inv gs \<Longrightarrow> gs_inv (snd (decode_generation_set t gs))"
proof (induction "length t" arbitrary: t gs rule: less_induct)
  case less
  let ?left = "dropWhile (\<lambda>c. c \<noteq> CHR '','') t"
  have step: "gs_inv (snd (if ?left = [] then (status_ok, out) else decode_generation_set (tl ?left) out))"
    if "gs_inv out" "t \<noteq> []" for out
    using less.hyps [of "tl ?left" out] tl_dropWhile_shorter [OF that(2), of "\<lambda>c. c \<noteq> CHR '',''"] that(1) by simp
  show ?case
    using less.prems step gs_add_spec(3) [OF less.prems]
    by (subst decode_generation_set.simps) (auto simp: Let_def split_def split: option.split)
qed

lemma msg_set_typed: "gs_inv gs \<Longrightarrow> gs_inv (msg_set m nm gs)"
  by (simp add: msg_set_def decode_set_typed gs_inv_empty split: option.split)

lemma msg_version_typed: "version_wf (msg_version m)"
  by (simp add: msg_version_def version_wf_def version_unset_def split: option.split)

lemma frame_version_typed: "component_version_wf (frame_version m)"
proof -
  have "migration_capability_wf a" if "migration_entry e = Some a" for e a
    using that by (auto simp: migration_entry_def migration_capability_wf_def Let_def split: option.splits if_splits)
  then have "length (comma_entries kMessageFields migration_entry t []) \<le> kMessageFields
      \<and> list_all migration_capability_wf (comma_entries kMessageFields migration_entry t [])" for t
    by (intro entries_typed) simp_all
  moreover have "gs_inv (snd (gs_add [] g))" for g by (rule gs_add_spec(3) [OF gs_inv_empty])
  ultimately show ?thesis
    using features_typed [of m]
    by (auto simp: component_version_wf_def frame_version_def Let_def msg_set_typed gs_inv_empty msg_version_typed range_wf_def
        range_unset_def range_is_set_def gen_is_set_def list_all_iff split: option.split)
qed

lemma frame_edge_typed: "frame_edge m = Inr e \<Longrightarrow> edge_wf e"
  by (auto simp: frame_edge_def Let_def edge_wf_def split: if_splits)

lemma frame_schema_typed:
  assumes "is_ok (sd_validate (frame_schema m))"
  shows "schema_wf (frame_schema m)"
proof -
  have "schema_field_wf a" if "schema_field_entry g e = Some a" for g e a
    using that by (auto simp: schema_field_entry_def schema_field_wf_def Let_def split: option.splits if_splits)
  then have "length (comma_entries kMessageFields (schema_field_entry g) t []) \<le> kMessageFields
      \<and> list_all schema_field_wf (comma_entries kMessageFields (schema_field_entry g) t [])" for g t
    by (intro entries_typed) simp_all
  moreover have "range_wf (sd_readable_formats (frame_schema m))" "range_wf (sd_writable_formats (frame_schema m))"
    using assms by (auto simp: sd_validate_def range_wf_def range_is_valid_def range_is_set_def split: if_splits)
  ultimately show ?thesis
    by (auto simp: schema_wf_def frame_schema_def Let_def list_all_iff split: option.split)
qed

lemma frame_plan_typed: "spec_typed (frame_plan m)"
proof -
  have "ident_ok 63 a" if "cohort_entry e = Some a" for e a
    using that by (auto simp: cohort_entry_def split: if_splits)
  then have "length (comma_entries kCohorts cohort_entry t []) \<le> kCohorts
      \<and> list_all (ident_ok 63) (comma_entries kCohorts cohort_entry t [])" for t
    by (intro entries_typed) simp_all
  then show ?thesis by (auto simp: spec_typed_def frame_plan_def split: option.split)
qed

lemma typed_frame_schema: "coord_typed c \<Longrightarrow> coord_typed (snd (command_publish_schema peer (frame_schema m) c))"
proof (cases "is_ok (sd_validate (frame_schema m))")
  case False
  then have "snd (schema_publish r (frame_schema m)) = r" for r by (simp add: schema_publish_def)
  then show "coord_typed c \<Longrightarrow> ?thesis"
    by (simp add: command_publish_schema_def Let_def split_def typing coord_durable typedD)
qed (use typed_publication(4) frame_schema_typed in blast)

lemma report_typed:
  assumes "coord_typed c" "ident_ok 63 (pa_migration a)"
  shows "coord_typed (snd (report_action peer m a c))" "ident_ok 63 (pa_migration (fst (report_action peer m a c)))"
proof -
  have plan: "plan_typed (p\<lparr>ep_rollback_barrier_crossed := b\<rparr>)" if "plan_typed p" for p b
    using that by (simp add: plan_typed_def plan_wf_def)
  have "migration_record_wf ((completion_record p a out digest_zero)\<lparr>mrec_detail := detail_text t\<rparr>)" if "plan_typed p" for p out t
    using completion_record_typed [OF that assms(2)] by (simp add: migration_record_wf_def)
  then show "coord_typed (snd (report_action peer m a c))"
    using assms plan plan_find [OF coord_durable [OF assms(1)]]
    by (auto simp: report_action_def Let_def durable_frame coord_durable typedD intro!: typing split: option.split)
  show "ident_ok 63 (pa_migration (fst (report_action peer m a c)))"
    using assms(2) by (simp add: report_action_def Let_def split: option.split)
qed

lemma reports_typed:
  "coord_typed c \<Longrightarrow> pending_typed as \<Longrightarrow>
   coord_typed (snd (report_actions peer m as c)) \<and> pending_typed (fst (report_actions peer m as c))"
proof (induction as arbitrary: c)
  case (Cons a as)
  then have "coord_typed (snd (report_action peer m a c))" "ident_ok 63 (pa_migration (fst (report_action peer m a c)))"
    using report_typed [of c a peer m] by (simp_all add: pending_typed_def)
  with Cons show ?case by (simp add: Let_def split_def pending_typed_def)
qed simp

lemma typed_report: "coord_typed c \<Longrightarrow> coord_typed (snd (handle_report peer m c))"
  using reports_typed [of c "c_pending c" peer m]
  by (simp add: handle_report_def Let_def split_def typing coord_pending_typed)

lemma typed_net [simp]:
  "coord_typed (queue_frame i f c) = coord_typed c" "coord_typed (respond i f ty r x c) = coord_typed c"
  "coord_typed (rejected_frames c) = coord_typed c" "coord_typed (count_event r c) = coord_typed c"
  "coord_typed (snd (reject_frame c e t)) = coord_typed c" "coord_typed (on_session i g c) = coord_typed c"
  by (simp_all add: queue_frame_def respond_def rejected_frames_def count_event_def reject_frame_def on_session_def Let_def
      split: option.split)

lemma typed_admit [typing]: "coord_typed c \<Longrightarrow> coord_typed (admit_frame i se f c)"
  using live_touch [OF coord_live_typed, of c "pi_worker (se_peer se)"]
  by (simp add: admit_frame_def Let_def typing split: option.split)

lemma typed_heartbeat: "coord_typed c \<Longrightarrow> coord_typed (snd (handle_heartbeat peer m c))"
  using live_touch [OF coord_live_typed, of c "pi_worker peer"]
  by (simp add: handle_heartbeat_def Let_def typing split: option.split)

lemma frame_command_typed: "coord_typed c \<Longrightarrow> coord_typed (snd (fst (frame_command peer ty m c)))"
  using typed_publication [of c] typed_create_plan [of c] typed_advance_stage typed_rebind typed_feature typed_drain
    typed_migration typed_rollback typed_retirement typed_supersede typed_lifecycle typed_fence [of c] typed_completion
    typed_report typed_heartbeat typed_frame_schema
  by (cases ty) (auto simp: frame_command_def frame_version_typed features_typed frame_edge_typed frame_plan_typed
      split: option.splits sum.splits)

lemma frame_hello_typed: "hello_typed (frame_handshake m)"
  by (simp add: hello_typed_def frame_handshake_def)

lemma handle_frame_typed:
  assumes "coord_typed c"
  shows "coord_typed (handle_frame i f c)"
proof -
  have "coord_typed (handle_hello i se f c)" for se
    using assms typed_hello [OF assms frame_hello_typed]
    by (simp add: handle_hello_def Let_def split_def split: option.split)
  with assms show ?thesis
    by (simp add: handle_frame_def Let_def split_def frame_command_typed typing split: option.split sum.split)
qed

lemma drop_workers_typed: "coord_typed c \<Longrightarrow> coord_typed (foldl drop_worker c ses)"
proof (induction ses arbitrary: c)
  case (Cons se ses)
  then have "coord_typed (drop_worker c se)" by (simp add: drop_worker_def Let_def typing coord_live_typed live_del)
  with Cons.IH show ?case by simp
qed simp

lemma thread_step_typed: "thread_step c c' \<Longrightarrow> coord_typed c \<Longrightarrow> coord_typed c'"
proof (induction rule: thread_step.induct)
  case (event_step c c')
  obtain i f q where "c' = on_stats (\<lambda>st. st\<lparr>st_events_processed := st_events_processed st + 1\<rparr>)
      (handle_frame i f (c\<lparr>c_events := q\<rparr>))"
    using event_step.hyps by (rule handled_event)
  then show ?case using event_step.prems by (simp add: handle_frame_typed)
next
  case (stop_step c)
  then show ?case
    by (simp add: coordinator_stop_def shutdown_sessions_def Let_def) (simp add: coord_typed_def live_typed_def om_empty_def)
qed (simp_all add: accept_connection_def receive_frame_def reader_ends_def writer_ends_def reap_sessions_def take_snapshot_def
    drop_workers_typed typing coord_durable Let_def split_def)

inductive typed_step :: "Coord \<Rightarrow> Coord \<Rightarrow> bool" where
  typed_command: "command_typed cmd \<Longrightarrow> typed_step c (snd (run_command peer cmd c))"
| typed_thread: "thread_step c c' \<Longrightarrow> typed_step c c'"

lemma typed_fabric: "typed_step c c' \<Longrightarrow> fabric_step c c'"
  by (induction rule: typed_step.induct) (auto intro: fabric_step.intros)

lemma typed_step_typed: "typed_step c c' \<Longrightarrow> coord_typed c \<Longrightarrow> coord_typed c'"
  by (induction rule: typed_step.induct) (simp_all add: run_command_typed thread_step_typed)

lemma typed_run_typed: "typed_step\<^sup>*\<^sup>* c c' \<Longrightarrow> coord_typed c \<Longrightarrow> coord_typed c'"
  by (induction rule: rtranclp_induct) (auto intro: typed_step_typed)

lemma typed_run_fabric: "typed_step\<^sup>*\<^sup>* c c' \<Longrightarrow> fabric_step\<^sup>*\<^sup>* c c'"
  by (induction rule: rtranclp_induct) (auto intro: typed_fabric rtranclp.rtrancl_into_rtrancl)


section \<open>Typed starts\<close>

lemma builtins_typed: "schema_wf builtin_v1" "schema_wf builtin_v2" "schema_wf builtin_v3"
  "protocol_wf (build_wire_protocol 1)" "protocol_wf (build_wire_protocol 2)"
  "ident_ok 63 shadow_query_feature_id" "ident_ok 63 token_transform_feature_id"
  by code_simp+

lemma durable_empty_typed: "durable_typed durable_empty"
proof -
  have "durable_ok durable_empty"
    using reg_empty_props mat_inv_empty
    by (simp add: durable_ok_def durable_empty_def version_wf_def version_unset_def om_vals_def all_versions_def registry_empty_def
        om_empty_def protocol_all_def schema_all_def all_edges_def matrix_empty_def rows_full_def gates_empty_def gate_all_def
        keys_match_def om_find_def om_size_def om_ok_def)
  then show ?thesis by (rule durable_ok_typed)
qed

lemma recover_typed: "durable_typed s \<Longrightarrow> durable_typed (recover_state s)"
proof -
  assume s: "durable_typed s"
  have "keyed_ok wr_worker worker_record_wf (om_map_vals recover_worker (ds_workers s))"
    using typedD(12) [OF s] by (rule keyed_ok_map) (simp_all add: recover_worker_def worker_record_wf_def)
  with s show ?thesis by (simp add: recover_state_def durable_typed_def)
qed

lemma load_typed: "coord_typed c \<Longrightarrow> coord_typed (snd (load_durable c))"
proof -
  assume c: "coord_typed c"
  have loaded: "durable_typed (fst (snd (store_load path durable_empty w)))" for path w
    using durable_empty_typed decoded_durable_ok(1)
    by (auto simp: store_load_def Let_def intro: durable_ok_typed split: prod.split sum.split)
  have "durable_typed (baseline (c_durable c))"
    using coord_durable [OF c] by (simp add: baseline_def durable_typed_def)
  then have "coord_typed (on_durable baseline c)" using c by (simp add: coord_on_durable)
  then show ?thesis
    using recover_typed [OF loaded]
    by (auto simp: load_durable_def Let_def split_def) (simp add: coord_typed_def live_typed_def om_empty_def)
qed

lemma wire_protocols_typed:
  "coord_typed c \<Longrightarrow> \<forall>g\<in>set gs. protocol_wf (build_wire_protocol g) \<Longrightarrow> coord_typed (snd (publish_wire_protocols gs c))"
proof (induction gs arbitrary: c)
  case (Cons g gs)
  then have "coord_typed (on_durable (\<lambda>s. s\<lparr>ds_protocols := snd (protocol_publish (ds_protocols (c_durable c)) (build_wire_protocol g))\<rparr>) c)"
    by (simp add: typing coord_durable typedD)
  with Cons show ?case by (simp add: Let_def split_def)
qed simp

lemma builtin_gates_typed: "gate_wf (builtin_gate shadow_query_feature_id a b d out t)"
  "gate_wf (builtin_gate token_transform_feature_id a b d out t)"
  using builtins_typed(6,7) by (simp_all add: gate_wf_def builtin_gate_def)

lemma install_typed [typing]:
  assumes "coord_typed c"
  shows "coord_typed (snd (install_builtin_protocols c))" "coord_typed (snd (install_builtin_schemas c))"
    "coord_typed (snd (install_builtin_features c))"
proof -
  show "coord_typed (snd (install_builtin_protocols c))"
    using wire_protocols_typed [OF assms, of "[1, 2]"] builtins_typed
    by (simp add: install_builtin_protocols_def Let_def split_def typing)
  show "coord_typed (snd (install_builtin_schemas c))"
    using assms builtins_typed typedD(3) [OF coord_durable [OF assms]]
    by (simp add: install_builtin_schemas_def install_builtin_state_schemas_def Let_def split_def typing coord_durable)
  show "coord_typed (snd (install_builtin_features c))"
    using assms builtin_gates_typed typedD(5) [OF coord_durable [OF assms]]
    by (simp add: install_builtin_features_def Let_def split_def typing coord_durable)
qed

lemma start_typed: "coord_typed (snd (coordinator_start opened (coordinator_new config w)))"
proof -
  have "coord_typed (coordinator_new config w)"
    using durable_empty_typed by (simp add: coordinator_new_def coord_typed_def live_typed_def pending_typed_def om_empty_def)
  then show ?thesis by (simp add: coordinator_start_def Let_def split_def load_typed typing)
qed

text \<open>
  C8: From the start of the coordinator, whatever the state file held, and through any sequence of commands
  with typed arguments and of frames with any payload, in any interleaving of the threads, the state keeps
  the types the code relies on: the registries and the matrix satisfy their invariants, the maps are
  sorted and keyed by their records, all identifiers and texts are within their bounds and alphabets,
  and the stage history and the retirement table are bounded.  So a state that passes the validation made
  before saving is well formed, and whenever its encoding fits the bound of the state file the decoder reads
  it back, up to the settling of the component index.
\<close>

theorem coordinator_typed:
  assumes "typed_step\<^sup>*\<^sup>* (snd (coordinator_start opened (coordinator_new config w))) c"
  shows "coord_typed c \<and> (is_ok (durable_validate (c_durable c)) \<longrightarrow> durable_ok (c_durable c))
    \<and> (\<forall>bs. durable_encode (c_durable c) = (status_ok, bs) \<and> length bs \<le> kStateFileBytes
         \<longrightarrow> durable_decode bs = Inr (durable_settle (c_durable c)))"
proof -
  have typed: "coord_typed c" using typed_run_typed [OF assms start_typed] .
  then have ok: "durable_ok (c_durable c)" if "is_ok (durable_validate (c_durable c))"
    using that durable_typed_ok coord_durable by blast
  then have "durable_decode bs = Inr (durable_settle (c_durable c))"
    if "durable_encode (c_durable c) = (status_ok, bs)" "length bs \<le> kStateFileBytes" for bs
    using that decode_encoded_durable by (simp add: encode_durable)
  with typed ok show ?thesis by blast
qed

theorem coordinator_typed_witness:
  "coord_typed (accept_connection True (snd (coordinator_start status_ok (coordinator_new sample_config sample_world))))"
proof -
  let ?c = "snd (coordinator_start status_ok (coordinator_new sample_config sample_world))"
  have "typed_step\<^sup>*\<^sup>* ?c (accept_connection True ?c)" by (intro r_into_rtranclp typed_thread accept_step)
  then show ?thesis using coordinator_typed by blast
qed

end
