(* ===== verification/Ref_Durability.thy ===== *)
theory Ref_Durability
  imports Ref_Typing
begin

text \<open>
  The state file.  A command that reports success has handed the encoding of the state it leaves to the state file; every step
  leaves the file alone or makes it hold the encoding of the new state; and a coordinator that starts from a
  file that holds the encoding of a typed state has that state again.  Here a command and its write are one
  step; the theory on overlapping commands takes them apart.
\<close>

section \<open>Acknowledged is persisted\<close>

text \<open>The state file holds exactly the encoding of the durable state, or no state file is configured.\<close>

definition stored :: "Coord \<Rightarrow> bool" where
  "stored c \<longleftrightarrow> cf_state_path (c_config c) = []
     \<or> is_ok (fst (durable_encode (c_durable c))) \<and> length (snd (durable_encode (c_durable c))) \<le> kStateFileBytes
       \<and> files (c_world c) (cf_state_path (c_config c)) = Some (snd (durable_encode (c_durable c)))"

definition acknowledged :: "CommandResult \<times> Coord \<Rightarrow> bool" where
  "acknowledged out \<longleftrightarrow> (is_ok (cr_status (fst out)) \<longrightarrow> stored (snd out))"

named_theorems ack_intros

lemma save_state_stored: "is_ok (fst (save_state c)) \<Longrightarrow> stored (snd (save_state c))"
proof -
  let ?p = "cf_state_path (c_config c)" and ?e = "durable_encode (c_durable c)"
  assume ok: "is_ok (fst (save_state c))"
  have config: "c_config (snd (save_state c)) = c_config c"
    by (simp add: save_state_def persist_def Let_def split_def)
  show ?thesis
  proof (cases "?p = []")
    case False
    with ok have enc: "is_ok (fst ?e)" and written: "is_ok (fst (write_file_atomic ?p (snd ?e) (c_world c)))"
      by (auto simp: save_state_def persist_def Let_def split_def split: if_splits)
    then have "c_world (snd (save_state c)) = snd (write_file_atomic ?p (snd ?e) (c_world c))"
      using False ok by (auto simp: save_state_def persist_def Let_def split_def split: if_splits)
    then have "files (c_world (snd (save_state c))) ?p = Some (snd ?e)"
      using written write_cases [of ?p "snd ?e" "c_world c"] by auto
    moreover have "length (snd ?e) \<le> kStateFileBytes" using written by (auto simp: write_file_atomic_def split: if_splits)
    ultimately show ?thesis using enc config by (simp add: stored_def durable_frame)
  qed (simp add: stored_def config)
qed

lemma ack_finish [ack_intros]: "acknowledged (finish r c)"
  using save_state_stored [of c] by (simp add: acknowledged_def finish_def failure_result_def Let_def split_def)

lemma ack_failure [ack_intros]: "\<not> is_ok s \<Longrightarrow> acknowledged (failure_result s, c)"
  by (simp add: acknowledged_def failure_result_def)

lemma ack_failure_explained [ack_intros]:
  "\<not> is_ok s \<Longrightarrow> acknowledged ((failure_result s)\<lparr>cr_explanation := ls\<rparr>, c)"
  by (simp add: acknowledged_def failure_result_def)

lemma ack_reject [ack_intros]: "e \<noteq> Ok \<Longrightarrow> acknowledged (reject c e t)" "e \<noteq> Ok \<Longrightarrow> acknowledged (complete_reject c e t)"
  by (simp_all add: acknowledged_def reject_def complete_reject_def failure_result_def)

lemma ack_sum [ack_intros]: "cr_status r = s \<Longrightarrow> \<not> is_ok s \<Longrightarrow> acknowledged (r, c)"
  by (simp add: acknowledged_def)

lemma gate_denied: "\<not> gd_permitted (gate_evaluate r i ctx req) \<Longrightarrow> \<not> is_ok (gd_status (gate_evaluate r i ctx req))"
  by (auto simp: gate_evaluate_def gate_deny_def Let_def split: if_splits option.splits)

lemma retirement_denied: "\<not> rta_allowed (evaluate_retirement p) \<Longrightarrow> \<not> is_ok (rta_status (evaluate_retirement p))"
  by (auto simp: evaluate_retirement_def retirement_reject_def Let_def split: if_splits)

lemma plan_spec_refusal_code: "plan_spec_refusal s spec g v w = Some (e, t) \<Longrightarrow> e \<noteq> Ok"
  by (auto simp: plan_spec_refusal_def split: if_splits option.splits)

lemma ack_if: "(b \<Longrightarrow> acknowledged x) \<Longrightarrow> (\<not> b \<Longrightarrow> acknowledged y) \<Longrightarrow> acknowledged (if b then x else y)"
  by simp

lemma ack_option:
  "acknowledged x \<Longrightarrow> (\<And>v. r = Some v \<Longrightarrow> acknowledged (f v)) \<Longrightarrow> acknowledged (case r of None \<Rightarrow> x | Some v \<Rightarrow> f v)"
  by (simp split: option.split)

lemma ack_let: "(\<And>x. x = v \<Longrightarrow> acknowledged (f x)) \<Longrightarrow> acknowledged (let x = v in f x)"
  by simp

lemma ack_pair: "(\<And>x y. p = (x, y) \<Longrightarrow> acknowledged (f x y)) \<Longrightarrow> acknowledged (case p of (x, y) \<Rightarrow> f x y)"
  by (simp add: split_def)

lemmas ack_rules = ack_if ack_option ack_let ack_pair ack_intros

lemma ack_commits [ack_intros]:
  "acknowledged (refuse_rollback r a c)" "acknowledged (commit_rollback i q r a p c)"
  "acknowledged (commit_retirement n g pre ra c)"
  by (simp_all add: refuse_rollback_def commit_rollback_def commit_retirement_def Let_def split_def ack_intros)


lemma ack_publication:
  "acknowledged (command_register_component peer v c)" "acknowledged (command_publish_capability peer n g k fs c)"
  "acknowledged (command_publish_compatibility peer e c)" "acknowledged (command_publish_schema peer sd c)"
  "acknowledged (command_publish_protocol peer pd c)"
  unfolding command_register_component_def command_publish_capability_def command_publish_compatibility_def
    command_publish_schema_def command_publish_protocol_def
  by (intro ack_rules; simp)+

lemma ack_checked_plan [ack_intros]: "acknowledged (create_checked_plan spec g v w c)"
  unfolding create_checked_plan_def by (intro ack_rules) simp_all

lemma ack_create_plan: "acknowledged (command_create_plan peer spec c)"
  unfolding command_create_plan_def
  by (intro ack_rules ack_checked_plan) (auto dest: plan_spec_refusal_code)

lemma ack_plans:
  "acknowledged (command_advance_stage peer i target g c)" "acknowledged (command_rebind_plan peer i g c)"
  "acknowledged (command_enable_feature peer f i c)" "acknowledged (command_supersede_plan peer i c)"
  unfolding command_advance_stage_def apply_stage_def command_rebind_plan_def command_enable_feature_def apply_feature_def
    command_supersede_plan_def
  by (intro ack_rules; simp add: advance_status gate_denied)+

lemma ack_actions:
  "acknowledged (command_request_drain peer n g c)" "acknowledged (command_request_migration peer i c)"
  "acknowledged (command_request_rollback peer i c)" "acknowledged (command_request_retirement peer n g c)"
  "acknowledged (command_request_lifecycle peer n g st c)" "acknowledged (command_fence peer w b reason c)"
  unfolding command_request_drain_def command_request_migration_def command_request_rollback_def
    command_request_retirement_def command_request_lifecycle_def command_fence_def
  by (intro ack_rules ack_commits; simp add: retirement_denied)+

lemma ack_completion: "acknowledged (command_publish_completion peer i sid g m dg drain c)"
  unfolding command_publish_completion_def complete_drain_def complete_stage_def accept_completion_def
  by (intro ack_rules) simp_all

lemma hello_outcome:
  obtains (refusal) r where "command_hello h peer c = (r, peer, refused c)" "\<not> is_ok (cr_status r)"
  | (acceptance) n where "command_hello h peer c = hello_accept h n peer c"
  using hello_cases [of c h peer] by blast

lemma ack_hello:
  assumes "is_ok (cr_status (fst (command_hello h peer c)))"
    and "is_ok (fst (durable_encode (c_durable (snd (snd (command_hello h peer c))))))"
  shows "stored (snd (snd (command_hello h peer c)))"
proof (cases rule: hello_outcome [of h peer c])
  case (acceptance n)
  with assms have "is_ok (fst (save_state (greeted h n peer c)))"
    by (simp add: hello_accept_saves durable_frame)
  with acceptance show ?thesis by (simp add: hello_accept_saves save_state_stored)
qed (use assms in simp)

text \<open>The commands that only answer.\<close>

fun read_only :: "Command \<Rightarrow> bool" where
  "read_only (DoNegotiate gs) = True"
| "read_only (DoStateTransform i g) = True"
| "read_only _ = False"

fun greets :: "Command \<Rightarrow> bool" where
  "greets (DoHello h) = True"
| "greets _ = False"

lemma run_command_acknowledged: "\<not> read_only cmd \<Longrightarrow> \<not> greets cmd \<Longrightarrow> acknowledged (run_command peer cmd c)"
  using ack_publication ack_create_plan ack_plans ack_actions ack_completion by (cases cmd) simp_all


section \<open>The state file over time\<close>

definition disk :: "Coord \<Rightarrow> CoordinatorConfig \<times> World" where
  "disk c = (c_config c, c_world c)"

definition state_file :: "Coord \<Rightarrow> bytes option" where
  "state_file c = files (c_world c) (cf_state_path (c_config c))"

text \<open>What an operation does to the state file: nothing, or it holds the encoding of the new state.\<close>

definition file_follows :: "Coord \<Rightarrow> Coord \<Rightarrow> bool" where
  "file_follows c c' \<longleftrightarrow> c_config c' = c_config c \<and> (state_file c' = state_file c \<or> stored c')"

named_theorems disk_frame

lemma file_follows_same: "disk c' = disk c \<Longrightarrow> file_follows c c'"
  by (simp add: disk_def file_follows_def state_file_def)

lemma file_follows_save [disk_frame]:
  assumes "disk d = disk c"
  shows "file_follows c (snd (save_state d))"
proof (cases "is_ok (fst (save_state d))")
  case True
  then show ?thesis using save_state_stored [OF True] assms
    by (simp add: file_follows_def disk_def save_state_def persist_def Let_def split_def)
next
  case False
  then show ?thesis
    using write_cases [of "cf_state_path (c_config d)" "snd (durable_encode (c_durable d))" "c_world d"] assms
    by (auto simp: file_follows_def state_file_def disk_def save_state_def persist_def Let_def split_def split: if_splits)
qed

lemma file_follows_finish [disk_frame]: "disk d = disk c \<Longrightarrow> file_follows c (snd (finish r d))"
  using file_follows_save [of d c] by (simp add: finish_def Let_def split_def)

lemma file_follows_pair [disk_frame]: "disk d = disk c \<Longrightarrow> file_follows c (snd (r, d))"
  by (simp add: file_follows_same)

lemma disk_updates [disk_frame]:
  "disk (on_durable f c) = disk c" "disk (on_stats g c) = disk c" "disk (next_evidence c) = disk c"
  "disk (put_session se c) = disk c" "disk (refresh_worker_authority n c) = disk c"
  "disk (c\<lparr>c_live := l\<rparr>) = disk c" "disk (c\<lparr>c_pending := ps\<rparr>) = disk c" "disk (c\<lparr>c_durable := s\<rparr>) = disk c"
  "disk (c\<lparr>c_sessions := ses\<rparr>) = disk c" "disk (c\<lparr>c_worker_sessions := ws\<rparr>) = disk c"
  "disk (c\<lparr>c_action_counter := k\<rparr>) = disk c" "disk (c\<lparr>c_frame_counter := k\<rparr>) = disk c"
  "disk (c\<lparr>c_events := q\<rparr>) = disk c" "disk (c\<lparr>c_session_counter := k\<rparr>) = disk c"
  "disk (c\<lparr>c_snapshots := ss\<rparr>) = disk c" "disk (c\<lparr>c_fail_persistence := b\<rparr>) = disk c"
  "disk (c\<lparr>c_running := b\<rparr>) = disk c"
  by (simp_all add: disk_def on_durable_def on_stats_def next_evidence_def put_session_def refresh_worker_authority_def
      split_def Let_def)

lemma disk_components [disk_frame]:
  "disk (snd (on_components f c)) = disk c" "disk (snd (advance_lifecycle n g st c)) = disk c"
  by (simp_all add: on_components_def advance_lifecycle_def Let_def split_def disk_updates)

lemma disk_rejections [disk_frame]:
  "disk (snd (reject c e t)) = disk c" "disk (snd (complete_reject c e t)) = disk c"
  "disk (snd (hello_refuse c r)) = disk c" "disk (snd (hello_reject c e t ls)) = disk c"
  by (simp_all add: reject_def complete_reject_def hello_reject_def hello_refuse_def disk_updates)

lemma disk_send [disk_frame]: "disk (snd (send_to_worker w ty m f c)) = disk c"
  by (simp add: send_to_worker_def disk_updates split_def Let_def split: option.splits)

lemma disk_advance_all [disk_frame]: "disk (snd (advance_all n g sts c)) = disk c"
  by (induction sts arbitrary: c) (simp_all add: Let_def split_def disk_components)

lemma disk_walk [disk_frame]: "disk (snd (walk_candidate k n g w c)) = disk c"
proof (induction w arbitrary: c)
  case (Cons entry w)
  then show ?case by (cases entry) (auto simp: split_def Let_def disk_components split: option.splits)
qed simp

lemma disk_make_eligible [disk_frame]: "disk (foldl (make_eligible g) c ns) = disk c"
proof (induction ns arbitrary: c)
  case (Cons n ns)
  have "disk (make_eligible g c n) = disk c"
    by (simp add: make_eligible_def Let_def disk_components split: option.splits)
  with Cons.IH show ?case by simp
qed simp

lemma disk_drain [disk_frame]:
  "disk (snd (drain_current p st c)) = disk c" "disk (snd (drain_for_stage t p st c)) = disk c"
  "disk (snd (demote_candidate p c)) = disk c" "disk (snd (resume_target p c)) = disk c"
  "disk (snd (pend_retirement n g ls c)) = disk c"
  by (simp_all add: drain_current_def drain_for_stage_def demote_candidate_def resume_target_def pend_retirement_def
      Let_def split_def disk_components disk_advance_all del: advance_all.simps split: option.splits RolloutStage.splits)

lemma disk_dispatch [disk_frame]:
  "disk (snd (dispatch_drain n g c)) = disk c" "disk (snd (dispatch_migration p w b c)) = disk c"
  "disk (snd (dispatch_rollback_state p w b c)) = disk c"
proof -
  have "disk (foldl (\<lambda>c (i, w). snd (send_to_worker i MessageType.RequestDrain (drain_payload (c_durable c) n g)
      (drain_frame (c_durable c) n g w) c)) c ws) = disk c" for ws
    by (induction ws arbitrary: c) (auto simp: disk_send split_def)
  then show "disk (snd (dispatch_drain n g c)) = disk c" by (simp add: dispatch_drain_def Let_def)
  show "disk (snd (dispatch_migration p w b c)) = disk c"
    by (simp add: dispatch_migration_def Let_def split_def disk_updates disk_send)
qed (simp add: dispatch_rollback_state_def disk_send)

lemma file_follows_refused [disk_frame]:
  "file_follows c (snd (reject c e t))" "file_follows c (snd (complete_reject c e t))"
  by (simp_all add: file_follows_same disk_rejections)

lemmas file_rules = Let_def split_def file_follows_same disk_frame

lemma file_publication:
  "file_follows c (snd (command_register_component peer v c))"
  "file_follows c (snd (command_publish_capability peer n g k fs c))"
  "file_follows c (snd (command_publish_compatibility peer e c))"
  "file_follows c (snd (command_publish_schema peer sd c))" "file_follows c (snd (command_publish_protocol peer pd c))"
  unfolding command_register_component_def command_publish_capability_def command_publish_compatibility_def
    command_publish_schema_def command_publish_protocol_def
  by (simp_all add: file_rules split: option.split)

lemma file_plans:
  "file_follows c (snd (command_create_plan peer spec c))" "file_follows c (snd (command_advance_stage peer i target g c))"
  "file_follows c (snd (command_rebind_plan peer i g c))" "file_follows c (snd (command_enable_feature peer f i c))"
  "file_follows c (snd (command_supersede_plan peer i c))"
  unfolding command_create_plan_def create_checked_plan_def command_advance_stage_def apply_stage_def
    command_rebind_plan_def command_enable_feature_def apply_feature_def command_supersede_plan_def
  by (simp_all add: file_rules split: option.split)

lemma file_actions:
  "file_follows c (snd (command_request_drain peer n g c))" "file_follows c (snd (command_request_migration peer i c))"
  "file_follows c (snd (command_request_rollback peer i c))" "file_follows c (snd (command_request_retirement peer n g c))"
  "file_follows c (snd (command_request_lifecycle peer n g st c))" "file_follows c (snd (command_fence peer w b reason c))"
  unfolding command_request_drain_def command_request_migration_def command_request_rollback_def refuse_rollback_def
    commit_rollback_def command_request_retirement_def commit_retirement_def command_request_lifecycle_def command_fence_def
  by (simp_all add: file_rules del: advance_all.simps split: option.split)

lemma file_accept [disk_frame]: "disk d = disk c \<Longrightarrow> file_follows c (snd (accept_completion i p a m dg d))"
  unfolding accept_completion_def by (simp add: file_rules)

lemma file_complete_drain [disk_frame]: "file_follows c (snd (complete_drain peer i g c))"
proof -
  have "disk (case r of Some r \<Rightarrow> on_durable (f r) d | None \<Rightarrow> d) = disk d" for r :: "'a option" and f d
    by (simp add: disk_updates split: option.split)
  then show ?thesis unfolding complete_drain_def by (simp add: file_rules split: option.split)
qed

lemma file_completion: "file_follows c (snd (command_publish_completion peer i sid g m dg drain c))"
  unfolding command_publish_completion_def complete_stage_def
  by (simp add: file_rules file_accept file_complete_drain split: option.split)

lemma file_hello: "file_follows c (snd (snd (command_hello h peer c)))"
proof (cases rule: hello_outcome [of h peer c])
  case (acceptance n)
  have "disk (greeted h n peer c) = disk c" by (simp add: greeted_def disk_updates)
  with acceptance show ?thesis by (simp add: hello_accept_saves file_follows_save)
qed (simp add: file_follows_same refused_def disk_updates)

lemma run_command_file: "file_follows c (snd (run_command peer cmd c))"
  using file_publication file_plans file_actions file_completion file_hello
  by (cases cmd) (simp_all add: split_def Let_def file_follows_same)

lemma disk_report [disk_frame]: "disk (snd (report_actions peer m as c)) = disk c"
proof (induction as arbitrary: c)
  case (Cons a as)
  have "disk (snd (report_action peer m a c)) = disk c"
    by (simp add: report_action_def Let_def disk_updates split: option.split)
  with Cons.IH show ?case by (simp add: Let_def split_def)
qed simp

lemma disk_net [disk_frame]:
  "disk (queue_frame i f c) = disk c" "disk (respond i f ty r x c) = disk c"
  "disk (rejected_frames c) = disk c" "disk (count_event r c) = disk c"
  "disk (admit_frame i se f c) = disk c" "disk (snd (reject_frame c e t)) = disk c"
  "disk (snd (handle_heartbeat peer m c)) = disk c" "disk (on_session i g c) = disk c"
  "disk (foldl drop_worker c ses) = disk c"
proof -
  show "disk (foldl drop_worker c ses) = disk c"
    by (induction ses arbitrary: c) (simp_all add: drop_worker_def Let_def disk_updates)
qed (simp_all add: queue_frame_def respond_def rejected_frames_def count_event_def admit_frame_def reject_frame_def
      handle_heartbeat_def on_session_def disk_updates disk_rejections Let_def split: option.splits)

lemma file_frame_command: "file_follows c (snd (fst (frame_command peer ty m c)))"
proof -
  have "file_follows c (snd (handle_report peer m c))"
    by (simp add: handle_report_def file_rules disk_report)
  then show ?thesis
    using file_publication file_plans file_actions file_completion
    by (cases ty) (auto simp: frame_command_def file_rules disk_net split: option.splits sum.splits)
qed

lemma file_follows_step: "file_follows c d \<Longrightarrow> disk e = disk d \<Longrightarrow> c_durable e = c_durable d \<Longrightarrow> file_follows c e"
  by (auto simp: file_follows_def disk_def state_file_def stored_def)

lemma file_follows_from: "file_follows c d \<Longrightarrow> disk c = disk c' \<Longrightarrow> file_follows c' d"
  by (auto simp: file_follows_def disk_def state_file_def stored_def)

lemma file_frame: "file_follows c (handle_frame i f c)"
proof -
  have hello: "file_follows c (handle_hello i se f c)" for se
  proof -
    let ?peer = "peer_unset\<lparr>pi_session := se_id se, pi_is_operator := se_loopback se \<and> wh_flags (fr_header f) AND kFrameFlagOperator \<noteq> 0,
        pi_authenticated := se_loopback se \<and> wh_flags (fr_header f) AND kFrameFlagOperator \<noteq> 0\<rparr>"
    show ?thesis
      using file_hello [of c "frame_handshake (snd (wm_decode (fr_payload f)))" ?peer]
      by (auto simp: handle_hello_def file_rules disk_net durable_frame intro: file_follows_step split: option.splits)
  qed
  have "file_follows c (respond i f t r x (count_event r (snd (fst (frame_command p ty m (admit_frame i se f c))))))" for p ty m se t r x
    using file_follows_from [OF file_frame_command] by (rule file_follows_step) (simp_all add: disk_net durable_frame)
  with hello show ?thesis
    by (auto simp: handle_frame_def Let_def split_def disk_net file_follows_same split: option.splits sum.splits)
qed

lemma thread_step_file: "thread_step c c' \<Longrightarrow> file_follows c c'"
proof (induction rule: thread_step.induct)
  case (event_step c c')
  then obtain i f q where c': "c' = on_stats (\<lambda>st. st\<lparr>st_events_processed := st_events_processed st + 1\<rparr>)
      (handle_frame i f (c\<lparr>c_events := q\<rparr>))"
    by (rule handled_event)
  have "file_follows c (handle_frame i f (c\<lparr>c_events := q\<rparr>))"
    by (rule file_follows_from [OF file_frame]) (simp add: disk_updates)
  then show ?case unfolding c' by (rule file_follows_step) (simp_all add: disk_updates durable_frame)
next
  case (reap_step c)
  show ?case by (simp add: reap_sessions_def file_follows_same disk_frame)
qed (auto intro!: file_follows_same simp: disk_frame accept_connection_def receive_frame_def reader_ends_def
    writer_ends_def take_snapshot_def coordinator_stop_def shutdown_sessions_def Let_def split_def)

lemma fabric_step_file: "fabric_step c c' \<Longrightarrow> file_follows c c'"
  by (induction rule: fabric_step.induct) (simp_all add: run_command_file thread_step_file)

text \<open>The state file holds a state at least as far as \<open>s\<close> and at most as far as the present one.\<close>

definition filed :: "DurableState \<Rightarrow> Coord \<Rightarrow> DurableState \<Rightarrow> bool" where
  "filed s c d \<longleftrightarrow> durable_le s d \<and> durable_le d (c_durable c) \<and> durable_typed d \<and> is_ok (fst (durable_encode d))
     \<and> length (snd (durable_encode d)) \<le> kStateFileBytes \<and> state_file c = Some (snd (durable_encode d))"


section \<open>Restart\<close>

lemma load_stored:
  assumes "durable_ok d" "is_ok (fst (durable_encode d))" "files w path = Some (snd (durable_encode d))" "quiet w"
    "length (snd (durable_encode d)) \<le> kStateFileBytes"
  shows "store_load path out w = (status_ok, durable_settle d, w)"
proof -
  have "durable_encode d = (status_ok, snd (durable_encode d))"
    using assms(2) by (auto simp: durable_encode_def Let_def split: if_splits)
  then have "durable_decode (snd (durable_encode d)) = Inr (durable_settle d)"
    by (rule decode_encoded_durable [OF assms(1) _ assms(5)])
  then show ?thesis using assms(3,4,5) by (simp add: store_load_def)
qed

lemma restart_loads:
  assumes "durable_ok d" "is_ok (fst (durable_encode d))" "files w (cf_state_path config) = Some (snd (durable_encode d))"
    "quiet w" "length (snd (durable_encode d)) \<le> kStateFileBytes" "cf_state_path config \<noteq> []"
  shows "is_ok (fst (load_durable (coordinator_new config w)))"
    "c_durable (snd (load_durable (coordinator_new config w))) = recover_state (durable_settle d)"
    "c_live (snd (load_durable (coordinator_new config w))) = om_empty"
  using assms load_stored [OF assms(1-5)]
  by (simp_all add: load_durable_def coordinator_new_def Let_def split_def file_exists_def on_durable_def on_stats_def)

lemma recovered_fields:
  "ds_coordinator_epoch (recover_state (durable_settle d)) = gen_bump (ds_coordinator_epoch d)"
  "is_retired (recover_state (durable_settle d)) n g = is_retired d n g"
  "is_boot_fenced (recover_state (durable_settle d)) i b = is_boot_fenced d i b"
  "plan_locked (recover_state (durable_settle d)) k = plan_locked d k"
  "ds_migrations (recover_state (durable_settle d)) = ds_migrations d"
  by (simp_all add: recover_state_def durable_settle_def is_retired_def is_boot_fenced_def plan_locked_def)

lemma durable_le_parts:
  assumes "durable_le s t"
  shows "\<forall>p. plan_locked s k = Some p \<longrightarrow> (\<exists>q. plan_locked t k = Some q \<and> plan_follows p q)"
    "\<exists>ms. ds_migrations t = ds_migrations s @ ms"
    "gen_bump (ds_coordinator_epoch t) = gen_bump (ds_coordinator_epoch s)"
  using assms by (auto simp: durable_le_def table_follows_def appended_def plan_locked_def)

end
