(* ===== verification/Ref_Overlap.thy ===== *)
theory Ref_Overlap
  imports Ref_Durability
begin

text \<open>
  Commands that overlap.  A command encodes the durable state while it holds the state lock, releases the lock
  and only then writes the image; no lock covers the write.  Here a command is therefore two steps: its lock
  region, which leaves an image in flight, and the write of that image, before which any other lock regions and
  writes may fall.  The calls of \<open>write_file_atomic\<close> themselves follow one another.
\<close>

section \<open>Lock regions and images in flight\<close>

type_synonym Flight = "(DurableState \<times> bytes) list"

text \<open>The lock region of an operation: it runs against an empty private store, which catches the image that
  the operation writes at its end, and the real store is left as it is.  An image in flight is kept with the state it encodes.\<close>

definition private_world :: World where
  "private_world = \<lparr>files = \<lambda>_. None, script = [], alive = True\<rparr>"

definition with_disk :: "Coord \<Rightarrow> Coord \<Rightarrow> Coord" where
  "with_disk c d = d\<lparr>c_world := c_world c, c_fail_persistence := c_fail_persistence c,
     c_persistence_writes := c_persistence_writes c\<rparr>"

definition locked :: "(Coord \<Rightarrow> 'r \<times> Coord) \<Rightarrow> Coord \<Rightarrow> 'r \<times> Coord \<times> Flight" where
  "locked f c =
     (let (r, d) = f (c\<lparr>c_world := private_world, c_fail_persistence := False\<rparr>)
      in (r, with_disk c d, if cf_state_path (c_config d) = [] then []
            else case state_file d of None \<Rightarrow> [] | Some encoded \<Rightarrow> [(c_durable d, encoded)]))"

text \<open>The steps of the running coordinator at that granularity: the lock region of a command called in process; the
  lock region of the command a frame asks for, which comes after the frame was admitted in a lock region of its own; what threads do
  to sessions, queues, live workers and statistics; a thread step without input or output; and the write of any image in flight.\<close>

inductive overlap_step :: "Coord \<times> Flight \<Rightarrow> Coord \<times> Flight \<Rightarrow> bool" where
  overlap_command: "command_typed cmd \<Longrightarrow> locked (run_command peer cmd) c = (r, d, images) \<Longrightarrow>
     overlap_step (c, flight) (d, flight @ images)"
| overlap_frame: "locked (\<lambda>c. fst (frame_command peer ty m c)) c = (r, d, images) \<Longrightarrow>
     overlap_step (c, flight) (d, flight @ images)"
| overlap_bookkeeping: "c_durable d = c_durable c \<Longrightarrow> disk d = disk c \<Longrightarrow> coord_typed d \<Longrightarrow> overlap_step (c, flight) (d, flight)"
| overlap_thread: "thread_step c d \<Longrightarrow> disk d = disk c \<Longrightarrow> overlap_step (c, flight) (d, flight)"
| overlap_write: "overlap_step (c, older @ (s, encoded) # newer) (snd (persist encoded c), older @ newer)"

text \<open>An image in flight encodes a typed state.\<close>

definition sound_image :: "DurableState \<times> bytes \<Rightarrow> bool" where
  "sound_image x \<longleftrightarrow> durable_typed (fst x) \<and> is_ok (fst (durable_encode (fst x))) \<and> snd x = snd (durable_encode (fst x))
     \<and> length (snd x) \<le> kStateFileBytes"

lemma with_disk_frame [simp]:
  "c_durable (with_disk c d) = c_durable d" "c_config (with_disk c d) = c_config d" "c_world (with_disk c d) = c_world c"
  "coord_typed (with_disk c d) = coord_typed d" "c_fail_persistence (with_disk c d) = c_fail_persistence c"
  "c_live (with_disk c d) = c_live d" "c_sessions (with_disk c d) = c_sessions d"
  by (simp_all add: with_disk_def coord_typed_def)

text \<open>What a lock region does, for an operation that only moves the durable state forward and whose file
  follows it: the disk is untouched, and at most one image of the new state is in flight.\<close>

lemma locked_effect:
  assumes "locked f c = (r, d, images)" and "coord_typed c"
    and "\<And>c. durable_le (c_durable c) (c_durable (snd (f c)))" and "\<And>c. file_follows c (snd (f c))"
    and "\<And>c. coord_typed c \<Longrightarrow> coord_typed (snd (f c))"
  shows "disk d = disk c" "coord_typed d" "durable_le (c_durable c) (c_durable d)"
    "\<forall>x\<in>set images. sound_image x \<and> fst x = c_durable d"
proof -
  define p where "p = c\<lparr>c_world := private_world, c_fail_persistence := False\<rparr>"
  define e where "e = snd (f p)"
  have p: "c_durable p = c_durable c" "c_config p = c_config c" "coord_typed p = coord_typed c" "state_file p = None"
    by (simp_all add: p_def coord_typed_def state_file_def private_world_def)
  have "(r, d, images) = (fst (f p), with_disk c e, if cf_state_path (c_config e) = [] then []
      else case state_file e of None \<Rightarrow> [] | Some encoded \<Rightarrow> [(c_durable e, encoded)])"
    unfolding assms(1) [symmetric] locked_def Let_def split_def p_def [symmetric] e_def [symmetric] by simp
  then have d: "d = with_disk c e" and images: "images = (if cf_state_path (c_config e) = [] then []
      else case state_file e of None \<Rightarrow> [] | Some encoded \<Rightarrow> [(c_durable e, encoded)])"
    by simp_all
  have follows: "file_follows p e" unfolding e_def by (rule assms(4))
  then show "disk d = disk c" by (simp add: d disk_def file_follows_def p)
  show typed: "coord_typed d" using assms(2,5) p by (simp add: d e_def)
  show "durable_le (c_durable c) (c_durable d)" using assms(3) [of p] by (simp add: d e_def p)
  have caught: "sound_image (c_durable e, bs)" if "state_file e = Some bs" "cf_state_path (c_config e) \<noteq> []" for bs
  proof -
    from that(1) follows p have "stored e" by (auto simp: file_follows_def)
    with that typed show ?thesis by (auto simp: d sound_image_def stored_def state_file_def coord_durable)
  qed
  show "\<forall>x\<in>set images. sound_image x \<and> fst x = c_durable d"
  proof (cases "state_file e")
    case (Some bs)
    then show ?thesis using caught by (simp add: images d)
  qed (simp add: images)
qed

text \<open>One step: the state moves forward, images stay or are of the new state, and the file stays or takes an image
  that was in flight.\<close>

lemma overlap_step_effect:
  assumes "overlap_step (c, flight) (d, flight')" and "coord_typed c"
  shows "coord_typed d \<and> durable_le (c_durable c) (c_durable d) \<and> c_config d = c_config c
    \<and> (\<forall>x\<in>set flight'. x \<in> set flight \<or> sound_image x \<and> fst x = c_durable d)
    \<and> (cf_state_path (c_config c) \<noteq> [] \<longrightarrow> state_file d = state_file c \<or> (\<exists>x\<in>set flight. state_file d = Some (snd x)))"
  using assms(1)
proof (cases rule: overlap_step.cases)
  case (overlap_command cmd peer r images)
  note effect = locked_effect [OF overlap_command(3) assms(2) run_command_moves run_command_file
      run_command_typed [OF _ overlap_command(2)]]
  from effect(1) have "c_config d = c_config c" "state_file d = state_file c" by (simp_all add: disk_def state_file_def)
  with effect(2-4) overlap_command(1) show ?thesis by auto
next
  case (overlap_frame peer ty m r images)
  note effect = locked_effect [OF overlap_frame(2) assms(2) frame_command_moves file_frame_command frame_command_typed]
  from effect(1) have "c_config d = c_config c" "state_file d = state_file c" by (simp_all add: disk_def state_file_def)
  with effect(2-4) overlap_frame(1) show ?thesis by auto
next
  case overlap_bookkeeping
  then show ?thesis by (auto simp: disk_def state_file_def durable_le_refl)
next
  case overlap_thread
  then show ?thesis using thread_step_moves [of c d] thread_step_typed [of c d] assms(2) by (auto simp: disk_def state_file_def)
next
  case (overlap_write older s encoded newer)
  have d: "d = snd (persist encoded c)" by (rule overlap_write(2))
  have "c_durable d = c_durable c" "c_config d = c_config c" "coord_typed d"
    using assms(2) by (simp_all add: d persist_def split_def Let_def coord_typed_def)
  moreover have "state_file d = state_file c \<or> state_file d = Some encoded"
    using write_cases [of "cf_state_path (c_config c)" encoded "c_world c"]
    by (auto simp: d persist_def split_def Let_def state_file_def)
  ultimately show ?thesis using overlap_write(1,3) by (auto simp: durable_le_refl)
qed

definition afloat :: "Coord \<times> Flight \<Rightarrow> bool" where
  "afloat st \<longleftrightarrow> coord_typed (fst st) \<and> (\<forall>x\<in>set (snd st). sound_image x \<and> durable_le (fst x) (c_durable (fst st)))"

lemma afloat_step:
  assumes "overlap_step st st'" and "afloat st"
  shows "afloat st'" "durable_le (c_durable (fst st)) (c_durable (fst st'))" "c_config (fst st') = c_config (fst st)"
proof -
  obtain c flight d flight' where st: "st = (c, flight)" "st' = (d, flight')" by fastforce
  note effect = overlap_step_effect [OF assms(1) [unfolded st]]
  have typed: "coord_typed c" using assms(2) by (simp add: st afloat_def)
  have "sound_image x \<and> durable_le (fst x) (c_durable d)" if "x \<in> set flight'" for x
    using effect [OF typed] assms(2) that durable_le_trans by (fastforce simp: st afloat_def)
  then show "afloat st'" using effect [OF typed] by (simp add: st afloat_def)
  show "durable_le (c_durable (fst st)) (c_durable (fst st'))" "c_config (fst st') = c_config (fst st)"
    using effect assms(2) by (auto simp: st afloat_def)
qed

lemma afloat_run:
  assumes "overlap_step\<^sup>*\<^sup>* st st'" and "afloat st"
  shows "afloat st' \<and> durable_le (c_durable (fst st)) (c_durable (fst st')) \<and> c_config (fst st') = c_config (fst st)"
  using assms
proof (induction rule: rtranclp_induct)
  case base
  then show ?case by (simp add: durable_le_refl)
next
  case (step x y)
  then show ?case using afloat_step [OF step.hyps(2)] durable_le_trans by auto
qed

text \<open>Once the file holds a state past \<open>s\<close> and no image of an earlier state is in flight, this stays so.\<close>

definition settled :: "DurableState \<Rightarrow> Coord \<times> Flight \<Rightarrow> bool" where
  "settled s st \<longleftrightarrow> afloat st \<and> (\<forall>x\<in>set (snd st). durable_le s (fst x)) \<and> (\<exists>d. filed s (fst st) d)"

lemma settled_step:
  assumes "overlap_step st st'" and "settled s st" and "cf_state_path (c_config (fst st)) \<noteq> []"
  shows "settled s st'"
proof -
  obtain c flight d flight' where st: "st = (c, flight)" "st' = (d, flight')" by fastforce
  from assms(2) obtain e where afloat: "afloat st" and images: "\<forall>x\<in>set flight. sound_image x \<and> durable_le s (fst x) \<and> durable_le (fst x) (c_durable c)"
    and e: "filed s c e" by (auto simp: st settled_def afloat_def)
  have typed: "coord_typed c" using afloat by (simp add: st afloat_def)
  note effect = overlap_step_effect [OF assms(1) [unfolded st] typed]
  have le: "durable_le (c_durable c) (c_durable d)" using effect by blast
  have "durable_le s (c_durable c)" using e by (auto simp: filed_def intro: durable_le_trans)
  then have "durable_le s (c_durable d)" using le by (rule durable_le_trans)
  then have "\<forall>x\<in>set flight'. durable_le s (fst x)" using effect images by auto
  moreover have "\<exists>e. filed s d e"
  proof (cases "state_file d = state_file c")
    case True
    then show ?thesis using e le durable_le_trans by (auto simp: filed_def)
  next
    case False
    then obtain x where "x \<in> set flight" "state_file d = Some (snd x)" using effect assms(3) by (auto simp: st)
    then show ?thesis using images le durable_le_trans by (auto simp: filed_def sound_image_def intro!: exI [where x = "fst x"])
  qed
  ultimately show ?thesis using afloat_step(1) [OF assms(1) afloat] by (simp add: st settled_def)
qed

lemma settled_run:
  assumes "overlap_step\<^sup>*\<^sup>* st st'" and "settled s st" and "cf_state_path (c_config (fst st)) \<noteq> []"
  shows "settled s st'"
  using assms
proof (induction rule: rtranclp_induct)
  case (step x y)
  then have "settled s x" by blast
  moreover have "c_config (fst x) = c_config (fst st)"
    using afloat_run [OF step.hyps(1)] step.prems by (simp add: settled_def)
  ultimately show ?case using settled_step [OF step.hyps(2)] step.prems by simp
qed


section \<open>What an acknowledgement is worth\<close>

text \<open>The lock region of a command that answers with success leaves the image of its state in flight.\<close>

lemma acknowledged_image:
  assumes "locked (run_command peer cmd) c = (r, d, images)" and "is_ok (cr_status r)" and "\<not> read_only cmd"
    and "greets cmd \<longrightarrow> is_ok (fst (durable_encode (c_durable d)))" and "cf_state_path (c_config c) \<noteq> []"
  shows "images = [(c_durable d, snd (durable_encode (c_durable d)))]"
proof -
  define p where "p = c\<lparr>c_world := private_world, c_fail_persistence := False\<rparr>"
  define e where "e = snd (run_command peer cmd p)"
  have "(r, d, images) = (fst (run_command peer cmd p), with_disk c e, if cf_state_path (c_config e) = [] then []
      else case state_file e of None \<Rightarrow> [] | Some encoded \<Rightarrow> [(c_durable e, encoded)])"
    unfolding assms(1) [symmetric] locked_def Let_def split_def p_def [symmetric] e_def [symmetric] by simp
  then have r: "r = fst (run_command peer cmd p)" and d: "d = with_disk c e"
    and images: "images = (if cf_state_path (c_config e) = [] then []
      else case state_file e of None \<Rightarrow> [] | Some encoded \<Rightarrow> [(c_durable e, encoded)])"
    by simp_all
  have "c_config e = c_config c" using run_command_file [of p peer cmd] by (simp add: e_def file_follows_def p_def)
  moreover have "stored e"
  proof (cases "greets cmd")
    case True
    then obtain h where cmd: "cmd = DoHello h" by (cases cmd) simp_all
    with True assms(2,4) show ?thesis
      using ack_hello [of h peer p] by (simp add: e_def r d cmd Let_def split_def)
  next
    case False
    with assms(2,3) show ?thesis
      using run_command_acknowledged [of cmd peer p] by (simp add: acknowledged_def e_def r)
  qed
  ultimately show ?thesis using assms(5) by (simp add: images d stored_def state_file_def)
qed

lemma written_settles:
  assumes "afloat (c, older @ (s, encoded) # newer)" and "\<forall>x\<in>set (older @ newer). durable_le s (fst x)"
    and "is_ok (fst (persist encoded c))" and "cf_state_path (c_config c) \<noteq> []"
  shows "settled s (snd (persist encoded c), older @ newer)"
proof -
  have step: "overlap_step (c, older @ (s, encoded) # newer) (snd (persist encoded c), older @ newer)" by (rule overlap_write)
  have le: "durable_le s (c_durable c)" and sound_image: "sound_image (s, encoded)" using assms(1) by (simp_all add: afloat_def)
  have "state_file (snd (persist encoded c)) = Some encoded"
    using assms(3,4) write_cases [of "cf_state_path (c_config c)" encoded "c_world c"]
    by (auto simp: persist_def state_file_def split_def Let_def split: if_splits)
  moreover have "c_durable (snd (persist encoded c)) = c_durable c" by (simp add: persist_def split_def Let_def)
  ultimately have "filed s (snd (persist encoded c)) s" using le sound_image by (auto simp: filed_def sound_image_def)
  then show ?thesis using afloat_step(1) [OF step assms(1)] assms(2) by (auto simp: settled_def)
qed

lemma crash_recovers:
  assumes "filed s c d" and "c_config c = config" and "cf_state_path config \<noteq> []" and "quiet w"
    and "files w (cf_state_path config) = files (c_world c) (cf_state_path config)"
  defines "r \<equiv> load_durable (coordinator_new config w)"
  shows "is_ok (fst r) \<and> c_live (snd r) = om_empty \<and> c_durable (snd r) = recover_state (durable_settle d)"
proof -
  have "is_ok (durable_validate d)" using assms(1) by (auto simp: filed_def durable_encode_def Let_def split: if_splits)
  then have ok: "durable_ok d" using assms(1) by (intro durable_typed_ok) (simp_all add: filed_def)
  have "files w (cf_state_path config) = Some (snd (durable_encode d))"
    using assms(1,2,5) by (simp add: filed_def state_file_def)
  note loads = restart_loads [OF ok _ this assms(4) _ assms(3)]
  show ?thesis using loads assms(1) by (simp add: filed_def r_def)
qed

text \<open>
  C1: What was acknowledged survives a crash, commands overlapping.  The coordinator runs from a start with any
  lock regions of commands and frames, thread steps and writes interleaved.  The lock region of a command
  that changes the state ends with success (a handshake counts when its state can be encoded); other steps
  follow; its image is written, successfully, when no image of an earlier state is left in flight, so the
  command answers with success; any further steps follow, and the process dies at any point, also in the middle of
  a write or after writes that failed.  A coordinator started from the file system that is left has a
  durable state that lies between the acknowledged one and the last one in the order in which nothing is
  forgotten: retirements and fenced boots still hold, every plan is there, with its generations and
  with a crossed rollback barrier still crossed, recorded migrations are kept, the
  coordinator's epoch is a new one, and no worker counts as live.
\<close>

theorem acknowledged_survives_crash:
  assumes "coord_typed start" and "overlap_step\<^sup>*\<^sup>* (start, []) (c0, flight)"
    and "command_typed cmd" and "\<not> read_only cmd" and "locked (run_command peer cmd) c0 = (r, c, images)"
    and "is_ok (cr_status r)" and "greets cmd \<longrightarrow> is_ok (fst (durable_encode (c_durable c)))"
  defines "encoded \<equiv> snd (durable_encode (c_durable c))" and "config \<equiv> c_config start"
  assumes "overlap_step\<^sup>*\<^sup>* (c, flight @ images) (c1, older @ (c_durable c, encoded) # newer)"
    and "\<forall>x\<in>set (older @ newer). durable_le (c_durable c) (fst x)" and "is_ok (fst (persist encoded c1))"
    and "overlap_step\<^sup>*\<^sup>* (snd (persist encoded c1), older @ newer) (c', flight')"
    and "cf_state_path config \<noteq> []" and "quiet w"
    and "files w (cf_state_path config) = files (c_world c') (cf_state_path config)"
  defines "restarted \<equiv> load_durable (coordinator_new config w)"
  shows "images = [(c_durable c, encoded)] \<and> is_ok (fst restarted) \<and> c_live (snd restarted) = om_empty
    \<and> (\<exists>d. durable_le (c_durable c) d \<and> durable_le d (c_durable c')
         \<and> c_durable (snd restarted) = recover_state (durable_settle d))
    \<and> (is_retired (c_durable c) n g \<longrightarrow> is_retired (c_durable (snd restarted)) n g)
    \<and> (is_boot_fenced (c_durable c) i b \<longrightarrow> is_boot_fenced (c_durable (snd restarted)) i b)
    \<and> (\<forall>p. plan_locked (c_durable c) k = Some p
         \<longrightarrow> (\<exists>q. plan_locked (c_durable (snd restarted)) k = Some q \<and> plan_follows p q))
    \<and> (\<exists>ms. ds_migrations (c_durable (snd restarted)) = ds_migrations (c_durable c) @ ms)
    \<and> ds_coordinator_epoch (c_durable (snd restarted)) = gen_bump (ds_coordinator_epoch (c_durable c))"
proof -
  have "afloat (start, [])" using assms(1) by (simp add: afloat_def)
  then have c0: "afloat (c0, flight)" "c_config c0 = config" using afloat_run [OF assms(2)] by (simp_all add: config_def)
  have region: "overlap_step (c0, flight) (c, flight @ images)" using assms(3,5) by (rule overlap_command)
  have c: "afloat (c, flight @ images)" "c_config c = config" using afloat_step [OF region c0(1)] c0(2) by simp_all
  then have c1: "afloat (c1, older @ (c_durable c, encoded) # newer)" "c_config c1 = config"
    using afloat_run [OF assms(10)] by simp_all
  have "settled (c_durable c) (snd (persist encoded c1), older @ newer)"
    using written_settles [OF c1(1) assms(11,12)] c1(2) assms(14) by simp
  moreover have config1: "c_config (snd (persist encoded c1)) = config" using c1(2) by (simp add: persist_def split_def Let_def)
  ultimately have end': "settled (c_durable c) (c', flight')" using settled_run [OF assms(13)] assms(14) by simp
  have "c_config c' = config"
    using afloat_run [OF assms(13)] config1 \<open>settled (c_durable c) (snd (persist encoded c1), older @ newer)\<close>
    by (simp add: settled_def)
  moreover obtain d where d: "filed (c_durable c) c' d" using end' by (auto simp: settled_def)
  ultimately have r: "is_ok (fst restarted)" "c_live (snd restarted) = om_empty"
    "c_durable (snd restarted) = recover_state (durable_settle d)"
    using crash_recovers [OF d _ assms(14,15,16)] by (simp_all add: restarted_def)
  have le: "durable_le (c_durable c) d" "durable_le d (c_durable c')" using d by (simp_all add: filed_def)
  have "\<exists>d. durable_le (c_durable c) d \<and> durable_le d (c_durable c') \<and> c_durable (snd restarted) = recover_state (durable_settle d)"
    using r(3) le by blast
  moreover have "images = [(c_durable c, encoded)]"
    unfolding encoded_def using acknowledged_image [OF assms(5,6,4,7)] c0(2) assms(14) by simp
  ultimately show ?thesis
    using r(1,2) durable_le_retired [OF le(1), of n g] durable_le_fenced [OF le(1), of i b] durable_le_parts(1) [OF le(1), of k]
      durable_le_parts(2,3) [OF le(1)]
    unfolding r(3) recovered_fields by blast
qed

lemma locked_store:
  "locked f c = (r, d, images) \<Longrightarrow> c_world d = c_world c \<and> c_fail_persistence d = c_fail_persistence c"
  by (auto simp: locked_def Let_def split_def)

lemma persist_quiet:
  assumes "quiet (c_world c)" "\<not> c_fail_persistence c" "cf_state_path (c_config c) \<noteq> []" "length bs \<le> kStateFileBytes"
  shows "is_ok (fst (persist bs c))" "quiet (c_world (snd (persist bs c)))" "state_file (snd (persist bs c)) = Some bs"
    "c_config (snd (persist bs c)) = c_config c" "c_fail_persistence (snd (persist bs c)) = c_fail_persistence c"
    "c_durable (snd (persist bs c)) = c_durable c"
  using assms write_quiet [OF assms(1,4), of "cf_state_path (c_config c)"]
  by (simp_all add: persist_def Let_def split_def state_file_def quiet_def)

text \<open>
  C3: The order of the writes matters, and nothing enforces it.  When the lock regions of two commands follow
  one another and the image of the second is written before the image of the first, both writes succeed and both
  commands answer with success, but the file holds the first state: a coordinator that restarts from it has
  exactly the state before the second command.
\<close>

theorem overlapping_write_loses:
  assumes "coord_typed c0" and "command_typed cmd1" and "command_typed cmd2"
    and "locked (run_command peer1 cmd1) c0 = (r1, c1, [(s1, image1)])"
    and "locked (run_command peer2 cmd2) c1 = (r2, c2, [(s2, image2)])"
    and "quiet (c_world c0)" and "\<not> c_fail_persistence c0" and "cf_state_path (c_config c0) \<noteq> []"
  defines "c3 \<equiv> snd (persist image2 c2)"
  defines "c4 \<equiv> snd (persist image1 c3)"
  shows "overlap_step\<^sup>*\<^sup>* (c0, []) (c4, []) \<and> is_ok (fst (persist image2 c2)) \<and> is_ok (fst (persist image1 c3))
    \<and> c_durable c4 = s2
    \<and> c_durable (snd (load_durable (coordinator_new (c_config c0) (c_world c4)))) = recover_state (durable_settle s1)"
proof -
  note config = \<open>cf_state_path (c_config c0) \<noteq> []\<close>
  have start: "afloat (c0, [])" using assms(1) by (simp add: afloat_def)
  have first: "overlap_step (c0, []) (c1, [(s1, image1)])" using overlap_command [OF assms(2,4), of "[]"] by simp
  have second: "overlap_step (c1, [(s1, image1)]) (c2, [(s1, image1), (s2, image2)])"
    using overlap_command [OF assms(3,5), of "[(s1, image1)]"] by simp
  note c1 = afloat_step [OF first start] locked_store [OF assms(4)]
  note c2 = afloat_step [OF second c1(1)] locked_store [OF assms(5)]
  have carried: "sound_image (s1, image1)" "sound_image (s2, image2)" using c2(1) by (simp_all add: afloat_def)
  have s2: "s2 = c_durable c2"
    using locked_effect(4) [OF assms(5) _ run_command_moves run_command_file run_command_typed [OF _ assms(3)]] c1(1)
    by (simp add: afloat_def)
  have "length image2 \<le> kStateFileBytes" "length image1 \<le> kStateFileBytes" using carried by (auto simp: sound_image_def)
  note w2 = persist_quiet [OF _ _ _ this(1), of c2, folded c3_def] and w1 = persist_quiet [OF _ _ _ this(2), of c3, folded c4_def]
  have quiet2: "quiet (c_world c2)" "\<not> c_fail_persistence c2" "c_config c2 = c_config c0"
    using assms(6,7) c1(3,4) c2(3,4) by simp_all
  then have p2: "is_ok (fst (persist image2 c2))" "quiet (c_world c3)" "\<not> c_fail_persistence c3" "c_config c3 = c_config c0"
    "c_durable c3 = s2" using w2 config s2 by simp_all
  then have p1: "is_ok (fst (persist image1 c3))" "quiet (c_world c4)" "state_file c4 = Some image1" "c_config c4 = c_config c0"
    "c_durable c4 = s2" using w1 config by simp_all
  have third: "overlap_step (c2, [(s1, image1), (s2, image2)]) (c3, [(s1, image1)])"
    using overlap_write [of c2 "[(s1, image1)]" s2 image2 "[]"] by (simp add: c3_def)
  have fourth: "overlap_step (c3, [(s1, image1)]) (c4, [])" using overlap_write [of c3 "[]" s1 image1 "[]"] by (simp add: c4_def)
  have run: "overlap_step\<^sup>*\<^sup>* (c0, []) (c4, [])" using first second third fourth by (meson rtranclp.rtrancl_refl rtranclp.rtrancl_into_rtrancl)
  have "durable_le s1 (c_durable c2)" using c2(1) by (simp add: afloat_def)
  then have "filed s1 c4 s1" using p1 carried(1) s2 by (auto simp: filed_def sound_image_def)
  then have "c_durable (snd (load_durable (coordinator_new (c_config c0) (c_world c4)))) = recover_state (durable_settle s1)"
    using crash_recovers [OF _ p1(4) config p1(2)] by simp
  with run p1 p2 show ?thesis by simp
qed

text \<open>A fence on a small coordinator, for the examples below.\<close>

definition disk_config :: CoordinatorConfig where
  "disk_config = sample_config\<lparr>cf_state_path := ''state''\<rparr>"

definition disk_coord :: Coord where
  "disk_coord = (coordinator_new disk_config sample_world)\<lparr>c_durable := sample_durable\<rparr>"

lemma disk_facts: "c_durable disk_coord = sample_durable" "om_find (c_live disk_coord) i = None"
  "om_find (ds_workers sample_durable) i = None" "ds_stage_generation sample_durable = 0" "ds_evidence_generation sample_durable = 0"
  "om_size (ds_fenced_boots sample_durable) = 1" "cf_state_path (c_config disk_coord) = ''state''" "c_config disk_coord = disk_config"
  "cf_state_path disk_config = ''state''"
  "\<not> c_fail_persistence disk_coord" "c_world disk_coord = sample_world"
  by (simp_all add: disk_coord_def coordinator_new_def disk_config_def sample_durable_def durable_empty_def om_empty_def om_find_def
      gen_unset_def om_size_def)

definition fenced_by :: "ident \<Rightarrow> DurableState \<Rightarrow> DurableState" where
  "fenced_by w s = s\<lparr>ds_fenced_boots := om_upd (w, 9) \<lparr>fb_worker = w, fb_boot = 9, fb_component = [], fb_generation = gen_unset,
       fb_reason = note96 ''stuck'', fb_fenced_at = ds_stage_generation s\<rparr> (ds_fenced_boots s),
     ds_evidence_generation := gen_next (ds_evidence_generation s)\<rparr>"

definition fence :: "ident \<Rightarrow> Command" where
  "fence w = DoFenceBoot w 9 ''stuck''"

lemma fence_region:
  assumes "om_find (c_live c) w = None" "om_find (ds_workers (c_durable c)) w = None" "w \<noteq> []"
    "om_size (ds_fenced_boots (c_durable c)) < kFencedBoots" "cf_state_path (c_config c) \<noteq> []"
    "is_ok (fst (durable_encode (fenced_by w (c_durable c))))" "length (snd (durable_encode (fenced_by w (c_durable c)))) \<le> kStateFileBytes"
    "pi_is_operator peer"
  shows "\<exists>r d. locked (run_command peer (fence w)) c
      = (r, d, [(fenced_by w (c_durable c), snd (durable_encode (fenced_by w (c_durable c))))])
    \<and> is_ok (cr_status r) \<and> c_durable d = fenced_by w (c_durable c) \<and> c_live d = c_live c \<and> c_config d = c_config c"
proof -
  define p where "p = c\<lparr>c_world := private_world, c_fail_persistence := False\<rparr>"
  define f where "f = next_evidence (on_stats (\<lambda>st. st\<lparr>st_fenced_boots := st_fenced_boots st + 1\<rparr>)
     (on_durable (\<lambda>s. s\<lparr>ds_fenced_boots := om_upd (w, 9) \<lparr>fb_worker = w, fb_boot = 9,
        fb_component = [], fb_generation = gen_unset, fb_reason = note96 ''stuck'', fb_fenced_at = ds_stage_generation (c_durable c)\<rparr>
        (ds_fenced_boots s)\<rparr>) p))"
  have p: "c_durable p = c_durable c" "c_live p = c_live c" "c_config p = c_config c" by (simp_all add: p_def)
  have f: "c_durable f = fenced_by w (c_durable c)" "c_config f = c_config c" "c_world f = private_world" "\<not> c_fail_persistence f"
    "c_live f = c_live c"
    by (simp_all add: f_def fenced_by_def next_evidence_def on_stats_def on_durable_def p_def)
  let ?d = "snd (persist (snd (durable_encode (c_durable f))) f)"
  have quiet: "quiet private_world" by (simp add: private_world_def quiet_def)
  note written = persist_quiet [of f "snd (durable_encode (c_durable f))"]
  have saved: "save_state f = (fst (persist (snd (durable_encode (c_durable f))) f), ?d)"
    using assms(6) f by (simp add: save_state_def Let_def split_def)
  have run: "run_command peer (fence w) p = finish (ok_json (json_doc [(''status'', JString ''OK''), (''worker'', JString w),
      (''boot'', JNumber 9)]) ''boot identity fenced durably'') f"
    using assms by (simp add: fence_def f_def command_fence_def validate_operator_def Let_def gen_is_set_def p)
  have "is_ok (fst (persist (snd (durable_encode (c_durable f))) f))" "state_file ?d = Some (snd (durable_encode (c_durable f)))"
    "c_config ?d = c_config c" "c_durable ?d = c_durable f" "c_live ?d = c_live c"
    using written assms f quiet by (simp_all add: persist_def Let_def split_def)
  then show ?thesis
    using assms(5) f(1) unfolding locked_def p_def [symmetric] run finish_def saved
    by (simp add: Let_def split_def ok_json_def result_unset_def)
qed

lemma fenced_sizes:
  "is_ok (durable_validate (fenced_by ''worker-2'' sample_durable))"
  "length (durable_body (fenced_by ''worker-2'' sample_durable)) \<le> kStateFileBytes - 40"
  "is_ok (durable_validate (fenced_by ''worker-3'' (fenced_by ''worker-2'' sample_durable)))"
  "length (durable_body (fenced_by ''worker-3'' (fenced_by ''worker-2'' sample_durable))) \<le> kStateFileBytes - 40"
proof -
  have remark: "note96 ''stuck'' = ''stuck''" by code_simp
  have boots: "ds_fenced_boots sample_durable = [((''worker-1'', 7), \<lparr>fb_worker = ''worker-1'', fb_boot = 7, fb_component = ''gateway'',
       fb_generation = 3, fb_reason = ''retired'', fb_fenced_at = 4\<rparr>)]"
    by (simp add: sample_durable_def)
  have ds2: "fenced_by ''worker-2'' sample_durable = sample_durable\<lparr>ds_fenced_boots := ds_fenced_boots sample_durable
      @ [((''worker-2'', 9), \<lparr>fb_worker = ''worker-2'', fb_boot = 9, fb_component = [], fb_generation = gen_unset,
       fb_reason = ''stuck'', fb_fenced_at = 0\<rparr>)], ds_evidence_generation := gen_next (ds_evidence_generation sample_durable)\<rparr>" (is "_ = ?two")
    unfolding fenced_by_def remark
    by (simp add: sample_durable_def durable_empty_def less_char_def gen_unset_def)
  have ds3: "fenced_by ''worker-3'' ?two = sample_durable\<lparr>ds_fenced_boots := ds_fenced_boots ?two
      @ [((''worker-3'', 9), \<lparr>fb_worker = ''worker-3'', fb_boot = 9, fb_component = [], fb_generation = gen_unset,
       fb_reason = ''stuck'', fb_fenced_at = 0\<rparr>)], ds_evidence_generation := gen_next (gen_next (ds_evidence_generation sample_durable))\<rparr>"
    unfolding fenced_by_def remark
    by (simp add: sample_durable_def durable_empty_def less_char_def gen_unset_def)
  note body = durable_body_def put_counters_def put_counted_def put_version_def put_retirement_def put_fenced_boot_def
      put_generation_def put_ident_def put_text_def put_blob_def put_boolean_def put_digest_def put_u8_def sample_durable_def durable_empty_def
      version_unset_def om_vals_def all_versions_def registry_empty_def om_empty_def protocol_all_def schema_all_def
      all_edges_def matrix_empty_def gates_empty_def gate_all_def kStateFileBytes_def
  note valid = durable_validate_def validate_cross_section_def Let_def sample_durable_def durable_empty_def
      om_vals_def all_versions_def registry_empty_def om_empty_def matrix_validate_def matrix_empty_def protocol_validate_def
      schema_validate_def gates_validate_def gates_empty_def om_entries_def om_size_def limit_defs
  show "is_ok (durable_validate (fenced_by ''worker-2'' sample_durable))" unfolding ds2 by (simp add: valid)
  show "length (durable_body (fenced_by ''worker-2'' sample_durable)) \<le> kStateFileBytes - 40" unfolding ds2 by (simp add: body)
  show "is_ok (durable_validate (fenced_by ''worker-3'' (fenced_by ''worker-2'' sample_durable)))"
    unfolding ds2 ds3 by (simp add: valid)
  show "length (durable_body (fenced_by ''worker-3'' (fenced_by ''worker-2'' sample_durable))) \<le> kStateFileBytes - 40"
    unfolding ds2 ds3 by (simp add: body)
qed

lemma fenced_encode:
  assumes "is_ok (durable_validate s)" "length (durable_body s) \<le> kStateFileBytes - 40"
  shows "is_ok (fst (durable_encode s))" "length (snd (durable_encode s)) \<le> kStateFileBytes"
proof -
  have "durable_encode s = (status_ok, durable_file (durable_body s))" using assms by (simp add: encode_durable)
  then show "is_ok (fst (durable_encode s))" "length (snd (durable_encode s)) \<le> kStateFileBytes"
    using assms(2) by (simp_all add: length_durable_file kStateFileBytes_def)
qed

lemmas fenced_encodes = fenced_encode [OF fenced_sizes(1,2)] fenced_encode [OF fenced_sizes(3,4)]

lemma idle_facts: "om_find (c_live disk_coord) i = None" "om_find (ds_workers (fenced_by w s)) i = om_find (ds_workers s) i"
  "om_find (ds_workers sample_durable) i = None" "om_size (ds_fenced_boots sample_durable) = 1" "pi_is_operator (operator_identity c)"
  "command_typed (fence ''worker-2'')" "command_typed (fence ''worker-3'')" "coord_typed disk_coord"
  "\<not> read_only (fence w)" "\<not> greets (fence w)" "quiet (c_world disk_coord)"
proof -
  have "ident_ok 63 ''worker-2''" "ident_ok 63 ''worker-3''" by code_simp+
  then show "command_typed (fence ''worker-2'')" "command_typed (fence ''worker-3'')" by (simp_all add: fence_def)
  show "coord_typed disk_coord" using durable_ok_typed [OF sample_durable_ok]
    by (simp add: disk_coord_def coordinator_new_def coord_typed_def live_typed_def pending_typed_def om_empty_def)
qed (simp_all add: disk_facts fenced_by_def fence_def operator_identity_def quiet_def sample_world_def)

lemma first_fence:
  obtains r d where "locked (run_command (operator_identity disk_coord) (fence ''worker-2'')) disk_coord
      = (r, d, [(fenced_by ''worker-2'' sample_durable, snd (durable_encode (fenced_by ''worker-2'' sample_durable)))])"
    "is_ok (cr_status r)" "c_durable d = fenced_by ''worker-2'' sample_durable" "c_live d = c_live disk_coord"
    "c_config d = c_config disk_coord"
  using fence_region [of disk_coord "''worker-2''" "operator_identity disk_coord"] fenced_encodes
  by (auto simp: idle_facts disk_facts kFencedBoots_def)

lemma fenced_size: "om_size (ds_fenced_boots (fenced_by ''worker-2'' sample_durable)) = 2"
  by (simp add: fenced_by_def sample_durable_def om_size_def less_char_def)

text \<open>The fence of the second worker was acknowledged, and the restarted coordinator does not have it.\<close>

theorem overlapping_write_loses_witness:
  "\<exists>c1 c2 c4 r2 s2 image2. overlap_step\<^sup>*\<^sup>* (disk_coord, []) (c4, [])
    \<and> locked (run_command (operator_identity disk_coord) (fence ''worker-3'')) c1 = (r2, c2, [(s2, image2)])
    \<and> is_ok (cr_status r2) \<and> is_ok (fst (persist image2 c2)) \<and> is_boot_fenced (c_durable c4) ''worker-3'' 9
    \<and> \<not> is_boot_fenced (c_durable (snd (load_durable (coordinator_new disk_config (c_world c4))))) ''worker-3'' 9"
proof -
  let ?peer = "operator_identity disk_coord"
  let ?s1 = "fenced_by ''worker-2'' sample_durable"
  let ?s2 = "fenced_by ''worker-3'' ?s1"
  obtain r1 c1 where one: "locked (run_command ?peer (fence ''worker-2'')) disk_coord = (r1, c1, [(?s1, snd (durable_encode ?s1))])"
    and c1: "c_durable c1 = ?s1" "c_live c1 = c_live disk_coord" "c_config c1 = c_config disk_coord"
    by (rule first_fence)
  obtain r2 c2 where two: "locked (run_command ?peer (fence ''worker-3'')) c1 = (r2, c2, [(?s2, snd (durable_encode ?s2))])"
    and r2: "is_ok (cr_status r2)"
    using fence_region [of c1 "''worker-3''" ?peer] fenced_encodes fenced_size
    by (auto simp: idle_facts disk_facts c1 kFencedBoots_def)
  have "\<not> c_fail_persistence disk_coord" "cf_state_path (c_config disk_coord) \<noteq> []" by (simp_all add: disk_facts)
  note lost = overlapping_write_loses [OF idle_facts(8,6,7) one two idle_facts(11) this]
  have "is_boot_fenced ?s2 ''worker-3'' 9" by (simp add: is_boot_fenced_def fenced_by_def)
  moreover have "\<not> is_boot_fenced (recover_state (durable_settle ?s1)) ''worker-3'' 9"
    unfolding recovered_fields by (simp add: is_boot_fenced_def fenced_by_def sample_durable_def less_char_def om_find_def)
  moreover define c4 where "c4 = snd (persist (snd (durable_encode ?s1)) (snd (persist (snd (durable_encode ?s2)) c2)))"
  moreover note lost [folded c4_def]
  ultimately show ?thesis using two r2
    by (intro exI [where x = c1] exI [where x = c2] exI [where x = c4] exI [where x = r2] exI [where x = ?s2]
        exI [where x = "snd (durable_encode ?s2)"]) (simp add: disk_facts)
qed

theorem acknowledged_survives_crash_witness:
  "\<exists>c w. overlap_step\<^sup>*\<^sup>* (disk_coord, []) (c, []) \<and> c_fail_persistence c
    \<and> is_boot_fenced (c_durable (snd (load_durable (coordinator_new disk_config w)))) ''worker-2'' 9"
proof -
  let ?peer = "operator_identity disk_coord"
  let ?s = "fenced_by ''worker-2'' sample_durable"
  let ?image = "snd (durable_encode ?s)"
  obtain r c where region: "locked (run_command ?peer (fence ''worker-2'')) disk_coord = (r, c, [(?s, ?image)])"
    and c: "is_ok (cr_status r)" "c_durable c = ?s" "c_config c = c_config disk_coord"
    by (rule first_fence)
  define c1 where "c1 = snd (persist ?image c)"
  define c' where "c' = c1\<lparr>c_fail_persistence := True\<rparr>"
  have "c_world c = c_world disk_coord" "c_fail_persistence c = c_fail_persistence disk_coord" using locked_store [OF region] by simp_all
  then have quiet: "is_ok (fst (persist ?image c))" "quiet (c_world c1)"
    using persist_quiet [of c ?image] fenced_encodes(2) idle_facts(11) by (simp_all add: c c1_def disk_facts)
  have one: "overlap_step (disk_coord, []) (c, [(?s, ?image)])"
    using overlap_command [OF idle_facts(6) region, of "[]"] by simp
  have two: "overlap_step (c, [(?s, ?image)]) (c1, [])"
    using overlap_write [of c "[]" ?s ?image "[]"] by (simp add: c1_def)
  have three: "overlap_step (c1, []) (c', [])"
    unfolding c'_def by (intro overlap_thread fault_step) (simp add: disk_updates)
  have run: "overlap_step\<^sup>*\<^sup>* (disk_coord, []) (c', [])" using one two three
    by (meson rtranclp.rtrancl_refl rtranclp.rtrancl_into_rtrancl)
  have at_once: "overlap_step\<^sup>*\<^sup>* (c, [] @ [(?s, ?image)]) (c, [] @ (c_durable c, snd (durable_encode (c_durable c))) # [])"
    by (simp add: c)
  have later: "overlap_step\<^sup>*\<^sup>* (snd (persist (snd (durable_encode (c_durable c))) c), [] @ []) (c', [])"
    using three by (simp add: c c1_def)
  have "greets (fence ''worker-2'') \<longrightarrow> is_ok (fst (durable_encode (c_durable c)))" by (simp add: idle_facts)
  note kept = acknowledged_survives_crash [OF idle_facts(8) _ idle_facts(6,9) region c(1) this at_once _ _ later]
  have fenced: "is_boot_fenced (c_durable c) ''worker-2'' 9" by (simp add: c is_boot_fenced_def fenced_by_def)
  have "is_boot_fenced (c_durable (snd (load_durable (coordinator_new (c_config disk_coord) (c_world c'))))) ''worker-2'' 9"
    by (rule kept [THEN conjunct2, THEN conjunct2, THEN conjunct2, THEN conjunct2, THEN conjunct2, THEN conjunct1, THEN mp])
      (use quiet fenced in \<open>simp_all add: c c1_def c'_def disk_facts\<close>)
  then have "is_boot_fenced (c_durable (snd (load_durable (coordinator_new disk_config (c_world c'))))) ''worker-2'' 9"
    by (simp add: disk_facts)
  moreover have "c_fail_persistence c'" by (simp add: c'_def)
  ultimately show ?thesis using run by blast
qed

end
