(* ===== verification/Ref_Region.thy ===== *)
theory Ref_Region
  imports Ref_Overlap
begin

text \<open>
  The two models of a command agree: every command uses the disk in a last write at most, whatever the disk
  is, so the command as one step is its lock region followed at once by the write of its image.
\<close>

section \<open>A command is its lock region followed by its write\<close>

type_synonym Disk = "World \<times> bool \<times> u64"

definition redisk :: "Disk \<Rightarrow> Coord \<Rightarrow> Coord" where
  "redisk z c = c\<lparr>c_world := fst z, c_fail_persistence := fst (snd z), c_persistence_writes := snd (snd z)\<rparr>"

abbreviation on_disk :: "Disk \<Rightarrow> 'a \<times> Coord \<Rightarrow> 'a \<times> Coord" where
  "on_disk z x \<equiv> (fst x, redisk z (snd x))"

named_theorems redisk_simps

lemma redisk_fields [redisk_simps]:
  "c_durable (redisk z c) = c_durable c" "c_config (redisk z c) = c_config c" "c_live (redisk z c) = c_live c"
  "c_pending (redisk z c) = c_pending c" "c_sessions (redisk z c) = c_sessions c" "c_stats (redisk z c) = c_stats c"
  "c_worker_sessions (redisk z c) = c_worker_sessions c" "c_action_counter (redisk z c) = c_action_counter c"
  "c_frame_counter (redisk z c) = c_frame_counter c"
  by (simp_all add: redisk_def)

lemma redisk_updates [redisk_simps]:
  "on_durable f (redisk z c) = redisk z (on_durable f c)" "on_stats g (redisk z c) = redisk z (on_stats g c)"
  "next_evidence (redisk z c) = redisk z (next_evidence c)" "put_session se (redisk z c) = redisk z (put_session se c)"
  "refresh_worker_authority n (redisk z c) = redisk z (refresh_worker_authority n c)"
  "(redisk z c)\<lparr>c_live := l\<rparr> = redisk z (c\<lparr>c_live := l\<rparr>)" "(redisk z c)\<lparr>c_pending := ps\<rparr> = redisk z (c\<lparr>c_pending := ps\<rparr>)"
  "(redisk z c)\<lparr>c_durable := s\<rparr> = redisk z (c\<lparr>c_durable := s\<rparr>)"
  "(redisk z c)\<lparr>c_worker_sessions := ws\<rparr> = redisk z (c\<lparr>c_worker_sessions := ws\<rparr>)"
  "(redisk z c)\<lparr>c_action_counter := k\<rparr> = redisk z (c\<lparr>c_action_counter := k\<rparr>)"
  "(redisk z c)\<lparr>c_frame_counter := k\<rparr> = redisk z (c\<lparr>c_frame_counter := k\<rparr>)"
  by (simp_all add: redisk_def on_durable_def on_stats_def next_evidence_def put_session_def refresh_worker_authority_def
      split_def Let_def)

lemma redisk_views [redisk_simps]:
  "live_worker_count (redisk z c) n g = live_worker_count c n g"
  "generation_has_live_workers (redisk z c) n g = generation_has_live_workers c n g"
  "evidence_current (redisk z c) = evidence_current c" "hello_peer (redisk z c) h g peer = hello_peer c h g peer"
  "hello_worker (redisk z c) h peer = hello_worker c h peer" "hello_record (redisk z c) h = hello_record c h"
  "stage_preconditions (redisk z c) p = stage_preconditions c p" "enter_stage t p (redisk z c) = enter_stage t p c"
  "drain_json (redisk z c) n g = drain_json c n g" "new_action (redisk z c) p w b = new_action c p w b"
  "migration_worker (redisk z c) p = migration_worker c p" "rollback_request (redisk z c) p = rollback_request c p"
  "retirement_preconditions (redisk z c) n g = retirement_preconditions c n g"
  by (simp_all add: fun_eq_iff redisk_fields live_worker_count_def generation_has_live_workers_def evidence_current_def hello_peer_def hello_worker_def
      hello_record_def stage_preconditions_def enter_stage_def drain_json_def new_action_def migration_worker_def rollback_request_def
      retirement_preconditions_def Let_def split: option.split cong: RolloutStage.case_cong)

lemma redisk_parts [redisk_simps]:
  "on_components f (redisk z c) = on_disk z (on_components f c)"
  "advance_lifecycle n g st (redisk z c) = on_disk z (advance_lifecycle n g st c)"
  "reject (redisk z c) e t = on_disk z (reject c e t)"
  "complete_reject (redisk z c) e t = on_disk z (complete_reject c e t)"
  "send_to_worker w ty m fr (redisk z c) = on_disk z (send_to_worker w ty m fr c)"
  by (simp_all add: on_components_def advance_lifecycle_def reject_def complete_reject_def send_to_worker_def redisk_fields redisk_updates
      Let_def split_def split: option.split)

lemma redisk_advance_all [redisk_simps]: "advance_all n g sts (redisk z c) = on_disk z (advance_all n g sts c)"
  by (induction sts arbitrary: c) (simp_all add: Let_def split_def redisk_parts)

lemma redisk_walk [redisk_simps]: "walk_candidate k n g w (redisk z c) = on_disk z (walk_candidate k n g w c)"
proof (induction w arbitrary: c)
  case (Cons entry w)
  then show ?case by (cases entry) (auto simp: split_def Let_def redisk_parts redisk_fields split: option.splits)
qed simp

lemma redisk_make_eligible [redisk_simps]: "foldl (make_eligible g) (redisk z c) ns = redisk z (foldl (make_eligible g) c ns)"
proof (induction ns arbitrary: c)
  case (Cons n ns)
  have "make_eligible g (redisk z c) n = redisk z (make_eligible g c n)"
    by (simp add: make_eligible_def Let_def redisk_parts redisk_fields split: option.splits)
  with Cons.IH show ?case by simp
qed simp

lemma redisk_drain [redisk_simps]:
  "drain_current p st (redisk z c) = on_disk z (drain_current p st c)"
  "drain_for_stage t p st (redisk z c) = on_disk z (drain_for_stage t p st c)"
  "demote_candidate p (redisk z c) = on_disk z (demote_candidate p c)"
  "resume_target p (redisk z c) = on_disk z (resume_target p c)"
  "pend_retirement n g ls (redisk z c) = on_disk z (pend_retirement n g ls c)"
  by (simp_all add: drain_current_def drain_for_stage_def demote_candidate_def resume_target_def pend_retirement_def
      Let_def split_def redisk_parts redisk_advance_all redisk_fields del: advance_all.simps split: option.splits RolloutStage.splits)

lemma redisk_dispatch [redisk_simps]:
  "dispatch_drain n g (redisk z c) = on_disk z (dispatch_drain n g c)"
  "dispatch_migration p w b (redisk z c) = on_disk z (dispatch_migration p w b c)"
  "dispatch_rollback_state p w b (redisk z c) = on_disk z (dispatch_rollback_state p w b c)"
proof -
  have "foldl (\<lambda>c (i, w). snd (send_to_worker i RequestDrain (drain_payload (c_durable c) n g)
      (drain_frame (c_durable c) n g w) c)) (redisk z c) ws
    = redisk z (foldl (\<lambda>c (i, w). snd (send_to_worker i RequestDrain (drain_payload (c_durable c) n g)
      (drain_frame (c_durable c) n g w) c)) c ws)" for ws
    by (induction ws arbitrary: c) (auto simp: redisk_simps split_def)
  then show "dispatch_drain n g (redisk z c) = on_disk z (dispatch_drain n g c)"
    by (simp add: dispatch_drain_def Let_def redisk_simps)
  have "(redisk z c)\<lparr>c_action_counter := k, c_pending := ps\<rparr> = redisk z (c\<lparr>c_action_counter := k, c_pending := ps\<rparr>)" for k ps
    by (simp add: redisk_def)
  then show "dispatch_migration p w b (redisk z c) = on_disk z (dispatch_migration p w b c)"
    by (simp add: dispatch_migration_def Let_def split_def redisk_simps)
qed (simp add: dispatch_rollback_state_def redisk_simps)

lemma redisk_branches [redisk_simps]:
  "(if b then redisk z c else redisk z d) = redisk z (if b then c else d)"
  "(case r of None \<Rightarrow> redisk z c | Some v \<Rightarrow> redisk z (g v)) = redisk z (case r of None \<Rightarrow> c | Some v \<Rightarrow> g v)"
  "(if b then (x, redisk z c) else (y, redisk z d)) = (if b then x else y, redisk z (if b then c else d))"
  "(case q of None \<Rightarrow> (x, redisk z c) | Some v \<Rightarrow> (h v, redisk z (k v)))
     = (case q of None \<Rightarrow> x | Some v \<Rightarrow> h v, redisk z (case q of None \<Rightarrow> c | Some v \<Rightarrow> k v))"
  by (simp_all split: option.split)

text \<open>How an operation uses the disk: not at all, or in a last write of the encoding of the state it leaves, whose failure
  replaces the result.\<close>

definition write_out :: "CommandResult \<Rightarrow> (Status \<Rightarrow> CommandResult) \<Rightarrow> Coord \<Rightarrow> CommandResult \<times> Coord" where
  "write_out r h c = (let (stored, d) = persist (snd (durable_encode (c_durable c))) c in (if is_failure stored then h stored else r, d))"

definition writes_last :: "(Disk \<Rightarrow> CommandResult \<times> Coord) \<Rightarrow> bool" where
  "writes_last f \<longleftrightarrow> (\<exists>r d. \<forall>z. f z = (r, redisk z d))
     \<or> (\<exists>r h d. is_ok (fst (durable_encode (c_durable d))) \<and> (\<forall>st. cr_status (h st) = st) \<and> (\<forall>z. f z = write_out r h (redisk z d)))"

lemma last_pair: "writes_last (\<lambda>z. (r, redisk z d))"
  unfolding writes_last_def by blast

lemma last_finish: "writes_last (\<lambda>z. finish r (redisk z d))"
proof (cases "is_ok (fst (durable_encode (c_durable d)))")
  case True
  then have "finish r (redisk z d) = write_out r failure_result (redisk z d)" for z
    by (simp add: finish_def save_state_def write_out_def Let_def split_def redisk_fields)
  moreover have "cr_status (failure_result st) = st" for st by (simp add: failure_result_def)
  ultimately show ?thesis using True unfolding writes_last_def by blast
next
  case False
  then have "finish r (redisk z d) = (failure_result (fst (durable_encode (c_durable d))), redisk z d)" for z
    by (simp add: finish_def save_state_def Let_def split_def redisk_fields)
  then show ?thesis by (simp add: last_pair)
qed

lemma last_if: "writes_last f \<Longrightarrow> writes_last g \<Longrightarrow> writes_last (\<lambda>z. if b then f z else g z)"
  by (cases b) simp_all

lemma last_option: "writes_last f \<Longrightarrow> (\<And>v. writes_last (g v)) \<Longrightarrow> writes_last (\<lambda>z. case r of None \<Rightarrow> f z | Some v \<Rightarrow> g v z)"
  by (cases r) simp_all

lemmas last_rules = last_if last_option last_finish last_pair

lemma last_publication:
  "writes_last (\<lambda>z. command_register_component peer v (redisk z c))"
  "writes_last (\<lambda>z. command_publish_capability peer n g k fs (redisk z c))"
  "writes_last (\<lambda>z. command_publish_compatibility peer e (redisk z c))"
  "writes_last (\<lambda>z. command_publish_schema peer sd (redisk z c))"
  "writes_last (\<lambda>z. command_publish_protocol peer pd (redisk z c))"
  unfolding command_register_component_def command_publish_capability_def command_publish_compatibility_def
    command_publish_schema_def command_publish_protocol_def Let_def split_def redisk_simps fst_conv snd_conv
  by (intro last_rules)+

lemma last_plans:
  "writes_last (\<lambda>z. command_create_plan peer spec (redisk z c))"
  "writes_last (\<lambda>z. command_advance_stage peer i target g (redisk z c))"
  "writes_last (\<lambda>z. command_rebind_plan peer i g (redisk z c))"
  "writes_last (\<lambda>z. command_enable_feature peer f i (redisk z c))"
  "writes_last (\<lambda>z. command_supersede_plan peer i (redisk z c))"
  unfolding command_create_plan_def create_checked_plan_def command_advance_stage_def apply_stage_def
    command_rebind_plan_def command_enable_feature_def apply_feature_def command_supersede_plan_def 
    Let_def split_def redisk_simps fst_conv snd_conv
  by (intro last_rules)+

lemma last_actions:
  "writes_last (\<lambda>z. command_request_drain peer n g (redisk z c))"
  "writes_last (\<lambda>z. command_request_migration peer i (redisk z c))"
  "writes_last (\<lambda>z. command_request_rollback peer i (redisk z c))"
  "writes_last (\<lambda>z. command_request_retirement peer n g (redisk z c))"
  "writes_last (\<lambda>z. command_request_lifecycle peer n g st (redisk z c))"
  "writes_last (\<lambda>z. command_fence peer w b reason (redisk z c))"
  unfolding command_request_drain_def command_request_migration_def command_request_rollback_def refuse_rollback_def
    commit_rollback_def command_request_retirement_def commit_retirement_def command_request_lifecycle_def command_fence_def
    Let_def split_def redisk_simps fst_conv snd_conv
  by (intro last_rules)+

lemma last_completion: "writes_last (\<lambda>z. command_publish_completion peer i sid g m dg drain (redisk z c))"
  unfolding command_publish_completion_def complete_drain_def complete_stage_def accept_completion_def
    Let_def split_def redisk_simps fst_conv snd_conv
  by (intro last_rules)

text \<open>The handshake also returns the identity of its session.\<close>

definition greets_last :: "(Disk \<Rightarrow> CommandResult \<times> PeerIdentity \<times> Coord) \<Rightarrow> bool" where
  "greets_last f \<longleftrightarrow> writes_last (\<lambda>z. (fst (f z), snd (snd (f z))))"

lemma greets_pair: "greets_last (\<lambda>z. (r, p, redisk z d))"
  by (simp add: greets_last_def last_pair)

lemma greets_if: "greets_last f \<Longrightarrow> greets_last g \<Longrightarrow> greets_last (\<lambda>z. if b then f z else g z)"
  by (cases b) simp_all

lemma greets_option: "greets_last f \<Longrightarrow> (\<And>v. greets_last (g v)) \<Longrightarrow> greets_last (\<lambda>z. case r of None \<Rightarrow> f z | Some v \<Rightarrow> g v z)"
  by (cases r) simp_all

lemma redisk_greeted [redisk_simps]:
  "greeted h n peer (redisk z c) = redisk z (greeted h n peer c)"
  "hello_refuse (redisk z c) r = on_disk z (hello_refuse c r)" "hello_reject (redisk z c) e t ls = on_disk z (hello_reject c e t ls)"
proof -
  have "(redisk z c)\<lparr>c_live := l, c_worker_sessions := ws, c_durable := s\<rparr>
      = redisk z (c\<lparr>c_live := l, c_worker_sessions := ws, c_durable := s\<rparr>)" for l ws s
    by (simp add: redisk_def)
  then show "greeted h n peer (redisk z c) = redisk z (greeted h n peer c)"
    by (simp add: greeted_def redisk_simps)
qed (simp_all add: hello_refuse_def hello_reject_def redisk_simps)

lemma greets_accept: "greets_last (\<lambda>z. hello_accept h n peer (redisk z c))"
proof -
  let ?d = "greeted h n peer c"
  define r where "r = result_unset\<lparr>cr_json := hello_json (c_durable ?d) (hello_peer c h (nr_chosen n) peer) (nr_explanation n),
      cr_fields := hello_fields (c_durable ?d) (hello_peer c h (nr_chosen n) peer)\<rparr>"
  define failed where "failed st = r\<lparr>cr_status := st,
      cr_explanation := [''handshake accepted but durable state could not be persisted'']\<rparr>" for st
  show ?thesis
  proof (cases "is_ok (fst (durable_encode (c_durable ?d)))")
    case True
    have "(fst (hello_accept h n peer (redisk z c)), snd (snd (hello_accept h n peer (redisk z c)))) = write_out r failed (redisk z ?d)" for z
      using True unfolding hello_accept_def Let_def greeted_def [symmetric] redisk_simps
      by (simp add: write_out_def r_def failed_def split_def Let_def redisk_simps)
    moreover have "cr_status (failed st) = st" for st by (simp add: failed_def)
    ultimately show ?thesis using True unfolding greets_last_def writes_last_def by blast
  next
    case False
    have "(fst (hello_accept h n peer (redisk z c)), snd (snd (hello_accept h n peer (redisk z c)))) = (r, redisk z ?d)" for z
      using False unfolding hello_accept_def Let_def greeted_def [symmetric] redisk_simps
      by (simp add: r_def split_def Let_def redisk_simps)
    then show ?thesis unfolding greets_last_def by (simp add: last_pair)
  qed
qed

lemma last_hello: "greets_last (\<lambda>z. command_hello h peer (redisk z c))"
  unfolding command_hello_def hello_negotiate_def Let_def split_def redisk_simps fst_conv snd_conv
  by (intro greets_if greets_option greets_accept greets_pair)

lemma redisk_answers [redisk_simps]:
  "command_negotiate peer gs (redisk z c) = command_negotiate peer gs c"
  "command_state_transform peer i g (redisk z c) = command_state_transform peer i g c"
  unfolding command_negotiate_def command_state_transform_def Let_def redisk_simps by simp_all

lemma run_command_last: "writes_last (\<lambda>z. run_command peer cmd (redisk z c))"
  using last_publication last_plans last_actions last_completion last_hello
  by (cases cmd) (simp_all add: greets_last_def split_def Let_def redisk_simps last_pair)

lemma private_write:
  fixes k bs
  assumes "cf_state_path (c_config d) \<noteq> []"
  defines "out \<equiv> persist bs (redisk (private_world, False, k) d)"
  shows "length bs \<le> kStateFileBytes \<Longrightarrow> is_ok (fst out) \<and> state_file (snd out) = Some bs"
    "\<not> length bs \<le> kStateFileBytes \<Longrightarrow> \<not> is_ok (fst out) \<and> state_file (snd out) = None"
  using assms(1) write_quiet [of private_world bs "cf_state_path (c_config d)"]
  by (simp_all add: out_def persist_def redisk_def state_file_def Let_def split_def private_world_def quiet_def write_file_atomic_def)

lemma with_disk_redisk: "with_disk c (redisk z d) = redisk (c_world c, c_fail_persistence c, c_persistence_writes c) d"
  "with_disk c (snd (persist bs d)) = with_disk c d"
  by (simp_all add: with_disk_def redisk_def persist_def Let_def split_def)

text \<open>
  C2: A command is its lock region followed by its write.  Whatever the file system, the fault switch and the
  write counter are: when the lock region of a command leaves no image and reports success, the command as
  one step gives the same result and state; when it leaves an image and the write of that image into the
  present file system succeeds, the command as one step gives the result of the lock region and the state
  after the write; and when that write fails, the command gives its error and the state the write leaves.
\<close>

theorem command_is_region_then_write:
  assumes "locked (run_command peer cmd) c = (r, d, images)"
  shows "(images = [] \<and> is_ok (cr_status r) \<longrightarrow> run_command peer cmd c = (r, d))
    \<and> (\<forall>s encoded. images = [(s, encoded)] \<and> is_ok (fst (persist encoded d))
         \<longrightarrow> run_command peer cmd c = (r, snd (persist encoded d)))
    \<and> (\<forall>s encoded. images = [(s, encoded)] \<and> is_failure (fst (persist encoded d))
         \<longrightarrow> cr_status (fst (run_command peer cmd c)) = fst (persist encoded d)
           \<and> snd (run_command peer cmd c) = snd (persist encoded d))"
proof -
  define z where "z = (c_world c, c_fail_persistence c, c_persistence_writes c)"
  define z' where "z' = (private_world, False, c_persistence_writes c)"
  have c: "redisk z c = c" "redisk z' c = c\<lparr>c_world := private_world, c_fail_persistence := False\<rparr>"
    by (simp_all add: redisk_def z_def z'_def)
  have region: "(r, d, images) = (let (r, e) = run_command peer cmd (redisk z' c) in (r, with_disk c e,
      if cf_state_path (c_config e) = [] then [] else case state_file e of None \<Rightarrow> [] | Some encoded \<Rightarrow> [(c_durable e, encoded)]))"
    unfolding c(2) assms [symmetric] by (simp add: locked_def)
  from run_command_last [of peer cmd c] show ?thesis unfolding writes_last_def
  proof (elim disjE exE conjE)
    fix r' e assume run: "\<forall>z. run_command peer cmd (redisk z c) = (r', redisk z e)"
    from run have "run_command peer cmd c = (r', redisk z e)" using c(1) by metis
    moreover have "state_file (redisk z' e) = None" by (simp add: state_file_def redisk_def z'_def private_world_def)
    ultimately show ?thesis using region run by (simp add: with_disk_redisk z_def)
  next
    fix r' h e assume failed: "\<forall>st. cr_status (h st) = st" and run: "\<forall>z. run_command peer cmd (redisk z c) = write_out r' h (redisk z e)"
    let ?bs = "snd (durable_encode (c_durable e))"
    have now: "run_command peer cmd c = write_out r' h (redisk z e)" using run c(1) by metis
    note caught = private_write [of e ?bs "c_persistence_writes c", folded z'_def]
    have fields: "c_durable (snd (persist ?bs (redisk z' e))) = c_durable e" "c_config (snd (persist ?bs (redisk z' e))) = c_config e"
      by (simp_all add: persist_def redisk_def Let_def split_def)
    show ?thesis
    proof (cases "cf_state_path (c_config e) = []")
      case True
      then show ?thesis using region run now
        by (simp add: write_out_def persist_def redisk_simps with_disk_redisk z_def)
    next
      case False
      show ?thesis
      proof (cases "length ?bs \<le> kStateFileBytes")
        case True
        then show ?thesis using region run now False caught(1) fields failed
          by (simp add: write_out_def redisk_simps with_disk_redisk z_def Let_def split_def)
      next
        case long: False
        then show ?thesis using region run now False caught(2) fields failed
          by (simp add: write_out_def redisk_simps with_disk_redisk z_def Let_def split_def)
      qed
    qed
  qed
qed

theorem command_is_region_then_write_witness:
  "\<exists>r d encoded. is_ok (cr_status r) \<and> is_ok (fst (persist encoded d))
    \<and> run_command (operator_identity disk_coord) (fence ''worker-2'') disk_coord = (r, snd (persist encoded d))"
proof -
  let ?s = "fenced_by ''worker-2'' sample_durable"
  obtain r d where region: "locked (run_command (operator_identity disk_coord) (fence ''worker-2'')) disk_coord
      = (r, d, [(?s, snd (durable_encode ?s))])" and r: "is_ok (cr_status r)" "c_config d = c_config disk_coord"
    by (rule first_fence)
  have ok: "is_ok (fst (persist (snd (durable_encode ?s)) d))"
    using persist_quiet(1) [of d "snd (durable_encode ?s)"] fenced_encodes(2) idle_facts(11) locked_store [OF region] r(2)
    by (simp add: disk_facts)
  then have "run_command (operator_identity disk_coord) (fence ''worker-2'') disk_coord = (r, snd (persist (snd (durable_encode ?s)) d))"
    using command_is_region_then_write [OF region] by blast
  with r(1) ok show ?thesis by blast
qed

end
