(* ===== verification/Ref_Transport.thy ===== *)
theory Ref_Transport
  imports Ref_Durability "HOL-Library.Sublist"
begin

text \<open>
  The transport: the connection half of \<open>src/wire.cpp\<close> (\<open>TcpConnection\<close>,
  \<open>send_frame\<close>, \<open>recv_frame\<close>, \<open>connect_tcp\<close>).

  A connection is the two byte streams behind its socket and, for each direction, the script of what
  the operating system answers to the next calls: how many bytes a call moves, an interruption, an
  error or the end of the stream.  The loops of \<open>send_all\<close> and \<open>recv_exact\<close> run over the script; a
  loop that is still waiting when the script (or the stream) is exhausted has not returned, which is
  the value \<open>None\<close>.  Every operation above them that may wait returns an option for that reason.
\<close>

section \<open>Connections\<close>

datatype socket_answer = Moved nat | Interrupted | Broken | Ended

record TcpConnection =
  tc_valid :: bool
  tc_send_script :: "socket_answer list"
  tc_sent :: bytes
  tc_recv_script :: "socket_answer list"
  tc_incoming :: bytes

definition no_connection :: TcpConnection where
  "no_connection = \<lparr>tc_valid = False, tc_send_script = [], tc_sent = [], tc_recv_script = [], tc_incoming = []\<rparr>"

definition tc_close :: "TcpConnection \<Rightarrow> TcpConnection" where
  "tc_close t = t\<lparr>tc_valid := False\<rparr>"

text \<open>The most that one call is asked to move.\<close>

definition socket_chunk :: "nat \<Rightarrow> nat" where
  "socket_chunk remaining = (if remaining > 2 ^ 20 then 2 ^ 20 else remaining)"

text \<open>\<open>Moved n\<close> moves \<open>n + 1\<close> bytes, or as many as were asked for when they are fewer.\<close>

fun send_loop :: "socket_answer list \<Rightarrow> bytes \<Rightarrow> bytes \<Rightarrow> (Status \<times> socket_answer list \<times> bytes) option" where
  "send_loop answers [] sent = Some (status_ok, answers, sent)"
| "send_loop [] (b # bs) sent = None"
| "send_loop (answer # answers) (b # bs) sent =
     (case answer of
        Interrupted \<Rightarrow> send_loop answers (b # bs) sent
      | Broken \<Rightarrow> Some (failure IoFailure ''socket send failed'', answers, sent)
      | Ended \<Rightarrow> Some (failure IoFailure ''socket send returned zero'', answers, sent)
      | Moved n \<Rightarrow>
          let k = min (Suc n) (socket_chunk (length (b # bs)))
          in send_loop answers (drop k (b # bs)) (sent @ take k (b # bs)))"

definition send_all :: "bytes \<Rightarrow> TcpConnection \<Rightarrow> (Status \<times> TcpConnection) option" where
  "send_all bs t =
     (if \<not> tc_valid t then Some (failure Internal ''send on an invalid connection'', t)
      else map_option (\<lambda>(status, answers, sent). (status, t\<lparr>tc_send_script := answers, tc_sent := sent\<rparr>))
        (send_loop (tc_send_script t) bs (tc_sent t)))"

fun recv_loop :: "socket_answer list \<Rightarrow> nat \<Rightarrow> bytes \<Rightarrow> bytes \<Rightarrow> (Status \<times> socket_answer list \<times> bytes \<times> bytes) option" where
  "recv_loop answers 0 incoming got = Some (status_ok, answers, incoming, got)"
| "recv_loop [] (Suc m) incoming got = None"
| "recv_loop (answer # answers) (Suc m) incoming got =
     (case answer of
        Interrupted \<Rightarrow> recv_loop answers (Suc m) incoming got
      | Broken \<Rightarrow> Some (failure IoFailure ''socket receive failed'', answers, incoming, got)
      | Ended \<Rightarrow> Some (failure Truncated ''peer closed the connection'', answers, incoming, got)
      | Moved n \<Rightarrow>
          if incoming = [] then None
          else let k = min (Suc n) (min (socket_chunk (Suc m)) (length incoming))
            in recv_loop answers (Suc m - k) (drop k incoming) (got @ take k incoming))"

definition recv_exact :: "nat \<Rightarrow> TcpConnection \<Rightarrow> (Status \<times> bytes \<times> TcpConnection) option" where
  "recv_exact count t =
     (if \<not> tc_valid t then Some (failure Internal ''receive on an invalid connection'', [], t)
      else map_option (\<lambda>(status, answers, incoming, got).
          (status, got, t\<lparr>tc_recv_script := answers, tc_incoming := incoming\<rparr>))
        (recv_loop (tc_recv_script t) count (tc_incoming t) []))"

definition send_frame :: "Frame \<Rightarrow> TcpConnection \<Rightarrow> (Status \<times> TcpConnection) option" where
  "send_frame frame t =
     (let (encoded, bs) = encode_frame frame in
      if is_failure encoded then Some (encoded, t) else send_all bs t)"

text \<open>The declared length of the payload, read from the header before anything else is checked.\<close>

definition declared_length :: "bytes \<Rightarrow> u32 \<times> ByteReader" where
  "declared_length header =
     (let (_, r) = get_u32 (reader header); (_, r) = get_u16 r; (_, r) = get_u16 r; (_, r) = get_u32 r
      in get_u32 r)"

definition recv_frame :: "TcpConnection \<Rightarrow> (Status \<times> Frame \<times> TcpConnection) option" where
  "recv_frame t =
     (case recv_exact kFrameHeaderBytes t of
        None \<Rightarrow> None
      | Some (received, header, t) \<Rightarrow>
          if is_failure received then Some (received, frame_default, t)
          else
            let (payload_length, r) = declared_length header in
            if failed r then Some (failure Truncated ''frame header is truncated'', frame_default, t)
            else if unat payload_length > kFrameBytes
              then Some (failure LimitExceeded ''declared frame payload exceeds the frame bound'', frame_default, t)
            else if payload_length > 0 then
              (case recv_exact (unat payload_length) t of
                 None \<Rightarrow> None
               | Some (received, payload, t) \<Rightarrow>
                   if is_failure received then Some (received, frame_default, t)
                   else let (status, frame) = decode_frame (header @ payload) kFrameBytes in Some (status, frame, t))
            else let (status, frame) = decode_frame header kFrameBytes in Some (status, frame, t))"

text \<open>What the operating system answers when a connection is opened; \<open>di_runtime\<close> is the error of the socket
  runtime, which only Windows has.\<close>

record Dial =
  di_runtime :: "string option"
  di_socket :: bool
  di_address :: "string \<Rightarrow> bool"
  di_connect :: bool
  di_stream :: TcpConnection

definition connect_tcp :: "Dial \<Rightarrow> string \<Rightarrow> TcpConnection \<Rightarrow> Status \<times> TcpConnection" where
  "connect_tcp d host out =
     (case di_runtime d of
        Some text \<Rightarrow> (failure Internal text, out)
      | None \<Rightarrow>
          if \<not> di_socket d then (failure IoFailure ''client socket could not be created'', out)
          else if \<not> di_address d (if host = [] then ''127.0.0.1'' else host)
            then (failure InvalidArgument ''coordinator host is not a valid IPv4 address'', out)
          else if \<not> di_connect d then (failure IoFailure ''connection to the coordinator failed'', out)
          else (status_ok, (di_stream d)\<lparr>tc_valid := True\<rparr>))"


section \<open>The loops move bytes in order and nothing else\<close>

definition moves :: "socket_answer list \<Rightarrow> nat" where
  "moves answers = length (filter (\<lambda>a. case a of Moved _ \<Rightarrow> True | _ \<Rightarrow> False) answers)"

definition unbroken :: "socket_answer list \<Rightarrow> bool" where
  "unbroken answers \<longleftrightarrow> Broken \<notin> set answers \<and> Ended \<notin> set answers"

lemma moves_simps [simp]:
  "moves [] = 0" "moves (Moved n # s) = Suc (moves s)" "moves (Interrupted # s) = moves s"
  by (simp_all add: moves_def)

lemma unbroken_simps [simp]:
  "unbroken []" "unbroken (Moved n # s) = unbroken s" "unbroken (Interrupted # s) = unbroken s"
  "\<not> unbroken (Broken # s)" "\<not> unbroken (Ended # s)"
  by (auto simp: unbroken_def)

lemma socket_chunk_bounds [simp]: "socket_chunk m \<le> m" "0 < m \<Longrightarrow> 0 < socket_chunk m"
  by (auto simp: socket_chunk_def)

text \<open>What was sent is a prefix of the message, the whole of it exactly when the call succeeds.\<close>

lemma send_loop_prefix:
  "send_loop answers bs sent = Some (status, answers', sent') \<Longrightarrow>
   \<exists>k\<le>length bs. sent' = sent @ take k bs \<and> (is_ok status \<longrightarrow> k = length bs)"
proof (induction answers bs sent rule: send_loop.induct)
  case (3 answer answers b bs sent)
  show ?case
  proof (cases answer)
    case (Moved n)
    define j where "j = min (Suc n) (socket_chunk (length (b # bs)))"
    have "j \<le> length (b # bs)" using socket_chunk_bounds(1) [of "length (b # bs)"] unfolding j_def by linarith
    moreover obtain k where "k \<le> length (drop j (b # bs))"
      "sent' = (sent @ take j (b # bs)) @ take k (drop j (b # bs))" "is_ok status \<longrightarrow> k = length (drop j (b # bs))"
      using "3.IH"(1) [OF Moved j_def] "3.prems" Moved by (auto simp: Let_def j_def)
    ultimately show ?thesis by (intro exI [of _ "j + k"]) (auto simp: take_add)
  next
    case Interrupted
    then show ?thesis using "3.IH"(2) "3.prems" by simp
  qed (use "3.prems" in \<open>auto intro: exI [of _ 0]\<close>)
qed auto

text \<open>With as many bytes moved as the message has, the call returns; unless the stream breaks, it succeeds.\<close>

lemma send_loop_completes:
  "length bs \<le> moves answers \<Longrightarrow> unbroken answers \<Longrightarrow>
   \<exists>answers'. send_loop answers bs sent = Some (status_ok, answers', sent @ bs) \<and> unbroken answers'
     \<and> moves answers \<le> moves answers' + length bs"
proof (induction answers bs sent rule: send_loop.induct)
  case (3 answer answers b bs sent)
  show ?case
  proof (cases answer)
    case (Moved n)
    define j where "j = min (Suc n) (socket_chunk (length (b # bs)))"
    have j: "0 < j" "j \<le> length (b # bs)"
      using socket_chunk_bounds [of "length (b # bs)"] unfolding j_def by (simp_all del: socket_chunk_bounds)
    have enough: "length (drop j (b # bs)) \<le> moves answers" "unbroken answers" using "3.prems" Moved j by auto
    obtain answers' where "send_loop answers (drop j (b # bs)) (sent @ take j (b # bs))
        = Some (status_ok, answers', (sent @ take j (b # bs)) @ drop j (b # bs))"
      "unbroken answers'" "moves answers \<le> moves answers' + length (drop j (b # bs))"
      using "3.IH"(1) [OF Moved j_def enough] by blast
    moreover from this(3) Moved j have "moves (answer # answers) \<le> moves answers' + length (b # bs)" by simp
    ultimately show ?thesis using Moved by (intro exI [of _ answers']) (simp add: Let_def j_def)
  next
    case Interrupted
    then show ?thesis using "3.IH"(2) "3.prems" by simp
  qed (use "3.prems" in auto)
qed auto

lemma recv_loop_prefix:
  "recv_loop answers m incoming got = Some (status, answers', incoming', got') \<Longrightarrow>
   \<exists>k\<le>m. k \<le> length incoming \<and> got' = got @ take k incoming \<and> incoming' = drop k incoming \<and> (is_ok status \<longrightarrow> k = m)"
proof (induction answers m incoming got rule: recv_loop.induct)
  case (3 answer answers m incoming got)
  show ?case
  proof (cases answer)
    case (Moved n)
    define j where "j = min (Suc n) (min (socket_chunk (Suc m)) (length incoming))"
    have j: "j \<le> Suc m" "j \<le> length incoming"
      using socket_chunk_bounds(1) [of "Suc m"] unfolding j_def by linarith+
    from "3.prems" Moved have ne: "incoming \<noteq> []" by auto
    then obtain k where "k \<le> Suc m - j" "k \<le> length (drop j incoming)"
      "got' = (got @ take j incoming) @ take k (drop j incoming)" "incoming' = drop k (drop j incoming)"
      "is_ok status \<longrightarrow> k = Suc m - j"
      using "3.IH"(1) [OF Moved ne j_def] "3.prems" Moved by (auto simp: Let_def j_def)
    then show ?thesis using j by (intro exI [of _ "j + k"]) (auto simp: take_add add.commute)
  next
    case Interrupted
    then show ?thesis using "3.IH"(2) "3.prems" by simp
  qed (use "3.prems" in \<open>auto intro: exI [of _ 0]\<close>)
qed auto

lemma recv_loop_completes:
  "m \<le> moves answers \<Longrightarrow> unbroken answers \<Longrightarrow> m \<le> length incoming \<Longrightarrow>
   \<exists>answers'. recv_loop answers m incoming got = Some (status_ok, answers', drop m incoming, got @ take m incoming)
     \<and> unbroken answers' \<and> moves answers \<le> moves answers' + m"
proof (induction answers m incoming got rule: recv_loop.induct)
  case (3 answer answers m incoming got)
  show ?case
  proof (cases answer)
    case (Moved n)
    define j where "j = min (Suc n) (min (socket_chunk (Suc m)) (length incoming))"
    from "3.prems" have ne: "incoming \<noteq> []" by auto
    have j: "0 < j" "j \<le> Suc m" "j \<le> length incoming"
      using socket_chunk_bounds [of "Suc m"] ne unfolding j_def by (simp_all del: socket_chunk_bounds)
    have enough: "Suc m - j \<le> moves answers" "unbroken answers" "Suc m - j \<le> length (drop j incoming)"
      using "3.prems" Moved j by auto
    obtain answers' where "recv_loop answers (Suc m - j) (drop j incoming) (got @ take j incoming)
        = Some (status_ok, answers', drop (Suc m - j) (drop j incoming),
            (got @ take j incoming) @ take (Suc m - j) (drop j incoming))"
      "unbroken answers'" "moves answers \<le> moves answers' + (Suc m - j)"
      using "3.IH"(1) [OF Moved ne j_def enough] by blast
    moreover from this(3) Moved j have "moves (answer # answers) \<le> moves answers' + Suc m" by simp
    moreover have "take (Suc m) incoming = take j incoming @ take (Suc m - j) (drop j incoming)"
      using j take_add [of j "Suc m - j" incoming] by simp
    moreover have "drop (Suc m - j) (drop j incoming) = drop (Suc m) incoming" using j by simp
    ultimately show ?thesis using Moved ne by (intro exI [of _ answers']) (simp add: Let_def j_def)
  next
    case Interrupted
    then show ?thesis using "3.IH"(2) "3.prems" by simp
  qed (use "3.prems" in auto)
qed auto

text \<open>The same for the calls on a connection.\<close>

lemma send_all_sent:
  assumes "send_all bs t = Some (status, t')"
  shows "\<exists>k\<le>length bs. tc_sent t' = tc_sent t @ take k bs \<and> (is_ok status \<longrightarrow> k = length bs)"
    and "tc_incoming t' = tc_incoming t" and "tc_recv_script t' = tc_recv_script t" and "tc_valid t' = tc_valid t"
  using assms send_loop_prefix [of "tc_send_script t" bs "tc_sent t" status "tc_send_script t'" "tc_sent t'"]
  by (auto simp: send_all_def split: if_splits intro: exI [of _ 0])

lemma recv_exact_received:
  assumes "recv_exact m t = Some (status, got, t')"
  shows "\<exists>k\<le>m. k \<le> length (tc_incoming t) \<and> got = take k (tc_incoming t) \<and> tc_incoming t' = drop k (tc_incoming t)
      \<and> (is_ok status \<longrightarrow> k = m)"
    and "tc_sent t' = tc_sent t" and "tc_send_script t' = tc_send_script t" and "tc_valid t' = tc_valid t"
  using assms recv_loop_prefix [of "tc_recv_script t" m "tc_incoming t" "[]" status "tc_recv_script t'" "tc_incoming t'" got]
  by (auto simp: recv_exact_def split: if_splits intro: exI [of _ 0])


section \<open>Frames over a connection\<close>

text \<open>What arrives is the frame that was sent, with magic, version, length and checksum filled in.\<close>

definition carries :: "Frame \<Rightarrow> Frame \<Rightarrow> bool" where
  "carries f g \<longleftrightarrow> g = f\<lparr>fr_header := (fr_header f)\<lparr>wh_magic := kWireMagic, wh_transport_version := kWireTransportVersion,
     wh_payload_length := of_nat (length (fr_payload f)), wh_crc := wh_crc (fr_header g)\<rparr>\<rparr>"

definition sendable :: "Frame \<Rightarrow> bool" where
  "sendable f \<longleftrightarrow> length (fr_payload f) \<le> kFrameBytes \<and> wh_type (fr_header f) \<noteq> Invalid
     \<and> wh_flags (fr_header f) AND NOT kKnownFrameFlags = 0"

definition frame_bytes :: "Frame \<Rightarrow> bytes" where
  "frame_bytes f = snd (encode_frame f)"

lemma encode_sendable: "sendable f \<Longrightarrow> encode_frame f = (status_ok, frame_bytes f)"
  by (simp add: sendable_def frame_bytes_def encode_frame_def Let_def)

lemma decode_sendable:
  assumes "sendable f"
  shows "\<exists>g. decode_frame (frame_bytes f) kFrameBytes = (status_ok, g) \<and> carries f g"
  using decode_encoded_frame [OF encode_sendable [OF assms], of kFrameBytes] assms
  by (auto simp: sendable_def carries_def)

lemma declared_length_put:
  assumes "t = (m, v, ty, fl, len, g)"
  shows "\<exists>r. declared_length (put_frame_fields t @ xs) = (len, r) \<and> \<not> failed r"
proof -
  obtain g1 g2 g3 g4 g5 g6 g7 where g: "g = (g1, g2, g3, g4, g5, g6, g7)" by (cases g)
  define ys where "ys = put_generation g1 @ put_generation g2 @ put_generation g3 @ put_generation g4
    @ put_generation g5 @ put_generation g6 @ put_u64 g7 @ xs"
  have bs: "put_frame_fields t @ xs = put_u32 m @ put_u16 v @ put_u16 ty @ put_u32 fl @ put_u32 len @ ys"
    by (simp add: put_frame_fields_def assms g ys_def)
  define r0 where "r0 = reader (put_frame_fields t @ xs)"
  have r0: "\<not> failed r0" "rest r0 = put_u32 m @ put_u16 v @ put_u16 ty @ put_u32 fl @ put_u32 len @ ys"
    by (simp_all add: r0_def reader_def bs)
  obtain k1 where 1: "get_u32 r0 = (m, r0\<lparr>rest := put_u16 v @ put_u16 ty @ put_u32 fl @ put_u32 len @ ys, consumed := k1\<rparr>)"
    using c_u32.get_put [where v = m and r = r0] r0 by auto
  obtain k2 where 2: "get_u16 (r0\<lparr>rest := put_u16 v @ put_u16 ty @ put_u32 fl @ put_u32 len @ ys, consumed := k1\<rparr>)
      = (v, r0\<lparr>rest := put_u16 ty @ put_u32 fl @ put_u32 len @ ys, consumed := k2\<rparr>)"
    using c_u16.get_put [where v = v and r = "r0\<lparr>rest := put_u16 v @ put_u16 ty @ put_u32 fl @ put_u32 len @ ys, consumed := k1\<rparr>"] r0 by auto
  obtain k3 where 3: "get_u16 (r0\<lparr>rest := put_u16 ty @ put_u32 fl @ put_u32 len @ ys, consumed := k2\<rparr>)
      = (ty, r0\<lparr>rest := put_u32 fl @ put_u32 len @ ys, consumed := k3\<rparr>)"
    using c_u16.get_put [where v = ty and r = "r0\<lparr>rest := put_u16 ty @ put_u32 fl @ put_u32 len @ ys, consumed := k2\<rparr>"] r0 by auto
  obtain k4 where 4: "get_u32 (r0\<lparr>rest := put_u32 fl @ put_u32 len @ ys, consumed := k3\<rparr>)
      = (fl, r0\<lparr>rest := put_u32 len @ ys, consumed := k4\<rparr>)"
    using c_u32.get_put [where v = fl and r = "r0\<lparr>rest := put_u32 fl @ put_u32 len @ ys, consumed := k3\<rparr>"] r0 by auto
  obtain k5 where 5: "get_u32 (r0\<lparr>rest := put_u32 len @ ys, consumed := k4\<rparr>) = (len, r0\<lparr>rest := ys, consumed := k5\<rparr>)"
    using c_u32.get_put [where v = len and r = "r0\<lparr>rest := put_u32 len @ ys, consumed := k4\<rparr>"] r0 by auto
  show ?thesis using r0(1) by (simp add: declared_length_def r0_def [symmetric] 1 2 3 4 5)
qed

lemma frame_bytes_shape:
  assumes "sendable f"
  obtains header r where "frame_bytes f = header @ fr_payload f" "length header = kFrameHeaderBytes"
    "declared_length header = (of_nat (length (fr_payload f)), r)" "\<not> failed r"
proof -
  define h where "h = fr_header f"
  define t :: frame_fields where "t = (kWireMagic, kWireTransportVersion, message_type_raw (wh_type h), wh_flags h,
    of_nat (length (fr_payload f)), wh_runtime_generation h, wh_protocol_generation h,
    wh_schema_generation h, wh_coordinator_epoch h, wh_evolution_epoch h, wh_boot h, wh_sequence h)"
  define header where "header = put_frame_fields t @ put_u32 (crc32 (put_frame_fields t @ fr_payload f))"
  have "frame_bytes f = header @ fr_payload f"
    using encode_frame_shape(1) [OF encode_sendable [OF assms]] by (simp add: header_def t_def h_def)
  moreover have "length header = kFrameHeaderBytes" by (simp add: header_def kFrameHeaderBytes_def)
  moreover obtain r where "declared_length header = (of_nat (length (fr_payload f)), r)" "\<not> failed r"
    using declared_length_put [OF t_def] unfolding header_def by blast
  ultimately show thesis by (rule that)
qed

lemma payload_length_unat:
  "sendable f \<Longrightarrow> unat (of_nat (length (fr_payload f)) :: u32) = length (fr_payload f)"
  by (simp add: sendable_def kFrameBytes_def unat_of_nat)

lemma payload_length_pos:
  "sendable f \<Longrightarrow> (0 :: u32) < of_nat (length (fr_payload f)) \<longleftrightarrow> fr_payload f \<noteq> []"
  by (simp add: word_less_nat_alt payload_length_unat)

text \<open>Whatever the scripts do, a frame that is received is the next one of the stream.\<close>

lemma recv_exact_prefix:
  assumes "recv_exact m t = Some (status, got, t')" and "is_ok status" and "prefix (tc_incoming t) (front @ xs)"
    and "length front = m"
  shows "got = front \<and> tc_incoming t = front @ tc_incoming t' \<and> prefix (tc_incoming t') xs"
proof -
  have m: "m \<le> length (tc_incoming t)" "got = take m (tc_incoming t)" "tc_incoming t' = drop m (tc_incoming t)"
    using recv_exact_received(1) [OF assms(1)] assms(2) by auto
  from assms(3) obtain ws where ws: "tc_incoming t @ ws = front @ xs" by (auto simp: prefix_def)
  have "take m (tc_incoming t @ ws) = front" "drop m (tc_incoming t @ ws) = xs" using assms(4) by (simp_all add: ws)
  with m show ?thesis using append_take_drop_id [of m "tc_incoming t"] by (auto simp: prefix_def)
qed

lemma recv_frame_sound:
  assumes f: "sendable f" and stream: "prefix (tc_incoming t) (frame_bytes f @ xs)"
    and recv: "recv_frame t = Some (status, g, t')" and ok: "is_ok status"
  shows "carries f g \<and> tc_incoming t = frame_bytes f @ tc_incoming t' \<and> prefix (tc_incoming t') xs
    \<and> tc_sent t' = tc_sent t \<and> tc_valid t' = tc_valid t"
proof -
  obtain header r where shape: "frame_bytes f = header @ fr_payload f" "length header = kFrameHeaderBytes"
    "declared_length header = (of_nat (length (fr_payload f)), r)" "\<not> failed r"
    using frame_bytes_shape [OF f] .
  obtain st hd t1 where h: "recv_exact kFrameHeaderBytes t = Some (st, hd, t1)" "is_ok st"
    using recv ok by (auto simp: recv_frame_def split: option.splits if_splits prod.splits)
  have t1: "hd = header" "tc_incoming t = header @ tc_incoming t1" "prefix (tc_incoming t1) (fr_payload f @ xs)"
    "tc_sent t1 = tc_sent t" "tc_valid t1 = tc_valid t"
    using recv_exact_prefix [OF h, of header "fr_payload f @ xs"] recv_exact_received(2,4) [OF h(1)] stream shape(1,2)
    by auto
  obtain g' where dec: "decode_frame (header @ fr_payload f) kFrameBytes = (status_ok, g')" "carries f g'"
    using decode_sendable [OF f] shape(1) by auto
  show ?thesis
  proof (cases "fr_payload f = []")
    case True
    with recv ok h shape t1 dec payload_length_pos [OF f] show ?thesis by (auto simp: recv_frame_def split: if_splits)
  next
    case False
    then obtain st2 pl where p: "recv_exact (length (fr_payload f)) t1 = Some (st2, pl, t')" "is_ok st2"
      "decode_frame (header @ pl) kFrameBytes = (status, g)"
      using recv ok h shape t1 payload_length_pos [OF f] payload_length_unat [OF f]
      by (auto simp: recv_frame_def split: option.splits if_splits prod.splits)
    from recv_exact_prefix [OF p(1,2) t1(3)] recv_exact_received(2,4) [OF p(1)] p(3) dec t1 shape(1)
    show ?thesis by auto
  qed
qed

lemma recv_exact_completes:
  assumes "tc_valid t" "unbroken (tc_recv_script t)" "m \<le> moves (tc_recv_script t)" "m \<le> length (tc_incoming t)"
  shows "\<exists>t'. recv_exact m t = Some (status_ok, take m (tc_incoming t), t') \<and> tc_valid t' \<and> unbroken (tc_recv_script t')
    \<and> tc_incoming t' = drop m (tc_incoming t) \<and> moves (tc_recv_script t) \<le> moves (tc_recv_script t') + m"
  using recv_loop_completes [OF assms(3,2,4), of "[]"] assms(1) by (auto simp: recv_exact_def)

lemma recv_frame_completes:
  assumes f: "sendable f" and stream: "tc_incoming t = frame_bytes f @ xs"
    and live: "tc_valid t" "unbroken (tc_recv_script t)" "length (frame_bytes f) \<le> moves (tc_recv_script t)"
  shows "\<exists>g t'. recv_frame t = Some (status_ok, g, t') \<and> unbroken (tc_recv_script t')
    \<and> moves (tc_recv_script t) \<le> moves (tc_recv_script t') + length (frame_bytes f)"
proof -
  obtain header r where shape: "frame_bytes f = header @ fr_payload f" "length header = kFrameHeaderBytes"
    "declared_length header = (of_nat (length (fr_payload f)), r)" "\<not> failed r"
    using frame_bytes_shape [OF f] .
  obtain t1 where t1: "recv_exact kFrameHeaderBytes t = Some (status_ok, header, t1)" "tc_valid t1"
    "unbroken (tc_recv_script t1)" "tc_incoming t1 = fr_payload f @ xs"
    "moves (tc_recv_script t) \<le> moves (tc_recv_script t1) + kFrameHeaderBytes"
    using recv_exact_completes [of t kFrameHeaderBytes] live shape(1,2) stream by auto
  obtain g where dec: "decode_frame (header @ fr_payload f) kFrameBytes = (status_ok, g)"
    using decode_sendable [OF f] shape(1) by auto
  have bound: "\<not> kFrameBytes < length (fr_payload f)" using f by (simp add: sendable_def)
  show ?thesis
  proof (cases "fr_payload f = []")
    case True
    with t1 shape dec payload_length_pos [OF f] show ?thesis by (simp add: recv_frame_def kFrameBytes_def)
  next
    case False
    have "length (fr_payload f) \<le> moves (tc_recv_script t1)" using live(3) t1(5) shape(1,2) by simp
    then obtain t2 where "recv_exact (length (fr_payload f)) t1 = Some (status_ok, fr_payload f, t2)"
      "unbroken (tc_recv_script t2)" "moves (tc_recv_script t1) \<le> moves (tc_recv_script t2) + length (fr_payload f)"
      using recv_exact_completes [of t1 "length (fr_payload f)"] t1 by auto
    with False t1 shape dec bound payload_length_pos [OF f] payload_length_unat [OF f] show ?thesis
      by (simp add: recv_frame_def)
  qed
qed

lemma send_frame_completes:
  assumes "sendable f" "tc_valid t" "unbroken (tc_send_script t)" "length (frame_bytes f) \<le> moves (tc_send_script t)"
  shows "\<exists>t'. send_frame f t = Some (status_ok, t') \<and> tc_valid t' \<and> tc_sent t' = tc_sent t @ frame_bytes f
    \<and> unbroken (tc_send_script t') \<and> moves (tc_send_script t) \<le> moves (tc_send_script t') + length (frame_bytes f)"
  using send_loop_completes [OF assms(4,3), of "tc_sent t"] assms(1,2)
  by (auto simp: send_frame_def send_all_def encode_sendable)

text \<open>The writer thread of a session takes its frames from the queue in order and stops at the first that fails;
  the reader thread receives frame after frame.  \<open>None\<close> is a thread that is waiting in the call.\<close>

fun writer_frames :: "Frame list \<Rightarrow> TcpConnection \<Rightarrow> TcpConnection option" where
  "writer_frames [] t = Some t"
| "writer_frames (f # fs) t =
     (case send_frame f t of
        None \<Rightarrow> None
      | Some (sent, t) \<Rightarrow> if is_failure sent then Some (tc_close t) else writer_frames fs t)"

fun reader_frames :: "nat \<Rightarrow> TcpConnection \<Rightarrow> Frame list \<times> TcpConnection option" where
  "reader_frames 0 t = ([], Some t)"
| "reader_frames (Suc n) t =
     (case recv_frame t of
        None \<Rightarrow> ([], None)
      | Some (received, f, t) \<Rightarrow>
          if is_failure received then ([], Some (tc_close t))
          else let (fs, t) = reader_frames n t in (f # fs, t))"

lemma send_frame_sent:
  assumes "sendable f" "send_frame f t = Some (status, t')"
  shows "\<exists>stream. tc_sent t' = tc_sent t @ stream \<and> prefix stream (frame_bytes f) \<and> (is_ok status \<longrightarrow> stream = frame_bytes f)"
proof -
  have "send_all (frame_bytes f) t = Some (status, t')" using assms by (simp add: send_frame_def encode_sendable)
  from send_all_sent(1) [OF this] obtain k where "k \<le> length (frame_bytes f)"
    "tc_sent t' = tc_sent t @ take k (frame_bytes f)" "is_ok status \<longrightarrow> k = length (frame_bytes f)" by blast
  then show ?thesis by (intro exI [of _ "take k (frame_bytes f)"]) (auto simp: take_is_prefix)
qed

lemma writer_frames_sent:
  assumes "list_all sendable fs" "writer_frames fs t = Some t'"
  shows "\<exists>stream. tc_sent t' = tc_sent t @ stream \<and> prefix stream (concat (map frame_bytes fs))"
  using assms
proof (induction fs arbitrary: t)
  case (Cons f fs)
  then obtain status t1 where sent: "send_frame f t = Some (status, t1)" by (auto split: option.splits)
  from send_frame_sent [OF _ this] Cons.prems(1) obtain stream where one: "tc_sent t1 = tc_sent t @ stream"
    "prefix stream (frame_bytes f)" "is_ok status \<longrightarrow> stream = frame_bytes f" by auto
  show ?case
  proof (cases "is_ok status")
    case True
    with Cons sent one show ?thesis by (fastforce simp: is_failure_def)
  next
    case False
    with Cons.prems(2) sent one show ?thesis
      by (intro exI [of _ stream]) (auto simp: is_failure_def tc_close_def prefix_append)
  qed
qed simp

lemma writer_frames_completes:
  assumes "list_all sendable fs" "tc_valid t" "unbroken (tc_send_script t)"
    "length (concat (map frame_bytes fs)) \<le> moves (tc_send_script t)"
  shows "\<exists>t'. writer_frames fs t = Some t' \<and> tc_valid t' \<and> tc_sent t' = tc_sent t @ concat (map frame_bytes fs)"
  using assms
proof (induction fs arbitrary: t)
  case (Cons f fs)
  then obtain t1 where t1: "send_frame f t = Some (status_ok, t1)" "tc_valid t1" "tc_sent t1 = tc_sent t @ frame_bytes f"
    "unbroken (tc_send_script t1)" "moves (tc_send_script t) \<le> moves (tc_send_script t1) + length (frame_bytes f)"
    using send_frame_completes [of f t] by auto
  with Cons.prems Cons.IH [of t1] show ?case by auto
qed simp

lemma recv_frame_nonempty: "recv_frame t = Some (status, g, t') \<Longrightarrow> is_ok status \<Longrightarrow> tc_incoming t \<noteq> []"
  using recv_exact_received(1) [of kFrameHeaderBytes t]
  by (fastforce simp: recv_frame_def kFrameHeaderBytes_def split: option.splits prod.splits if_splits)

lemma reader_frames_sound:
  assumes "list_all sendable fs" "prefix (tc_incoming t) (concat (map frame_bytes fs))" "reader_frames n t = (gs, end)"
  shows "list_all2 carries (take (length gs) fs) gs"
  using assms
proof (induction n arbitrary: fs t gs "end")
  case (Suc n)
  show ?case
  proof (cases gs)
    case (Cons g gs')
    with Suc.prems(3) obtain status t1 where r: "recv_frame t = Some (status, g, t1)" "is_ok status"
      "reader_frames n t1 = (gs', end)"
      by (auto simp: is_failure_def split: option.splits prod.splits if_splits)
    from recv_frame_nonempty [OF r(1,2)] Suc.prems(2) obtain f fs' where fs: "fs = f # fs'" by (cases fs) auto
    with recv_frame_sound [OF _ _ r(1,2), of f "concat (map frame_bytes fs')"] Suc.prems
    have "carries f g" "prefix (tc_incoming t1) (concat (map frame_bytes fs'))" by simp_all
    with Suc.IH [of fs' t1 gs' "end"] Suc.prems(1) r(3) fs Cons show ?thesis by simp
  qed simp
qed simp

lemma reader_frames_completes:
  assumes "list_all sendable fs" "tc_valid t" "unbroken (tc_recv_script t)" "tc_incoming t = concat (map frame_bytes fs)"
    "length (concat (map frame_bytes fs)) \<le> moves (tc_recv_script t)"
  shows "\<exists>gs t'. reader_frames (length fs) t = (gs, Some t') \<and> length gs = length fs \<and> tc_incoming t' = []"
  using assms
proof (induction fs arbitrary: t)
  case (Cons f fs)
  then obtain g t1 where t1: "recv_frame t = Some (status_ok, g, t1)" "unbroken (tc_recv_script t1)"
    "moves (tc_recv_script t) \<le> moves (tc_recv_script t1) + length (frame_bytes f)"
    using recv_frame_completes [of f t "concat (map frame_bytes fs)"] by auto
  have "tc_valid t1" "tc_incoming t1 = concat (map frame_bytes fs)"
    using recv_frame_sound [OF _ _ t1(1), of f "concat (map frame_bytes fs)"] Cons.prems by simp_all
  with Cons.prems Cons.IH [of t1] t1 show ?case by auto
qed simp

text \<open>
  C13: Frames sent over a connection arrive whole, unchanged and in order.  Whatever the operating system
  does (short writes and reads, interruptions, errors, the end of the stream), what the writer has put
  on the stream is a prefix of the encodings of its frames, and the frames a reader accepts from such a
  stream are the first ones that were sent; a frame that was cut off is never delivered.  When neither
  side breaks and the calls move enough bytes, both threads return and every frame arrives.
\<close>

theorem frames_delivered_in_order:
  assumes "list_all sendable fs"
  shows "(\<forall>w w'. writer_frames fs w = Some w' \<longrightarrow>
           (\<exists>stream. tc_sent w' = tc_sent w @ stream \<and> prefix stream (concat (map frame_bytes fs))))
    \<and> (\<forall>r n gs e. prefix (tc_incoming r) (concat (map frame_bytes fs)) \<and> reader_frames n r = (gs, e) \<longrightarrow>
           list_all2 carries (take (length gs) fs) gs)
    \<and> (\<forall>w r. tc_valid w \<and> tc_sent w = [] \<and> unbroken (tc_send_script w) \<and> tc_valid r \<and> unbroken (tc_recv_script r)
          \<and> length (concat (map frame_bytes fs)) \<le> min (moves (tc_send_script w)) (moves (tc_recv_script r)) \<longrightarrow>
           (\<exists>w' gs r'. writer_frames fs w = Some w' \<and> tc_valid w'
              \<and> reader_frames (length fs) (r\<lparr>tc_incoming := tc_sent w'\<rparr>) = (gs, Some r')
              \<and> list_all2 carries fs gs \<and> tc_incoming r' = []))"
proof (intro conjI allI impI, goal_cases)
  case (1 w w')
  then show ?case using writer_frames_sent [OF assms] by blast
next
  case (2 r n gs e)
  then show ?case using reader_frames_sound [OF assms] by blast
next
  case (3 w r)
  then obtain w' where w': "writer_frames fs w = Some w'" "tc_valid w'" "tc_sent w' = concat (map frame_bytes fs)"
    using writer_frames_completes [OF assms, of w] by auto
  define t where "t = r\<lparr>tc_incoming := tc_sent w'\<rparr>"
  have t: "tc_valid t" "unbroken (tc_recv_script t)" "tc_incoming t = concat (map frame_bytes fs)"
    "length (concat (map frame_bytes fs)) \<le> moves (tc_recv_script t)"
    using 3 w'(3) by (simp_all add: t_def)
  from reader_frames_completes [OF assms t] obtain gs r' where gs: "reader_frames (length fs) t = (gs, Some r')"
    "length gs = length fs" "tc_incoming r' = []" by blast
  moreover have "list_all2 carries fs gs" using reader_frames_sound [OF assms _ gs(1)] t(3) gs(2) by simp
  ultimately show ?case using w' unfolding t_def by blast
qed

lemma moves_replicate [simp]: "moves (replicate n (Moved m)) = n"
  by (induction n) simp_all

lemma unbroken_replicate [simp]: "unbroken (replicate n (Moved m))"
  by (induction n) simp_all

lemma length_frame_bytes: "sendable f \<Longrightarrow> length (frame_bytes f) = kFrameHeaderBytes + length (fr_payload f)"
  by (erule frame_bytes_shape) simp

lemma sample_frame_sendable: "sendable sample_frame"
  by (simp add: sendable_def sample_frame_def frame_header_default_def kFrameBytes_def)

definition sample_writer :: TcpConnection where
  "sample_writer = no_connection\<lparr>tc_valid := True, tc_send_script := Interrupted # replicate 200 (Moved 0)\<rparr>"

definition sample_reader :: TcpConnection where
  "sample_reader = no_connection\<lparr>tc_valid := True, tc_recv_script := replicate 200 (Moved 6)\<rparr>"

theorem frames_delivered_in_order_witness:
  "\<exists>w' gs r'. writer_frames [sample_frame, sample_frame] sample_writer = Some w' \<and> tc_valid w'
    \<and> reader_frames 2 (sample_reader\<lparr>tc_incoming := tc_sent w'\<rparr>) = (gs, Some r')
    \<and> list_all2 carries [sample_frame, sample_frame] gs \<and> tc_incoming r' = []"
proof -
  have "list_all sendable [sample_frame, sample_frame]" by (simp add: sample_frame_sendable)
  from frames_delivered_in_order [OF this, THEN conjunct2, THEN conjunct2, rule_format, of sample_writer sample_reader]
  show ?thesis
    by (simp add: sample_writer_def sample_reader_def no_connection_def length_frame_bytes sample_frame_sendable
        numeral_2_eq_2 del: writer_frames.simps reader_frames.simps)
      (simp add: sample_frame_def kFrameHeaderBytes_def del: writer_frames.simps reader_frames.simps)
qed

end
