(* ===== verification/Ref_Client.thy ===== *)
theory Ref_Client
  imports Ref_Transport
begin

text \<open>
  The client: \<open>include/ref/client.hpp\<close> and \<open>src/client.cpp\<close>.  It owns a connection, performs the
  handshake and stamps every request with what the handshake agreed on.
\<close>

section \<open>The state of a client\<close>

record ClientConfig =
  cc_host :: string
  cc_port :: u16
  cc_operator_mode :: bool
  cc_role :: string
  cc_sequence_seed :: u64

record HandshakeOutcome =
  ho_status :: Status
  ho_registered :: bool
  ho_negotiated_protocol :: gen
  ho_negotiated_schema :: gen
  ho_operation :: OperationClass
  ho_epoch :: gen
  ho_coordinator_epoch :: gen
  ho_stage_generation :: gen
  ho_gate_generation :: gen
  ho_matrix_generation :: gen
  ho_authoritative_generation :: gen
  ho_new_writer_enabled :: bool
  ho_detail :: string
  ho_explanation :: string

record Client =
  cl_config :: ClientConfig
  cl_connection :: TcpConnection
  cl_peer :: PeerIdentity
  cl_sequence :: u64
  cl_connected :: bool

definition outcome_unset :: HandshakeOutcome where
  "outcome_unset = \<lparr>ho_status = status_ok, ho_registered = False, ho_negotiated_protocol = gen_unset,
     ho_negotiated_schema = gen_unset, ho_operation = NoOperation, ho_epoch = gen_unset, ho_coordinator_epoch = gen_unset,
     ho_stage_generation = gen_unset, ho_gate_generation = gen_unset, ho_matrix_generation = gen_unset,
     ho_authoritative_generation = gen_unset, ho_new_writer_enabled = False, ho_detail = [], ho_explanation = []\<rparr>"

definition new_client :: "ClientConfig \<Rightarrow> Client" where
  "new_client config = \<lparr>cl_config = config, cl_connection = no_connection, cl_peer = peer_unset,
     cl_sequence = cc_sequence_seed config, cl_connected = False\<rparr>"

definition client_close :: "Client \<Rightarrow> Client" where
  "client_close c = c\<lparr>cl_connected := False, cl_connection := tc_close (cl_connection c)\<rparr>"

definition bump_sequence :: "Client \<Rightarrow> Client" where
  "bump_sequence c = c\<lparr>cl_sequence := cl_sequence c + 1\<rparr>"

definition client_flags :: "ClientConfig \<Rightarrow> u32" where
  "client_flags config = (if cc_operator_mode config then kFrameFlagOperator else 0)"


section \<open>The handshake\<close>

definition hello_payload :: "ProtocolHandshake \<Rightarrow> WireMessage" where
  "hello_payload h =
     (let m = (with_text ''declared_role'' (hs_declared_role h)
        \<circ> with_u64 ''coordinator_epoch'' (hs_coordinator_epoch h)
        \<circ> with_u64 ''evolution_epoch'' (hs_evolution_epoch h)
        \<circ> with_u64 ''capability_generation'' (hs_capability_generation h)
        \<circ> with_u64 ''committed_schema'' (hs_committed_schema h)
        \<circ> with_text ''supported_schemas'' (encode_generation_set (hs_supported_schemas h))
        \<circ> with_u64 ''required_minimum'' (hs_required_minimum h)
        \<circ> with_text ''supported_protocols'' (encode_generation_set (hs_supported_protocols h))
        \<circ> with_text ''protocol'' (hs_protocol h)
        \<circ> with_u64 ''boot'' (hs_boot h)
        \<circ> with_text ''worker'' (hs_worker h)
        \<circ> with_u64 ''runtime_generation'' (hs_runtime_generation h)
        \<circ> with_text ''artifact'' (build (artifact (hs_version h)))
        \<circ> with_text ''version'' (version_to_string (number (hs_version h)))
        \<circ> with_text ''component'' (hs_component h)) [];
          features = encode_features (hs_features h)
      in if features \<noteq> [] then with_text ''features'' features m else m)"

definition hello_frame :: "ClientConfig \<Rightarrow> ProtocolHandshake \<Rightarrow> u64 \<Rightarrow> Frame" where
  "hello_frame config h sequence = \<lparr>fr_header = frame_header_default\<lparr>wh_type := Hello, wh_flags := client_flags config,
     wh_runtime_generation := hs_runtime_generation h, wh_protocol_generation := gs_highest (hs_supported_protocols h),
     wh_schema_generation := gs_highest (hs_supported_schemas h), wh_evolution_epoch := hs_evolution_epoch h,
     wh_coordinator_epoch := hs_coordinator_epoch h, wh_boot := hs_boot h, wh_sequence := sequence\<rparr>,
     fr_payload = wm_encode (hello_payload h)\<rparr>"

definition field_text :: "WireMessage \<Rightarrow> string \<Rightarrow> string" where
  "field_text body name = (case msg_text body name of Some t \<Rightarrow> t | None \<Rightarrow> [])"

definition field_u64 :: "WireMessage \<Rightarrow> string \<Rightarrow> u64" where
  "field_u64 body name = (case wm_u64 body (ident63 name) of Some v \<Rightarrow> v | None \<Rightarrow> 0)"

definition parse_handshake_ack :: "WireMessage \<Rightarrow> HandshakeOutcome" where
  "parse_handshake_ack body =
     (let status = field_text body ''status''; text = field_text body ''detail'';
          outcome = outcome_unset\<lparr>ho_detail := text\<rparr> in
      if status \<noteq> ''OK''
        then outcome\<lparr>ho_status := failure (case parse_error_code status of Some e \<Rightarrow> e | None \<Rightarrow> Internal) text\<rparr>
      else
        let outcome = outcome\<lparr>
              ho_negotiated_protocol := field_u64 body ''negotiated_protocol'',
              ho_negotiated_schema := field_u64 body ''negotiated_schema'',
              ho_operation := (case parse_operation_class (field_text body ''operation_class'') of
                Some k \<Rightarrow> k | None \<Rightarrow> NoOperation),
              ho_epoch := field_u64 body ''evolution_epoch'',
              ho_coordinator_epoch := field_u64 body ''coordinator_epoch'',
              ho_stage_generation := field_u64 body ''stage_generation'',
              ho_gate_generation := field_u64 body ''gate_generation'',
              ho_matrix_generation := field_u64 body ''matrix_generation'',
              ho_authoritative_generation := field_u64 body ''authoritative_generation'',
              ho_registered := (field_u64 body ''registered'' \<noteq> 0),
              ho_new_writer_enabled := (field_u64 body ''new_writer_enabled'' \<noteq> 0)\<rparr>
        in if field_u64 body ''negotiated_protocol'' = 0
             then outcome\<lparr>ho_status := failure Incompatible
               ''coordinator acknowledged without a negotiated protocol generation''\<rparr>
           else outcome\<lparr>ho_explanation := field_text body ''json'', ho_status := status_ok\<rparr>)"

definition agreed_peer :: "ClientConfig \<Rightarrow> ProtocolHandshake \<Rightarrow> HandshakeOutcome \<Rightarrow> PeerIdentity \<Rightarrow> PeerIdentity" where
  "agreed_peer config h outcome peer = peer\<lparr>pi_component := hs_component h, pi_version := hs_version h,
     pi_worker := hs_worker h, pi_boot := hs_boot h, pi_runtime_generation := hs_runtime_generation h,
     pi_protocol := hs_protocol h, pi_agreed_protocol := ho_negotiated_protocol outcome,
     pi_agreed_schema := ho_negotiated_schema outcome, pi_operation := ho_operation outcome, pi_epoch := ho_epoch outcome,
     pi_coordinator_epoch := ho_coordinator_epoch outcome, pi_capability_generation := hs_capability_generation h,
     pi_registered := ho_registered outcome, pi_is_operator := cc_operator_mode config,
     pi_authenticated := cc_operator_mode config\<rparr>"

text \<open>The answer to the handshake, once it was received.\<close>

definition handshake_answer :: "ProtocolHandshake \<Rightarrow> Frame \<Rightarrow> Client \<Rightarrow> Status \<times> HandshakeOutcome \<times> Client" where
  "handshake_answer h response c =
     (let (decoded, body) = wm_decode (fr_payload response) in
      if is_failure decoded then (decoded, outcome_unset, client_close c)
      else if wh_type (fr_header response) \<noteq> HelloAck
        then (failure Conflict ''coordinator answered the handshake with an unexpected message'', outcome_unset, client_close c)
      else
        let outcome = parse_handshake_ack body in
        if \<not> is_ok (ho_status outcome) then (ho_status outcome, outcome, client_close c)
        else (status_ok, outcome, c\<lparr>cl_peer := agreed_peer (cl_config c) h outcome (cl_peer c)\<rparr>))"

definition client_connect :: "Dial \<Rightarrow> ProtocolHandshake \<Rightarrow> Client \<Rightarrow> (Status \<times> HandshakeOutcome \<times> Client) option" where
  "client_connect d h c =
     (case di_runtime d of
        Some text \<Rightarrow> Some (failure Internal text, outcome_unset, c)
      | None \<Rightarrow>
          let (established, connection) = connect_tcp d (cc_host (cl_config c)) no_connection in
          if is_failure established then Some (established, outcome_unset, c)
          else
            let c = bump_sequence (c\<lparr>cl_connection := connection, cl_connected := True\<rparr>);
                hello = hello_frame (cl_config c) h (cl_sequence c) in
            if length (fr_payload hello) > kFrameBytes
              then Some (failure LimitExceeded ''handshake frame exceeds the frame bound'', outcome_unset, c)
            else
              (case send_frame hello (cl_connection c) of
                 None \<Rightarrow> None
               | Some (sent, connection) \<Rightarrow>
                   let c = c\<lparr>cl_connection := connection\<rparr> in
                   if is_failure sent then Some (sent, outcome_unset, client_close c)
                   else
                     (case recv_frame connection of
                        None \<Rightarrow> None
                      | Some (received, response, connection) \<Rightarrow>
                          let c = c\<lparr>cl_connection := connection\<rparr> in
                          if is_failure received then Some (received, outcome_unset, client_close c)
                          else Some (handshake_answer h response c))))"


section \<open>Requests\<close>

definition send_raw :: "Frame \<Rightarrow> Client \<Rightarrow> (Status \<times> Frame \<times> WireMessage \<times> Client) option" where
  "send_raw frame c =
     (if \<not> cl_connected c then Some (failure IoFailure ''client is not connected'', frame_default, [], c)
      else
        let outbound = (if wh_flags (fr_header frame) = 0 \<and> cc_operator_mode (cl_config c)
              then frame\<lparr>fr_header := (fr_header frame)\<lparr>wh_flags := kFrameFlagOperator\<rparr>\<rparr> else frame) in
        case send_frame outbound (cl_connection c) of
          None \<Rightarrow> None
        | Some (sent, connection) \<Rightarrow>
            let c = c\<lparr>cl_connection := connection\<rparr> in
            if is_failure sent then Some (sent, frame_default, [], c)
            else
              (case recv_frame connection of
                 None \<Rightarrow> None
               | Some (received, response, connection) \<Rightarrow>
                   let c = c\<lparr>cl_connection := connection\<rparr> in
                   if is_failure received then Some (received, response, [], client_close c)
                   else let (decoded, body) = wm_decode (fr_payload response) in Some (decoded, response, body, c)))"

definition request_frame :: "MessageType \<Rightarrow> WireMessage \<Rightarrow> Client \<Rightarrow> Frame" where
  "request_frame type payload c = \<lparr>fr_header = frame_header_default\<lparr>wh_type := type,
     wh_flags := client_flags (cl_config c), wh_runtime_generation := pi_runtime_generation (cl_peer c),
     wh_protocol_generation := pi_agreed_protocol (cl_peer c), wh_schema_generation := pi_agreed_schema (cl_peer c),
     wh_coordinator_epoch := pi_coordinator_epoch (cl_peer c), wh_evolution_epoch := pi_epoch (cl_peer c),
     wh_boot := pi_boot (cl_peer c), wh_sequence := cl_sequence c\<rparr>, fr_payload = wm_encode payload\<rparr>"

definition client_request :: "MessageType \<Rightarrow> WireMessage \<Rightarrow> Client \<Rightarrow> (Status \<times> Frame \<times> WireMessage \<times> Client) option" where
  "client_request type payload c =
     (let c = bump_sequence c; frame = request_frame type payload c in
      if length (fr_payload frame) > kFrameBytes
        then Some (failure LimitExceeded ''request frame exceeds the frame bound'', frame_default, [], c)
      else send_raw frame c)"

end
