(* ===== verification/Ref_Worker.thy ===== *)
theory Ref_Worker
  imports Ref_Client "HOL-Library.Monad_Syntax"
begin

text \<open>
  The runtime worker: \<open>include/ref/worker.hpp\<close> and \<open>src/worker.cpp\<close>.

  A worker is a client with a durable state file.  Its operations thread the record \<open>RuntimeWorker\<close>,
  which holds the members of the class and the file system its process sees, through the calls in
  the order of the code.  A call that waits on the connection is the value \<open>None\<close>; a handler that ends
  the process (the injected crash after a commit) returns \<open>Exited\<close>.
\<close>

section \<open>The state of a worker\<close>

record WorkerConfig =
  wc_host :: string
  wc_port :: u16
  wc_component :: ident
  wc_version :: RuntimeVersionId
  wc_generation :: gen
  wc_worker :: ident
  wc_boot :: gen
  wc_protocol :: ident
  wc_supported_protocols :: gen_set
  wc_supported_schemas :: gen_set
  wc_committed_schema :: gen
  wc_migrations :: "MigrationCapability list"
  wc_features :: "FeatureSupport list"
  wc_capability_generation :: gen
  wc_role :: string
  wc_state_path :: string
  wc_crash_after_migration_commit :: bool
  wc_reconcile_on_start :: bool

record WorkerStats =
  ws_frames_received :: u64
  ws_frames_rejected :: u64
  ws_mutations_applied :: u64
  ws_mutations_rejected :: u64
  ws_migrations_committed :: u64
  ws_migrations_blocked :: u64
  ws_drains_completed :: u64
  ws_rollbacks_applied :: u64

record RuntimeWorker =
  wk_config :: WorkerConfig
  wk_client :: Client
  wk_handshake :: HandshakeOutcome
  wk_stats :: WorkerStats
  wk_drained :: bool
  wk_stop_requested :: bool
  wk_registered :: bool
  wk_world :: World

definition worker_stats_unset :: WorkerStats where
  "worker_stats_unset = \<lparr>ws_frames_received = 0, ws_frames_rejected = 0, ws_mutations_applied = 0, ws_mutations_rejected = 0,
     ws_migrations_committed = 0, ws_migrations_blocked = 0, ws_drains_completed = 0, ws_rollbacks_applied = 0\<rparr>"

definition worker_role :: "WorkerConfig \<Rightarrow> string" where
  "worker_role config = (if wc_role config = [] then note96 ''runtime-worker'' else wc_role config)"

definition make_client_config :: "WorkerConfig \<Rightarrow> ClientConfig" where
  "make_client_config config = \<lparr>cc_host = wc_host config, cc_port = wc_port config, cc_operator_mode = False,
     cc_role = worker_role config, cc_sequence_seed = 0\<rparr>"

definition new_worker :: "WorkerConfig \<Rightarrow> World \<Rightarrow> RuntimeWorker" where
  "new_worker config world = \<lparr>wk_config = config, wk_client = new_client (make_client_config config),
     wk_handshake = outcome_unset, wk_stats = worker_stats_unset, wk_drained = False, wk_stop_requested = False,
     wk_registered = False, wk_world = world\<rparr>"

definition make_handshake :: "WorkerConfig \<Rightarrow> ProtocolHandshake" where
  "make_handshake config = \<lparr>hs_component = wc_component config, hs_version = wc_version config,
     hs_runtime_generation = wc_generation config, hs_worker = wc_worker config, hs_boot = wc_boot config,
     hs_protocol = wc_protocol config, hs_supported_protocols = wc_supported_protocols config,
     hs_required_minimum = gs_lowest (wc_supported_protocols config),
     hs_supported_schemas = wc_supported_schemas config,
     hs_committed_schema = (if gen_is_set (wc_committed_schema config) then wc_committed_schema config
       else gs_lowest (wc_supported_schemas config)),
     hs_capability_generation = wc_capability_generation config, hs_evolution_epoch = gen_unset,
     hs_coordinator_epoch = gen_unset, hs_features = wc_features config, hs_declared_role = worker_role config\<rparr>"

definition on_worker_stats :: "(WorkerStats \<Rightarrow> WorkerStats) \<Rightarrow> RuntimeWorker \<Rightarrow> RuntimeWorker" where
  "on_worker_stats f w = w\<lparr>wk_stats := f (wk_stats w)\<rparr>"

definition worker_request_stop :: "RuntimeWorker \<Rightarrow> RuntimeWorker" where
  "worker_request_stop w = w\<lparr>wk_stop_requested := True\<rparr>"


section \<open>The state file\<close>

definition read_state :: "RuntimeWorker \<Rightarrow> Status \<times> StateFile \<times> RuntimeWorker" where
  "read_state w =
     (if wc_state_path (wk_config w) = []
        then (failure InvalidArgument ''worker has no state path configured'', state_file_unset, w)
      else let (status, file, world) = read_state_file (wc_state_path (wk_config w)) (wk_world w)
        in (status, file, w\<lparr>wk_world := world\<rparr>))"

definition initial_state_file :: "StateObject \<Rightarrow> StateFile" where
  "initial_state_file object = \<lparr>sfl_header = header_unset\<lparr>fh_format := kStateFormatGenerationV1,
     fh_schema := component_state_schema, fh_generation := 1, fh_migration := gen_unset, fh_epoch := 1,
     fh_policy := gen_unset\<rparr>, sfl_payload = so_encode object\<rparr>"

text \<open>The token is built from \<open>owner.data()\<close>, a C string that may go on after the view: \<open>owner_data\<close> is
  what it holds.\<close>

definition initialize_state :: "string \<Rightarrow> string \<Rightarrow> u64 \<Rightarrow> RuntimeWorker \<Rightarrow> Status \<times> RuntimeWorker" where
  "initialize_state owner owner_data mutation_counter w =
     (if wc_state_path (wk_config w) = []
        then (failure InvalidArgument ''worker has no state path configured'', w)
      else let (present, world) = file_exists (wc_state_path (wk_config w)) (wk_world w); w = w\<lparr>wk_world := world\<rparr> in
        if present then (status_ok, w)
        else let (status, object) = set_text [] (ident63 ''owner'') owner in
          if is_failure status then (status, w)
          else let (status, object) = set_u64 object (ident63 ''mutation_counter'') mutation_counter in
            if is_failure status then (status, w)
            else let (status, object) = set_text object (ident63 ''legacy_token'') (''token-'' @ owner_data) in
              if is_failure status then (status, w)
              else let (status, world) = write_state_file (wc_state_path (wk_config w)) (initial_state_file object) (wk_world w)
                in (status, w\<lparr>wk_world := world\<rparr>))"

definition observed_schema :: "RuntimeWorker \<Rightarrow> gen \<times> RuntimeWorker" where
  "observed_schema w =
     (let (read, file, w) = read_state w in (if is_ok read then fh_generation (sfl_header file) else gen_unset, w))"

definition observed_state_digest :: "RuntimeWorker \<Rightarrow> IntegrityDigest \<times> RuntimeWorker" where
  "observed_state_digest w =
     (let (read, file, w) = read_state w
      in (if is_failure read then digest_zero else fh_payload_digest (sfl_header file), w))"

definition mutation_counter_of :: "StateObject \<Rightarrow> u64" where
  "mutation_counter_of object =
     (case so_find object (ident63 ''mutation_counter'') of None \<Rightarrow> 0 | Some v \<Rightarrow> sv_number v)"

definition observed_counter :: "RuntimeWorker \<Rightarrow> u64 \<times> RuntimeWorker" where
  "observed_counter w =
     (let (read, file, w) = read_state w in
      if is_failure read then (0, w)
      else let (decoded, object) = so_decode (sfl_payload file) in
        (if is_failure decoded then 0 else mutation_counter_of object, w))"

definition apply_mutation :: "u64 \<Rightarrow> RuntimeWorker \<Rightarrow> Status \<times> RuntimeWorker" where
  "apply_mutation amount w =
     (if \<not> permits_mutation (pi_operation (cl_peer (wk_client w)))
        then (failure Unauthorized ''negotiated operation class does not permit mutating this runtime's state'',
              on_worker_stats (\<lambda>st. st\<lparr>ws_mutations_rejected := ws_mutations_rejected st + 1\<rparr>) w)
      else let (read, file, w) = read_state w in
        if is_failure read then (read, w)
        else let (decoded, object) = so_decode (sfl_payload file) in
          if is_failure decoded then (decoded, w)
          else let (stored, object) = set_u64 object (ident63 ''mutation_counter'') (mutation_counter_of object + amount) in
            if is_failure stored then (stored, w)
            else let (written, world) = write_state_file (wc_state_path (wk_config w))
                       (file\<lparr>sfl_payload := so_encode object\<rparr>) (wk_world w);
                     w = w\<lparr>wk_world := world\<rparr>
              in if is_failure written then (written, w)
                 else (status_ok, on_worker_stats (\<lambda>st. st\<lparr>ws_mutations_applied := ws_mutations_applied st + 1\<rparr>) w))"


section \<open>Requests to the coordinator\<close>

definition worker_request :: "MessageType \<Rightarrow> WireMessage \<Rightarrow> RuntimeWorker \<Rightarrow> (Status \<times> WireMessage \<times> RuntimeWorker) option" where
  "worker_request type payload w =
     do { (status, response, body, client) \<leftarrow> client_request type payload (wk_client w);
          Some (status, body, w\<lparr>wk_client := client\<rparr>) }"

definition status_text_ok :: "WireMessage \<Rightarrow> bool" where
  "status_text_ok body \<longleftrightarrow> msg_text body ''status'' = Some ''OK''"

definition encode_migrations :: "MigrationCapability list \<Rightarrow> string" where
  "encode_migrations ms = foldl (\<lambda>out m. (if out \<noteq> [] then out @ '','' else out) @ MigrationCapability.mc_id m @ '':''
     @ dec_u64 (MigrationCapability.mc_source m) @ '':'' @ dec_u64 (MigrationCapability.mc_target m)) [] ms"

definition registration_message :: "WorkerConfig \<Rightarrow> WireMessage" where
  "registration_message config =
     (let protocols = encode_generation_set (wc_supported_protocols config);
          schemas = encode_generation_set (wc_supported_schemas config);
          m = (with_text ''provenance'' (evidence_class_to_string Real)
            \<circ> with_text ''lifecycle'' (lifecycle_to_string LifecycleState.Registered)
            \<circ> with_u64 ''capability_generation'' (wc_capability_generation config)
            \<circ> with_text ''writable_schemas'' schemas \<circ> with_text ''readable_schemas'' schemas
            \<circ> with_text ''supported_schemas'' schemas
            \<circ> with_u64 ''min_safety_protocol'' (gs_lowest (wc_supported_protocols config))
            \<circ> with_text ''writable_protocols'' protocols \<circ> with_text ''readable_protocols'' protocols
            \<circ> with_text ''supported_protocols'' protocols
            \<circ> with_u64 ''runtime_generation'' (wc_generation config)
            \<circ> with_text ''artifact'' (build (artifact (wc_version config)))
            \<circ> with_text ''version'' (version_to_string (number (wc_version config)))
            \<circ> with_text ''component'' (wc_component config)) [];
          m = (if wc_features config \<noteq> [] then with_text ''features'' (encode_features (wc_features config)) m else m)
      in if wc_migrations config \<noteq> [] then with_text ''migrations'' (encode_migrations (wc_migrations config)) m else m)"

definition reconciliation_json :: "Status \<Rightarrow> StateFile \<Rightarrow> string" where
  "reconciliation_json read file =
     (let generation = fh_generation (sfl_header file); q = [CHR 0x22] in
      ''{'' @ q @ ''state_generation'' @ q @ '': '' @ (if gen_is_set generation then dec_u64 generation else ''0'')
      @ '', '' @ q @ ''observed'' @ q @ '': '' @ q @ (if is_ok read then ''STATE_DECODED'' else ''STATE_UNREADABLE'')
      @ q @ ''}'')"

definition reconciliation_message :: "WorkerConfig \<Rightarrow> Status \<Rightarrow> StateFile \<Rightarrow> WireMessage" where
  "reconciliation_message config read file =
     (let m = with_u64 ''boot'' (wc_boot config) (with_text ''component'' (wc_component config) []);
          m = snd (wm_set_document m (ident63 ''json'') (reconciliation_json read file));
          m = (if is_ok read then with_u64 ''state_generation'' (fh_generation (sfl_header file)) m else m)
      in with_u64 ''boot'' (wc_boot config) m)"

definition report_reconciliation :: "RuntimeWorker \<Rightarrow> (Status \<times> RuntimeWorker) option" where
  "report_reconciliation w =
     (let (read, file, w) = read_state w in
      do { (sent, body, w) \<leftarrow> worker_request ReconcileReport (reconciliation_message (wk_config w) read file) w;
           Some (if is_failure sent then sent else status_ok, w) })"

definition send_heartbeat :: "RuntimeWorker \<Rightarrow> (Status \<times> RuntimeWorker) option" where
  "send_heartbeat w =
     (let (schema, w) = observed_schema w; config = wk_config w;
          m = (with_u64 ''committed_schema'' schema \<circ> with_u64 ''capability_generation'' (wc_capability_generation config)
            \<circ> with_u64 ''boot'' (wc_boot config) \<circ> with_text ''worker'' (wc_worker config)) []
      in do { (sent, body, w) \<leftarrow> worker_request Heartbeat m w;
              Some (if is_failure sent then sent
                    else if status_text_ok body then status_ok
                    else failure StaleBoot ''heartbeat was refused by the coordinator'', w) })"

definition completion_message :: "WorkerConfig \<Rightarrow> ident \<Rightarrow> ident \<Rightarrow> gen \<Rightarrow> MigrationOutcome \<Rightarrow> IntegrityDigest \<Rightarrow> bool
    \<Rightarrow> WireMessage" where
  "completion_message config plan stage_id stage_generation outcome digest drain =
     (let m = (with_u64 ''boot'' (wc_boot config) \<circ> with_text ''worker'' (wc_worker config)
            \<circ> with_text ''state_digest'' (digest_to_hex digest)
            \<circ> with_text ''migration_outcome'' (migration_outcome_to_string outcome)
            \<circ> with_u64 ''stage_generation'' stage_generation \<circ> with_text ''stage_id'' stage_id
            \<circ> with_text ''plan'' plan) []
      in if drain then with_bool ''drain'' True m else m)"

definition send_completion :: "ident \<Rightarrow> ident \<Rightarrow> gen \<Rightarrow> MigrationOutcome \<Rightarrow> IntegrityDigest \<Rightarrow> bool \<Rightarrow> RuntimeWorker
    \<Rightarrow> (Status \<times> RuntimeWorker) option" where
  "send_completion plan stage_id stage_generation outcome digest drain w =
     do { (sent, body, w) \<leftarrow> worker_request PublishCompletion
            (completion_message (wk_config w) plan stage_id stage_generation outcome digest drain) w;
          Some (if is_failure sent then sent
                else if status_text_ok body then status_ok
                else failure Conflict ''coordinator rejected the completion report'', w) }"

definition refused_registration :: "WireMessage \<Rightarrow> Status" where
  "refused_registration body =
     (let text = msg_text body ''status'' in
      failure (case text of None \<Rightarrow> Conflict | Some t \<Rightarrow> (case parse_error_code t of Some e \<Rightarrow> e | None \<Rightarrow> Conflict))
        (''runtime registration was refused: '' @ (case text of Some t \<Rightarrow> t | None \<Rightarrow> [])
         @ (case msg_text body ''detail'' of Some d \<Rightarrow> '': '' @ d | None \<Rightarrow> [])))"

definition connect_and_register :: "Dial \<Rightarrow> RuntimeWorker \<Rightarrow> (Status \<times> HandshakeOutcome \<times> RuntimeWorker) option" where
  "connect_and_register d w =
     do { (connected, outcome, client) \<leftarrow> client_connect d (make_handshake (wk_config w)) (wk_client w);
          let w = w\<lparr>wk_client := client\<rparr>;
          if is_failure connected then Some (connected, outcome, w)
          else do {
            let w = w\<lparr>wk_handshake := outcome\<rparr>;
            (registered, body, w) \<leftarrow> worker_request RegisterComponent (registration_message (wk_config w)) w;
            if is_failure registered then Some (registered, outcome, w)
            else if \<not> status_text_ok body then Some (refused_registration body, outcome, w)
            else do {
              let w = w\<lparr>wk_registered := True\<rparr>;
              (_, w) \<leftarrow> (if wc_reconcile_on_start (wk_config w) then report_reconciliation w else Some (status_ok, w));
              Some (status_ok, outcome, w) } } }"


section \<open>Requests from the coordinator\<close>

datatype served = Served Status | Exited

definition served_as :: "(Status \<times> RuntimeWorker) option \<Rightarrow> (served \<times> RuntimeWorker) option" where
  "served_as r = map_option (\<lambda>(status, w). (Served status, w)) r"

definition handle_drain :: "WireMessage \<Rightarrow> RuntimeWorker \<Rightarrow> (served \<times> RuntimeWorker) option" where
  "handle_drain message w =
     (let w = on_worker_stats (\<lambda>st. st\<lparr>ws_drains_completed := ws_drains_completed st + 1\<rparr>) (w\<lparr>wk_drained := True\<rparr>);
          (digest, w) = observed_state_digest w
      in served_as (send_completion (msg_ident message ''plan'') (ident63 ''drain'') (msg_gen message ''stage_generation'')
           NotRequired digest True w))"

definition frame_epoch :: "Frame \<Rightarrow> gen" where
  "frame_epoch frame = (if gen_is_set (wh_evolution_epoch (fr_header frame)) then wh_evolution_epoch (fr_header frame) else 1)"

definition worker_contract :: "WorkerConfig \<Rightarrow> Frame \<Rightarrow> WireMessage \<Rightarrow> MigrationContract" where
  "worker_contract config frame message = \<lparr>mc_id = msg_ident message ''migration'',
     mc_generation = (if gen_is_set (msg_gen message ''migration_generation'') then msg_gen message ''migration_generation''
       else gen_first),
     mc_schema = component_state_schema, mc_source = msg_gen message ''source'', mc_target = msg_gen message ''target'',
     mc_runtime_generation = wc_generation config, mc_epoch = frame_epoch frame, mc_policy = gen_unset,
     mc_plan = msg_ident message ''plan'', mc_irreversible = False, mc_preserve_rollback_metadata = True,
     mc_irreversible_acknowledged = True\<rparr>"

definition migration_refused :: "MigrationResult \<Rightarrow> bool" where
  "migration_refused result \<longleftrightarrow> is_failure (mr_status result) \<and> mr_outcome result \<noteq> Irreversible
     \<and> mr_outcome result \<noteq> RollbackAvailable"

definition blocked_migration :: "RuntimeWorker \<Rightarrow> RuntimeWorker" where
  "blocked_migration w = on_worker_stats (\<lambda>st. st\<lparr>ws_migrations_blocked := ws_migrations_blocked st + 1\<rparr>) w"

definition handle_migration :: "Frame \<Rightarrow> WireMessage \<Rightarrow> RuntimeWorker \<Rightarrow> (served \<times> RuntimeWorker) option" where
  "handle_migration frame message w =
     (let plan = msg_ident message ''plan''; stage_id = ident63 ''migration'';
          stage_generation = msg_gen message ''stage_generation'' in
      do { (_, w) \<leftarrow> send_heartbeat w;
           if \<not> permits_mutation (pi_operation (cl_peer (wk_client w))) then
             do { (_, w) \<leftarrow> send_completion plan stage_id stage_generation Blocked digest_zero False (blocked_migration w);
                  Some (Served (failure Unauthorized
                    ''migration refused: the negotiated operation class does not permit mutation''), w) }
           else
             (let (installed, schemas) = install_builtin_state_schemas om_empty in
              if is_failure installed then Some (Served installed, w)
              else
                let (result, world) = migrate (Some schemas) (wc_state_path (wk_config w))
                      (worker_contract (wk_config w) frame message) (wk_world w);
                    w = w\<lparr>wk_world := world\<rparr>
                in if migration_refused result then
                     do { (_, w) \<leftarrow> send_completion plan stage_id stage_generation (mr_outcome result) (mr_target_digest result)
                            False (blocked_migration w);
                          Some (Served (mr_status result), w) }
                   else
                     let w = on_worker_stats (\<lambda>st. st\<lparr>ws_migrations_committed := ws_migrations_committed st + 1\<rparr>) w in
                     if wc_crash_after_migration_commit (wk_config w) then Some (Exited, w)
                     else served_as (send_completion plan stage_id stage_generation (mr_outcome result)
                       (mr_target_digest result) False w)) })"

definition rollback_contract :: "WorkerConfig \<Rightarrow> Frame \<Rightarrow> WireMessage \<Rightarrow> gen \<Rightarrow> MigrationContract" where
  "rollback_contract config frame message observed = \<lparr>mc_id = ident63 ''rollback'', mc_generation = gen_first,
     mc_schema = component_state_schema, mc_source = observed, mc_target = msg_gen message ''target_schema'',
     mc_runtime_generation = wc_generation config, mc_epoch = frame_epoch frame, mc_policy = gen_unset,
     mc_plan = msg_ident message ''plan'', mc_irreversible = False, mc_preserve_rollback_metadata = True,
     mc_irreversible_acknowledged = False\<rparr>"

definition handle_rollback :: "Frame \<Rightarrow> WireMessage \<Rightarrow> RuntimeWorker \<Rightarrow> (served \<times> RuntimeWorker) option" where
  "handle_rollback frame message w =
     (let (installed, schemas) = install_builtin_state_schemas om_empty in
      if is_failure installed then Some (Served installed, w)
      else
        let (read, file, w) = read_state w in
        if is_failure read then Some (Served read, w)
        else
          let (result, world) = migration_reverse (wc_state_path (wk_config w))
                (rollback_contract (wk_config w) frame message (fh_generation (sfl_header file))) (wk_world w);
              w = w\<lparr>wk_world := world\<rparr>;
              w = (if is_ok (mr_status result)
                   then on_worker_stats (\<lambda>st. st\<lparr>ws_rollbacks_applied := ws_rollbacks_applied st + 1\<rparr>) w else w)
          in do { (_, w) \<leftarrow> send_completion (msg_ident message ''plan'') (ident63 ''rollback'') 0 (mr_outcome result)
                    (mr_target_digest result) False w;
                  Some (Served (mr_status result), w) })"

definition rejected_frame :: "RuntimeWorker \<Rightarrow> RuntimeWorker" where
  "rejected_frame w = on_worker_stats (\<lambda>st. st\<lparr>ws_frames_rejected := ws_frames_rejected st + 1\<rparr>) w"

definition handle_state_transform :: "Frame \<Rightarrow> WireMessage \<Rightarrow> RuntimeWorker \<Rightarrow> (served \<times> RuntimeWorker) option" where
  "handle_state_transform frame message w =
     (if pi_agreed_protocol (cl_peer (wk_client w)) < 2
        then Some (Served (failure Unauthorized ''state transformation requires the protocol-2 negotiation''), rejected_frame w)
      else handle_migration frame message w)"

definition serve_frame :: "Frame \<Rightarrow> RuntimeWorker \<Rightarrow> (served \<times> RuntimeWorker) option" where
  "serve_frame frame w =
     (let h = fr_header frame; envelope = validate_frame_envelope frame kFrameBytes;
          refuse = (\<lambda>status. Some (Served status, rejected_frame w)) in
      if is_failure envelope then refuse envelope
      else if wh_boot h \<noteq> wc_boot (wk_config w)
        then refuse (failure StaleBoot ''frame boot identity does not match this process'')
      else if gen_is_set (wh_protocol_generation h)
              \<and> wh_protocol_generation h > pi_agreed_protocol (cl_peer (wk_client w))
        then refuse (failure StaleGeneration ''frame protocol generation exceeds the negotiated generation'')
      else let (decoded, message) = wm_decode (fr_payload frame) in
        if is_failure decoded then refuse decoded
        else (case wh_type h of
            RequestDrain \<Rightarrow> handle_drain message w
          | RequestMigration \<Rightarrow> handle_migration frame message w
          | RequestRollback \<Rightarrow> handle_rollback frame message w
          | RequestStateTransform \<Rightarrow> handle_state_transform frame message w
          | MessageType.Error \<Rightarrow> Some (Served (failure ErrorCode.Retired ''coordinator closed the session''), w)
          | Goodbye \<Rightarrow> Some (Served (failure ErrorCode.Retired ''coordinator closed the session''), w)
          | _ \<Rightarrow> refuse (failure ErrorCode.Unsupported ''worker does not accept this message type'')))"

definition serve_one :: "RuntimeWorker \<Rightarrow> (served \<times> RuntimeWorker) option" where
  "serve_one w =
     do { (received, frame, connection) \<leftarrow> recv_frame (cl_connection (wk_client w));
          let w = w\<lparr>wk_client := (wk_client w)\<lparr>cl_connection := connection\<rparr>\<rparr>;
          if is_failure received then Some (Served received, w)
          else serve_frame frame (on_worker_stats (\<lambda>st. st\<lparr>ws_frames_received := ws_frames_received st + 1\<rparr>) w) }"

text \<open>The loop serves at most \<open>n\<close> frames; with none left it has not returned.\<close>

fun serve :: "nat \<Rightarrow> RuntimeWorker \<Rightarrow> (served \<times> RuntimeWorker) option" where
  "serve 0 w = (if wk_stop_requested w then Some (Served status_ok, w) else None)"
| "serve (Suc n) w =
     (if wk_stop_requested w then Some (Served status_ok, w)
      else do { (result, w) \<leftarrow> serve_one w;
                case result of
                  Exited \<Rightarrow> Some (Exited, w)
                | Served status \<Rightarrow> if is_failure status then Some (Served status, w) else serve n w })"

end
