(* ===== verification/Ref_Handshake.thy ===== *)
theory Ref_Handshake
  imports Ref_Client
begin

text \<open>
  The handshake end to end: what the client writes into its hello message is what the coordinator reads, and what the
  coordinator answers is what the client keeps, so both sides hold the same session.
\<close>

section \<open>Messages as lists of written fields\<close>

definition num_field :: "ident \<Rightarrow> u64 \<Rightarrow> WireField" where
  "num_field nm v = wire_field\<lparr>wf_name := nm, wf_kind := 0, wf_number := v\<rparr>"

definition bool_field :: "ident \<Rightarrow> bool \<Rightarrow> WireField" where
  "bool_field nm b = wire_field\<lparr>wf_name := nm, wf_kind := 2, wf_number := if b then 1 else 0\<rparr>"

definition text_field :: "ident \<Rightarrow> string \<Rightarrow> WireField" where
  "text_field nm t = wire_field\<lparr>wf_name := nm, wf_kind := 1, wf_text := t\<rparr>"

definition doc_field :: "ident \<Rightarrow> string \<Rightarrow> WireField" where
  "doc_field nm t = wire_field\<lparr>wf_name := nm, wf_kind := 4, wf_text := t\<rparr>"

lemmas field_defs = num_field_def bool_field_def text_field_def doc_field_def

definition written :: "WireField list \<Rightarrow> WireMessage" where
  "written vs = foldl (\<lambda>m v. snd (wm_assign m v)) [] vs"

lemma with_writes:
  "with_u64 nm v m = snd (wm_assign m (num_field (ident63 nm) v))"
  "with_bool nm b m = snd (wm_assign m (bool_field (ident63 nm) b))"
  "with_text nm t m = (if text_ok kTextBytes t then snd (wm_assign m (text_field (ident63 nm) t)) else m)"
  "snd (wm_set_document m n t) = (if text_ok kQueryBytes t then snd (wm_assign m (doc_field n t)) else m)"
  by (auto simp: with_u64_def with_bool_def with_text_def wm_set_u64_def wm_set_bool_def wm_set_text_def
      wm_set_document_def field_defs text_ok_def)

lemma written_snoc: "written (vs @ [v]) = snd (wm_assign (written vs) v)"
  by (simp add: written_def)

lemma written_inv: "list_all wf_ok vs \<Longrightarrow> wm_inv (written vs)"
proof (induction vs rule: rev_induct)
  case (snoc v vs)
  then show ?case by (simp add: written_snoc wm_inv_def wm.assign_inv)
qed (simp add: written_def wm_inv_def)

lemma written_reads:
  assumes "list_all wf_ok vs" "length vs \<le> kMessageFields"
  shows "length (written vs) \<le> length vs \<and> wm_field (written vs) n = map_of (rev (map (\<lambda>v. (wf_name v, v)) vs)) n"
  using assms
proof (induction vs rule: rev_induct)
  case (snoc v vs)
  then have IH: "length (written vs) \<le> length vs"
    "wm_field (written vs) n = map_of (rev (map (\<lambda>v. (wf_name v, v)) vs)) n" by simp_all
  have ok: "om_ok (keyed wf_name (written vs))"
    using written_inv [of vs] snoc.prems(1) by (simp add: wm_inv_def fields_inv_def)
  have room: "length (written vs) < kMessageFields" and named: "wf_name v \<noteq> []"
    using IH(1) snoc.prems by (simp_all add: wf_ok_def)
  from wm.assign_spec [OF ok, of v] room named
  have "wm_field (snd (wm_assign (written vs) v)) = (wm_field (written vs))(wf_name v \<mapsto> v)" by simp
  moreover have "length (snd (wm_assign (written vs) v)) \<le> Suc (length (written vs))"
    by (auto simp: wm_assign_def Let_def)
  ultimately show ?case using IH by (auto simp: written_snoc)
qed (simp add: written_def wm_field_def)

lemma written_field_kinds [simp]:
  "wf_name (num_field nm v) = nm" "wf_name (bool_field nm b) = nm" "wf_name (text_field nm t) = nm" "wf_name (doc_field nm t) = nm"
  "wf_kind (num_field nm v) = 0" "wf_kind (bool_field nm b) = 2" "wf_kind (text_field nm t) = 1" "wf_kind (doc_field nm t) = 4"
  "wf_number (num_field nm v) = v" "wf_number (bool_field nm b) = (if b then 1 else 0)"
  "wf_text (text_field nm t) = t" "wf_text (doc_field nm t) = t"
  by (simp_all add: field_defs)

lemma written_field_ok:
  "nm \<noteq> [] \<Longrightarrow> ident_ok 63 nm \<Longrightarrow> wf_ok (num_field nm v)"
  "nm \<noteq> [] \<Longrightarrow> ident_ok 63 nm \<Longrightarrow> wf_ok (bool_field nm b)"
  "nm \<noteq> [] \<Longrightarrow> ident_ok 63 nm \<Longrightarrow> text_ok kTextBytes t \<Longrightarrow> wf_ok (text_field nm t)"
  "nm \<noteq> [] \<Longrightarrow> ident_ok 63 nm \<Longrightarrow> text_ok kQueryBytes t \<Longrightarrow> wf_ok (doc_field nm t)"
  by (simp_all add: wf_ok_def field_defs wire_field_def text_ok_def)

lemma ident63_valid: "s \<noteq> [] \<Longrightarrow> ident_ok 63 s \<Longrightarrow> ident63 s = s"
  by (simp add: ident63_def ident_from_valid_def ident_parse_def ident_ok_def)

definition plain_name :: "string \<Rightarrow> bool" where
  "plain_name s \<longleftrightarrow> s \<noteq> [] \<and> ident_ok 63 s"

lemma plain_name_simps: "plain_name s \<Longrightarrow> ident63 s = s" "plain_name s \<Longrightarrow> s \<noteq> []" "plain_name s \<Longrightarrow> ident_ok 63 s"
  by (simp_all add: plain_name_def ident63_valid)

lemma plain_names:
  "list_all plain_name [''component'', ''version'', ''artifact'', ''runtime_generation'', ''worker'', ''boot'', ''protocol'',
     ''supported_protocols'', ''required_minimum'', ''supported_schemas'', ''committed_schema'', ''capability_generation'',
     ''evolution_epoch'', ''coordinator_epoch'', ''declared_role'', ''features'', ''status'', ''detail'', ''json'',
     ''negotiated_protocol'', ''negotiated_schema'', ''operation_class'', ''stage_generation'', ''gate_generation'',
     ''matrix_generation'', ''authoritative_generation'', ''registered'', ''new_writer_enabled'', ''plan'', ''stage_id'',
     ''migration_outcome'', ''state_digest'', ''drain'', ''migration'', ''migration_generation'', ''source'', ''target'',
     ''target_schema'', ''state_generation'', ''irreversible'', ''action_id'']"
  by (simp add: plain_name_def ident_ok_def is_valid_ident_char_def less_eq_char_def)

declare plain_names [simplified list.pred_inject simp_thms, simp]

lemma ident63_plain [simp]: "plain_name s \<Longrightarrow> ident63 s = s"
  by (rule plain_name_simps)

lemma plain_field_ok [simp]:
  "plain_name nm \<Longrightarrow> wf_ok (num_field nm v)" "plain_name nm \<Longrightarrow> wf_ok (bool_field nm b)"
  "plain_name nm \<Longrightarrow> text_ok kTextBytes t \<Longrightarrow> wf_ok (text_field nm t)"
  "plain_name nm \<Longrightarrow> text_ok kQueryBytes t \<Longrightarrow> wf_ok (doc_field nm t)"
  by (simp_all add: plain_name_def written_field_ok)

text \<open>The structured answer to a handshake, and what the client reads in it.\<close>

definition hello_writes :: "DurableState \<Rightarrow> PeerIdentity \<Rightarrow> WireField list" where
  "hello_writes s peer = [num_field ''negotiated_protocol'' (pi_agreed_protocol peer),
     num_field ''negotiated_schema'' (pi_agreed_schema peer),
     text_field ''operation_class'' (operation_class_to_string (pi_operation peer)),
     num_field ''evolution_epoch'' (pi_epoch peer), num_field ''coordinator_epoch'' (pi_coordinator_epoch peer),
     num_field ''stage_generation'' (ds_stage_generation s), num_field ''gate_generation'' (fgr_generation (ds_gates s)),
     num_field ''matrix_generation'' (mat_generation (ds_matrix s)), bool_field ''registered'' (pi_registered peer),
     bool_field ''new_writer_enabled'' (case active_plan s (pi_component peer) of Some p \<Rightarrow> ep_new_writer_enabled p | None \<Rightarrow> False),
     num_field ''authoritative_generation''
       (case authoritative_generation (ds_components s) (pi_component peer) of Some g \<Rightarrow> g | None \<Rightarrow> gen_unset)]"

lemma operation_class_text: "text_ok kTextBytes (operation_class_to_string k)"
  by (cases k) (simp_all add: text_ok_def kTextBytes_def is_valid_text_char_def less_eq_char_def)

lemma hello_fields_written: "hello_fields s peer = written (hello_writes s peer)"
  by (simp add: hello_fields_def hello_writes_def written_def with_writes operation_class_text)

lemma written_append: "written (vs @ ws) = foldl (\<lambda>m v. snd (wm_assign m v)) (written vs) ws"
  by (simp add: written_def)

lemma status_ok_text: "text_ok kTextBytes ''OK''" "text_ok kTextBytes []"
  by (simp_all add: text_ok_def kTextBytes_def is_valid_text_char_def)

lemma response_body_written:
  assumes "cr_fields result = written vs" "cr_status result = status_ok"
  obtains js where "response_body result = written (vs @ text_field ''status'' ''OK'' # text_field ''detail'' [] # js)"
    "js = [] \<or> (\<exists>t. js = [doc_field ''json'' t] \<and> text_ok kQueryBytes t)"
proof -
  define js where "js = (if cr_json result \<noteq> [] \<and> text_ok kQueryBytes (cr_json result)
    then [doc_field ''json'' (cr_json result)] else [])"
  have "response_body result = written (vs @ text_field ''status'' ''OK'' # text_field ''detail'' [] # js)"
    using assms by (simp add: response_body_def with_writes written_append status_ok_text js_def status_ok_def Let_def)
  then show thesis by (rule that) (auto simp: js_def)
qed

lemma hello_answer_read:
  assumes body: "body = written (hello_writes s peer @ text_field ''status'' ''OK'' # text_field ''detail'' [] # js)"
    and js: "js = [] \<or> (\<exists>t. js = [doc_field ''json'' t] \<and> text_ok kQueryBytes t)"
  shows "wm_inv body \<and> field_text body ''status'' = ''OK''
    \<and> field_u64 body ''negotiated_protocol'' = pi_agreed_protocol peer
    \<and> field_u64 body ''negotiated_schema'' = pi_agreed_schema peer
    \<and> field_text body ''operation_class'' = operation_class_to_string (pi_operation peer)
    \<and> field_u64 body ''evolution_epoch'' = pi_epoch peer
    \<and> field_u64 body ''coordinator_epoch'' = pi_coordinator_epoch peer
    \<and> (field_u64 body ''registered'' \<noteq> 0) = pi_registered peer"
proof -
  let ?vs = "hello_writes s peer @ text_field ''status'' ''OK'' # text_field ''detail'' [] # js"
  have ok: "list_all wf_ok ?vs" "length ?vs \<le> kMessageFields"
    using js by (auto simp: hello_writes_def operation_class_text status_ok_text kMessageFields_def)
  have read: "wm_field body n = map_of (rev (map (\<lambda>v. (wf_name v, v)) ?vs)) n" for n
    using written_reads [OF ok] body by simp
  from js have skip: "n \<noteq> ''json'' \<Longrightarrow> map_of (rev (map (\<lambda>v. (wf_name v, v)) js)) n = None" for n by auto
  have "wm_inv body" using written_inv [OF ok(1)] body by simp
  then show ?thesis
    by (simp add: field_text_def field_u64_def msg_text_def wm_text_def wm_u64_def read skip map_add_def hello_writes_def)
qed

section \<open>The handshake round-trips over the wire\<close>

definition feature_text :: "FeatureSupport \<Rightarrow> string" where
  "feature_text f = fs_feature f @ '':'' @ dec_u64 (fs_generation f) @ '':''
     @ (if fs_can_publish f then ''p'' else []) @ (if fs_can_consume f then ''c'' else [])"

text \<open>A feature that survives the text form: its name is an identifier without a colon.\<close>

definition feature_sendable :: "FeatureSupport \<Rightarrow> bool" where
  "feature_sendable f \<longleftrightarrow> plain_name (fs_feature f) \<and> CHR '':'' \<notin> set (fs_feature f) \<and> fs_generation f \<le> kGenerationCeiling"

lemma dec_u64_chars: "c \<in> set (dec_u64 g) \<Longrightarrow> c \<noteq> CHR '':'' \<and> c \<noteq> CHR '',''"
  using dec_digits [of c "unat g"] of_char_digit_char
  by (auto simp: dec_u64_def dest!: arg_cong [where f = "of_char :: char \<Rightarrow> nat"])

lemma plain_no_comma: "plain_name s \<Longrightarrow> CHR '','' \<notin> set s"
  by (auto simp: plain_name_def ident_ok_def list_all_iff is_valid_ident_char_def less_eq_char_def)

lemma takeWhile_sep: "x \<notin> set xs \<Longrightarrow> takeWhile (\<lambda>c. c \<noteq> x) (xs @ x # ys) = xs"
  "x \<notin> set xs \<Longrightarrow> dropWhile (\<lambda>c. c \<noteq> x) (xs @ x # ys) = x # ys"
  "x \<notin> set xs \<Longrightarrow> takeWhile (\<lambda>c. c \<noteq> x) xs = xs" "x \<notin> set xs \<Longrightarrow> dropWhile (\<lambda>c. c \<noteq> x) xs = []"
  by (induction xs) auto

lemma feature_text_no_comma: "feature_sendable f \<Longrightarrow> CHR '','' \<notin> set (feature_text f)"
  using dec_u64_chars by (auto simp: feature_text_def feature_sendable_def dest: plain_no_comma)

lemma feature_entry_text:
  assumes "feature_sendable f"
  shows "feature_entry (feature_text f) = Some f"
proof -
  have "CHR '':'' \<notin> set (fs_feature f)" "CHR '':'' \<notin> set (dec_u64 (fs_generation f))"
    using assms dec_u64_chars by (auto simp: feature_sendable_def)
  then have "colon_split (feature_text f) = Some (fs_feature f, dec_u64 (fs_generation f),
      Some ((if fs_can_publish f then ''p'' else []) @ (if fs_can_consume f then ''c'' else [])))"
    by (simp add: colon_split_def feature_text_def Let_def takeWhile_sep)
  with assms show ?thesis
    by (cases f) (auto simp: feature_entry_def feature_sendable_def plain_name_simps parse_or_zero_def parse_u64_roundtrip)
qed

definition feature_tail :: "FeatureSupport list \<Rightarrow> string" where
  "feature_tail fs = concat (map (\<lambda>f. '','' @ feature_text f) fs)"

lemma encode_features_fold:
  "encode_features fs = foldl (\<lambda>out f. (if out \<noteq> [] then out @ '','' else out) @ feature_text f) [] fs"
  unfolding encode_features_def feature_text_def by simp

lemma encode_features_tail:
  "out \<noteq> [] \<Longrightarrow> foldl (\<lambda>out f. (if out \<noteq> [] then out @ '','' else out) @ feature_text f) out fs = out @ feature_tail fs"
  by (induction fs arbitrary: out) (simp_all add: feature_tail_def)

lemma encode_features_Cons: "encode_features (f # fs) = feature_text f @ feature_tail fs"
proof -
  have "feature_text f \<noteq> []" by (simp add: feature_text_def)
  then show ?thesis by (simp add: encode_features_fold encode_features_tail)
qed

lemma comma_entries_features:
  assumes "list_all feature_sendable (f # fs)" "length acc + length (f # fs) \<le> cap"
  shows "comma_entries cap feature_entry (feature_text f @ feature_tail fs) acc = acc @ f # fs"
  using assms
proof (induction fs arbitrary: f acc)
  case Nil
  then show ?case
    using feature_text_no_comma [of f] feature_entry_text [of f]
    by (subst comma_entries.simps) (auto simp: feature_tail_def takeWhile_sep Let_def feature_text_def)
next
  case (Cons g fs)
  have "feature_text f @ feature_tail (g # fs) = feature_text f @ CHR '','' # (feature_text g @ feature_tail fs)"
    by (simp add: feature_tail_def)
  moreover have "feature_text f \<noteq> []" by (simp add: feature_text_def)
  ultimately show ?case
    using Cons.prems Cons.IH [of g "acc @ [f]"] feature_text_no_comma [of f] feature_entry_text [of f]
    by (subst comma_entries.simps) (simp add: takeWhile_sep Let_def)
qed

lemma decode_encoded_features:
  assumes "list_all feature_sendable fs" "length fs \<le> kFeatureGates"
  shows "decode_features (encode_features fs) = fs"
proof (cases fs)
  case Nil
  then show ?thesis by (simp add: decode_features_def encode_features_def comma_entries.simps)
next
  case (Cons f fs')
  with assms comma_entries_features [of f fs' "[]" kFeatureGates] show ?thesis
    by (simp add: decode_features_def encode_features_Cons)
qed

definition handshake_sendable :: "ProtocolHandshake \<Rightarrow> bool" where
  "handshake_sendable h \<longleftrightarrow> ident_ok 63 (hs_component h) \<and> ident_ok 63 (hs_worker h) \<and> ident_ok 63 (hs_protocol h)
     \<and> ident_ok 63 (build (artifact (hs_version h))) \<and> text_ok 96 (hs_declared_role h)
     \<and> list_all (\<lambda>s. gs_inv s \<and> list_all (\<lambda>g. g \<le> kGenerationCeiling) s \<and> text_ok kTextBytes (encode_generation_set s))
         [hs_supported_protocols h, hs_supported_schemas h]
     \<and> list_all feature_sendable (hs_features h) \<and> length (hs_features h) \<le> kFeatureGates
     \<and> text_ok kTextBytes (encode_features (hs_features h))"

text \<open>The content hash of the artifact is not sent.\<close>

definition sent_version :: "RuntimeVersionId \<Rightarrow> RuntimeVersionId" where
  "sent_version v = v\<lparr>artifact := (artifact version_unset)\<lparr>build := build (artifact v)\<rparr>\<rparr>"

lemma version_text: "text_ok kTextBytes (version_to_string v)"
proof -
  have len: "length (dec n) \<le> 10" if "n < 2 ^ 32" for n using that by (intro dec_length) simp_all
  have "unat (major v) < 2 ^ 32" "unat (minor v) < 2 ^ 32" "unat (patch v) < 2 ^ 32"
    using unsigned_less [of "major v", where ?'a = nat] unsigned_less [of "minor v", where ?'a = nat]
      unsigned_less [of "patch v", where ?'a = nat] by simp_all
  then have "length (dec (unat (major v))) \<le> 10" "length (dec (unat (minor v))) \<le> 10" "length (dec (unat (patch v))) \<le> 10"
    by (simp_all only: len)
  then have "length (version_to_string v) \<le> 512" by (simp add: version_to_string_def)
  moreover have "c \<in> set (dec n) \<Longrightarrow> is_valid_text_char c" for c n
    using dec_digits [of c n] by (auto simp: is_valid_text_char_def of_char_digit_char)
  ultimately show ?thesis
    by (auto simp: text_ok_def kTextBytes_def version_to_string_def list_all_iff is_valid_text_char_def)
qed

definition handshake_writes :: "ProtocolHandshake \<Rightarrow> WireField list" where
  "handshake_writes h = [text_field ''component'' (hs_component h),
     text_field ''version'' (version_to_string (number (hs_version h))),
     text_field ''artifact'' (build (artifact (hs_version h))),
     num_field ''runtime_generation'' (hs_runtime_generation h), text_field ''worker'' (hs_worker h),
     num_field ''boot'' (hs_boot h), text_field ''protocol'' (hs_protocol h),
     text_field ''supported_protocols'' (encode_generation_set (hs_supported_protocols h)),
     num_field ''required_minimum'' (hs_required_minimum h),
     text_field ''supported_schemas'' (encode_generation_set (hs_supported_schemas h)),
     num_field ''committed_schema'' (hs_committed_schema h), num_field ''capability_generation'' (hs_capability_generation h),
     num_field ''evolution_epoch'' (hs_evolution_epoch h), num_field ''coordinator_epoch'' (hs_coordinator_epoch h),
     text_field ''declared_role'' (hs_declared_role h)]
     @ (if hs_features h \<noteq> [] then [text_field ''features'' (encode_features (hs_features h))] else [])"

lemma text_ok_mono: "text_ok m t \<Longrightarrow> m \<le> n \<Longrightarrow> text_ok n t"
  by (auto simp: text_ok_def)

lemma sendable_texts:
  assumes "handshake_sendable h"
  shows "text_ok kTextBytes (hs_component h)" "text_ok kTextBytes (hs_worker h)" "text_ok kTextBytes (hs_protocol h)"
    "text_ok kTextBytes (build (artifact (hs_version h)))" "text_ok kTextBytes (hs_declared_role h)"
    "text_ok kTextBytes (encode_generation_set (hs_supported_protocols h))"
    "text_ok kTextBytes (encode_generation_set (hs_supported_schemas h))"
    "text_ok kTextBytes (encode_features (hs_features h))"
  using assms unfolding handshake_sendable_def
  by (auto intro: text_ok_mono [OF ident_ok_text_ok] text_ok_mono simp: kTextBytes_def)

lemma hello_payload_written:
  assumes "handshake_sendable h"
  shows "hello_payload h = written (handshake_writes h)"
proof -
  have "encode_features (hs_features h) \<noteq> [] \<longleftrightarrow> hs_features h \<noteq> []"
    by (cases "hs_features h") (simp_all add: encode_features_Cons feature_text_def, simp add: encode_features_def)
  then show ?thesis
    by (simp add: hello_payload_def with_writes sendable_texts [OF assms] version_text handshake_writes_def written_def Let_def)
qed

lemma handshake_writes_ok:
  "handshake_sendable h \<Longrightarrow> list_all wf_ok (handshake_writes h)" "length (handshake_writes h) \<le> kMessageFields"
  by (simp_all add: handshake_writes_def sendable_texts version_text kMessageFields_def)

lemma msg_reads:
  assumes "list_all wf_ok vs" "length vs \<le> kMessageFields" "plain_name nm"
  shows "wm_text (written vs) nm = (case map_of (rev (map (\<lambda>v. (wf_name v, v)) vs)) nm of None \<Rightarrow> None
      | Some e \<Rightarrow> if wf_kind e \<noteq> 1 \<and> wf_kind e \<noteq> 4 then None else Some (wf_text e))"
    "wm_u64 (written vs) nm = (case map_of (rev (map (\<lambda>v. (wf_name v, v)) vs)) nm of None \<Rightarrow> None
      | Some e \<Rightarrow> if wf_kind e \<noteq> 0 \<and> wf_kind e \<noteq> 2 then None else Some (wf_number e))"
  using written_reads [OF assms(1,2)] by (simp_all add: wm_text_def wm_u64_def)

lemma written_distinct:
  assumes "list_all wf_ok vs" "length vs \<le> kMessageFields" "distinct (map wf_name vs)" "v \<in> set vs"
  shows "wm_field (written vs) (wf_name v) = Some v"
proof -
  have "distinct (map fst (rev (map (\<lambda>v. (wf_name v, v)) vs)))" using assms(3) by (simp add: comp_def distinct_map rev_map)
  then have "map_of (rev (map (\<lambda>v. (wf_name v, v)) vs)) (wf_name v) = Some v" using assms(4) by (intro map_of_is_SomeI) auto
  with written_reads [OF assms(1,2)] show ?thesis by simp
qed

lemma ident63_ident_ok: "ident_ok 63 s \<Longrightarrow> ident63 s = s" "ident_ok 63 s \<Longrightarrow> ident_from_valid 63 s = s"
  by (cases "s = []"; simp add: ident63_def ident_from_valid_def ident_parse_def ident_ok_def)+

lemma note96_text_ok: "text_ok 96 s \<Longrightarrow> note96 s = s"
  by (simp add: note96_def text_from_valid_def text_parse_def text_ok_def)

lemma handshake_names: "distinct [''component'', ''version'', ''artifact'', ''runtime_generation'', ''worker'', ''boot'', ''protocol'',
     ''supported_protocols'', ''required_minimum'', ''supported_schemas'', ''committed_schema'', ''capability_generation'',
     ''evolution_epoch'', ''coordinator_epoch'', ''declared_role'', ''features'']"
  by simp

lemma handshake_fields:
  assumes h: "handshake_sendable h"
  shows "list_all (\<lambda>v. wm_field (written (handshake_writes h)) (wf_name v) = Some v) (handshake_writes h)"
    "hs_features h = [] \<Longrightarrow> wm_field (written (handshake_writes h)) ''features'' = None"
proof -
  have "distinct (map wf_name (handshake_writes h))" using handshake_names by (simp add: handshake_writes_def)
  with written_distinct [OF handshake_writes_ok(1) [OF h] handshake_writes_ok(2)]
  show "list_all (\<lambda>v. wm_field (written (handshake_writes h)) (wf_name v) = Some v) (handshake_writes h)" by (simp add: list_all_iff)
  show "hs_features h = [] \<Longrightarrow> wm_field (written (handshake_writes h)) ''features'' = None"
    using written_reads [OF handshake_writes_ok(1) [OF h] handshake_writes_ok(2)] handshake_names
    by (simp add: handshake_writes_def)
qed

lemma handshake_read:
  assumes h: "handshake_sendable h"
  shows "frame_handshake (written (handshake_writes h)) = h\<lparr>hs_version := sent_version (hs_version h)\<rparr>"
proof -
  define m where "m = written (handshake_writes h)"
  note fields = handshake_fields [OF h, folded m_def]
  have read: "hs_features h = [] \<Longrightarrow> wm_field m ''features'' = None"
    "hs_features h \<noteq> [] \<Longrightarrow> wm_field m ''features'' = Some (text_field ''features'' (encode_features (hs_features h)))"
    "wm_field m ''component'' = Some (text_field ''component'' (hs_component h))"
    "wm_field m ''version'' = Some (text_field ''version'' (version_to_string (number (hs_version h))))"
    "wm_field m ''artifact'' = Some (text_field ''artifact'' (build (artifact (hs_version h))))"
    "wm_field m ''runtime_generation'' = Some (num_field ''runtime_generation'' (hs_runtime_generation h))"
    "wm_field m ''worker'' = Some (text_field ''worker'' (hs_worker h))"
    "wm_field m ''boot'' = Some (num_field ''boot'' (hs_boot h))"
    "wm_field m ''protocol'' = Some (text_field ''protocol'' (hs_protocol h))"
    "wm_field m ''supported_protocols'' = Some (text_field ''supported_protocols'' (encode_generation_set (hs_supported_protocols h)))"
    "wm_field m ''required_minimum'' = Some (num_field ''required_minimum'' (hs_required_minimum h))"
    "wm_field m ''supported_schemas'' = Some (text_field ''supported_schemas'' (encode_generation_set (hs_supported_schemas h)))"
    "wm_field m ''committed_schema'' = Some (num_field ''committed_schema'' (hs_committed_schema h))"
    "wm_field m ''capability_generation'' = Some (num_field ''capability_generation'' (hs_capability_generation h))"
    "wm_field m ''evolution_epoch'' = Some (num_field ''evolution_epoch'' (hs_evolution_epoch h))"
    "wm_field m ''coordinator_epoch'' = Some (num_field ''coordinator_epoch'' (hs_coordinator_epoch h))"
    "wm_field m ''declared_role'' = Some (text_field ''declared_role'' (hs_declared_role h))"
    using fields by (simp_all add: handshake_writes_def)
  have sets: "decode_generation_set (encode_generation_set (hs_supported_protocols h)) [] = (status_ok, hs_supported_protocols h)"
    "decode_generation_set (encode_generation_set (hs_supported_schemas h)) [] = (status_ok, hs_supported_schemas h)"
    using h by (simp_all add: handshake_sendable_def generation_set_text_roundtrip)
  have "msg_features m = hs_features h"
    using h by (cases "hs_features h = []") (simp_all add: msg_features_def msg_text_def wm_text_def read
        handshake_sendable_def decode_encoded_features)
  with h show ?thesis unfolding m_def [symmetric]
    by (simp add: frame_handshake_def msg_ident_def wm_ident_def msg_gen_def wm_generation_def msg_set_def msg_text_def
        msg_version_def wm_text_def wm_u64_def read(3-) sets version_number_roundtrip
        handshake_sendable_def ident63_ident_ok note96_text_ok sent_version_def)
qed

lemma handshake_decodes:
  assumes "handshake_sendable h"
  shows "\<exists>m. wm_decode (wm_encode (hello_payload h)) = (status_ok, m)
    \<and> frame_handshake m = h\<lparr>hs_version := sent_version (hs_version h)\<rparr>"
  using wm_decode_encode [OF written_inv [OF handshake_writes_ok(1) [OF assms]]] hello_payload_written [OF assms]
    handshake_read [OF assms] by simp

section \<open>The two ends agree\<close>

lemma hello_refusal_plain:
  "\<not> admissible (c_durable c) h \<Longrightarrow>
   \<exists>r. \<not> is_ok (cr_status r) \<and> cr_fields r = [] \<and> command_hello h peer c = (r, peer, refused c)"
  by (auto simp: admissible_def command_hello_def hello_negotiate_def known_worker_refusal_def hello_negotiation_def
      hello_refuse_eq hello_reject_eq result_unset_def Let_def not_less split: option.splits)

lemma hello_accept_result:
  fixes c h n peer
  defines "p \<equiv> hello_peer c h (nr_chosen n) peer" and "r \<equiv> fst (hello_accept h n peer c)"
  shows "cr_fields r = hello_fields (c_durable (greeted h n peer c)) p" "is_ok (cr_status r) \<Longrightarrow> cr_status r = status_ok"
    "cf_state_path (c_config c) = [] \<Longrightarrow> is_ok (cr_status r)"
  unfolding r_def p_def hello_accept_def Let_def greeted_def [symmetric] split_def
  by (auto simp: result_unset_def persist_def greeted_def on_stats_def)

lemma sessions_hello_accept [simp]: "c_sessions (snd (snd (hello_accept h n peer c))) = c_sessions c"
  unfolding hello_accept_saves(1) by (simp add: save_state_def persist_def greeted_def on_stats_def Let_def split_def)

lemma error_code_text: "text_ok kTextBytes (error_code_to_string k)" "error_code_to_string k = ''OK'' \<longleftrightarrow> k = Ok"
  by (cases k; simp add: text_ok_def kTextBytes_def is_valid_text_char_def)+

lemma response_status_read:
  assumes "cr_fields result = written vs" "list_all wf_ok vs" "length vs \<le> 60"
  shows "field_text (response_body result) ''status'' = error_code_to_string (code (cr_status result)) \<and> wm_inv (response_body result)"
proof -
  define ds where "ds = (if text_ok kTextBytes (detail (cr_status result)) then [text_field ''detail'' (detail (cr_status result))] else [])"
  define js where "js = (if cr_json result \<noteq> [] \<and> text_ok kQueryBytes (cr_json result) then [doc_field ''json'' (cr_json result)] else [])"
  define ws where "ws = vs @ text_field ''status'' (error_code_to_string (code (cr_status result))) # ds @ js"
  have body: "response_body result = written ws"
    using assms(1) by (simp add: response_body_def with_writes written_append error_code_text ws_def js_def ds_def Let_def)
  have ok: "list_all wf_ok ws" "length ws \<le> kMessageFields"
    using assms(2,3) by (auto simp: ws_def ds_def js_def error_code_text kMessageFields_def)
  have "map_of (rev (map (\<lambda>v. (wf_name v, v)) ds)) ''status'' = None" "map_of (rev (map (\<lambda>v. (wf_name v, v)) js)) ''status'' = None"
    by (auto simp: ds_def js_def)
  then have "map_of (rev (map (\<lambda>v. (wf_name v, v)) ws)) ''status'' = Some (text_field ''status'' (error_code_to_string (code (cr_status result))))"
    by (simp add: ws_def map_add_def)
  then show ?thesis
    using written_inv [OF ok(1)] by (simp add: body field_text_def msg_text_def msg_reads [OF ok])
qed

lemma carries_fields:
  assumes "carries f g"
  shows "fr_payload g = fr_payload f" "wh_type (fr_header g) = wh_type (fr_header f)"
    "wh_flags (fr_header g) = wh_flags (fr_header f)" "wh_sequence (fr_header g) = wh_sequence (fr_header f)"
  using arg_cong [OF assms [unfolded carries_def], of fr_payload] arg_cong [OF assms [unfolded carries_def], of fr_header]
  by (cases "fr_header g"; simp)+

lemma respond_frames:
  "c_durable (respond i f ty r x c) = c_durable c" "c_live (respond i f ty r x c) = c_live c"
  by (simp_all add: respond_def queue_frame_def Let_def split: option.split)

lemma respond_queues:
  assumes "om_find (c_sessions c) i = Some s0" "om_find (c_sessions (respond i f ty r x c)) i = Some s1"
  shows "(\<exists>q. s1 = s0\<lparr>se_outgoing := q\<rparr>)
    \<and> (items (se_outgoing s1) = items (se_outgoing s0) @ [(n, g)] \<longrightarrow>
        wh_type (fr_header g) = ty \<and> fr_payload g = wm_encode (response_body r))"
proof (cases "length (wm_encode (response_body r)) > kFrameBytes")
  case True
  with assms have "s1 = s0" by (simp add: respond_def Let_def)
  then show ?thesis by (auto intro: exI [of _ "se_outgoing s0"])
next
  case False
  with assms show ?thesis
    by (auto simp: respond_def queue_frame_def offer_def Let_def om_find_upd split: if_splits)
qed

definition peers_agree :: "PeerIdentity \<Rightarrow> PeerIdentity \<Rightarrow> bool" where
  "peers_agree p q \<longleftrightarrow> pi_component p = pi_component q \<and> pi_worker p = pi_worker q \<and> pi_boot p = pi_boot q
     \<and> pi_runtime_generation p = pi_runtime_generation q \<and> pi_protocol p = pi_protocol q
     \<and> pi_agreed_protocol p = pi_agreed_protocol q \<and> pi_agreed_schema p = pi_agreed_schema q
     \<and> pi_capability_generation p = pi_capability_generation q \<and> pi_operation p = pi_operation q
     \<and> pi_epoch p = pi_epoch q \<and> pi_coordinator_epoch p = pi_coordinator_epoch q
     \<and> pi_is_operator p = pi_is_operator q \<and> pi_registered p = pi_registered q"

text \<open>A client takes an answer as success only when the coordinator's result was one.\<close>

lemma answer_accepted:
  assumes "handshake_answer h g cl = (status_ok, outcome, cl')" "fr_payload g = wm_encode body" "wm_inv body"
  shows "field_text body ''status'' = ''OK'' \<and> outcome = parse_handshake_ack body
    \<and> cl' = cl\<lparr>cl_peer := agreed_peer (cl_config cl) h outcome (cl_peer cl)\<rparr>"
proof -
  have "wm_decode (fr_payload g) = (status_ok, body)" using assms(2,3) by (simp add: wm_decode_encode)
  moreover have "wh_type (fr_header g) = HelloAck"
    using assms(1) calculation arg_cong [of _ status_ok is_ok] by (fastforce simp: handshake_answer_def split: if_splits)
  ultimately have ok: "is_ok (ho_status (parse_handshake_ack body))" "outcome = parse_handshake_ack body"
    "cl' = cl\<lparr>cl_peer := agreed_peer (cl_config cl) h outcome (cl_peer cl)\<rparr>"
    using assms(1) by (auto simp: handshake_answer_def Let_def split: if_splits)
  have "field_text body ''status'' = ''OK''"
  proof (rule ccontr)
    assume "field_text body ''status'' \<noteq> ''OK''"
    then have "ho_status (parse_handshake_ack body) = failure (case parse_error_code (field_text body ''status'') of
        Some e \<Rightarrow> e | None \<Rightarrow> Internal) (field_text body ''detail'')"
      by (simp add: parse_handshake_ack_def Let_def)
    moreover have "parse_error_code (field_text body ''status'') \<noteq> Some Ok"
      using \<open>field_text body ''status'' \<noteq> ''OK''\<close> error_code_text(2) [of Ok]
      by (auto simp: parse_error_code_def find_Some_iff)
    ultimately show False using ok(1) by (auto simp: is_ok_def failure_def split: option.splits)
  qed
  with ok show ?thesis by simp
qed

lemma parse_operation_class_inverse: "parse_operation_class (operation_class_to_string k) = Some k"
  by (cases k) (simp_all add: parse_operation_class_def)

lemma parse_hello_answer:
  assumes "body = written (hello_writes s peer @ text_field ''status'' ''OK'' # text_field ''detail'' [] # js)"
    and "js = [] \<or> (\<exists>t. js = [doc_field ''json'' t] \<and> text_ok kQueryBytes t)"
  shows "ho_negotiated_protocol (parse_handshake_ack body) = pi_agreed_protocol peer"
    "ho_negotiated_schema (parse_handshake_ack body) = pi_agreed_schema peer"
    "ho_operation (parse_handshake_ack body) = pi_operation peer"
    "ho_epoch (parse_handshake_ack body) = pi_epoch peer"
    "ho_coordinator_epoch (parse_handshake_ack body) = pi_coordinator_epoch peer"
    "ho_registered (parse_handshake_ack body) = pi_registered peer"
  using hello_answer_read [OF assms] by (simp_all add: parse_handshake_ack_def Let_def parse_operation_class_inverse)


lemma handle_hello_frame:
  assumes "om_find (c_sessions c) i = Some session" "carries (hello_frame config h sequence) f" "handshake_sendable h"
    and "om_find (c_sessions (handle_frame i f c)) i = Some session1"
    and "items (se_outgoing session1) = items (se_outgoing session) @ [(n, g)]"
  shows "handle_frame i f c = handle_hello i session f c"
    and "\<exists>m. wm_decode (fr_payload f) = (status_ok, m) \<and> frame_handshake m = h\<lparr>hs_version := sent_version (hs_version h)\<rparr>"
proof -
  have f: "fr_payload f = wm_encode (hello_payload h)" "wh_type (fr_header f) = Hello"
    using carries_fields [OF assms(2)] by (simp_all add: hello_frame_def)
  have "is_ok (validate_frame_envelope f kFrameBytes)"
  proof (rule ccontr)
    assume "\<not> ?thesis"
    with assms(1,4) have "session1 = session" by (simp add: handle_frame_def is_failure_def is_ok_def rejected_frames_def on_stats_def)
    with assms(5) show False by simp
  qed
  with assms(1) f(2) show "handle_frame i f c = handle_hello i session f c"
    by (simp add: handle_frame_def is_failure_def is_ok_def)
  show "\<exists>m. wm_decode (fr_payload f) = (status_ok, m) \<and> frame_handshake m = h\<lparr>hs_version := sent_version (hs_version h)\<rparr>"
    using handshake_decodes [OF assms(3)] f(1) by simp
qed

definition hello_sender :: "Session \<Rightarrow> Frame \<Rightarrow> PeerIdentity" where
  "hello_sender session f =
     (let operator = se_loopback session \<and> wh_flags (fr_header f) AND kFrameFlagOperator \<noteq> 0
      in peer_unset\<lparr>pi_session := se_id session, pi_is_operator := operator, pi_authenticated := operator\<rparr>)"

lemma handle_hello_decoded:
  assumes "om_find (c_sessions c) i = Some session" "wm_decode (fr_payload f) = (status_ok, m)"
    and "command_hello (frame_handshake m) (hello_sender session f) c = (result, peer, c')" "c_sessions c' = c_sessions c"
  shows "handle_hello i session f c = respond i f HelloAck result 0
    (if is_ok (cr_status result)
     then c'\<lparr>c_sessions := om_upd i (session\<lparr>se_peer := peer, se_handshaked := True,
            se_last_sequence := wh_sequence (fr_header f)\<rparr>) (c_sessions c')\<rparr>
     else rejected_frames c')"
  using assms by (simp add: handle_hello_def hello_sender_def Let_def)


lemma hello_flag: "(client_flags config AND kFrameFlagOperator \<noteq> 0) = cc_operator_mode config"
  by (simp add: client_flags_def kFrameFlagOperator_def)

lemma hello_peer_keeps: "pi_is_operator (hello_peer c h n p) = pi_is_operator p"
  by (simp add: hello_peer_def Let_def)

text \<open>When the client takes the answer as success, the coordinator's result was one.\<close>

lemma accepted_result:
  assumes sess: "om_find (c_sessions c') i = Some session" and current: "om_find (c_sessions (respond i f HelloAck r 0 c')) i = Some session1"
    and queued: "items (se_outgoing session1) = items (se_outgoing session) @ [(n, g)]" and arrived: "carries g g'"
    and fields: "cr_fields r = written vs" "list_all wf_ok vs" "length vs \<le> 60"
    and ok: "handshake_answer h g' cl = (status_ok, outcome, cl')"
  shows "is_ok (cr_status r) \<and> outcome = parse_handshake_ack (response_body r)
    \<and> cl' = cl\<lparr>cl_peer := agreed_peer (cl_config cl) h outcome (cl_peer cl)\<rparr>"
proof -
  have "fr_payload g' = wm_encode (response_body r)"
    using respond_queues [OF sess current] queued carries_fields [OF arrived] by simp
  moreover have "field_text (response_body r) ''status'' = error_code_to_string (code (cr_status r))" "wm_inv (response_body r)"
    using response_status_read [OF fields] by simp_all
  ultimately have "error_code_to_string (code (cr_status r)) = ''OK''" "outcome = parse_handshake_ack (response_body r)"
    "cl' = cl\<lparr>cl_peer := agreed_peer (cl_config cl) h outcome (cl_peer cl)\<rparr>" using answer_accepted [OF ok] by auto
  then show ?thesis by (simp add: error_code_text is_ok_def)
qed

lemma hello_writes_ok: "list_all wf_ok (hello_writes s p)" "length (hello_writes s p) \<le> 60"
  by (simp_all add: hello_writes_def operation_class_text)

text \<open>How the coordinator handles a handshake that it admits, and one that it does not.\<close>

lemma hello_admitted:
  fixes c h session f
  defines "neg \<equiv> hello_negotiation (c_durable c) h"
  defines "p \<equiv> hello_peer c h (nr_chosen neg) (hello_sender session f)"
  assumes sess: "om_find (c_sessions c) i = Some session" and m: "wm_decode (fr_payload f) = (status_ok, m)" "frame_handshake m = h"
    and adm: "admissible (c_durable c) h"
  obtains r s c2 where "handle_hello i session f c = respond i f HelloAck r 0 c2" "cr_fields r = written (hello_writes s p)"
    "is_ok (cr_status r) \<Longrightarrow> cr_status r = status_ok" "cf_state_path (c_config c) = [] \<Longrightarrow> is_ok (cr_status r)"
    "c_live c2 = om_upd (hs_worker h) (hello_worker c h p) (c_live c)"
    "c_durable c2 = (c_durable c)\<lparr>ds_workers := om_upd (hs_worker h) (hello_record c h) (ds_workers (c_durable c))\<rparr>"
    "om_find (c_sessions c2) i = Some (if is_ok (cr_status r)
       then session\<lparr>se_peer := p, se_handshaked := True, se_last_sequence := wh_sequence (fr_header f)\<rparr> else session)"
proof -
  obtain r p1 c1 where r: "command_hello h (hello_sender session f) c = (r, p1, c1)"
    by (cases "command_hello h (hello_sender session f) c")
  have accept: "hello_accept h neg (hello_sender session f) c = (r, p1, c1)" using hello_cases(1) [OF adm] r by (simp add: neg_def)
  have effects: "p1 = p" "c_sessions c1 = c_sessions c" "c_live c1 = om_upd (hs_worker h) (hello_worker c h p) (c_live c)"
    "c_durable c1 = (c_durable c)\<lparr>ds_workers := om_upd (hs_worker h) (hello_record c h) (ds_workers (c_durable c))\<rparr>"
    using hello_accept_effects [of h neg "hello_sender session f" c] sessions_hello_accept [of h neg "hello_sender session f" c]
    by (simp_all add: accept p_def)
  define c2 where "c2 = (if is_ok (cr_status r)
     then c1\<lparr>c_sessions := om_upd i (session\<lparr>se_peer := p, se_handshaked := True,
       se_last_sequence := wh_sequence (fr_header f)\<rparr>) (c_sessions c1)\<rparr> else rejected_frames c1)"
  have "handle_hello i session f c = respond i f HelloAck r 0 c2"
    using handle_hello_decoded [OF sess m(1), of r p c1] r m(2) effects(1,2) by (simp add: c2_def)
  moreover have "cr_fields r = written (hello_writes (c_durable (greeted h neg (hello_sender session f) c)) p)"
    "is_ok (cr_status r) \<Longrightarrow> cr_status r = status_ok" "cf_state_path (c_config c) = [] \<Longrightarrow> is_ok (cr_status r)"
    using hello_accept_result [where h = h and n = neg and peer = "hello_sender session f" and c = c] by (simp_all add: accept p_def hello_fields_written)
  ultimately show thesis using effects sess
    by (intro that [of r c2 "c_durable (greeted h neg (hello_sender session f) c)"])
      (simp_all add: c2_def rejected_frames_def on_stats_def om_find_upd)
qed

lemma hello_not_admitted:
  assumes sess: "om_find (c_sessions c) i = Some session" and m: "wm_decode (fr_payload f) = (status_ok, m)"
    and adm: "\<not> admissible (c_durable c) (frame_handshake m)"
  obtains r c2 where "handle_hello i session f c = respond i f HelloAck r 0 c2" "cr_fields r = written []"
    "\<not> is_ok (cr_status r)" "om_find (c_sessions c2) i = Some session"
proof -
  obtain r where r: "\<not> is_ok (cr_status r)" "cr_fields r = []"
    "command_hello (frame_handshake m) (hello_sender session f) c = (r, hello_sender session f, refused c)"
    using hello_refusal_plain [OF adm] by blast
  with handle_hello_decoded [OF sess m r(3)] sess show thesis
    by (intro that [of r "rejected_frames (refused c)"]) (simp_all add: refused_def on_stats_def rejected_frames_def written_def)
qed

lemma word_less_next: "(w :: u64) \<noteq> - 1 \<Longrightarrow> w < w + 1"
  using inc_less_eq_triv_imp [of w] linorder_not_less [of w "w + 1"] by blast

lemma workers_update_frame:
  "epoch_for (s\<lparr>ds_workers := ws\<rparr>) component = epoch_for s component"
  "is_retired (s\<lparr>ds_workers := ws\<rparr>) component g = is_retired s component g"
  "is_boot_fenced (s\<lparr>ds_workers := ws\<rparr>) w b = is_boot_fenced s w b"
  by (simp_all add: epoch_for_def active_plan_def is_retired_def is_boot_fenced_def)

lemma accepted_admitted:
  assumes sess: "om_find (c_sessions c) i = Some session" and frame: "handle_frame i f c = handle_hello i session f c"
    and m: "wm_decode (fr_payload f) = (status_ok, m)" and current: "om_find (c_sessions (handle_frame i f c)) i = Some session1"
    and queued: "items (se_outgoing session1) = items (se_outgoing session) @ [(n, g)]" and arrived: "carries g g'"
    and ok: "handshake_answer h g' cl = (status_ok, outcome, cl')"
  shows "admissible (c_durable c) (frame_handshake m)"
proof (rule ccontr)
  assume "\<not> ?thesis"
  from hello_not_admitted [OF sess m this] obtain r c2 where r: "handle_hello i session f c = respond i f HelloAck r 0 c2"
    "cr_fields r = written []" "\<not> is_ok (cr_status r)" "om_find (c_sessions c2) i = Some session" .
  have "is_ok (cr_status r)"
    using accepted_result [OF r(4) _ queued arrived r(2) _ _ ok] current frame r(1) by simp
  with r(3) show False by simp
qed

lemma accepted_session:
  assumes sess: "om_find (c_sessions c) i = Some session"
    and hello: "carries (hello_frame (cl_config cl) h sequence) f" and h: "handshake_sendable h"
    and current: "om_find (c_sessions (handle_frame i f c)) i = Some session1"
    and queued: "items (se_outgoing session1) = items (se_outgoing session) @ [(n, g)]" and arrived: "carries g g'"
    and ok: "handshake_answer h g' cl = (status_ok, outcome, cl')"
  defines "h' \<equiv> h\<lparr>hs_version := sent_version (hs_version h)\<rparr>"
  defines "p \<equiv> hello_peer c h' (nr_chosen (hello_negotiation (c_durable c) h')) (hello_sender session f)"
  obtains q where "admissible (c_durable c) h'"
    "session1 = session\<lparr>se_peer := p, se_handshaked := True, se_last_sequence := sequence, se_outgoing := q\<rparr>"
    "c_live (handle_frame i f c) = om_upd (hs_worker h) (hello_worker c h' p) (c_live c)"
    "c_durable (handle_frame i f c) = (c_durable c)\<lparr>ds_workers := om_upd (hs_worker h) (hello_record c h') (ds_workers (c_durable c))\<rparr>"
    "cl' = cl\<lparr>cl_peer := agreed_peer (cl_config cl) h outcome (cl_peer cl)\<rparr>"
    "ho_negotiated_protocol outcome = pi_agreed_protocol p" "ho_negotiated_schema outcome = pi_agreed_schema p"
    "ho_operation outcome = pi_operation p" "ho_epoch outcome = pi_epoch p"
    "ho_coordinator_epoch outcome = pi_coordinator_epoch p" "ho_registered outcome = pi_registered p"
proof -
  have frame: "handle_frame i f c = handle_hello i session f c"
    using handle_hello_frame(1) [OF sess hello h current queued] .
  obtain m where m: "wm_decode (fr_payload f) = (status_ok, m)" "frame_handshake m = h'"
    using handle_hello_frame(2) [OF sess hello h current queued] unfolding h'_def by blast
  have adm: "admissible (c_durable c) h'" using accepted_admitted [OF sess frame m(1) current queued arrived ok] m(2) by simp
  have seq: "wh_sequence (fr_header f) = sequence" using carries_fields [OF hello] by (simp add: hello_frame_def)
  obtain r s c2 where c2: "handle_hello i session f c = respond i f HelloAck r 0 c2" "cr_fields r = written (hello_writes s p)"
    "is_ok (cr_status r) \<Longrightarrow> cr_status r = status_ok" "cf_state_path (c_config c) = [] \<Longrightarrow> is_ok (cr_status r)"
    "c_live c2 = om_upd (hs_worker h') (hello_worker c h' p) (c_live c)"
    "c_durable c2 = (c_durable c)\<lparr>ds_workers := om_upd (hs_worker h') (hello_record c h') (ds_workers (c_durable c))\<rparr>"
    "om_find (c_sessions c2) i = Some (if is_ok (cr_status r)
       then session\<lparr>se_peer := p, se_handshaked := True, se_last_sequence := wh_sequence (fr_header f)\<rparr> else session)"
    using hello_admitted [OF sess m adm] unfolding p_def by blast
  from current frame c2(1) have now: "om_find (c_sessions (respond i f HelloAck r 0 c2)) i = Some session1" by simp
  have "items (se_outgoing session1) = items (se_outgoing (if is_ok (cr_status r)
       then session\<lparr>se_peer := p, se_handshaked := True, se_last_sequence := wh_sequence (fr_header f)\<rparr> else session)) @ [(n, g)]"
    using queued by simp
  from accepted_result [OF c2(7) now this arrived c2(2) hello_writes_ok ok]
  have result: "is_ok (cr_status r)" "outcome = parse_handshake_ack (response_body r)"
    "cl' = cl\<lparr>cl_peer := agreed_peer (cl_config cl) h outcome (cl_peer cl)\<rparr>"
    by simp_all
  obtain js where "response_body r = written (hello_writes s p @ text_field ''status'' ''OK'' # text_field ''detail'' [] # js)"
    "js = [] \<or> (\<exists>t. js = [doc_field ''json'' t] \<and> text_ok kQueryBytes t)"
    using response_body_written [OF c2(2) c2(3) [OF result(1)]] .
  note answer = parse_hello_answer [OF this, folded result(2)]
  obtain q where q: "session1 = session\<lparr>se_peer := p, se_handshaked := True, se_last_sequence := sequence, se_outgoing := q\<rparr>"
    using respond_queues [OF c2(7) now] result(1) seq by auto
  show thesis
    by (rule that [OF adm q _ _ result(3) answer]) (simp_all add: frame c2 respond_frames h'_def)
qed

text \<open>
  C11: After an accepted handshake both ends of the session agree.  When a client takes the answer to its
  HELLO as success, the coordinator has admitted exactly the handshake the client described and
  has made the session current: coordinator and client hold the same component, worker, boot, generation,
  protocol and schema agreement, operation class, epochs and registration, and the next request of
  the client, of any type its operation class and role allow, meets every condition of the frame
  checks on identity, epochs, agreement and authority (those left are on the registered protocol and the fields
  of the message) and carries a sequence number ahead of the session's, unless the client's counter wraps.
\<close>

theorem handshake_agreement:
  assumes sess: "om_find (c_sessions c) i = Some session"
    and hello: "carries (hello_frame (cl_config cl) h (cl_sequence cl)) f" and h: "handshake_sendable h"
    and local: "cc_operator_mode (cl_config cl) \<longrightarrow> se_loopback session"
    and current: "om_find (c_sessions (handle_frame i f c)) i = Some session1"
    and queued: "items (se_outgoing session1) = items (se_outgoing session) @ [(n, g)]" and arrived: "carries g g'"
    and ok: "handshake_answer h g' cl = (status_ok, outcome, cl')"
  shows "admissible (c_durable c) (h\<lparr>hs_version := sent_version (hs_version h)\<rparr>) \<and> se_handshaked session1
    \<and> peers_agree (se_peer session1) (cl_peer cl')
    \<and> (\<forall>type payload spec. wire_message_spec type = Some spec \<and> (ws_operator_only spec \<longrightarrow> pi_is_operator (cl_peer cl'))
         \<and> (message_is_mutating type \<longrightarrow> permits_mutation (pi_operation (cl_peer cl'))
              \<or> type = RegisterComponent \<or> type = PublishCapability)
         \<longrightarrow> frame_admissible session1 (request_frame type payload (bump_sequence cl')) (handle_frame i f c)
           \<and> (cl_sequence cl \<noteq> - 1 \<longrightarrow>
                se_last_sequence session1 < wh_sequence (fr_header (request_frame type payload (bump_sequence cl')))))"
proof -
  define h' where "h' = h\<lparr>hs_version := sent_version (hs_version h)\<rparr>"
  define p where "p = hello_peer c h' (nr_chosen (hello_negotiation (c_durable c) h')) (hello_sender session f)"
  obtain q where st: "admissible (c_durable c) h'"
    "session1 = session\<lparr>se_peer := p, se_handshaked := True, se_last_sequence := cl_sequence cl, se_outgoing := q\<rparr>"
    "c_live (handle_frame i f c) = om_upd (hs_worker h) (hello_worker c h' p) (c_live c)"
    "c_durable (handle_frame i f c) = (c_durable c)\<lparr>ds_workers := om_upd (hs_worker h) (hello_record c h') (ds_workers (c_durable c))\<rparr>"
    "cl' = cl\<lparr>cl_peer := agreed_peer (cl_config cl) h outcome (cl_peer cl)\<rparr>"
    "ho_negotiated_protocol outcome = pi_agreed_protocol p" "ho_negotiated_schema outcome = pi_agreed_schema p"
    "ho_operation outcome = pi_operation p" "ho_epoch outcome = pi_epoch p"
    "ho_coordinator_epoch outcome = pi_coordinator_epoch p" "ho_registered outcome = pi_registered p"
    using accepted_session [OF sess hello h current queued arrived ok] unfolding h'_def p_def by blast
  have op: "pi_is_operator p = cc_operator_mode (cl_config cl)"
    using local carries_fields [OF hello]
    by (auto simp: p_def hello_peer_keeps hello_sender_def hello_frame_def hello_flag Let_def)
  have peer: "peers_agree p (cl_peer cl')" using op st(5-11)
    by (simp add: peers_agree_def agreed_peer_def p_def h'_def hello_peer_def Let_def)
  have p: "pi_component p = hs_component h" "pi_worker p = hs_worker h" "pi_boot p = hs_boot h"
    "pi_runtime_generation p = hs_runtime_generation h" "pi_coordinator_epoch p = ds_coordinator_epoch (c_durable c)"
    "pi_epoch p = epoch_for (c_durable c) (hs_component h)"
    by (simp_all add: p_def h'_def hello_peer_def Let_def)
  have client: "pi_runtime_generation (cl_peer cl') = hs_runtime_generation h" "pi_boot (cl_peer cl') = hs_boot h"
    "pi_agreed_protocol (cl_peer cl') = pi_agreed_protocol p" "pi_agreed_schema (cl_peer cl') = pi_agreed_schema p"
    "pi_epoch (cl_peer cl') = epoch_for (c_durable c) (hs_component h)" "pi_operation (cl_peer cl') = pi_operation p"
    "pi_coordinator_epoch (cl_peer cl') = ds_coordinator_epoch (c_durable c)" "pi_is_operator (cl_peer cl') = pi_is_operator p"
    using op st(6-11) by (simp_all add: st(5) agreed_peer_def p)
  have clear: "\<not> is_retired (c_durable c) (hs_component h) (hs_runtime_generation h)"
    "\<not> is_boot_fenced (c_durable c) (hs_worker h) (hs_boot h)" using st(1) by (simp_all add: admissible_def h'_def)
  have seq: "cl_sequence cl < cl_sequence cl + 1" if "cl_sequence cl \<noteq> - 1" using that by (simp add: word_less_next)
  have "frame_admissible session1 (request_frame type payload (bump_sequence cl')) (handle_frame i f c)"
    if "wire_message_spec type = Some spec" "ws_operator_only spec \<longrightarrow> pi_is_operator (cl_peer cl')"
      "message_is_mutating type \<longrightarrow> permits_mutation (pi_operation (cl_peer cl')) \<or> type = RegisterComponent \<or> type = PublishCapability"
    for type payload spec
    using that clear
    by (simp add: frame_admissible_def st(2-4) request_frame_def bump_sequence_def om_find_upd Let_def p client
        hello_worker_def live_worker_unset_def workers_update_frame)
  with st(1) peer seq show ?thesis
    by (simp add: st(2) h'_def request_frame_def bump_sequence_def st(5))
qed

lemma put_wire_field_bound: "wf_ok v \<Longrightarrow> length (put_wire_field v) \<le> 66000"
  by (auto simp: wf_ok_def put_wire_field_def put_text_def put_ident_def put_blob_def ident_ok_def kTextBytes_def kQueryBytes_def
      put_digest_def put_u8_def)

lemma wm_encode_bound:
  assumes "wm_inv msg" "length msg \<le> 15"
  shows "length (wm_encode msg) \<le> kFrameBytes"
proof -
  have "length (concat (map put_wire_field vs)) \<le> length vs * 66000" if "list_all wf_ok vs" for vs
    using that by (induction vs) (auto dest: put_wire_field_bound)
  from this [of msg] assms have "length (concat (map put_wire_field msg)) \<le> length msg * 66000"
    by (simp add: wm_inv_def fields_inv_def)
  moreover have "length msg * 66000 \<le> 15 * 66000" using assms(2) by (rule mult_le_mono1)
  ultimately show ?thesis by (simp add: wm_encode_def kFrameBytes_def)
qed

lemma carries_exists: "\<exists>g. carries f g"
  by (rule exI [of _ "f\<lparr>fr_header := (fr_header f)\<lparr>wh_magic := kWireMagic, wh_transport_version := kWireTransportVersion,
     wh_payload_length := of_nat (length (fr_payload f))\<rparr>\<rparr>"]) (simp add: carries_def)

lemma respond_appends:
  assumes "om_find (c_sessions c) i = Some s0" "length (wm_encode (response_body r)) \<le> kFrameBytes"
    and "\<not> closed (se_outgoing s0)" "length (items (se_outgoing s0)) < capacity (se_outgoing s0)"
  shows "\<exists>s1 n g. om_find (c_sessions (respond i f ty r x c)) i = Some s1
    \<and> items (se_outgoing s1) = items (se_outgoing s0) @ [(n, g)]
    \<and> wh_type (fr_header g) = ty \<and> fr_payload g = wm_encode (response_body r)"
  using assms by (simp add: respond_def queue_frame_def offer_def om_find_upd Let_def)

text \<open>The handshake completes: the client of an admissible handshake gets its acknowledgement.\<close>

lemma handshake_answered:
  assumes sess: "om_find (c_sessions c) i = Some session" and frame: "handle_frame i f c = handle_hello i session f c"
    and m: "wm_decode (fr_payload f) = (status_ok, m)" "frame_handshake m = h'" and adm: "admissible (c_durable c) h'"
    and path: "cf_state_path (c_config c) = []" and room: "\<not> closed (se_outgoing session)"
      "length (items (se_outgoing session)) < capacity (se_outgoing session)"
    and chosen: "nr_chosen (hello_negotiation (c_durable c) h') \<noteq> 0"
  shows "\<exists>session1 n g g' outcome cl'. om_find (c_sessions (handle_frame i f c)) i = Some session1
    \<and> items (se_outgoing session1) = items (se_outgoing session) @ [(n, g)] \<and> carries g g'
    \<and> handshake_answer h g' cl = (status_ok, outcome, cl')"
proof -
  let ?p = "hello_peer c h' (nr_chosen (hello_negotiation (c_durable c) h')) (hello_sender session f)"
  obtain r s c2 where c2: "handle_hello i session f c = respond i f HelloAck r 0 c2" "cr_fields r = written (hello_writes s ?p)"
    "is_ok (cr_status r) \<Longrightarrow> cr_status r = status_ok" "cf_state_path (c_config c) = [] \<Longrightarrow> is_ok (cr_status r)"
    "om_find (c_sessions c2) i = Some (if is_ok (cr_status r)
       then session\<lparr>se_peer := ?p, se_handshaked := True, se_last_sequence := wh_sequence (fr_header f)\<rparr> else session)"
    using hello_admitted [OF sess m adm] by blast
  obtain js where body: "response_body r = written (hello_writes s ?p @ text_field ''status'' ''OK'' # text_field ''detail'' [] # js)"
    "js = [] \<or> (\<exists>t. js = [doc_field ''json'' t] \<and> text_ok kQueryBytes t)"
    using response_body_written [OF c2(2) c2(3) [OF c2(4) [OF path]]] .
  note read = hello_answer_read [OF body]
  let ?vs = "hello_writes s ?p @ text_field ''status'' ''OK'' # text_field ''detail'' [] # js"
  have vs: "list_all wf_ok ?vs" "length ?vs \<le> kMessageFields" "length ?vs \<le> 15"
    using body(2) by (auto simp: hello_writes_def operation_class_text status_ok_text kMessageFields_def)
  have "wm_inv (response_body r)" using read by simp
  moreover have "length (response_body r) \<le> length ?vs" using written_reads [OF vs(1,2)] unfolding body(1) by (rule conjunct1)
  ultimately have fits: "length (wm_encode (response_body r)) \<le> kFrameBytes"
    using wm_encode_bound le_trans [OF _ vs(3)] by blast
  obtain s1 n g where g: "om_find (c_sessions (respond i f HelloAck r 0 c2)) i = Some s1"
    "items (se_outgoing s1) = items (se_outgoing session) @ [(n, g)]" "wh_type (fr_header g) = HelloAck"
    "fr_payload g = wm_encode (response_body r)"
    using respond_appends [OF c2(5) fits, of f HelloAck 0] room c2(4) [OF path] by auto
  obtain g' where g': "carries g g'" using carries_exists by blast
  have "wm_decode (fr_payload g') = (status_ok, response_body r)" "wh_type (fr_header g') = HelloAck"
    using carries_fields [OF g'] g read by (simp_all add: wm_decode_encode)
  moreover have "ho_status (parse_handshake_ack (response_body r)) = status_ok"
    using read chosen by (simp add: parse_handshake_ack_def Let_def hello_peer_def)
  ultimately have "handshake_answer h g' cl = (status_ok, parse_handshake_ack (response_body r),
      cl\<lparr>cl_peer := agreed_peer (cl_config cl) h (parse_handshake_ack (response_body r)) (cl_peer cl)\<rparr>)"
    by (simp add: handshake_answer_def Let_def)
  with g g' frame c2(1) show ?thesis by metis
qed


definition greeting_coord :: Coord where
  "greeting_coord = (sample_coord wired_durable)\<lparr>c_sessions := om_upd ''s-1'' (new_session ''s-1'' True) om_empty\<rparr>"

definition sample_client :: Client where
  "sample_client = (new_client \<lparr>cc_host = ''127.0.0.1'', cc_port = 7000, cc_operator_mode = False, cc_role = [],
     cc_sequence_seed = 0\<rparr>)\<lparr>cl_connected := True, cl_sequence := 1\<rparr>"

definition sample_hello_frame :: Frame where
  "sample_hello_frame = (let f = hello_frame (cl_config sample_client) sample_hello 1
     in f\<lparr>fr_header := (fr_header f)\<lparr>wh_payload_length := of_nat (length (fr_payload f))\<rparr>\<rparr>)"

lemma sample_hello_sendable: "handshake_sendable sample_hello"
  by code_simp

lemma sample_version: "sample_hello\<lparr>hs_version := sent_version (hs_version sample_hello)\<rparr> = sample_hello"
  by (simp add: sample_hello_def sent_version_def version_unset_def)

lemma sample_hello_payload: "length (wm_encode (hello_payload sample_hello)) \<le> kFrameBytes"
proof -
  have "length (handshake_writes sample_hello) \<le> 15" by (simp add: handshake_writes_def sample_hello_def)
  moreover have "length (written (handshake_writes sample_hello)) \<le> length (handshake_writes sample_hello)"
    using written_reads [OF handshake_writes_ok(1) [OF sample_hello_sendable] handshake_writes_ok(2)] by blast
  ultimately show ?thesis
    using written_inv [OF handshake_writes_ok(1) [OF sample_hello_sendable]]
    by (simp add: hello_payload_written [OF sample_hello_sendable] wm_encode_bound)
qed

lemma sample_hello_arrives:
  "carries (hello_frame (cl_config sample_client) sample_hello 1) sample_hello_frame"
  "wm_decode (fr_payload sample_hello_frame) = (status_ok, hello_payload sample_hello)"
  "frame_handshake (hello_payload sample_hello) = sample_hello"
  "is_ok (validate_frame_envelope sample_hello_frame kFrameBytes)" "wh_type (fr_header sample_hello_frame) = Hello"
proof -
  show "carries (hello_frame (cl_config sample_client) sample_hello 1) sample_hello_frame"
    by (simp add: carries_def sample_hello_frame_def hello_frame_def frame_header_default_def Let_def)
  show "wm_decode (fr_payload sample_hello_frame) = (status_ok, hello_payload sample_hello)"
    using wm_decode_encode [OF written_inv [OF handshake_writes_ok(1) [OF sample_hello_sendable]]]
    by (simp add: sample_hello_frame_def hello_frame_def Let_def hello_payload_written [OF sample_hello_sendable])
  show "frame_handshake (hello_payload sample_hello) = sample_hello"
    using handshake_read [OF sample_hello_sendable] unfolding hello_payload_written [OF sample_hello_sendable] sample_version .
  show "is_ok (validate_frame_envelope sample_hello_frame kFrameBytes)" "wh_type (fr_header sample_hello_frame) = Hello"
    using sample_hello_payload
    by (simp_all add: validate_frame_envelope_def sample_hello_frame_def hello_frame_def frame_header_default_def
        sample_client_def new_client_def client_flags_def unat_of_nat kFrameBytes_def Let_def)
qed

lemma greeting_facts:
  "om_find (c_sessions greeting_coord) ''s-1'' = Some (new_session ''s-1'' True)" "c_durable greeting_coord = wired_durable"
  "cf_state_path (c_config greeting_coord) = []" "nr_chosen (hello_negotiation wired_durable sample_hello) = 1"
  "\<not> closed (se_outgoing (new_session ''s-1'' True))"
  "length (items (se_outgoing (new_session ''s-1'' True))) < capacity (se_outgoing (new_session ''s-1'' True))"
  "map_option ws_operator_only (wire_message_spec Heartbeat) = Some False" "\<not> message_is_mutating Heartbeat"
proof -
  show "nr_chosen (hello_negotiation wired_durable sample_hello) = 1" by code_simp
  show "map_option ws_operator_only (wire_message_spec Heartbeat) = Some False" "\<not> message_is_mutating Heartbeat" by code_simp+
qed (simp_all add: greeting_coord_def sample_coord_def coordinator_new_def sample_config_def new_session_def queue_new_def
    kSessionQueueDepth_def om_find_upd)

theorem handshake_agreement_witness:
  "\<exists>session1 cl'. se_handshaked session1 \<and> peers_agree (se_peer session1) (cl_peer cl')
    \<and> frame_admissible session1 (request_frame Heartbeat beat_fields (bump_sequence cl'))
        (handle_frame ''s-1'' sample_hello_frame greeting_coord)"
proof -
  have frame: "handle_frame ''s-1'' sample_hello_frame greeting_coord
      = handle_hello ''s-1'' (new_session ''s-1'' True) sample_hello_frame greeting_coord"
    using sample_hello_arrives(4,5) greeting_facts(1) by (simp add: handle_frame_def is_failure_def is_ok_def)
  obtain session1 n g g' outcome cl' where answer:
    "om_find (c_sessions (handle_frame ''s-1'' sample_hello_frame greeting_coord)) ''s-1'' = Some session1"
    "items (se_outgoing session1) = items (se_outgoing (new_session ''s-1'' True)) @ [(n, g)]" "carries g g'"
    "handshake_answer sample_hello g' sample_client = (status_ok, outcome, cl')"
    using handshake_answered [OF greeting_facts(1) frame sample_hello_arrives(2,3) _ greeting_facts(3,5,6),
        of sample_hello sample_client] greeting_facts(2,4) sample_hello_admissible by auto
  have "carries (hello_frame (cl_config sample_client) sample_hello (cl_sequence sample_client)) sample_hello_frame"
    "cc_operator_mode (cl_config sample_client) \<longrightarrow> se_loopback (new_session ''s-1'' True)"
    using sample_hello_arrives(1) by (simp_all add: sample_client_def new_client_def)
  note agreed = handshake_agreement [OF greeting_facts(1) this(1) sample_hello_sendable this(2) answer]
  obtain spec where "wire_message_spec Heartbeat = Some spec" "\<not> ws_operator_only spec" using greeting_facts(7) by auto
  with agreed greeting_facts(8) show ?thesis by blast
qed

end
