(* ===== verification/Ref_Service.thy ===== *)
theory Ref_Service
  imports Ref_Worker Ref_Handshake
begin

text \<open>
  What a worker does on behalf of its coordinator: which frames can change its files, what a rollback leaves, and what
  the coordinator makes of the completion a migration reports.
\<close>

section \<open>What requests leave alone\<close>

lemma client_request_keeps:
  assumes "client_request type payload c = Some (status, response, body, c')"
  shows "cl_peer c' = cl_peer c \<and> cl_config c' = cl_config c"
  using assms
  by (auto simp: client_request_def send_raw_def bump_sequence_def client_close_def Let_def
      split: option.splits prod.splits if_splits)

text \<open>Configuration, session and file system; the operation class is part of the session.\<close>

definition same_worker :: "RuntimeWorker \<Rightarrow> RuntimeWorker \<Rightarrow> bool" where
  "same_worker w w' \<longleftrightarrow> wk_config w' = wk_config w \<and> cl_peer (wk_client w') = cl_peer (wk_client w)
     \<and> files (wk_world w') = files (wk_world w)"

lemma same_worker_refl [simp]: "same_worker w w"
  by (simp add: same_worker_def)

lemma same_worker_trans: "same_worker w w1 \<Longrightarrow> same_worker w1 w2 \<Longrightarrow> same_worker w w2"
  by (simp add: same_worker_def)

lemma same_worker_stats [simp]:
  "same_worker w (on_worker_stats f w)" "same_worker (on_worker_stats f w) w' = same_worker w w'"
  "same_worker w (blocked_migration w)" "same_worker (blocked_migration w) w' = same_worker w w'"
  "same_worker w (rejected_frame w)" "same_worker (w\<lparr>wk_drained := b\<rparr>) w' = same_worker w w'"
  by (simp_all add: same_worker_def on_worker_stats_def blocked_migration_def rejected_frame_def)

lemma worker_request_keeps: "worker_request type payload w = Some (status, body, w') \<Longrightarrow> same_worker w w'"
  by (auto simp: worker_request_def same_worker_def bind_eq_Some_conv dest: client_request_keeps)

lemma read_state_keeps: "same_worker w (snd (snd (read_state w)))"
  by (simp add: read_state_def same_worker_def Let_def split_def)

lemma observed_keeps: "same_worker w (snd (observed_schema w))" "same_worker w (snd (observed_state_digest w))"
  using read_state_keeps [of w] by (simp_all add: observed_schema_def observed_state_digest_def Let_def split_def)

lemma send_heartbeat_keeps: "send_heartbeat w = Some (status, w') \<Longrightarrow> same_worker w w'"
  using observed_keeps(1) [of w]
  by (auto simp: send_heartbeat_def Let_def split_def bind_eq_Some_conv dest: worker_request_keeps intro: same_worker_trans)

lemma send_completion_keeps: "send_completion p i g k d b w = Some (status, w') \<Longrightarrow> same_worker w w'"
  by (auto simp: send_completion_def bind_eq_Some_conv dest: worker_request_keeps)

lemma report_reconciliation_keeps: "report_reconciliation w = Some (status, w') \<Longrightarrow> same_worker w w'"
  using read_state_keeps [of w]
  by (auto simp: report_reconciliation_def Let_def split_def bind_eq_Some_conv dest: worker_request_keeps intro: same_worker_trans)

lemma handle_drain_keeps: "handle_drain m w = Some (r, w') \<Longrightarrow> same_worker w w'"
  using observed_keeps(2) [of "on_worker_stats (\<lambda>st. st\<lparr>ws_drains_completed := ws_drains_completed st + 1\<rparr>) (w\<lparr>wk_drained := True\<rparr>)"]
  by (auto simp: handle_drain_def served_as_def Let_def split_def dest: send_completion_keeps intro: same_worker_trans)

section \<open>What a served frame may do to the state\<close>

text \<open>A migration runs under the operation class the session was given, and leaves the files as the
  migrator does; a rollback leaves them as the reversal does.\<close>

lemma handle_migration_files:
  assumes "handle_migration f m w = Some (r, w')"
  shows "wk_config w' = wk_config w \<and> cl_peer (wk_client w') = cl_peer (wk_client w)
    \<and> (same_worker w w' \<or> permits_mutation (pi_operation (cl_peer (wk_client w)))
         \<and> (\<exists>world. files world = files (wk_world w) \<and>
             files (wk_world w') = files (snd (migrate (Some builtin_schemas) (wc_state_path (wk_config w))
               (worker_contract (wk_config w) f m) world))))"
proof -
  obtain st w1 where beat: "send_heartbeat w = Some (st, w1)"
    using assms by (auto simp: handle_migration_def Let_def bind_eq_Some_conv)
  then have w1: "same_worker w w1" by (rule send_heartbeat_keeps)
  show ?thesis
  proof (cases "permits_mutation (pi_operation (cl_peer (wk_client w1)))")
    case False
    with assms beat have "same_worker w1 w'"
      by (auto simp: handle_migration_def Let_def bind_eq_Some_conv dest: send_completion_keeps)
    with w1 show ?thesis by (auto simp: same_worker_def)
  next
    case True
    obtain res world where run: "migrate (Some builtin_schemas) (wc_state_path (wk_config w1))
        (worker_contract (wk_config w1) f m) (wk_world w1) = (res, world)" by fastforce
    have "same_worker (w1\<lparr>wk_world := world\<rparr>) w'"
      using assms beat True run
      by (auto simp: handle_migration_def Let_def install_builtin served_as_def split: if_splits
          elim!: bind_eq_Some_conv [THEN iffD1, elim_format] dest!: send_completion_keeps)
    with w1 True run show ?thesis by (auto simp: same_worker_def intro: exI [of _ "wk_world w1"])
  qed
qed

lemma migrate_target:
  assumes "migrate schemas p c w = (res, w')"
  shows "files w' p = files w p \<or> (\<exists>bs sf. files w' p = Some bs \<and> decode_state_file bs = (status_ok, sf)
    \<and> fh_generation (sfl_header sf) = mc_target c)"
proof (cases "is_ok (mr_status res)")
  case True
  with migrate_cases [OF assms] obtain ds dt irr bs src tgt bs' where "plan_contract schemas c = Inr (ds, dt, irr)"
    "decode_state_file bs = (status_ok, src)" "plan_state ds dt c src = Inr tgt"
    "encode_state_file (target_state_file c src tgt) = (status_ok, bs')" "length bs' \<le> kStateFileBytes"
    "files w' p = Some bs'" by blast
  with target_file_decodes [OF this(1-5)] show ?thesis by blast
next
  case False
  with migrate_cases [OF assms] show ?thesis by blast
qed

lemma reverse_touches:
  assumes "migration_reverse p c w = (res, w')" "q \<noteq> p" "q \<noteq> temp_sibling_path p ''tmp''"
  shows "files w' q = files w q"
  using assms atomic.untouched [OF assms(2,3)] files_file_exists files_read
  by (auto simp: migration_reverse_def Let_def split_def split: if_splits)

lemma handle_rollback_files:
  assumes "handle_rollback f m w = Some (r, w')"
  shows "wk_config w' = wk_config w \<and> cl_peer (wk_client w') = cl_peer (wk_client w)
    \<and> (same_worker w w' \<or> (\<exists>bs sf world. wc_state_path (wk_config w) \<noteq> [] \<and> files world = files (wk_world w)
        \<and> files (wk_world w) (wc_state_path (wk_config w)) = Some bs \<and> decode_state_file bs = (status_ok, sf)
        \<and> files (wk_world w') = files (snd (migration_reverse (wc_state_path (wk_config w))
            (rollback_contract (wk_config w) f m (fh_generation (sfl_header sf))) world))))"
proof -
  obtain st sf w1 where read: "read_state w = (st, sf, w1)" by (metis prod_cases3)
  then have w1: "same_worker w w1" using read_state_keeps [of w] by simp
  show ?thesis
  proof (cases "is_ok st")
    case False
    with assms read w1 show ?thesis by (auto simp: handle_rollback_def install_builtin Let_def same_worker_def)
  next
    case True
    obtain res world where run: "migration_reverse (wc_state_path (wk_config w1))
        (rollback_contract (wk_config w1) f m (fh_generation (sfl_header sf))) (wk_world w1) = (res, world)" by fastforce
    have "same_worker (w1\<lparr>wk_world := world\<rparr>) w'"
      using assms read True run
      by (auto simp: handle_rollback_def Let_def install_builtin bind_eq_Some_conv split: if_splits dest!: send_completion_keeps)
    moreover have path: "wc_state_path (wk_config w) \<noteq> []" using read True by (auto simp: read_state_def split: if_splits)
    moreover obtain bs where "files (wk_world w) (wc_state_path (wk_config w)) = Some bs" "decode_state_file bs = (status_ok, sf)"
      using read True path
      by (cases "read_state_file (wc_state_path (wk_config w)) (wk_world w)") (auto simp: read_state_def dest: read_state_ok)
    ultimately show ?thesis using w1 run by (auto simp: same_worker_def intro!: exI [of _ bs] exI [of _ sf] exI [of _ "wk_world w1"])
  qed
qed

text \<open>
  C39: A worker cannot roll its state back.  Whatever rollback the coordinator requests, the state file is at
  the same schema generation after the handler as before it: the handler passes the contract of the
  step back, but the migrator reverses the contract it is given, so it looks for a checkpoint at
  the generation the state already has.
\<close>

theorem rollback_keeps_generation:
  assumes "handle_rollback f m w = Some (r, w')" and "wc_state_path (wk_config w) = p"
    and "files (wk_world w) p = Some bs" and "decode_state_file bs = (status_ok, sf)"
  shows "\<exists>bs' sf'. files (wk_world w') p = Some bs' \<and> decode_state_file bs' = (status_ok, sf')
    \<and> fh_generation (sfl_header sf') = fh_generation (sfl_header sf)"
proof -
  from handle_rollback_files [OF assms(1)] consider "files (wk_world w') = files (wk_world w)"
    | world where "files world = files (wk_world w)" "files (wk_world w') = files (snd (migration_reverse p
        (rollback_contract (wk_config w) f m (fh_generation (sfl_header sf))) world))"
    using assms(2-4) by (auto simp: same_worker_def)
  then show ?thesis
  proof cases
    case 1
    then show ?thesis using assms(3,4) by auto
  next
    case 2
    obtain res world' where run: "migration_reverse p (rollback_contract (wk_config w) f m (fh_generation (sfl_header sf))) world
        = (res, world')" by fastforce
    with reverse_cases [OF run] 2 assms(3,4) show ?thesis
      by (cases "is_ok (mr_status res)") (auto simp: rollback_contract_def)
  qed
qed


text \<open>A frame that reaches a handler.\<close>

definition frame_current :: "RuntimeWorker \<Rightarrow> Frame \<Rightarrow> bool" where
  "frame_current w f \<longleftrightarrow> is_ok (validate_frame_envelope f kFrameBytes) \<and> wh_boot (fr_header f) = wc_boot (wk_config w)
     \<and> wh_protocol_generation (fr_header f) \<le> pi_agreed_protocol (cl_peer (wk_client w))
     \<and> is_ok (fst (wm_decode (fr_payload f)))"

lemma serve_frame_cases:
  assumes "serve_frame f w = Some (r, w')"
  defines "m \<equiv> snd (wm_decode (fr_payload f))"
  shows "same_worker w w' \<or> frame_current w f \<and>
    ((wh_type (fr_header f) = RequestMigration
       \<or> wh_type (fr_header f) = RequestStateTransform \<and> 2 \<le> pi_agreed_protocol (cl_peer (wk_client w)))
      \<and> handle_migration f m w = Some (r, w')
     \<or> wh_type (fr_header f) = RequestRollback \<and> handle_rollback f m w = Some (r, w'))"
proof (cases "frame_current w f")
  case True
  then have served: "(case wh_type (fr_header f) of
            RequestDrain \<Rightarrow> handle_drain m w
          | RequestMigration \<Rightarrow> handle_migration f m w
          | RequestRollback \<Rightarrow> handle_rollback f m w
          | RequestStateTransform \<Rightarrow> handle_state_transform f m w
          | MessageType.Error \<Rightarrow> Some (Served (failure ErrorCode.Retired ''coordinator closed the session''), w)
          | Goodbye \<Rightarrow> Some (Served (failure ErrorCode.Retired ''coordinator closed the session''), w)
          | _ \<Rightarrow> Some (Served (failure ErrorCode.Unsupported ''worker does not accept this message type''), rejected_frame w))
      = Some (r, w')"
    using assms(1) unfolding m_def by (auto simp: serve_frame_def frame_current_def Let_def split_def not_less [symmetric])
  with True show ?thesis
    by (cases "wh_type (fr_header f)") (auto simp: handle_state_transform_def split: if_splits dest: handle_drain_keeps)
next
  case False
  have "gen_is_set g" if "\<not> g \<le> k" for g k :: gen using that by (auto simp: gen_is_set_def)
  with False assms(1) show ?thesis
    by (auto simp: serve_frame_def frame_current_def Let_def split_def split: if_splits)
qed

lemma serve_frame_session:
  assumes "serve_frame f w = Some (r, w')"
  shows "wk_config w' = wk_config w \<and> cl_peer (wk_client w') = cl_peer (wk_client w)"
  using serve_frame_cases [OF assms] handle_migration_files [of f "snd (wm_decode (fr_payload f))" w r w']
    handle_rollback_files [of f "snd (wm_decode (fr_payload f))" w r w']
  by (auto simp: same_worker_def)

text \<open>What the handlers that write may change.\<close>

lemma migration_within:
  assumes "handle_migration f m w = Some (r, w')" "wc_state_path (wk_config w) = p" "files (wk_world w') \<noteq> files (wk_world w)"
  shows "permits_mutation (pi_operation (cl_peer (wk_client w)))
    \<and> (\<forall>q. q \<notin> touched p \<longrightarrow> files (wk_world w') q = files (wk_world w) q)
    \<and> (files (wk_world w') p = files (wk_world w) p \<or> (\<exists>bs sf. files (wk_world w') p = Some bs
         \<and> decode_state_file bs = (status_ok, sf) \<and> fh_generation (sfl_header sf) = msg_gen m ''target''))"
proof -
  obtain world where world: "permits_mutation (pi_operation (cl_peer (wk_client w)))" "files world = files (wk_world w)"
    "files (wk_world w') = files (snd (migrate (Some builtin_schemas) p (worker_contract (wk_config w) f m) world))"
    using handle_migration_files [OF assms(1)] assms(2,3) by (auto simp: same_worker_def)
  obtain res world' where run: "migrate (Some builtin_schemas) p (worker_contract (wk_config w) f m) world = (res, world')"
    by fastforce
  from migrate_cases [OF run] migrate_target [OF run] world run show ?thesis by (auto simp: worker_contract_def)
qed

lemma rollback_within:
  assumes "handle_rollback f m w = Some (r, w')" "wc_state_path (wk_config w) = p"
    "q \<noteq> p" "q \<noteq> temp_sibling_path p ''tmp''"
  shows "files (wk_world w') q = files (wk_world w) q"
proof -
  from handle_rollback_files [OF assms(1)] consider "files (wk_world w') = files (wk_world w)"
    | g world where "files world = files (wk_world w)"
      "files (wk_world w') = files (snd (migration_reverse p (rollback_contract (wk_config w) f m g) world))"
    using assms(2) by (auto simp: same_worker_def)
  then show ?thesis
  proof cases
    case 2
    then show ?thesis
      using reverse_touches [OF _ assms(3,4)] by (metis prod.collapse)
  qed simp
qed

definition within_authority :: "RuntimeWorker \<Rightarrow> RuntimeWorker \<Rightarrow> Frame \<Rightarrow> bool" where
  "within_authority w w' f \<longleftrightarrow>
     (let p = wc_state_path (wk_config w); peer = cl_peer (wk_client w); old = files (wk_world w); new = files (wk_world w') in
      (wh_type (fr_header f) = RequestMigration \<or> wh_type (fr_header f) = RequestStateTransform \<and> 2 \<le> pi_agreed_protocol peer)
        \<and> permits_mutation (pi_operation peer) \<and> (\<forall>q. q \<notin> touched p \<longrightarrow> new q = old q)
        \<and> (new p = old p \<or> (\<exists>bs sf. new p = Some bs \<and> decode_state_file bs = (status_ok, sf)
             \<and> fh_generation (sfl_header sf) = msg_gen (snd (wm_decode (fr_payload f))) ''target''))
      \<or> wh_type (fr_header f) = RequestRollback
        \<and> (\<forall>q. q \<noteq> p \<and> q \<noteq> temp_sibling_path p ''tmp'' \<longrightarrow> new q = old q))"

lemma serve_frame_guarded:
  assumes served: "serve_frame f w = Some (r, w')" and changed: "files (wk_world w') \<noteq> files (wk_world w)"
  shows "frame_current w f \<and> within_authority w w' f"
proof -
  let ?m = "snd (wm_decode (fr_payload f))"
  have "\<not> same_worker w w'" using changed by (simp add: same_worker_def)
  with serve_frame_cases [OF served] have current: "frame_current w f" and
    kinds: "(wh_type (fr_header f) = RequestMigration
         \<or> wh_type (fr_header f) = RequestStateTransform \<and> 2 \<le> pi_agreed_protocol (cl_peer (wk_client w)))
       \<and> handle_migration f ?m w = Some (r, w')
     \<or> wh_type (fr_header f) = RequestRollback \<and> handle_rollback f ?m w = Some (r, w')" by auto
  from kinds have "within_authority w w' f"
    using migration_within [of f ?m w r w', OF _ refl changed] rollback_within [of f ?m w r w', OF _ refl]
    unfolding within_authority_def Let_def by blast
  with current show ?thesis by blast
qed

text \<open>
  C12: A worker changes files only on behalf of its coordinator and within its authority.  If serving one
  frame changes any file, a whole frame was received that passes the envelope check, carries the boot of
  this process and no protocol generation above the negotiated one, and is either a migration or
  state transform request while the operation class agreed in the handshake permits mutation (for a transform
  also protocol 2), or a rollback request.  A migration leaves every file but the state file and its
  siblings alone and the state file unchanged or complete at the requested generation; a rollback touches only the
  state file and its temporary sibling.  Configuration and session stay the same, so no frame can widen the authority.
\<close>

theorem worker_state_guarded:
  assumes "serve_one w = Some (r, w')"
  shows "wk_config w' = wk_config w \<and> cl_peer (wk_client w') = cl_peer (wk_client w)
    \<and> (files (wk_world w') = files (wk_world w)
      \<or> (\<exists>st f t. recv_frame (cl_connection (wk_client w)) = Some (st, f, t) \<and> is_ok st
           \<and> frame_current w f \<and> within_authority w w' f))"
proof -
  obtain st f t where recv: "recv_frame (cl_connection (wk_client w)) = Some (st, f, t)"
    using assms by (auto simp: serve_one_def bind_eq_Some_conv)
  define v where "v = on_worker_stats (\<lambda>s. s\<lparr>ws_frames_received := ws_frames_received s + 1\<rparr>)
    (w\<lparr>wk_client := (wk_client w)\<lparr>cl_connection := t\<rparr>\<rparr>)"
  have v: "wk_config v = wk_config w" "cl_peer (wk_client v) = cl_peer (wk_client w)" "files (wk_world v) = files (wk_world w)"
    by (simp_all add: v_def on_worker_stats_def)
  show ?thesis
  proof (cases "is_ok st")
    case False
    with assms recv show ?thesis by (auto simp: serve_one_def Let_def)
  next
    case True
    with assms recv have served: "serve_frame f v = Some (r, w')" by (auto simp: serve_one_def v_def Let_def)
    have "frame_current v f \<longleftrightarrow> frame_current w f" "within_authority v w' f \<longleftrightarrow> within_authority w w' f"
      by (simp_all add: frame_current_def within_authority_def v Let_def)
    with serve_frame_guarded [OF served] serve_frame_session [OF served] recv True v show ?thesis by auto
  qed
qed

section \<open>The completion of a migration\<close>

text \<open>Fields that nothing wrote are absent.\<close>

definition lacks :: "WireMessage \<Rightarrow> ident \<Rightarrow> bool" where
  "lacks m n \<longleftrightarrow> wm_inv m \<and> wm_field m n = None"

lemma lacks_Nil: "lacks [] n"
  by (simp add: lacks_def wm_inv_def wm_field_def)

lemma assign_other:
  assumes "wm_inv m" "wf_name v \<noteq> n"
  shows "wm_field (snd (wm_assign m v)) n = wm_field m n"
  using wm.assign_spec [of m v] assms by (cases "is_ok (fst (wm_assign m v))") (auto simp: wm_inv_def fields_inv_def)

lemma assign_same:
  assumes "wm_inv m" "wf_name v \<noteq> []" "length m < kMessageFields"
  shows "wm_field (snd (wm_assign m v)) (wf_name v) = Some v"
  using wm.assign_spec [of m v] assms by (auto simp: wm_inv_def fields_inv_def)

lemma with_inv:
  assumes "wm_inv m" "plain_name nm"
  shows "wm_inv (with_u64 nm v m)" "wm_inv (with_text nm t m)" "wm_inv (with_bool nm b m)"
  using assms wm_setters_inv [OF assms(1), of nm]
  by (simp_all add: with_u64_def with_text_def with_bool_def plain_name_def ident63_valid)

lemma lacks_with:
  assumes "lacks m n" "plain_name nm" "nm \<noteq> n"
  shows "lacks (with_u64 nm v m) n" "lacks (with_text nm t m) n" "lacks (with_bool nm b m) n"
  using assms with_inv [of m nm] assign_other [of m] by (auto simp: lacks_def with_writes)

lemma migration_payload_lacks: "lacks (migration_payload s plan worker boot a) ''stage_generation''"
  unfolding migration_payload_def comp_def Let_def
  by (intro lacks_with lacks_Nil) simp_all

lemma keeps_with:
  assumes "wm_inv m" "plain_name nm" "nm \<noteq> n"
  shows "wm_field (with_u64 nm v m) n = wm_field m n" "wm_field (with_text nm t m) n = wm_field m n"
    "wm_field (with_bool nm b m) n = wm_field m n"
  using assms assign_other [of m] by (auto simp: with_writes)

lemma length_with: "length (with_text nm t m) \<le> Suc (length m)" "length (with_u64 nm v m) \<le> Suc (length m)"
  by (auto simp: with_writes wm_assign_def Let_def)

lemma completion_fields:
  fixes config plan stage_id g outcome digest
  assumes "plain_name stage_id" "text_ok kTextBytes stage_id"
  defines "m \<equiv> completion_message config plan stage_id g outcome digest False"
  shows "msg_ident m ''stage_id'' = stage_id" "msg_gen m ''stage_generation'' = g" "msg_bool m ''drain'' False = False"
proof -
  define m1 where "m1 = with_text ''plan'' plan []"
  define m2 where "m2 = with_text ''stage_id'' stage_id m1"
  define m3 where "m3 = with_u64 ''stage_generation'' g m2"
  have m: "m = with_u64 ''boot'' (wc_boot config) (with_text ''worker'' (wc_worker config)
      (with_text ''state_digest'' (digest_to_hex digest)
        (with_text ''migration_outcome'' (migration_outcome_to_string outcome) m3)))"
    by (simp add: m_def completion_message_def m1_def m2_def m3_def)
  have "wm_inv []" by (simp add: wm_inv_def)
  then have inv: "wm_inv m1" "wm_inv m2" "wm_inv m3" by (simp_all add: m1_def m2_def m3_def with_inv)
  have len: "length m1 < kMessageFields" "length m2 < kMessageFields"
    using length_with(1) [of "''plan''" plan "[]"] length_with(1) [of "''stage_id''" stage_id m1]
    by (simp_all add: m1_def m2_def kMessageFields_def)
  have id: "wm_field m2 ''stage_id'' = Some (text_field ''stage_id'' stage_id)"
    using assign_same [OF inv(1) _ len(1), of "text_field ''stage_id'' stage_id"] assms(2) by (simp add: m2_def with_writes)
  have generation: "wm_field m3 ''stage_generation'' = Some (num_field ''stage_generation'' g)"
    using assign_same [OF inv(2) _ len(2), of "num_field ''stage_generation'' g"] by (simp add: m3_def with_writes)
  have "wm_field m ''stage_id'' = Some (text_field ''stage_id'' stage_id)"
    "wm_field m ''stage_generation'' = Some (num_field ''stage_generation'' g)"
    using id generation by (simp_all add: m keeps_with with_inv inv m3_def)
  moreover have "lacks m ''drain''"
    unfolding m m3_def m2_def m1_def by (intro lacks_with lacks_Nil) simp_all
  ultimately show "msg_ident m ''stage_id'' = stage_id" "msg_gen m ''stage_generation'' = g" "msg_bool m ''drain'' False = False"
    using assms(1) by (simp_all add: msg_ident_def wm_ident_def wm_text_def msg_gen_def wm_generation_def wm_u64_def
        msg_bool_def wm_boolean_def lacks_def plain_name_simps ident63_ident_ok)
qed

text \<open>
  The coordinator refuses the completion of every migration it dispatches.  Its migration request carries no
  stage generation, the worker reports the completion with the stage generation it read (0), and the
  coordinator answers \<open>INVALID_ARGUMENT\<close> before it looks at the plan, whatever its state: the
  action stays outstanding until a reconciliation report resolves it.
\<close>

theorem migration_completion_refused:
  "fst (frame_command peer PublishCompletion (completion_message config (msg_ident (migration_payload s plan worker boot a) ''plan'')
      (ident63 ''migration'') (msg_gen (migration_payload s plan worker boot a) ''stage_generation'') outcome digest False) c)
   = (failure_result (failure InvalidArgument ''completion is incomplete''), c)"
proof -
  have "msg_gen (migration_payload s plan worker boot a) ''stage_generation'' = 0"
    using migration_payload_lacks [of s plan worker boot a] by (simp add: lacks_def msg_gen_def wm_generation_def wm_u64_def gen_unset_def)
  moreover have "text_ok kTextBytes ''migration''" by (simp add: text_ok_def kTextBytes_def is_valid_text_char_def)
  ultimately show ?thesis
    by (simp add: frame_command_def completion_fields command_publish_completion_def complete_stage_def reject_def gen_is_set_def)
qed

section \<open>Witnesses\<close>

lemma sample_migrated:
  obtains w bs f where "quiet w" "files w ''s'' = Some bs" "decode_state_file bs = (status_ok, f)" "fh_generation (sfl_header f) = 2"
proof -
  obtain f where f: "decode_state_file (snd (encode_state_file sample_v1_file)) = (status_ok, f)"
    "fh_schema (sfl_header f) = ''component-state''" "fh_generation (sfl_header f) = 1"
    "sfl_payload f = so_encode sample_v1" using sample_v1_decodes by blast
  obtain tgt where tgt: "plan_state builtin_v1 builtin_v2 sample_contract f = Inr tgt"
    using sample_plan_state [OF f(2-)] by blast
  have disk: "quiet sample_disk" "files sample_disk ''s'' = Some (snd (encode_state_file sample_v1_file))"
    by (simp_all add: sample_disk_def quiet_def)
  obtain bs' where enc: "encode_state_file (target_state_file sample_contract f tgt) = (status_ok, bs')" "length bs' \<le> kStateFileBytes"
    using target_encodes [OF sample_plan_contract f(1) tgt] by blast
  obtain res w where run: "migrate (Some builtin_schemas) ''s'' sample_contract sample_disk = (res, w)" by fastforce
  have "is_ok (mr_status res)" "quiet w"
    using migrate_quiet [OF disk(1) sample_plan_contract disk(2) f(1) tgt enc] run by simp_all
  with migrate_cases [OF run] obtain ds dt irr bs src tgt' bs'' where
    "plan_contract (Some builtin_schemas) sample_contract = Inr (ds, dt, irr)" "decode_state_file bs = (status_ok, src)"
    "plan_state ds dt sample_contract src = Inr tgt'"
    "encode_state_file (target_state_file sample_contract src tgt') = (status_ok, bs'')" "length bs'' \<le> kStateFileBytes"
    "files w ''s'' = Some bs''" by blast
  with target_file_decodes [OF this(1-5)] \<open>quiet w\<close> show thesis
    by (auto simp: sample_contract_def intro: that)
qed

definition sample_worker_config :: WorkerConfig where
  "sample_worker_config = \<lparr>wc_host = [], wc_port = 7000, wc_component = ''gateway'', wc_version = version_unset, wc_generation = 4,
     wc_worker = ''worker-1'', wc_boot = 8, wc_protocol = ''ref-wire'', wc_supported_protocols = [1, 2],
     wc_supported_schemas = [1, 2], wc_committed_schema = 1, wc_migrations = [], wc_features = [],
     wc_capability_generation = 1, wc_role = [], wc_state_path = ''s'', wc_crash_after_migration_commit = False,
     wc_reconcile_on_start = False\<rparr>"

lemma offline_request: "\<not> cl_connected (wk_client w) \<Longrightarrow> \<exists>r. send_completion p i g k d b w = Some r"
  by (simp add: send_completion_def worker_request_def client_request_def send_raw_def bump_sequence_def Let_def)

lemma offline_rollback: "\<not> cl_connected (wk_client w) \<Longrightarrow> \<exists>r w'. handle_rollback f m w = Some (r, w')"
proof -
  assume "\<not> cl_connected (wk_client w)"
  moreover obtain st sf w1 where read: "read_state w = (st, sf, w1)" by (metis prod_cases3)
  ultimately have "\<not> cl_connected (wk_client w1)" by (auto simp: read_state_def Let_def split_def split: if_splits)
  moreover obtain res world where run: "migration_reverse (wc_state_path (wk_config w1))
      (rollback_contract (wk_config w1) f m (fh_generation (sfl_header sf))) (wk_world w1) = (res, world)" by fastforce
  moreover define w2 where "w2 = (if is_ok (mr_status res)
      then on_worker_stats (\<lambda>st. st\<lparr>ws_rollbacks_applied := ws_rollbacks_applied st + 1\<rparr>) (w1\<lparr>wk_world := world\<rparr>)
      else w1\<lparr>wk_world := world\<rparr>)"
  ultimately have "\<not> cl_connected (wk_client w2)" by (simp add: w2_def on_worker_stats_def)
  then obtain st' w3 where "send_completion (msg_ident m ''plan'') (ident63 ''rollback'') 0 (mr_outcome res) (mr_target_digest res) False w2
      = Some (st', w3)" using offline_request by (metis prod.exhaust)
  then show ?thesis
    using read run by (simp add: handle_rollback_def install_builtin Let_def w2_def [symmetric])
qed

theorem rollback_keeps_generation_witness:
  "\<exists>w r w' bs sf. handle_rollback frame_default (with_u64 ''target_schema'' 1 []) w = Some (r, w')
    \<and> files (wk_world w') ''s'' = Some bs \<and> decode_state_file bs = (status_ok, sf) \<and> fh_generation (sfl_header sf) = 2"
proof -
  obtain world bs f where world: "quiet world" "files world ''s'' = Some bs" "decode_state_file bs = (status_ok, f)"
    "fh_generation (sfl_header f) = 2" by (rule sample_migrated)
  define w where "w = new_worker sample_worker_config world"
  have w: "wc_state_path (wk_config w) = ''s''" "wk_world w = world" "\<not> cl_connected (wk_client w)"
    by (simp_all add: w_def new_worker_def sample_worker_config_def new_client_def)
  obtain r w' where served: "handle_rollback frame_default (with_u64 ''target_schema'' 1 []) w = Some (r, w')"
    using offline_rollback [OF w(3)] by blast
  from rollback_keeps_generation [OF this w(1) _ world(3)] world(2,4) w(2) obtain bs' sf' where
    "files (wk_world w') ''s'' = Some bs'" "decode_state_file bs' = (status_ok, sf')" "fh_generation (sfl_header sf') = 2" by auto
  with served show ?thesis by blast
qed

definition parting_frame :: Frame where
  "parting_frame = frame_default\<lparr>fr_header := frame_header_default\<lparr>wh_type := Goodbye, wh_boot := 8\<rparr>\<rparr>"

lemma serve_goodbye: "wh_type (fr_header g) = Goodbye \<Longrightarrow> \<exists>r w'. serve_frame g w = Some (r, w')"
  by (cases "wm_decode (fr_payload g)") (simp add: serve_frame_def Let_def)

theorem worker_state_guarded_witness:
  defines "w \<equiv> (new_worker sample_worker_config sample_disk)\<lparr>wk_client := (new_client (make_client_config sample_worker_config))\<lparr>
     cl_connected := True, cl_connection := no_connection\<lparr>tc_valid := True, tc_recv_script := replicate 100 (Moved 0),
     tc_incoming := frame_bytes parting_frame\<rparr>\<rparr>\<rparr>"
  shows "\<exists>r w'. serve_one w = Some (r, w') \<and> wk_config w' = wk_config w \<and> files (wk_world w') = files sample_disk"
proof -
  let ?t = "cl_connection (wk_client w)"
  have sendable: "sendable parting_frame" "fr_payload parting_frame = []"
    by (simp_all add: parting_frame_def sendable_def frame_default_def frame_header_default_def kFrameBytes_def)
  have t: "tc_incoming ?t = frame_bytes parting_frame @ []" "tc_valid ?t" "unbroken (tc_recv_script ?t)"
    "length (frame_bytes parting_frame) \<le> moves (tc_recv_script ?t)"
    using length_frame_bytes [OF sendable(1)] sendable(2) by (simp_all add: w_def kFrameHeaderBytes_def)
  obtain g t' where recv: "recv_frame ?t = Some (status_ok, g, t')" using recv_frame_completes [OF sendable(1) t] by blast
  have "carries parting_frame g" using recv_frame_sound [OF sendable(1) _ recv, of "[]"] t(1) by simp
  from this [unfolded carries_def, THEN arg_cong [where f = "\<lambda>g. wh_type (fr_header g)"]]
  have goodbye: "wh_type (fr_header g) = Goodbye" by (simp add: parting_frame_def)
  obtain r w' where served: "serve_one w = Some (r, w')"
    using recv serve_goodbye [OF goodbye] by (fastforce simp: serve_one_def Let_def)
  from worker_state_guarded [OF this] recv goodbye have "wk_config w' = wk_config w" "files (wk_world w') = files (wk_world w)"
    by (auto simp: within_authority_def Let_def)
  with served show ?thesis by (auto simp: w_def new_worker_def)
qed

end
