(* ===== verification/Spec2Isabelle.thy ===== *)
theory Spec2Isabelle
  imports Ref_Region Ref_Service
begin

text \<open>
  Runtime Evolution Fabric: a verification development.

  The program upgrades running systems.  A coordinator keeps the durable evolution state (component versions and
  their lifecycles, a compatibility matrix, protocol and schema generations, feature gates, evolution plans with
  their rollout stages, migrations, fenced boots, retirements) and decides which runtime generation may do what.  Workers, one
  per process of a runtime generation, connect over TCP, negotiate protocol and schema, and migrate, drain
  or roll back their state files when the coordinator asks.  Operators send commands over the same protocol
  or call them in the coordinator's process.

  \<^bold>\<open>Layout.\<close>  Each theory models a part of \<open>src/include/ref\<close> and \<open>src/src\<close>, in the order in which the code
  depends on it; definitions keep the names of the source, fields of a record carry a prefix.

  \<^item> \<open>Ref_Prelude\<close>: ordered maps (\<open>std::map\<close>) behind a locale, bytes, the shared lemmas.
  \<^item> \<open>Ref_Ids\<close> (\<open>ids.hpp\<close>, \<open>ids.cpp\<close>): bounded texts and identifiers, generations with saturating steps,
    generation sets, version numbers, digests.
  \<^item> \<open>Ref_Support\<close> (\<open>support.hpp\<close>, \<open>support.cpp\<close>): statuses and error codes, checked arithmetic, decimal parsing, CRC-32.
  \<^item> \<open>Ref_Codec\<close>, \<open>Ref_Fields\<close>: the byte writer and reader, codecs as a locale with its combinators, the bounded
    queue, sorted vectors of named fields.
  \<^item> \<open>Ref_Files\<close>: bounded reads and atomic replacement in a world of failing and interrupted calls.
  \<^item> \<open>Ref_Component\<close>, \<open>Ref_Compat\<close>, \<open>Ref_Protocol\<close>, \<open>Ref_Schema\<close>, \<open>Ref_Plan\<close>, \<open>Ref_Authority\<close>: the registries and
    the pure decisions (\<open>component.cpp\<close>, \<open>compat.cpp\<close>, \<open>protocol.cpp\<close>, \<open>schema.cpp\<close>, \<open>plan.cpp\<close>, \<open>authority.cpp\<close>).
  \<^item> \<open>Ref_State\<close>, \<open>Ref_Migration\<close> (\<open>migration.cpp\<close>): state objects, state files, the migrator.
  \<^item> \<open>Ref_Wire\<close>, \<open>Ref_Messages\<close> (\<open>wire.cpp\<close>): frames, messages, the field contract of every message.
  \<^item> \<open>Ref_Parse\<close>, \<open>Ref_Records\<close>, \<open>Ref_Reload\<close>, \<open>Ref_Store\<close>, \<open>Ref_Load\<close> (\<open>store.cpp\<close>): the durable records, their
    readers and writers, validation, saving and loading.
  \<^item> \<open>Ref_Json\<close>: the streaming JSON writer of \<open>support.cpp\<close>.
  \<^item> \<open>Ref_Coordinator\<close>, \<open>Ref_Commands\<close>, \<open>Ref_Actions\<close>, \<open>Ref_Query\<close>, \<open>Ref_Net\<close> (\<open>coordinator*.cpp\<close>): the coordinator's
    state as a record, every command and query, the handling of frames, sessions, the event queue.
  \<^item> \<open>Ref_Fabric\<close>, \<open>Ref_Admission\<close>, \<open>Ref_Typing\<close>, \<open>Ref_Durability\<close>, \<open>Ref_Overlap\<close>, \<open>Ref_Region\<close>: the coordinator
    over time.
  \<^item> \<open>Ref_Transport\<close>, \<open>Ref_Client\<close>, \<open>Ref_Handshake\<close>, \<open>Ref_Worker\<close>, \<open>Ref_Service\<close> (the connections of \<open>wire.cpp\<close>,
    \<open>client.cpp\<close>, \<open>worker.cpp\<close>): the other end of a session.

  \<^bold>\<open>Data.\<close>  Structs are records, enumerations datatypes, generations and counters words of their width with the
  saturation of the source written out, texts strings whose bounds the typing predicates state.  Failures are values of \<open>Status\<close>.

  \<^bold>\<open>What the lemmas show.\<close>  For the values: round trips, canonical encodings, readers that fail closed, exact
  arithmetic and checksums.  For the registries: refinement of a flat table, consistency of the redundant index, soundness and
  completeness of negotiation, exactness of permissions and stage advances, no skipped stage, safe
  rollback, irrevocable retirement.  For migrations: atomicity under any script of failing calls, reconciliation
  after any interruption, progress when no call fails.  For the durable state: what is encoded is decoded again, and what is
  decoded is typed.  For the coordinator: \<open>fabric_step\<close> (a command, or a step of a thread) never forgets a retirement, a
  fence, a plan or a migration; exactly the admissible handshakes and frames have an effect; every state
  it reaches is typed and reloads.  For both ends together: frames arrive in order and unchanged or not at all, an accepted handshake leaves
  client and coordinator in agreement, and a worker changes files only within the authority it was given.

  \<^bold>\<open>Locks and concurrency.\<close>  A command encodes the state while it holds the state lock and writes the file after it
  has released it, with no lock on the write.  The definitions of the commands do both in one step.  \<open>Ref_Region\<close>
  shows that a command is its lock region followed by its write, and \<open>Ref_Overlap\<close> gives the steps at the finer
  grain: lock regions of commands and of the commands that frames ask for, what threads do in between, and writes of images in
  flight, in any order.  There an acknowledged state survives a crash when no older image is still in flight at its write, and is
  lost when an older image is written after it.  Two executions of \<open>write_file_atomic\<close> that run at the same time and share
  the temporary file are not modelled: a write is one step.  The event queue's critical sections are
  steps, and waiting on its condition variable is the enabledness of a step.

  \<^bold>\<open>Scripts, fuel and bounds.\<close>  A world carries a script of outcomes of the next system calls, a connection one of the answers
  to the next socket calls; the theorems quantify over all scripts.  A call that waits when its script is exhausted is \<open>None\<close>, and
  the theorems on completion say how long a script is enough.  The scan of \<open>write_compatibility\<close> may not end in the
  source, and is a partial function.  The worker's \<open>serve\<close> loop and \<open>reader_frames\<close> take the number of frames to handle.  All limits are those of
  \<open>support.hpp\<close>.

  \<^bold>\<open>Not modelled.\<close>  Listening sockets, the socket runtime, thread creation and joining (operating system calls whose results
  are the scripts and the order of steps); the command line programs under \<open>apps\<close>, the tests, benchmarks and
  examples (clients of the library); \<open>write_evidence_ref\<close> and \<open>read_evidence_ref\<close> (never called); the JSON of
  \<open>DrainStatus\<close> and \<open>ReconcileReport\<close> (printing only); hashing for unordered containers; directories and
  links in the file system (a file is a path and its bytes); sleeping between retries.
\<close>

end
